(* ===== verification/Decimals.thy ===== *)
theory Decimals
  imports Moneyp_Prelude Complex_Main
begin

text \<open>
  \<open>packages/lib-base/src/Decimal.ts\<close>, the class \<open>Decimal\<close>: fixed-point numbers with 18
  fractional digits. The private constructor throws on negative big integers, so every
  \<open>Decimal\<close> holds a natural number (in units of \<open>10 ^ -18\<close>, called wei below): the field
  \<open>_bigNumber\<close> is a \<open>nat\<close>, and the constructor's check is kept where an argument can be
  negative (\<open>new_Decimal\<close>, used by \<open>sub\<close>). Arithmetic of ethers' \<open>BigNumber\<close> is that of
  the mathematical integers; its only partial operation here, division, is guarded by the
  code's own zero tests.
\<close>

unbundle bit_operations_syntax

section \<open>The number type\<close>

datatype decimal = Decimal (bigNumber: nat)

definition decimal_lte :: "decimal \<Rightarrow> decimal \<Rightarrow> bool" where
  "decimal_lte a b \<longleftrightarrow> bigNumber a \<le> bigNumber b"

definition decimal_lt :: "decimal \<Rightarrow> decimal \<Rightarrow> bool" where
  "decimal_lt a b \<longleftrightarrow> bigNumber a < bigNumber b"

text \<open>These are the order of the type.\<close>

instantiation decimal :: linorder
begin

definition decimal_order_lte: "a \<le> b \<longleftrightarrow> decimal_lte a b"

definition decimal_order_lt: "a < b \<longleftrightarrow> decimal_lt a b"

instance
  by standard (auto simp: decimal_order_lte decimal_order_lt decimal_lte_def decimal_lt_def intro: decimal.expand)

end

lemma less_eq_decimal_def: "a \<le> b \<longleftrightarrow> bigNumber a \<le> bigNumber b" for a b :: decimal
  by (simp add: decimal_order_lte decimal_lte_def)

lemma less_decimal_def: "a < b \<longleftrightarrow> bigNumber a < bigNumber b" for a b :: decimal
  by (simp add: decimal_order_lt decimal_lt_def)

definition PRECISION :: nat where
  "PRECISION = 18"

definition getDigits :: "nat \<Rightarrow> nat" where
  "getDigits numDigits = 10 ^ numDigits"

definition DIGITS :: nat where
  "DIGITS = 1000000000000000000"

definition MAX_UINT_256 :: nat where
  "MAX_UINT_256 = 2 ^ 256 - 1"

definition new_Decimal :: "int \<Rightarrow> decimal result" where
  "new_Decimal n =
     (if n < 0 then Inl (Error ''negatives not supported by Decimal'')
      else Inr (Decimal (nat n)))"

definition INFINITY :: decimal where
  "INFINITY = Decimal MAX_UINT_256"

definition ZERO :: decimal where
  "ZERO = Decimal 0"

definition HALF :: decimal where
  "HALF = Decimal 500000000000000000"

definition ONE :: decimal where
  "ONE = Decimal 1000000000000000000"

definition isZero :: "decimal \<Rightarrow> bool" where
  "isZero d \<longleftrightarrow> bigNumber d = 0"

text \<open>
  The getters \<open>zero\<close>, \<open>nonZero\<close>, \<open>infinite\<close> and \<open>finite\<close> return \<open>this\<close> or \<open>undefined\<close>.
\<close>

definition zero :: "decimal \<Rightarrow> decimal option" where
  "zero d = (if isZero d then Some d else None)"

definition nonZero :: "decimal \<Rightarrow> decimal option" where
  "nonZero d = (if \<not> isZero d then Some d else None)"

definition infinite_d :: "decimal \<Rightarrow> decimal option" where
  "infinite_d d = (if d = INFINITY then Some d else None)"

definition finite_d :: "decimal \<Rightarrow> decimal option" where
  "finite_d d = (if d \<noteq> INFINITY then Some d else None)"

section \<open>Parsing\<close>

text \<open>
  The regular expression \<open>/^[0-9]*(\.[0-9]*)?(e[-+]?[0-9]+)?$/\<close>: the character classes of
  consecutive parts are disjoint, so matching each part greedily is exact.
\<close>

fun exponentFormat :: "string \<Rightarrow> bool" where
  "exponentFormat [] = True"
| "exponentFormat (c # r) =
     (c = CHR ''e'' \<and>
      (let ds = (case r of [] \<Rightarrow> [] | s # t \<Rightarrow> if s = CHR ''-'' \<or> s = CHR ''+'' then t else r)
       in ds \<noteq> [] \<and> list_all is_digit ds))"

fun mantissaFormat :: "string \<Rightarrow> bool" where
  "mantissaFormat [] = True"
| "mantissaFormat (c # r) =
     (if c = CHR ''.'' then exponentFormat (dropWhile is_digit r) else exponentFormat (c # r))"

definition stringRepresentationFormat :: "string \<Rightarrow> bool" where
  "stringRepresentationFormat s = mantissaFormat (dropWhile is_digit s)"

text \<open>The two parts of \<open>s.split(c)\<close> for a separator that occurs once.\<close>

definition before :: "char \<Rightarrow> string \<Rightarrow> string" where
  "before c s = takeWhile (\<lambda>x. x \<noteq> c) s"

definition after :: "char \<Rightarrow> string \<Rightarrow> string" where
  "after c s = drop 1 (dropWhile (\<lambda>x. x \<noteq> c) s)"

lemma length_before: "c \<in> set s \<Longrightarrow> length (before c s) < length s"
  unfolding before_def by (induction s) auto

definition badDecimalFormat :: "string \<Rightarrow> js_error" where
  "badDecimalFormat s = Error (''bad decimal format: '' @ [CHR 0x22] @ s @ [CHR 0x22])"

function fromString :: "string \<Rightarrow> decimal result" where
  "fromString s =
     (if s = [] \<or> \<not> stringRepresentationFormat s then Inl (badDecimalFormat s)
      else if CHR ''e'' \<in> set s then
        (let coefficient = before (CHR ''e'') s; exponent = after (CHR ''e'') s in
         if take 1 exponent = ''-'' then
           bindE (fromString coefficient) (\<lambda>c.
             Inr (Decimal (bigNumber c div 10 ^ digits_value (drop 1 exponent))))
         else
           bindE (fromString coefficient) (\<lambda>c.
             Inr (Decimal (bigNumber c *
               10 ^ digits_value (if take 1 exponent = ''+'' then drop 1 exponent else exponent)))))
      else if CHR ''.'' \<notin> set s then Inr (Decimal (digits_value s * DIGITS))
      else
        (let characteristic = before (CHR ''.'') s; mantissa = after (CHR ''.'') s;
             mantissa' = (if length mantissa < PRECISION
                          then mantissa @ zeros (PRECISION - length mantissa)
                          else take PRECISION mantissa)
         in Inr (Decimal (digits_value characteristic * DIGITS + digits_value mantissa'))))"
  by pat_completeness auto
termination
  by (relation "measure length") (auto simp: length_before)

declare fromString.simps [simp del]

text \<open>
  \<open>type Decimalish = Decimal | number | string\<close>. A JavaScript number reaches \<open>Decimal.from\<close>
  only as its own \<open>toString()\<close>, so it is represented by that string. \<open>DOther\<close> is any other
  value, which the \<open>switch\<close> of \<open>from\<close> rejects.
\<close>

datatype decimalish = DDecimal decimal | DString string | DNumber string | DOther

fun from_d :: "decimalish \<Rightarrow> decimal result" where
  "from_d (DDecimal d) = Inr d"
| "from_d (DString s) = fromString s"
| "from_d (DNumber s) = fromString s"
| "from_d DOther = Inl (Error ''invalid Decimalish value'')"

section \<open>Printing\<close>

text \<open>\<open>s.replace(/0*$/, "")\<close>: the leftmost match is the whole run of trailing zeros.\<close>

definition trimTrailingZeros :: "string \<Rightarrow> string" where
  "trimTrailingZeros s = rev (dropWhile (\<lambda>c. c = CHR ''0'') (rev s))"

definition toStringWithAutomaticPrecision :: "decimal \<Rightarrow> string" where
  "toStringWithAutomaticPrecision d =
     (let characteristic = bigNumber d div DIGITS; mantissa = bigNumber d mod DIGITS in
      if mantissa = 0 then nat_to_string characteristic
      else nat_to_string characteristic @ ''.'' @
           trimTrailingZeros (padStart PRECISION (nat_to_string mantissa)))"

definition roundUp :: "decimal \<Rightarrow> nat \<Rightarrow> nat" where
  "roundUp d precision = bigNumber d + getDigits (PRECISION - 1 - precision) * 5"

definition toStringWithPrecision :: "decimal \<Rightarrow> int \<Rightarrow> string result" where
  "toStringWithPrecision d precision =
     (if precision < 0 then Inl (Error ''precision must not be negative'')
      else
        (let value = (if precision < int PRECISION then roundUp d (nat precision)
                      else bigNumber d);
             characteristic = value div DIGITS; mantissa = value mod DIGITS in
         if precision = 0 then Inr (nat_to_string characteristic)
         else Inr (nat_to_string characteristic @ ''.'' @
                   take (nat precision) (padStart PRECISION (nat_to_string mantissa)))))"

definition toString :: "decimal \<Rightarrow> int option \<Rightarrow> string result" where
  "toString d precision =
     (if infinite_d d \<noteq> None then Inr infinity_sign
      else case precision of
        Some p \<Rightarrow> toStringWithPrecision d p
      | None \<Rightarrow> Inr (toStringWithAutomaticPrecision d))"

text \<open>
  \<open>characteristic.replace(/(\d)(?=(\d{3})+(?!\d))/g, "$1,")\<close>: a comma after every digit that
  is followed by a run of digits whose length is a positive multiple of three.
\<close>

fun groupThousands :: "string \<Rightarrow> string" where
  "groupThousands [] = []"
| "groupThousands (c # s) =
     (let k = length (takeWhile is_digit s) in
      if is_digit c \<and> 0 < k \<and> k mod 3 = 0 then c # CHR '','' # groupThousands s
      else c # groupThousands s)"

definition prettify :: "decimal \<Rightarrow> int \<Rightarrow> string result" where
  "prettify d precision =
     bindE (toString d (Some precision)) (\<lambda>s.
       let characteristic = before (CHR ''.'') s;
           prettyCharacteristic = groupThousands characteristic
       in Inr (if CHR ''.'' \<in> set s then prettyCharacteristic @ ''.'' @ after (CHR ''.'') s
               else prettyCharacteristic))"

definition magnitudes :: "string list" where
  "magnitudes = [[], ''K'', ''M'', ''B'', ''T'']"

section \<open>Arithmetic\<close>

text \<open>
  The operations on two \<open>Decimal\<close>s, and the methods, which first convert their \<open>Decimalish\<close>
  argument and may throw there.
\<close>

definition add_dec :: "decimal \<Rightarrow> decimal \<Rightarrow> decimal" where
  "add_dec a b = Decimal (bigNumber a + bigNumber b)"

definition sub_dec :: "decimal \<Rightarrow> decimal \<Rightarrow> decimal result" where
  "sub_dec a b = new_Decimal (int (bigNumber a) - int (bigNumber b))"

definition mul_dec :: "decimal \<Rightarrow> decimal \<Rightarrow> decimal" where
  "mul_dec a b = Decimal (bigNumber a * bigNumber b div DIGITS)"

definition div_dec :: "decimal \<Rightarrow> decimal \<Rightarrow> decimal" where
  "div_dec a b =
     (if isZero b then INFINITY else Decimal (bigNumber a * DIGITS div bigNumber b))"

definition divCeil_dec :: "decimal \<Rightarrow> decimal \<Rightarrow> decimal" where
  "divCeil_dec a b =
     (if isZero b then INFINITY
      else Decimal ((bigNumber a * DIGITS + (bigNumber b - 1)) div bigNumber b))"

definition mulDiv_dec :: "decimal \<Rightarrow> decimal \<Rightarrow> decimal \<Rightarrow> decimal" where
  "mulDiv_dec a m b =
     (if isZero b then INFINITY else Decimal (bigNumber a * bigNumber m div bigNumber b))"

definition add_d :: "decimal \<Rightarrow> decimalish \<Rightarrow> decimal result" where
  "add_d a x = bindE (from_d x) (\<lambda>b. Inr (add_dec a b))"

definition sub_d :: "decimal \<Rightarrow> decimalish \<Rightarrow> decimal result" where
  "sub_d a x = bindE (from_d x) (\<lambda>b. sub_dec a b)"

definition mul_d :: "decimal \<Rightarrow> decimalish \<Rightarrow> decimal result" where
  "mul_d a x = bindE (from_d x) (\<lambda>b. Inr (mul_dec a b))"

definition div_d :: "decimal \<Rightarrow> decimalish \<Rightarrow> decimal result" where
  "div_d a x = bindE (from_d x) (\<lambda>b. Inr (div_dec a b))"

definition divCeil_d :: "decimal \<Rightarrow> decimalish \<Rightarrow> decimal result" where
  "divCeil_d a x = bindE (from_d x) (\<lambda>b. Inr (divCeil_dec a b))"

definition mulDiv_d :: "decimal \<Rightarrow> decimalish \<Rightarrow> decimalish \<Rightarrow> decimal result" where
  "mulDiv_d a x y = bindE (from_d x) (\<lambda>m. bindE (from_d y) (\<lambda>b. Inr (mulDiv_dec a m b)))"

definition lt_d :: "decimal \<Rightarrow> decimalish \<Rightarrow> bool result" where
  "lt_d a x = bindE (from_d x) (\<lambda>b. Inr (a < b))"

definition eq_d :: "decimal \<Rightarrow> decimalish \<Rightarrow> bool result" where
  "eq_d a x = bindE (from_d x) (\<lambda>b. Inr (a = b))"

definition gt_d :: "decimal \<Rightarrow> decimalish \<Rightarrow> bool result" where
  "gt_d a x = bindE (from_d x) (\<lambda>b. Inr (a > b))"

definition gte_d :: "decimal \<Rightarrow> decimalish \<Rightarrow> bool result" where
  "gte_d a x = bindE (from_d x) (\<lambda>b. Inr (a \<ge> b))"

definition lte_d :: "decimal \<Rightarrow> decimalish \<Rightarrow> bool result" where
  "lte_d a x = bindE (from_d x) (\<lambda>b. Inr (a \<le> b))"

definition min_d :: "decimalish \<Rightarrow> decimalish \<Rightarrow> decimal result" where
  "min_d x y = bindE (from_d x) (\<lambda>a. bindE (from_d y) (\<lambda>b. Inr (if a < b then a else b)))"

definition max_d :: "decimalish \<Rightarrow> decimalish \<Rightarrow> decimal result" where
  "max_d x y = bindE (from_d x) (\<lambda>a. bindE (from_d y) (\<lambda>b. Inr (if a > b then a else b)))"

definition shorten :: "decimal \<Rightarrow> string result" where
  "shorten d =
     bindE (toString d (Some 0)) (\<lambda>s.
       let characteristicLength = int (length s);
           magnitude = min ((characteristicLength - 1) div 3) (int (length magnitudes) - 1);
           precision = max (3 * (magnitude + 1) - characteristicLength) 0;
           normalized = div_dec d (Decimal (getDigits (PRECISION + 3 * nat magnitude)))
       in bindE (prettify normalized precision) (\<lambda>p. Inr (p @ magnitudes ! nat magnitude)))"

subsection \<open>Powers\<close>

definition roundedMul :: "nat \<Rightarrow> nat \<Rightarrow> nat" where
  "roundedMul x y = (x * y + bigNumber HALF) div DIGITS"

text \<open>
  The loop of \<open>pow\<close>. Its counter is a JavaScript number that the asserts keep within 32 bits
  and that \<open>\<and>\<close> and \<open>>>>\<close> treat as an unsigned 32-bit integer, hence a word.
\<close>

function pow_loop :: "nat \<Rightarrow> nat \<Rightarrow> 32 word \<Rightarrow> nat" where
  "pow_loop x y e =
     (if e > 1 then pow_loop (roundedMul x x) (if e AND 1 \<noteq> 0 then roundedMul x y else y) (drop_bit 1 e)
      else roundedMul x y)"
  by pat_completeness auto
termination
proof (relation "measure (\<lambda>(x, y, e). unat e)")
  fix x y :: nat and e :: "32 word"
  assume "1 < e"
  then have "1 < unat e" by (simp add: word_less_nat_alt)
  moreover have "unat (drop_bit 1 e) = unat e div 2"
    by (simp add: drop_bit_eq_div unat_div)
  ultimately have "unat (drop_bit 1 e) < unat e" by simp
  then show "((roundedMul x x, if e AND 1 \<noteq> 0 then roundedMul x y else y, drop_bit 1 e), (x, y, e))
      \<in> measure (\<lambda>(x, y, e). unat e)"
    by simp
qed simp

declare pow_loop.simps [simp del]

definition pow_d :: "decimal \<Rightarrow> int \<Rightarrow> decimal result" where
  "pow_d d exponent =
     assertE (0 \<le> exponent \<and> exponent \<le> 0xffffffff)
       (if exponent = 0 then Inr ONE
        else if exponent = 1 then Inr d
        else Inr (Decimal (pow_loop (bigNumber d) DIGITS (word_of_int exponent))))"

section \<open>Basic facts\<close>

lemma DIGITS_pos [simp]: "0 < DIGITS"
  by (simp add: DIGITS_def)

lemma DIGITS_eq: "DIGITS = getDigits PRECISION"
  by (simp add: DIGITS_def getDigits_def PRECISION_def)

lemma bigNumber_simps [simp]:
  "bigNumber ZERO = 0" "bigNumber ONE = DIGITS" "bigNumber INFINITY = MAX_UINT_256"
  by (simp_all add: ZERO_def ONE_def INFINITY_def DIGITS_def)

lemma decimal_eq_iff: "a = b \<longleftrightarrow> bigNumber a = bigNumber b"
  by (cases a; cases b) simp

lemmas decimal_order = less_eq_decimal_def less_decimal_def

lemmas decimal_arith = add_dec_def sub_dec_def mul_dec_def div_dec_def divCeil_dec_def
  mulDiv_dec_def new_Decimal_def isZero_def

lemma isZero_iff: "isZero d \<longleftrightarrow> d = ZERO"
  by (simp add: isZero_def decimal_eq_iff)

lemma isZero_ZERO [simp]: "isZero ZERO"
  by (simp add: isZero_def)

lemma not_isZero_ONE [simp]: "\<not> isZero ONE"
  by (simp add: isZero_def)

lemma ZERO_le [simp]: "ZERO \<le> d"
  by (simp add: less_eq_decimal_def)

lemma zero_eq_Some_iff [simp]: "zero d = Some z \<longleftrightarrow> d = ZERO \<and> z = d"
  by (auto simp: zero_def isZero_iff)

lemma zero_eq_None_iff [simp]: "zero d = None \<longleftrightarrow> d \<noteq> ZERO"
  by (auto simp: zero_def isZero_iff)

lemma nonZero_eq_Some_iff [simp]: "nonZero d = Some z \<longleftrightarrow> d \<noteq> ZERO \<and> z = d"
  by (auto simp: nonZero_def isZero_iff)

lemma nonZero_eq_None_iff [simp]: "nonZero d = None \<longleftrightarrow> d = ZERO"
  by (auto simp: nonZero_def isZero_iff)

lemma infinite_d_eq_None_iff [simp]: "infinite_d d = None \<longleftrightarrow> d \<noteq> INFINITY"
  by (auto simp: infinite_d_def)

lemma method_DDecimal [simp]:
  "add_d a (DDecimal b) = Inr (add_dec a b)"
  "sub_d a (DDecimal b) = sub_dec a b"
  "mul_d a (DDecimal b) = Inr (mul_dec a b)"
  "div_d a (DDecimal b) = Inr (div_dec a b)"
  "divCeil_d a (DDecimal b) = Inr (divCeil_dec a b)"
  "mulDiv_d a (DDecimal m) (DDecimal b) = Inr (mulDiv_dec a m b)"
  "lt_d a (DDecimal b) = Inr (a < b)"
  "eq_d a (DDecimal b) = Inr (a = b)"
  "gt_d a (DDecimal b) = Inr (a > b)"
  "gte_d a (DDecimal b) = Inr (a \<ge> b)"
  "lte_d a (DDecimal b) = Inr (a \<le> b)"
  "min_d (DDecimal a) (DDecimal b) = Inr (if a < b then a else b)"
  "max_d (DDecimal a) (DDecimal b) = Inr (if a > b then a else b)"
  by (simp_all add: add_d_def sub_d_def mul_d_def div_d_def divCeil_d_def mulDiv_d_def lt_d_def
      eq_d_def gt_d_def gte_d_def lte_d_def min_d_def max_d_def)

lemma sub_dec_ok: "b \<le> a \<Longrightarrow> sub_dec a b = Inr (Decimal (bigNumber a - bigNumber b))"
  by (simp add: decimal_arith decimal_order nat_diff_distrib)

lemma sub_dec_fails:
  "a < b \<Longrightarrow> sub_dec a b = Inl (Error ''negatives not supported by Decimal'')"
  by (simp add: decimal_arith decimal_order)

lemma add_dec_ZERO [simp]: "add_dec a ZERO = a" "add_dec ZERO a = a"
  by (simp_all add: decimal_eq_iff add_dec_def)

lemma mul_dec_ONE [simp]: "mul_dec a ONE = a"
  by (simp add: decimal_eq_iff mul_dec_def)

lemma mul_dec_ZERO [simp]: "mul_dec ZERO a = ZERO" "mul_dec a ZERO = ZERO"
  by (simp_all add: decimal_eq_iff mul_dec_def)

lemma divCeil_dec_ONE [simp]: "divCeil_dec a ONE = a"
proof -
  have "(bigNumber a * DIGITS + (DIGITS - 1)) div DIGITS = bigNumber a"
    by (simp add: div_add1_eq)
  then show ?thesis by (simp add: decimal_eq_iff divCeil_dec_def)
qed

text \<open>
  Dividing by \<open>r\<close> rounding up and multiplying by \<open>r\<close> rounding down never loses, and gains
  less than one unit per whole unit of \<open>r\<close>.
\<close>

lemma mul_divCeil_bounds:
  assumes "r \<noteq> ZERO"
  shows "d \<le> mul_dec (divCeil_dec d r) r"
    and "bigNumber (mul_dec (divCeil_dec d r) r) \<le> bigNumber d + (bigNumber r - 1) div DIGITS"
proof -
  let ?R = "bigNumber r" and ?d = "bigNumber d"
  let ?x = "(?d * DIGITS + (?R - 1)) div ?R"
  from assms have R: "0 < ?R" by (simp add: decimal_eq_iff)
  have up: "?x * ?R \<le> ?d * DIGITS + (?R - 1)"
    using div_mult_bounds(1) [OF R] by blast
  have "?d * DIGITS + (?R - 1) < ?x * ?R + ?R"
    using div_mult_bounds(2) [OF R, of "?d * DIGITS + (?R - 1)"] by (simp add: algebra_simps)
  then have lo: "?d * DIGITS \<le> ?x * ?R" using R by linarith
  have eq: "bigNumber (mul_dec (divCeil_dec d r) r) = ?x * ?R div DIGITS"
    using assms by (simp add: mul_dec_def divCeil_dec_def isZero_iff)
  have "?d * DIGITS div DIGITS \<le> ?x * ?R div DIGITS" using lo by (rule div_le_mono)
  then show "d \<le> mul_dec (divCeil_dec d r) r"
    by (simp add: less_eq_decimal_def eq)
  have "?x * ?R div DIGITS \<le> (?d * DIGITS + (?R - 1)) div DIGITS" using up by (rule div_le_mono)
  also have "\<dots> = ?d + (?R - 1) div DIGITS" by (simp add: div_add1_eq)
  finally show "bigNumber (mul_dec (divCeil_dec d r) r) \<le> ?d + (?R - 1) div DIGITS"
    by (simp add: eq)
qed

lemma divCeil_pos: "d \<noteq> ZERO \<Longrightarrow> r \<noteq> ZERO \<Longrightarrow> divCeil_dec d r \<noteq> ZERO"
  using mul_divCeil_bounds(1) [of r d] by (metis ZERO_le antisym mul_dec_ZERO(1))

end
