(* ===== verification/Decimal_Text.thy ===== *)
theory Decimal_Text
  imports Decimals
begin

text \<open>
  Printing and parsing of \<open>Decimal\<close>: what \<open>_fromString\<close> computes on each form of its input,
  the round trip through \<open>toString()\<close>, the rounding error of \<open>toString(precision)\<close> and the
  digit grouping of \<open>prettify\<close>.
\<close>

section \<open>Parsing a number without exponent\<close>

lemma dropWhile_digits [simp]:
  "list_all is_digit ds \<Longrightarrow> dropWhile is_digit (ds @ t) = dropWhile is_digit t"
  by (induction ds) simp_all

lemma dropWhile_all_digits [simp]: "list_all is_digit ds \<Longrightarrow> dropWhile is_digit ds = []"
  by (induction ds) simp_all

lemma all_digits_notin: "list_all is_digit ds \<Longrightarrow> \<not> is_digit c \<Longrightarrow> c \<notin> set ds"
  by (auto simp: list_all_iff)

lemma all_digits_notin_simps [simp]:
  assumes "list_all is_digit ds"
  shows "CHR ''.'' \<notin> set ds" "CHR ''e'' \<notin> set ds" "CHR '','' \<notin> set ds"
    "CHR ''-'' \<notin> set ds" "CHR ''+'' \<notin> set ds"
  using all_digits_notin [OF assms] by simp_all

lemma before_append [simp]: "c \<notin> set xs \<Longrightarrow> before c (xs @ c # ys) = xs"
  unfolding before_def by (induction xs) auto

lemma after_append [simp]: "c \<notin> set xs \<Longrightarrow> after c (xs @ c # ys) = ys"
  unfolding after_def by (induction xs) auto

lemma before_notin [simp]: "c \<notin> set xs \<Longrightarrow> before c xs = xs"
  unfolding before_def by (induction xs) auto

lemma format_digits [simp]: "list_all is_digit ds \<Longrightarrow> stringRepresentationFormat ds"
  by (simp add: stringRepresentationFormat_def)

lemma format_point [simp]:
  "list_all is_digit ds \<Longrightarrow> list_all is_digit ms \<Longrightarrow>
    stringRepresentationFormat (ds @ CHR ''.'' # ms)"
  by (simp add: stringRepresentationFormat_def)

lemma fromString_digits:
  assumes "list_all is_digit ds" and "ds \<noteq> []"
  shows "fromString ds = Inr (Decimal (digits_value ds * DIGITS))"
  using assms by (subst fromString.simps) simp

text \<open>The first 18 fractional digits count, missing ones are zero.\<close>

definition fraction_value :: "string \<Rightarrow> nat" where
  "fraction_value ms = digits_value (take PRECISION (ms @ zeros PRECISION))"

lemma zeros_0 [simp]: "zeros 0 = []"
  by (simp add: zeros_def)

lemma take_zeros: "n \<le> m \<Longrightarrow> take n (zeros m) = zeros n"
  by (simp add: zeros_def min_def)

lemma fraction_value_short:
  "length ms \<le> PRECISION \<Longrightarrow> fraction_value ms = digits_value ms * 10 ^ (PRECISION - length ms)"
  by (simp add: fraction_value_def take_zeros digits_value_append)

lemma fromString_point:
  assumes "list_all is_digit ds" and "list_all is_digit ms"
  shows "fromString (ds @ CHR ''.'' # ms) =
    Inr (Decimal (digits_value ds * DIGITS + fraction_value ms))"
proof -
  have "(if length ms < PRECISION then ms @ zeros (PRECISION - length ms) else take PRECISION ms)
      = take PRECISION (ms @ zeros PRECISION)"
    by (simp add: take_zeros)
  with assms show ?thesis
    by (subst fromString.simps) (simp add: fraction_value_def Let_def)
qed

section \<open>Printing\<close>

lemma rev_takeWhile_zeros:
  "rev (takeWhile (\<lambda>c. c = CHR ''0'') xs) = zeros (length (takeWhile (\<lambda>c. c = CHR ''0'') xs))"
  by (induction xs) (simp_all add: zeros_def replicate_append_same)

lemma trimTrailingZeros_zeros: "\<exists>k. m = trimTrailingZeros m @ zeros k"
proof -
  have "m = rev (takeWhile (\<lambda>c. c = CHR ''0'') (rev m) @ dropWhile (\<lambda>c. c = CHR ''0'') (rev m))"
    by simp
  then have "m = trimTrailingZeros m @ rev (takeWhile (\<lambda>c. c = CHR ''0'') (rev m))"
    by (simp only: rev_append trimTrailingZeros_def)
  then show ?thesis by (metis rev_takeWhile_zeros)
qed

lemma fraction_value_trim:
  assumes "length m = PRECISION"
  shows "fraction_value (trimTrailingZeros m) = digits_value m"
proof -
  obtain k where m: "m = trimTrailingZeros m @ zeros k"
    using trimTrailingZeros_zeros by blast
  then have "length m = length (trimTrailingZeros m @ zeros k)"
    by (rule arg_cong)
  then have "length m = length (trimTrailingZeros m) + k" by simp
  then have k: "PRECISION - length (trimTrailingZeros m) = k"
    and le: "length (trimTrailingZeros m) \<le> PRECISION"
    using assms by simp_all
  have "fraction_value (trimTrailingZeros m) = digits_value (trimTrailingZeros m @ zeros k)"
    by (simp add: fraction_value_short [OF le] k digits_value_append)
  also have "\<dots> = digits_value m" using m [symmetric] by (rule arg_cong)
  finally show ?thesis .
qed

lemma all_digits_trim:
  assumes "list_all is_digit m"
  shows "list_all is_digit (trimTrailingZeros m)"
proof -
  have "set (trimTrailingZeros m) \<subseteq> set m"
    by (auto simp: trimTrailingZeros_def dest: set_dropWhileD)
  with assms show ?thesis by (auto simp: list_all_iff)
qed

lemma length_mantissa [simp]: "length (padStart PRECISION (nat_to_string (n mod DIGITS))) = PRECISION"
proof -
  have "n mod DIGITS < 10 ^ PRECISION"
    using mod_less_divisor [OF DIGITS_pos] by (simp add: DIGITS_eq getDigits_def)
  then have "length (nat_to_string (n mod DIGITS)) \<le> PRECISION"
    by (rule length_nat_to_string_le) (simp add: PRECISION_def)
  then show ?thesis by simp
qed

lemma fromString_automatic:
  "fromString (toStringWithAutomaticPrecision d) = Inr d"
proof (cases "bigNumber d mod DIGITS = 0")
  case True
  then have "bigNumber d div DIGITS * DIGITS = bigNumber d" by auto
  with True show ?thesis
    by (simp add: toStringWithAutomaticPrecision_def fromString_digits)
next
  case False
  let ?m = "padStart PRECISION (nat_to_string (bigNumber d mod DIGITS))"
  have "fraction_value (trimTrailingZeros ?m) = bigNumber d mod DIGITS"
    by (simp add: fraction_value_trim)
  then show ?thesis
    using False
    by (simp add: toStringWithAutomaticPrecision_def Let_def fromString_point all_digits_trim)
qed

text \<open>
  C31. Printing and parsing: every decimal other than infinity prints as a text, with all its
  significant digits, that parses as the same decimal; infinity prints as a sign that does not parse.
\<close>

theorem from_toString:
  "if d = INFINITY then toString d None = Inr infinity_sign \<and> from_d (DString infinity_sign) = Inl (badDecimalFormat infinity_sign)
   else \<exists>s. toString d None = Inr s \<and> from_d (DString s) = Inr d \<and> s \<noteq> []"
proof (cases "d = INFINITY")
  case True
  have "\<not> stringRepresentationFormat infinity_sign"
    by (simp add: stringRepresentationFormat_def infinity_sign_def is_digit_def)
  with True show ?thesis by (simp add: toString_def infinite_d_def fromString.simps)
next
  case False
  moreover have "toStringWithAutomaticPrecision d \<noteq> []"
    by (simp add: toStringWithAutomaticPrecision_def Let_def)
  ultimately show ?thesis by (simp add: toString_def fromString_automatic)
qed

text \<open>Cutting the printed fraction to \<open>p\<close> digits rounds down to a multiple of \<open>10 ^ (18 - p)\<close>.\<close>

lemma digits_value_take:
  assumes "list_all is_digit m"
  shows "digits_value (take p m) = digits_value m div 10 ^ (length m - p)"
proof -
  have "digits_value (drop p m) < 10 ^ (length m - p)"
    using digits_value_less [of "drop p m"] assms by (metis in_set_dropD length_drop list_all_iff)
  moreover have "digits_value m =
      digits_value (take p m) * 10 ^ (length m - p) + digits_value (drop p m)"
    using digits_value_append [of "take p m" "drop p m"] by simp
  ultimately show ?thesis by simp
qed

lemma all_digits_take: "list_all is_digit m \<Longrightarrow> list_all is_digit (take p m)"
  by (meson list_all_iff in_set_takeD)

lemma fraction_value_take:
  assumes "list_all is_digit m" and len: "length m = PRECISION"
  shows "fraction_value (take p m) =
    digits_value m div 10 ^ (PRECISION - p) * 10 ^ (PRECISION - p)"
proof -
  have le: "length (take p m) \<le> PRECISION" by (simp add: len)
  have "PRECISION - length (take p m) = PRECISION - p" by (simp add: len min_def)
  then show ?thesis
    using digits_value_take [OF assms(1), of p] by (simp only: fraction_value_short [OF le] len)
qed

lemma round_down_split:
  fixes v m D :: nat
  assumes "m dvd D"
  shows "v div D * D + v mod D div m * m = v div m * m"
proof -
  have "v div D * D + v mod D div m * m + v mod m = v"
    using assms by (metis add.assoc div_mult_mod_eq mod_mod_cancel)
  then show ?thesis by (metis add_right_cancel div_mult_mod_eq)
qed

definition roundedValue :: "decimal \<Rightarrow> nat \<Rightarrow> nat" where
  "roundedValue d p = (if p < PRECISION then roundUp d p else bigNumber d)"

lemma toStringWithPrecision_nat:
  "toStringWithPrecision d (int p) =
    Inr (nat_to_string (roundedValue d p div DIGITS) @
      (if p = 0 then [] else CHR ''.'' #
        take p (padStart PRECISION (nat_to_string (roundedValue d p mod DIGITS)))))"
  by (simp add: toStringWithPrecision_def roundedValue_def Let_def)

lemma fromString_precision:
  "\<exists>s. toStringWithPrecision d (int p) = Inr s \<and>
    fromString s =
      Inr (Decimal (roundedValue d p div 10 ^ (PRECISION - p) * 10 ^ (PRECISION - p)))"
proof (cases "p = 0")
  case True
  then show ?thesis
    using toStringWithPrecision_nat [of d 0] by (simp add: fromString_digits DIGITS_eq getDigits_def)
next
  case False
  let ?q = "10 ^ (PRECISION - p) :: nat" and ?v = "roundedValue d p"
  let ?m = "padStart PRECISION (nat_to_string (?v mod DIGITS))"
  have "?q dvd DIGITS" by (simp add: DIGITS_eq getDigits_def le_imp_power_dvd)
  then have "?v div DIGITS * DIGITS + ?v mod DIGITS div ?q * ?q = ?v div ?q * ?q"
    by (rule round_down_split)
  moreover have "fraction_value (take p ?m) = ?v mod DIGITS div ?q * ?q"
    by (simp add: fraction_value_take)
  ultimately show ?thesis
    using False
    by (simp add: toStringWithPrecision_nat fromString_point all_digits_take)
qed

text \<open>Adding half a unit before rounding down rounds to a nearest multiple.\<close>

lemma round_half_up:
  fixes d h :: nat
  assumes "0 < h"
  shows "2 * \<bar>int ((d + h) div (2 * h) * (2 * h)) - int d\<bar> \<le> int (2 * h)"
proof -
  define v where "v = (d + h) div (2 * h) * (2 * h)"
  have "v \<le> d + h" and "d + h < v + 2 * h"
    using div_mult_bounds [of "2 * h" "d + h"] assms by (simp_all add: v_def algebra_simps)
  then have "int v - int d \<le> int h" and "int d - int v \<le> int h" by linarith+
  then show ?thesis unfolding v_def [symmetric] by (auto simp: abs_if)
qed

lemma half_digit:
  assumes "p < PRECISION"
  shows "10 ^ (PRECISION - p) = 2 * (getDigits (PRECISION - 1 - p) * 5)"
proof -
  have "PRECISION - p = Suc (PRECISION - 1 - p)" using assms by simp
  then show ?thesis by (simp add: getDigits_def)
qed

lemma roundedValue_error:
  "2 * \<bar>int (roundedValue d p div 10 ^ (PRECISION - p) * 10 ^ (PRECISION - p)) - int (bigNumber d)\<bar>
    \<le> int (10 ^ (PRECISION - p))"
proof (cases "p < PRECISION")
  case True
  have "0 < getDigits (PRECISION - 1 - p) * 5" by (simp add: getDigits_def)
  from round_half_up [OF this, of "bigNumber d"] show ?thesis
    using True by (simp only: roundedValue_def roundUp_def half_digit if_True)
next
  case False
  then show ?thesis by (simp add: roundedValue_def)
qed

text \<open>
  \<open>toString(precision)\<close> rounds to a nearest multiple of one unit in the last printed place:
  the printed text parses back to such a multiple, at most half a unit away (and exactly the
  number itself from 18 digits on).
\<close>

lemma toString_precision_nearest:
  assumes "d \<noteq> INFINITY"
  shows "\<exists>s d'. toString d (Some (int p)) = Inr s \<and> from_d (DString s) = Inr d' \<and>
    10 ^ (PRECISION - p) dvd bigNumber d' \<and>
    2 * \<bar>int (bigNumber d') - int (bigNumber d)\<bar> \<le> int (10 ^ (PRECISION - p))"
proof -
  obtain s where s: "toStringWithPrecision d (int p) = Inr s"
    and d': "fromString s =
      Inr (Decimal (roundedValue d p div 10 ^ (PRECISION - p) * 10 ^ (PRECISION - p)))"
    using fromString_precision [of d p] by blast
  then show ?thesis
    using assms roundedValue_error [of d p] by (simp add: toString_def)
qed

theorem toString_precision_nearest_witness:
  "\<exists>s d'. toString (Decimal 1234500000000000000) (Some (int 2)) = Inr s \<and>
    from_d (DString s) = Inr d' \<and> 10 ^ (PRECISION - 2) dvd bigNumber d' \<and>
    2 * \<bar>int (bigNumber d') - int (bigNumber (Decimal 1234500000000000000))\<bar>
      \<le> int (10 ^ (PRECISION - 2))"
  by (rule toString_precision_nearest) (simp add: INFINITY_def MAX_UINT_256_def)

section \<open>Which strings are accepted\<close>

lemma dropWhile_all_split:
  obtains ds where "s = ds @ dropWhile is_digit s" and "list_all is_digit ds"
  by (metis list_all_iff set_takeWhileD takeWhile_dropWhile_id)

text \<open>A well-formed number without exponent is a run of digits, with or without a point.\<close>

lemma plain_format_cases:
  assumes "stringRepresentationFormat s" and "CHR ''e'' \<notin> set s"
  obtains (digits) "list_all is_digit s"
    | (point) ds ms where "s = ds @ CHR ''.'' # ms" "list_all is_digit ds" "list_all is_digit ms"
proof -
  obtain ds where ds: "s = ds @ dropWhile is_digit s" "list_all is_digit ds"
    by (rule dropWhile_all_split)
  show thesis
  proof (cases "dropWhile is_digit s")
    case Nil
    with ds that(1) show thesis by simp
  next
    case (Cons c r)
    with assms ds have "c \<noteq> CHR ''e''" by (metis in_set_conv_decomp)
    with Cons assms(1) have c: "c = CHR ''.''" and "exponentFormat (dropWhile is_digit r)"
      by (auto simp: stringRepresentationFormat_def split: if_splits)
    moreover have "CHR ''e'' \<notin> set (dropWhile is_digit r)"
      using assms(2) Cons ds by (metis UnCI set_ConsD set_append set_dropWhileD set_subset_Cons subsetD)
    ultimately have "dropWhile is_digit r = []"
      by (cases "dropWhile is_digit r") auto
    then have "list_all is_digit r" by (metis dropWhile_eq_Nil_conv list_all_iff)
    with ds Cons c that(2) show thesis by simp
  qed
qed

lemma fromString_plain:
  assumes "stringRepresentationFormat s" and "CHR ''e'' \<notin> set s" and "s \<noteq> []"
  shows "\<exists>d. fromString s = Inr d"
  using assms(1,2)
proof (cases rule: plain_format_cases)
  case digits
  with assms(3) show ?thesis by (simp add: fromString_digits)
next
  case (point ds ms)
  then show ?thesis by (simp add: fromString_point)
qed

lemma format_exponent:
  assumes "stringRepresentationFormat c" and "CHR ''e'' \<notin> set c" and "exponentFormat (CHR ''e'' # t)"
  shows "stringRepresentationFormat (c @ CHR ''e'' # t)"
  using assms(1,2)
proof (cases rule: plain_format_cases)
  case digits
  with assms(3) show ?thesis
    by (simp add: stringRepresentationFormat_def del: exponentFormat.simps)
next
  case (point ds ms)
  with assms(3) show ?thesis
    by (simp add: stringRepresentationFormat_def del: exponentFormat.simps)
qed

lemma exponentFormat_signs:
  assumes "list_all is_digit ds" and "ds \<noteq> []"
  shows "exponentFormat (CHR ''e'' # CHR ''-'' # ds)" "exponentFormat (CHR ''e'' # CHR ''+'' # ds)"
    "exponentFormat (CHR ''e'' # ds)" "take 1 ds \<noteq> ''-''" "take 1 ds \<noteq> ''+''"
  using assms by (cases ds; auto simp: Let_def)+

text \<open>
  Scientific notation: an exponent \<open>e-n\<close> divides the parsed coefficient by \<open>10 ^ n\<close>
  (rounding down), \<open>en\<close> and \<open>e+n\<close> multiply it.
\<close>

lemma fromString_scientific:
  assumes "CHR ''e'' \<notin> set c" and "fromString c = Inr d"
    and "list_all is_digit ds" and "ds \<noteq> []"
  shows "fromString (c @ ''e-'' @ ds) = Inr (Decimal (bigNumber d div 10 ^ digits_value ds)) \<and>
    fromString (c @ ''e+'' @ ds) = Inr (Decimal (bigNumber d * 10 ^ digits_value ds)) \<and>
    fromString (c @ ''e'' @ ds) = Inr (Decimal (bigNumber d * 10 ^ digits_value ds))"
proof -
  have c: "stringRepresentationFormat c"
    using assms(2) by (subst (asm) fromString.simps) (simp split: if_splits)
  note fmt = format_exponent [OF c assms(1)] exponentFormat_signs [OF assms(3,4)]
  show ?thesis
    using assms fmt
    by (simp add: fromString.simps [of "c @ CHR ''e'' # _"] Let_def del: exponentFormat.simps)
qed

theorem fromString_scientific_witness:
  "fromString (''15'' @ ''e-'' @ ''1'') = Inr (Decimal (15000000000000000000 div 10 ^ digits_value ''1''))"
proof -
  have "fromString ''15'' = Inr (Decimal 15000000000000000000)"
    by (simp add: fromString_digits is_digit_def digits_value_def digit_val_def DIGITS_def)
  from fromString_scientific [OF _ this, of "''1''"] show ?thesis
    by (simp add: is_digit_def)
qed

lemma coefficient_format:
  assumes "stringRepresentationFormat s" and "CHR ''e'' \<in> set s"
  obtains b t where "s = b @ CHR ''e'' # t" "CHR ''e'' \<notin> set b" "stringRepresentationFormat b"
proof -
  obtain ds where ds: "s = ds @ dropWhile is_digit s" "list_all is_digit ds"
    by (rule dropWhile_all_split)
  with assms(2) have "dropWhile is_digit s \<noteq> []" by (metis all_digits_notin_simps(2) append_Nil2)
  then obtain c r where x: "dropWhile is_digit s = c # r" by (cases "dropWhile is_digit s") auto
  show thesis
  proof (cases "c = CHR ''.''")
    case False
    with assms(1) x have "c = CHR ''e''" by (simp add: stringRepresentationFormat_def)
    with ds x that show thesis by (metis all_digits_notin_simps(2) format_digits)
  next
    case True
    obtain ms where ms: "r = ms @ dropWhile is_digit r" "list_all is_digit ms"
      by (rule dropWhile_all_split)
    let ?b = "ds @ CHR ''.'' # ms"
    have split: "s = ?b @ dropWhile is_digit r" using ds x True ms by (metis append_Cons append_assoc)
    have b: "CHR ''e'' \<notin> set ?b" "stringRepresentationFormat ?b" using ds ms by simp_all
    have "exponentFormat (dropWhile is_digit r)"
      using assms(1) x True by (simp add: stringRepresentationFormat_def)
    moreover have "dropWhile is_digit r \<noteq> []" using split b(1) assms(2) by (metis append_Nil2)
    ultimately obtain t where "dropWhile is_digit r = CHR ''e'' # t"
      by (cases "dropWhile is_digit r") auto
    with split b that show thesis by metis
  qed
qed

lemma fromString_Nil [simp]: "fromString [] = Inl (badDecimalFormat [])"
  by (subst fromString.simps) simp

lemma bindE_succeeds: "(\<exists>d. bindE r (\<lambda>x. Inr (f x)) = Inr d) \<longleftrightarrow> (\<exists>x. r = Inr x)"
  by (cases r) simp_all

text \<open>
  C36. \<open>Decimal.from\<close> accepts a string exactly when it matches the format and does not begin
  with the exponent (an empty string, or \<open>e5\<close>, throws although every part of the regular
  expression is optional).
\<close>

theorem fromString_accepts_iff:
  "(\<exists>d. from_d (DString s) = Inr d) \<longleftrightarrow>
    s \<noteq> [] \<and> hd s \<noteq> CHR ''e'' \<and> stringRepresentationFormat s"
proof (cases "s = [] \<or> \<not> stringRepresentationFormat s")
  case True
  then show ?thesis by (auto simp: fromString.simps [of s])
next
  case False
  show ?thesis
  proof (cases "CHR ''e'' \<in> set s")
    case no_e: False
    with False have "hd s \<noteq> CHR ''e''" by (metis hd_in_set)
    with False no_e show ?thesis by (simp add: fromString_plain)
  next
    case True
    from False have "stringRepresentationFormat s" by simp
    from this True obtain b t where s: "s = b @ CHR ''e'' # t"
      and b: "CHR ''e'' \<notin> set b" "stringRepresentationFormat b"
      by (rule coefficient_format)
    have "(\<exists>d. fromString s = Inr d) \<longleftrightarrow> (\<exists>d. fromString b = Inr d)"
      using False b unfolding s
      by (simp add: fromString.simps [of "b @ CHR ''e'' # t"] Let_def bindE_succeeds)
    also have "\<dots> \<longleftrightarrow> b \<noteq> []" using b fromString_plain by (cases "b = []") auto
    also have "\<dots> \<longleftrightarrow> hd s \<noteq> CHR ''e''" using s b by (cases b) auto
    finally show ?thesis using False by simp
  qed
qed

section \<open>Digit grouping\<close>

lemma takeWhile_digits [simp]:
  "list_all is_digit ds \<Longrightarrow> takeWhile is_digit ds = ds"
  by (induction ds) simp_all

lemma groupThousands_groups:
  assumes "list_all is_digit s" and "s \<noteq> []"
  shows "\<exists>g gs. groupThousands s = join '','' (g # gs) \<and> s = concat (g # gs) \<and>
    g \<noteq> [] \<and> length g \<le> 3 \<and> (\<forall>h \<in> set gs. length h = 3)"
  using assms
proof (induction s)
  case Nil
  then show ?case by simp
next
  case (Cons c s)
  show ?case
  proof (cases "s = []")
    case True
    then show ?thesis by (intro exI [of _ "[c]"] exI [of _ "[]"]) simp
  next
    case False
    with Cons obtain g gs where IH: "groupThousands s = join '','' (g # gs)" "s = concat (g # gs)"
      "g \<noteq> []" "length g \<le> 3" "\<forall>h \<in> set gs. length h = 3" by auto
    have "length (concat gs) = 3 * length gs"
      using IH(5) by (induction gs) simp_all
    then have "length s mod 3 = length g mod 3" using IH(2) by simp
    then have mod3: "length s mod 3 = 0 \<longleftrightarrow> length g = 3"
      using IH(3,4) by (cases "length g = 3") (auto simp: mod_less le_less)
    show ?thesis
    proof (cases "length g = 3")
      case True
      with mod3 have "groupThousands (c # s) = join '','' ([c] # g # gs)"
        using Cons.prems False IH(1) by simp
      with IH True show ?thesis by (intro exI [of _ "[c]"] exI [of _ "g # gs"]) simp
    next
      case len: False
      with mod3 have "groupThousands (c # s) = c # join '','' (g # gs)"
        using Cons.prems False IH(1) by simp
      also have "\<dots> = join '','' ((c # g) # gs)" by (cases gs) simp_all
      finally show ?thesis
        using IH len by (intro exI [of _ "c # g"] exI [of _ gs]) simp
    qed
  qed
qed

text \<open>
  \<open>prettify\<close> only inserts separators: the integer digits of \<open>toString(precision)\<close>, cut into
  a first group of one to three digits and then groups of three, joined by commas, with the
  fraction unchanged.
\<close>

lemma prettify_groups:
  assumes "d \<noteq> INFINITY"
  shows "\<exists>g gs rest. prettify d (int p) = Inr (join '','' (g # gs) @ rest) \<and>
    toString d (Some (int p)) = Inr (concat (g # gs) @ rest) \<and>
    list_all is_digit (concat (g # gs)) \<and> g \<noteq> [] \<and> length g \<le> 3 \<and>
    (\<forall>h \<in> set gs. length h = 3) \<and> (rest = [] \<or> hd rest = CHR ''.'')"
proof -
  let ?c = "nat_to_string (roundedValue d p div DIGITS)"
  obtain g gs where g: "groupThousands ?c = join '','' (g # gs)" "?c = concat (g # gs)"
    "g \<noteq> []" "length g \<le> 3" "\<forall>h \<in> set gs. length h = 3"
    using groupThousands_groups [of ?c] by auto
  have digits: "list_all is_digit (concat (g # gs))"
    using all_digits_nat_to_string g(2) by metis
  have split: "CHR ''.'' \<notin> set ?c" by simp
  show ?thesis
  proof (cases "p = 0")
    case True
    then have "toString d (Some (int p)) = Inr ?c"
      using assms toStringWithPrecision_nat [of d 0] by (simp add: toString_def)
    moreover from this have "prettify d (int p) = Inr (join '','' (g # gs))"
      using split g(1) by (simp add: prettify_def Let_def)
    ultimately show ?thesis using g digits by (metis append_Nil2)
  next
    case False
    define f where "f = take p (padStart PRECISION (nat_to_string (roundedValue d p mod DIGITS)))"
    from False have str: "toString d (Some (int p)) = Inr (?c @ CHR ''.'' # f)"
      using assms by (simp add: toString_def toStringWithPrecision_nat f_def)
    then have "prettify d (int p) = Inr (join '','' (g # gs) @ CHR ''.'' # f)"
      using g(1) by (simp add: prettify_def Let_def)
    with str g digits show ?thesis by (metis list.sel(1))
  qed
qed

theorem prettify_groups_witness:
  "\<exists>g gs rest. prettify (Decimal 1234567500000000000000000) (int 2) = Inr (join '','' (g # gs) @ rest) \<and>
    toString (Decimal 1234567500000000000000000) (Some (int 2)) = Inr (concat (g # gs) @ rest) \<and>
    list_all is_digit (concat (g # gs)) \<and> g \<noteq> [] \<and> length g \<le> 3 \<and>
    (\<forall>h \<in> set gs. length h = 3) \<and> (rest = [] \<or> hd rest = CHR ''.'')"
  by (rule prettify_groups) (simp add: INFINITY_def MAX_UINT_256_def)

end
