(* ===== verification/Decimal_Power.thy ===== *)
theory Decimal_Power
  imports Decimals
begin

text \<open>
  \<open>Decimal.pow\<close>: the square-and-multiply loop with rounded fixed-point products against the
  exact power. The bound rests on one lemma about a single rounded product
  (\<open>power_approx_mult\<close>) and an induction over the loop.
\<close>

text \<open>\<open>u\<close> is an approximation of the \<open>a\<close>-th power of the ratio \<open>x\<close>, in units of \<open>1 / DIGITS\<close>.\<close>

definition power_approx :: "real \<Rightarrow> nat \<Rightarrow> nat \<Rightarrow> bool" where
  "power_approx x a u \<longleftrightarrow> u \<le> DIGITS \<and>
     (if a = 0 then u = DIGITS
      else \<bar>real u - real DIGITS * x ^ a\<bar> \<le> (real a - 1) / 2)"

lemma HALF_eq: "2 * bigNumber HALF = DIGITS"
  by (simp add: HALF_def DIGITS_def)

lemma roundedMul_error:
  "\<bar>real (roundedMul u v) - real u * real v / real DIGITS\<bar> \<le> 1 / 2"
proof -
  let ?h = "bigNumber HALF" and ?q = "roundedMul u v"
  have "?q * DIGITS \<le> u * v + ?h" and "u * v + ?h \<le> (?q + 1) * DIGITS"
    using div_mult_bounds [OF DIGITS_pos, of "u * v + ?h"]
    by (simp_all add: roundedMul_def less_imp_le)
  then have "real (?q * DIGITS) \<le> real (u * v + ?h)" and "real (u * v + ?h) \<le> real ((?q + 1) * DIGITS)"
    by (simp_all only: of_nat_le_iff)
  then have "real ?q * real DIGITS \<le> real u * real v + real ?h"
    and "real u * real v + real ?h \<le> (real ?q + 1) * real DIGITS"
    by (simp_all only: of_nat_mult of_nat_add of_nat_1)
  moreover have "real ?h = real DIGITS / 2" using HALF_eq by simp
  ultimately have "real ?q \<le> real u * real v / real DIGITS + 1 / 2"
    and "real u * real v / real DIGITS \<le> real ?q + 1 / 2"
    using DIGITS_pos by (simp_all add: field_simps)
  then show ?thesis by linarith
qed

lemma roundedMul_le: "u \<le> DIGITS \<Longrightarrow> v \<le> DIGITS \<Longrightarrow> roundedMul u v \<le> DIGITS"
proof -
  assume "u \<le> DIGITS" and "v \<le> DIGITS"
  then have "u * v \<le> DIGITS * DIGITS" by (rule mult_le_mono)
  then have "roundedMul u v \<le> (DIGITS * DIGITS + bigNumber HALF) div DIGITS"
    unfolding roundedMul_def by (intro div_le_mono) simp
  also have "\<dots> = DIGITS" by (simp add: div_add1_eq HALF_def DIGITS_def)
  finally show ?thesis .
qed

lemma roundedMul_DIGITS: "roundedMul u DIGITS = u" "roundedMul DIGITS u = u"
  by (simp_all add: roundedMul_def div_add1_eq HALF_def DIGITS_def)

lemma power_approx_mult:
  assumes x: "0 \<le> x" "x \<le> 1" and u: "power_approx x a u" and v: "power_approx x b v"
  shows "power_approx x (a + b) (roundedMul u v)"
proof (cases "a = 0 \<or> b = 0")
  case True
  with u v show ?thesis
    by (auto simp: power_approx_def roundedMul_DIGITS)
next
  case False
  let ?D = "real DIGITS"
  have D: "0 < ?D" by simp
  from False u v have eu: "\<bar>real u - ?D * x ^ a\<bar> \<le> (real a - 1) / 2"
    and ev: "\<bar>real v - ?D * x ^ b\<bar> \<le> (real b - 1) / 2" and le: "u \<le> DIGITS" "v \<le> DIGITS"
    by (simp_all add: power_approx_def)
  have "real u * real v / ?D - ?D * x ^ (a + b) =
      real u / ?D * (real v - ?D * x ^ b) + x ^ b * (real u - ?D * x ^ a)"
    using D by (simp add: field_simps power_add)
  then have "\<bar>real u * real v / ?D - ?D * x ^ (a + b)\<bar> \<le>
      \<bar>real u / ?D\<bar> * \<bar>real v - ?D * x ^ b\<bar> + \<bar>x ^ b\<bar> * \<bar>real u - ?D * x ^ a\<bar>"
    by (metis abs_mult abs_triangle_ineq)
  also have "\<dots> \<le> 1 * ((real b - 1) / 2) + 1 * ((real a - 1) / 2)"
    using eu ev le x D by (intro add_mono mult_mono) (simp_all add: power_le_one)
  finally have "\<bar>real u * real v / ?D - ?D * x ^ (a + b)\<bar> \<le> (real a + real b - 2) / 2"
    by (simp add: field_simps)
  with roundedMul_error [of u v]
  have "\<bar>real (roundedMul u v) - ?D * x ^ (a + b)\<bar> \<le> 1 / 2 + (real a + real b - 2) / 2"
    by linarith
  then have "\<bar>real (roundedMul u v) - ?D * x ^ (a + b)\<bar> \<le> (real (a + b) - 1) / 2"
    by (simp add: field_simps)
  with False le show ?thesis by (simp add: power_approx_def roundedMul_le)
qed

lemma word_counter:
  fixes e :: "32 word"
  shows "unat (drop_bit 1 e) = unat e div 2" and "e AND 1 \<noteq> 0 \<longleftrightarrow> odd (unat e)"
    and "e > 1 \<longleftrightarrow> unat e > 1" and "e \<noteq> 0 \<longleftrightarrow> unat e \<noteq> 0"
proof -
  show "unat (drop_bit 1 e) = unat e div 2" by (simp add: drop_bit_eq_div unat_div)
  have "unat (e AND 1) = unat e mod 2" by (simp add: and_one_eq unat_mod)
  then show "e AND 1 \<noteq> 0 \<longleftrightarrow> odd (unat e)" by (metis odd_iff_mod_2_eq_one even_iff_mod_2_eq_zero unat_0_iff)
  show "e > 1 \<longleftrightarrow> unat e > 1" by (simp add: word_less_nat_alt)
  show "e \<noteq> 0 \<longleftrightarrow> unat e \<noteq> 0" by (simp add: unat_eq_zero)
qed

lemma pow_loop_approx:
  assumes "0 \<le> x" "x \<le> 1" "power_approx x a u" "power_approx x b y" "e \<noteq> 0"
  shows "power_approx x (a * unat e + b) (pow_loop u y e)"
  using assms(3-5)
proof (induction u y e arbitrary: a b rule: pow_loop.induct)
  case (1 u y e)
  note step = power_approx_mult [OF assms(1,2)]
  show ?case
  proof (cases "e > 1")
    case True
    have odd_case: "power_approx x (b + (if odd (unat e) then a else 0))
        (if e AND 1 \<noteq> 0 then roundedMul u y else y)"
      using step [OF "1.prems"(1,2)] "1.prems"(2) by (simp add: word_counter(2) add.commute)
    have "drop_bit 1 e \<noteq> 0"
      using True unfolding word_counter(1,3,4) by simp
    note IH = "1.IH" [OF True step [OF "1.prems"(1,1)] odd_case this]
    have "pow_loop u y e =
        pow_loop (roundedMul u u) (if e AND 1 \<noteq> 0 then roundedMul u y else y) (drop_bit 1 e)"
      using True by (subst pow_loop.simps) (simp only: if_True)
    with IH have "power_approx x ((a + a) * (unat e div 2) + (b + (if odd (unat e) then a else 0)))
        (pow_loop u y e)"
      by (simp only: word_counter(1))
    moreover have "(a + a) * (unat e div 2) + (b + (if odd (unat e) then a else 0)) = a * unat e + b"
      by (cases "odd (unat e)") (auto elim!: oddE evenE simp: algebra_simps)
    ultimately show ?thesis by simp
  next
    case False
    with "1.prems"(3) have "unat e = 1" unfolding word_counter(3,4) by simp
    with False step [OF "1.prems"(1,2)] show ?thesis by (simp add: pow_loop.simps [of u y e])
  qed
qed

lemma pow_approx:
  assumes "d \<le> ONE" and "0 \<le> n" and "n \<le> 0xffffffff"
  shows "\<exists>r. pow_d d n = Inr r \<and>
    power_approx (real (bigNumber d) / real DIGITS) (nat n) (bigNumber r)"
proof -
  let ?x = "real (bigNumber d) / real DIGITS"
  have d: "bigNumber d \<le> DIGITS" using assms(1) by (simp add: less_eq_decimal_def)
  then have x: "0 \<le> ?x" "?x \<le> 1" by simp_all
  have init: "power_approx ?x 1 (bigNumber d)" "power_approx ?x 0 DIGITS"
    using d by (simp_all add: power_approx_def)
  consider "n = 0" | "n = 1" | "1 < n" using assms(2) by linarith
  then show ?thesis
  proof cases
    case 3
    let ?e = "word_of_int n :: 32 word"
    have e: "unat ?e = nat n" using assms by (simp add: unat_eq_nat_uint uint_word_of_int)
    then have "?e \<noteq> 0" using 3 unfolding word_counter(4) by simp
    from pow_loop_approx [OF x init this] e 3 assms(3) show ?thesis by (simp add: pow_d_def)
  qed (use init in \<open>simp_all add: pow_d_def\<close>)
qed



end
