(* ===== verification/Differences.thy ===== *)
theory Differences
  imports Decimal_Text
begin

text \<open>
  The constants of \<open>packages/lib-base/src/constants.ts\<close> and the classes \<open>Difference\<close> and
  \<open>Percent\<close> of \<open>Decimal.ts\<close>.
\<close>

section \<open>Constants\<close>

definition CRITICAL_COLLATERAL_RATIO :: decimal where
  "CRITICAL_COLLATERAL_RATIO = Decimal 1500000000000000000"

definition MINIMUM_COLLATERAL_RATIO :: decimal where
  "MINIMUM_COLLATERAL_RATIO = Decimal 1100000000000000000"

definition BPD_LIQUIDATION_RESERVE :: decimal where
  "BPD_LIQUIDATION_RESERVE = Decimal 200000000000000000000"

definition BPD_MINIMUM_NET_DEBT :: decimal where
  "BPD_MINIMUM_NET_DEBT = Decimal 1800000000000000000000"

definition BPD_MINIMUM_DEBT :: decimal where
  "BPD_MINIMUM_DEBT = add_dec BPD_LIQUIDATION_RESERVE BPD_MINIMUM_NET_DEBT"

definition MINIMUM_BORROWING_RATE :: decimal where
  "MINIMUM_BORROWING_RATE = Decimal 5000000000000000"

definition MAXIMUM_BORROWING_RATE :: decimal where
  "MAXIMUM_BORROWING_RATE = Decimal 50000000000000000"

definition MINIMUM_REDEMPTION_RATE :: decimal where
  "MINIMUM_REDEMPTION_RATE = Decimal 5000000000000000"

lemmas constant_defs = CRITICAL_COLLATERAL_RATIO_def MINIMUM_COLLATERAL_RATIO_def
  BPD_LIQUIDATION_RESERVE_def BPD_MINIMUM_NET_DEBT_def BPD_MINIMUM_DEBT_def
  MINIMUM_BORROWING_RATE_def MAXIMUM_BORROWING_RATE_def MINIMUM_REDEMPTION_RATE_def

text \<open>The literals of the source, parsed by the model, are these values.\<close>

lemmas literal_eval = is_digit_def fraction_value_short digits_value_def digit_val_def
  PRECISION_def DIGITS_def

lemma constants_parsed:
  "from_d (DNumber ''1.5'') = Inr CRITICAL_COLLATERAL_RATIO"
  "from_d (DNumber ''1.1'') = Inr MINIMUM_COLLATERAL_RATIO"
  "from_d (DNumber ''200'') = Inr BPD_LIQUIDATION_RESERVE"
  "from_d (DNumber ''1800'') = Inr BPD_MINIMUM_NET_DEBT"
  "from_d (DNumber ''0.005'') = Inr MINIMUM_BORROWING_RATE"
  "from_d (DNumber ''0.05'') = Inr MAXIMUM_BORROWING_RATE"
  "from_d (DNumber ''0.005'') = Inr MINIMUM_REDEMPTION_RATE"
  using fromString_point [of "''1''" "''5''"] fromString_point [of "''1''" "''1''"]
    fromString_point [of "''0''" "''005''"] fromString_point [of "''0''" "''05''"]
  by (simp_all add: literal_eval constant_defs fromString_digits)

lemma small_literals [simp]:
  "from_d (DNumber ''0'') = Inr ZERO" "from_d (DNumber ''1'') = Inr ONE"
  "from_d (DNumber ''0.5'') = Inr HALF"
  using fromString_point [of "''0''" "''5''"]
  by (simp_all add: literal_eval ZERO_def ONE_def HALF_def fromString_digits)

section \<open>Difference\<close>

datatype diff_sign = NoSign | Plus | Minus

fun show_sign :: "diff_sign \<Rightarrow> string" where
  "show_sign NoSign = ''''"
| "show_sign Plus = ''+''"
| "show_sign Minus = ''-''"

record difference_representation =
  sign :: diff_sign
  absoluteValue :: decimal

datatype difference = Difference (number: "difference_representation option")

definition between_dec :: "decimal \<Rightarrow> decimal \<Rightarrow> difference result" where
  "between_dec d1 d2 =
     (if d1 = INFINITY \<and> d2 = INFINITY then Inr (Difference None)
      else if d1 = INFINITY then Inr (Difference (Some \<lparr>sign = Plus, absoluteValue = d1\<rparr>))
      else if d2 = INFINITY then Inr (Difference (Some \<lparr>sign = Minus, absoluteValue = d2\<rparr>))
      else if d1 > d2 then
        bindE (sub_dec d1 d2) (\<lambda>a. Inr (Difference (Some \<lparr>sign = Plus, absoluteValue = a\<rparr>)))
      else if d2 > d1 then
        bindE (sub_dec d2 d1) (\<lambda>a. Inr (Difference (Some \<lparr>sign = Minus, absoluteValue = a\<rparr>)))
      else Inr (Difference (Some \<lparr>sign = NoSign, absoluteValue = ZERO\<rparr>)))"

definition between :: "decimalish option \<Rightarrow> decimalish option \<Rightarrow> difference result" where
  "between x y =
     (case (x, y) of
        (Some x', Some y') \<Rightarrow> bindE (from_d x') (\<lambda>d1. bindE (from_d y') (\<lambda>d2. between_dec d1 d2))
      | _ \<Rightarrow> Inr (Difference None))"

definition diff_toString :: "difference \<Rightarrow> int option \<Rightarrow> string result" where
  "diff_toString d precision =
     (case number d of
        None \<Rightarrow> Inr ''N/A''
      | Some r \<Rightarrow> bindE (toString (absoluteValue r) precision) (\<lambda>s. Inr (show_sign (sign r) @ s)))"

definition diff_prettify :: "difference \<Rightarrow> int option \<Rightarrow> string result" where
  "diff_prettify d precision =
     (case number d of
        None \<Rightarrow> diff_toString d None
      | Some r \<Rightarrow>
          bindE (prettify (absoluteValue r) (case precision of None \<Rightarrow> 2 | Some p \<Rightarrow> p))
            (\<lambda>s. Inr (show_sign (sign r) @ s)))"

definition diff_mul :: "difference \<Rightarrow> decimalish \<Rightarrow> difference result" where
  "diff_mul d multiplier =
     (case number d of
        None \<Rightarrow> Inr (Difference None)
      | Some r \<Rightarrow>
          bindE (mul_d (absoluteValue r) multiplier)
            (\<lambda>a. Inr (Difference (Some \<lparr>sign = sign r, absoluteValue = a\<rparr>))))"

definition diff_absoluteValue :: "difference \<Rightarrow> decimal option" where
  "diff_absoluteValue d = map_option absoluteValue (number d)"

text \<open>The getters that return \<open>this\<close> or \<open>undefined\<close>, as tests.\<close>

definition diff_nonZero :: "difference \<Rightarrow> bool" where
  "diff_nonZero d = (case diff_absoluteValue d of None \<Rightarrow> False | Some a \<Rightarrow> \<not> isZero a)"

definition diff_positive :: "difference \<Rightarrow> bool" where
  "diff_positive d = (case number d of None \<Rightarrow> False | Some r \<Rightarrow> sign r = Plus)"

definition diff_negative :: "difference \<Rightarrow> bool" where
  "diff_negative d = (case number d of None \<Rightarrow> False | Some r \<Rightarrow> sign r = Minus)"

definition diff_infinite :: "difference \<Rightarrow> bool" where
  "diff_infinite d = (case diff_absoluteValue d of None \<Rightarrow> False | Some a \<Rightarrow> a = INFINITY)"

definition diff_finite :: "difference \<Rightarrow> bool" where
  "diff_finite d = (case diff_absoluteValue d of None \<Rightarrow> False | Some a \<Rightarrow> a \<noteq> INFINITY)"

fun sign_value :: "diff_sign \<Rightarrow> int" where
  "sign_value NoSign = 0"
| "sign_value Plus = 1"
| "sign_value Minus = - 1"

fun flip_sign :: "diff_sign \<Rightarrow> diff_sign" where
  "flip_sign NoSign = NoSign"
| "flip_sign Plus = Minus"
| "flip_sign Minus = Plus"

lemma between_cases:
  "d1 \<noteq> INFINITY \<Longrightarrow> d2 < d1 \<Longrightarrow> d2 \<noteq> INFINITY \<Longrightarrow>
    between_dec d1 d2 = Inr (Difference (Some
      \<lparr>sign = Plus, absoluteValue = Decimal (bigNumber d1 - bigNumber d2)\<rparr>))"
  "d1 \<noteq> INFINITY \<Longrightarrow> d1 < d2 \<Longrightarrow> d2 \<noteq> INFINITY \<Longrightarrow>
    between_dec d1 d2 = Inr (Difference (Some
      \<lparr>sign = Minus, absoluteValue = Decimal (bigNumber d2 - bigNumber d1)\<rparr>))"
  "d1 \<noteq> INFINITY \<Longrightarrow>
    between_dec d1 d1 = Inr (Difference (Some \<lparr>sign = NoSign, absoluteValue = ZERO\<rparr>))"
  by (simp_all add: between_dec_def sub_dec_ok less_imp_le)

text \<open>
  The difference of two finite numbers is exact and antisymmetric: sign and absolute value
  give back \<open>d1 - d2\<close>, and swapping the arguments flips the sign only.
\<close>

lemma between_exact_antisymmetric:
  assumes "d1 \<noteq> INFINITY" and "d2 \<noteq> INFINITY"
  shows "\<exists>r. between (Some (DDecimal d1)) (Some (DDecimal d2)) = Inr (Difference (Some r)) \<and>
    int (bigNumber d1) - int (bigNumber d2) =
      sign_value (sign r) * int (bigNumber (absoluteValue r)) \<and>
    between (Some (DDecimal d2)) (Some (DDecimal d1)) =
      Inr (Difference (Some (r\<lparr>sign := flip_sign (sign r)\<rparr>)))"
proof (cases d1 d2 rule: linorder_cases)
  case less
  with assms between_cases(2) [of d1 d2] between_cases(1) [of d2 d1] show ?thesis
    by (simp add: between_def less_decimal_def)
next
  case equal
  with assms between_cases(3) [of d1] show ?thesis by (simp add: between_def)
next
  case greater
  with assms between_cases(1) [of d1 d2] between_cases(2) [of d2 d1] show ?thesis
    by (simp add: between_def less_decimal_def)
qed

theorem between_exact_antisymmetric_witness:
  "\<exists>r. between (Some (DDecimal (Decimal 3))) (Some (DDecimal (Decimal 5))) =
      Inr (Difference (Some r)) \<and>
    int (bigNumber (Decimal 3)) - int (bigNumber (Decimal 5)) =
      sign_value (sign r) * int (bigNumber (absoluteValue r)) \<and>
    between (Some (DDecimal (Decimal 5))) (Some (DDecimal (Decimal 3))) =
      Inr (Difference (Some (r\<lparr>sign := flip_sign (sign r)\<rparr>)))"
  by (rule between_exact_antisymmetric) (simp_all add: INFINITY_def MAX_UINT_256_def)

section \<open>Percent\<close>

text \<open>\<open>Percent<T>\<close> is instantiated with \<open>Decimal\<close> and \<open>Difference\<close>; both have \<open>mul\<close>.\<close>

datatype ratio = RDecimal decimal | RDifference difference

fun ratio_infinite :: "ratio \<Rightarrow> bool" where
  "ratio_infinite (RDecimal d) = (d = INFINITY)"
| "ratio_infinite (RDifference d) = diff_infinite d"

fun ratio_absoluteValue :: "ratio \<Rightarrow> decimal option" where
  "ratio_absoluteValue (RDecimal d) = Some d"
| "ratio_absoluteValue (RDifference d) = diff_absoluteValue d"

fun ratio_mul :: "ratio \<Rightarrow> decimalish \<Rightarrow> ratio result" where
  "ratio_mul (RDecimal d) x = bindE (mul_d d x) (\<lambda>r. Inr (RDecimal r))"
| "ratio_mul (RDifference d) x = bindE (diff_mul d x) (\<lambda>r. Inr (RDifference r))"

fun ratio_toString :: "ratio \<Rightarrow> int option \<Rightarrow> string result" where
  "ratio_toString (RDecimal d) p = toString d p"
| "ratio_toString (RDifference d) p = diff_toString d p"

datatype percent = Percent (percent_ratio: ratio)

definition new_Percent :: "ratio \<Rightarrow> percent result" where
  "new_Percent r =
     (if ratio_infinite r then Inr (Percent r)
      else bindE (ratio_mul r (DNumber ''100'')) (\<lambda>r'. Inr (Percent r')))"

definition zeroish :: "nat \<Rightarrow> string" where
  "zeroish precision = ''0.'' @ zeros precision @ ''5''"

text \<open>\<open>this._percent.absoluteValue?.gte(x)\<close>, as a condition (\<open>undefined\<close> is false).\<close>

definition percent_gte :: "percent \<Rightarrow> string \<Rightarrow> bool result" where
  "percent_gte p x =
     (case ratio_absoluteValue (percent_ratio p) of
        None \<Rightarrow> Inr False
      | Some a \<Rightarrow> gte_d a (DString x))"

definition nonZeroish :: "percent \<Rightarrow> nat \<Rightarrow> percent option result" where
  "nonZeroish p precision =
     bindE (percent_gte p (zeroish precision)) (\<lambda>b. Inr (if b then Some p else None))"

definition percent_toString :: "percent \<Rightarrow> int \<Rightarrow> string result" where
  "percent_toString p precision =
     bindE (ratio_toString (percent_ratio p) (Some precision)) (\<lambda>s.
       Inr (s @ (if ratio_absoluteValue (percent_ratio p) \<noteq> None \<and>
                    \<not> ratio_infinite (percent_ratio p) then ''%'' else '''')))"

definition percent_prettify :: "percent \<Rightarrow> string result" where
  "percent_prettify p =
     bindE (percent_gte p ''1000'') (\<lambda>b1000.
       if b1000 then percent_toString p 0
       else bindE (percent_gte p ''10'') (\<lambda>b10.
         if b10 then percent_toString p 1 else percent_toString p 2))"

lemma fromString_zeroish:
  assumes "p < PRECISION"
  shows "fromString (zeroish p) = Inr (Decimal (getDigits (PRECISION - 1 - p) * 5))"
proof -
  have "digits_value ''5'' = 5" by (simp add: digits_value_def digit_val_def)
  then have "digits_value (zeros p @ ''5'') = 5" by (simp only: digits_value_zeros_append)
  moreover have "PRECISION - Suc p = PRECISION - 1 - p" by simp
  ultimately have "fraction_value (zeros p @ ''5'') = 5 * 10 ^ (PRECISION - 1 - p)"
    using assms by (subst fraction_value_short) simp_all
  then show ?thesis
    using fromString_point [of "''0''" "zeros p @ ''5''"]
    by (simp add: zeroish_def is_digit_def getDigits_def digits_value_def digit_val_def)
qed

text \<open>
  \<open>nonZeroish(p)\<close> of a finite number agrees with printing: for fewer than 18 digits it holds
  exactly when \<open>toString(p)\<close> prints something that parses to a non-zero number.
\<close>

lemma nonZeroish_iff_printed_nonzero:
  assumes "d \<noteq> INFINITY" and "p < PRECISION"
  shows "\<exists>s d'. toString d (Some (int p)) = Inr s \<and> from_d (DString s) = Inr d' \<and>
    nonZeroish (Percent (RDecimal d)) p =
      Inr (if d' \<noteq> ZERO then Some (Percent (RDecimal d)) else None)"
proof -
  let ?h = "getDigits (PRECISION - 1 - p) * 5" and ?v = "roundedValue d p"
  obtain s where s: "toStringWithPrecision d (int p) = Inr s"
    and d': "fromString s = Inr (Decimal (?v div 10 ^ (PRECISION - p) * 10 ^ (PRECISION - p)))"
    using fromString_precision [of d p] by blast
  have "?v div 10 ^ (PRECISION - p) * 10 ^ (PRECISION - p) = 0 \<longleftrightarrow> ?v < 10 ^ (PRECISION - p)"
    by (simp add: div_eq_0_iff)
  also have "\<dots> \<longleftrightarrow> bigNumber d + ?h < 2 * ?h"
    using assms(2) by (simp only: roundedValue_def roundUp_def half_digit if_True)
  also have "\<dots> \<longleftrightarrow> bigNumber d < ?h" by linarith
  finally have iff: "Decimal (?v div 10 ^ (PRECISION - p) * 10 ^ (PRECISION - p)) \<noteq> ZERO \<longleftrightarrow>
      ?h \<le> bigNumber d"
    by (simp only: decimal_eq_iff bigNumber_simps decimal.sel not_less [symmetric])
  have "nonZeroish (Percent (RDecimal d)) p =
      Inr (if ?h \<le> bigNumber d then Some (Percent (RDecimal d)) else None)"
    using assms(2)
    by (simp add: nonZeroish_def percent_gte_def gte_d_def fromString_zeroish less_eq_decimal_def)
  with assms(1) s d' iff show ?thesis by (simp add: toString_def)
qed

theorem nonZeroish_iff_printed_nonzero_witness:
  "\<exists>s d'. toString (Decimal 4000000000000000) (Some (int 2)) = Inr s \<and>
    from_d (DString s) = Inr d' \<and>
    nonZeroish (Percent (RDecimal (Decimal 4000000000000000))) 2 =
      Inr (if d' \<noteq> ZERO then Some (Percent (RDecimal (Decimal 4000000000000000))) else None)"
  by (rule nonZeroish_iff_printed_nonzero)
    (simp_all add: INFINITY_def MAX_UINT_256_def PRECISION_def)

end
