(* ===== verification/Vaults.thy ===== *)
theory Vaults
  imports Differences
begin

text \<open>
  \<open>packages/lib-base/src/Vault.ts\<close>: normalisation of transaction parameters, the class
  \<open>Vault\<close> with its derived classes \<open>UserVault\<close> and \<open>VaultWithPendingRedistribution\<close> (record
  extensions), and the diff \<open>whatChanged\<close> / \<open>apply\<close>.
\<close>

section \<open>Data\<close>

record vault =
  collateral :: decimal
  debt :: decimal

definition Vault :: "decimal \<Rightarrow> decimal \<Rightarrow> vault" where
  "Vault c d = \<lparr>collateral = c, debt = d\<rparr>"

definition emptyVault :: vault where
  "emptyVault = Vault ZERO ZERO"

text \<open>\<open>VaultCreationParams<Decimal>\<close>, \<open>VaultClosureParams<Decimal>\<close>, \<open>VaultAdjustmentParams<Decimal>\<close>.\<close>

record vault_creation_params =
  cp_depositCollateral :: decimal
  cp_borrowBPD :: decimal

record vault_closure_params =
  clp_withdrawCollateral :: decimal
  clp_repayBPD :: "decimal option"

record vault_adjustment_params =
  depositCollateral :: "decimal option"
  withdrawCollateral :: "decimal option"
  borrowBPD :: "decimal option"
  repayBPD :: "decimal option"

datatype vault_creation_error = MissingLiquidationReserve

datatype set_to_zero = SetCollateral | SetDebt

datatype vault_change =
    InvalidCreation vault vault_creation_error
  | Creation vault_creation_params
  | Closure vault_closure_params
  | Adjustment vault_adjustment_params "set_to_zero option"

section \<open>Normalising parameters\<close>

text \<open>
  A JavaScript object given as parameters: its entries in insertion order, with \<open>None\<close> for
  a property whose value is \<open>undefined\<close>. \<open>Object.fromEntries\<close> keeps the last value of a key.
\<close>

type_synonym raw_params = "(string \<times> decimalish option) list"

definition definedEntries :: "raw_params \<Rightarrow> (string \<times> decimalish) list" where
  "definedEntries params = map (\<lambda>(k, v). (k, the v)) (filter (\<lambda>(k, v). v \<noteq> None) params)"

definition fromEntries :: "(string \<times> 'a) list \<Rightarrow> (string \<rightharpoonup> 'a)" where
  "fromEntries es = map_of (rev es)"

definition quoteKey :: "string \<Rightarrow> string" where
  "quoteKey k = [CHR 0x27] @ k @ [CHR 0x27]"

definition allowedVaultCreationKeys :: "string list" where
  "allowedVaultCreationKeys = [''depositCollateral'', ''borrowBPD'']"

definition checkAllowedVaultCreationKeys :: "(string \<times> 'a) list \<Rightarrow> unit result" where
  "checkAllowedVaultCreationKeys entries =
     (let badKeys = map (\<lambda>(k, v). quoteKey k)
                      (filter (\<lambda>(k, v). k \<notin> set allowedVaultCreationKeys) entries)
      in if badKeys \<noteq> [] then
           Inl (Error (''VaultCreationParams: property '' @ join '', '' badKeys @ '' not allowed''))
         else Inr ())"

definition vaultCreationParamsFromEntries ::
  "(string \<times> decimal) list \<Rightarrow> vault_creation_params result" where
  "vaultCreationParamsFromEntries entries =
     (let params = fromEntries entries;
          missingKeys = map quoteKey (filter (\<lambda>k. params k = None) allowedVaultCreationKeys)
      in if missingKeys \<noteq> [] then
           Inl (Error (''VaultCreationParams: property '' @ join '', '' missingKeys @ '' missing''))
         else Inr \<lparr>cp_depositCollateral = the (params ''depositCollateral''),
                   cp_borrowBPD = the (params ''borrowBPD'')\<rparr>)"

fun decimalize :: "string \<times> decimalish \<Rightarrow> (string \<times> decimal) result" where
  "decimalize (k, v) = bindE (from_d v) (\<lambda>d. Inr (k, d))"

definition normalizeVaultCreation :: "raw_params \<Rightarrow> vault_creation_params result" where
  "normalizeVaultCreation params =
     (let es = definedEntries params in
      bindE (checkAllowedVaultCreationKeys es) (\<lambda>_.
      bindE (mapE decimalize es) (\<lambda>nonZeroEntries.
        vaultCreationParamsFromEntries nonZeroEntries)))"

definition allowedVaultAdjustmentKeys :: "string list" where
  "allowedVaultAdjustmentKeys =
     [''depositCollateral'', ''withdrawCollateral'', ''borrowBPD'', ''repayBPD'']"

definition checkAllowedVaultAdjustmentKeys :: "(string \<times> 'a) list \<Rightarrow> unit result" where
  "checkAllowedVaultAdjustmentKeys entries =
     (let badKeys = map (\<lambda>(k, v). quoteKey k)
                      (filter (\<lambda>(k, v). k \<notin> set allowedVaultAdjustmentKeys) entries)
      in if badKeys \<noteq> [] then
           Inl (Error (''VaultAdjustmentParams: property '' @ join '', '' badKeys @ '' not allowed''))
         else Inr ())"

definition noAdjustment :: vault_adjustment_params where
  "noAdjustment =
     \<lparr>depositCollateral = None, withdrawCollateral = None, borrowBPD = None, repayBPD = None\<rparr>"

definition presentAtOnce :: "string \<Rightarrow> string \<Rightarrow> js_error" where
  "presentAtOnce a b = Error (''VaultAdjustmentParams: '' @ quoteKey a @ '' and '' @ quoteKey b @
     '' can'' @ [CHR 0x27] @ ''t be present at the same time'')"

text \<open>
  The two helpers return an object with the one property that is set, or \<open>undefined\<close>; the
  object is given here as an update of the (empty) adjustment, so that the spread
  \<open>{ ...collateralChange, ...debtChange }\<close> is the composition of the updates.
\<close>

definition collateralChangeFrom ::
  "(string \<rightharpoonup> decimal) \<Rightarrow>
    (vault_adjustment_params \<Rightarrow> vault_adjustment_params) option result" where
  "collateralChangeFrom params =
     (let dep = params ''depositCollateral''; wd = params ''withdrawCollateral'' in
      if dep \<noteq> None \<and> wd \<noteq> None then
        Inl (presentAtOnce ''depositCollateral'' ''withdrawCollateral'')
      else if dep \<noteq> None then Inr (Some (depositCollateral_update (\<lambda>_. dep)))
      else if wd \<noteq> None then Inr (Some (withdrawCollateral_update (\<lambda>_. wd)))
      else Inr None)"

definition debtChangeFrom ::
  "(string \<rightharpoonup> decimal) \<Rightarrow>
    (vault_adjustment_params \<Rightarrow> vault_adjustment_params) option result" where
  "debtChangeFrom params =
     (let bor = params ''borrowBPD''; rep = params ''repayBPD'' in
      if bor \<noteq> None \<and> rep \<noteq> None then Inl (presentAtOnce ''borrowBPD'' ''repayBPD'')
      else if bor \<noteq> None then Inr (Some (borrowBPD_update (\<lambda>_. bor)))
      else if rep \<noteq> None then Inr (Some (repayBPD_update (\<lambda>_. rep)))
      else Inr None)"

definition vaultAdjustmentParamsFromEntries ::
  "(string \<times> decimal) list \<Rightarrow> vault_adjustment_params result" where
  "vaultAdjustmentParamsFromEntries entries =
     (let params = fromEntries entries in
      bindE (collateralChangeFrom params) (\<lambda>collateralChange.
      bindE (debtChangeFrom params) (\<lambda>debtChange.
        case (collateralChange, debtChange) of
          (Some c, Some d) \<Rightarrow> Inr (d (c noAdjustment))
        | (Some c, None) \<Rightarrow> Inr (c noAdjustment)
        | (None, Some d) \<Rightarrow> Inr (d noAdjustment)
        | (None, None) \<Rightarrow>
            Inl (Error ''VaultAdjustmentParams: must include at least one non-zero parameter''))))"

definition normalizeVaultAdjustment :: "raw_params \<Rightarrow> vault_adjustment_params result" where
  "normalizeVaultAdjustment params =
     (let es = definedEntries params in
      bindE (checkAllowedVaultAdjustmentKeys es) (\<lambda>_.
      bindE (mapE decimalize es) (\<lambda>decimals.
        vaultAdjustmentParamsFromEntries (filter (\<lambda>(k, v). \<not> isZero v) decimals))))"

section \<open>The class Vault\<close>

definition applyFee :: "decimalish \<Rightarrow> decimal \<Rightarrow> decimal result" where
  "applyFee borrowingRate debtIncrease =
     bindE (add_d ONE borrowingRate) (\<lambda>r. Inr (mul_dec debtIncrease r))"

definition unapplyFee :: "decimalish \<Rightarrow> decimal \<Rightarrow> decimal result" where
  "unapplyFee borrowingRate debtIncrease =
     bindE (add_d ONE borrowingRate) (\<lambda>r. Inr (divCeil_dec debtIncrease r))"

definition NOMINAL_COLLATERAL_RATIO_PRECISION :: decimal where
  "NOMINAL_COLLATERAL_RATIO_PRECISION = Decimal 100000000000000000000"

definition isEmpty :: "'a vault_scheme \<Rightarrow> bool" where
  "isEmpty v \<longleftrightarrow> isZero (collateral v) \<and> isZero (debt v)"

definition netDebt :: "'a vault_scheme \<Rightarrow> decimal result" where
  "netDebt v =
     (if debt v < BPD_LIQUIDATION_RESERVE then
        bindE (toString BPD_LIQUIDATION_RESERVE None) (\<lambda>s.
          Inl (Error (''netDebt should not be used when debt < '' @ s)))
      else sub_dec (debt v) BPD_LIQUIDATION_RESERVE)"

definition nominalCollateralRatio :: "'a vault_scheme \<Rightarrow> decimal" where
  "nominalCollateralRatio v =
     mulDiv_dec (collateral v) NOMINAL_COLLATERAL_RATIO_PRECISION (debt v)"

definition collateralRatio :: "'a vault_scheme \<Rightarrow> decimalish \<Rightarrow> decimal result" where
  "collateralRatio v price = mulDiv_d (collateral v) price (DDecimal (debt v))"

definition collateralRatioIsBelowMinimum :: "'a vault_scheme \<Rightarrow> decimalish \<Rightarrow> bool result" where
  "collateralRatioIsBelowMinimum v price =
     bindE (collateralRatio v price) (\<lambda>r. Inr (r < MINIMUM_COLLATERAL_RATIO))"

definition collateralRatioIsBelowCritical :: "'a vault_scheme \<Rightarrow> decimalish \<Rightarrow> bool result" where
  "collateralRatioIsBelowCritical v price =
     bindE (collateralRatio v price) (\<lambda>r. Inr (r < CRITICAL_COLLATERAL_RATIO))"

definition isOpenableInRecoveryMode :: "'a vault_scheme \<Rightarrow> decimalish \<Rightarrow> bool result" where
  "isOpenableInRecoveryMode v price =
     bindE (collateralRatio v price) (\<lambda>r. Inr (r \<ge> CRITICAL_COLLATERAL_RATIO))"

definition vault_toString :: "'a vault_scheme \<Rightarrow> string result" where
  "vault_toString v =
     bindE (toString (collateral v) None) (\<lambda>c. bindE (toString (debt v) None) (\<lambda>d.
       Inr (''{ collateral: '' @ c @ '', debt: '' @ d @ '' }'')))"

definition vault_equals :: "'a vault_scheme \<Rightarrow> 'b vault_scheme \<Rightarrow> bool" where
  "vault_equals v w \<longleftrightarrow> collateral v = collateral w \<and> debt v = debt w"

definition vault_add :: "'a vault_scheme \<Rightarrow> 'b vault_scheme \<Rightarrow> vault" where
  "vault_add v w = Vault (add_dec (collateral v) (collateral w)) (add_dec (debt v) (debt w))"

definition addCollateral :: "'a vault_scheme \<Rightarrow> decimalish \<Rightarrow> vault result" where
  "addCollateral v x = bindE (add_d (collateral v) x) (\<lambda>c. Inr (Vault c (debt v)))"

definition addDebt :: "'a vault_scheme \<Rightarrow> decimalish \<Rightarrow> vault result" where
  "addDebt v x = bindE (add_d (debt v) x) (\<lambda>d. Inr (Vault (collateral v) d))"

text \<open>\<open>a.gt(b) ? a.sub(b) : Decimal.ZERO\<close>\<close>

definition sub_or_zero :: "decimal \<Rightarrow> decimalish \<Rightarrow> decimal result" where
  "sub_or_zero a x = bindE (gt_d a x) (\<lambda>g. if g then sub_d a x else Inr ZERO)"

definition subtract :: "'a vault_scheme \<Rightarrow> 'b vault_scheme \<Rightarrow> vault result" where
  "subtract v w =
     bindE (sub_or_zero (collateral v) (DDecimal (collateral w))) (\<lambda>c.
     bindE (sub_or_zero (debt v) (DDecimal (debt w))) (\<lambda>d. Inr (Vault c d)))"

definition subtractCollateral :: "'a vault_scheme \<Rightarrow> decimalish \<Rightarrow> vault result" where
  "subtractCollateral v x = bindE (sub_or_zero (collateral v) x) (\<lambda>c. Inr (Vault c (debt v)))"

definition subtractDebt :: "'a vault_scheme \<Rightarrow> decimalish \<Rightarrow> vault result" where
  "subtractDebt v x = bindE (sub_or_zero (debt v) x) (\<lambda>d. Inr (Vault (collateral v) d))"

definition multiply :: "'a vault_scheme \<Rightarrow> decimalish \<Rightarrow> vault result" where
  "multiply v x =
     bindE (mul_d (collateral v) x) (\<lambda>c. bindE (mul_d (debt v) x) (\<lambda>d. Inr (Vault c d)))"

definition setCollateral :: "'a vault_scheme \<Rightarrow> decimalish \<Rightarrow> vault result" where
  "setCollateral v x = bindE (from_d x) (\<lambda>c. Inr (Vault c (debt v)))"

definition setDebt :: "'a vault_scheme \<Rightarrow> decimalish \<Rightarrow> vault result" where
  "setDebt v x = bindE (from_d x) (\<lambda>d. Inr (Vault (collateral v) d))"

subsection \<open>The diff of two vaults\<close>

text \<open>
  \<open>_debtChange\<close> and \<open>_collateralChange\<close> return an object with one property, again given as
  the update of an adjustment.
\<close>

definition debtChange ::
  "'a vault_scheme \<Rightarrow> 'b vault_scheme \<Rightarrow> decimalish \<Rightarrow>
    (vault_adjustment_params \<Rightarrow> vault_adjustment_params) result" where
  "debtChange this that borrowingRate =
     (if debt that > debt this then
        bindE (sub_dec (debt that) (debt this)) (\<lambda>inc.
        bindE (unapplyFee borrowingRate inc) (\<lambda>b. Inr (borrowBPD_update (\<lambda>_. Some b))))
      else bindE (sub_dec (debt this) (debt that)) (\<lambda>r. Inr (repayBPD_update (\<lambda>_. Some r))))"

definition collateralChange ::
  "'a vault_scheme \<Rightarrow> 'b vault_scheme \<Rightarrow>
    (vault_adjustment_params \<Rightarrow> vault_adjustment_params) result" where
  "collateralChange this that =
     (if collateral that > collateral this then
        bindE (sub_dec (collateral that) (collateral this)) (\<lambda>d.
          Inr (depositCollateral_update (\<lambda>_. Some d)))
      else bindE (sub_dec (collateral this) (collateral that)) (\<lambda>w.
          Inr (withdrawCollateral_update (\<lambda>_. Some w))))"

definition rateOrDefault :: "decimalish option \<Rightarrow> decimalish" where
  "rateOrDefault r = (case r of None \<Rightarrow> DDecimal MINIMUM_BORROWING_RATE | Some x \<Rightarrow> x)"

definition whatChanged ::
  "'a vault_scheme \<Rightarrow> 'b vault_scheme \<Rightarrow> decimalish option \<Rightarrow> vault_change option result" where
  "whatChanged this that rate =
     (let borrowingRate = rateOrDefault rate in
      if collateral this = collateral that \<and> debt this = debt that then Inr None
      else if isEmpty this then
        (if debt that < BPD_LIQUIDATION_RESERVE then
           Inr (Some (InvalidCreation (Vault (collateral that) (debt that)) MissingLiquidationReserve))
         else
           bindE (netDebt that) (\<lambda>n. bindE (unapplyFee borrowingRate n) (\<lambda>b.
             Inr (Some (Creation \<lparr>cp_depositCollateral = collateral that, cp_borrowBPD = b\<rparr>)))))
      else if isEmpty that then
        bindE (netDebt this) (\<lambda>n.
          Inr (Some (Closure \<lparr>clp_withdrawCollateral = collateral this, clp_repayBPD = nonZero n\<rparr>)))
      else if collateral this = collateral that then
        bindE (debtChange this that borrowingRate) (\<lambda>u.
          Inr (Some (Adjustment (u noAdjustment) (if isZero (debt that) then Some SetDebt else None))))
      else if debt this = debt that then
        bindE (collateralChange this that) (\<lambda>u.
          Inr (Some (Adjustment (u noAdjustment)
            (if isZero (collateral that) then Some SetCollateral else None))))
      else
        bindE (debtChange this that borrowingRate) (\<lambda>u.
        bindE (collateralChange this that) (\<lambda>w.
          Inr (Some (Adjustment (w (u noAdjustment))
            (if isZero (debt that) then Some SetDebt
             else if isZero (collateral that) then Some SetCollateral else None))))))"

definition cantCreate :: js_error where
  "cantCreate = Error (''Can'' @ [CHR 0x27] @ ''t create onto existing Vault'')"

definition cantClose :: js_error where
  "cantClose = Error (''Can'' @ [CHR 0x27] @ ''t close empty Vault'')"

definition orZero :: "decimal option \<Rightarrow> decimal" where
  "orZero x = (case x of None \<Rightarrow> ZERO | Some d \<Rightarrow> d)"

definition applyAdjustment ::
  "'a vault_scheme \<Rightarrow> vault_adjustment_params \<Rightarrow> set_to_zero option \<Rightarrow> decimalish \<Rightarrow> vault result"
where
  "applyAdjustment this params setToZero borrowingRate =
     (let collateralDecrease = orZero (withdrawCollateral params);
          collateralIncrease = orZero (depositCollateral params);
          debtDecrease = orZero (repayBPD params) in
      bindE (case borrowBPD params of None \<Rightarrow> Inr ZERO | Some b \<Rightarrow> applyFee borrowingRate b)
        (\<lambda>debtIncrease.
        case setToZero of
          Some SetCollateral \<Rightarrow>
            bindE (setCollateral this (DDecimal ZERO)) (\<lambda>v.
            bindE (addDebt v (DDecimal debtIncrease)) (\<lambda>v. subtractDebt v (DDecimal debtDecrease)))
        | Some SetDebt \<Rightarrow>
            bindE (setDebt this (DDecimal ZERO)) (\<lambda>v.
            bindE (addCollateral v (DDecimal collateralIncrease)) (\<lambda>v.
              subtractCollateral v (DDecimal collateralDecrease)))
        | None \<Rightarrow>
            subtract (vault_add this (Vault collateralIncrease debtIncrease))
              (Vault collateralDecrease debtDecrease)))"

text \<open>\<open>apply(undefined)\<close> returns \<open>this\<close> itself, here its collateral and debt.\<close>

definition apply_v ::
  "'a vault_scheme \<Rightarrow> vault_change option \<Rightarrow> decimalish option \<Rightarrow> vault result" where
  "apply_v this change rate =
     (let borrowingRate = rateOrDefault rate in
      case change of
        None \<Rightarrow> Inr (Vault (collateral this) (debt this))
      | Some (InvalidCreation invalidVault _) \<Rightarrow>
          if \<not> isEmpty this then Inl cantCreate else Inr invalidVault
      | Some (Creation params) \<Rightarrow>
          if \<not> isEmpty this then Inl cantCreate
          else bindE (applyFee borrowingRate (cp_borrowBPD params)) (\<lambda>f.
            Inr (Vault (cp_depositCollateral params) (add_dec BPD_LIQUIDATION_RESERVE f)))
      | Some (Closure params) \<Rightarrow>
          if isEmpty this then Inl cantClose else Inr emptyVault
      | Some (Adjustment params setToZero) \<Rightarrow>
          applyAdjustment this params setToZero borrowingRate)"

definition create :: "raw_params \<Rightarrow> decimalish option \<Rightarrow> vault result" where
  "create params rate =
     bindE (normalizeVaultCreation params) (\<lambda>p. apply_v emptyVault (Some (Creation p)) rate)"

definition recreate :: "'a vault_scheme \<Rightarrow> decimalish option \<Rightarrow> vault_creation_params result" where
  "recreate that rate =
     bindE (whatChanged emptyVault that rate) (\<lambda>change.
       case change of Some (Creation p) \<Rightarrow> Inr p | _ \<Rightarrow> Inl AssertionError)"

definition adjust :: "'a vault_scheme \<Rightarrow> raw_params \<Rightarrow> decimalish option \<Rightarrow> vault result" where
  "adjust this params rate =
     bindE (normalizeVaultAdjustment params) (\<lambda>p. apply_v this (Some (Adjustment p None)) rate)"

definition adjustTo ::
  "'a vault_scheme \<Rightarrow> 'b vault_scheme \<Rightarrow> decimalish option \<Rightarrow> vault_adjustment_params result" where
  "adjustTo this that rate =
     bindE (whatChanged this that rate) (\<lambda>change.
       case change of Some (Adjustment p _) \<Rightarrow> Inr p | _ \<Rightarrow> Inl AssertionError)"

section \<open>Vaults of users\<close>

datatype user_vault_status =
  NonExistent | Open | ClosedByOwner | ClosedByLiquidation | ClosedByRedemption

record user_vault = vault +
  ownerAddress :: string
  status :: user_vault_status

record vault_with_pending_redistribution = user_vault +
  stake :: decimal
  snapshotOfTotalRedistributed :: vault

definition user_vault_equals :: "'a user_vault_scheme \<Rightarrow> 'b user_vault_scheme \<Rightarrow> bool" where
  "user_vault_equals v w \<longleftrightarrow>
     vault_equals v w \<and> ownerAddress v = ownerAddress w \<and> status v = status w"

fun show_status :: "user_vault_status \<Rightarrow> string" where
  "show_status NonExistent = ''nonExistent''"
| "show_status Open = ''open''"
| "show_status ClosedByOwner = ''closedByOwner''"
| "show_status ClosedByLiquidation = ''closedByLiquidation''"
| "show_status ClosedByRedemption = ''closedByRedemption''"

definition user_vault_toString :: "'a user_vault_scheme \<Rightarrow> string result" where
  "user_vault_toString v =
     bindE (toString (collateral v) None) (\<lambda>c. bindE (toString (debt v) None) (\<lambda>d.
       Inr (''{ ownerAddress: '' @ [CHR 0x22] @ ownerAddress v @ [CHR 0x22] @
            '', collateral: '' @ c @ '', debt: '' @ d @
            '', status: '' @ [CHR 0x22] @ show_status (status v) @ [CHR 0x22] @ '' }'')))"

definition applyRedistribution ::
  "'a vault_with_pending_redistribution_scheme \<Rightarrow> 'b vault_scheme \<Rightarrow> user_vault result" where
  "applyRedistribution this totalRedistributed =
     bindE (subtract totalRedistributed (snapshotOfTotalRedistributed this)) (\<lambda>diff.
     bindE (multiply diff (DDecimal (stake this))) (\<lambda>share.
       let afterRedistribution = vault_add this share in
       Inr \<lparr>collateral = collateral afterRedistribution, debt = debt afterRedistribution,
            ownerAddress = ownerAddress this, status = status this\<rparr>))"

definition pending_vault_equals ::
  "vault_with_pending_redistribution \<Rightarrow> vault_with_pending_redistribution \<Rightarrow> bool" where
  "pending_vault_equals v w \<longleftrightarrow>
     user_vault_equals v w \<and> stake v = stake w \<and>
     vault_equals (snapshotOfTotalRedistributed v) (snapshotOfTotalRedistributed w)"

end
