(* ===== verification/Vault_Changes.thy ===== *)
theory Vault_Changes
  imports Vaults
begin

text \<open>
  The diff between vaults: \<open>apply\<close> undoes \<open>whatChanged\<close> up to the rounding of the borrowing
  fee, for whole changes and for the transaction parameters alone; collateral ratios against
  their exact rational meaning; redistribution.
\<close>

section \<open>Closed forms of the operations\<close>

lemma Vault_sel [simp]:
  "collateral (Vault c d) = c" "debt (Vault c d) = d" "Vault c d = Vault c' d' \<longleftrightarrow> c = c' \<and> d = d'"
  by (simp_all add: Vault_def)

lemma ONE_HALF_ZERO [simp]: "ONE \<noteq> ZERO" "HALF \<noteq> ZERO" "ONE \<noteq> HALF" "ZERO \<noteq> HALF" "ZERO \<noteq> ONE"
  by (simp_all add: ONE_def HALF_def ZERO_def)

lemma Vault_collapse [simp]: "Vault (collateral v) (debt v) = v" for v :: vault
  by (simp add: Vault_def)

lemma isEmpty_iff: "isEmpty v \<longleftrightarrow> collateral v = ZERO \<and> debt v = ZERO"
  by (simp add: isEmpty_def isZero_iff)

lemma emptyVault_sel [simp]: "collateral emptyVault = ZERO" "debt emptyVault = ZERO" "isEmpty emptyVault"
  by (simp_all add: emptyVault_def isEmpty_iff)

text \<open>Subtraction that stops at zero.\<close>

definition monus :: "decimal \<Rightarrow> decimal \<Rightarrow> decimal" where
  "monus a b = Decimal (bigNumber a - bigNumber b)"

lemma bigNumber_monus [simp]: "bigNumber (monus a b) = bigNumber a - bigNumber b"
  by (simp add: monus_def)

lemma monus_ZERO [simp]: "monus a ZERO = a"
  by (simp add: decimal_eq_iff)

lemma sub_dec_monus: "b \<le> a \<Longrightarrow> sub_dec a b = Inr (monus a b)"
  by (simp add: sub_dec_ok monus_def)

lemma sub_or_zero_dec [simp]: "sub_or_zero a (DDecimal b) = Inr (monus a b)"
  by (auto simp: sub_or_zero_def sub_dec_monus less_imp_le decimal_eq_iff decimal_order)

lemma add_monus: "add_dec a (monus b a) = b" "monus a (monus a b) = b" if "a \<le> b" "b \<le> a" for a b
  using that by (auto simp: decimal_eq_iff add_dec_def decimal_order)

lemma add_monus_le: "a \<le> b \<Longrightarrow> add_dec a (monus b a) = b"
  by (simp add: decimal_eq_iff add_dec_def decimal_order)

lemma monus_monus_le: "b \<le> a \<Longrightarrow> monus a (monus a b) = b"
  by (simp add: decimal_eq_iff decimal_order)

lemma monus_eq_ZERO_iff [simp]: "monus a b = ZERO \<longleftrightarrow> a \<le> b"
  by (simp add: decimal_eq_iff decimal_order)

lemma vault_operations [simp]:
  "subtract v w = Inr (Vault (monus (collateral v) (collateral w)) (monus (debt v) (debt w)))"
  "addCollateral v (DDecimal x) = Inr (Vault (add_dec (collateral v) x) (debt v))"
  "addDebt v (DDecimal x) = Inr (Vault (collateral v) (add_dec (debt v) x))"
  "subtractCollateral v (DDecimal x) = Inr (Vault (monus (collateral v) x) (debt v))"
  "subtractDebt v (DDecimal x) = Inr (Vault (collateral v) (monus (debt v) x))"
  "setCollateral v (DDecimal x) = Inr (Vault x (debt v))"
  "setDebt v (DDecimal x) = Inr (Vault (collateral v) x)"
  "multiply v (DDecimal x) = Inr (Vault (mul_dec (collateral v) x) (mul_dec (debt v) x))"
  by (simp_all add: subtract_def addCollateral_def addDebt_def subtractCollateral_def
      subtractDebt_def setCollateral_def setDebt_def multiply_def)

lemma netDebt_ok: "BPD_LIQUIDATION_RESERVE \<le> debt v \<Longrightarrow> netDebt v = Inr (monus (debt v) BPD_LIQUIDATION_RESERVE)"
  by (simp add: netDebt_def sub_dec_monus leD)

lemma netDebt_throws: "debt v < BPD_LIQUIDATION_RESERVE \<Longrightarrow> \<exists>e. netDebt v = Inl e"
  by (simp add: netDebt_def bindE_case split: sum.split)

subsection \<open>The borrowing fee\<close>

text \<open>\<open>q\<close> is the borrowing rate, \<open>fee_factor q\<close> the number \<open>1 + q\<close> the code multiplies with.\<close>

definition fee_factor :: "decimal \<Rightarrow> decimal" where
  "fee_factor q = add_dec ONE q"

text \<open>How much one round trip through the fee can add, in wei: nothing for a zero rate, at
  most 1 for rates up to 100%.\<close>

definition fee_slack :: "decimal \<Rightarrow> nat" where
  "fee_slack q = (bigNumber (fee_factor q) - 1) div DIGITS"

lemma fee_factor_nonzero [simp]: "fee_factor q \<noteq> ZERO"
  by (simp add: fee_factor_def decimal_eq_iff add_dec_def)

lemma fee_factor_ZERO [simp]: "fee_factor ZERO = ONE"
  by (simp add: fee_factor_def)

lemma fee_slack_ZERO [simp]: "fee_slack ZERO = 0"
  by (simp add: fee_slack_def)

lemma fee_slack_le_1: "q \<le> ONE \<Longrightarrow> fee_slack q \<le> 1"
proof -
  assume "q \<le> ONE"
  then have "bigNumber (fee_factor q) - 1 \<le> 2 * DIGITS - 1"
    by (simp add: fee_factor_def add_dec_def less_eq_decimal_def)
  then have "fee_slack q \<le> (2 * DIGITS - 1) div DIGITS"
    unfolding fee_slack_def by (rule div_le_mono)
  also have "\<dots> \<le> 1" by (simp add: DIGITS_def)
  finally show ?thesis .
qed

lemma fee_ops:
  assumes "from_d rate = Inr q"
  shows "applyFee rate d = Inr (mul_dec d (fee_factor q))"
    and "unapplyFee rate d = Inr (divCeil_dec d (fee_factor q))"
  using assms by (simp_all add: applyFee_def unapplyFee_def add_d_def fee_factor_def)

text \<open>\<open>applyFee\<close> after \<open>unapplyFee\<close>.\<close>

definition refee :: "decimal \<Rightarrow> decimal \<Rightarrow> decimal" where
  "refee q d = mul_dec (divCeil_dec d (fee_factor q)) (fee_factor q)"

lemma refee_bounds:
  "d \<le> refee q d" "bigNumber (refee q d) \<le> bigNumber d + fee_slack q"
  using mul_divCeil_bounds [OF fee_factor_nonzero] by (simp_all add: refee_def fee_slack_def)

text \<open>\<open>close_to q d d'\<close>: \<open>d'\<close> is \<open>d\<close> or exceeds it by at most the slack.\<close>

definition close_to :: "decimal \<Rightarrow> decimal \<Rightarrow> decimal \<Rightarrow> bool" where
  "close_to q d d' \<longleftrightarrow> d \<le> d' \<and> bigNumber d' \<le> bigNumber d + fee_slack q"

lemma close_to_refl [simp]: "close_to q d d"
  by (simp add: close_to_def)

lemma close_to_ZERO_rate: "close_to ZERO d d' \<longleftrightarrow> d' = d"
  by (auto simp: close_to_def decimal_eq_iff less_eq_decimal_def)

lemma close_to_refee: "a \<le> b \<Longrightarrow> close_to q b (add_dec a (refee q (monus b a)))"
  using refee_bounds [where d = "monus b a" and q = q]
  unfolding close_to_def add_dec_def less_eq_decimal_def by simp linarith

subsection \<open>Adjustments in closed form\<close>

text \<open>Parameters without zeros, with at most one change of collateral and one of debt.\<close>

definition wf_adjustment :: "vault_adjustment_params \<Rightarrow> bool" where
  "wf_adjustment p \<longleftrightarrow>
     \<not> (depositCollateral p \<noteq> None \<and> withdrawCollateral p \<noteq> None) \<and>
     \<not> (borrowBPD p \<noteq> None \<and> repayBPD p \<noteq> None) \<and>
     p \<noteq> noAdjustment \<and>
     depositCollateral p \<noteq> Some ZERO \<and> withdrawCollateral p \<noteq> Some ZERO \<and>
     borrowBPD p \<noteq> Some ZERO \<and> repayBPD p \<noteq> Some ZERO"

lemma orZero_simps [simp]: "orZero None = ZERO" "orZero (Some d) = d"
  by (simp_all add: orZero_def)

lemma applyAdjustment_eq:
  assumes "from_d rate = Inr q"
  shows "applyAdjustment v p z rate =
    (let c = monus (add_dec (collateral v) (orZero (depositCollateral p))) (orZero (withdrawCollateral p));
         inc = (case borrowBPD p of None \<Rightarrow> ZERO | Some b \<Rightarrow> mul_dec b (fee_factor q));
         d = monus (add_dec (debt v) inc) (orZero (repayBPD p))
     in Inr (Vault (if z = Some SetCollateral then ZERO else c) (if z = Some SetDebt then ZERO else d)))"
  using assms
  by (simp add: applyAdjustment_def vault_add_def fee_ops Let_def
      split: option.split set_to_zero.split)

lemma noAdjustment_sel [simp]:
  "depositCollateral noAdjustment = None" "withdrawCollateral noAdjustment = None"
  "borrowBPD noAdjustment = None" "repayBPD noAdjustment = None"
  by (simp_all add: noAdjustment_def)

lemma debtChange_eq:
  assumes "from_d rate = Inr q"
  shows "debtChange v w rate =
    (if debt v < debt w
     then Inr (borrowBPD_update (\<lambda>_. Some (divCeil_dec (monus (debt w) (debt v)) (fee_factor q))))
     else Inr (repayBPD_update (\<lambda>_. Some (monus (debt v) (debt w)))))"
  using assms by (simp add: debtChange_def sub_dec_monus fee_ops)

lemma collateralChange_eq:
  "collateralChange v w =
    (if collateral v < collateral w
     then Inr (depositCollateral_update (\<lambda>_. Some (monus (collateral w) (collateral v))))
     else Inr (withdrawCollateral_update (\<lambda>_. Some (monus (collateral v) (collateral w)))))"
  by (simp add: collateralChange_def sub_dec_monus)

lemma netDebt_isEmpty: "BPD_LIQUIDATION_RESERVE \<le> debt v \<Longrightarrow> \<not> isEmpty v"
  by (auto simp: isEmpty_iff BPD_LIQUIDATION_RESERVE_def decimal_order)

text \<open>Both vaults non-empty: the diff is an adjustment without zeros or conflicts.\<close>

definition setToZero_of :: "'a vault_scheme \<Rightarrow> 'b vault_scheme \<Rightarrow> set_to_zero option" where
  "setToZero_of v w =
     (if debt w = ZERO \<and> debt v \<noteq> ZERO then Some SetDebt
      else if collateral w = ZERO \<and> collateral v \<noteq> ZERO then Some SetCollateral else None)"

definition adjustment_between ::
  "decimal \<Rightarrow> 'a vault_scheme \<Rightarrow> 'b vault_scheme \<Rightarrow> vault_adjustment_params" where
  "adjustment_between q v w =
     \<lparr>depositCollateral = (if collateral v < collateral w then Some (monus (collateral w) (collateral v)) else None),
      withdrawCollateral = (if collateral w < collateral v then Some (monus (collateral v) (collateral w)) else None),
      borrowBPD = (if debt v < debt w then Some (divCeil_dec (monus (debt w) (debt v)) (fee_factor q)) else None),
      repayBPD = (if debt w < debt v then Some (monus (debt v) (debt w)) else None)\<rparr>"

lemma whatChanged_adjustment:
  assumes "from_d (rateOrDefault rate) = Inr q"
    and "\<not> isEmpty v" "\<not> isEmpty w" "\<not> (collateral v = collateral w \<and> debt v = debt w)"
  shows "whatChanged v w rate = Inr (Some (Adjustment (adjustment_between q v w) (setToZero_of v w)))"
proof -
  note defs = whatChanged_def debtChange_eq [OF assms(1)] collateralChange_eq adjustment_between_def
    setToZero_of_def noAdjustment_def isZero_iff Let_def
  show ?thesis
  proof (cases "collateral v = collateral w")
    case True
    with assms have "debt v \<noteq> debt w" by simp
    with True assms show ?thesis
      by (cases "debt v < debt w") (auto simp: defs isEmpty_iff)
  next
    case False
    then show ?thesis
    proof (cases "debt v = debt w")
      case True
      with False assms show ?thesis
        by (cases "collateral v < collateral w") (auto simp: defs isEmpty_iff)
    next
      case neq: False
      have z: "setToZero_of v w = (if isZero (debt w) then Some SetDebt
          else if isZero (collateral w) then Some SetCollateral else None)"
        using False neq by (auto simp: setToZero_of_def isZero_iff)
      show ?thesis
        using False neq assms(2,3)
        by (cases "debt v < debt w"; cases "collateral v < collateral w")
          (simp_all add: whatChanged_def debtChange_eq [OF assms(1)] collateralChange_eq
            adjustment_between_def noAdjustment_def z not_less_iff_gr_or_eq)
    qed
  qed
qed

lemma adjustment_between_wf:
  assumes "\<not> (collateral v = collateral w \<and> debt v = debt w)"
  shows "wf_adjustment (adjustment_between q v w)"
  using assms divCeil_pos
  by (auto simp: wf_adjustment_def adjustment_between_def noAdjustment_def not_le)

lemma apply_adjustment_between:
  assumes "from_d rate = Inr q"
  shows "\<exists>u. applyAdjustment v (adjustment_between q v w) z rate = Inr u \<and>
    collateral u = (if z = Some SetCollateral then ZERO else collateral w) \<and>
    (if z = Some SetDebt then debt u = ZERO else close_to q (debt w) (debt u))"
  using assms close_to_refee [of "debt v" "debt w" q]
  by (auto simp: applyAdjustment_eq adjustment_between_def Let_def refee_def
      add_monus_le monus_monus_le less_imp_le not_less)

section \<open>Applying a diff\<close>

text \<open>Creation, the one case that adds the liquidation reserve back.\<close>

lemma whatChanged_creation:
  assumes "from_d (rateOrDefault rate) = Inr q" "isEmpty v" "BPD_LIQUIDATION_RESERVE \<le> debt w"
  shows "whatChanged v w rate = Inr (Some (Creation \<lparr>cp_depositCollateral = collateral w,
    cp_borrowBPD = divCeil_dec (monus (debt w) BPD_LIQUIDATION_RESERVE) (fee_factor q)\<rparr>))"
proof -
  have "\<not> (collateral v = collateral w \<and> debt v = debt w)"
    using netDebt_isEmpty [OF assms(3)] assms(2) by (auto simp: isEmpty_iff)
  with assms show ?thesis
    by (simp add: whatChanged_def Let_def netDebt_ok fee_ops [OF assms(1)] leD del: de_Morgan_conj
        split del: if_split)
qed

lemma apply_creation:
  assumes "from_d (rateOrDefault rate) = Inr q" "isEmpty v" "BPD_LIQUIDATION_RESERVE \<le> debt w"
  shows "\<exists>u. apply_v v (Some (Creation \<lparr>cp_depositCollateral = collateral w,
      cp_borrowBPD = divCeil_dec (monus (debt w) BPD_LIQUIDATION_RESERVE) (fee_factor q)\<rparr>)) rate = Inr u \<and>
    collateral u = collateral w \<and> close_to q (debt w) (debt u)"
  using close_to_refee [OF assms(3), of q] assms(2)
  by (simp add: apply_v_def fee_ops [OF assms(1)] refee_def)

lemma whatChanged_closure:
  assumes "\<not> isEmpty v" "isEmpty w" "BPD_LIQUIDATION_RESERVE \<le> debt v"
  shows "whatChanged v w rate = Inr (Some (Closure \<lparr>clp_withdrawCollateral = collateral v,
    clp_repayBPD = nonZero (monus (debt v) BPD_LIQUIDATION_RESERVE)\<rparr>))"
proof -
  have "\<not> (collateral v = collateral w \<and> debt v = debt w)"
    using assms(1,2) by (auto simp: isEmpty_iff)
  with assms show ?thesis
    by (simp add: whatChanged_def Let_def netDebt_ok del: de_Morgan_conj split del: if_split)
qed

lemma apply_diff:
  assumes "from_d (rateOrDefault rate) = Inr q"
    and "isEmpty v \<or> \<not> isEmpty w \<or> BPD_LIQUIDATION_RESERVE \<le> debt v"
  shows "\<exists>change u. whatChanged v w rate = Inr change \<and> apply_v v change rate = Inr u \<and>
    collateral u = collateral w \<and> close_to q (debt w) (debt u)"
proof (cases "collateral v = collateral w \<and> debt v = debt w")
  case True
  then show ?thesis by (simp add: whatChanged_def apply_v_def)
next
  case neq: False
  show ?thesis
  proof (cases "isEmpty v")
    case True
    show ?thesis
    proof (cases "BPD_LIQUIDATION_RESERVE \<le> debt w")
      case reserve: True
      then show ?thesis
        using whatChanged_creation [OF assms(1) True] apply_creation [OF assms(1) True] by blast
    next
      case False
      then show ?thesis
        using True neq by (auto simp: whatChanged_def apply_v_def not_le)
    qed
  next
    case False
    show ?thesis
    proof (cases "isEmpty w")
      case True
      then have "BPD_LIQUIDATION_RESERVE \<le> debt v" using False assms(2) by simp
      then show ?thesis
        using True False whatChanged_closure [OF False True, of rate] by (auto simp: apply_v_def isEmpty_iff)
    next
      case w: False
      show ?thesis
        using apply_adjustment_between [OF assms(1), of v w "setToZero_of v w"]
        by (auto simp: whatChanged_adjustment [OF assms(1) False w neq] apply_v_def setToZero_of_def
            split: if_splits)
    qed
  qed
qed

text \<open>
  C1. Applying to a vault its diff to another yields the other: the collateral exactly, the
  debt exactly when the rate is zero and never less than asked for, with an excess of at most
  \<open>fee_slack\<close> (1 wei for rates up to 100%). The diff itself throws only for closing a
  vault whose debt does not cover the liquidation reserve, which the hypothesis excludes.
\<close>

theorem apply_whatChanged:
  assumes "from_d (rateOrDefault rate) = Inr q"
    and "isEmpty v \<or> \<not> isEmpty w \<or> BPD_LIQUIDATION_RESERVE \<le> debt v"
  shows "\<exists>change u. whatChanged v w rate = Inr change \<and> apply_v v change rate = Inr u \<and>
    collateral u = collateral w \<and> debt w \<le> debt u \<and>
    bigNumber (debt u) \<le> bigNumber (debt w) + fee_slack q \<and> (q = ZERO \<longrightarrow> debt u = debt w)"
  using apply_diff [OF assms] by (metis close_to_def close_to_ZERO_rate)

theorem apply_whatChanged_witness:
  "let v = Vault ONE (Decimal (250 * DIGITS)); w = Vault HALF (Decimal (300 * DIGITS + 1)) in
    \<exists>change u. whatChanged v w None = Inr change \<and> apply_v v change None = Inr u \<and>
      collateral u = HALF \<and> Decimal (300 * DIGITS + 1) \<le> debt u \<and> bigNumber (debt u) \<le> 300 * DIGITS + 2"
proof -
  let ?v = "Vault ONE (Decimal (250 * DIGITS))"
  let ?w = "Vault HALF (Decimal (300 * DIGITS + 1))"
  have "from_d (rateOrDefault None) = Inr MINIMUM_BORROWING_RATE" by (simp add: rateOrDefault_def)
  moreover have "isEmpty ?v \<or> \<not> isEmpty ?w \<or> BPD_LIQUIDATION_RESERVE \<le> debt ?v"
    by (simp add: isEmpty_iff decimal_eq_iff)
  ultimately show ?thesis
    using apply_whatChanged [of None MINIMUM_BORROWING_RATE ?v ?w]
      fee_slack_le_1 [of MINIMUM_BORROWING_RATE]
    by (fastforce simp: Let_def MINIMUM_BORROWING_RATE_def decimal_order ONE_def DIGITS_def)
qed

text \<open>
  C34. The diff of two different non-empty vaults is an adjustment without zero amounts and
  without a deposit next to a withdrawal or a borrowing next to a repayment; applying it to
  any vault succeeds and keeps zeroings: if it closes the debt or all of the collateral, it
  does so on every vault (a change zeroing both amounts is a closure instead).
\<close>

theorem adjustment_total_and_zeroing:
  assumes "from_d (rateOrDefault rate) = Inr q"
    and "\<not> isEmpty b" "\<not> isEmpty c" "\<not> vault_equals b c"
  shows "\<exists>params z. whatChanged b c rate = Inr (Some (Adjustment params z)) \<and> wf_adjustment params \<and>
    (\<forall>a :: 'a vault_scheme. \<exists>u. apply_v a (Some (Adjustment params z)) rate = Inr u \<and>
      (debt b \<noteq> ZERO \<and> debt c = ZERO \<longrightarrow> debt u = ZERO) \<and>
      (collateral b \<noteq> ZERO \<and> collateral c = ZERO \<longrightarrow> collateral u = ZERO))"
proof -
  let ?p = "adjustment_between q b c"
  have neq: "\<not> (collateral b = collateral c \<and> debt b = debt c)"
    using assms(4) by (simp add: vault_equals_def)
  have "\<exists>u. apply_v a (Some (Adjustment ?p (setToZero_of b c))) rate = Inr u \<and>
      (debt b \<noteq> ZERO \<and> debt c = ZERO \<longrightarrow> debt u = ZERO) \<and>
      (collateral b \<noteq> ZERO \<and> collateral c = ZERO \<longrightarrow> collateral u = ZERO)" for a :: "'a vault_scheme"
    using assms(3)
    by (auto simp: apply_v_def applyAdjustment_eq [OF assms(1)] setToZero_of_def isEmpty_iff)
  then show ?thesis
    using whatChanged_adjustment [OF assms(1-3) neq] adjustment_between_wf [OF neq] by blast
qed

theorem adjustment_total_and_zeroing_witness:
  "\<exists>params z. whatChanged (Vault ONE ONE) (Vault HALF ZERO) None = Inr (Some (Adjustment params z)) \<and>
    (\<exists>u. apply_v (Vault HALF HALF) (Some (Adjustment params z)) None = Inr u \<and> debt u = ZERO)"
proof -
  have "from_d (rateOrDefault None) = Inr MINIMUM_BORROWING_RATE" by (simp add: rateOrDefault_def)
  moreover have "\<not> isEmpty (Vault ONE ONE)" "\<not> isEmpty (Vault HALF ZERO)"
    "\<not> vault_equals (Vault ONE ONE) (Vault HALF ZERO)"
    by (simp_all add: isEmpty_iff vault_equals_def)
  ultimately show ?thesis
    using adjustment_total_and_zeroing [of None _ "Vault ONE ONE" "Vault HALF ZERO"]
    by (metis Vault_sel(2) ONE_HALF_ZERO(1))
qed

section \<open>Normalised parameters\<close>

text \<open>What a parameter object says about a key: its value, unless missing, undefined or zero.\<close>

definition param_of :: "raw_params \<Rightarrow> string \<Rightarrow> decimal option" where
  "param_of raw k = (case map_of raw k of
     Some (Some x) \<Rightarrow> (case from_d x of Inr d \<Rightarrow> nonZero d | Inl _ \<Rightarrow> None) | _ \<Rightarrow> None)"

definition adjustment_of :: "raw_params \<Rightarrow> vault_adjustment_params" where
  "adjustment_of raw =
     \<lparr>depositCollateral = param_of raw ''depositCollateral'',
      withdrawCollateral = param_of raw ''withdrawCollateral'',
      borrowBPD = param_of raw ''borrowBPD'', repayBPD = param_of raw ''repayBPD''\<rparr>"

lemma set_definedEntries: "(k, x) \<in> set (definedEntries raw) \<longleftrightarrow> (k, Some x) \<in> set raw"
  by (force simp: definedEntries_def)

lemma definedEntries_keys: "set (map fst (definedEntries raw)) \<subseteq> set (map fst raw)"
  by (force simp: definedEntries_def)

lemma distinct_definedEntries:
  assumes "distinct (map fst raw)"
  shows "distinct (map fst (definedEntries raw))"
proof -
  have "map fst (definedEntries raw) = map fst (filter (\<lambda>(k, v). v \<noteq> None) raw)"
    by (simp add: definedEntries_def comp_def case_prod_beta)
  then show ?thesis using assms by (simp only: distinct_map_filter)
qed

lemma map_of_definedEntries:
  "distinct (map fst raw) \<Longrightarrow> map_of (definedEntries raw) k = Option.bind (map_of raw k) id"
proof (induction raw)
  case (Cons a raw)
  have "map_of (definedEntries raw) (fst a) = None"
    using Cons.prems definedEntries_keys [of raw] by (auto simp: map_of_eq_None_iff)
  with Cons show ?case by (cases a; cases "snd a") (auto simp: definedEntries_def)
qed (simp add: definedEntries_def)

lemma mapE_decimalize:
  "mapE decimalize es = Inr ds \<longleftrightarrow>
     map fst ds = map fst es \<and> list_all2 (\<lambda>e d. from_d (snd e) = Inr (snd d)) es ds"
proof (induction es arbitrary: ds)
  case (Cons e es)
  then show ?case
    by (cases e; cases ds) (auto simp: bindE_eq_Inr_iff)
qed (auto simp: list_all2_Nil)

lemma map_of_decimalized:
  assumes "map fst ds = map fst es" "list_all2 (\<lambda>e d. from_d (snd e) = Inr (snd d)) es ds"
  shows "map_of ds k = Option.bind (map_of es k) (\<lambda>x. case from_d x of Inr d \<Rightarrow> Some d | Inl _ \<Rightarrow> None)"
  using assms(2,1) by (induction rule: list_all2_induct) auto

lemma fromEntries_nonZero:
  "distinct (map fst ds) \<Longrightarrow>
    fromEntries (filter (\<lambda>(k, v). \<not> isZero v) ds) k = Option.bind (map_of ds k) nonZero"
proof (induction ds)
  case (Cons a ds)
  have "map_of ds (fst a) = None" using Cons.prems by (auto simp: map_of_eq_None_iff)
  with Cons show ?case
    by (cases a) (auto simp: fromEntries_def nonZero_def map_add_def split: option.split)
qed (simp add: fromEntries_def)

lemma adjustment_keys_ok:
  "checkAllowedVaultAdjustmentKeys es = Inr () \<longleftrightarrow> fst ` set es \<subseteq> set allowedVaultAdjustmentKeys"
  by (auto simp: checkAllowedVaultAdjustmentKeys_def filter_empty_conv)

lemma adjustment_from_entries:
  "vaultAdjustmentParamsFromEntries entries = Inr p \<longleftrightarrow>
    p = \<lparr>depositCollateral = fromEntries entries ''depositCollateral'',
         withdrawCollateral = fromEntries entries ''withdrawCollateral'',
         borrowBPD = fromEntries entries ''borrowBPD'', repayBPD = fromEntries entries ''repayBPD''\<rparr> \<and>
    \<not> (depositCollateral p \<noteq> None \<and> withdrawCollateral p \<noteq> None) \<and>
    \<not> (borrowBPD p \<noteq> None \<and> repayBPD p \<noteq> None) \<and> p \<noteq> noAdjustment"
  by (auto simp: vaultAdjustmentParamsFromEntries_def collateralChangeFrom_def debtChangeFrom_def
      noAdjustment_def Let_def bindE_eq_Inr_iff split: if_splits option.splits)

lemma adjustment_of_no_zeros:
  "depositCollateral (adjustment_of raw) \<noteq> Some ZERO" "withdrawCollateral (adjustment_of raw) \<noteq> Some ZERO"
  "borrowBPD (adjustment_of raw) \<noteq> Some ZERO" "repayBPD (adjustment_of raw) \<noteq> Some ZERO"
  by (auto simp: adjustment_of_def param_of_def split: option.splits sum.splits)

lemma fromEntries_param_of:
  assumes "distinct (map fst raw)" "mapE decimalize (definedEntries raw) = Inr ds"
  shows "fromEntries (filter (\<lambda>(k, v). \<not> isZero v) ds) k = param_of raw k"
proof -
  from assms(2) have ds: "map fst ds = map fst (definedEntries raw)"
    "list_all2 (\<lambda>e d. from_d (snd e) = Inr (snd d)) (definedEntries raw) ds"
    by (auto simp: mapE_decimalize)
  have "distinct (map fst ds)"
    using assms(1) by (simp only: ds(1) distinct_definedEntries)
  then show ?thesis
    using map_of_definedEntries [OF assms(1), of k]
    by (simp add: fromEntries_nonZero map_of_decimalized [OF ds] param_of_def
        split: option.split sum.split)
qed

lemma mapE_decimalize_ok:
  "(\<exists>ds. mapE decimalize es = Inr ds) \<longleftrightarrow> (\<forall>(k, x) \<in> set es. \<exists>d. from_d x = Inr d)"
proof (induction es)
  case (Cons e es)
  then show ?case by (cases e) (auto simp: bindE_eq_Inr_iff)
qed simp

lemma normalizeVaultAdjustment_char:
  assumes "distinct (map fst raw)"
  shows "normalizeVaultAdjustment raw = Inr p \<longleftrightarrow>
    (\<forall>k x. (k, Some x) \<in> set raw \<longrightarrow> k \<in> set allowedVaultAdjustmentKeys \<and> (\<exists>d. from_d x = Inr d)) \<and>
    p = adjustment_of raw \<and> wf_adjustment p"
proof -
  let ?es = "definedEntries raw"
  have keys: "checkAllowedVaultAdjustmentKeys ?es = Inr () \<longleftrightarrow>
      (\<forall>k x. (k, Some x) \<in> set raw \<longrightarrow> k \<in> set allowedVaultAdjustmentKeys)"
    by (fastforce simp: adjustment_keys_ok set_definedEntries [symmetric])
  have parse: "(\<exists>ds. mapE decimalize ?es = Inr ds) \<longleftrightarrow>
      (\<forall>k x. (k, Some x) \<in> set raw \<longrightarrow> (\<exists>d. from_d x = Inr d))"
    by (auto simp: mapE_decimalize_ok set_definedEntries dest!: bspec)
  have "normalizeVaultAdjustment raw = Inr p \<longleftrightarrow>
      checkAllowedVaultAdjustmentKeys ?es = Inr () \<and> (\<exists>ds. mapE decimalize ?es = Inr ds \<and>
        vaultAdjustmentParamsFromEntries (filter (\<lambda>(k, v). \<not> isZero v) ds) = Inr p)"
    by (auto simp: normalizeVaultAdjustment_def Let_def bindE_eq_Inr_iff)
  also have "\<dots> \<longleftrightarrow> checkAllowedVaultAdjustmentKeys ?es = Inr () \<and> (\<exists>ds. mapE decimalize ?es = Inr ds) \<and>
      p = adjustment_of raw \<and> wf_adjustment p"
    using fromEntries_param_of [OF assms] adjustment_of_no_zeros [of raw]
    by (auto simp: adjustment_from_entries wf_adjustment_def adjustment_of_def)
  finally show ?thesis using keys parse by blast
qed

text \<open>
  Normalising adjustment parameters: it succeeds exactly when all defined properties
  are among the four allowed ones and parse as decimals, and what they say without the zeros
  is a well-formed adjustment (something to do, no deposit next to a withdrawal, no
  borrowing next to a repayment); the result is then that adjustment.
\<close>

lemma normalizeVaultAdjustment_iff:
  assumes "distinct (map fst raw)"
  shows "normalizeVaultAdjustment raw = Inr p \<longleftrightarrow>
    (\<forall>k x. (k, Some x) \<in> set raw \<longrightarrow> k \<in> set allowedVaultAdjustmentKeys \<and> (\<exists>d. from_d x = Inr d)) \<and>
    p = adjustment_of raw \<and> wf_adjustment p"
  using assms by (rule normalizeVaultAdjustment_char)

theorem normalizeVaultAdjustment_iff_witness:
  "normalizeVaultAdjustment [(''borrowBPD'', Some (DDecimal ONE)), (''repayBPD'', None),
      (''withdrawCollateral'', Some (DDecimal ZERO))] =
    Inr (noAdjustment\<lparr>borrowBPD := Some ONE\<rparr>)"
  by (subst normalizeVaultAdjustment_iff)
    (auto simp: allowedVaultAdjustmentKeys_def adjustment_of_def param_of_def noAdjustment_def
      wf_adjustment_def nonZero_def isZero_iff)

subsection \<open>Feeding a diff back as parameters\<close>

definition params_of_adjustment :: "vault_adjustment_params \<Rightarrow> raw_params" where
  "params_of_adjustment p =
     [(''depositCollateral'', map_option DDecimal (depositCollateral p)),
      (''withdrawCollateral'', map_option DDecimal (withdrawCollateral p)),
      (''borrowBPD'', map_option DDecimal (borrowBPD p)),
      (''repayBPD'', map_option DDecimal (repayBPD p))]"

definition params_of_creation :: "vault_creation_params \<Rightarrow> raw_params" where
  "params_of_creation p =
     [(''depositCollateral'', Some (DDecimal (cp_depositCollateral p))),
      (''borrowBPD'', Some (DDecimal (cp_borrowBPD p)))]"

lemma param_of_Cons:
  "param_of ((k, map_option DDecimal x) # raw) k' =
    (if k = k' then Option.bind x nonZero else param_of raw k')"
  by (cases x) (simp_all add: param_of_def)

lemma adjustment_of_params_of:
  assumes "wf_adjustment p"
  shows "adjustment_of (params_of_adjustment p) = p"
proof -
  have "Option.bind x nonZero = x" if "x \<noteq> Some ZERO" for x
    using that by (cases x) simp_all
  then show ?thesis
    using assms by (cases p) (simp add: adjustment_of_def params_of_adjustment_def param_of_Cons wf_adjustment_def)
qed

lemma normalize_params_of_adjustment:
  assumes "wf_adjustment p"
  shows "normalizeVaultAdjustment (params_of_adjustment p) = Inr p"
proof -
  have d: "distinct (map fst (params_of_adjustment p))" by (simp add: params_of_adjustment_def)
  have "k \<in> set allowedVaultAdjustmentKeys \<and> (\<exists>d. from_d x = Inr d)"
    if "(k, Some x) \<in> set (params_of_adjustment p)" for k x
    using that by (auto simp: params_of_adjustment_def allowedVaultAdjustmentKeys_def)
      (metis map_option_eq_Some option.inject from_d.simps(1))+
  then show ?thesis
    using assms adjustment_of_params_of [OF assms] by (simp add: normalizeVaultAdjustment_char [OF d])
qed

lemma normalize_params_of_creation: "normalizeVaultCreation (params_of_creation p) = Inr p"
  by (simp add: normalizeVaultCreation_def params_of_creation_def definedEntries_def
      checkAllowedVaultCreationKeys_def allowedVaultCreationKeys_def
      vaultCreationParamsFromEntries_def fromEntries_def)

text \<open>
  The parameters that \<open>adjustTo\<close> computes between two different non-empty vaults survive
  normalisation and, given to \<open>adjust\<close>, lead to the target: its collateral exactly, at least
  its debt, and at most the slack of the fee more.
\<close>

lemma adjust_adjustTo:
  assumes "from_d (rateOrDefault rate) = Inr q"
    and "\<not> isEmpty v" "\<not> isEmpty w" "\<not> vault_equals v w"
  shows "\<exists>params u. adjustTo v w rate = Inr params \<and>
    adjust v (params_of_adjustment params) rate = Inr u \<and> collateral u = collateral w \<and>
    debt w \<le> debt u \<and> bigNumber (debt u) \<le> bigNumber (debt w) + fee_slack q"
proof -
  have neq: "\<not> (collateral v = collateral w \<and> debt v = debt w)"
    using assms(4) by (simp add: vault_equals_def)
  show ?thesis
    using apply_adjustment_between [OF assms(1), of v w None]
      normalize_params_of_adjustment [OF adjustment_between_wf [OF neq]]
    by (auto simp: adjustTo_def adjust_def whatChanged_adjustment [OF assms(1-3) neq] apply_v_def close_to_def)
qed

theorem adjust_adjustTo_witness:
  "\<exists>params u. adjustTo (Vault ONE ONE) (Vault HALF INFINITY) None = Inr params \<and>
    adjust (Vault ONE ONE) (params_of_adjustment params) None = Inr u \<and> collateral u = HALF"
proof -
  have "from_d (rateOrDefault None) = Inr MINIMUM_BORROWING_RATE" by (simp add: rateOrDefault_def)
  moreover have "\<not> isEmpty (Vault ONE ONE)" "\<not> isEmpty (Vault HALF INFINITY)"
    "\<not> vault_equals (Vault ONE ONE) (Vault HALF INFINITY)"
    by (simp_all add: isEmpty_iff vault_equals_def)
  ultimately show ?thesis
    using adjust_adjustTo [of None _ "Vault ONE ONE" "Vault HALF INFINITY"] by fastforce
qed

text \<open>
  A vault with at least the liquidation reserve as debt can be created again: the
  parameters of \<open>recreate\<close> given to \<open>create\<close> yield its collateral and its debt up to the slack.
\<close>

lemma create_recreate:
  assumes "from_d (rateOrDefault rate) = Inr q" "BPD_LIQUIDATION_RESERVE \<le> debt w"
  shows "\<exists>params u. recreate w rate = Inr params \<and> create (params_of_creation params) rate = Inr u \<and>
    collateral u = collateral w \<and> debt w \<le> debt u \<and>
    bigNumber (debt u) \<le> bigNumber (debt w) + fee_slack q"
  using apply_creation [OF assms(1) emptyVault_sel(3) assms(2)]
  by (auto simp: recreate_def create_def whatChanged_creation [OF assms(1) emptyVault_sel(3) assms(2)]
      normalize_params_of_creation close_to_def)

theorem create_recreate_witness:
  "\<exists>params u. recreate (Vault ONE INFINITY) None = Inr params \<and>
    create (params_of_creation params) None = Inr u \<and> collateral u = ONE"
proof -
  have "from_d (rateOrDefault None) = Inr MINIMUM_BORROWING_RATE" by (simp add: rateOrDefault_def)
  moreover have "BPD_LIQUIDATION_RESERVE \<le> debt (Vault ONE INFINITY)"
    by (simp add: BPD_LIQUIDATION_RESERVE_def decimal_order MAX_UINT_256_def)
  ultimately show ?thesis
    using create_recreate [of None _ "Vault ONE INFINITY"] by fastforce
qed

section \<open>Collateral ratios and redistribution\<close>

lemma mulDiv_dec_less_iff:
  assumes "bigNumber m \<le> MAX_UINT_256"
  shows "mulDiv_dec a b d < m \<longleftrightarrow> bigNumber a * bigNumber b < bigNumber m * bigNumber d"
  using assms
  by (auto simp: mulDiv_dec_def isZero_iff decimal_order decimal_eq_iff div_less_iff_less_mult)

lemma ratio_thresholds:
  "bigNumber MINIMUM_COLLATERAL_RATIO \<le> MAX_UINT_256" "bigNumber CRITICAL_COLLATERAL_RATIO \<le> MAX_UINT_256"
  by (simp_all add: MINIMUM_COLLATERAL_RATIO_def CRITICAL_COLLATERAL_RATIO_def MAX_UINT_256_def)

text \<open>
  The ratio tests are exact although the ratio is truncated: they compare
  collateral times price with the threshold times the debt, so rounding never moves a
  vault over a threshold, a vault without debt is never below one, and a vault below the
  minimum is below the critical ratio and cannot be opened in recovery mode.
\<close>

lemma collateral_ratio_tests_exact:
  assumes "from_d price = Inr p"
  shows "collateralRatioIsBelowMinimum v price =
      Inr (bigNumber (collateral v) * bigNumber p < bigNumber MINIMUM_COLLATERAL_RATIO * bigNumber (debt v)) \<and>
    collateralRatioIsBelowCritical v price =
      Inr (bigNumber (collateral v) * bigNumber p < bigNumber CRITICAL_COLLATERAL_RATIO * bigNumber (debt v)) \<and>
    isOpenableInRecoveryMode v price =
      Inr (bigNumber CRITICAL_COLLATERAL_RATIO * bigNumber (debt v) \<le> bigNumber (collateral v) * bigNumber p) \<and>
    (collateralRatioIsBelowMinimum v price = Inr True \<longrightarrow>
      collateralRatioIsBelowCritical v price = Inr True)"
proof -
  have r: "collateralRatio v price = Inr (mulDiv_dec (collateral v) p (debt v))"
    using assms(1) by (simp add: collateralRatio_def mulDiv_d_def)
  have "MINIMUM_COLLATERAL_RATIO < CRITICAL_COLLATERAL_RATIO"
    by (simp add: MINIMUM_COLLATERAL_RATIO_def CRITICAL_COLLATERAL_RATIO_def decimal_order)
  then have "x < MINIMUM_COLLATERAL_RATIO \<Longrightarrow> x < CRITICAL_COLLATERAL_RATIO" for x
    by (rule less_trans [rotated])
  note le = this and less_iff = mulDiv_dec_less_iff [OF ratio_thresholds(1), of "collateral v" p "debt v"]
    mulDiv_dec_less_iff [OF ratio_thresholds(2), of "collateral v" p "debt v"]
  show ?thesis
    unfolding collateralRatioIsBelowMinimum_def collateralRatioIsBelowCritical_def
      isOpenableInRecoveryMode_def r
    using le less_iff by (auto simp: not_less [symmetric])
qed

theorem collateral_ratio_tests_exact_witness:
  "collateralRatioIsBelowMinimum (Vault ONE (Decimal (100 * DIGITS))) (DDecimal (Decimal (110 * DIGITS - 1))) = Inr True"
  using collateral_ratio_tests_exact [of "DDecimal (Decimal (110 * DIGITS - 1))" _ "Vault ONE (Decimal (100 * DIGITS))"]
  by (simp add: MINIMUM_COLLATERAL_RATIO_def DIGITS_def)

text \<open>
  A pending redistribution never throws: the vault keeps owner and status, and gains its
  stake's share, rounded down, of what was redistributed since its snapshot (nothing when
  the totals have not grown).
\<close>

lemma applyRedistribution_total:
  "\<exists>u. applyRedistribution v totals = Inr u \<and> ownerAddress u = ownerAddress v \<and> status u = status v \<and>
    bigNumber (collateral u) = bigNumber (collateral v) + bigNumber (stake v) *
      (bigNumber (collateral totals) - bigNumber (collateral (snapshotOfTotalRedistributed v))) div DIGITS \<and>
    bigNumber (debt u) = bigNumber (debt v) + bigNumber (stake v) *
      (bigNumber (debt totals) - bigNumber (debt (snapshotOfTotalRedistributed v))) div DIGITS"
  by (simp add: applyRedistribution_def vault_add_def Let_def add_dec_def mul_dec_def mult.commute)

end
