(* ===== verification/Deposits.thy ===== *)
theory Deposits
  imports Vault_Changes
begin

text \<open>
  \<open>StabilityDeposit.ts\<close> and \<open>MPStake.ts\<close>. Both classes have a diff of one amount
  (\<open>whatChanged\<close> and \<open>apply\<close>); the locale \<open>amount_diff\<close> is their common contract, proved for
  each class by its interpretation.
\<close>

section \<open>The contract of a diff of one amount\<close>

text \<open>
  The target of a diff is parsed first and a text that does not parse is the only error.
  The change to a smaller amount withdraws the difference, stopping at zero, and
  a change to zero withdraws everything; the change to a larger amount adds the difference.
\<close>

locale amount_diff =
  fixes amount :: "'s \<Rightarrow> decimal"
    and what_changed :: "'s \<Rightarrow> decimalish \<Rightarrow> 'c option result"
    and apply_change :: "'s \<Rightarrow> 'c option \<Rightarrow> decimal result"
  assumes apply_None: "apply_change s None = Inr (amount s)"
    and unparsed: "from_d x = Inl e \<Longrightarrow> what_changed s x = Inl e"
    and unchanged: "from_d x = Inr (amount s) \<Longrightarrow> what_changed s x = Inr None"
    and increase: "from_d x = Inr d \<Longrightarrow> amount s < d \<Longrightarrow>
      \<exists>c. what_changed s x = Inr (Some c) \<and>
        (\<forall>t. apply_change t (Some c) = Inr (add_dec (amount t) (monus d (amount s))))"
    and decrease: "from_d x = Inr d \<Longrightarrow> d < amount s \<Longrightarrow>
      \<exists>c. what_changed s x = Inr (Some c) \<and>
        (\<forall>t. apply_change t (Some c) =
          Inr (if d = ZERO then ZERO else monus (amount t) (monus (amount s) d)))"
begin

lemma what_changed_total:
  assumes "from_d x = Inr d"
  shows "\<exists>c. what_changed s x = Inr c \<and> (\<exists>r. apply_change t c = Inr r \<and>
    (amount t = amount s \<longrightarrow> r = d) \<and> (d = ZERO \<and> amount s \<noteq> ZERO \<longrightarrow> r = ZERO) \<and>
    (amount t \<le> amount s \<longrightarrow> r \<le> d) \<and> (amount s \<le> amount t \<longrightarrow> d \<le> r))"
proof -
  consider "amount s < d" | "amount s = d" | "d < amount s" by (rule linorder_cases)
  then show ?thesis
  proof cases
    case 1
    let ?r = "add_dec (amount t) (monus d (amount s))"
    have "amount t = amount s \<Longrightarrow> ?r = d" "amount t \<le> amount s \<Longrightarrow> ?r \<le> d"
      "amount s \<le> amount t \<Longrightarrow> d \<le> ?r" "d \<noteq> ZERO"
      using 1 by (auto simp: decimal_order add_dec_def decimal_eq_iff)
    then show ?thesis using increase [OF assms 1] by blast
  next
    case 2
    then show ?thesis using unchanged assms apply_None by auto
  next
    case 3
    let ?r = "if d = ZERO then ZERO else monus (amount t) (monus (amount s) d)"
    have "amount t = amount s \<Longrightarrow> ?r = d" "d = ZERO \<Longrightarrow> ?r = ZERO"
      "amount t \<le> amount s \<Longrightarrow> ?r \<le> d" "amount s \<le> amount t \<Longrightarrow> d \<le> ?r"
      using 3 by (auto simp: decimal_order decimal_eq_iff)
    then show ?thesis using decrease [OF assms 3] by blast
  qed
qed

lemma throws_iff: "(\<exists>e. what_changed s x = Inl e) \<longleftrightarrow> (\<exists>e. from_d x = Inl e)"
proof (cases "from_d x")
  case (Inr d)
  then show ?thesis using what_changed_total [OF Inr, of s s] by auto
qed (use unparsed in auto)

lemma None_iff:
  assumes "from_d x = Inr d"
  shows "what_changed s x = Inr None \<longleftrightarrow> amount s = d"
  using unchanged increase decrease assms
  by (metis sum.inject(2) linorder_less_linear option.distinct(1))

end

section \<open>Stability deposits\<close>

record stability_deposit =
  initialBPD :: decimal
  currentBPD :: decimal
  sd_collateralGain :: decimal
  mpReward :: decimal
  frontendTag :: string

text \<open>
  \<open>StabilityDepositChange\<close>, which the code leaves untyped: an object with the three properties
  the class reads. A missing \<open>withdrawAllBPD\<close> counts as false.
\<close>

record stability_deposit_change =
  depositBPD :: "decimalish option"
  withdrawBPD :: "decimalish option"
  withdrawAllBPD :: bool

definition new_StabilityDeposit ::
  "decimal \<Rightarrow> decimal \<Rightarrow> decimal \<Rightarrow> decimal \<Rightarrow> string \<Rightarrow> stability_deposit result" where
  "new_StabilityDeposit initial current gain reward tag =
     (if current > initial
      then Inl (Error (''currentBPD can'' @ [CHR 0x27] @ ''t be greater than initialBPD''))
      else Inr \<lparr>initialBPD = initial, currentBPD = current, sd_collateralGain = gain,
                mpReward = reward, frontendTag = tag\<rparr>)"

definition sd_isEmpty :: "stability_deposit \<Rightarrow> bool" where
  "sd_isEmpty s \<longleftrightarrow> isZero (initialBPD s) \<and> isZero (currentBPD s) \<and>
     isZero (sd_collateralGain s) \<and> isZero (mpReward s)"

definition sd_equals :: "stability_deposit \<Rightarrow> stability_deposit \<Rightarrow> bool" where
  "sd_equals s t \<longleftrightarrow> initialBPD s = initialBPD t \<and> currentBPD s = currentBPD t \<and>
     sd_collateralGain s = sd_collateralGain t \<and> mpReward s = mpReward t \<and>
     frontendTag s = frontendTag t"

definition sd_toString :: "stability_deposit \<Rightarrow> string result" where
  "sd_toString s =
     bindE (toString (initialBPD s) None) (\<lambda>i. bindE (toString (currentBPD s) None) (\<lambda>c.
     bindE (toString (sd_collateralGain s) None) (\<lambda>g. bindE (toString (mpReward s) None) (\<lambda>r.
       Inr (''{ initialBPD: '' @ i @ '', currentBPD: '' @ c @ '', collateralGain: '' @ g @
            '', mpReward: '' @ r @ '', frontendTag: '' @ [CHR 0x22] @ frontendTag s @ [CHR 0x22] @ '' }'')))))"

definition sd_whatChanged ::
  "stability_deposit \<Rightarrow> decimalish \<Rightarrow> stability_deposit_change option result" where
  "sd_whatChanged s thatBPD =
     bindE (from_d thatBPD) (\<lambda>that.
       if that < currentBPD s then
         bindE (sub_dec (currentBPD s) that) (\<lambda>w.
           Inr (Some \<lparr>depositBPD = None, withdrawBPD = Some (DDecimal w), withdrawAllBPD = isZero that\<rparr>))
       else if that > currentBPD s then
         bindE (sub_dec that (currentBPD s)) (\<lambda>d.
           Inr (Some \<lparr>depositBPD = Some (DDecimal d), withdrawBPD = None, withdrawAllBPD = False\<rparr>))
       else Inr None)"

text \<open>An argument \<open>undefined\<close> of a decimal operation is not a \<open>Decimalish\<close>.\<close>

definition orUndefined :: "decimalish option \<Rightarrow> decimalish" where
  "orUndefined x = (case x of None \<Rightarrow> DOther | Some d \<Rightarrow> d)"

definition sd_apply :: "stability_deposit \<Rightarrow> stability_deposit_change option \<Rightarrow> decimal result" where
  "sd_apply s change =
     (case change of
        None \<Rightarrow> Inr (currentBPD s)
      | Some c \<Rightarrow>
          (case withdrawBPD c of
             Some w \<Rightarrow>
               if withdrawAllBPD c then Inr ZERO
               else bindE (lte_d (currentBPD s) w) (\<lambda>le.
                 if le then Inr ZERO else sub_d (currentBPD s) w)
           | None \<Rightarrow> add_d (currentBPD s) (orUndefined (depositBPD c))))"

interpretation deposit: amount_diff currentBPD sd_whatChanged sd_apply
  by unfold_locales
    (auto simp: sd_whatChanged_def sd_apply_def orUndefined_def sub_dec_monus isZero_iff
      decimal_eq_iff decimal_order)

section \<open>Stakes\<close>

record mp_stake =
  stakedMP :: decimal
  mp_collateralGain :: decimal
  bpdGain :: decimal

record mp_stake_change =
  stakeMP :: "decimalish option"
  unstakeMP :: "decimalish option"
  unstakeAllMP :: bool

definition new_MPStake :: "decimal option \<Rightarrow> decimal option \<Rightarrow> decimal option \<Rightarrow> mp_stake" where
  "new_MPStake staked gain bpd =
     \<lparr>stakedMP = orZero staked, mp_collateralGain = orZero gain, bpdGain = orZero bpd\<rparr>"

definition mp_isEmpty :: "mp_stake \<Rightarrow> bool" where
  "mp_isEmpty s \<longleftrightarrow> isZero (stakedMP s) \<and> isZero (mp_collateralGain s) \<and> isZero (bpdGain s)"

definition mp_equals :: "mp_stake \<Rightarrow> mp_stake \<Rightarrow> bool" where
  "mp_equals s t \<longleftrightarrow> stakedMP s = stakedMP t \<and> mp_collateralGain s = mp_collateralGain t \<and>
     bpdGain s = bpdGain t"

definition mp_toString :: "mp_stake \<Rightarrow> string result" where
  "mp_toString s =
     bindE (toString (stakedMP s) None) (\<lambda>i. bindE (toString (mp_collateralGain s) None) (\<lambda>g.
     bindE (toString (bpdGain s) None) (\<lambda>b.
       Inr (''{ stakedMP: '' @ i @ '', collateralGain: '' @ g @ '', bpdGain: '' @ b @ '' }''))))"

definition mp_whatChanged :: "mp_stake \<Rightarrow> decimalish \<Rightarrow> mp_stake_change option result" where
  "mp_whatChanged s thatStakedMP =
     bindE (from_d thatStakedMP) (\<lambda>that.
       if that < stakedMP s then
         bindE (sub_dec (stakedMP s) that) (\<lambda>w.
           Inr (Some \<lparr>stakeMP = None, unstakeMP = Some (DDecimal w), unstakeAllMP = isZero that\<rparr>))
       else if that > stakedMP s then
         bindE (sub_dec that (stakedMP s)) (\<lambda>d.
           Inr (Some \<lparr>stakeMP = Some (DDecimal d), unstakeMP = None, unstakeAllMP = False\<rparr>))
       else Inr None)"

definition mp_apply :: "mp_stake \<Rightarrow> mp_stake_change option \<Rightarrow> decimal result" where
  "mp_apply s change =
     (case change of
        None \<Rightarrow> Inr (stakedMP s)
      | Some c \<Rightarrow>
          (case unstakeMP c of
             Some w \<Rightarrow>
               if unstakeAllMP c then Inr ZERO
               else bindE (lte_d (stakedMP s) w) (\<lambda>le.
                 if le then Inr ZERO else sub_d (stakedMP s) w)
           | None \<Rightarrow> add_d (stakedMP s) (orUndefined (stakeMP c))))"

interpretation mpstake: amount_diff stakedMP mp_whatChanged mp_apply
  by unfold_locales
    (auto simp: mp_whatChanged_def mp_apply_def orUndefined_def sub_dec_monus isZero_iff
      decimal_eq_iff decimal_order)

section \<open>Properties\<close>

text \<open>
  Stability deposits: a change to a parsable amount is computed and applied without
  error on every deposit \<open>t\<close>; on a deposit of the same amount it yields the target, a change to
  zero empties every deposit, a smaller deposit ends with at most the target and a larger
  one with at least the target.
\<close>

lemma deposit_diff_roundtrip:
  assumes "from_d x = Inr d"
  shows "\<exists>c r. sd_whatChanged s x = Inr c \<and> sd_apply t c = Inr r \<and>
    (currentBPD t = currentBPD s \<longrightarrow> r = d) \<and>
    (d = ZERO \<and> currentBPD s \<noteq> ZERO \<longrightarrow> r = ZERO) \<and>
    (currentBPD t \<le> currentBPD s \<longrightarrow> r \<le> d) \<and> (currentBPD s \<le> currentBPD t \<longrightarrow> d \<le> r) \<and>
    (c = None \<longleftrightarrow> currentBPD s = d)"
  using deposit.what_changed_total [OF assms, of s t] deposit.None_iff [OF assms, of s] by auto

theorem deposit_diff_roundtrip_witness:
  "\<exists>c. sd_whatChanged \<lparr>initialBPD = ONE, currentBPD = ONE, sd_collateralGain = ZERO,
       mpReward = ZERO, frontendTag = ''''\<rparr> (DNumber ''0.5'') = Inr c \<and>
    sd_apply \<lparr>initialBPD = ONE, currentBPD = ONE, sd_collateralGain = ZERO,
       mpReward = ZERO, frontendTag = ''''\<rparr> c = Inr HALF"
  using deposit_diff_roundtrip [OF small_literals(3), of
    "\<lparr>initialBPD = ONE, currentBPD = ONE, sd_collateralGain = ZERO, mpReward = ZERO, frontendTag = ''''\<rparr>"
    "\<lparr>initialBPD = ONE, currentBPD = ONE, sd_collateralGain = ZERO, mpReward = ZERO, frontendTag = ''''\<rparr>"]
  by auto

text \<open>
  The diff of stakes: the same guarantees for \<open>MPStake\<close>, and a throw exactly for an amount
  that does not parse.
\<close>

lemma stake_diff_roundtrip:
  "((\<exists>e. mp_whatChanged s x = Inl e) \<longleftrightarrow> (\<exists>e. from_d x = Inl e)) \<and>
   (\<forall>d. from_d x = Inr d \<longrightarrow> (\<exists>c r. mp_whatChanged s x = Inr c \<and> mp_apply t c = Inr r \<and>
     (stakedMP t = stakedMP s \<longrightarrow> r = d) \<and> (d = ZERO \<and> stakedMP s \<noteq> ZERO \<longrightarrow> r = ZERO) \<and>
     (stakedMP t \<le> stakedMP s \<longrightarrow> r \<le> d) \<and> (stakedMP s \<le> stakedMP t \<longrightarrow> d \<le> r)))"
proof (intro conjI allI impI)
  show "(\<exists>e. mp_whatChanged s x = Inl e) \<longleftrightarrow> (\<exists>e. from_d x = Inl e)"
    by (rule mpstake.throws_iff)
next
  fix d
  assume "from_d x = Inr d"
  from mpstake.what_changed_total [OF this, of s t]
  show "\<exists>c r. mp_whatChanged s x = Inr c \<and> mp_apply t c = Inr r \<and>
     (stakedMP t = stakedMP s \<longrightarrow> r = d) \<and> (d = ZERO \<and> stakedMP s \<noteq> ZERO \<longrightarrow> r = ZERO) \<and>
     (stakedMP t \<le> stakedMP s \<longrightarrow> r \<le> d) \<and> (stakedMP s \<le> stakedMP t \<longrightarrow> d \<le> r)"
    by blast
qed

theorem stake_diff_roundtrip_witness:
  "\<exists>c. mp_whatChanged (new_MPStake None None None) (DNumber ''1'') = Inr c \<and>
    mp_apply (new_MPStake None None None) c = Inr ONE"
  using stake_diff_roundtrip [of "new_MPStake None None None" "DNumber ''1''" "new_MPStake None None None"]
    small_literals(2) by blast

end
