(* ===== verification/Fee_Rates.thy ===== *)
theory Fee_Rates
  imports Vault_Changes Decimal_Power
begin

text \<open>
  \<open>Fees.ts\<close>: the base rate decays by a factor per minute; borrowing and redemption rates are
  the base rate within fixed limits. A \<open>Date\<close> is its \<open>getTime()\<close>, a (valid) number of milliseconds.
\<close>

section \<open>The class Fees\<close>

record fees =
  baseRateWithoutDecay :: decimal
  minuteDecayFactor :: decimal
  beta :: decimal
  lastFeeOperation :: int
  timeOfLatestBlock :: int
  recoveryMode :: bool

definition new_Fees ::
  "decimalish \<Rightarrow> decimalish \<Rightarrow> decimalish \<Rightarrow> int \<Rightarrow> int \<Rightarrow> bool \<Rightarrow> fees result" where
  "new_Fees rate factor b lastOp latest recovery =
     bindE (from_d rate) (\<lambda>r. bindE (from_d factor) (\<lambda>f. bindE (from_d b) (\<lambda>be.
     bindE (lt_d f (DNumber ''1'')) (\<lambda>ok.
       assertE ok (Inr \<lparr>baseRateWithoutDecay = r, minuteDecayFactor = f, beta = be,
         lastFeeOperation = lastOp, timeOfLatestBlock = latest, recoveryMode = recovery\<rparr>)))))"

definition setRecoveryMode :: "fees \<Rightarrow> bool \<Rightarrow> fees result" where
  "setRecoveryMode f recovery =
     new_Fees (DDecimal (baseRateWithoutDecay f)) (DDecimal (minuteDecayFactor f)) (DDecimal (beta f))
       (lastFeeOperation f) (timeOfLatestBlock f) recovery"

definition fees_equals :: "fees \<Rightarrow> fees \<Rightarrow> bool" where
  "fees_equals f g \<longleftrightarrow> baseRateWithoutDecay f = baseRateWithoutDecay g \<and>
     minuteDecayFactor f = minuteDecayFactor g \<and> beta f = beta g \<and>
     lastFeeOperation f = lastFeeOperation g \<and> timeOfLatestBlock f = timeOfLatestBlock g \<and>
     (recoveryMode f \<longleftrightarrow> recoveryMode g)"

text \<open>The format of \<open>toLocaleString\<close> depends on the host, hence a parameter.\<close>

definition fees_toString :: "(int \<Rightarrow> string) \<Rightarrow> fees \<Rightarrow> string result" where
  "fees_toString toLocaleString f =
     bindE (toString (baseRateWithoutDecay f) None) (\<lambda>r.
       Inr (''{ baseRateWithoutDecay: '' @ r @ '', lastFeeOperation: '' @
            [CHR 0x22] @ toLocaleString (lastFeeOperation f) @ [CHR 0x22] @
            '', recoveryMode: '' @ (if recoveryMode f then ''true'' else ''false'') @ '' } ''))"

definition minutesSinceLastFeeOperation :: "fees \<Rightarrow> int option \<Rightarrow> int" where
  "minutesSinceLastFeeOperation f w =
     (let t = (case w of None \<Rightarrow> timeOfLatestBlock f | Some t \<Rightarrow> t);
          milliseconds = max (t - lastFeeOperation f) 0
      in milliseconds div 60000)"

definition baseRate :: "fees \<Rightarrow> int option \<Rightarrow> decimal result" where
  "baseRate f w =
     bindE (pow_d (minuteDecayFactor f) (minutesSinceLastFeeOperation f w)) (\<lambda>p.
       Inr (mul_dec p (baseRateWithoutDecay f)))"

definition borrowingRate :: "fees \<Rightarrow> int option \<Rightarrow> decimal result" where
  "borrowingRate f w =
     (if recoveryMode f then Inr ZERO
      else bindE (baseRate f w) (\<lambda>b.
        min_d (DDecimal (add_dec MINIMUM_BORROWING_RATE b)) (DDecimal MAXIMUM_BORROWING_RATE)))"

definition redemptionRate :: "fees \<Rightarrow> decimalish option \<Rightarrow> int option \<Rightarrow> decimal result" where
  "redemptionRate f fraction w =
     bindE (from_d (case fraction of None \<Rightarrow> DDecimal ZERO | Some x \<Rightarrow> x)) (\<lambda>redeemedFraction.
     bindE (baseRate f w) (\<lambda>b.
       let b' = (if nonZero redeemedFraction \<noteq> None then add_dec (div_dec redeemedFraction (beta f)) b
                 else b)
       in min_d (DDecimal (add_dec MINIMUM_REDEMPTION_RATE b')) (DDecimal ONE)))"

section \<open>The decay\<close>

lemma constructed_factor: "new_Fees r g b l t m = Inr f \<Longrightarrow> minuteDecayFactor f < ONE"
  using small_literals(2)
  by (auto simp: new_Fees_def bindE_eq_Inr_iff assertE_eq_Inr_iff lt_d_def simp del: from_d.simps)

lemma minutes_nonneg: "0 \<le> minutesSinceLastFeeOperation f w"
  by (simp add: minutesSinceLastFeeOperation_def Let_def)

lemma decayed:
  assumes "minuteDecayFactor f \<le> ONE" "minutesSinceLastFeeOperation f w \<le> 0xffffffff"
  shows "\<exists>u. baseRate f w = Inr (mul_dec u (baseRateWithoutDecay f)) \<and>
    power_approx (real (bigNumber (minuteDecayFactor f)) / real DIGITS)
      (nat (minutesSinceLastFeeOperation f w)) (bigNumber u)"
  using pow_approx [OF assms(1) minutes_nonneg assms(2)] by (auto simp: baseRate_def)

lemma mul_dec_le_right:
  assumes "bigNumber u \<le> DIGITS"
  shows "mul_dec u b \<le> b"
proof -
  have "bigNumber u * bigNumber b div DIGITS \<le> DIGITS * bigNumber b div DIGITS"
    using assms by (intro div_le_mono mult_le_mono1)
  then show ?thesis by (simp add: mul_dec_def less_eq_decimal_def)
qed

lemma div_dec_mono: "x \<le> y \<Longrightarrow> div_dec x b \<le> div_dec y b"
  by (simp add: div_dec_def less_eq_decimal_def div_le_mono)

lemma power_approx_error: "power_approx x n u \<Longrightarrow> \<bar>real u - real DIGITS * x ^ n\<bar> \<le> real n / 2"
  by (auto simp: power_approx_def split: if_splits)

lemma mul_dec_error:
  assumes "\<bar>real (bigNumber u) - real DIGITS * p\<bar> \<le> e"
  shows "\<bar>real (bigNumber (mul_dec u b)) - real (bigNumber b) * p\<bar> \<le> 1 + real (bigNumber b) * e / real DIGITS"
proof -
  let ?D = "real DIGITS" and ?u = "real (bigNumber u)" and ?b = "real (bigNumber b)"
  let ?m = "real (bigNumber (mul_dec u b))"
  have D: "0 < ?D" by simp
  have "?m * ?D \<le> ?u * ?b" "?u * ?b < (?m + 1) * ?D"
  proof -
    have "bigNumber (mul_dec u b) * DIGITS \<le> bigNumber u * bigNumber b"
      "bigNumber u * bigNumber b < (bigNumber (mul_dec u b) + 1) * DIGITS"
      using div_mult_bounds [OF DIGITS_pos, of "bigNumber u * bigNumber b"] by (simp_all add: mul_dec_def)
    then have "real (bigNumber (mul_dec u b) * DIGITS) \<le> real (bigNumber u * bigNumber b)"
      "real (bigNumber u * bigNumber b) < real ((bigNumber (mul_dec u b) + 1) * DIGITS)"
      by (simp_all only: of_nat_le_iff of_nat_less_iff)
    then show "?m * ?D \<le> ?u * ?b" "?u * ?b < (?m + 1) * ?D"
      by (simp_all only: of_nat_mult of_nat_add of_nat_1)
  qed
  then have "?m \<le> ?u * ?b / ?D" "?u * ?b / ?D \<le> ?m + 1"
    using D by (simp_all add: field_simps)
  moreover have "\<bar>?u * ?b / ?D - ?b * p\<bar> \<le> ?b * e / ?D"
  proof -
    have "?u * ?b / ?D - ?b * p = ?b * (?u - ?D * p) / ?D" using D by (simp add: field_simps)
    then have "\<bar>?u * ?b / ?D - ?b * p\<bar> = ?b * \<bar>?u - ?D * p\<bar> / ?D" by (simp add: abs_mult)
    then show ?thesis using assms D by (simp add: divide_right_mono mult_left_mono)
  qed
  ultimately show ?thesis by linarith
qed

text \<open>Fees for the witnesses: a base rate of 50% that halves every minute.\<close>

definition sample_fees :: fees where
  "sample_fees = \<lparr>baseRateWithoutDecay = HALF, minuteDecayFactor = HALF, beta = ONE,
     lastFeeOperation = 60000, timeOfLatestBlock = 60000, recoveryMode = False\<rparr>"

lemma sample_fees_constructed:
  "new_Fees (DDecimal HALF) (DDecimal HALF) (DDecimal ONE) 60000 60000 False = Inr sample_fees"
  using small_literals(2)
  by (simp add: new_Fees_def lt_d_def assertE_def sample_fees_def HALF_def ONE_def decimal_order
      del: from_d.simps(3))

section \<open>Properties\<close>

text \<open>
  C38. The base rate of a constructed \<open>Fees\<close> decays exponentially: for up to \<open>2 ^ 32 - 1\<close> elapsed
  minutes it is computed, is at most the rate without decay, and is within 1 wei plus half a
  wei per minute (scaled by the rate) of rate times factor to the power of the minutes; a
  time before the last fee operation counts as no time at all.
\<close>

theorem baseRate_decays:
  assumes "new_Fees r g b l t m = Inr f" "minutesSinceLastFeeOperation f w \<le> 0xffffffff"
  shows "\<exists>B. baseRate f w = Inr B \<and> B \<le> baseRateWithoutDecay f \<and>
    \<bar>real (bigNumber B) - real (bigNumber (baseRateWithoutDecay f)) *
        (real (bigNumber (minuteDecayFactor f)) / real DIGITS) ^ nat (minutesSinceLastFeeOperation f w)\<bar>
      \<le> 1 + real (bigNumber (baseRateWithoutDecay f)) * (real (nat (minutesSinceLastFeeOperation f w)) / 2) / real DIGITS \<and>
    (\<forall>past. past \<le> lastFeeOperation f \<longrightarrow> baseRate f (Some past) = Inr (baseRateWithoutDecay f))"
proof -
  let ?n = "nat (minutesSinceLastFeeOperation f w)"
  have f: "minuteDecayFactor f \<le> ONE" using constructed_factor [OF assms(1)] by (rule less_imp_le)
  obtain u where u: "baseRate f w = Inr (mul_dec u (baseRateWithoutDecay f))"
    "power_approx (real (bigNumber (minuteDecayFactor f)) / real DIGITS) ?n (bigNumber u)"
    using decayed [OF f assms(2)] by blast
  then have "bigNumber u \<le> DIGITS" by (simp add: power_approx_def)
  moreover have "baseRate f (Some past) = Inr (baseRateWithoutDecay f)" if "past \<le> lastFeeOperation f" for past
    using that by (simp add: baseRate_def minutesSinceLastFeeOperation_def pow_d_def mul_dec_def decimal_eq_iff)
  ultimately show ?thesis
    using u mul_dec_error [OF power_approx_error [OF u(2)]] mul_dec_le_right by blast
qed

theorem baseRate_decays_witness:
  "\<exists>B. baseRate sample_fees None = Inr B \<and> B \<le> HALF"
  using baseRate_decays [OF sample_fees_constructed, of None]
  by (auto simp: sample_fees_def minutesSinceLastFeeOperation_def)

text \<open>
  The rates of a constructed \<open>Fees\<close> stay within their limits: the borrowing rate is zero in
  recovery mode and otherwise between 0.5% and 5%, the redemption rate between 0.5% and 100%.
\<close>

lemma rates_bounded:
  assumes "new_Fees r g b l t m = Inr f" "minutesSinceLastFeeOperation f w \<le> 0xffffffff"
    and "from_d fraction = Inr x"
  shows "\<exists>br rr. borrowingRate f w = Inr br \<and> redemptionRate f (Some fraction) w = Inr rr \<and>
    (if recoveryMode f then br = ZERO else MINIMUM_BORROWING_RATE \<le> br \<and> br \<le> MAXIMUM_BORROWING_RATE) \<and>
    MINIMUM_REDEMPTION_RATE \<le> rr \<and> rr \<le> ONE"
proof -
  obtain B where "baseRate f w = Inr B"
    using decayed [OF less_imp_le [OF constructed_factor [OF assms(1)]] assms(2)] by blast
  moreover have "MINIMUM_BORROWING_RATE \<le> MAXIMUM_BORROWING_RATE" "MINIMUM_REDEMPTION_RATE \<le> ONE"
    by (simp_all add: constant_defs ONE_def decimal_order)
  ultimately show ?thesis
    using assms(3)
    by (auto simp: borrowingRate_def redemptionRate_def Let_def min_d_def decimal_order add_dec_def)
qed

theorem rates_bounded_witness:
  "\<exists>rr. redemptionRate sample_fees (Some (DDecimal ONE)) (Some 120000) = Inr rr \<and> rr \<le> ONE"
  using rates_bounded [OF sample_fees_constructed, of "Some 120000" "DDecimal ONE" ONE]
  by (auto simp: sample_fees_def minutesSinceLastFeeOperation_def)

text \<open>
  Redeeming a larger fraction of the supply is never cheaper: the redemption rate is
  monotone in the fraction.
\<close>

lemma redemptionRate_mono:
  assumes "redemptionRate f (Some (DDecimal x)) w = Inr rx" "x \<le> y"
  shows "\<exists>ry. redemptionRate f (Some (DDecimal y)) w = Inr ry \<and> rx \<le> ry"
proof -
  from assms(1) obtain B where B: "baseRate f w = Inr B"
    by (auto simp: redemptionRate_def bindE_eq_Inr_iff)
  define rate where "rate z = add_dec MINIMUM_REDEMPTION_RATE
      (if z \<noteq> ZERO then add_dec (div_dec z (beta f)) B else B)" for z
  have eq: "redemptionRate f (Some (DDecimal z)) w = Inr (if rate z < ONE then rate z else ONE)" for z
    by (simp add: redemptionRate_def B rate_def)
  have "rate x \<le> rate y"
    using assms(2) div_dec_mono [OF assms(2), of "beta f"]
    by (auto simp: rate_def add_dec_def decimal_order decimal_eq_iff)
  then show ?thesis using assms(1) by (auto simp: eq)
qed

theorem redemptionRate_mono_witness:
  "\<exists>ry. redemptionRate sample_fees (Some (DDecimal HALF)) None = Inr ry \<and> Decimal 505000000000000000 \<le> ry"
proof -
  have "redemptionRate sample_fees (Some (DDecimal ZERO)) None = Inr (Decimal 505000000000000000)"
    by (simp add: redemptionRate_def baseRate_def sample_fees_def minutesSinceLastFeeOperation_def
        pow_d_def mul_dec_def add_dec_def nonZero_def constant_defs HALF_def ONE_def DIGITS_def decimal_order)
  from redemptionRate_mono [OF this, of HALF] show ?thesis by simp
qed

end
