(* ===== verification/Store.thy ===== *)
theory Store
  imports Deposits Fee_Rates "HOL-Library.AList"
begin

text \<open>
  \<open>MoneypStore.ts\<close>: the observable store, its base state as read from the chain, the state
  derived from it, the reduction of updates, the update timer, listeners and notification.

  The code compares states by reference (\<open>value !== b[key]\<close>). The model compares values: the
  reducers keep the old object unless the new one is not equal to it, and every \<open>equals\<close> used is
  the equality of the model (\<open>state_equalities\<close>), so a reference differs exactly when its value does.
\<close>

section \<open>State\<close>

datatype frontend_status = Unregistered | Registered (kickbackRate: decimal)

record base_state =
  frontend :: frontend_status
  ownFrontend :: frontend_status
  numberOfVaults :: int
  accountBalance :: decimal
  bpdBalance :: decimal
  mpBalance :: decimal
  collateralSurplusBalance :: decimal
  price :: decimal
  bpdInStabilityPool :: decimal
  totalVault :: vault
  totalRedistributed :: vault
  vaultBeforeRedistribution :: vault_with_pending_redistribution
  stabilityDeposit :: stability_deposit
  remainingStabilityPoolMPReward :: decimal
  feesInNormalMode :: fees
  mpStake :: mp_stake
  totalStakedMP :: decimal
  riskiestVaultBeforeRedistribution :: vault_with_pending_redistribution

text \<open>\<open>Partial<MoneypStoreBaseState>\<close>\<close>

record base_state_update =
  u_frontend :: "frontend_status option"
  u_ownFrontend :: "frontend_status option"
  u_numberOfVaults :: "int option"
  u_accountBalance :: "decimal option"
  u_bpdBalance :: "decimal option"
  u_mpBalance :: "decimal option"
  u_collateralSurplusBalance :: "decimal option"
  u_price :: "decimal option"
  u_bpdInStabilityPool :: "decimal option"
  u_totalVault :: "vault option"
  u_totalRedistributed :: "vault option"
  u_vaultBeforeRedistribution :: "vault_with_pending_redistribution option"
  u_stabilityDeposit :: "stability_deposit option"
  u_remainingStabilityPoolMPReward :: "decimal option"
  u_feesInNormalMode :: "fees option"
  u_mpStake :: "mp_stake option"
  u_totalStakedMP :: "decimal option"
  u_riskiestVaultBeforeRedistribution :: "vault_with_pending_redistribution option"

record derived_state =
  d_vault :: user_vault
  d_fees :: fees
  d_borrowingRate :: decimal
  d_redemptionRate :: decimal
  haveUndercollateralizedVaults :: bool

text \<open>The values of the combined state; \<open>'v\<close> are the values of the extra state of a subclass.\<close>

datatype 'v store_value =
    FrontendV frontend_status
  | NumberV int
  | DecimalV decimal
  | VaultV vault
  | UserVaultV user_vault
  | PendingV vault_with_pending_redistribution
  | DepositV stability_deposit
  | FeesV fees
  | StakeV mp_stake
  | BoolV bool
  | ExtraV 'v

type_synonym 'v extra_state = "(string \<times> 'v) list"
type_synonym 'v store_state = "(string \<times> 'v store_value) list"

record 'v listener_params =
  newState :: "'v store_state"
  oldState :: "'v store_state"
  stateChange :: "'v store_state"

text \<open>What can be observed of the store: console lines, the \<open>onLoaded\<close> call and calls of listeners.\<close>

datatype 'v event =
    Console string
  | OnLoaded
  | Notified nat "'v listener_params"

text \<open>
  The object with its private fields. Listeners and timers are numbered in the order of their
  creation; \<open>timers\<close> are the pending ones of the host.
\<close>

record 'v store =
  logging :: bool
  hasOnLoaded :: bool
  loaded :: bool
  baseState :: "base_state option"
  derivedState :: "derived_state option"
  extraState :: "'v extra_state option"
  updateTimeoutId :: "nat option"
  listeners :: "nat list"
  timers :: "nat list"
  nextTimer :: nat
  nextListener :: nat
  trace :: "'v event list"

definition new_store :: "bool \<Rightarrow> bool \<Rightarrow> 'v store" where
  "new_store lg onLoaded =
     \<lparr>logging = lg, hasOnLoaded = onLoaded, loaded = False, baseState = None, derivedState = None,
      extraState = None, updateTimeoutId = None, listeners = [], timers = [], nextTimer = 0,
      nextListener = 0, trace = []\<rparr>"

section \<open>Comparing and showing\<close>

definition strictEquals :: "'a \<Rightarrow> 'a \<Rightarrow> bool" where
  "strictEquals a b \<longleftrightarrow> a = b"

definition eq_decimal :: "decimal \<Rightarrow> decimal \<Rightarrow> bool" where
  "eq_decimal a b \<longleftrightarrow> bigNumber a = bigNumber b"

fun frontendStatusEquals :: "frontend_status \<Rightarrow> frontend_status \<Rightarrow> bool" where
  "frontendStatusEquals Unregistered b = (b = Unregistered)"
| "frontendStatusEquals (Registered r) b =
     (case b of Registered r' \<Rightarrow> eq_decimal r r' | Unregistered \<Rightarrow> False)"

definition show_decimal :: "decimal \<Rightarrow> string result" where
  "show_decimal d = toString d None"

definition show_number :: "int \<Rightarrow> string result" where
  "show_number n = Inr (int_to_string n)"

definition show_bool :: "bool \<Rightarrow> string result" where
  "show_bool b = Inr (if b then ''true'' else ''false'')"

fun showFrontendStatus :: "frontend_status \<Rightarrow> string result" where
  "showFrontendStatus Unregistered =
     Inr (''{ status: '' @ [CHR 0x22] @ ''unregistered'' @ [CHR 0x22] @ '' }'')"
| "showFrontendStatus (Registered r) =
     bindE (toString r None) (\<lambda>s.
       Inr (''{ status: '' @ [CHR 0x22] @ ''registered'' @ [CHR 0x22] @ '', kickbackRate: '' @ s @ '' }''))"

definition difference_of :: "'v store_state \<Rightarrow> 'v store_state \<Rightarrow> 'v store_state" where
  "difference_of a b = filter (\<lambda>(key, value). Some value \<noteq> map_of b key) a"

text \<open>\<open>Object.assign\<close>: a key keeps its place and takes the last value.\<close>

definition assign :: "(string \<times> 'a) list \<Rightarrow> (string \<times> 'a) list \<Rightarrow> (string \<times> 'a) list" where
  "assign target source = foldl (\<lambda>o' (k, v). AList.update k v o') target source"

definition base_entries :: "base_state \<Rightarrow> 'v store_state" where
  "base_entries b =
    [(''frontend'', FrontendV (frontend b)),
     (''ownFrontend'', FrontendV (ownFrontend b)),
     (''numberOfVaults'', NumberV (numberOfVaults b)),
     (''accountBalance'', DecimalV (accountBalance b)),
     (''bpdBalance'', DecimalV (bpdBalance b)),
     (''mpBalance'', DecimalV (mpBalance b)),
     (''collateralSurplusBalance'', DecimalV (collateralSurplusBalance b)),
     (''price'', DecimalV (price b)),
     (''bpdInStabilityPool'', DecimalV (bpdInStabilityPool b)),
     (''total'', VaultV (totalVault b)),
     (''totalRedistributed'', VaultV (totalRedistributed b)),
     (''vaultBeforeRedistribution'', PendingV (vaultBeforeRedistribution b)),
     (''stabilityDeposit'', DepositV (stabilityDeposit b)),
     (''remainingStabilityPoolMPReward'', DecimalV (remainingStabilityPoolMPReward b)),
     (''_feesInNormalMode'', FeesV (feesInNormalMode b)),
     (''mpStake'', StakeV (mpStake b)),
     (''totalStakedMP'', DecimalV (totalStakedMP b)),
     (''_riskiestVaultBeforeRedistribution'', PendingV (riskiestVaultBeforeRedistribution b))]"

definition derived_entries :: "derived_state \<Rightarrow> 'v store_state" where
  "derived_entries d =
    [(''fees'', FeesV (d_fees d)), (''vault'', UserVaultV (d_vault d)),
     (''borrowingRate'', DecimalV (d_borrowingRate d)),
     (''redemptionRate'', DecimalV (d_redemptionRate d)),
     (''haveUndercollateralizedVaults'', BoolV (haveUndercollateralizedVaults d))]"

definition extra_entries :: "'v extra_state \<Rightarrow> 'v store_state" where
  "extra_entries x = map (\<lambda>(k, v). (k, ExtraV v)) x"

definition entries_or_none :: "('a \<Rightarrow> 'v store_state) \<Rightarrow> 'a option \<Rightarrow> 'v store_state" where
  "entries_or_none f x = (case x of None \<Rightarrow> [] | Some y \<Rightarrow> f y)"

definition state :: "'v store \<Rightarrow> 'v store_state" where
  "state s = assign (assign (assign [] (entries_or_none base_entries (baseState s)))
     (entries_or_none derived_entries (derivedState s))) (entries_or_none extra_entries (extraState s))"

section \<open>Reducing updates\<close>

text \<open>A value together with the console lines that computing it prints.\<close>

type_synonym 'a logged = "('a \<times> string list) result"

definition bindL :: "'a logged \<Rightarrow> ('a \<Rightarrow> 'b logged) \<Rightarrow> 'b logged" where
  "bindL m f = bindE m (\<lambda>(a, l). bindE (f a) (\<lambda>(b, l'). Inr (b, l @ l')))"

definition logUpdate :: "bool \<Rightarrow> string \<Rightarrow> ('a \<Rightarrow> string result) \<Rightarrow> 'a \<Rightarrow> 'a logged" where
  "logUpdate lg name shown next =
     (if lg then bindE (shown next) (\<lambda>t. Inr (next, [name @ '' updated to '' @ t])) else Inr (next, []))"

definition updateIfChanged ::
  "bool \<Rightarrow> ('a \<Rightarrow> 'a \<Rightarrow> bool) \<Rightarrow> string \<Rightarrow> 'a \<Rightarrow> 'a option \<Rightarrow> ('a \<Rightarrow> string result) \<Rightarrow> 'a logged" where
  "updateIfChanged lg eqv name prev next shown =
     (case next of
        Some n \<Rightarrow> if \<not> eqv prev n then logUpdate lg name shown n else Inr (prev, [])
      | None \<Rightarrow> Inr (prev, []))"

definition silentlyUpdateIfChanged :: "('a \<Rightarrow> 'a \<Rightarrow> bool) \<Rightarrow> 'a \<Rightarrow> 'a option \<Rightarrow> 'a logged" where
  "silentlyUpdateIfChanged eqv prev next =
     (case next of
        Some n \<Rightarrow> if \<not> eqv prev n then Inr (n, []) else Inr (prev, [])
      | None \<Rightarrow> Inr (prev, []))"

definition updateFees ::
  "(int \<Rightarrow> string) \<Rightarrow> bool \<Rightarrow> string \<Rightarrow> fees \<Rightarrow> fees option \<Rightarrow> fees logged" where
  "updateFees toLocaleString lg name prev next =
     (case next of
        Some n \<Rightarrow>
          if \<not> fees_equals n prev then
            bindE (fees_toString toLocaleString n) (\<lambda>shown.
            bindE (fees_toString toLocaleString prev) (\<lambda>before.
              if shown \<noteq> before then logUpdate lg name (fees_toString toLocaleString) n
              else Inr (n, [])))
          else Inr (prev, [])
      | None \<Rightarrow> Inr (prev, []))"

definition reduce_base :: "bool \<Rightarrow> base_state \<Rightarrow> base_state_update \<Rightarrow> base_state logged" where
  "reduce_base lg b u =
    bindL (updateIfChanged lg frontendStatusEquals ''frontend'' (frontend b) (u_frontend u) showFrontendStatus) (\<lambda>v0.
    bindL (updateIfChanged lg frontendStatusEquals ''ownFrontend'' (ownFrontend b) (u_ownFrontend u) showFrontendStatus) (\<lambda>v1.
    bindL (updateIfChanged lg strictEquals ''numberOfVaults'' (numberOfVaults b) (u_numberOfVaults u) show_number) (\<lambda>v2.
    bindL (updateIfChanged lg eq_decimal ''accountBalance'' (accountBalance b) (u_accountBalance u) show_decimal) (\<lambda>v3.
    bindL (updateIfChanged lg eq_decimal ''bpdBalance'' (bpdBalance b) (u_bpdBalance u) show_decimal) (\<lambda>v4.
    bindL (updateIfChanged lg eq_decimal ''mpBalance'' (mpBalance b) (u_mpBalance u) show_decimal) (\<lambda>v5.
    bindL (updateIfChanged lg eq_decimal ''collateralSurplusBalance'' (collateralSurplusBalance b) (u_collateralSurplusBalance u) show_decimal) (\<lambda>v6.
    bindL (updateIfChanged lg eq_decimal ''price'' (price b) (u_price u) show_decimal) (\<lambda>v7.
    bindL (updateIfChanged lg eq_decimal ''bpdInStabilityPool'' (bpdInStabilityPool b) (u_bpdInStabilityPool u) show_decimal) (\<lambda>v8.
    bindL (updateIfChanged lg vault_equals ''total'' (totalVault b) (u_totalVault u) vault_toString) (\<lambda>v9.
    bindL (updateIfChanged lg vault_equals ''totalRedistributed'' (totalRedistributed b) (u_totalRedistributed u) vault_toString) (\<lambda>v10.
    bindL (updateIfChanged lg pending_vault_equals ''vaultBeforeRedistribution'' (vaultBeforeRedistribution b) (u_vaultBeforeRedistribution u) user_vault_toString) (\<lambda>v11.
    bindL (updateIfChanged lg sd_equals ''stabilityDeposit'' (stabilityDeposit b) (u_stabilityDeposit u) sd_toString) (\<lambda>v12.
    bindL (silentlyUpdateIfChanged eq_decimal (remainingStabilityPoolMPReward b) (u_remainingStabilityPoolMPReward u)) (\<lambda>v13.
    bindL (silentlyUpdateIfChanged fees_equals (feesInNormalMode b) (u_feesInNormalMode u)) (\<lambda>v14.
    bindL (updateIfChanged lg mp_equals ''mpStake'' (mpStake b) (u_mpStake u) mp_toString) (\<lambda>v15.
    bindL (updateIfChanged lg eq_decimal ''totalStakedMP'' (totalStakedMP b) (u_totalStakedMP u) show_decimal) (\<lambda>v16.
    bindL (silentlyUpdateIfChanged pending_vault_equals (riskiestVaultBeforeRedistribution b) (u_riskiestVaultBeforeRedistribution u)) (\<lambda>v17.
    Inr (\<lparr>frontend = v0, ownFrontend = v1, numberOfVaults = v2, accountBalance = v3, bpdBalance = v4, mpBalance = v5, collateralSurplusBalance = v6, price = v7, bpdInStabilityPool = v8, totalVault = v9, totalRedistributed = v10, vaultBeforeRedistribution = v11, stabilityDeposit = v12, remainingStabilityPoolMPReward = v13, feesInNormalMode = v14, mpStake = v15, totalStakedMP = v16, riskiestVaultBeforeRedistribution = v17\<rparr>, [])))))))))))))))))))"

definition derive :: "base_state \<Rightarrow> derived_state result" where
  "derive b =
     bindE (collateralRatioIsBelowCritical (totalVault b) (DDecimal (price b))) (\<lambda>recovery.
     bindE (setRecoveryMode (feesInNormalMode b) recovery) (\<lambda>f.
     bindE (applyRedistribution (vaultBeforeRedistribution b) (totalRedistributed b)) (\<lambda>v.
     bindE (borrowingRate f None) (\<lambda>br.
     bindE (redemptionRate f None None) (\<lambda>rr.
     bindE (applyRedistribution (riskiestVaultBeforeRedistribution b) (totalRedistributed b)) (\<lambda>riskiest.
     bindE (collateralRatioIsBelowMinimum riskiest (DDecimal (price b))) (\<lambda>under.
       Inr \<lparr>d_vault = v, d_fees = f, d_borrowingRate = br, d_redemptionRate = rr,
            haveUndercollateralizedVaults = under\<rparr>)))))))"

definition reduceDerived ::
  "(int \<Rightarrow> string) \<Rightarrow> bool \<Rightarrow> derived_state \<Rightarrow> derived_state \<Rightarrow> derived_state logged" where
  "reduceDerived toLocaleString lg d u =
    bindL (updateFees toLocaleString lg ''fees'' (d_fees d) (Some (d_fees u))) (\<lambda>f.
    bindL (updateIfChanged lg user_vault_equals ''vault'' (d_vault d) (Some (d_vault u)) user_vault_toString) (\<lambda>v.
    bindL (silentlyUpdateIfChanged eq_decimal (d_borrowingRate d) (Some (d_borrowingRate u))) (\<lambda>br.
    bindL (silentlyUpdateIfChanged eq_decimal (d_redemptionRate d) (Some (d_redemptionRate u))) (\<lambda>rr.
    bindL (updateIfChanged lg strictEquals ''haveUndercollateralizedVaults''
        (haveUndercollateralizedVaults d) (Some (haveUndercollateralizedVaults u)) show_bool) (\<lambda>h.
      Inr (\<lparr>d_vault = v, d_fees = f, d_borrowingRate = br, d_redemptionRate = rr,
           haveUndercollateralizedVaults = h\<rparr>, []))))))"

section \<open>Timer, listeners and notification\<close>

definition cancelUpdateIfScheduled :: "'v store \<Rightarrow> 'v store" where
  "cancelUpdateIfScheduled s =
     (case updateTimeoutId s of
        None \<Rightarrow> s
      | Some i \<Rightarrow> s\<lparr>timers := removeAll i (timers s)\<rparr>)"

definition scheduleUpdate :: "'v store \<Rightarrow> 'v store" where
  "scheduleUpdate s =
     (let s = cancelUpdateIfScheduled s in
      s\<lparr>updateTimeoutId := Some (nextTimer s), timers := timers s @ [nextTimer s],
        nextTimer := Suc (nextTimer s)\<rparr>)"

text \<open>\<open>subscribe\<close> adds a fresh function object (\<open>wrap\<close>); the function it returns is \<open>unsubscribe\<close>.\<close>

definition subscribe :: "'v store \<Rightarrow> 'v store" where
  "subscribe s = s\<lparr>listeners := listeners s @ [nextListener s], nextListener := Suc (nextListener s)\<rparr>"

definition unsubscribe :: "nat \<Rightarrow> 'v store \<Rightarrow> 'v store" where
  "unsubscribe l s = s\<lparr>listeners := removeAll l (listeners s)\<rparr>"

text \<open>
  What a listener does when it is called is its subscriber's code: the (un)subscriptions it
  makes and whether it throws in the end.
\<close>

datatype listener_op = Subscribe | Unsubscribe nat

type_synonym 'v callbacks = "nat \<Rightarrow> 'v listener_params \<Rightarrow> listener_op list \<times> js_error option"

fun perform :: "listener_op \<Rightarrow> 'v store \<Rightarrow> 'v store" where
  "perform Subscribe s = subscribe s"
| "perform (Unsubscribe l) s = unsubscribe l s"

text \<open>An operation ends with an error or normally, in a state either way.\<close>

type_synonym 'v outcome = "js_error option \<times> 'v store"

definition emit :: "'v event list \<Rightarrow> 'v store \<Rightarrow> 'v store" where
  "emit es s = s\<lparr>trace := trace s @ es\<rparr>"

fun notify_each ::
  "'v callbacks \<Rightarrow> 'v listener_params \<Rightarrow> nat list \<Rightarrow> 'v store \<Rightarrow> 'v outcome" where
  "notify_each cb params [] s = (None, s)"
| "notify_each cb params (l # ls) s =
     (if l \<in> set (listeners s) then
        (let (ops, err) = cb l params; s' = fold perform ops (emit [Notified l params] s) in
         case err of Some e \<Rightarrow> (Some e, s') | None \<Rightarrow> notify_each cb params ls s')
      else notify_each cb params ls s)"

definition notify :: "'v callbacks \<Rightarrow> 'v listener_params \<Rightarrow> 'v store \<Rightarrow> 'v outcome" where
  "notify cb params s = notify_each cb params (listeners s) s"

section \<open>Loading and updating\<close>

definition load :: "base_state \<Rightarrow> 'v extra_state option \<Rightarrow> 'v store \<Rightarrow> 'v outcome" where
  "load b x s =
     (if loaded s then (Some AssertionError, s)
      else
        (let s = s\<lparr>baseState := Some b\<rparr> in
         case derive b of
           Inl e \<Rightarrow> (Some e, s)
         | Inr d \<Rightarrow>
             (let s = scheduleUpdate (s\<lparr>derivedState := Some d, extraState := x, loaded := True\<rparr>) in
              (None, if hasOnLoaded s then emit [OnLoaded] s else s))))"

text \<open>The parts of \<open>_update\<close>: the base state, the derived state, the extra state, the rest.\<close>

definition update_base :: "base_state_update option \<Rightarrow> 'v store \<Rightarrow> 'v outcome" where
  "update_base u s =
     (case u of
        None \<Rightarrow> (None, s)
      | Some u' \<Rightarrow>
          (case reduce_base (logging s) (the (baseState s)) u' of
             Inl e \<Rightarrow> (Some e, s)
           | Inr (b, l) \<Rightarrow> (None, (emit (map Console l) s)\<lparr>baseState := Some b\<rparr>)))"

definition update_derived :: "(int \<Rightarrow> string) \<Rightarrow> 'v store \<Rightarrow> 'v outcome" where
  "update_derived toLocaleString s =
     (case bindE (derive (the (baseState s)))
             (reduceDerived toLocaleString (logging s) (the (derivedState s))) of
        Inl e \<Rightarrow> (Some e, s)
      | Inr (d, l) \<Rightarrow> (None, (emit (map Console l) s)\<lparr>derivedState := Some d\<rparr>))"

definition update_extra ::
  "('v extra_state \<Rightarrow> 'v extra_state \<Rightarrow> 'v extra_state) \<Rightarrow> 'v extra_state option \<Rightarrow> 'v store \<Rightarrow> 'v outcome"
where
  "update_extra reduceExtra x s =
     (case x of
        None \<Rightarrow> (None, s)
      | Some x' \<Rightarrow>
          (case extraState s of
             None \<Rightarrow> (Some AssertionError, s)
           | Some old \<Rightarrow> (None, s\<lparr>extraState := Some (reduceExtra old x')\<rparr>)))"

definition andThen :: "'v outcome \<Rightarrow> ('v store \<Rightarrow> 'v outcome) \<Rightarrow> 'v outcome" where
  "andThen r f = (case r of (Some e, s) \<Rightarrow> (Some e, s) | (None, s) \<Rightarrow> f s)"

definition update ::
  "(int \<Rightarrow> string) \<Rightarrow> ('v extra_state \<Rightarrow> 'v extra_state \<Rightarrow> 'v extra_state) \<Rightarrow> 'v callbacks \<Rightarrow>
    base_state_update option \<Rightarrow> 'v extra_state option \<Rightarrow> 'v store \<Rightarrow> 'v outcome" where
  "update toLocaleString reduceExtra cb u x s =
     (if \<not> (baseState s \<noteq> None \<and> derivedState s \<noteq> None) then (Some AssertionError, s)
      else
        (let old = state s in
         andThen (update_base u s) (\<lambda>s.
         andThen (update_derived toLocaleString s) (\<lambda>s.
         andThen (update_extra reduceExtra x s) (\<lambda>s.
           let s = scheduleUpdate s in
           notify cb \<lparr>newState = state s, oldState = old, stateChange = difference_of (state s) old\<rparr> s)))))"

text \<open>The host fires a pending timer: the callback given to \<open>setTimeout\<close>.\<close>

definition timer_callback ::
  "(int \<Rightarrow> string) \<Rightarrow> ('v extra_state \<Rightarrow> 'v extra_state \<Rightarrow> 'v extra_state) \<Rightarrow> 'v callbacks \<Rightarrow>
    nat \<Rightarrow> 'v store \<Rightarrow> 'v outcome" where
  "timer_callback toLocaleString reduceExtra cb i s =
     update toLocaleString reduceExtra cb None None
       (s\<lparr>timers := removeAll i (timers s), updateTimeoutId := None\<rparr>)"

text \<open>The function that \<open>start\<close> returns, after the \<open>doStop\<close> of the subclass.\<close>

definition stop :: "'v store \<Rightarrow> 'v store" where
  "stop s = cancelUpdateIfScheduled s"

end
