(* ===== verification/Store_Updates.thy ===== *)
theory Store_Updates
  imports Store
begin

text \<open>
  What loading and updating a store does: the reducers override exactly what an update
  mentions, the derived state always is the one derived from the base state, at most one
  update timer is pending, and notification calls exactly the listeners that are still subscribed.
\<close>

section \<open>The comparisons are equalities\<close>

named_theorems state_equalities

lemma decimal_equalities [state_equalities]:
  "eq_decimal = (=)" "strictEquals = (=)" "vault_equals = ((=) :: vault \<Rightarrow> vault \<Rightarrow> bool)"
  by (auto simp: fun_eq_iff eq_decimal_def strictEquals_def vault_equals_def decimal_eq_iff)

lemma frontendStatusEquals_eq [state_equalities]: "frontendStatusEquals = (=)"
proof (intro ext)
  fix a b show "frontendStatusEquals a b = (a = b)"
    by (cases a; cases b) (auto simp: eq_decimal_def decimal_eq_iff)
qed

lemma object_equalities [state_equalities]:
  "user_vault_equals = ((=) :: user_vault \<Rightarrow> user_vault \<Rightarrow> bool)"
  "pending_vault_equals = (=)" "sd_equals = (=)" "mp_equals = (=)" "fees_equals = (=)"
  by (auto simp: fun_eq_iff user_vault_equals_def pending_vault_equals_def sd_equals_def mp_equals_def
      fees_equals_def vault_equals_def)

section \<open>Every value can be shown\<close>

lemma toString_None:
  "toString d None = Inr (if d = INFINITY then infinity_sign else toStringWithAutomaticPrecision d)"
  by (simp add: toString_def)

lemma shown:
  "\<exists>t. show_decimal d = Inr t" "\<exists>t. show_number n = Inr t" "\<exists>t. show_bool b = Inr t"
  "\<exists>t. showFrontendStatus f = Inr t" "\<exists>t. vault_toString v = Inr t" "\<exists>t. user_vault_toString w = Inr t"
  "\<exists>t. sd_toString s = Inr t" "\<exists>t. mp_toString m = Inr t" "\<exists>t. fees_toString loc g = Inr t"
  by (simp_all add: show_decimal_def show_number_def show_bool_def vault_toString_def user_vault_toString_def
      sd_toString_def mp_toString_def fees_toString_def toString_None del: append.simps)
    (cases f; simp add: toString_None)

section \<open>Reduction\<close>

text \<open>\<open>yields m a\<close>: the computation \<open>m\<close> does not throw and its value is \<open>a\<close>.\<close>

definition yields :: "'a logged \<Rightarrow> 'a \<Rightarrow> bool" where
  "yields m a \<longleftrightarrow> (\<exists>l. m = Inr (a, l))"

definition orElse :: "'a option \<Rightarrow> 'a \<Rightarrow> 'a" where
  "orElse x y = (case x of None \<Rightarrow> y | Some z \<Rightarrow> z)"

named_theorems yielding

lemma yields_bind: "yields m a \<Longrightarrow> yields (f a) b \<Longrightarrow> yields (bindL m f) b"
  by (auto simp: yields_def bindL_def)

lemma yields_return [yielding]: "yields (Inr (a, l)) a"
  by (simp add: yields_def)

lemma yields_logUpdate: "(\<And>x. \<exists>t. sh x = Inr t) \<Longrightarrow> yields (logUpdate lg name sh n) n"
  by (auto simp: logUpdate_def yields_def) (metis bindE.simps(2))

lemma yields_updateIfChanged:
  "(\<And>x. \<exists>t. sh x = Inr t) \<Longrightarrow> yields (updateIfChanged lg (=) name p n sh) (orElse n p)"
  using yields_logUpdate [of sh]
  by (auto simp: updateIfChanged_def orElse_def yields_return split: option.split)

lemma yields_silently [yielding]: "yields (silentlyUpdateIfChanged (=) p n) (orElse n p)"
  by (auto simp: silentlyUpdateIfChanged_def orElse_def yields_return split: option.split)

lemma yields_updateFees [yielding]: "yields (updateFees loc lg name p n) (orElse n p)"
proof (cases n)
  case (Some f)
  obtain a b where "fees_toString loc f = Inr a" "fees_toString loc p = Inr b"
    using shown(9) by metis
  with yields_logUpdate [of "fees_toString loc"] shown(9) show ?thesis
    by (simp add: updateFees_def Some orElse_def state_equalities yields_return)
qed (simp add: updateFees_def orElse_def yields_return)

lemmas yields_updates [yielding] = yields_updateIfChanged [OF shown(1)] yields_updateIfChanged [OF shown(2)]
  yields_updateIfChanged [OF shown(3)] yields_updateIfChanged [OF shown(4)]
  yields_updateIfChanged [OF shown(5)] yields_updateIfChanged [OF shown(6)]
  yields_updateIfChanged [OF shown(7)] yields_updateIfChanged [OF shown(8)]

text \<open>The base state with the properties of an update put in place.\<close>

definition override :: "base_state \<Rightarrow> base_state_update \<Rightarrow> base_state" where
  "override b u =
    \<lparr>frontend = orElse (u_frontend u) (frontend b),
     ownFrontend = orElse (u_ownFrontend u) (ownFrontend b),
     numberOfVaults = orElse (u_numberOfVaults u) (numberOfVaults b),
     accountBalance = orElse (u_accountBalance u) (accountBalance b),
     bpdBalance = orElse (u_bpdBalance u) (bpdBalance b),
     mpBalance = orElse (u_mpBalance u) (mpBalance b),
     collateralSurplusBalance = orElse (u_collateralSurplusBalance u) (collateralSurplusBalance b),
     price = orElse (u_price u) (price b),
     bpdInStabilityPool = orElse (u_bpdInStabilityPool u) (bpdInStabilityPool b),
     totalVault = orElse (u_totalVault u) (totalVault b),
     totalRedistributed = orElse (u_totalRedistributed u) (totalRedistributed b),
     vaultBeforeRedistribution = orElse (u_vaultBeforeRedistribution u) (vaultBeforeRedistribution b),
     stabilityDeposit = orElse (u_stabilityDeposit u) (stabilityDeposit b),
     remainingStabilityPoolMPReward =
       orElse (u_remainingStabilityPoolMPReward u) (remainingStabilityPoolMPReward b),
     feesInNormalMode = orElse (u_feesInNormalMode u) (feesInNormalMode b),
     mpStake = orElse (u_mpStake u) (mpStake b),
     totalStakedMP = orElse (u_totalStakedMP u) (totalStakedMP b),
     riskiestVaultBeforeRedistribution =
       orElse (u_riskiestVaultBeforeRedistribution u) (riskiestVaultBeforeRedistribution b)\<rparr>"

lemma reduce_base_yields: "yields (reduce_base lg b u) (override b u)"
  unfolding reduce_base_def override_def state_equalities
  by (rule yields_bind, rule yielding)+ (rule yields_return)

lemma reduceDerived_yields: "yields (reduceDerived loc lg d d') d'"
proof -
  have "yields (reduceDerived loc lg d d') \<lparr>d_vault = orElse (Some (d_vault d')) (d_vault d),
      d_fees = orElse (Some (d_fees d')) (d_fees d),
      d_borrowingRate = orElse (Some (d_borrowingRate d')) (d_borrowingRate d),
      d_redemptionRate = orElse (Some (d_redemptionRate d')) (d_redemptionRate d),
      haveUndercollateralizedVaults = orElse (Some (haveUndercollateralizedVaults d'))
        (haveUndercollateralizedVaults d)\<rparr>"
    unfolding reduceDerived_def state_equalities
    by (rule yields_bind, rule yielding)+ (rule yields_return)
  then show ?thesis by (cases d') (simp add: orElse_def)
qed

section \<open>The steps of an update\<close>

text \<open>What a notification cannot change: everything but the listeners, their counter and the trace.\<close>

definition core :: "'v store \<Rightarrow> 'v store" where
  "core s = s\<lparr>listeners := [], nextListener := 0, trace := []\<rparr>"

definition listeners_ok :: "'v store \<Rightarrow> bool" where
  "listeners_ok s \<longleftrightarrow> distinct (listeners s) \<and> (\<forall>l \<in> set (listeners s). l < nextListener s)"

lemma core_perform [simp]: "core (perform a s) = core s"
  by (cases a) (simp_all add: core_def subscribe_def unsubscribe_def)

lemma core_emit [simp]: "core (emit es s) = core s"
  by (simp add: core_def emit_def)

lemma core_fold [simp]: "core (fold perform ops s) = core s"
  by (induction ops arbitrary: s) simp_all

lemma core_notify_each [simp]: "core (snd (notify_each cb params ls s)) = core s"
  by (induction ls arbitrary: s) (auto simp: Let_def split: prod.split option.split)

lemma core_selectors:
  assumes "core s = core t"
  shows "logging s = logging t" "hasOnLoaded s = hasOnLoaded t" "loaded s = loaded t"
    "baseState s = baseState t" "derivedState s = derivedState t" "extraState s = extraState t"
    "updateTimeoutId s = updateTimeoutId t" "timers s = timers t" "nextTimer s = nextTimer t"
    "state s = state t"
proof -
  have "f (core s) = f (core t)" for f :: "'a store \<Rightarrow> 'b" by (simp add: assms)
  from this [of logging] this [of hasOnLoaded] this [of loaded] this [of baseState] this [of derivedState]
    this [of extraState] this [of updateTimeoutId] this [of timers] this [of nextTimer]
  show "logging s = logging t" "hasOnLoaded s = hasOnLoaded t" "loaded s = loaded t"
    "baseState s = baseState t" "derivedState s = derivedState t" "extraState s = extraState t"
    "updateTimeoutId s = updateTimeoutId t" "timers s = timers t" "nextTimer s = nextTimer t"
    by (simp_all add: core_def)
  then show "state s = state t" by (simp add: state_def)
qed

lemma listeners_ok_perform: "listeners_ok s \<Longrightarrow> listeners_ok (perform a s)"
  by (cases a) (auto simp: listeners_ok_def subscribe_def unsubscribe_def distinct_removeAll less_SucI)

lemma listeners_ok_fold: "listeners_ok s \<Longrightarrow> listeners_ok (fold perform ops s)"
  by (induction ops arbitrary: s) (auto simp: listeners_ok_perform)

lemma listeners_ok_emit [simp]: "listeners_ok (emit es s) = listeners_ok s"
  by (simp add: listeners_ok_def emit_def)

lemma listeners_ok_notify_each: "listeners_ok s \<Longrightarrow> listeners_ok (snd (notify_each cb params ls s))"
  by (induction ls arbitrary: s) (auto simp: Let_def listeners_ok_fold split: prod.split option.split)

text \<open>\<open>_update\<close> in closed form: only the derivation and the extra state can throw before the notification.\<close>

definition new_base :: "base_state_update option \<Rightarrow> base_state \<Rightarrow> base_state" where
  "new_base u b = (case u of None \<Rightarrow> b | Some u' \<Rightarrow> override b u')"

lemma update_base_eq:
  assumes "baseState s = Some b"
  shows "\<exists>l. update_base u s = (None, (emit (map Console l) s)\<lparr>baseState := Some (new_base u b)\<rparr>)"
proof (cases u)
  case None
  then show ?thesis using assms
    by (auto simp: update_base_def new_base_def emit_def intro!: exI [of _ "[]"])
next
  case (Some u')
  obtain l where "reduce_base (logging s) b u' = Inr (override b u', l)"
    using reduce_base_yields by (metis yields_def)
  then show ?thesis using assms Some by (auto simp: update_base_def new_base_def)
qed

lemma update_derived_eq:
  assumes "baseState s = Some b" "derivedState s = Some d"
  shows "\<exists>l. update_derived loc s =
    (case derive b of Inl e \<Rightarrow> (Some e, s)
     | Inr d' \<Rightarrow> (None, (emit (map Console l) s)\<lparr>derivedState := Some d'\<rparr>))"
proof (cases "derive b")
  case (Inr d')
  obtain l where "reduceDerived loc (logging s) d d' = Inr (d', l)"
    using reduceDerived_yields by (metis yields_def)
  then show ?thesis using assms Inr by (auto simp: update_derived_def)
qed (simp add: update_derived_def assms)

lemma timers_schedule:
  "timers (scheduleUpdate s) = (case updateTimeoutId s of None \<Rightarrow> timers s | Some i \<Rightarrow> removeAll i (timers s))
     @ [nextTimer s]"
  "updateTimeoutId (scheduleUpdate s) = Some (nextTimer s)" "nextTimer (scheduleUpdate s) = Suc (nextTimer s)"
  "baseState (scheduleUpdate s) = baseState s" "derivedState (scheduleUpdate s) = derivedState s"
  "extraState (scheduleUpdate s) = extraState s" "loaded (scheduleUpdate s) = loaded s"
  "listeners (scheduleUpdate s) = listeners s" "nextListener (scheduleUpdate s) = nextListener s"
  "hasOnLoaded (scheduleUpdate s) = hasOnLoaded s" "trace (scheduleUpdate s) = trace s"
  "state (scheduleUpdate s) = state s" "listeners_ok (scheduleUpdate s) = listeners_ok s"
  by (simp_all add: scheduleUpdate_def cancelUpdateIfScheduled_def Let_def state_def listeners_ok_def
      split: option.split)

lemma emit_sel [simp]:
  "baseState (emit es s) = baseState s" "derivedState (emit es s) = derivedState s"
  "extraState (emit es s) = extraState s" "loaded (emit es s) = loaded s" "timers (emit es s) = timers s"
  "updateTimeoutId (emit es s) = updateTimeoutId s" "nextTimer (emit es s) = nextTimer s"
  "listeners (emit es s) = listeners s" "nextListener (emit es s) = nextListener s"
  "trace (emit es s) = trace s @ es" "state (emit es s) = state s"
  by (simp_all add: emit_def state_def)

text \<open>The store after the reductions of a successful update, before it schedules and notifies.\<close>

definition reduced :: "base_state \<Rightarrow> derived_state \<Rightarrow> 'v extra_state option \<Rightarrow> string list \<Rightarrow> 'v store \<Rightarrow> 'v store"
where
  "reduced b d x l s = (emit (map Console l) s)\<lparr>baseState := Some b, derivedState := Some d, extraState := x\<rparr>"

lemma update_success:
  assumes "baseState s = Some b" "derivedState s = Some d" "derive (new_base u b) = Inr d'"
    and "x = None \<and> x' = extraState s \<or> (\<exists>old new. x = Some new \<and> extraState s = Some old \<and> x' = Some (rx old new))"
  shows "\<exists>l. update loc rx cb u x s =
    (let s' = scheduleUpdate (reduced (new_base u b) d' x' l s) in
     notify cb \<lparr>newState = state s', oldState = state s,
       stateChange = difference_of (state s') (state s)\<rparr> s')"
proof -
  obtain l1 where l1: "update_base u s = (None, (emit (map Console l1) s)\<lparr>baseState := Some (new_base u b)\<rparr>)"
    using update_base_eq [OF assms(1)] by blast
  let ?s1 = "(emit (map Console l1) s)\<lparr>baseState := Some (new_base u b)\<rparr>"
  obtain l2 where l2: "update_derived loc ?s1 = (None, (emit (map Console l2) ?s1)\<lparr>derivedState := Some d'\<rparr>)"
    using update_derived_eq [of ?s1 "new_base u b" d loc] assms(2,3) by auto
  have "update_extra rx x ((emit (map Console l2) ?s1)\<lparr>derivedState := Some d'\<rparr>) =
      (None, reduced (new_base u b) d' x' (l1 @ l2) s)"
    using assms(4) by (auto simp: update_extra_def reduced_def emit_def)
  then show ?thesis
    by (intro exI [of _ "l1 @ l2"]) (simp add: update_def assms(1,2) andThen_def l1 l2 Let_def)
qed

lemma update_cases:
  assumes "baseState s = Some b" "derivedState s = Some d" "update loc rx cb u x s = (e, s')"
  shows "(\<exists>l. s' = (emit (map Console l) s)\<lparr>baseState := Some (new_base u b)\<rparr>) \<and> (\<exists>e. derive (new_base u b) = Inl e) \<or>
    (\<exists>l d'. derive (new_base u b) = Inr d' \<and> extraState s = None \<and> s' = reduced (new_base u b) d' None l s) \<or>
    (\<exists>l d' x' params. derive (new_base u b) = Inr d' \<and>
       (e, s') = notify cb params (scheduleUpdate (reduced (new_base u b) d' x' l s)))"
proof (cases "derive (new_base u b)")
  case (Inl er)
  obtain l1 where l1: "update_base u s = (None, (emit (map Console l1) s)\<lparr>baseState := Some (new_base u b)\<rparr>)"
    using update_base_eq [OF assms(1)] by blast
  let ?s1 = "(emit (map Console l1) s)\<lparr>baseState := Some (new_base u b)\<rparr>"
  have "update_derived loc ?s1 = (Some er, ?s1)"
    using update_derived_eq [of ?s1 "new_base u b" d loc] assms(2) Inl by auto
  then show ?thesis using assms Inl by (auto simp: update_def andThen_def l1 Let_def)
next
  case (Inr d')
  show ?thesis
  proof (cases "x \<noteq> None \<and> extraState s = None")
    case True
    obtain l1 where l1: "update_base u s = (None, (emit (map Console l1) s)\<lparr>baseState := Some (new_base u b)\<rparr>)"
      using update_base_eq [OF assms(1)] by blast
    let ?s1 = "(emit (map Console l1) s)\<lparr>baseState := Some (new_base u b)\<rparr>"
    obtain l2 where l2: "update_derived loc ?s1 = (None, (emit (map Console l2) ?s1)\<lparr>derivedState := Some d'\<rparr>)"
      using update_derived_eq [of ?s1 "new_base u b" d loc] assms(2) Inr by auto
    let ?s2 = "(emit (map Console l2) ?s1)\<lparr>derivedState := Some d'\<rparr>"
    have "update_extra rx x ?s2 = (Some AssertionError, ?s2)" using True by (auto simp: update_extra_def)
    then have "s' = ?s2" using assms by (simp add: update_def andThen_def l1 l2 Let_def)
    moreover have "?s2 = reduced (new_base u b) d' None (l1 @ l2) s"
      using True by (cases s) (simp add: reduced_def emit_def)
    ultimately show ?thesis using Inr True by blast
  next
    case False
    then obtain x' where "x = None \<and> x' = extraState s \<or>
        (\<exists>old new. x = Some new \<and> extraState s = Some old \<and> x' = Some (rx old new))"
      by (cases x; cases "extraState s") auto
    from update_success [where loc = loc and cb = cb, OF assms(1,2) Inr this] Inr show ?thesis
      using assms(3) by (auto simp: Let_def)
  qed
qed

section \<open>Reachable stores\<close>

inductive store_step ::
  "(int \<Rightarrow> string) \<Rightarrow> ('v extra_state \<Rightarrow> 'v extra_state \<Rightarrow> 'v extra_state) \<Rightarrow> 'v callbacks \<Rightarrow>
    'v store \<Rightarrow> 'v store \<Rightarrow> bool" for loc rx cb where
  Step_load: "load b x s = (e, s') \<Longrightarrow> store_step loc rx cb s s'"
| Step_update: "update loc rx cb u x s = (e, s') \<Longrightarrow> store_step loc rx cb s s'"
| Step_timer: "i \<in> set (timers s) \<Longrightarrow> timer_callback loc rx cb i s = (e, s') \<Longrightarrow> store_step loc rx cb s s'"
| Step_listener: "store_step loc rx cb s (perform a s)"
| Step_stop: "store_step loc rx cb s (stop s)"

inductive reachable_store ::
  "(int \<Rightarrow> string) \<Rightarrow> ('v extra_state \<Rightarrow> 'v extra_state \<Rightarrow> 'v extra_state) \<Rightarrow> 'v callbacks \<Rightarrow>
    'v store \<Rightarrow> bool" for loc rx cb where
  Reach_new: "reachable_store loc rx cb (new_store lg ol)"
| Reach_step: "reachable_store loc rx cb s \<Longrightarrow> store_step loc rx cb s s' \<Longrightarrow> reachable_store loc rx cb s'"

text \<open>Base and derived state belong together; the only pending timer is the recorded one.\<close>

definition data_ok :: "'v store \<Rightarrow> bool" where
  "data_ok s \<longleftrightarrow> (loaded s \<longleftrightarrow> derivedState s \<noteq> None) \<and>
     (\<forall>d. derivedState s = Some d \<longrightarrow>
       (\<exists>b. baseState s = Some b \<and> (\<forall>d'. derive b = Inr d' \<longrightarrow> d' = d)))"

definition timers_ok :: "'v store \<Rightarrow> bool" where
  "timers_ok s \<longleftrightarrow> timers s = [] \<or> (\<exists>i. updateTimeoutId s = Some i \<and> timers s = [i])"

definition store_ok :: "'v store \<Rightarrow> bool" where
  "store_ok s \<longleftrightarrow> data_ok s \<and> timers_ok s \<and> listeners_ok s"

lemma ok_core:
  assumes "core s = core t"
  shows "data_ok s = data_ok t" "timers_ok s = timers_ok t"
  using core_selectors [OF assms] by (simp_all add: data_ok_def timers_ok_def)

lemma timers_ok_schedule: "timers_ok s \<Longrightarrow> timers_ok (scheduleUpdate s)"
  by (auto simp: timers_ok_def timers_schedule split: option.split)

lemma data_ok_schedule: "data_ok (scheduleUpdate s) = data_ok s"
  by (simp add: data_ok_def timers_schedule)

lemma store_ok_notify:
  assumes "store_ok s" "notify cb params s = (e, s')"
  shows "store_ok s'"
proof -
  have s': "s' = snd (notify_each cb params (listeners s) s)" using assms(2) by (simp add: notify_def)
  show ?thesis
    using assms(1) ok_core [of s' s] listeners_ok_notify_each [of s cb params "listeners s"]
    by (simp add: store_ok_def s')
qed

lemma store_ok_update:
  assumes "store_ok s" "update loc rx cb u x s = (e, s')"
  shows "store_ok s'"
proof (cases "baseState s \<noteq> None \<and> derivedState s \<noteq> None")
  case False
  then show ?thesis using assms by (auto simp: update_def)
next
  case True
  then obtain b d where bd: "baseState s = Some b" "derivedState s = Some d" by auto
  have red: "store_ok (scheduleUpdate (reduced (new_base u b) d' x' l s))"
    "store_ok (reduced (new_base u b) d' x' l s)" if "derive (new_base u b) = Inr d'" for d' x' l
    using assms(1) bd that timers_ok_schedule [of "reduced (new_base u b) d' x' l s"]
    by (auto simp: store_ok_def data_ok_schedule timers_schedule)
      (auto simp: reduced_def data_ok_def timers_ok_def listeners_ok_def)
  from update_cases [OF bd assms(2)] show ?thesis
  proof (elim disjE conjE exE)
    fix l er
    assume "s' = (emit (map Console l) s)\<lparr>baseState := Some (new_base u b)\<rparr>" "derive (new_base u b) = Inl er"
    then show ?thesis
      using assms(1) bd by (auto simp: store_ok_def data_ok_def timers_ok_def listeners_ok_def)
  next
    fix l d' assume "derive (new_base u b) = Inr d'" "s' = reduced (new_base u b) d' None l s"
    then show ?thesis using red(2) by simp
  next
    fix l d' x' params
    assume d': "derive (new_base u b) = Inr d'"
      and "(e, s') = notify cb params (scheduleUpdate (reduced (new_base u b) d' x' l s))"
    from store_ok_notify [OF red(1) [OF d'] this(2) [symmetric]] show ?thesis .
  qed
qed

lemma store_ok_load:
  assumes "store_ok s" "load b x s = (e, s')"
  shows "store_ok s'"
proof (cases "loaded s \<or> (\<exists>er. derive b = Inl er)")
  case True
  then show ?thesis using assms
    by (auto simp: load_def Let_def store_ok_def data_ok_def timers_ok_def listeners_ok_def)
next
  case False
  then obtain d where d: "derive b = Inr d" by (cases "derive b") auto
  let ?s1 = "s\<lparr>baseState := Some b, derivedState := Some d, extraState := x, loaded := True\<rparr>"
  have "store_ok (scheduleUpdate ?s1)"
    using assms(1) d timers_ok_schedule [of ?s1]
    by (auto simp: store_ok_def data_ok_schedule timers_schedule)
      (auto simp: data_ok_def timers_ok_def listeners_ok_def)
  moreover have "s' = (if hasOnLoaded s then emit [OnLoaded] (scheduleUpdate ?s1) else scheduleUpdate ?s1)"
    using assms(2) False d by (simp add: load_def Let_def timers_schedule)
  ultimately show ?thesis
    by (auto simp: store_ok_def data_ok_def timers_ok_def)
qed

lemma reachable_store_ok: "reachable_store loc rx cb s \<Longrightarrow> store_ok s"
proof (induction rule: reachable_store.induct)
  case (Reach_new lg ol)
  then show ?case by (simp add: new_store_def store_ok_def data_ok_def timers_ok_def listeners_ok_def)
next
  case (Reach_step s s')
  from Reach_step.hyps(2) Reach_step.IH show ?case
  proof (cases rule: store_step.cases)
    case (Step_load b x e)
    then show ?thesis using store_ok_load Reach_step.IH by blast
  next
    case (Step_update u x e)
    then show ?thesis using store_ok_update Reach_step.IH by blast
  next
    case (Step_timer i e)
    have "store_ok (s\<lparr>timers := removeAll i (timers s), updateTimeoutId := None\<rparr>)"
      using Reach_step.IH Step_timer(1)
      by (auto simp: store_ok_def data_ok_def timers_ok_def listeners_ok_def)
    then show ?thesis using store_ok_update Step_timer(2) by (simp add: timer_callback_def)
  next
    case (Step_listener a)
    then show ?thesis
      using Reach_step.IH ok_core [of s' s] listeners_ok_perform by (auto simp: store_ok_def)
  next
    case Step_stop
    then show ?thesis using Reach_step.IH
      by (auto simp: stop_def cancelUpdateIfScheduled_def store_ok_def data_ok_def timers_ok_def
          listeners_ok_def split: option.split)
  qed
qed

end
