(* ===== verification/Store_Properties.thy ===== *)
theory Store_Properties
  imports Store_Updates
begin

text \<open>
  The properties of the store, over the closed forms and the invariant of \<open>Store_Updates\<close>.
\<close>

section \<open>States as objects\<close>

lemma distinct_assign: "distinct (map fst xs) \<Longrightarrow> distinct (map fst (assign xs ys))"
proof (induction ys arbitrary: xs)
  case (Cons y ys)
  have "distinct (map fst (AList.update (fst y) (snd y) xs))"
    using Cons.prems by (rule distinct_update)
  from Cons.IH [OF this] show ?case by (cases y) (simp add: assign_def)
qed (simp add: assign_def)

lemma distinct_state: "distinct (map fst (state s))"
  unfolding state_def by (intro distinct_assign) simp

lemma difference_of_self: "distinct (map fst a) \<Longrightarrow> difference_of a a = []"
  by (auto simp: difference_of_def filter_empty_conv)

section \<open>A concrete store\<close>

definition sample_pending :: vault_with_pending_redistribution where
  "sample_pending = \<lparr>collateral = ONE, debt = HALF, ownerAddress = ''0x1'', status = Open, stake = ONE,
     snapshotOfTotalRedistributed = emptyVault\<rparr>"

definition sample_deposit :: stability_deposit where
  "sample_deposit = \<lparr>initialBPD = ONE, currentBPD = ONE, sd_collateralGain = ZERO, mpReward = ZERO,
     frontendTag = ''0x0''\<rparr>"

definition sample_base :: base_state where
  "sample_base = \<lparr>frontend = Unregistered, ownFrontend = Registered ONE, numberOfVaults = 1,
     accountBalance = ONE, bpdBalance = ZERO, mpBalance = ZERO, collateralSurplusBalance = ZERO,
     price = ONE, bpdInStabilityPool = ONE, totalVault = Vault ONE HALF, totalRedistributed = emptyVault,
     vaultBeforeRedistribution = sample_pending, stabilityDeposit = sample_deposit,
     remainingStabilityPoolMPReward = ZERO, feesInNormalMode = sample_fees,
     mpStake = new_MPStake None None None, totalStakedMP = ZERO,
     riskiestVaultBeforeRedistribution = sample_pending\<rparr>"

lemma rates_exist:
  assumes "minuteDecayFactor f \<le> ONE" "minutesSinceLastFeeOperation f w \<le> 0xffffffff"
  shows "(\<exists>br. borrowingRate f w = Inr br) \<and> (\<exists>rr. redemptionRate f None w = Inr rr)"
  using decayed [OF assms] by (auto simp: borrowingRate_def redemptionRate_def Let_def)

lemma sample_base_derives: "\<exists>d. derive sample_base = Inr d"
proof -
  obtain r where r: "collateralRatioIsBelowCritical (Vault ONE HALF) (DDecimal ONE) = Inr r"
    by (simp add: collateralRatioIsBelowCritical_def collateralRatio_def)
  let ?f = "sample_fees\<lparr>recoveryMode := r\<rparr>"
  have f: "setRecoveryMode sample_fees r = Inr ?f"
    using small_literals(2)
    by (simp add: setRecoveryMode_def new_Fees_def sample_fees_def lt_d_def assertE_def
        decimal_order HALF_def ONE_def del: from_d.simps(3))
  have f_ok: "minuteDecayFactor ?f \<le> ONE" "minutesSinceLastFeeOperation ?f None \<le> 0xffffffff"
    by (simp_all add: sample_fees_def minutesSinceLastFeeOperation_def decimal_order HALF_def ONE_def)
  obtain br rr where rates: "borrowingRate ?f None = Inr br" "redemptionRate ?f None None = Inr rr"
    using rates_exist [OF f_ok] by blast
  obtain u where u: "applyRedistribution sample_pending emptyVault = Inr u"
    by (simp add: applyRedistribution_def Let_def)
  obtain m where "collateralRatioIsBelowMinimum u (DDecimal ONE) = Inr m"
    by (simp add: collateralRatioIsBelowMinimum_def collateralRatio_def)
  with r f rates u show ?thesis by (simp add: derive_def sample_base_def)
qed

definition loaded_sample :: "string store" where
  "loaded_sample = snd (load sample_base None (new_store False True))"

lemma loaded_sample_sel:
  "loaded loaded_sample" "baseState loaded_sample = Some sample_base" "extraState loaded_sample = None"
  "listeners loaded_sample = []" "timers loaded_sample = [0]" "nextListener loaded_sample = 0"
  "\<exists>d. derivedState loaded_sample = Some d \<and> derive sample_base = Inr d"
proof -
  obtain d where "derive sample_base = Inr d" using sample_base_derives by blast
  then show "loaded loaded_sample" "baseState loaded_sample = Some sample_base" "extraState loaded_sample = None"
    "listeners loaded_sample = []" "timers loaded_sample = [0]" "nextListener loaded_sample = 0"
    "\<exists>d. derivedState loaded_sample = Some d \<and> derive sample_base = Inr d"
    by (simp_all add: loaded_sample_def load_def new_store_def timers_schedule Let_def)
qed

lemma loaded_sample_reachable: "reachable_store loc rx cb loaded_sample"
  by (rule Reach_step [OF Reach_new [of loc rx cb False True]], rule Step_load)
    (simp add: loaded_sample_def prod_eq_iff)

section \<open>Notification\<close>

text \<open>
  The abstract meaning of a notification: the listeners in the order of subscription, without
  those that an earlier callback unsubscribed, up to the first that throws.
\<close>

fun called ::
  "'v callbacks \<Rightarrow> 'v listener_params \<Rightarrow> nat list \<Rightarrow> nat list \<Rightarrow> nat list \<times> js_error option" where
  "called cb p [] removed = ([], None)"
| "called cb p (l # ls) removed =
     (if l \<in> set removed then called cb p ls removed
      else (case cb l p of
          (ops, Some e) \<Rightarrow> ([l], Some e)
        | (ops, None) \<Rightarrow>
            (case called cb p ls ([m. Unsubscribe m \<leftarrow> ops] @ removed) of (xs, e) \<Rightarrow> (l # xs, e))))"

lemma listeners_fold:
  "l < nextListener s \<Longrightarrow>
    (l \<in> set (listeners (fold perform ops s)) \<longleftrightarrow> l \<in> set (listeners s) \<and> Unsubscribe l \<notin> set ops) \<and>
    l < nextListener (fold perform ops s)"
proof (induction ops arbitrary: s)
  case (Cons a ops)
  have "l < nextListener (perform a s)"
    using Cons.prems by (cases a) (simp_all add: subscribe_def unsubscribe_def)
  from Cons.IH [OF this] Cons.prems show ?case
    by (cases a) (auto simp: subscribe_def unsubscribe_def)
qed simp

lemma trace_fold [simp]: "trace (fold perform ops s) = trace s"
proof (induction ops arbitrary: s)
  case (Cons a ops)
  then show ?case by (cases a) (simp_all add: subscribe_def unsubscribe_def)
qed simp

lemma notify_each_called:
  assumes "\<forall>l \<in> set ls. l < nextListener s \<and> (l \<in> set (listeners s) \<longleftrightarrow> l \<notin> set removed)"
  shows "fst (notify_each cb p ls s) = snd (called cb p ls removed) \<and>
    trace (snd (notify_each cb p ls s)) = trace s @ map (\<lambda>l. Notified l p) (fst (called cb p ls removed))"
  using assms
proof (induction cb p ls removed arbitrary: s rule: called.induct)
  case (2 cb p l ls removed)
  show ?case
  proof (cases "l \<in> set removed")
    case True
    with 2(1) [OF True, of s] 2(3) show ?thesis by simp
  next
    case False
    obtain ops err where cb: "cb l p = (ops, err)" by (cases "cb l p")
    let ?s = "fold perform ops (emit [Notified l p] s)"
    show ?thesis
    proof (cases err)
      case None
      have "\<forall>m \<in> set ls. m < nextListener ?s \<and>
          (m \<in> set (listeners ?s) \<longleftrightarrow> m \<notin> set ([m. Unsubscribe m \<leftarrow> ops] @ removed))"
        using 2(3) listeners_fold [of _ "emit [Notified l p] s" ops] by (auto split: listener_op.splits)
      from 2(2) [OF False cb [symmetric] None this] False 2(3) cb None show ?thesis
        by (simp split: prod.split)
    qed (use False 2(3) cb in simp)
  qed
qed simp

text \<open>
  C6. A notification calls exactly the listeners subscribed when it starts, in the order of
  subscription, each once; not those an earlier callback has unsubscribed, never one
  subscribed during it, and none after a callback that throws, whose error it passes on.
\<close>

theorem notify_calls:
  assumes "reachable_store loc rx cb0 s"
  shows "fst (notify cb p s) = snd (called cb p (listeners s) []) \<and>
    trace (snd (notify cb p s)) = trace s @ map (\<lambda>l. Notified l p) (fst (called cb p (listeners s) [])) \<and>
    distinct (listeners s)"
  using reachable_store_ok [OF assms] notify_each_called [of "listeners s" s "[]" cb p]
  by (auto simp: notify_def store_ok_def listeners_ok_def)

text \<open>Listener 0 unsubscribes listener 1 and subscribes a new one: only 0 and 2 are called.\<close>

theorem notify_calls_witness:
  "fst (called (\<lambda>l p. (if l = 0 then [Unsubscribe 1, Subscribe] else [], None))
      \<lparr>newState = [], oldState = [], stateChange = []\<rparr>
      (listeners (subscribe (subscribe (subscribe loaded_sample)))) []) = [0, 2] \<and>
    distinct (listeners (subscribe (subscribe (subscribe loaded_sample))))"
proof -
  let ?cb = "\<lambda>l p. (if l = 0 then [Unsubscribe 1, Subscribe] else [], None)"
  have step: "reachable_store loc rx cb (subscribe s)" if "reachable_store loc rx cb s" for s :: "string store" and loc rx cb
    using Reach_step [OF that Step_listener [of loc rx cb s Subscribe]] by simp
  have "reachable_store (\<lambda>_. []) (\<lambda>x _. x) ?cb (subscribe (subscribe (subscribe loaded_sample)))"
    by (intro step loaded_sample_reachable)
  from notify_calls [OF this, of ?cb "\<lparr>newState = [], oldState = [], stateChange = []\<rparr>"] show ?thesis
    by (simp add: subscribe_def loaded_sample_sel)
qed

section \<open>Updates\<close>

lemma notify_keeps:
  assumes "notify cb p s = (e, s')"
  shows "baseState s' = baseState s" "derivedState s' = derivedState s" "extraState s' = extraState s"
    "timers s' = timers s" "state s' = state s"
proof -
  have "core s' = core s"
    using core_notify_each [of cb p "listeners s" s] assms unfolding notify_def by simp
  from core_selectors [OF this]
  show "baseState s' = baseState s" "derivedState s' = derivedState s" "extraState s' = extraState s"
    "timers s' = timers s" "state s' = state s" by simp_all
qed

lemma notify_events:
  assumes "reachable_store loc rx cb0 s" "notify cb p s = (e, s')"
  shows "\<exists>ls. trace s' = trace s @ map (\<lambda>l. Notified l p) ls"
  using notify_each_called [of "listeners s" s "[]" cb p] reachable_store_ok [OF assms(1)] assms(2)
  by (auto simp: notify_def store_ok_def listeners_ok_def)

text \<open>
  C5. In every reachable store: once loaded, the derived state is the one derived from the
  base state (when that derivation succeeds); at most one update timer is pending and
  the function returned by \<open>start\<close> cancels it; no listener is registered twice.
\<close>

theorem store_invariant:
  assumes "reachable_store loc rx cb s"
  shows "(loaded s \<longrightarrow> (\<exists>b d. baseState s = Some b \<and> derivedState s = Some d \<and>
      (\<forall>d'. derive b = Inr d' \<longrightarrow> d' = d))) \<and>
    length (timers s) \<le> 1 \<and> timers (stop s) = [] \<and> distinct (listeners s)"
  using reachable_store_ok [OF assms]
  by (auto simp: store_ok_def data_ok_def timers_ok_def listeners_ok_def stop_def
      cancelUpdateIfScheduled_def split: option.split)

theorem store_invariant_witness:
  "length (timers loaded_sample) = 1 \<and> timers (stop loaded_sample) = [] \<and>
    (\<exists>d. derivedState loaded_sample = Some d \<and> derive sample_base = Inr d)"
  using store_invariant [OF loaded_sample_reachable [of "\<lambda>_. []" "\<lambda>x _. x" "\<lambda>_ _. ([], None)"]]
    loaded_sample_sel by simp



text \<open>
  The update that the timer runs every 30 seconds changes nothing: in a reachable
  loaded store whose derivation succeeds, firing the timer leaves the state as it is
  and tells every listener an empty change, because the derived state depends on the
  passage of time only through the base state (\<open>timeOfLatestBlock\<close>).
\<close>

lemma timer_update_is_idle:
  assumes "reachable_store loc rx cb s" "loaded s" "baseState s = Some b" "derive b = Inr d"
    and "timer_callback loc rx cb i s = (e, s')"
  shows "state s' = state s \<and> baseState s' = Some b \<and> derivedState s' = Some d \<and>
    (\<exists>lines ls. trace s' = trace s @ map Console lines @
      map (\<lambda>l. Notified l \<lparr>newState = state s, oldState = state s, stateChange = []\<rparr>) ls)"
proof -
  let ?s = "s\<lparr>timers := removeAll i (timers s), updateTimeoutId := None\<rparr>"
  have d: "derivedState s = Some d" and l: "listeners_ok s"
    using reachable_store_ok [OF assms(1)] assms(2-4) by (auto simp: store_ok_def data_ok_def)
  obtain lines where upd: "update loc rx cb None None ?s =
    (let t = scheduleUpdate (reduced (new_base None b) d (extraState ?s) lines ?s) in
     notify cb \<lparr>newState = state t, oldState = state ?s, stateChange = difference_of (state t) (state ?s)\<rparr> t)"
    using update_success [of ?s b d None d None "extraState ?s" rx loc cb] assms(3,4) d
    by (auto simp: new_base_def)
  define t where "t = scheduleUpdate (reduced b d (extraState s) lines ?s)"
  have st: "state ?s = state s" by (simp add: state_def)
  have t: "state t = state s" "baseState t = Some b" "derivedState t = Some d" "trace t = trace s @ map Console lines"
    "listeners_ok t" "listeners t = listeners s"
    using assms(3) d l by (simp_all add: t_def timers_schedule reduced_def state_def emit_def listeners_ok_def)
  let ?p = "\<lparr>newState = state s, oldState = state s, stateChange = []\<rparr>"
  have n: "notify cb ?p t = (e, s')"
    using upd assms(5) t(1) st difference_of_self [OF distinct_state [of s]]
    by (simp add: timer_callback_def t_def [symmetric] Let_def new_base_def)
  have "trace s' = trace t @ map (\<lambda>l. Notified l ?p) (fst (called cb ?p (listeners t) []))"
    using notify_each_called [of "listeners t" t "[]" cb ?p] n t(5) by (auto simp: notify_def listeners_ok_def)
  then show ?thesis using notify_keeps [OF n] t by auto
qed

theorem timer_update_is_idle_witness:
  "state (snd (timer_callback (\<lambda>_. []) (\<lambda>x _. x) (\<lambda>_ _. ([], None)) 0 loaded_sample)) = state loaded_sample"
  using timer_update_is_idle [OF loaded_sample_reachable loaded_sample_sel(1,2), of _
      "\<lambda>_. []" "\<lambda>x _. x" "\<lambda>_ _. ([], None)" 0] loaded_sample_sel(7)
  by (metis prod.exhaust_sel)

end
