(* ===== verification/Js_World.thy ===== *)
theory Js_World
  imports Moneyp_Prelude Complex_Main
begin

text \<open>
  The setting of the JavaScript tools around the contracts (\<open>packages/contracts\<close>): dynamically
  typed values, contract instances, and asynchronous code that calls contracts and prints.
  The blockchain, the compiled contracts and the web3 library are not part of the tools: they
  are the record \<open>env\<close> of parameters. What the tools do to them is recorded in a trace of events.
\<close>

section \<open>Values\<close>

text \<open>A deployed contract as the tools see it: its artifact and its address.\<close>

record contract_ref =
  artifact :: string
  address :: string

text \<open>
  \<open>Num\<close> are whole numbers, \<open>Quot\<close> the results of \<open>/\<close> (rounding to a double is not modelled), \<open>BN\<close>
  instances of bn.js or of ethers' BigNumber.
\<close>

datatype js =
    Undefined
  | Null
  | Bool bool
  | Num int
  | Quot rat
  | BN int
  | Str string
  | Arr "js list"
  | Obj "(string \<times> js) list"
  | Con contract_ref

fun truthy :: "js \<Rightarrow> bool" where
  "truthy Undefined = False"
| "truthy Null = False"
| "truthy (Bool b) = b"
| "truthy (Num n) = (n \<noteq> 0)"
| "truthy (Quot q) = (q \<noteq> 0)"
| "truthy (Str s) = (s \<noteq> [])"
| "truthy _ = True"

text \<open>\<open>o.k\<close> and \<open>o[i]\<close>: a missing property is \<open>undefined\<close>, a property of \<open>undefined\<close> or \<open>null\<close> throws.\<close>

definition lookup :: "(string \<times> 'a) list \<Rightarrow> string \<Rightarrow> 'a option" where
  "lookup ps k = map_of ps k"

fun get_prop :: "js \<Rightarrow> string \<Rightarrow> js result" where
  "get_prop Undefined k = Inl TypeError"
| "get_prop Null k = Inl TypeError"
| "get_prop (Obj ps) k = Inr (case lookup ps k of None \<Rightarrow> Undefined | Some v \<Rightarrow> v)"
| "get_prop (Con c) k = Inr (if k = ''address'' then Str (address c) else Undefined)"
| "get_prop _ k = Inr Undefined"

fun index :: "js \<Rightarrow> nat \<Rightarrow> js result" where
  "index (Arr xs) i = Inr (if i < length xs then xs ! i else Undefined)"
| "index v i = get_prop v (nat_to_string i)"

text \<open>The methods of big numbers need big numbers.\<close>

fun asBN :: "js \<Rightarrow> int result" where
  "asBN (BN n) = Inr n"
| "asBN _ = Inl TypeError"

fun asStr :: "js \<Rightarrow> string result" where
  "asStr (Str s) = Inr s"
| "asStr _ = Inl TypeError"

definition bn_op :: "(int \<Rightarrow> int \<Rightarrow> int) \<Rightarrow> js \<Rightarrow> js \<Rightarrow> js result" where
  "bn_op f x y = bindE (asBN x) (\<lambda>a. bindE (asBN y) (\<lambda>b. Inr (BN (f a b))))"

text \<open>Division of big numbers truncates towards zero.\<close>

definition bn_quotient :: "int \<Rightarrow> int \<Rightarrow> int" where
  "bn_quotient a b = (if (0 \<le> a) = (0 \<le> b) then \<bar>a\<bar> div \<bar>b\<bar> else - (\<bar>a\<bar> div \<bar>b\<bar>))"

definition bn_div :: "js \<Rightarrow> js \<Rightarrow> js result" where
  "bn_div x y = bindE (asBN x) (\<lambda>a. bindE (asBN y) (\<lambda>b.
     if b = 0 then Inl AssertionError else Inr (BN (bn_quotient a b))))"

text \<open>The relational operators on strings compare code units.\<close>

fun str_less :: "string \<Rightarrow> string \<Rightarrow> bool" where
  "str_less s [] = False"
| "str_less [] (c # t) = True"
| "str_less (c # s) (d # t) =
     (of_char c < (of_char d :: nat) \<or> c = d \<and> str_less s t)"

section \<open>The world\<close>

datatype event =
    Deployed string "js list" contract_ref
  | SetAsDeployed string contract_ref
  | Called contract_ref string "js list"
  | Log "js list"
  | Saved "(string \<times> js) list"
  | Did string "js list"

record 'c world =
  chain :: 'c
  trace :: "event list"
  latestRandomSeed :: js

text \<open>
  \<open>deploy\<close> is \<open>Artifact.new(..args)\<close>, \<open>call\<close> a method of a contract (a revert is an error),
  \<open>service\<close> any other request to the node, the file system or the host, \<open>random\<close> the text of
  \<open>Math.random() * (max - min) + min\<close>; \<open>tx_hash\<close> is the hash of the transaction that deployed a contract; the rest are functions of the
  web3 library.
\<close>

record 'c env =
  deploy :: "string \<Rightarrow> js list \<Rightarrow> 'c \<Rightarrow> contract_ref result \<times> 'c"
  call :: "contract_ref \<Rightarrow> string \<Rightarrow> js list \<Rightarrow> 'c \<Rightarrow> js result \<times> 'c"
  service :: "string \<Rightarrow> js list \<Rightarrow> 'c \<Rightarrow> js result \<times> 'c"
  random :: "js \<Rightarrow> js \<Rightarrow> 'c \<Rightarrow> string \<times> 'c"
  to_BN :: "js \<Rightarrow> int result"
  toWei :: "string \<Rightarrow> string \<Rightarrow> string result"
  toHex :: "js \<Rightarrow> string result"
  asciiToHex :: "string \<Rightarrow> string"
  sha3 :: "string \<Rightarrow> string"
  tx_hash :: "contract_ref \<Rightarrow> js"

section \<open>Asynchronous code\<close>

text \<open>\<open>await\<close> runs a computation to its end; an error ends the function, as a rejected promise does.\<close>

type_synonym ('c, 'a) io = "'c world \<Rightarrow> 'a result \<times> 'c world"

definition retM :: "'a \<Rightarrow> ('c, 'a) io" where
  "retM x w = (Inr x, w)"

definition failM :: "js_error \<Rightarrow> ('c, 'a) io" where
  "failM e w = (Inl e, w)"

definition liftM :: "'a result \<Rightarrow> ('c, 'a) io" where
  "liftM r w = (r, w)"

definition bindM :: "('c, 'a) io \<Rightarrow> ('a \<Rightarrow> ('c, 'b) io) \<Rightarrow> ('c, 'b) io" where
  "bindM m f w = (case m w of (Inl e, w') \<Rightarrow> (Inl e, w') | (Inr a, w') \<Rightarrow> f a w')"

definition thenM :: "('c, 'a) io \<Rightarrow> ('c, 'b) io \<Rightarrow> ('c, 'b) io" where
  "thenM m m' = bindM m (\<lambda>_. m')"

text \<open>\<open>try { x = await m } catch (e) { return g(e) } return f(x)\<close>\<close>

definition tryM :: "('c, 'a) io \<Rightarrow> ('a \<Rightarrow> ('c, 'b) io) \<Rightarrow> (js_error \<Rightarrow> ('c, 'b) io) \<Rightarrow> ('c, 'b) io" where
  "tryM m f g w = (case m w of (Inr a, w') \<Rightarrow> f a w' | (Inl e, w') \<Rightarrow> g e w')"

text \<open>\<open>for (const x of xs)\<close> collecting what its body pushes.\<close>

fun mapM :: "('a \<Rightarrow> ('c, 'b) io) \<Rightarrow> 'a list \<Rightarrow> ('c, 'b list) io" where
  "mapM f [] = retM []"
| "mapM f (x # xs) = bindM (f x) (\<lambda>y. bindM (mapM f xs) (\<lambda>ys. retM (y # ys)))"

definition forM :: "'a list \<Rightarrow> ('a \<Rightarrow> ('c, 'b) io) \<Rightarrow> ('c, unit) io" where
  "forM xs f = bindM (mapM f xs) (\<lambda>_. retM ())"

definition record_event :: "event \<Rightarrow> ('c, unit) io" where
  "record_event e w = (Inr (), w\<lparr>trace := trace w @ [e]\<rparr>)"

text \<open>\<open>console.log\<close> of several values, or of one template literal as the list of its parts.\<close>

definition logM :: "js list \<Rightarrow> ('c, unit) io" where
  "logM parts = record_event (Log parts)"

definition callM :: "'c env \<Rightarrow> contract_ref \<Rightarrow> string \<Rightarrow> js list \<Rightarrow> ('c, js) io" where
  "callM env c m args w =
     (case call env c m args (chain w) of (r, ch) \<Rightarrow>
        (r, w\<lparr>chain := ch, trace := trace w @ [Called c m args]\<rparr>))"

definition deployM :: "'c env \<Rightarrow> string \<Rightarrow> js list \<Rightarrow> ('c, contract_ref) io" where
  "deployM env a args w =
     (case deploy env a args (chain w) of
        (Inl e, ch) \<Rightarrow> (Inl e, w\<lparr>chain := ch\<rparr>)
      | (Inr c, ch) \<Rightarrow> (Inr c, w\<lparr>chain := ch, trace := trace w @ [Deployed a args c]\<rparr>))"

definition serviceM :: "'c env \<Rightarrow> string \<Rightarrow> js list \<Rightarrow> ('c, js) io" where
  "serviceM env s args w =
     (case service env s args (chain w) of (r, ch) \<Rightarrow>
        (r, w\<lparr>chain := ch, trace := trace w @ [Did s args]\<rparr>))"

definition randomM :: "'c env \<Rightarrow> js \<Rightarrow> js \<Rightarrow> ('c, string) io" where
  "randomM env lo hi w = (case random env lo hi (chain w) of (s, ch) \<Rightarrow> (Inr s, w\<lparr>chain := ch\<rparr>))"

text \<open>An object of contracts: \<open>contracts.name\<close> that is missing is \<open>undefined\<close>, and using it throws.\<close>

type_synonym contracts = "(string \<times> contract_ref) list"

definition con :: "contracts \<Rightarrow> string \<Rightarrow> contract_ref result" where
  "con cs k = (case lookup cs k of None \<Rightarrow> Inl TypeError | Some c \<Rightarrow> Inr c)"

definition callC :: "'c env \<Rightarrow> contracts \<Rightarrow> string \<Rightarrow> string \<Rightarrow> js list \<Rightarrow> ('c, js) io" where
  "callC env cs k m args = bindM (liftM (con cs k)) (\<lambda>c. callM env c m args)"

section \<open>Reasoning about traces\<close>

text \<open>\<open>traces m P\<close>: whatever the world, \<open>m\<close> extends the trace by events related to its outcome by \<open>P\<close>.\<close>

definition traces :: "('c, 'a) io \<Rightarrow> ('a result \<Rightarrow> event list \<Rightarrow> bool) \<Rightarrow> bool" where
  "traces m P \<longleftrightarrow> (\<forall>w. \<exists>es. trace (snd (m w)) = trace w @ es \<and> P (fst (m w)) es)"

lemma traces_mono: "traces m P \<Longrightarrow> (\<And>r es. P r es \<Longrightarrow> Q r es) \<Longrightarrow> traces m Q"
  by (fastforce simp: traces_def)

lemma traces_retM: "P (Inr x) [] \<Longrightarrow> traces (retM x) P"
  by (simp add: traces_def retM_def)

lemma traces_failM: "P (Inl e) [] \<Longrightarrow> traces (failM e) P"
  by (simp add: traces_def failM_def)

lemma traces_liftM: "P r [] \<Longrightarrow> traces (liftM r) P"
  by (simp add: traces_def liftM_def)

lemma traces_bindM:
  assumes "traces m P" "\<And>a. traces (f a) (Q a)"
    and "\<And>e es. P (Inl e) es \<Longrightarrow> R (Inl e) es"
    and "\<And>a es r es'. P (Inr a) es \<Longrightarrow> Q a r es' \<Longrightarrow> R r (es @ es')"
  shows "traces (bindM m f) R"
  unfolding traces_def
proof
  fix w
  obtain r w1 where m: "m w = (r, w1)" by fastforce
  with assms(1) obtain es where es: "trace w1 = trace w @ es" "P r es"
    unfolding traces_def by (metis fst_conv snd_conv)
  show "\<exists>es. trace (snd (bindM m f w)) = trace w @ es \<and> R (fst (bindM m f w)) es"
  proof (cases r)
    case (Inl e)
    with m es assms(3) show ?thesis by (auto simp: bindM_def)
  next
    case (Inr a)
    obtain es' where "trace (snd (f a w1)) = trace w1 @ es'" "Q a (fst (f a w1)) es'"
      using assms(2) unfolding traces_def by blast
    with Inr m es assms(4) show ?thesis by (auto simp: bindM_def)
  qed
qed

lemma traces_tryM:
  assumes "traces m P" "\<And>a. traces (f a) (Q a)" "\<And>e. traces (g e) (Q' e)"
    and "\<And>a es r es'. P (Inr a) es \<Longrightarrow> Q a r es' \<Longrightarrow> R r (es @ es')"
    and "\<And>e es r es'. P (Inl e) es \<Longrightarrow> Q' e r es' \<Longrightarrow> R r (es @ es')"
  shows "traces (tryM m f g) R"
  unfolding traces_def
proof
  fix w
  obtain r w1 where m: "m w = (r, w1)" by fastforce
  with assms(1) obtain es where es: "trace w1 = trace w @ es" "P r es"
    unfolding traces_def by (metis fst_conv snd_conv)
  show "\<exists>es. trace (snd (tryM m f g w)) = trace w @ es \<and> R (fst (tryM m f g w)) es"
  proof (cases r)
    case (Inl e)
    obtain es' where "trace (snd (g e w1)) = trace w1 @ es'" "Q' e (fst (g e w1)) es'"
      using assms(3) unfolding traces_def by blast
    with Inl m es assms(5) show ?thesis by (auto simp: tryM_def)
  next
    case (Inr a)
    obtain es' where "trace (snd (f a w1)) = trace w1 @ es'" "Q a (fst (f a w1)) es'"
      using assms(2) unfolding traces_def by blast
    with Inr m es assms(4) show ?thesis by (auto simp: tryM_def)
  qed
qed

lemma traces_serviceM: "(\<And>r. P r [Did s args]) \<Longrightarrow> traces (serviceM env s args) P"
  by (auto simp: traces_def serviceM_def split: prod.split)

lemma traces_callM: "(\<And>r. P r [Called c m args]) \<Longrightarrow> traces (callM env c m args) P"
  by (auto simp: traces_def callM_def split: prod.split)

lemma traces_record: "P (Inr ()) [e] \<Longrightarrow> traces (record_event e) P"
  by (simp add: traces_def record_event_def)

text \<open>Monad laws.\<close>

lemma bindM_retM [simp]: "bindM (retM x) f = f x"
  by (auto simp: bindM_def retM_def)

lemma bindM_failM [simp]: "bindM (failM e) f = failM e"
  by (auto simp: bindM_def failM_def)

lemma bindM_assoc: "bindM (bindM m f) g = bindM m (\<lambda>x. bindM (f x) g)"
  by (auto simp: bindM_def fun_eq_iff split: prod.split sum.split)

lemma liftM_simps [simp]: "liftM (Inr x) = retM x" "liftM (Inl e) = failM e"
  by (auto simp: liftM_def retM_def failM_def)

lemma bindM_liftM_bindE: "liftM (bindE r f) = bindM (liftM r) (\<lambda>x. liftM (f x))"
  by (cases r) simp_all

lemma bindM_Inr: "bindM m f w = (Inr y, w') \<longleftrightarrow> (\<exists>x w1. m w = (Inr x, w1) \<and> f x w1 = (Inr y, w'))"
  by (auto simp: bindM_def split: prod.splits sum.splits)

end
