(* ===== verification/Test_Helpers.thy ===== *)
theory Test_Helpers
  imports Js_World
begin

text \<open>
  \<open>packages/contracts/utils/testHelpers.js\<close>: the constants, pure helpers, event extraction and
  the queries that the scripts and tests share. The functions that send transactions for
  many accounts are in \<open>Gas_Functions\<close>.
\<close>

section \<open>MoneyValues and TimeValues\<close>

definition negative :: "string result \<Rightarrow> string result" where
  "negative r = bindE r (\<lambda>s. Inr (''-'' @ s))"

definition negative_5e17 :: "'c env \<Rightarrow> string result" where
  "negative_5e17 env = negative (toWei env ''500'' ''finney'')"

definition negative_1e18 :: "'c env \<Rightarrow> string result" where
  "negative_1e18 env = negative (toWei env ''1'' ''ether'')"

definition negative_10e18 :: "'c env \<Rightarrow> string result" where
  "negative_10e18 env = negative (toWei env ''10'' ''ether'')"

definition negative_50e18 :: "'c env \<Rightarrow> string result" where
  "negative_50e18 env = negative (toWei env ''50'' ''ether'')"

definition negative_100e18 :: "'c env \<Rightarrow> string result" where
  "negative_100e18 env = negative (toWei env ''100'' ''ether'')"

definition negative_101e18 :: "'c env \<Rightarrow> string result" where
  "negative_101e18 env = negative (toWei env ''101'' ''ether'')"

definition negative_eth :: "'c env \<Rightarrow> string \<Rightarrow> string result" where
  "negative_eth env amount = negative (toWei env amount ''ether'')"

definition zeroBN :: int where "zeroBN = 0"
definition BN_1e18 :: int where "BN_1e18 = 1000000000000000000"
definition BN_10e18 :: int where "BN_10e18 = 10000000000000000000"
definition BN_100e18 :: int where "BN_100e18 = 100000000000000000000"
definition BN_100 :: int where "BN_100 = 100"
definition BN_110 :: int where "BN_110 = 110"
definition BN_150 :: int where "BN_150 = 150"
definition MCR :: int where "MCR = 1100000000000000000"
definition ICR100 :: int where "ICR100 = 1000000000000000000"
definition CCR :: int where "CCR = 1500000000000000000"

definition SECONDS_IN_ONE_MINUTE :: int where "SECONDS_IN_ONE_MINUTE = 60"
definition SECONDS_IN_ONE_HOUR :: int where "SECONDS_IN_ONE_HOUR = 60 * 60"
definition SECONDS_IN_ONE_DAY :: int where "SECONDS_IN_ONE_DAY = 60 * 60 * 24"
definition SECONDS_IN_ONE_WEEK :: int where "SECONDS_IN_ONE_WEEK = 60 * 60 * 24 * 7"
definition SECONDS_IN_SIX_WEEKS :: int where "SECONDS_IN_SIX_WEEKS = 60 * 60 * 24 * 7 * 6"
definition SECONDS_IN_ONE_MONTH :: int where "SECONDS_IN_ONE_MONTH = 60 * 60 * 24 * 30"
definition SECONDS_IN_ONE_YEAR :: int where "SECONDS_IN_ONE_YEAR = 60 * 60 * 24 * 365"
definition MINUTES_IN_ONE_WEEK :: int where "MINUTES_IN_ONE_WEEK = 60 * 24 * 30"
definition MINUTES_IN_ONE_MONTH :: int where "MINUTES_IN_ONE_MONTH = 60 * 24 * 30"
definition MINUTES_IN_ONE_YEAR :: int where "MINUTES_IN_ONE_YEAR = 60 * 24 * 365"

definition ZERO_ADDRESS :: string where "ZERO_ADDRESS = ''0x'' @ zeros 40"
definition maxBytes32 :: string where "maxBytes32 = ''0x'' @ replicate 64 (CHR ''f'')"
definition pct100 :: js where "pct100 = Str ''1000000000000000000''"
definition initialRandomSeed :: js where "initialRandomSeed = Num 31337"

section \<open>Pure helpers\<close>

datatype scale = Ether | Finney | Digits nat

text \<open>\<open>val\<close> as its \<open>toString()\<close>.\<close>

definition dec :: "string \<Rightarrow> scale \<Rightarrow> string" where
  "dec val scale =
     (let zerosCount = (case scale of Ether \<Rightarrow> 18 | Finney \<Rightarrow> 15 | Digits n \<Rightarrow> n);
          strZeros = zeros zerosCount
      in val @ strZeros)"

text \<open>\<open>s.slice(from)\<close> for a negative \<open>from\<close>: the last characters.\<close>

definition slice_last :: "nat \<Rightarrow> string \<Rightarrow> string" where
  "slice_last n s = drop (length s - n) s"

definition squeezeAddr :: "string \<Rightarrow> string" where
  "squeezeAddr a = take 6 a @ ''...'' @ slice_last 4 a"

definition getDifference :: "'c env \<Rightarrow> js \<Rightarrow> js \<Rightarrow> int result" where
  "getDifference env x y =
     bindE (to_BN env x) (\<lambda>a. bindE (to_BN env y) (\<lambda>b. Inr \<bar>a - b\<bar>))"

definition assertIsApproximatelyEqual :: "'c env \<Rightarrow> js \<Rightarrow> js \<Rightarrow> int option \<Rightarrow> unit result" where
  "assertIsApproximatelyEqual env x y err =
     bindE (getDifference env x y) (\<lambda>d.
       assertE (d \<le> (case err of None \<Rightarrow> 1000 | Some e \<Rightarrow> e)) (Inr ()))"

text \<open>Assigning a property of an object: an existing key keeps its place.\<close>

fun set_prop :: "(string \<times> 'a) list \<Rightarrow> string \<Rightarrow> 'a \<Rightarrow> (string \<times> 'a) list" where
  "set_prop [] k v = [(k, v)]"
| "set_prop ((k', v') # ps) k v = (if k' = k then (k, v) # ps else (k', v') # set_prop ps k v)"

lemma lookup_set_prop: "lookup (set_prop ps k v) n = (if n = k then Some v else lookup ps n)"
  by (induction ps) (auto simp: lookup_def)

fun zip_from :: "(string \<times> js) list \<Rightarrow> nat \<Rightarrow> string list \<Rightarrow> js list \<Rightarrow> (string \<times> js) list" where
  "zip_from obj i [] ys = obj"
| "zip_from obj i (x # xs) ys =
     zip_from (set_prop obj x (if i < length ys then ys ! i else Undefined)) (Suc i) xs ys"

definition zipToObject :: "string list \<Rightarrow> js list \<Rightarrow> (string \<times> js) list" where
  "zipToObject array1 array2 = zip_from [] 0 array1 array2"

record gas_metrics =
  gasCostList :: "int list"
  minGas :: "int option"
  maxGas :: "int option"
  meanGas :: "rat option"
  medianGas :: "int option"

text \<open>\<open>Array.prototype.sort\<close> without a comparator: a stable sort of the values by their text.\<close>

fun insert_by_text :: "int \<Rightarrow> int list \<Rightarrow> int list" where
  "insert_by_text x [] = [x]"
| "insert_by_text x (y # ys) =
     (if str_less (int_to_string y) (int_to_string x) then y # insert_by_text x ys else x # y # ys)"

definition sort_by_text :: "int list \<Rightarrow> int list" where
  "sort_by_text xs = foldr insert_by_text xs []"

definition getGasMetrics :: "int list \<Rightarrow> gas_metrics" where
  "getGasMetrics gs =
     (let sum = sum_list gs in
      if sum = 0 then
        \<lparr>gasCostList = gs, minGas = None, maxGas = None, meanGas = None, medianGas = None\<rparr>
      else
        (let sortedGasCostList = sort_by_text gs in
         \<lparr>gasCostList = gs, minGas = Some (Min (set gs)), maxGas = Some (Max (set gs)),
          meanGas = Some (of_int sum / of_nat (length gs)),
          medianGas = Some (sortedGasCostList ! (length gs div 2))\<rparr>))"

text \<open>The function refers to a name \<open>th\<close> that this module does not define.\<close>

definition getGasMinMaxAvg :: "int list \<Rightarrow> gas_metrics result" where
  "getGasMinMaxAvg gs = Inl (ReferenceError ''th'')"

definition getEndOfAccount :: "string \<Rightarrow> string" where
  "getEndOfAccount account = slice_last 4 account"

text \<open>Random amounts: the text of the random number, converted by \<open>toWei\<close>.\<close>

definition randAmountInWei :: "'c env \<Rightarrow> js \<Rightarrow> js \<Rightarrow> ('c, js) io" where
  "randAmountInWei env lo hi =
     bindM (randomM env lo hi) (\<lambda>amount. liftM (bindE (toWei env amount ''ether'') (\<lambda>t. Inr (Str t))))"

text \<open>\<open>Math.floor\<close> of the random number: the part of its text before the point.\<close>

definition floor_text :: "string \<Rightarrow> string" where
  "floor_text s = takeWhile (\<lambda>c. c \<noteq> CHR ''.'') s"

text \<open>The same for a number printed with \<open>toFixed(18)\<close>.\<close>

definition randDecayFactor :: "'c env \<Rightarrow> js \<Rightarrow> js \<Rightarrow> ('c, js) io" where
  "randDecayFactor env lo hi =
     bindM (randomM env lo hi) (\<lambda>amount. liftM (bindE (toWei env amount ''ether'') (\<lambda>t. Inr (Str t))))"

definition randAmountInGWei :: "'c env \<Rightarrow> js \<Rightarrow> js \<Rightarrow> ('c, js) io" where
  "randAmountInGWei env lo hi =
     bindM (randomM env lo hi) (\<lambda>amount.
       liftM (bindE (toWei env (floor_text amount) ''gwei'') (\<lambda>t. Inr (Str t))))"

definition makeWei :: "'c env \<Rightarrow> string \<Rightarrow> string result" where
  "makeWei env num = toWei env num ''ether''"

text \<open>\<open>key + "," + results[key] + '\n'\<close> for every property, after the message.\<close>

definition appendData :: "(string \<times> string) list \<Rightarrow> string \<Rightarrow> string list \<Rightarrow> string list" where
  "appendData results message data =
     data @ [message @ newline] @ map (\<lambda>(key, v). key @ '','' @ v @ newline) results"

definition getRandICR :: "'c env \<Rightarrow> js \<Rightarrow> js \<Rightarrow> ('c, js) io" where
  "getRandICR env lo hi =
     bindM (randomM env lo hi) (\<lambda>amount.
       let percent = int (digits_value (floor_text amount)) in
       liftM (bindE (toWei env (int_to_string (percent * 10)) ''finney'') (\<lambda>t. Inr (Str t))))"

definition max_uint :: int where
  "max_uint = 2 ^ 256 - 1"

definition computeICR :: "'c env \<Rightarrow> js \<Rightarrow> js \<Rightarrow> js \<Rightarrow> int result" where
  "computeICR env coll debt price =
     bindE (to_BN env coll) (\<lambda>collBN. bindE (to_BN env debt) (\<lambda>debtBN. bindE (to_BN env price) (\<lambda>priceBN.
       if debtBN = 0 then Inr max_uint else Inr (bn_quotient (collBN * priceBN) debtBN))))"

definition applyLiquidationFee :: "'c env \<Rightarrow> js \<Rightarrow> js result" where
  "applyLiquidationFee env ethAmount =
     bindE (to_BN env (Str (dec ''995'' (Digits 15)))) (\<lambda>f.
     bindE (bn_op (*) ethAmount (BN f)) (\<lambda>m. bn_div m (BN BN_1e18)))"

definition secondsToDays :: "int \<Rightarrow> rat" where
  "secondsToDays seconds = of_int seconds / (60 * 60 * 24)"

definition daysToSeconds :: "int \<Rightarrow> int" where
  "daysToSeconds days = days * (60 * 60 * 24)"

definition padded_number :: "string \<Rightarrow> string" where
  "padded_number x = padStart 18 x"

text \<open>\<open>x.slice(0, length - 18) + '.' + x.slice(-18)\<close>\<close>

definition showBN :: "string \<Rightarrow> string" where
  "showBN x = (let p = padded_number x in take (length p - 18) p @ ''.'' @ slice_last 18 p)"

definition logBN :: "string \<Rightarrow> int \<Rightarrow> ('c, unit) io" where
  "logBN label x = logM [Str (label @ '':''), Str (showBN (int_to_string x))]"

section \<open>Transaction data\<close>

definition hexToParam :: "string \<Rightarrow> string" where
  "hexToParam hexValue = slice_last 64 (zeros 64 @ drop 2 hexValue)"

text \<open>\<open>new RegExp('[0-9]*')\<close> is not anchored, so it matches the empty text at the start of any string.\<close>

definition matches_digits_star :: "string \<Rightarrow> bool" where
  "matches_digits_star s \<longleftrightarrow> (\<exists>i \<in> {0..length s}. \<exists>j \<in> {i..length s}. list_all is_digit (take (j - i) (drop i s)))"

definition formatParam :: "'c env \<Rightarrow> js \<Rightarrow> string result" where
  "formatParam env param =
     bindE (case param of
        Num n \<Rightarrow> toHex env param
      | Quot q \<Rightarrow> toHex env param
      | BN n \<Rightarrow> toHex env param
      | Null \<Rightarrow> toHex env param
      | Arr xs \<Rightarrow> toHex env param
      | Obj ps \<Rightarrow> toHex env param
      | Con c \<Rightarrow> toHex env param
      | Bool b \<Rightarrow> Inr (if b then ''0x01'' else ''0x00'')
      | Undefined \<Rightarrow> Inl TypeError
      | Str s \<Rightarrow>
          if matches_digits_star s then toHex env param
          else if take 2 s \<noteq> ''0x'' then Inr (asciiToHex env s) else Inr s)
     (\<lambda>formatted. Inr (hexToParam formatted))"

definition getTransactionData :: "'c env \<Rightarrow> string \<Rightarrow> js list \<Rightarrow> string result" where
  "getTransactionData env signatureString params =
     bindE (foldE (\<lambda>acc p. bindE (formatParam env p) (\<lambda>f. Inr (acc @ f))) [] params) (\<lambda>d.
       Inr (take 10 (sha3 env signatureString) @ d))"

section \<open>Events of a transaction\<close>

definition event_name :: "js \<Rightarrow> string result" where
  "event_name l = bindE (get_prop l ''event'') (\<lambda>e. Inr (case e of Str s \<Rightarrow> s | _ \<Rightarrow> []))"

definition logs :: "js \<Rightarrow> js list result" where
  "logs tx = bindE (get_prop tx ''logs'') (\<lambda>l. case l of Arr xs \<Rightarrow> Inr xs | _ \<Rightarrow> Inl TypeError)"

text \<open>The loop over the logs: the value \<open>f\<close> takes from the first one of that name.\<close>

fun find_log :: "string \<Rightarrow> (js \<Rightarrow> 'a option result) \<Rightarrow> js list \<Rightarrow> 'a option result" where
  "find_log name f [] = Inr None"
| "find_log name f (l # ls) =
     bindE (event_name l) (\<lambda>e.
       if e = name then
         bindE (f l) (\<lambda>r. case r of Some x \<Rightarrow> Inr (Some x) | None \<Rightarrow> find_log name f ls)
       else find_log name f ls)"

definition event_arg :: "nat \<Rightarrow> js \<Rightarrow> js result" where
  "event_arg i l = bindE (get_prop l ''args'') (\<lambda>a. index a i)"

definition event_args :: "nat list \<Rightarrow> js \<Rightarrow> js list option result" where
  "event_args is l = bindE (mapE (\<lambda>i. event_arg i l) is) (\<lambda>vs. Inr (Some vs))"

definition orThrow :: "string \<Rightarrow> 'a option \<Rightarrow> 'a result" where
  "orThrow msg r = (case r of Some x \<Rightarrow> Inr x | None \<Rightarrow> Inl (Thrown msg))"

definition getEmittedRedemptionValues :: "js \<Rightarrow> js list result" where
  "getEmittedRedemptionValues tx =
     bindE (logs tx) (\<lambda>ls. bindE (find_log ''Redemption'' (event_args [0, 1, 2, 3]) ls)
       (orThrow ''The transaction logs do not contain a redemption event''))"

definition getEmittedLiquidationValues :: "js \<Rightarrow> js list result" where
  "getEmittedLiquidationValues tx =
     bindE (logs tx) (\<lambda>ls. bindE (find_log ''Liquidation'' (event_args [0, 1, 2, 3]) ls)
       (orThrow ''The transaction logs do not contain a liquidation event''))"

definition one_arg :: "nat \<Rightarrow> js \<Rightarrow> js option result" where
  "one_arg i l = bindE (event_arg i l) (\<lambda>v. Inr (Some v))"

definition getLiquidationEventArg :: "js \<Rightarrow> nat \<Rightarrow> js result" where
  "getLiquidationEventArg tx i =
     bindE (logs tx) (\<lambda>ls. bindE (find_log ''Liquidation'' (one_arg i) ls)
       (orThrow ''The transaction logs do not contain a liquidation event''))"

definition getEmittedLiquidatedDebt :: "js \<Rightarrow> js result" where
  "getEmittedLiquidatedDebt tx = getLiquidationEventArg tx 0"

definition getEmittedLiquidatedColl :: "js \<Rightarrow> js result" where
  "getEmittedLiquidatedColl tx = getLiquidationEventArg tx 1"

definition getEmittedGasComp :: "js \<Rightarrow> js result" where
  "getEmittedGasComp tx = getLiquidationEventArg tx 2"

text \<open>\<open>toString()\<close> of an argument; only big numbers and strings occur.\<close>

fun js_text :: "js \<Rightarrow> string result" where
  "js_text (BN n) = Inr (int_to_string n)"
| "js_text (Num n) = Inr (int_to_string n)"
| "js_text (Str s) = Inr s"
| "js_text _ = Inl TypeError"

definition getBPDFeeFromBPDBorrowingEvent :: "js \<Rightarrow> string result" where
  "getBPDFeeFromBPDBorrowingEvent tx =
     bindE (logs tx) (\<lambda>ls. bindE (find_log ''BPDBorrowingFeePaid'' (one_arg 1) ls) (\<lambda>r.
       bindE (orThrow ''The transaction logs do not contain an BPDBorrowingFeePaid event'' r) js_text))"

definition getEventArgByIndex :: "js \<Rightarrow> string \<Rightarrow> nat \<Rightarrow> js result" where
  "getEventArgByIndex tx eventName argIndex =
     bindE (logs tx) (\<lambda>ls. bindE (find_log eventName (one_arg argIndex) ls)
       (orThrow (''The transaction logs do not contain event '' @ eventName)))"

text \<open>\<open>Object.keys(args)\<close> searched for the name; an event without it is passed over.\<close>

definition named_arg :: "string \<Rightarrow> js \<Rightarrow> js option result" where
  "named_arg argName l =
     bindE (get_prop l ''args'') (\<lambda>a. case a of
        Obj ps \<Rightarrow> Inr (lookup ps argName)
      | Undefined \<Rightarrow> Inl TypeError
      | Null \<Rightarrow> Inl TypeError
      | _ \<Rightarrow> Inr None)"

definition getEventArgByName :: "js \<Rightarrow> string \<Rightarrow> string \<Rightarrow> js result" where
  "getEventArgByName tx eventName argName =
     bindE (logs tx) (\<lambda>ls. bindE (find_log eventName (named_arg argName) ls)
       (orThrow (''The transaction logs do not contain event '' @ eventName @ '' and arg '' @ argName)))"

definition getAllEventsByName :: "js \<Rightarrow> string \<Rightarrow> js list result" where
  "getAllEventsByName tx eventName =
     bindE (logs tx) (\<lambda>ls. bindE (mapE (\<lambda>l. bindE (event_name l) (\<lambda>n. Inr (n, l))) ls) (\<lambda>nls.
       Inr (map snd (filter (\<lambda>(n, l). n = eventName) nls))))"

definition getDebtAndCollFromVaultUpdatedEvents :: "js list \<Rightarrow> js \<Rightarrow> js list result" where
  "getDebtAndCollFromVaultUpdatedEvents events a =
     bindE (mapE (\<lambda>e. bindE (event_arg 0 e) (\<lambda>x. Inr (x, e))) events) (\<lambda>xes.
       case filter (\<lambda>(x, e). x = a) xes of
         [] \<Rightarrow> Inl TypeError
       | (x, e) # _ \<Rightarrow> mapE (\<lambda>i. event_arg i e) [1, 2])"

definition getLCAddressFromDeploymentTx :: "js \<Rightarrow> js result" where
  "getLCAddressFromDeploymentTx tx =
     bindE (logs tx) (\<lambda>ls. case ls of [] \<Rightarrow> Inl TypeError | l # _ \<Rightarrow> event_arg 0 l)"

end
