(* ===== verification/Gas_Functions.thy ===== *)
theory Gas_Functions
  imports Test_Helpers
begin

text \<open>
  \<open>packages/contracts/utils/testHelpers.js\<close>, continued: the queries of the contracts, and the functions
  that send one transaction for each of a list of accounts and summarise the gas they used.
\<close>

section \<open>Queries\<close>

text \<open>A read of a contract that returns a big number, and the big-number operators lifted to \<open>io\<close>.\<close>

definition opM :: "(int \<Rightarrow> int \<Rightarrow> int) \<Rightarrow> js \<Rightarrow> js \<Rightarrow> ('c, js) io" where
  "opM f x y = liftM (bn_op f x y)"

definition toBN :: "'c env \<Rightarrow> js \<Rightarrow> ('c, js) io" where
  "toBN env x = liftM (bindE (to_BN env x) (\<lambda>n. Inr (BN n)))"

definition indexM :: "js \<Rightarrow> nat \<Rightarrow> ('c, js) io" where
  "indexM v i = liftM (index v i)"

definition getM :: "js \<Rightarrow> string \<Rightarrow> ('c, js) io" where
  "getM v k = liftM (get_prop v k)"

definition compareM :: "(int \<Rightarrow> int \<Rightarrow> bool) \<Rightarrow> js \<Rightarrow> js \<Rightarrow> ('c, bool) io" where
  "compareM p x y = liftM (bindE (asBN x) (\<lambda>a. bindE (asBN y) (\<lambda>b. Inr (p a b))))"

definition gasUsed :: "js \<Rightarrow> ('c, int) io" where
  "gasUsed tx = liftM (bindE (get_prop tx ''receipt'') (\<lambda>r. bindE (get_prop r ''gasUsed'') (\<lambda>g.
     case g of Num n \<Rightarrow> Inr n | _ \<Rightarrow> Inl TypeError)))"

definition ICRbetween100and110 :: "'c env \<Rightarrow> js \<Rightarrow> contract_ref \<Rightarrow> js \<Rightarrow> ('c, bool) io" where
  "ICRbetween100and110 env account vaultManager price =
     bindM (callM env vaultManager ''getCurrentICR'' [account, price]) (\<lambda>ICR.
     bindM (compareM (>) ICR (BN ICR100)) (\<lambda>above.
       if above then compareM (<) ICR (BN MCR) else retM False))"

definition isUndercollateralized :: "'c env \<Rightarrow> js \<Rightarrow> contract_ref \<Rightarrow> js \<Rightarrow> ('c, bool) io" where
  "isUndercollateralized env account vaultManager price =
     bindM (callM env vaultManager ''getCurrentICR'' [account, price]) (\<lambda>ICR. compareM (<) ICR (BN MCR))"

definition checkRecoveryMode :: "'c env \<Rightarrow> contracts \<Rightarrow> ('c, js) io" where
  "checkRecoveryMode env contracts =
     bindM (callC env contracts ''priceFeedTestnet'' ''getPrice'' []) (\<lambda>price.
       callC env contracts ''vaultManager'' ''checkRecoveryMode'' [price])"

definition getTCR :: "'c env \<Rightarrow> contracts \<Rightarrow> ('c, js) io" where
  "getTCR env contracts =
     bindM (callC env contracts ''priceFeedTestnet'' ''getPrice'' []) (\<lambda>price.
       callC env contracts ''vaultManager'' ''getTCR'' [price])"

definition getActualDebtFromComposite :: "'c env \<Rightarrow> js \<Rightarrow> contracts \<Rightarrow> ('c, js) io" where
  "getActualDebtFromComposite env compositeDebt contracts =
     callC env contracts ''vaultManager'' ''getActualDebtFromComposite'' [compositeDebt]"

definition getCompositeDebt :: "'c env \<Rightarrow> contracts \<Rightarrow> js \<Rightarrow> ('c, js) io" where
  "getCompositeDebt env contracts d =
     callC env contracts ''borrowerOperations'' ''getCompositeDebt'' [d]"

definition getVaultEntireColl :: "'c env \<Rightarrow> contracts \<Rightarrow> js \<Rightarrow> ('c, js) io" where
  "getVaultEntireColl env contracts v =
     bindM (callC env contracts ''vaultManager'' ''getEntireDebtAndColl'' [v]) (\<lambda>r.
     bindM (indexM r 1) (toBN env))"

definition getVaultEntireDebt :: "'c env \<Rightarrow> contracts \<Rightarrow> js \<Rightarrow> ('c, js) io" where
  "getVaultEntireDebt env contracts v =
     bindM (callC env contracts ''vaultManager'' ''getEntireDebtAndColl'' [v]) (\<lambda>r.
     bindM (indexM r 0) (toBN env))"

definition getVaultStake :: "'c env \<Rightarrow> contracts \<Rightarrow> js \<Rightarrow> ('c, js) io" where
  "getVaultStake env contracts v = callC env contracts ''vaultManager'' ''getVaultStake'' [v]"

definition getOpenVaultTotalDebt :: "'c env \<Rightarrow> contracts \<Rightarrow> js \<Rightarrow> ('c, js) io" where
  "getOpenVaultTotalDebt env contracts bpdAmount =
     bindM (callC env contracts ''vaultManager'' ''getBorrowingFee'' [bpdAmount]) (\<lambda>fee.
     bindM (getCompositeDebt env contracts bpdAmount) (\<lambda>compositeDebt. opM (+) compositeDebt fee))"

text \<open>\<open>debt * 1e18 / (1e18 + rate)\<close>\<close>

definition net_of_rate :: "int \<Rightarrow> int \<Rightarrow> int result" where
  "net_of_rate d r = (if BN_1e18 + r = 0 then Inl AssertionError
     else Inr (bn_quotient (d * BN_1e18) (BN_1e18 + r)))"

definition getNetBorrowingAmount :: "'c env \<Rightarrow> contracts \<Rightarrow> js \<Rightarrow> ('c, js) io" where
  "getNetBorrowingAmount env contracts debtWithFee =
     bindM (callC env contracts ''vaultManager'' ''getBorrowingRateWithDecay'' []) (\<lambda>borrowingRate.
       liftM (bindE (to_BN env debtWithFee) (\<lambda>d. bindE (asBN borrowingRate) (\<lambda>r.
         bindE (net_of_rate d r) (\<lambda>n. Inr (BN n))))))"

definition getOpenVaultBPDAmount :: "'c env \<Rightarrow> contracts \<Rightarrow> js \<Rightarrow> ('c, js) io" where
  "getOpenVaultBPDAmount env contracts totalDebt =
     bindM (getActualDebtFromComposite env totalDebt contracts) (getNetBorrowingAmount env contracts)"

definition getAmountWithBorrowingFee :: "'c env \<Rightarrow> contracts \<Rightarrow> js \<Rightarrow> ('c, js) io" where
  "getAmountWithBorrowingFee env contracts bpdAmount =
     bindM (callC env contracts ''vaultManager'' ''getBorrowingFee'' [bpdAmount]) (\<lambda>fee.
       opM (+) bpdAmount fee)"

definition getRedemptionGrossAmount :: "'c env \<Rightarrow> contracts \<Rightarrow> js \<Rightarrow> ('c, js) io" where
  "getRedemptionGrossAmount env contracts expected =
     bindM (callC env contracts ''vaultManager'' ''getRedemptionRate'' []) (\<lambda>redemptionRate.
       liftM (bindE (asBN expected) (\<lambda>d. bindE (asBN redemptionRate) (\<lambda>r.
         bindE (net_of_rate d r) (\<lambda>n. Inr (BN n))))))"

text \<open>The loop calls \<open>this.getCollMinusGasComp\<close>, which no class defines.\<close>

fun getExpectedTotalCollMinusTotalGasComp :: "js list \<Rightarrow> js result" where
  "getExpectedTotalCollMinusTotalGasComp [] = Inr (BN 0)"
| "getExpectedTotalCollMinusTotalGasComp (v # vs) = Inl TypeError"

definition getBorrowerOpsListHint :: "'c env \<Rightarrow> contracts \<Rightarrow> js \<Rightarrow> js \<Rightarrow> ('c, js \<times> js) io" where
  "getBorrowerOpsListHint env contracts newColl newDebt =
     bindM (callC env contracts ''hintHelpers'' ''computeNominalCR'' [newColl, newDebt]) (\<lambda>newNICR.
     bindM (\<lambda>w. (Inr (latestRandomSeed w), w)) (\<lambda>seed.
     bindM (callC env contracts ''hintHelpers'' ''getApproxHint'' [newNICR, Num 5, seed]) (\<lambda>approx.
     bindM (getM approx ''hintAddress'') (\<lambda>hint.
     bindM (getM approx ''latestRandomSeed'') (\<lambda>seed'.
     bindM (\<lambda>w. (Inr (), w\<lparr>latestRandomSeed := seed'\<rparr>)) (\<lambda>_.
     bindM (callC env contracts ''sortedVaults'' ''findInsertPosition'' [newNICR, hint, hint]) (\<lambda>pos.
     bindM (indexM pos 0) (\<lambda>upperHint.
     bindM (indexM pos 1) (\<lambda>lowerHint.
       retM (upperHint, lowerHint))))))))))"

definition getEntireCollAndDebt :: "'c env \<Rightarrow> contracts \<Rightarrow> js \<Rightarrow> ('c, js \<times> js) io" where
  "getEntireCollAndDebt env contracts account =
     bindM (callC env contracts ''vaultManager'' ''Vaults'' [account]) (\<lambda>v.
     bindM (indexM v 1) (\<lambda>rawColl.
     bindM (callC env contracts ''vaultManager'' ''Vaults'' [account]) (\<lambda>v'.
     bindM (indexM v' 0) (\<lambda>rawDebt.
     bindM (callC env contracts ''vaultManager'' ''getPendingRBTCReward'' [account]) (\<lambda>pendingRBTC.
     bindM (callC env contracts ''vaultManager'' ''getPendingBPDDebtReward'' [account]) (\<lambda>pendingBPD.
     bindM (opM (+) rawColl pendingRBTC) (\<lambda>entireColl.
     bindM (opM (+) rawDebt pendingBPD) (\<lambda>entireDebt.
       retM (entireColl, entireDebt)))))))))"

definition getCollAndDebtFromAddColl :: "'c env \<Rightarrow> contracts \<Rightarrow> js \<Rightarrow> js \<Rightarrow> ('c, js \<times> js) io" where
  "getCollAndDebtFromAddColl env contracts account amount =
     bindM (getEntireCollAndDebt env contracts account) (\<lambda>(coll, d).
     bindM (toBN env amount) (\<lambda>a. bindM (opM (+) coll a) (\<lambda>newColl. retM (newColl, d))))"

definition getCollAndDebtFromWithdrawColl :: "'c env \<Rightarrow> contracts \<Rightarrow> js \<Rightarrow> js \<Rightarrow> ('c, js \<times> js) io" where
  "getCollAndDebtFromWithdrawColl env contracts account amount =
     bindM (getEntireCollAndDebt env contracts account) (\<lambda>(coll, d).
     bindM (toBN env amount) (\<lambda>a. bindM (opM (-) coll a) (\<lambda>newColl. retM (newColl, d))))"

definition getCollAndDebtFromWithdrawBPD :: "'c env \<Rightarrow> contracts \<Rightarrow> js \<Rightarrow> js \<Rightarrow> ('c, js \<times> js) io" where
  "getCollAndDebtFromWithdrawBPD env contracts account amount =
     bindM (callC env contracts ''vaultManager'' ''getBorrowingFee'' [amount]) (\<lambda>fee.
     bindM (getEntireCollAndDebt env contracts account) (\<lambda>(coll, d).
     bindM (toBN env amount) (\<lambda>a. bindM (opM (+) d a) (\<lambda>d'.
     bindM (opM (+) d' fee) (\<lambda>newDebt. retM (coll, newDebt))))))"

definition getCollAndDebtFromRepayBPD :: "'c env \<Rightarrow> contracts \<Rightarrow> js \<Rightarrow> js \<Rightarrow> ('c, js \<times> js) io" where
  "getCollAndDebtFromRepayBPD env contracts account amount =
     bindM (getEntireCollAndDebt env contracts account) (\<lambda>(coll, d).
     bindM (toBN env amount) (\<lambda>a. bindM (opM (-) d a) (\<lambda>newDebt. retM (coll, newDebt))))"

definition getCollAndDebtFromAdjustment ::
  "'c env \<Rightarrow> contracts \<Rightarrow> js \<Rightarrow> js \<Rightarrow> js \<Rightarrow> ('c, js \<times> js) io" where
  "getCollAndDebtFromAdjustment env contracts account RBTCChange BPDChange =
     bindM (getEntireCollAndDebt env contracts account) (\<lambda>(coll, d).
     bindM (toBN env (Str ''0'')) (\<lambda>zero.
     bindM (compareM (>) BPDChange zero) (\<lambda>increase.
     bindM (if increase then callC env contracts ''vaultManager'' ''getBorrowingFee'' [BPDChange]
            else toBN env (Str ''0'')) (\<lambda>fee.
     bindM (opM (+) coll RBTCChange) (\<lambda>newColl.
     bindM (opM (+) d BPDChange) (\<lambda>d'.
     bindM (opM (+) d' fee) (\<lambda>newDebt. retM (newColl, newDebt))))))))"

section \<open>Logging\<close>

definition show_opt :: "('a \<Rightarrow> js) \<Rightarrow> 'a option \<Rightarrow> js" where
  "show_opt f x = (case x of None \<Rightarrow> Undefined | Some y \<Rightarrow> f y)"

definition gap :: string where
  "gap = '' '' @ newline @ newline @ ''      ''"

definition logGasMetrics :: "gas_metrics \<Rightarrow> string \<Rightarrow> ('c, unit) io" where
  "logGasMetrics g message =
     logM [Str (newline @ '' ''), Str message, Str (gap @ ''min gas: ''), show_opt Num (minGas g),
           Str (gap @ ''max gas: ''), show_opt Num (maxGas g), Str (gap @ ''mean gas: ''), show_opt Quot (meanGas g),
           Str (gap @ ''median gas: ''), show_opt Num (medianGas g), Str ('' '' @ newline @ newline @ ''    '')]"

definition logAllGasCosts :: "gas_metrics \<Rightarrow> ('c, unit) io" where
  "logAllGasCosts g = logM [Str ''all gas costs: '', Arr (map Num (gasCostList g)), Str ('' '' @ newline @ newline @ ''    '')]"

definition logGas :: "int \<Rightarrow> string \<Rightarrow> ('c, unit) io" where
  "logGas gas message = logM [Str (newline @ '' ''), Str message, Str (gap @ ''gas used: ''), Num gas, Str ('' '' @ newline @ newline @ ''    '')]"

definition logAccount :: "'c env \<Rightarrow> contract_ref \<Rightarrow> string \<Rightarrow> js \<Rightarrow> ('c, unit) io" where
  "logAccount env vaultManager account price =
     bindM (callM env vaultManager ''Vaults'' [Str account]) (\<lambda>v. bindM (indexM v 1) (\<lambda>coll.
     bindM (callM env vaultManager ''Vaults'' [Str account]) (\<lambda>v'. bindM (indexM v' 0) (\<lambda>d.
     bindM (callM env vaultManager ''getCurrentICR'' [Str account, price]) (\<lambda>ICR.
       logM [Str ''Acct: '', Str (squeezeAddr account), Str ''  coll:'', coll, Str ''  debt: '', d,
             Str ''  ICR: '', ICR])))))"

text \<open>The walk along the sorted list, from the last account to the head, at most \<open>n\<close> accounts.\<close>

fun logAccountsFrom ::
  "'c env \<Rightarrow> contracts \<Rightarrow> contract_ref \<Rightarrow> js \<Rightarrow> string \<Rightarrow> nat \<Rightarrow> string \<Rightarrow> ('c, unit) io" where
  "logAccountsFrom env contracts vaultManager price head 0 account = retM ()"
| "logAccountsFrom env contracts vaultManager price head (Suc n) account =
     bindM (logAccount env vaultManager account price) (\<lambda>_.
       if account = head then retM ()
       else bindM (callC env contracts ''sortedVaults'' ''getPrev'' [Str account]) (\<lambda>prev.
            bindM (liftM (asStr prev)) (logAccountsFrom env contracts vaultManager price head n)))"

definition logActiveAccounts :: "'c env \<Rightarrow> contracts \<Rightarrow> nat option \<Rightarrow> ('c, unit) io" where
  "logActiveAccounts env contracts n =
     bindM (callC env contracts ''sortedVaults'' ''getSize'' []) (\<lambda>count.
     bindM (callC env contracts ''priceFeedTestnet'' ''getPrice'' []) (\<lambda>price.
     bindM (callC env contracts ''sortedVaults'' ''getLast'' []) (\<lambda>account.
     bindM (callC env contracts ''sortedVaults'' ''getFirst'' []) (\<lambda>head.
     bindM (logM [Str ''Total active accounts: '', count]) (\<lambda>_.
     bindM (liftM (asBN count)) (\<lambda>c.
     let k = (case n of None \<Rightarrow> nat c | Some m \<Rightarrow> m) in
     bindM (logM [Str ''First '', Num (int k), Str '' accounts, in ascending ICR order:'']) (\<lambda>_.
     bindM (liftM (asStr account)) (\<lambda>a. bindM (liftM (asStr head)) (\<lambda>h.
     bindM (liftM (con contracts ''vaultManager'')) (\<lambda>vm.
       logAccountsFrom env contracts vm price h k a))))))))))"

definition logAccountsArray ::
  "'c env \<Rightarrow> string list \<Rightarrow> contract_ref \<Rightarrow> js \<Rightarrow> nat option \<Rightarrow> ('c, unit) io" where
  "logAccountsArray env accounts vaultManager price n =
     (let k = (case n of None \<Rightarrow> length accounts | Some m \<Rightarrow> m) in
      bindM (logM [Str ''Number of accounts in array: '', Num (int (length accounts))]) (\<lambda>_.
      bindM (logM [Str ''First '', Num (int k), Str '' accounts of array:'']) (\<lambda>_.
        forM accounts (\<lambda>account. logAccount env vaultManager account price))))"

end
