(* ===== verification/Gas_Loops.thy ===== *)
theory Gas_Loops
  imports Gas_Functions
begin

text \<open>
  \<open>packages/contracts/utils/testHelpers.js\<close>, continued: transactions for all accounts, opening a vault and
  withdrawing with a target ratio, redemption, time and assertion helpers. The locale
  \<open>gas_loop\<close> is the contract of a loop over the accounts, interpreted on every such function.
\<close>

section \<open>Transactions for all accounts\<close>

text \<open>\<open>gasCostList.push(gasUsed(tx))\<close> for every account, then \<open>getGasMetrics\<close>.\<close>

definition all_accounts :: "js list \<Rightarrow> (js \<Rightarrow> ('c, int) io) \<Rightarrow> ('c, gas_metrics) io" where
  "all_accounts accounts body = bindM (mapM body accounts) (\<lambda>gs. retM (getGasMetrics gs))"

definition sendGas :: "'c env \<Rightarrow> contracts \<Rightarrow> string \<Rightarrow> string \<Rightarrow> js list \<Rightarrow> ('c, int) io" where
  "sendGas env contracts k m args = bindM (callC env contracts k m args) gasUsed"

definition from_account :: "js \<Rightarrow> js" where
  "from_account account = Obj [(''from'', account)]"

definition from_value :: "js \<Rightarrow> js \<Rightarrow> js" where
  "from_value account v = Obj [(''from'', account), (''value'', v)]"

definition openVault_body ::
  "'c env \<Rightarrow> contracts \<Rightarrow> js \<Rightarrow> js \<Rightarrow> js \<Rightarrow> js \<Rightarrow> ('c, int) io" where
  "openVault_body env contracts RBTCAmount BPDAmount totalDebt account =
     bindM (getBorrowerOpsListHint env contracts RBTCAmount totalDebt) (\<lambda>(upperHint, lowerHint).
       sendGas env contracts ''borrowerOperations'' ''openVault''
         [pct100, BPDAmount, upperHint, lowerHint, from_value account RBTCAmount])"

definition openVault_allAccounts ::
  "'c env \<Rightarrow> js list \<Rightarrow> contracts \<Rightarrow> js \<Rightarrow> js \<Rightarrow> ('c, gas_metrics) io" where
  "openVault_allAccounts env accounts contracts RBTCAmount BPDAmount =
     bindM (getOpenVaultTotalDebt env contracts BPDAmount) (\<lambda>totalDebt.
       all_accounts accounts (openVault_body env contracts RBTCAmount BPDAmount totalDebt))"

definition openVault_allAccounts_randomRBTC ::
  "'c env \<Rightarrow> js \<Rightarrow> js \<Rightarrow> js list \<Rightarrow> contracts \<Rightarrow> js \<Rightarrow> ('c, gas_metrics) io" where
  "openVault_allAccounts_randomRBTC env minRBTC maxRBTC accounts contracts BPDAmount =
     bindM (getOpenVaultTotalDebt env contracts BPDAmount) (\<lambda>totalDebt.
       all_accounts accounts (\<lambda>account.
         bindM (randAmountInWei env minRBTC maxRBTC) (\<lambda>randCollAmount.
           openVault_body env contracts randCollAmount BPDAmount totalDebt account)))"

definition openVault_allAccounts_randomRBTC_ProportionalBPD ::
  "'c env \<Rightarrow> js \<Rightarrow> js \<Rightarrow> js list \<Rightarrow> contracts \<Rightarrow> js \<Rightarrow> ('c, gas_metrics) io" where
  "openVault_allAccounts_randomRBTC_ProportionalBPD env minRBTC maxRBTC accounts contracts proportion =
     all_accounts accounts (\<lambda>account.
       bindM (randAmountInWei env minRBTC maxRBTC) (\<lambda>randCollAmount.
       bindM (toBN env proportion) (\<lambda>p. bindM (toBN env randCollAmount) (\<lambda>c.
       bindM (opM (*) p c) (\<lambda>proportionalBPD.
       bindM (getOpenVaultTotalDebt env contracts proportionalBPD) (\<lambda>totalDebt.
         openVault_body env contracts randCollAmount proportionalBPD totalDebt account))))))"

definition openVault_allAccounts_randomRBTC_randomBPD ::
  "'c env \<Rightarrow> js \<Rightarrow> js \<Rightarrow> js list \<Rightarrow> contracts \<Rightarrow> js \<Rightarrow> js \<Rightarrow> bool \<Rightarrow> ('c, gas_metrics) io" where
  "openVault_allAccounts_randomRBTC_randomBPD env minRBTC maxRBTC accounts contracts minBPD maxBPD logging =
     bindM (callC env contracts ''priceFeedTestnet'' ''getPrice'' []) (\<lambda>price.
     all_accounts accounts (\<lambda>account.
       bindM (randAmountInWei env minRBTC maxRBTC) (\<lambda>randCollAmount.
       bindM (randAmountInWei env minBPD maxBPD) (\<lambda>randBPDProportion.
       bindM (toBN env randBPDProportion) (\<lambda>p. bindM (toBN env randCollAmount) (\<lambda>c.
       bindM (liftM (bn_div c (BN BN_1e18))) (\<lambda>c'.
       bindM (opM (*) p c') (\<lambda>proportionalBPD.
       bindM (getOpenVaultTotalDebt env contracts proportionalBPD) (\<lambda>totalDebt.
       bindM (getBorrowerOpsListHint env contracts randCollAmount totalDebt) (\<lambda>(upperHint, lowerHint).
       bindM (callC env contracts ''borrowerOperations'' ''openVault''
           [pct100, proportionalBPD, upperHint, lowerHint, from_value account randCollAmount]) (\<lambda>tx.
       bindM (if logging then
                bindM (getM tx ''receipt'') (\<lambda>r. bindM (getM r ''status'') (\<lambda>st.
                  if truthy st then callC env contracts ''vaultManager'' ''getCurrentICR'' [account, price]
                  else retM Undefined))
              else retM Undefined) (\<lambda>_.
         gasUsed tx))))))))))))"

definition openVault_allAccounts_randomBPD ::
  "'c env \<Rightarrow> js \<Rightarrow> js \<Rightarrow> js list \<Rightarrow> contracts \<Rightarrow> js \<Rightarrow> ('c, gas_metrics) io" where
  "openVault_allAccounts_randomBPD env minBPD maxBPD accounts contracts RBTCAmount =
     all_accounts accounts (\<lambda>account.
       bindM (randAmountInWei env minBPD maxBPD) (\<lambda>randBPDAmount.
       bindM (getOpenVaultTotalDebt env contracts randBPDAmount) (\<lambda>totalDebt.
         openVault_body env contracts RBTCAmount randBPDAmount totalDebt account)))"

definition closeVault_allAccounts :: "'c env \<Rightarrow> js list \<Rightarrow> contracts \<Rightarrow> ('c, gas_metrics) io" where
  "closeVault_allAccounts env accounts contracts =
     all_accounts accounts (\<lambda>account.
       sendGas env contracts ''borrowerOperations'' ''closeVault'' [from_account account])"

text \<open>The counter \<open>i\<close> is the position of the account.\<close>

definition openVault_allAccounts_decreasingBPDAmounts ::
  "'c env \<Rightarrow> js list \<Rightarrow> contracts \<Rightarrow> js \<Rightarrow> int \<Rightarrow> ('c, gas_metrics) io" where
  "openVault_allAccounts_decreasingBPDAmounts env accounts contracts RBTCAmount maxBPDAmount =
     bindM (mapM (\<lambda>(i, account).
       bindM (liftM (toWei env (int_to_string (maxBPDAmount - int i)) ''ether'')) (\<lambda>BPDAmountWei.
       bindM (getOpenVaultTotalDebt env contracts (Str BPDAmountWei)) (\<lambda>totalDebt.
         openVault_body env contracts RBTCAmount (Str BPDAmountWei) totalDebt account)))
       (zip [0..<length accounts] accounts)) (\<lambda>gs. retM (getGasMetrics gs))"

text \<open>\<open>abs\<close> and \<open>neg\<close> of a change, the three cases of its sign; no transaction is sent for a zero change.\<close>

definition adjustVault_body ::
  "'c env \<Rightarrow> contracts \<Rightarrow> bool \<Rightarrow> js \<Rightarrow> js \<Rightarrow> js \<Rightarrow> ('c, int) io" where
  "adjustVault_body env contracts swapped RBTCChange BPDChange account =
     bindM (getCollAndDebtFromAdjustment env contracts account RBTCChange BPDChange) (\<lambda>(newColl, newDebt).
     bindM (getBorrowerOpsListHint env contracts newColl newDebt) (\<lambda>(upperHint, lowerHint).
     bindM (liftM (asBN RBTCChange)) (\<lambda>r. bindM (liftM (asBN BPDChange)) (\<lambda>b.
     bindM (if r > 0 then
              callC env contracts ''borrowerOperations'' ''adjustVault''
                [pct100, Num 0, BN \<bar>b\<bar>, Bool (b > 0), upperHint, lowerHint, from_value account (BN r)]
            else if r < 0 then
              callC env contracts ''borrowerOperations'' ''adjustVault''
                ([pct100, BN (- r), BN \<bar>b\<bar>, Bool (b > 0)] @
                 (if swapped then [lowerHint, upperHint] else [upperHint, lowerHint]) @ [from_account account])
            else retM Undefined) gasUsed))))"

definition adjustVault_allAccounts ::
  "'c env \<Rightarrow> js list \<Rightarrow> contracts \<Rightarrow> js \<Rightarrow> js \<Rightarrow> ('c, gas_metrics) io" where
  "adjustVault_allAccounts env accounts contracts RBTCAmount BPDAmount =
     all_accounts accounts (\<lambda>account.
       bindM (toBN env RBTCAmount) (\<lambda>r. bindM (toBN env BPDAmount) (\<lambda>b.
         adjustVault_body env contracts False r b account)))"

definition adjustVault_allAccounts_randomAmount ::
  "'c env \<Rightarrow> js list \<Rightarrow> contracts \<Rightarrow> js \<Rightarrow> js \<Rightarrow> js \<Rightarrow> js \<Rightarrow> ('c, gas_metrics) io" where
  "adjustVault_allAccounts_randomAmount env accounts contracts RBTCMin RBTCMax BPDMin BPDMax =
     all_accounts accounts (\<lambda>account.
       bindM (bindM (randAmountInWei env RBTCMin RBTCMax) (toBN env)) (\<lambda>r.
       bindM (bindM (randAmountInWei env BPDMin BPDMax) (toBN env)) (\<lambda>b.
         adjustVault_body env contracts True r b account)))"

definition addColl_body :: "'c env \<Rightarrow> contracts \<Rightarrow> js \<Rightarrow> js \<Rightarrow> ('c, int) io" where
  "addColl_body env contracts amount account =
     bindM (getCollAndDebtFromAddColl env contracts account amount) (\<lambda>(newColl, newDebt).
     bindM (getBorrowerOpsListHint env contracts newColl newDebt) (\<lambda>(upperHint, lowerHint).
       sendGas env contracts ''borrowerOperations'' ''addColl'' [upperHint, lowerHint, from_value account amount]))"

definition addColl_allAccounts :: "'c env \<Rightarrow> js list \<Rightarrow> contracts \<Rightarrow> js \<Rightarrow> ('c, gas_metrics) io" where
  "addColl_allAccounts env accounts contracts amount =
     all_accounts accounts (addColl_body env contracts amount)"

definition addColl_allAccounts_randomAmount ::
  "'c env \<Rightarrow> js \<Rightarrow> js \<Rightarrow> js list \<Rightarrow> contracts \<Rightarrow> ('c, gas_metrics) io" where
  "addColl_allAccounts_randomAmount env lo hi accounts contracts =
     all_accounts accounts (\<lambda>account.
       bindM (randAmountInWei env lo hi) (\<lambda>amount. addColl_body env contracts amount account))"

definition withdrawColl_body :: "'c env \<Rightarrow> contracts \<Rightarrow> js \<Rightarrow> js \<Rightarrow> ('c, int) io" where
  "withdrawColl_body env contracts amount account =
     bindM (getCollAndDebtFromWithdrawColl env contracts account amount) (\<lambda>(newColl, newDebt).
     bindM (getBorrowerOpsListHint env contracts newColl newDebt) (\<lambda>(upperHint, lowerHint).
       sendGas env contracts ''borrowerOperations'' ''withdrawColl'' [amount, upperHint, lowerHint, from_account account]))"

definition withdrawColl_allAccounts :: "'c env \<Rightarrow> js list \<Rightarrow> contracts \<Rightarrow> js \<Rightarrow> ('c, gas_metrics) io" where
  "withdrawColl_allAccounts env accounts contracts amount =
     all_accounts accounts (withdrawColl_body env contracts amount)"

definition withdrawColl_allAccounts_randomAmount ::
  "'c env \<Rightarrow> js \<Rightarrow> js \<Rightarrow> js list \<Rightarrow> contracts \<Rightarrow> ('c, gas_metrics) io" where
  "withdrawColl_allAccounts_randomAmount env lo hi accounts contracts =
     all_accounts accounts (\<lambda>account.
       bindM (randAmountInWei env lo hi) (\<lambda>amount. withdrawColl_body env contracts amount account))"

definition withdrawBPD_body :: "'c env \<Rightarrow> contracts \<Rightarrow> js \<Rightarrow> js \<Rightarrow> ('c, int) io" where
  "withdrawBPD_body env contracts amount account =
     bindM (getCollAndDebtFromWithdrawBPD env contracts account amount) (\<lambda>(newColl, newDebt).
     bindM (getBorrowerOpsListHint env contracts newColl newDebt) (\<lambda>(upperHint, lowerHint).
       sendGas env contracts ''borrowerOperations'' ''withdrawBPD''
         [pct100, amount, upperHint, lowerHint, from_account account]))"

definition withdrawBPD_allAccounts :: "'c env \<Rightarrow> js list \<Rightarrow> contracts \<Rightarrow> js \<Rightarrow> ('c, gas_metrics) io" where
  "withdrawBPD_allAccounts env accounts contracts amount =
     all_accounts accounts (withdrawBPD_body env contracts amount)"

definition withdrawBPD_allAccounts_randomAmount ::
  "'c env \<Rightarrow> js \<Rightarrow> js \<Rightarrow> js list \<Rightarrow> contracts \<Rightarrow> ('c, gas_metrics) io" where
  "withdrawBPD_allAccounts_randomAmount env lo hi accounts contracts =
     all_accounts accounts (\<lambda>account.
       bindM (randAmountInWei env lo hi) (\<lambda>amount. withdrawBPD_body env contracts amount account))"

definition repayBPD_body :: "'c env \<Rightarrow> contracts \<Rightarrow> js \<Rightarrow> js \<Rightarrow> ('c, int) io" where
  "repayBPD_body env contracts amount account =
     bindM (getCollAndDebtFromRepayBPD env contracts account amount) (\<lambda>(newColl, newDebt).
     bindM (getBorrowerOpsListHint env contracts newColl newDebt) (\<lambda>(upperHint, lowerHint).
       sendGas env contracts ''borrowerOperations'' ''repayBPD'' [amount, upperHint, lowerHint, from_account account]))"

definition repayBPD_allAccounts :: "'c env \<Rightarrow> js list \<Rightarrow> contracts \<Rightarrow> js \<Rightarrow> ('c, gas_metrics) io" where
  "repayBPD_allAccounts env accounts contracts amount =
     all_accounts accounts (repayBPD_body env contracts amount)"

definition repayBPD_allAccounts_randomAmount ::
  "'c env \<Rightarrow> js \<Rightarrow> js \<Rightarrow> js list \<Rightarrow> contracts \<Rightarrow> ('c, gas_metrics) io" where
  "repayBPD_allAccounts_randomAmount env lo hi accounts contracts =
     all_accounts accounts (\<lambda>account.
       bindM (randAmountInWei env lo hi) (\<lambda>amount. repayBPD_body env contracts amount account))"

definition getCurrentICR_allAccounts ::
  "'c env \<Rightarrow> js list \<Rightarrow> contracts \<Rightarrow> contract_ref \<Rightarrow> ('c, gas_metrics) io" where
  "getCurrentICR_allAccounts env accounts contracts functionCaller =
     bindM (callC env contracts ''priceFeedTestnet'' ''getPrice'' []) (\<lambda>price.
     all_accounts accounts (\<lambda>account.
       bindM (callM env functionCaller ''vaultManager_getCurrentICR'' [account, price]) (\<lambda>tx.
       bindM (gasUsed tx) (\<lambda>g. retM (g - 21000)))))"

section \<open>Redemption\<close>

definition performRedemptionTx ::
  "'c env \<Rightarrow> js \<Rightarrow> js \<Rightarrow> contracts \<Rightarrow> js \<Rightarrow> js \<Rightarrow> ('c, js) io" where
  "performRedemptionTx env redeemer price contracts BPDAmount maxFee =
     bindM (callC env contracts ''hintHelpers'' ''getRedemptionHints'' [BPDAmount, price, Num 0]) (\<lambda>rh.
     bindM (indexM rh 0) (\<lambda>firstRedemptionHint.
     bindM (indexM rh 1) (\<lambda>partialRedemptionNewICR.
     bindM (\<lambda>w. (Inr (latestRandomSeed w), w)) (\<lambda>seed.
     bindM (callC env contracts ''hintHelpers'' ''getApproxHint'' [partialRedemptionNewICR, Num 50, seed]) (\<lambda>approx.
     bindM (getM approx ''hintAddress'') (\<lambda>hint.
     bindM (getM approx ''latestRandomSeed'') (\<lambda>seed'.
     bindM (\<lambda>w. (Inr (), w\<lparr>latestRandomSeed := seed'\<rparr>)) (\<lambda>_.
     bindM (callC env contracts ''sortedVaults'' ''findInsertPosition'' [partialRedemptionNewICR, hint, hint]) (\<lambda>exact.
     bindM (indexM exact 0) (\<lambda>e0. bindM (indexM exact 1) (\<lambda>e1.
       callC env contracts ''vaultManager'' ''redeemCollateral''
         [BPDAmount, firstRedemptionHint, e0, e1, partialRedemptionNewICR, Num 0, maxFee,
          Obj [(''from'', redeemer), (''gasPrice'', Num 0)]])))))))))))"

definition redeemCollateralAndGetTxObject ::
  "'c env \<Rightarrow> js \<Rightarrow> contracts \<Rightarrow> js \<Rightarrow> js option \<Rightarrow> ('c, js) io" where
  "redeemCollateralAndGetTxObject env redeemer contracts BPDAmount maxFee =
     bindM (callC env contracts ''priceFeedTestnet'' ''getPrice'' []) (\<lambda>price.
       performRedemptionTx env redeemer price contracts BPDAmount
         (case maxFee of None \<Rightarrow> pct100 | Some f \<Rightarrow> f))"

definition redeemCollateral ::
  "'c env \<Rightarrow> js \<Rightarrow> contracts \<Rightarrow> js \<Rightarrow> js option \<Rightarrow> ('c, int) io" where
  "redeemCollateral env redeemer contracts BPDAmount maxFee =
     bindM (callC env contracts ''priceFeedTestnet'' ''getPrice'' []) (\<lambda>price.
     bindM (performRedemptionTx env redeemer price contracts BPDAmount
         (case maxFee of None \<Rightarrow> pct100 | Some f \<Rightarrow> f)) gasUsed)"

text \<open>The loop discards the transaction and then reads a variable \<open>tx\<close> that nothing declares.\<close>

definition redeemCollateral_allAccounts_randomAmount ::
  "'c env \<Rightarrow> js \<Rightarrow> js \<Rightarrow> js list \<Rightarrow> contracts \<Rightarrow> ('c, gas_metrics) io" where
  "redeemCollateral_allAccounts_randomAmount env lo hi accounts contracts =
     bindM (callC env contracts ''priceFeedTestnet'' ''getPrice'' []) (\<lambda>price.
     all_accounts accounts (\<lambda>redeemer.
       bindM (randAmountInWei env lo hi) (\<lambda>randBPDAmount.
       bindM (performRedemptionTx env redeemer price contracts randBPDAmount (Num 0)) (\<lambda>_.
         failM (ReferenceError ''tx'')))))"

section \<open>Composite functions\<close>

definition makeVaultsIncreasingICR :: "'c env \<Rightarrow> js list \<Rightarrow> contracts \<Rightarrow> ('c, unit) io" where
  "makeVaultsIncreasingICR env accounts contracts =
     forM (zip [0..<length accounts] accounts) (\<lambda>(i, account).
       bindM (liftM (toWei env (nat_to_string (2000 + 10 * i)) ''finney'')) (\<lambda>coll.
         callC env contracts ''borrowerOperations'' ''openVault''
           [pct100, Str ''200000000000000000000'', account, account, from_value account (Str coll)]))"

definition provideToSP_allAccounts ::
  "'c env \<Rightarrow> js list \<Rightarrow> contract_ref \<Rightarrow> js \<Rightarrow> ('c, gas_metrics) io" where
  "provideToSP_allAccounts env accounts stabilityPool amount =
     all_accounts accounts (\<lambda>account.
       bindM (callM env stabilityPool ''provideToSP'' [amount, Str ZERO_ADDRESS, from_account account]) gasUsed)"

definition provideToSP_allAccounts_randomAmount ::
  "'c env \<Rightarrow> js \<Rightarrow> js \<Rightarrow> js list \<Rightarrow> contract_ref \<Rightarrow> ('c, gas_metrics) io" where
  "provideToSP_allAccounts_randomAmount env lo hi accounts stabilityPool =
     all_accounts accounts (\<lambda>account.
       bindM (randAmountInWei env lo hi) (\<lambda>amount.
       bindM (callM env stabilityPool ''provideToSP'' [amount, Str ZERO_ADDRESS, from_account account]) gasUsed))"

definition withdrawFromSP_allAccounts ::
  "'c env \<Rightarrow> js list \<Rightarrow> contract_ref \<Rightarrow> js \<Rightarrow> ('c, gas_metrics) io" where
  "withdrawFromSP_allAccounts env accounts stabilityPool amount =
     all_accounts accounts (\<lambda>account.
       bindM (callM env stabilityPool ''withdrawFromSP'' [amount, from_account account]) gasUsed)"

definition withdrawFromSP_allAccounts_randomAmount ::
  "'c env \<Rightarrow> js \<Rightarrow> js \<Rightarrow> js list \<Rightarrow> contract_ref \<Rightarrow> ('c, gas_metrics) io" where
  "withdrawFromSP_allAccounts_randomAmount env lo hi accounts stabilityPool =
     all_accounts accounts (\<lambda>account.
       bindM (randAmountInWei env lo hi) (\<lambda>amount.
       bindM (callM env stabilityPool ''withdrawFromSP'' [amount, from_account account]) gasUsed))"

definition withdrawRBTCGainToVault_allAccounts ::
  "'c env \<Rightarrow> js list \<Rightarrow> contracts \<Rightarrow> ('c, gas_metrics) io" where
  "withdrawRBTCGainToVault_allAccounts env accounts contracts =
     all_accounts accounts (\<lambda>account.
       bindM (getEntireCollAndDebt env contracts account) (\<lambda>(entireColl, entireDebt).
       bindM (logM [Str ''entireColl: '', entireColl]) (\<lambda>_.
       bindM (logM [Str ''entireDebt: '', entireDebt]) (\<lambda>_.
       bindM (callC env contracts ''stabilityPool'' ''getDepositorRBTCGain'' [account]) (\<lambda>RBTCGain.
       bindM (opM (+) entireColl RBTCGain) (\<lambda>newColl.
       bindM (getBorrowerOpsListHint env contracts newColl entireDebt) (\<lambda>(upperHint, lowerHint).
         sendGas env contracts ''stabilityPool'' ''withdrawRBTCGainToVault''
           [upperHint, lowerHint, from_account account])))))))"

definition registerFrontEnds :: "'c env \<Rightarrow> js list \<Rightarrow> contract_ref \<Rightarrow> ('c, unit) io" where
  "registerFrontEnds env frontEnds stabilityPool =
     forM frontEnds (\<lambda>frontEnd.
       callM env stabilityPool ''registerFrontEnd'' [Str (dec ''5'' (Digits 17)), from_account frontEnd])"

end
