(* ===== verification/Vault_Helpers.thy ===== *)
theory Vault_Helpers
  imports Gas_Loops
begin

text \<open>
  \<open>packages/contracts/utils/testHelpers.js\<close>, the rest of \<open>TestHelper\<close>: opening a vault with the least
  debt and a target ratio, withdrawing to a target ratio, the lockup contract, time and
  assertion helpers, and the properties of all these functions.
\<close>

section \<open>Opening a vault and withdrawing\<close>

text \<open>
  Destructured options: a missing one is \<open>undefined\<close>. The result and the options are objects;
  \<open>extraParams\<close> is mutated, so the caller's object is part of the result.
\<close>

type_synonym options = "(string \<times> js) list"

definition opt :: "options \<Rightarrow> string \<Rightarrow> js" where
  "opt options k = (case lookup options k of None \<Rightarrow> Undefined | Some v \<Rightarrow> v)"

definition or_default :: "js \<Rightarrow> js \<Rightarrow> js" where
  "or_default v d = (if truthy v then v else d)"

definition string_toBN :: "'c env \<Rightarrow> js \<Rightarrow> ('c, js) io" where
  "string_toBN env v = (case v of Str s \<Rightarrow> toBN env v | _ \<Rightarrow> retM v)"

definition set_value :: "js \<Rightarrow> js \<Rightarrow> js result" where
  "set_value obj v = (case obj of Obj ps \<Rightarrow> Inr (Obj (set_prop ps ''value'' v)) | _ \<Rightarrow> Inl TypeError)"

definition openVault :: "'c env \<Rightarrow> contracts \<Rightarrow> options \<Rightarrow> ('c, options \<times> js) io" where
  "openVault env contracts options =
     (let maxFeePercentage = or_default (opt options ''maxFeePercentage'') pct100;
          upperHint = or_default (opt options ''upperHint'') (Str ZERO_ADDRESS);
          lowerHint = or_default (opt options ''lowerHint'') (Str ZERO_ADDRESS);
          extraParams = opt options ''extraParams'' in
      bindM (if truthy (opt options ''extraBPDAmount'') then string_toBN env (opt options ''extraBPDAmount'')
             else toBN env (Num 0)) (\<lambda>extraBPDAmount.
      bindM (callC env contracts ''borrowerOperations'' ''MIN_NET_DEBT'' []) (\<lambda>minNetDebt.
      bindM (getNetBorrowingAmount env contracts minNetDebt) (\<lambda>net.
      bindM (toBN env (Num 1)) (\<lambda>one.
      bindM (opM (+) net one) (\<lambda>MIN_DEBT.
      bindM (opM (+) MIN_DEBT extraBPDAmount) (\<lambda>bpdAmount.
      bindM (if truthy (opt options ''ICR'') then string_toBN env (opt options ''ICR'')
             else bindM (getM extraParams ''value'') (\<lambda>v.
                    if \<not> truthy v then toBN env (Str (dec ''15'' (Digits 17)))
                    else string_toBN env (opt options ''ICR''))) (\<lambda>ICR.
      bindM (getOpenVaultTotalDebt env contracts bpdAmount) (\<lambda>totalDebt.
      bindM (getActualDebtFromComposite env totalDebt contracts) (\<lambda>netDebt.
      bindM (if truthy ICR then
               bindM (callC env contracts ''priceFeedTestnet'' ''getPrice'' []) (\<lambda>price.
               bindM (opM (*) ICR totalDebt) (\<lambda>m.
               bindM (liftM (bn_div m price)) (\<lambda>v. liftM (set_value extraParams v))))
             else retM extraParams) (\<lambda>extraParams'.
      bindM (callC env contracts ''borrowerOperations'' ''openVault''
               [maxFeePercentage, bpdAmount, upperHint, lowerHint, extraParams']) (\<lambda>tx.
      bindM (getM extraParams' ''value'') (\<lambda>collateral.
        retM ([(''bpdAmount'', bpdAmount), (''netDebt'', netDebt), (''totalDebt'', totalDebt),
               (''ICR'', ICR), (''collateral'', collateral), (''tx'', tx)], extraParams'))))))))))))))"

text \<open>
  \<open>targetDebt > debt\<close> on two objects of bn.js: they have no numeric value, so JavaScript compares
  their decimal texts.
\<close>

definition bn_greater_as_text :: "int \<Rightarrow> int \<Rightarrow> bool" where
  "bn_greater_as_text x y = str_less (int_to_string y) (int_to_string x)"

definition assertM :: "bool \<Rightarrow> ('c, unit) io" where
  "assertM b = (if b then retM () else failM AssertionError)"

definition withdrawBPD :: "'c env \<Rightarrow> contracts \<Rightarrow> options \<Rightarrow> ('c, options) io" where
  "withdrawBPD env contracts options =
     (let maxFeePercentage = or_default (opt options ''maxFeePercentage'') pct100;
          upperHint = or_default (opt options ''upperHint'') (Str ZERO_ADDRESS);
          lowerHint = or_default (opt options ''lowerHint'') (Str ZERO_ADDRESS);
          extraParams = opt options ''extraParams'';
          bpdAmount = opt options ''bpdAmount'';
          ICR = opt options ''ICR'' in
      bindM (assertM (\<not> (truthy bpdAmount \<and> truthy ICR) \<and> (truthy bpdAmount \<or> truthy ICR))) (\<lambda>_.
      bindM (if truthy ICR then
               bindM (getM extraParams ''from'') (\<lambda>from.
               bindM (assertM (truthy from)) (\<lambda>_.
               bindM (callC env contracts ''vaultManager'' ''getEntireDebtAndColl'' [from]) (\<lambda>dc.
               bindM (getM dc ''debt'') (\<lambda>debt.
               bindM (getM dc ''coll'') (\<lambda>coll.
               bindM (callC env contracts ''priceFeedTestnet'' ''getPrice'' []) (\<lambda>price.
               bindM (opM (*) coll price) (\<lambda>m.
               bindM (liftM (bn_div m ICR)) (\<lambda>targetDebt.
               bindM (compareM bn_greater_as_text targetDebt debt) (\<lambda>greater.
               bindM (assertM greater) (\<lambda>_.
               bindM (opM (-) targetDebt debt) (\<lambda>increasedTotalDebt.
               bindM (getNetBorrowingAmount env contracts increasedTotalDebt) (\<lambda>amount.
                 retM (amount, increasedTotalDebt)))))))))))))
             else
               bindM (getAmountWithBorrowingFee env contracts bpdAmount) (\<lambda>increasedTotalDebt.
                 retM (bpdAmount, increasedTotalDebt))) (\<lambda>(amount, increasedTotalDebt).
      bindM (callC env contracts ''borrowerOperations'' ''withdrawBPD''
               [maxFeePercentage, amount, upperHint, lowerHint, extraParams]) (\<lambda>_.
        retM [(''bpdAmount'', amount), (''increasedTotalDebt'', increasedTotalDebt)]))))"

section \<open>Lockup contracts\<close>

definition getLCFromAddress :: "'c env \<Rightarrow> js \<Rightarrow> ('c, js) io" where
  "getLCFromAddress env LCAddress = serviceM env ''LockupContract.at'' [LCAddress]"

definition getLCFromDeploymentTx :: "'c env \<Rightarrow> js \<Rightarrow> ('c, js) io" where
  "getLCFromDeploymentTx env tx = bindM (liftM (getLCAddressFromDeploymentTx tx)) (getLCFromAddress env)"

section \<open>Time\<close>

text \<open>\<open>send(payload, callback)\<close>: an error is printed by the callback and does not end the function.\<close>

fun error_text :: "js_error \<Rightarrow> string option" where
  "error_text (Error m) = Some m"
| "error_text AssertionError = Some ''expected true to be false''"
| "error_text TypeError = Some ''Cannot read property of undefined''"
| "error_text (ReferenceError x) = Some (x @ '' is not defined'')"
| "error_text (Thrown s) = None"
| "error_text (NamedError n m) = Some m"

definition sendRpc :: "'c env \<Rightarrow> js \<Rightarrow> ('c, unit) io" where
  "sendRpc env payload w =
     (case serviceM env ''send'' [payload] w of
        (Inr r, w') \<Rightarrow> (Inr (), w')
      | (Inl e, w') \<Rightarrow> logM [case error_text e of Some m \<Rightarrow> Str m | None \<Rightarrow> Undefined] w')"

definition fastForwardTime :: "'c env \<Rightarrow> js \<Rightarrow> ('c, unit) io" where
  "fastForwardTime env seconds =
     thenM (sendRpc env (Obj [(''id'', Num 0), (''jsonrpc'', Str ''2.0''), (''method'', Str ''evm_increaseTime''),
                              (''params'', Arr [seconds])]))
           (sendRpc env (Obj [(''id'', Num 0), (''jsonrpc'', Str ''2.0''), (''method'', Str ''evm_mine'')]))"

definition getLatestBlockTimestamp :: "'c env \<Rightarrow> ('c, js) io" where
  "getLatestBlockTimestamp env =
     bindM (serviceM env ''getBlockNumber'' []) (\<lambda>blockNumber.
     bindM (serviceM env ''getBlock'' [blockNumber]) (\<lambda>block. getM block ''timestamp''))"

definition getTimestampFromTxReceipt :: "'c env \<Rightarrow> js \<Rightarrow> ('c, js) io" where
  "getTimestampFromTxReceipt env txReceipt =
     bindM (getM txReceipt ''blockNumber'') (\<lambda>n.
     bindM (serviceM env ''getBlock'' [n]) (\<lambda>block. getM block ''timestamp''))"

definition getTimestampFromTx :: "'c env \<Rightarrow> js \<Rightarrow> ('c, js) io" where
  "getTimestampFromTx env tx = bindM (getM tx ''receipt'') (getTimestampFromTxReceipt env)"

definition getTimeFromSystemDeployment :: "'c env \<Rightarrow> contract_ref \<Rightarrow> js \<Rightarrow> ('c, js) io" where
  "getTimeFromSystemDeployment env mpToken timePassed =
     bindM (callM env mpToken ''getDeploymentStartTime'' []) (\<lambda>deploymentTime.
     bindM (toBN env deploymentTime) (\<lambda>d. bindM (toBN env timePassed) (\<lambda>t. opM (+) d t)))"

section \<open>Assertions\<close>

definition contains :: "string \<Rightarrow> string \<Rightarrow> bool" where
  "contains s t \<longleftrightarrow> (\<exists>i \<in> {0..length s}. take (length t) (drop i s) = t)"

definition error_includes :: "string \<Rightarrow> js_error \<Rightarrow> bool" where
  "error_includes t e = (case error_text e of Some m \<Rightarrow> contains m t | None \<Rightarrow> False)"

text \<open>
  The failed assertion that the transaction did not succeed is thrown inside the \<open>try\<close> block and
  reaches the same handler as an error of the transaction.
\<close>

definition expect_failure :: "string \<Rightarrow> ('c, js) io \<Rightarrow> ('c, unit) io" where
  "expect_failure t txPromise w =
     (let attempt = bindM txPromise (\<lambda>tx. bindM (getM tx ''receipt'') (\<lambda>r. bindM (getM r ''status'') (\<lambda>st.
                      assertM (st = Bool False)))) in
      case attempt w of
        (Inr u, w') \<Rightarrow> (Inr u, w')
      | (Inl e, w') \<Rightarrow> assertM (error_includes t e) w')"

definition assertRevert :: "('c, js) io \<Rightarrow> ('c, unit) io" where
  "assertRevert txPromise = expect_failure ''revert'' txPromise"

definition assertAssert :: "('c, js) io \<Rightarrow> ('c, unit) io" where
  "assertAssert txPromise = expect_failure ''invalid opcode'' txPromise"

definition forceSendEth :: "'c env \<Rightarrow> js \<Rightarrow> js \<Rightarrow> js \<Rightarrow> ('c, js) io" where
  "forceSendEth env from receiver v =
     bindM (deployM env ''Destructible'' []) (\<lambda>destructible.
     bindM (serviceM env ''sendTransaction''
              [Obj [(''to'', Str (address destructible)), (''from'', from), (''value'', v)]]) (\<lambda>_.
       callM env destructible ''destruct'' [receiver]))"

end
