(* ===== verification/Gas_Loop_Laws.thy ===== *)
theory Gas_Loop_Laws
  imports Vault_Helpers
begin

text \<open>
  What the loops of \<open>testHelpers.js\<close> over a list of accounts promise: one transaction for each
  account, in order, from that account, and its gas in the summary; after an error a prefix of
  those transactions. The promise of one round is the locale \<open>gas_loop\<close>; every loop interprets it.
\<close>

section \<open>The transactions of a trace\<close>

definition tx_methods :: "string list" where
  "tx_methods = [''openVault'', ''closeVault'', ''adjustVault'', ''addColl'', ''withdrawColl'', ''withdrawBPD'',
     ''repayBPD'', ''redeemCollateral'', ''provideToSP'', ''withdrawFromSP'', ''withdrawRBTCGainToVault'',
     ''vaultManager_getCurrentICR'']"

text \<open>The account of a transaction is \<open>from\<close> of its options, or the first argument of the gas test's caller.\<close>

definition sender :: "string \<Rightarrow> js list \<Rightarrow> js" where
  "sender m args =
     (if m = ''vaultManager_getCurrentICR'' then hd args
      else case last args of Obj ps \<Rightarrow> opt ps ''from'' | _ \<Rightarrow> Undefined)"

fun transaction :: "event \<Rightarrow> (contract_ref result \<times> string \<times> js) option" where
  "transaction (Called c m args) =
     (if m \<in> set tx_methods then Some (Inr c, m, sender m args) else None)"
| "transaction _ = None"

definition transactions :: "event list \<Rightarrow> (contract_ref result \<times> string \<times> js) list" where
  "transactions es = List.map_filter transaction es"

lemma transactions_simps [simp]:
  "transactions [] = []"
  "transactions (es @ es') = transactions es @ transactions es'"
  "transactions (e # es) = (case transaction e of None \<Rightarrow> transactions es | Some t \<Rightarrow> t # transactions es)"
  by (simp_all add: transactions_def List.map_filter_def split: option.split)

definition quiet :: "('c, 'a) io \<Rightarrow> bool" where
  "quiet m \<longleftrightarrow> traces m (\<lambda>r es. transactions es = [])"

text \<open>One transaction from \<open>a\<close>; after an error perhaps none.\<close>

definition sends :: "contract_ref result \<Rightarrow> string \<Rightarrow> js \<Rightarrow> ('c, 'a) io \<Rightarrow> bool" where
  "sends t m a x \<longleftrightarrow> traces x (\<lambda>r es. case r of
     Inr _ \<Rightarrow> transactions es = [(t, m, a)]
   | Inl _ \<Rightarrow> transactions es = [] \<or> transactions es = [(t, m, a)])"

definition sends_all :: "contract_ref result \<Rightarrow> string \<Rightarrow> js list \<Rightarrow> ('c, 'a) io \<Rightarrow> bool" where
  "sends_all t m accounts x \<longleftrightarrow> traces x (\<lambda>r es. case r of
     Inr _ \<Rightarrow> transactions es = map (\<lambda>a. (t, m, a)) accounts
   | Inl _ \<Rightarrow> (\<exists>n \<le> length accounts. transactions es = map (\<lambda>a. (t, m, a)) (take n accounts)))"

text \<open>The same for a loop that summarises the gas: one entry for each account.\<close>

definition gas_of_all :: "contract_ref result \<Rightarrow> string \<Rightarrow> js list \<Rightarrow> ('c, gas_metrics) io \<Rightarrow> bool" where
  "gas_of_all t m accounts x \<longleftrightarrow> traces x (\<lambda>r es. case r of
     Inr g \<Rightarrow> transactions es = map (\<lambda>a. (t, m, a)) accounts \<and>
              (\<exists>gs. length gs = length accounts \<and> g = getGasMetrics gs)
   | Inl _ \<Rightarrow> (\<exists>n \<le> length accounts. transactions es = map (\<lambda>a. (t, m, a)) (take n accounts)))"

section \<open>Automation\<close>

named_theorems quietly \<open>rules for code that sends no transaction\<close>

lemma quiet_bindM [quietly]:
  assumes "quiet m" "\<And>x. quiet (f x)"
  shows "quiet (bindM m f)"
  unfolding quiet_def by (rule traces_bindM [OF assms [unfolded quiet_def]]) auto

lemma quiet_simple [quietly]:
  "quiet (retM x)" "quiet (failM e)" "quiet (liftM r)" "quiet (logM ps)"
  "quiet (randomM env lo hi)" "quiet (\<lambda>w. (Inr (s w), w))" "quiet (\<lambda>w. (Inr (), w\<lparr>latestRandomSeed := v\<rparr>))"
  by (auto simp: quiet_def traces_retM traces_failM traces_liftM logM_def traces_record)
     (auto simp: traces_def randomM_def split: prod.split)

lemma quiet_callM [quietly]: "m \<notin> set tx_methods \<Longrightarrow> quiet (callM env c m args)"
  unfolding quiet_def by (rule traces_callM) simp

lemma quiet_split [quietly]:
  "(\<And>x y. quiet (f x y)) \<Longrightarrow> quiet (case p of (x, y) \<Rightarrow> f x y)"
  "quiet m \<Longrightarrow> quiet m' \<Longrightarrow> quiet (if b then m else m')"
  by (auto split: prod.split)

lemma quiet_callC [quietly]: "m \<notin> set tx_methods \<Longrightarrow> quiet (callC env cs k m args)"
  unfolding callC_def by (intro quietly)

lemmas query_defs = opM_def toBN_def indexM_def getM_def compareM_def gasUsed_def getCompositeDebt_def
  randAmountInWei_def getVaultEntireColl_def getVaultEntireDebt_def getVaultStake_def
  getOpenVaultTotalDebt_def getBorrowerOpsListHint_def getEntireCollAndDebt_def
  getCollAndDebtFromAddColl_def getCollAndDebtFromWithdrawColl_def getCollAndDebtFromWithdrawBPD_def
  getCollAndDebtFromRepayBPD_def getCollAndDebtFromAdjustment_def getActualDebtFromComposite_def
  getNetBorrowingAmount_def getAmountWithBorrowingFee_def

lemma quiet_queries [quietly]:
  "quiet (opM f x y)" "quiet (toBN env x)" "quiet (indexM x i)" "quiet (getM x k)" "quiet (compareM p x y)"
  "quiet (gasUsed x)" "quiet (randAmountInWei env x y)" "quiet (getOpenVaultTotalDebt env cs x)"
  "quiet (getBorrowerOpsListHint env cs x y)" "quiet (getEntireCollAndDebt env cs x)"
  "quiet (getCollAndDebtFromAddColl env cs x y)" "quiet (getCollAndDebtFromWithdrawColl env cs x y)"
  "quiet (getCollAndDebtFromWithdrawBPD env cs x y)" "quiet (getCollAndDebtFromRepayBPD env cs x y)"
  "quiet (getCollAndDebtFromAdjustment env cs x y z)"
  by (unfold query_defs case_prod_unfold) (intro quietly; simp add: tx_methods_def)+

lemma sends_bindM_quiet:
  assumes "quiet m" "\<And>x. sends t k a (f x)"
  shows "sends t k a (bindM m f)"
  unfolding sends_def
  by (rule traces_bindM [OF assms [unfolded sends_def quiet_def]]) (auto split: sum.splits)

lemma sends_then_quiet:
  assumes "sends t k a m" "\<And>x. quiet (f x)"
  shows "sends t k a (bindM m f)"
  unfolding sends_def
  by (rule traces_bindM [OF assms [unfolded sends_def quiet_def]]) (auto split: sum.splits)

lemma sends_callM: "m \<in> set tx_methods \<Longrightarrow> sender m args = a \<Longrightarrow> sends (Inr c) m a (callM env c m args)"
  unfolding sends_def by (rule traces_callM) (simp split: sum.split)

lemma sends_callC: "m \<in> set tx_methods \<Longrightarrow> sender m args = a \<Longrightarrow> sends (con cs k) m a (callC env cs k m args)"
  by (cases "con cs k") (simp_all add: callC_def sends_callM, simp add: sends_def traces_failM)

lemma sends_split:
  "(\<And>x y. sends t m a (f x y)) \<Longrightarrow> sends t m a (case p of (x, y) \<Rightarrow> f x y)"
  by (simp split: prod.split)

lemma gas_of_all_bindM_quiet:
  assumes "quiet m" "\<And>x. gas_of_all t k as (f x)"
  shows "gas_of_all t k as (bindM m f)"
  unfolding gas_of_all_def
  by (rule traces_bindM [OF assms [unfolded gas_of_all_def quiet_def]])
     (auto split: sum.splits intro: exI [of _ 0])

section \<open>The contract of a loop\<close>

text \<open>\<open>item\<close> is what the loop runs over: accounts, or accounts with their position.\<close>

locale gas_loop =
  fixes body :: "'x \<Rightarrow> ('c, int) io" and account :: "'x \<Rightarrow> js" and target :: "contract_ref result" and meth :: string
  assumes body_sends: "sends target meth (account x) (body x)"
begin

lemma loop_sends:
  "traces (mapM body xs) (\<lambda>r es. case r of
     Inr gs \<Rightarrow> transactions es = map (\<lambda>a. (target, meth, a)) (map account xs) \<and> length gs = length xs
   | Inl _ \<Rightarrow> (\<exists>n \<le> length xs. transactions es = map (\<lambda>a. (target, meth, a)) (take n (map account xs))))"
proof (induction xs)
  case Nil
  show ?case by (simp add: traces_retM)
next
  case (Cons x xs)
  have rest: "traces (bindM (mapM body xs) (\<lambda>ys. retM (y # ys))) (\<lambda>r es. case r of
        Inr gs \<Rightarrow> transactions es = map (\<lambda>a. (target, meth, a)) (map account xs) \<and> length gs = Suc (length xs)
      | Inl _ \<Rightarrow> (\<exists>n \<le> length xs. transactions es = map (\<lambda>a. (target, meth, a)) (take n (map account xs))))" for y
    by (rule traces_bindM [OF Cons.IH traces_retM [where P = "\<lambda>r es. es = [] \<and> r = Inr (y # gs)" for gs]])
       (auto split: sum.splits)
  show ?case
    unfolding mapM.simps
    by (rule traces_bindM [OF body_sends [of x, unfolded sends_def] rest])
       (auto split: sum.splits intro: exI [of _ 0] exI [of _ "Suc 0"] exI [of _ "Suc n" for n])
qed

lemma loop_gas: "gas_of_all target meth (map account xs) (bindM (mapM body xs) (\<lambda>gs. retM (getGasMetrics gs)))"
  unfolding gas_of_all_def
  by (rule traces_bindM [OF loop_sends traces_retM [where P = "\<lambda>r es. es = [] \<and> r = Inr (getGasMetrics gs)" for gs]])
     (auto split: sum.splits)

end

section \<open>Every loop keeps the contract\<close>

lemma sends_tx:
  assumes "m \<in> set tx_methods" "sender m args = a" "\<And>tx. quiet (f tx)"
  shows "sends (con cs k) m a (bindM (callC env cs k m args) f)"
    and "sends (Inr c) m a (bindM (callM env c m args) f)"
  using assms by (simp_all add: sends_then_quiet sends_callC sends_callM)

lemma sends_sendGas:
  "m \<in> set tx_methods \<Longrightarrow> sender m args = a \<Longrightarrow> sends (con cs k) m a (sendGas env cs k m args)"
  by (simp add: sendGas_def sends_tx quietly)

lemma sender_options [simp]:
  assumes "m \<noteq> ''vaultManager_getCurrentICR''"
  shows "sender m [from_account a] = a" "sender m [from_value a v] = a"
    "as \<noteq> [] \<Longrightarrow> sender m (x # as) = sender m as"
    "sender m (as @ [from_account a]) = a"
  using assms by (auto simp: sender_def from_account_def from_value_def opt_def lookup_def)

lemma sender_getCurrentICR [simp]: "sender ''vaultManager_getCurrentICR'' (a # as) = a"
  by (simp add: sender_def)

lemma tx_methods_simps [simp]:
  "''openVault'' \<in> set tx_methods" "''closeVault'' \<in> set tx_methods" "''adjustVault'' \<in> set tx_methods"
  "''addColl'' \<in> set tx_methods" "''withdrawColl'' \<in> set tx_methods" "''withdrawBPD'' \<in> set tx_methods"
  "''repayBPD'' \<in> set tx_methods" "''provideToSP'' \<in> set tx_methods" "''withdrawFromSP'' \<in> set tx_methods"
  "''redeemCollateral'' \<in> set tx_methods" "''withdrawRBTCGainToVault'' \<in> set tx_methods"
  "''vaultManager_getCurrentICR'' \<in> set tx_methods"
  "''getPrice'' \<notin> set tx_methods" "''getDepositorRBTCGain'' \<notin> set tx_methods"
  "''getCurrentICR'' \<notin> set tx_methods"
  by (simp_all add: tx_methods_def)

lemmas sending = sends_sendGas sends_tx sends_split sends_bindM_quiet quietly

lemma openVault_body_sends:
  "sends (con cs ''borrowerOperations'') ''openVault'' a (openVault_body env cs r b d a)"
  unfolding openVault_body_def by (intro sending; simp)

lemma coll_bodies_send:
  "sends (con cs ''borrowerOperations'') ''addColl'' a (addColl_body env cs x a)"
  "sends (con cs ''borrowerOperations'') ''withdrawColl'' a (withdrawColl_body env cs x a)"
  "sends (con cs ''borrowerOperations'') ''withdrawBPD'' a (withdrawBPD_body env cs x a)"
  "sends (con cs ''borrowerOperations'') ''repayBPD'' a (repayBPD_body env cs x a)"
  unfolding addColl_body_def withdrawColl_body_def withdrawBPD_body_def repayBPD_body_def
  by (intro sending; simp)+

text \<open>A zero change of the collateral sends nothing and fails on the missing transaction.\<close>

lemma gasUsed_Undefined [simp]: "gasUsed Undefined = failM TypeError"
  by (simp add: gasUsed_def)

lemma sends_fails: "sends t m a (failM e)"
  by (simp add: sends_def traces_failM)

lemma adjustVault_body_sends:
  "sends (con cs ''borrowerOperations'') ''adjustVault'' a (adjustVault_body env cs sw x y a)"
proof -
  have send: "sends (con cs ''borrowerOperations'') ''adjustVault'' a
     (bindM (if r > 0 then callC env cs ''borrowerOperations'' ''adjustVault''
                [pct100, Num 0, BN \<bar>b\<bar>, Bool (b > 0), u, l, from_value a (BN r)]
            else if r < 0 then callC env cs ''borrowerOperations'' ''adjustVault''
                ([pct100, BN (- r), BN \<bar>b\<bar>, Bool (b > 0)] @
                 (if sw then [l, u] else [u, l]) @ [from_account a])
            else retM Undefined) gasUsed)" for r b u l
    by (auto intro!: sends_tx quietly sends_fails)
  then show ?thesis
    unfolding adjustVault_body_def by (intro send sends_split sends_bindM_quiet quietly)
qed

text \<open>The interpretations: the body of every loop of the module.\<close>

lemmas loop_body = openVault_body_sends coll_bodies_send adjustVault_body_sends

interpretation open_fixed: gas_loop "openVault_body env cs r b d" "\<lambda>a. a"
  "con cs ''borrowerOperations''" "''openVault''" for env cs r b d
  by unfold_locales (rule loop_body)

interpretation open_random_coll: gas_loop "\<lambda>account. bindM (randAmountInWei env lo hi) (\<lambda>r.
     openVault_body env cs r b d account)" "\<lambda>a. a"
  "con cs ''borrowerOperations''" "''openVault''" for env lo hi cs b d
  by unfold_locales (intro loop_body sending; simp)

interpretation open_proportional: gas_loop "\<lambda>account. bindM (randAmountInWei env lo hi) (\<lambda>r.
     bindM (toBN env q) (\<lambda>p. bindM (toBN env r) (\<lambda>c. bindM (opM (*) p c) (\<lambda>b.
     bindM (getOpenVaultTotalDebt env cs b) (\<lambda>d. openVault_body env cs r b d account)))))" "\<lambda>a. a"
  "con cs ''borrowerOperations''" "''openVault''" for env lo hi cs q
  by unfold_locales (intro loop_body sending; simp)

interpretation open_random_debt: gas_loop "\<lambda>account. bindM (randAmountInWei env lo hi) (\<lambda>b.
     bindM (getOpenVaultTotalDebt env cs b) (\<lambda>d. openVault_body env cs r b d account))" "\<lambda>a. a"
  "con cs ''borrowerOperations''" "''openVault''" for env lo hi cs r
  by unfold_locales (intro loop_body sending; simp)

interpretation open_decreasing: gas_loop "\<lambda>(i, account). bindM (liftM (toWei env (int_to_string (top - int i)) ''ether'')) (\<lambda>t.
     bindM (getOpenVaultTotalDebt env cs (Str t)) (\<lambda>d. openVault_body env cs r (Str t) d account))" "snd"
  "con cs ''borrowerOperations''" "''openVault''" for env cs r top
  by unfold_locales (simp add: case_prod_unfold, intro loop_body sending)

interpretation close: gas_loop "\<lambda>account. sendGas env cs ''borrowerOperations'' ''closeVault''
     [from_account account]" "\<lambda>a. a"
  "con cs ''borrowerOperations''" "''closeVault''" for env cs
  by unfold_locales (intro loop_body sending; simp)

interpretation adjust_fixed: gas_loop "\<lambda>account. bindM (toBN env x) (\<lambda>r. bindM (toBN env y) (\<lambda>b.
     adjustVault_body env cs sw r b account))" "\<lambda>a. a"
  "con cs ''borrowerOperations''" "''adjustVault''" for env cs sw x y
  by unfold_locales (intro loop_body sending; simp)

interpretation adjust_random: gas_loop "\<lambda>account. bindM (bindM (randAmountInWei env rlo rhi) (toBN env)) (\<lambda>r.
     bindM (bindM (randAmountInWei env blo bhi) (toBN env)) (\<lambda>b.
     adjustVault_body env cs sw r b account))" "\<lambda>a. a"
  "con cs ''borrowerOperations''" "''adjustVault''" for env rlo rhi blo bhi cs sw
  by unfold_locales (intro loop_body sending; simp)

interpretation addColl_fixed: gas_loop "addColl_body env cs x" "\<lambda>a. a"
  "con cs ''borrowerOperations''" "''addColl''" for env cs x
  by unfold_locales (rule loop_body)

interpretation addColl_random: gas_loop "\<lambda>account. bindM (randAmountInWei env lo hi) (\<lambda>x.
     addColl_body env cs x account)" "\<lambda>a. a"
  "con cs ''borrowerOperations''" "''addColl''" for env lo hi cs
  by unfold_locales (intro loop_body sending; simp)

interpretation withdrawColl_fixed: gas_loop "withdrawColl_body env cs x" "\<lambda>a. a"
  "con cs ''borrowerOperations''" "''withdrawColl''" for env cs x
  by unfold_locales (rule loop_body)

interpretation withdrawColl_random: gas_loop "\<lambda>account. bindM (randAmountInWei env lo hi) (\<lambda>x.
     withdrawColl_body env cs x account)" "\<lambda>a. a"
  "con cs ''borrowerOperations''" "''withdrawColl''" for env lo hi cs
  by unfold_locales (intro loop_body sending; simp)

interpretation withdrawBPD_fixed: gas_loop "withdrawBPD_body env cs x" "\<lambda>a. a"
  "con cs ''borrowerOperations''" "''withdrawBPD''" for env cs x
  by unfold_locales (rule loop_body)

interpretation withdrawBPD_random: gas_loop "\<lambda>account. bindM (randAmountInWei env lo hi) (\<lambda>x.
     withdrawBPD_body env cs x account)" "\<lambda>a. a"
  "con cs ''borrowerOperations''" "''withdrawBPD''" for env lo hi cs
  by unfold_locales (intro loop_body sending; simp)

interpretation repayBPD_fixed: gas_loop "repayBPD_body env cs x" "\<lambda>a. a"
  "con cs ''borrowerOperations''" "''repayBPD''" for env cs x
  by unfold_locales (rule loop_body)

interpretation repayBPD_random: gas_loop "\<lambda>account. bindM (randAmountInWei env lo hi) (\<lambda>x.
     repayBPD_body env cs x account)" "\<lambda>a. a"
  "con cs ''borrowerOperations''" "''repayBPD''" for env lo hi cs
  by unfold_locales (intro loop_body sending; simp)

interpretation current_ICR: gas_loop "\<lambda>account. bindM (callM env caller ''vaultManager_getCurrentICR'' [account, price])
     (\<lambda>tx. bindM (gasUsed tx) (\<lambda>g. retM (g - 21000)))" "\<lambda>a. a"
  "Inr caller" "''vaultManager_getCurrentICR''" for env caller price
  by unfold_locales (intro sending; simp)

interpretation provideToSP_fixed: gas_loop "\<lambda>account.
     bindM (callM env sp ''provideToSP'' [x, Str ZERO_ADDRESS, from_account account]) gasUsed" "\<lambda>a. a"
  "Inr sp" "''provideToSP''" for env sp x
  by unfold_locales (intro loop_body sending; simp)

interpretation provideToSP_random: gas_loop "\<lambda>account. bindM (randAmountInWei env lo hi) (\<lambda>x.
     bindM (callM env sp ''provideToSP'' [x, Str ZERO_ADDRESS, from_account account]) gasUsed)" "\<lambda>a. a"
  "Inr sp" "''provideToSP''" for env lo hi sp
  by unfold_locales (intro loop_body sending; simp)

interpretation withdrawFromSP_fixed: gas_loop "\<lambda>account.
     bindM (callM env sp ''withdrawFromSP'' [x, from_account account]) gasUsed" "\<lambda>a. a"
  "Inr sp" "''withdrawFromSP''" for env sp x
  by unfold_locales (intro loop_body sending; simp)

interpretation withdrawFromSP_random: gas_loop "\<lambda>account. bindM (randAmountInWei env lo hi) (\<lambda>x.
     bindM (callM env sp ''withdrawFromSP'' [x, from_account account]) gasUsed)" "\<lambda>a. a"
  "Inr sp" "''withdrawFromSP''" for env lo hi sp
  by unfold_locales (intro loop_body sending; simp)

interpretation withdrawRBTCGain: gas_loop "\<lambda>account.
     bindM (getEntireCollAndDebt env cs account) (\<lambda>(entireColl, entireDebt).
     bindM (logM [Str ''entireColl: '', entireColl]) (\<lambda>_.
     bindM (logM [Str ''entireDebt: '', entireDebt]) (\<lambda>_.
     bindM (callC env cs ''stabilityPool'' ''getDepositorRBTCGain'' [account]) (\<lambda>RBTCGain.
     bindM (opM (+) entireColl RBTCGain) (\<lambda>newColl.
     bindM (getBorrowerOpsListHint env cs newColl entireDebt) (\<lambda>(upperHint, lowerHint).
       sendGas env cs ''stabilityPool'' ''withdrawRBTCGainToVault''
         [upperHint, lowerHint, from_account account]))))))" "\<lambda>a. a"
  "con cs ''stabilityPool''" "''withdrawRBTCGainToVault''" for env cs
  by unfold_locales (intro sending; simp)

interpretation open_random: gas_loop "\<lambda>account.
     bindM (randAmountInWei env lo hi) (\<lambda>r. bindM (randAmountInWei env lo' hi') (\<lambda>b.
     bindM (toBN env b) (\<lambda>p. bindM (toBN env r) (\<lambda>c. bindM (liftM (bn_div c (BN BN_1e18))) (\<lambda>c'.
     bindM (opM (*) p c') (\<lambda>q. bindM (getOpenVaultTotalDebt env cs q) (\<lambda>d.
     bindM (getBorrowerOpsListHint env cs r d) (\<lambda>(u, l).
     bindM (callC env cs ''borrowerOperations'' ''openVault'' [pct100, q, u, l, from_value account r]) (\<lambda>tx.
     bindM (if logging then bindM (getM tx ''receipt'') (\<lambda>x. bindM (getM x ''status'') (\<lambda>st.
              if truthy st then callC env cs ''vaultManager'' ''getCurrentICR'' [account, price]
              else retM Undefined)) else retM Undefined) (\<lambda>_. gasUsed tx))))))))))" "\<lambda>a. a"
  "con cs ''borrowerOperations''" "''openVault''" for env lo hi lo' hi' cs logging price
  by unfold_locales (intro sending; simp)

text \<open>The loops after their reads of the price or of the total debt.\<close>

lemma openVault_allAccounts_gas:
  "gas_of_all (con cs ''borrowerOperations'') ''openVault'' accounts (openVault_allAccounts env accounts cs
    coll debt)"
  unfolding openVault_allAccounts_def all_accounts_def
  by (rule gas_of_all_bindM_quiet, rule quiet_queries, rule open_fixed.loop_gas [where xs = accounts,
    simplified])

lemma openVault_allAccounts_randomRBTC_gas:
  "gas_of_all (con cs ''borrowerOperations'') ''openVault'' accounts (openVault_allAccounts_randomRBTC env
    lo hi accounts cs debt)"
  unfolding openVault_allAccounts_randomRBTC_def all_accounts_def
  by (rule gas_of_all_bindM_quiet, rule quiet_queries, rule open_random_coll.loop_gas [where xs = accounts,
    simplified])

lemma openVault_allAccounts_randomRBTC_ProportionalBPD_gas:
  "gas_of_all (con cs ''borrowerOperations'') ''openVault'' accounts
    (openVault_allAccounts_randomRBTC_ProportionalBPD env lo hi accounts cs debt)"
  unfolding openVault_allAccounts_randomRBTC_ProportionalBPD_def all_accounts_def
  by (rule open_proportional.loop_gas [where xs = accounts, simplified])

lemma openVault_allAccounts_randomRBTC_randomBPD_gas:
  "gas_of_all (con cs ''borrowerOperations'') ''openVault'' accounts
    (openVault_allAccounts_randomRBTC_randomBPD env lo hi accounts cs lo' hi' logging)"
  unfolding openVault_allAccounts_randomRBTC_randomBPD_def all_accounts_def
  by (rule gas_of_all_bindM_quiet, rule quietly, simp, rule open_random.loop_gas [where xs = accounts,
    simplified])

lemma openVault_allAccounts_randomBPD_gas:
  "gas_of_all (con cs ''borrowerOperations'') ''openVault'' accounts (openVault_allAccounts_randomBPD env
    lo hi accounts cs coll)"
  unfolding openVault_allAccounts_randomBPD_def all_accounts_def
  by (rule open_random_debt.loop_gas [where xs = accounts, simplified])

lemma openVault_allAccounts_decreasingBPDAmounts_gas:
  "gas_of_all (con cs ''borrowerOperations'') ''openVault'' accounts
    (openVault_allAccounts_decreasingBPDAmounts env accounts cs coll maxDebt)"
  unfolding openVault_allAccounts_decreasingBPDAmounts_def all_accounts_def
  by (rule open_decreasing.loop_gas [where xs = "zip [0..<length accounts] accounts", simplified])

lemma closeVault_allAccounts_gas:
  "gas_of_all (con cs ''borrowerOperations'') ''closeVault'' accounts (closeVault_allAccounts env accounts
    cs)"
  unfolding closeVault_allAccounts_def all_accounts_def
  by (rule close.loop_gas [where xs = accounts, simplified])

lemma adjustVault_allAccounts_gas:
  "gas_of_all (con cs ''borrowerOperations'') ''adjustVault'' accounts (adjustVault_allAccounts env
    accounts cs coll debt)"
  unfolding adjustVault_allAccounts_def all_accounts_def
  by (rule adjust_fixed.loop_gas [where xs = accounts, simplified])

lemma adjustVault_allAccounts_randomAmount_gas:
  "gas_of_all (con cs ''borrowerOperations'') ''adjustVault'' accounts
    (adjustVault_allAccounts_randomAmount env accounts cs lo hi lo' hi')"
  unfolding adjustVault_allAccounts_randomAmount_def all_accounts_def
  by (rule adjust_random.loop_gas [where xs = accounts, simplified])

lemma addColl_allAccounts_gas:
  "gas_of_all (con cs ''borrowerOperations'') ''addColl'' accounts (addColl_allAccounts env accounts cs
    amount)"
  unfolding addColl_allAccounts_def all_accounts_def
  by (rule addColl_fixed.loop_gas [where xs = accounts, simplified])

lemma addColl_allAccounts_randomAmount_gas:
  "gas_of_all (con cs ''borrowerOperations'') ''addColl'' accounts (addColl_allAccounts_randomAmount env lo
    hi accounts cs)"
  unfolding addColl_allAccounts_randomAmount_def all_accounts_def
  by (rule addColl_random.loop_gas [where xs = accounts, simplified])

lemma withdrawColl_allAccounts_gas:
  "gas_of_all (con cs ''borrowerOperations'') ''withdrawColl'' accounts (withdrawColl_allAccounts env
    accounts cs amount)"
  unfolding withdrawColl_allAccounts_def all_accounts_def
  by (rule withdrawColl_fixed.loop_gas [where xs = accounts, simplified])

lemma withdrawColl_allAccounts_randomAmount_gas:
  "gas_of_all (con cs ''borrowerOperations'') ''withdrawColl'' accounts
    (withdrawColl_allAccounts_randomAmount env lo hi accounts cs)"
  unfolding withdrawColl_allAccounts_randomAmount_def all_accounts_def
  by (rule withdrawColl_random.loop_gas [where xs = accounts, simplified])

lemma withdrawBPD_allAccounts_gas:
  "gas_of_all (con cs ''borrowerOperations'') ''withdrawBPD'' accounts (withdrawBPD_allAccounts env
    accounts cs amount)"
  unfolding withdrawBPD_allAccounts_def all_accounts_def
  by (rule withdrawBPD_fixed.loop_gas [where xs = accounts, simplified])

lemma withdrawBPD_allAccounts_randomAmount_gas:
  "gas_of_all (con cs ''borrowerOperations'') ''withdrawBPD'' accounts
    (withdrawBPD_allAccounts_randomAmount env lo hi accounts cs)"
  unfolding withdrawBPD_allAccounts_randomAmount_def all_accounts_def
  by (rule withdrawBPD_random.loop_gas [where xs = accounts, simplified])

lemma repayBPD_allAccounts_gas:
  "gas_of_all (con cs ''borrowerOperations'') ''repayBPD'' accounts (repayBPD_allAccounts env accounts cs
    amount)"
  unfolding repayBPD_allAccounts_def all_accounts_def
  by (rule repayBPD_fixed.loop_gas [where xs = accounts, simplified])

lemma repayBPD_allAccounts_randomAmount_gas:
  "gas_of_all (con cs ''borrowerOperations'') ''repayBPD'' accounts (repayBPD_allAccounts_randomAmount env
    lo hi accounts cs)"
  unfolding repayBPD_allAccounts_randomAmount_def all_accounts_def
  by (rule repayBPD_random.loop_gas [where xs = accounts, simplified])

lemma provideToSP_allAccounts_gas:
  "gas_of_all (Inr sp) ''provideToSP'' accounts (provideToSP_allAccounts env accounts sp amount)"
  unfolding provideToSP_allAccounts_def all_accounts_def
  by (rule provideToSP_fixed.loop_gas [where xs = accounts, simplified])

lemma provideToSP_allAccounts_randomAmount_gas:
  "gas_of_all (Inr sp) ''provideToSP'' accounts (provideToSP_allAccounts_randomAmount env lo hi accounts sp)"
  unfolding provideToSP_allAccounts_randomAmount_def all_accounts_def
  by (rule provideToSP_random.loop_gas [where xs = accounts, simplified])

lemma withdrawFromSP_allAccounts_gas:
  "gas_of_all (Inr sp) ''withdrawFromSP'' accounts (withdrawFromSP_allAccounts env accounts sp amount)"
  unfolding withdrawFromSP_allAccounts_def all_accounts_def
  by (rule withdrawFromSP_fixed.loop_gas [where xs = accounts, simplified])

lemma withdrawFromSP_allAccounts_randomAmount_gas:
  "gas_of_all (Inr sp) ''withdrawFromSP'' accounts (withdrawFromSP_allAccounts_randomAmount env lo hi
    accounts sp)"
  unfolding withdrawFromSP_allAccounts_randomAmount_def all_accounts_def
  by (rule withdrawFromSP_random.loop_gas [where xs = accounts, simplified])

lemma withdrawRBTCGainToVault_allAccounts_gas:
  "gas_of_all (con cs ''stabilityPool'') ''withdrawRBTCGainToVault'' accounts
    (withdrawRBTCGainToVault_allAccounts env accounts cs)"
  unfolding withdrawRBTCGainToVault_allAccounts_def all_accounts_def
  by (rule withdrawRBTCGain.loop_gas [where xs = accounts, simplified])

lemma getCurrentICR_allAccounts_gas:
  "gas_of_all (Inr caller) ''vaultManager_getCurrentICR'' accounts (getCurrentICR_allAccounts env accounts
    cs caller)"
  unfolding getCurrentICR_allAccounts_def all_accounts_def
  by (rule gas_of_all_bindM_quiet, rule quietly, simp, rule current_ICR.loop_gas [where xs = accounts,
    simplified])


end
