(* ===== verification/Sample_World.thy ===== *)
theory Sample_World
  imports Vault_Helpers
begin

text \<open>
  A concrete environment for the witnesses: a chain that counts deployments and answers the queries of the
  scripts with fixed values, and the conversions of the web3 library on the texts that occur.
\<close>

fun hex_text :: "nat \<Rightarrow> string" where
  "hex_text n = (if n < 16 then [''0123456789abcdef'' ! n] else hex_text (n div 16) @ [''0123456789abcdef'' ! (n mod 16)])"

declare hex_text.simps [simp del]

fun sample_answer :: "string \<Rightarrow> js list \<Rightarrow> js" where
  "sample_answer m args =
     (if m = ''getPrice'' then BN 200
      else if m = ''MIN_NET_DEBT'' then BN 1800
      else if m = ''getBorrowingRateWithDecay'' then BN 5000000000000000
      else if m = ''getBorrowingFee'' then (case args of [BN b] \<Rightarrow> BN (b * 5000000000000000 div BN_1e18) | _ \<Rightarrow> Undefined)
      else if m = ''getCompositeDebt'' then (case args of [BN b] \<Rightarrow> BN (b + 200) | _ \<Rightarrow> Undefined)
      else if m = ''getActualDebtFromComposite'' then (case args of [BN t] \<Rightarrow> BN (t - 200) | _ \<Rightarrow> Undefined)
      else if m = ''owner'' then Str ''0xdeployer''
      else Obj [(''hash'', Str ''0xab''), (''receipt'', Obj [(''gasUsed'', Num 50000), (''status'', Bool True)])])"

definition sample_env :: "nat env" where
  "sample_env = \<lparr>
     deploy = (\<lambda>a args ch. (Inr \<lparr>artifact = a, address = ''0xc'' @ nat_to_string ch\<rparr>, Suc ch)),
     call = (\<lambda>c m args ch. (Inr (sample_answer m args), ch)),
     service = (\<lambda>s args ch. (Inr (Obj []), ch)),
     random = (\<lambda>lo hi ch. (''1'', ch)),
     to_BN = (\<lambda>v. case v of Num n \<Rightarrow> Inr n | BN n \<Rightarrow> Inr n
       | Str s \<Rightarrow> if list_all is_digit s then Inr (int (digits_value s)) else Inl (Error ''not a number'')
       | _ \<Rightarrow> Inl (Error ''not a number'')),
     toWei = (\<lambda>s u. Inr (s @ zeros (if u = ''ether'' then 18 else if u = ''finney'' then 15 else 9))),
     toHex = (\<lambda>v. case v of Num n \<Rightarrow> Inr (''0x'' @ hex_text (nat n)) | BN n \<Rightarrow> Inr (''0x'' @ hex_text (nat n))
       | Str s \<Rightarrow> Inr s | _ \<Rightarrow> Inl TypeError),
     asciiToHex = (\<lambda>s. ''0x'' @ concat (map (\<lambda>c. hex_text (of_char c)) s)),
     sha3 = (\<lambda>s. ''0xa9059cbb2ab09eb2''),
     tx_hash = (\<lambda>c. Str (''0xhash'' @ address c))\<rparr>"

definition sample_world :: "nat world" where
  "sample_world = \<lparr>chain = 0, trace = [], latestRandomSeed = initialRandomSeed\<rparr>"

definition at_address :: "string \<Rightarrow> string \<Rightarrow> contract_ref" where
  "at_address a addr = \<lparr>artifact = a, address = addr\<rparr>"

definition sample_contracts :: contracts where
  "sample_contracts =
     [(''borrowerOperations'', at_address ''BorrowerOperations'' ''0xb0''),
      (''vaultManager'', at_address ''VaultManager'' ''0xb1''),
      (''priceFeedTestnet'', at_address ''PriceFeedTestnet'' ''0xb2'')]"

lemma sample_env_simps [simp]:
  "deploy sample_env a args ch = (Inr \<lparr>artifact = a, address = ''0xc'' @ nat_to_string ch\<rparr>, Suc ch)"
  "call sample_env c m args ch = (Inr (sample_answer m args), ch)"
  "service sample_env s args ch = (Inr (Obj []), ch)"
  "random sample_env lo hi ch = (''1'', ch)"
  "to_BN sample_env (Num n) = Inr n" "to_BN sample_env (BN n) = Inr n"
  "sha3 sample_env s = ''0xa9059cbb2ab09eb2''"
  "toHex sample_env (Num n) = Inr (''0x'' @ hex_text (nat n))"
  "toHex sample_env (BN n) = Inr (''0x'' @ hex_text (nat n))"
  "toHex sample_env (Str t) = Inr t"
  by (simp_all add: sample_env_def)

end
