(* ===== verification/Proxies.thy ===== *)
theory Proxies
  imports Sample_World
begin

text \<open>
  \<open>packages/contracts/utils/proxyHelpers.js\<close>: wrappers that run the operations of a contract through
  the user's DSProxy when the user has one, and directly otherwise. A class is the table of its
  methods; \<open>invoke\<close> runs a method of the table.
\<close>

section \<open>The class \<open>Proxy\<close>\<close>

record proxy =
  owner :: js
  proxies :: "(string \<times> contract_ref) list"
  scriptAddress :: js
  contract :: "contract_ref option"

text \<open>The text of a value used as a property key.\<close>

fun js_key :: "js \<Rightarrow> string" where
  "js_key (Str s) = s"
| "js_key (Num n) = int_to_string n"
| "js_key (BN n) = int_to_string n"
| "js_key Undefined = ''undefined''"
| "js_key Null = ''null''"
| "js_key (Bool b) = (if b then ''true'' else ''false'')"
| "js_key _ = ''[object Object]''"

definition user_proxy :: "proxy \<Rightarrow> js \<Rightarrow> contract_ref option" where
  "user_proxy p user = lookup (proxies p) (js_key user)"

definition getFrom :: "proxy \<Rightarrow> js list \<Rightarrow> js result" where
  "getFrom p params =
     (if length params = 0 then Inr (owner p)
      else let lastParam = params ! (length params - 1) in
        bindE (get_prop lastParam ''from'') (\<lambda>from. Inr (if truthy from then from else owner p)))"

definition getOptionalParams :: "js list \<Rightarrow> js" where
  "getOptionalParams params = (if length params = 0 then Obj [] else params ! (length params - 1))"

definition getProxyAddressFromUser :: "proxy \<Rightarrow> js \<Rightarrow> js" where
  "getProxyAddressFromUser p user =
     (case user_proxy p user of Some c \<Rightarrow> Str (address c) | None \<Rightarrow> user)"

definition getProxyFromUser :: "proxy \<Rightarrow> js \<Rightarrow> contract_ref option" where
  "getProxyFromUser p user = user_proxy p user"

definition getProxyFromParams :: "proxy \<Rightarrow> js list \<Rightarrow> contract_ref option result" where
  "getProxyFromParams p params = bindE (getFrom p params) (\<lambda>user. Inr (user_proxy p user))"

definition getSlicedParams :: "js list \<Rightarrow> js list result" where
  "getSlicedParams params =
     (if length params = 0 then Inr params
      else let lastParam = params ! (length params - 1) in
        bindE (get_prop lastParam ''from'') (\<lambda>from. bindE (get_prop lastParam ''value'') (\<lambda>v.
          Inr (if truthy from \<or> truthy v then take (length params - 1) params else params))))"

definition proxyFunction :: "'c env \<Rightarrow> proxy \<Rightarrow> string \<Rightarrow> js list \<Rightarrow> ('c, js) io" where
  "proxyFunction env p functionName params =
     (case contract p of None \<Rightarrow> failM TypeError | Some c \<Rightarrow> callM env c functionName params)"

definition proxyFunctionWithUser :: "'c env \<Rightarrow> proxy \<Rightarrow> string \<Rightarrow> js \<Rightarrow> ('c, js) io" where
  "proxyFunctionWithUser env p functionName user =
     proxyFunction env p functionName [getProxyAddressFromUser p user]"

definition function_name :: "string \<Rightarrow> string" where
  "function_name signature = takeWhile (\<lambda>c. c \<noteq> CHR ''('') signature"

definition execute_method :: string where
  "execute_method = ''execute(address,bytes)''"

definition forwardFunction :: "'c env \<Rightarrow> proxy \<Rightarrow> js list \<Rightarrow> string \<Rightarrow> ('c, js) io" where
  "forwardFunction env p params signature =
     bindM (liftM (getProxyFromParams p params)) (\<lambda>up.
       case up of
         None \<Rightarrow> proxyFunction env p (function_name signature) params
       | Some dsproxy \<Rightarrow>
           let optionalParams = getOptionalParams params in
           bindM (liftM (bindE (getSlicedParams params) (getTransactionData env signature))) (\<lambda>calldata.
             callM env dsproxy execute_method [scriptAddress p, Str calldata, optionalParams]))"

section \<open>Building the proxies\<close>

definition buildUserProxies :: "'c env \<Rightarrow> string list \<Rightarrow> ('c, (string \<times> contract_ref) list) io" where
  "buildUserProxies env users =
     bindM (deployM env ''DSProxyFactory'' []) (\<lambda>proxyFactory.
     bindM (mapM (\<lambda>user.
       bindM (callM env proxyFactory ''build'' [Obj [(''from'', Str user)]]) (\<lambda>proxyTx.
       bindM (liftM (logs proxyTx)) (\<lambda>ls.
       bindM (liftM (case ls of [] \<Rightarrow> Inl TypeError | l # _ \<Rightarrow> bindE (get_prop l ''args'') (\<lambda>a. get_prop a ''proxy'')))
         (\<lambda>a. bindM (serviceM env ''DSProxy.at'' [a]) (\<lambda>c.
         case c of Con d \<Rightarrow> retM (user, d) | _ \<Rightarrow> failM TypeError))))) users) (\<lambda>ups.
       retM (foldl (\<lambda>ps (u, d). set_prop ps u d) [] ups)))"

section \<open>The classes\<close>

text \<open>
  \<open>Forward k s\<close> forwards the call with signature \<open>s\<close> after replacing the users among its first \<open>k\<close>
  parameters by their proxies; \<open>Direct\<close> passes the parameters on, \<open>Constant\<close> passes none, \<open>ByUser\<close>
  replaces the user it takes by the proxy and drops all but \<open>k\<close> further parameters; \<open>ByUsers\<close>
  replaces two users.
\<close>

datatype delegation =
    Forward nat string
  | Direct
  | Constant
  | ByUser nat
  | ByUsers

type_synonym method_table = "(string \<times> delegation) list"

text \<open>Assignment \<open>params[i] = v\<close>; assigning beyond the end leaves holes.\<close>

definition assign_at :: "js list \<Rightarrow> nat \<Rightarrow> js \<Rightarrow> js list" where
  "assign_at xs i v = (xs @ replicate (Suc i - length xs) Undefined)[i := v]"

definition nth_param :: "js list \<Rightarrow> nat \<Rightarrow> js" where
  "nth_param xs i = (if i < length xs then xs ! i else Undefined)"

fun switch_users :: "proxy \<Rightarrow> nat \<Rightarrow> nat \<Rightarrow> js list \<Rightarrow> js list" where
  "switch_users p i 0 params = params"
| "switch_users p i (Suc k) params =
     switch_users p (Suc i) k (assign_at params i (getProxyAddressFromUser p (nth_param params i)))"

definition invoke :: "'c env \<Rightarrow> method_table \<Rightarrow> proxy \<Rightarrow> string \<Rightarrow> js list \<Rightarrow> ('c, js) io" where
  "invoke env table p m params =
     (case lookup table m of
        None \<Rightarrow> failM TypeError
      | Some (Forward k s) \<Rightarrow> forwardFunction env p (switch_users p 0 k params) s
      | Some Direct \<Rightarrow> proxyFunction env p m params
      | Some Constant \<Rightarrow> proxyFunction env p m []
      | Some (ByUser 0) \<Rightarrow> proxyFunctionWithUser env p m (nth_param params 0)
      | Some (ByUser (Suc k)) \<Rightarrow>
          proxyFunction env p m (getProxyAddressFromUser p (nth_param params 0) #
            map (\<lambda>i. nth_param params i) [1..<k + 2])
      | Some ByUsers \<Rightarrow> proxyFunction env p m
          [getProxyAddressFromUser p (nth_param params 0), getProxyAddressFromUser p (nth_param params 1)])"

definition BorrowerOperationsProxy :: method_table where
  "BorrowerOperationsProxy =
    [(''openVault'', Forward 0 ''openVault(uint256,uint256,address,address)''),
     (''addColl'', Forward 0 ''addColl(address,address)''),
     (''withdrawColl'', Forward 0 ''withdrawColl(uint256,address,address)''),
     (''withdrawBPD'', Forward 0 ''withdrawBPD(uint256,uint256,address,address)''),
     (''repayBPD'', Forward 0 ''repayBPD(uint256,address,address)''),
     (''closeVault'', Forward 0 ''closeVault()''),
     (''adjustVault'', Forward 0 ''adjustVault(uint256,uint256,uint256,bool,address,address)''),
     (''claimRedeemedCollateral'', Forward 0 ''claimRedeemedCollateral(address)''),
     (''getNewTCRFromVaultChange'', Direct),
     (''getNewICRFromVaultChange'', Direct),
     (''getCompositeDebt'', Direct),
     (''BPD_GAS_COMPENSATION'', Direct),
     (''MIN_NET_DEBT'', Direct),
     (''BORROWING_FEE_FLOOR'', Direct)]"

definition BorrowerWrappersProxy :: method_table where
  "BorrowerWrappersProxy =
    [(''claimCollateralAndOpenVault'', Forward 0 ''claimCollateralAndOpenVault(uint256,uint256,address,address)''),
     (''claimSPRewardsAndRecycle'', Forward 0 ''claimSPRewardsAndRecycle(uint256,address,address)''),
     (''claimStakingGainsAndRecycle'', Forward 0 ''claimStakingGainsAndRecycle(uint256,address,address)''),
     (''transferRBTC'', Forward 0 ''transferRBTC(address,uint256)'')]"

definition VaultManagerProxy :: method_table where
  "VaultManagerProxy =
    [(''Vaults'', ByUser 0), (''getVaultStatus'', ByUser 0), (''getVaultDebt'', ByUser 0),
     (''getVaultColl'', ByUser 0), (''totalStakes'', Constant), (''getPendingRBTCReward'', Direct),
     (''getPendingBPDDebtReward'', Direct), (''liquidate'', ByUser 0), (''getTCR'', Direct),
     (''getCurrentICR'', ByUser 1), (''checkRecoveryMode'', Direct), (''getVaultOwnersCount'', Constant),
     (''baseRate'', Constant), (''B_RBTC'', Constant), (''B_BPDDebt'', Constant),
     (''rewardSnapshots'', ByUser 0), (''lastFeeOperationTime'', Constant),
     (''redeemCollateral'', Forward 0 ''redeemCollateral(uint256,address,address,address,uint256,uint256,uint256)''),
     (''getActualDebtFromComposite'', Direct), (''getRedemptionFeeWithDecay'', Direct),
     (''getBorrowingRate'', Constant), (''getBorrowingRateWithDecay'', Constant),
     (''getBorrowingFee'', Direct), (''getBorrowingFeeWithDecay'', Direct),
     (''getEntireDebtAndColl'', Direct)]"

definition StabilityPoolProxy :: method_table where
  "StabilityPoolProxy =
    [(''provideToSP'', Forward 0 ''provideToSP(uint256,address)''), (''getCompoundedBPDDeposit'', ByUser 0),
     (''deposits'', ByUser 0), (''getDepositorRBTCGain'', ByUser 0)]"

definition SortedVaultsProxy :: method_table where
  "SortedVaultsProxy =
    [(''contains'', ByUser 0), (''isEmpty'', ByUser 0), (''findInsertPosition'', Direct)]"

definition TokenProxy :: method_table where
  "TokenProxy =
    [(''transfer'', Forward 1 ''transfer(address,uint256)''),
     (''transferFrom'', Forward 2 ''transferFrom(address,address,uint256)''),
     (''approve'', Forward 1 ''approve(address,uint256)''),
     (''increaseAllowance'', Forward 1 ''increaseAllowance(address,uint256)''),
     (''decreaseAllowance'', Forward 1 ''decreaseAllowance(address,uint256)''),
     (''totalSupply'', Direct), (''balanceOf'', ByUser 0), (''allowance'', ByUsers),
     (''name'', Direct), (''symbol'', Direct), (''decimals'', Direct)]"

definition MPStakingProxy :: method_table where
  "MPStakingProxy =
    [(''stake'', Forward 0 ''stake(uint256)''), (''stakes'', ByUser 0), (''F_BPD'', ByUser 0)]"


section \<open>Properties\<close>

text \<open>The calldata: the selector and one word of 64 characters for each parameter.\<close>

lemma length_hexToParam [simp]: "length (hexToParam h) = 64"
  by (simp add: hexToParam_def slice_last_def)

lemma length_formatParam: "formatParam env v = Inr s \<Longrightarrow> length s = 64"
  by (auto simp: formatParam_def bindE_eq_Inr_iff)

definition words_of :: "'c env \<Rightarrow> js list \<Rightarrow> string list result" where
  "words_of env params = mapE (formatParam env) params"

lemma foldE_formatParam:
  "foldE (\<lambda>acc p. bindE (formatParam env p) (\<lambda>f. Inr (acc @ f))) acc params =
   bindE (words_of env params) (\<lambda>ws. Inr (acc @ concat ws))"
proof (induction params arbitrary: acc)
  case Nil
  then show ?case by (simp add: words_of_def)
next
  case (Cons p params)
  then show ?case by (cases "formatParam env p") (simp_all add: words_of_def)
qed

lemma words_of_lengths: "words_of env params = Inr ws \<Longrightarrow> length ws = length params \<and> (\<forall>w \<in> set ws. length w = 64)"
  by (induction params arbitrary: ws) (auto simp: words_of_def bindE_eq_Inr_iff length_formatParam)

lemma length_concat_words: "\<forall>w \<in> set ws. length w = k \<Longrightarrow> length (concat ws) = k * length ws"
  by (induction ws) auto

lemma take_word:
  assumes "\<forall>w \<in> set ws. length w = k" "i < length ws"
  shows "take k (drop (k * i) (concat ws)) = ws ! i"
  using assms
proof (induction ws arbitrary: i)
  case Nil
  then show ?case by simp
next
  case (Cons w ws)
  then show ?case by (cases i) (simp_all add: Cons.IH)
qed

lemma words_of_nth: "words_of env params = Inr ws \<Longrightarrow> i < length params \<Longrightarrow> formatParam env (params ! i) = Inr (ws ! i)"
proof (induction params arbitrary: ws i)
  case Nil
  then show ?case by simp
next
  case (Cons p params)
  then show ?case by (cases i) (auto simp: words_of_def bindE_eq_Inr_iff)
qed

lemma getTransactionData_eq:
  "getTransactionData env s params =
   bindE (words_of env params) (\<lambda>ws. Inr (take 10 (sha3 env s) @ concat ws))"
  by (cases "words_of env params") (simp_all add: getTransactionData_def foldE_formatParam)

text \<open>
  The data of a transaction are the first ten characters of the hash of the signature, followed by
  one word of exactly 64 characters for each parameter, the formatted parameter, in order.
\<close>

lemma transaction_data_layout:
  assumes "getTransactionData env signature params = Inr d" and "10 \<le> length (sha3 env signature)"
  shows "take 10 d = take 10 (sha3 env signature) \<and> length d = 10 + 64 * length params \<and>
    (\<forall>i < length params. formatParam env (params ! i) = Inr (take 64 (drop (10 + 64 * i) d)))"
proof -
  obtain ws where ws: "words_of env params = Inr ws" and d: "d = take 10 (sha3 env signature) @ concat ws"
    using assms(1) by (auto simp: getTransactionData_eq bindE_eq_Inr_iff)
  note len = words_of_lengths [OF ws]
  have "formatParam env (params ! i) = Inr (take 64 (drop (10 + 64 * i) d))" if "i < length params" for i
    using take_word [of ws 64 i] words_of_nth [OF ws that] len that assms(2) by (simp add: d)
  moreover have "length d = 10 + 64 * length params"
    using length_concat_words [of ws 64] len assms(2) by (simp add: d)
  ultimately show ?thesis using assms(2) by (simp add: d)
qed

lemma transaction_data_layout_witness:
  "\<exists>d. getTransactionData sample_env ''transfer(address,uint256)'' [Num 171, Num 5] = Inr d \<and>
    length d = 138 \<and> formatParam sample_env (Num 5) = Inr (take 64 (drop 74 d))"
proof -
  have "\<exists>d. getTransactionData sample_env ''transfer(address,uint256)'' [Num 171, Num 5] = Inr d"
    by (simp add: getTransactionData_eq words_of_def formatParam_def)
  then obtain d where d: "getTransactionData sample_env ''transfer(address,uint256)'' [Num 171, Num 5] = Inr d"
    by blast
  have "length (sha3 sample_env ''transfer(address,uint256)'') \<ge> 10" by simp
  note layout = transaction_data_layout [OF d this]
  then have "length d = 138" by simp
  moreover have "formatParam sample_env ([Num 171, Num 5] ! 1) = Inr (take 64 (drop (10 + 64 * 1) d))"
    using layout by (metis One_nat_def length_Cons lessI list.size(3))
  then have "formatParam sample_env (Num 5) = Inr (take 64 (drop 74 d))" by simp
  ultimately show ?thesis using d by blast
qed

text \<open>The parameters a method expects; forwarded calls look at their last parameter.\<close>

definition arity_ok :: "delegation \<Rightarrow> js list \<Rightarrow> bool" where
  "arity_ok d params =
     (case d of
        Forward k s \<Rightarrow> k \<le> length params \<and> (params \<noteq> [] \<longrightarrow> last params \<notin> {Undefined, Null})
      | Direct \<Rightarrow> True
      | Constant \<Rightarrow> params = []
      | ByUser k \<Rightarrow> length params = Suc k
      | ByUsers \<Rightarrow> length params = 2)"

definition proxy_classes :: "method_table list" where
  "proxy_classes = [BorrowerOperationsProxy, BorrowerWrappersProxy, VaultManagerProxy, StabilityPoolProxy,
     SortedVaultsProxy, TokenProxy, MPStakingProxy]"

lemma forward_names:
  "\<forall>t \<in> set proxy_classes. \<forall>(m, d) \<in> set t. \<forall>k s. d = Forward k s \<longrightarrow> function_name s = m"
  by (simp add: proxy_classes_def BorrowerOperationsProxy_def BorrowerWrappersProxy_def VaultManagerProxy_def
      StabilityPoolProxy_def SortedVaultsProxy_def TokenProxy_def MPStakingProxy_def function_name_def)

lemma getProxyAddressFromUser_none [simp]: "proxies p = [] \<Longrightarrow> getProxyAddressFromUser p u = u"
  by (simp add: getProxyAddressFromUser_def user_proxy_def lookup_def)

lemma switch_users_none: "proxies p = [] \<Longrightarrow> i + k \<le> length params \<Longrightarrow> switch_users p i k params = params"
  by (induction k arbitrary: i params) (simp_all add: assign_at_def nth_param_def)

lemma get_prop_defined: "v \<notin> {Undefined, Null} \<Longrightarrow> \<exists>x. get_prop v k = Inr x"
  by (cases v) simp_all

lemma getProxyFromParams_none:
  assumes "proxies p = []" "params \<noteq> [] \<longrightarrow> last params \<notin> {Undefined, Null}"
  shows "getProxyFromParams p params = Inr None"
proof (cases "params = []")
  case True
  with assms show ?thesis by (simp add: getProxyFromParams_def getFrom_def user_proxy_def lookup_def)
next
  case False
  with assms get_prop_defined [of "last params" "''from''"] show ?thesis
    by (auto simp: getProxyFromParams_def getFrom_def user_proxy_def lookup_def last_conv_nth)
qed

lemma map_nth_param: "length xs = n \<Longrightarrow> map (nth_param xs) [0..<n] = xs"
  by (rule nth_equalityI) (simp_all add: nth_param_def)

lemma forwardFunction_direct:
  assumes "proxies p = []" "contract p = Some c" "params \<noteq> [] \<longrightarrow> last params \<notin> {Undefined, Null}"
  shows "forwardFunction env p params s = callM env c (function_name s) params"
  using assms by (simp add: forwardFunction_def getProxyFromParams_none proxyFunction_def)

lemma nth_param_list:
  assumes "length params = Suc (Suc k)"
  shows "nth_param params 0 # map (nth_param params) [1..<k + 2] = params"
proof -
  have "map (nth_param params) (0 # [1..<k + 2]) = params"
    using map_nth_param [OF assms] upt_conv_Cons [of 0 "k + 2"] by (simp del: upt_Suc)
  then show ?thesis by simp
qed

lemma invoke_without_proxies:
  assumes "table \<in> set proxy_classes" "lookup table m = Some d" "arity_ok d params"
    and "proxies p = []" "contract p = Some c"
  shows "invoke env table p m params = callM env c m params"
proof -
  have md: "(m, d) \<in> set table" using assms(2) by (simp add: lookup_def map_of_SomeD)
  show ?thesis
  proof (cases d)
    case (Forward k s)
    with md assms(1) forward_names have "function_name s = m" by fast
    with Forward assms show ?thesis
      by (simp add: invoke_def arity_ok_def switch_users_none forwardFunction_direct)
  next
    case (ByUser k)
    with assms have len: "length params = Suc k" by (simp add: arity_ok_def)
    then show ?thesis
    proof (cases k)
      case 0
      with len obtain x where "params = [x]" by (cases params) auto
      with 0 ByUser assms show ?thesis
        by (simp add: invoke_def proxyFunctionWithUser_def proxyFunction_def nth_param_def)
    next
      case (Suc j)
      with len nth_param_list [of params j] ByUser assms show ?thesis
        by (simp add: invoke_def proxyFunction_def del: upt_Suc)
    qed
  next
    case ByUsers
    with assms obtain x y where "params = [x, y]"
      by (auto simp: arity_ok_def length_Suc_conv numeral_2_eq_2)
    with ByUsers assms show ?thesis by (simp add: invoke_def proxyFunction_def nth_param_def)
  qed (use assms in \<open>simp_all add: invoke_def arity_ok_def proxyFunction_def\<close>)
qed

lemma forward_by_user_proxy:
  assumes "lookup opts ''from'' = Some (Str user)" "user \<noteq> []" "lookup (proxies p) user = Some dsproxy"
  shows "forwardFunction env p (args @ [Obj opts]) signature =
    (case getTransactionData env signature args of
       Inl e \<Rightarrow> failM e
     | Inr d \<Rightarrow> callM env dsproxy execute_method [scriptAddress p, Str d, Obj opts])"
proof -
  have "getProxyFromParams p (args @ [Obj opts]) = Inr (Some dsproxy)"
    using assms by (simp add: getProxyFromParams_def getFrom_def user_proxy_def)
  moreover have "getSlicedParams (args @ [Obj opts]) = Inr args"
    using assms by (simp add: getSlicedParams_def)
  ultimately show ?thesis
    by (cases "getTransactionData env signature args")
       (simp_all add: forwardFunction_def getOptionalParams_def Let_def)
qed

text \<open>The first \<open>k\<close> parameters of a forwarded method name users; the addresses of their proxies take their place.\<close>

lemma switch_users_eq:
  "i + k \<le> length params \<Longrightarrow> switch_users p i k params =
    take i params @ map (getProxyAddressFromUser p) (take k (drop i params)) @ drop (i + k) params"
proof (induction k arbitrary: i params)
  case (Suc k)
  let ?xs = "params[i := getProxyAddressFromUser p (params ! i)]"
  have "switch_users p i (Suc k) params = switch_users p (Suc i) k ?xs"
    using Suc.prems by (simp add: assign_at_def nth_param_def)
  also have "\<dots> = take (Suc i) ?xs @ map (getProxyAddressFromUser p) (take k (drop (Suc i) ?xs)) @ drop (Suc i + k) ?xs"
    using Suc.prems by (intro Suc.IH) simp
  also have "\<dots> = take i params @ map (getProxyAddressFromUser p) (take (Suc k) (drop i params)) @ drop (i + Suc k) params"
    using Suc.prems by (simp add: take_Suc_conv_app_nth drop_update_cancel Cons_nth_drop_Suc [of i params, symmetric])
  finally show ?case .
qed simp



end
