(* ===== verification/Deployment.thy ===== *)
theory Deployment
  imports Proxies
begin

text \<open>
  \<open>packages/contracts/utils/deploymentHelpers.js\<close> and \<open>truffleDeploymentHelpers.js\<close>: deploying the
  contracts for the tests and telling each contract the addresses of those it depends on.
\<close>

section \<open>Deploying and connecting\<close>

text \<open>\<open>const x = await X.new()\<close> for a list of names and artifacts, in order.\<close>

definition deploy_all :: "'c env \<Rightarrow> (string \<times> string) list \<Rightarrow> ('c, contracts) io" where
  "deploy_all env steps =
     mapM (\<lambda>(k, a). bindM (deployM env a []) (\<lambda>c. retM (k, c))) steps"

text \<open>\<open>contracts.k.address\<close> for a list of names.\<close>

definition addresses :: "contracts \<Rightarrow> string list \<Rightarrow> js list result" where
  "addresses cs ks = mapE (\<lambda>k. bindE (con cs k) (\<lambda>c. Inr (Str (address c)))) ks"

definition append_results :: "'a list result \<Rightarrow> 'a list result \<Rightarrow> 'a list result" where
  "append_results r s = bindE r (\<lambda>xs. bindE s (\<lambda>ys. Inr (xs @ ys)))"

text \<open>\<open>await contracts.k.m(..args)\<close>.\<close>

definition wire :: "'c env \<Rightarrow> contracts \<Rightarrow> string \<Rightarrow> string \<Rightarrow> js list result \<Rightarrow> ('c, unit) io" where
  "wire env cs k m args =
     bindM (liftM (bindE (con cs k) (\<lambda>c. bindE args (\<lambda>as. Inr (c, as)))))
       (\<lambda>(c, as). bindM (callM env c m as) (\<lambda>_. retM ()))"

definition seqM :: "('c, unit) io list \<Rightarrow> ('c, unit) io" where
  "seqM ms = foldr (\<lambda>m rest. bindM m (\<lambda>_. rest)) ms (retM ())"

definition setAsDeployed_all :: "contracts \<Rightarrow> (string \<times> string) list \<Rightarrow> ('c, unit) io" where
  "setAsDeployed_all cs steps =
     forM steps (\<lambda>(k, a). bindM (liftM (con cs k)) (\<lambda>c. record_event (SetAsDeployed a c)))"

text \<open>The object of contracts, with the keys in the order of the literal.\<close>

definition pick :: "contracts \<Rightarrow> string list \<Rightarrow> contracts" where
  "pick cs ks = List.map_filter (\<lambda>k. map_option (Pair k) (lookup cs k)) ks"

section \<open>\<open>DeploymentHelper\<close>\<close>

definition core_steps :: "(string \<times> string) list" where
  "core_steps =
    [(''priceFeedTestnet'', ''PriceFeedTestnet''), (''sortedVaults'', ''SortedVaults''),
     (''vaultManager'', ''VaultManager''), (''activePool'', ''ActivePool''),
     (''stabilityPool'', ''StabilityPool''), (''gasPool'', ''GasPool''), (''defaultPool'', ''DefaultPool''),
     (''collSurplusPool'', ''CollSurplusPool''), (''functionCaller'', ''FunctionCaller''),
     (''borrowerOperations'', ''BorrowerOperations''), (''hintHelpers'', ''HintHelpers'')]"

definition token_args :: "contracts \<Rightarrow> js list result" where
  "token_args cs = addresses cs [''vaultManager'', ''stabilityPool'', ''borrowerOperations'']"

text \<open>\<open>await Token.new(vaultManager.address, stabilityPool.address, borrowerOperations.address)\<close>\<close>

definition deploy_token :: "'c env \<Rightarrow> string \<Rightarrow> contracts \<Rightarrow> ('c, contract_ref) io" where
  "deploy_token env a cs = bindM (liftM (token_args cs)) (deployM env a)"

definition core_keys :: "string list" where
  "core_keys = [''priceFeedTestnet'', ''bpdToken'', ''sortedVaults'', ''vaultManager'', ''activePool'',
     ''stabilityPool'', ''gasPool'', ''defaultPool'', ''collSurplusPool'', ''functionCaller'',
     ''borrowerOperations'', ''hintHelpers'']"

definition core_setAsDeployed :: "(string \<times> string) list" where
  "core_setAsDeployed =
    [(''bpdToken'', ''BPDToken''), (''defaultPool'', ''DefaultPool''),
     (''priceFeedTestnet'', ''PriceFeedTestnet''), (''sortedVaults'', ''SortedVaults''),
     (''vaultManager'', ''VaultManager''), (''activePool'', ''ActivePool''),
     (''stabilityPool'', ''StabilityPool''), (''gasPool'', ''GasPool''),
     (''collSurplusPool'', ''CollSurplusPool''), (''functionCaller'', ''FunctionCaller''),
     (''borrowerOperations'', ''BorrowerOperations''), (''hintHelpers'', ''HintHelpers'')]"

definition deployMoneypCoreHardhat :: "'c env \<Rightarrow> ('c, contracts) io" where
  "deployMoneypCoreHardhat env =
     bindM (deploy_all env core_steps) (\<lambda>cs.
     bindM (deploy_token env ''BPDToken'' cs) (\<lambda>bpdToken.
     let all = cs @ [(''bpdToken'', bpdToken)] in
     bindM (setAsDeployed_all all core_setAsDeployed) (\<lambda>_. retM (pick all core_keys))))"

definition deployMoneypCoreTruffle :: "'c env \<Rightarrow> ('c, contracts) io" where
  "deployMoneypCoreTruffle env =
     bindM (deploy_all env core_steps) (\<lambda>cs.
     bindM (deploy_token env ''BPDToken'' cs) (\<lambda>bpdToken.
       retM (pick (cs @ [(''bpdToken'', bpdToken)]) core_keys)))"

definition tester_steps :: "(string \<times> string) list" where
  "tester_steps =
    [(''priceFeedTestnet'', ''PriceFeedTestnet''), (''sortedVaults'', ''SortedVaults''),
     (''communityIssuance'', ''CommunityIssuanceTester''), (''activePool'', ''ActivePoolTester''),
     (''defaultPool'', ''DefaultPoolTester''), (''stabilityPool'', ''StabilityPoolTester''),
     (''gasPool'', ''GasPool''), (''collSurplusPool'', ''CollSurplusPool''), (''math'', ''MoneypMathTester''),
     (''borrowerOperations'', ''BorrowerOperationsTester''), (''vaultManager'', ''VaultManagerTester''),
     (''functionCaller'', ''FunctionCaller''), (''hintHelpers'', ''HintHelpers'')]"

definition deployTesterContractsHardhat :: "'c env \<Rightarrow> ('c, contracts) io" where
  "deployTesterContractsHardhat env =
     bindM (deploy_all env tester_steps) (\<lambda>cs.
     bindM (deploy_token env ''BPDTokenTester'' cs) (\<lambda>bpdToken. retM (cs @ [(''bpdToken'', bpdToken)])))"

definition mp_keys :: "string list" where
  "mp_keys = [''mpStaking'', ''lockupContractFactory'', ''communityIssuance'', ''mpToken'']"

text \<open>The constructor of the MP token; \<open>issuance\<close> and \<open>token\<close> are the artifacts.\<close>

definition mp_token_args :: "contracts \<Rightarrow> js \<Rightarrow> js \<Rightarrow> js \<Rightarrow> js list result" where
  "mp_token_args cs bountyAddress lpRewardsAddress multisigAddress =
     append_results (addresses cs [''communityIssuance'', ''mpStaking'', ''lockupContractFactory''])
       (Inr [bountyAddress, lpRewardsAddress, multisigAddress])"

definition deploy_mp :: "'c env \<Rightarrow> string \<Rightarrow> string \<Rightarrow> js \<Rightarrow> js \<Rightarrow> js \<Rightarrow> ('c, contracts) io" where
  "deploy_mp env issuance token bountyAddress lpRewardsAddress multisigAddress =
     bindM (deploy_all env [(''mpStaking'', ''MPStaking''), (''lockupContractFactory'', ''LockupContractFactory''),
                            (''communityIssuance'', issuance)]) (\<lambda>cs.
     bindM (setAsDeployed_all cs [(''mpStaking'', ''MPStaking''),
                                  (''lockupContractFactory'', ''LockupContractFactory''),
                                  (''communityIssuance'', issuance)]) (\<lambda>_.
     bindM (liftM (mp_token_args cs bountyAddress lpRewardsAddress multisigAddress)) (\<lambda>args.
     bindM (deployM env token args) (\<lambda>mpToken.
     bindM (record_event (SetAsDeployed token mpToken)) (\<lambda>_.
       retM (cs @ [(''mpToken'', mpToken)]))))))"

definition deployMPContractsHardhat :: "'c env \<Rightarrow> js \<Rightarrow> js \<Rightarrow> js \<Rightarrow> ('c, contracts) io" where
  "deployMPContractsHardhat env = deploy_mp env ''CommunityIssuance'' ''MPToken''"

definition deployMPTesterContractsHardhat :: "'c env \<Rightarrow> js \<Rightarrow> js \<Rightarrow> js \<Rightarrow> ('c, contracts) io" where
  "deployMPTesterContractsHardhat env = deploy_mp env ''CommunityIssuanceTester'' ''MPTokenTester''"

text \<open>
  The first statement is \<open>const mpStaking = await mpStaking.new()\<close>: the constant is read in its own
  initialiser, which throws before anything is deployed.
\<close>

definition deployMPContractsTruffle :: "'c env \<Rightarrow> js \<Rightarrow> js \<Rightarrow> js \<Rightarrow> ('c, contracts) io" where
  "deployMPContractsTruffle env bountyAddress lpRewardsAddress multisigAddress =
     failM (ReferenceError ''mpStaking'')"

text \<open>\<open>frameworkPath\<close> is \<open>process.argv[1]\<close>; for another framework the result is \<open>undefined\<close>.\<close>

definition deployMoneypCore :: "'c env \<Rightarrow> string \<Rightarrow> ('c, contracts option) io" where
  "deployMoneypCore env frameworkPath =
     (if contains frameworkPath ''hardhat'' then bindM (deployMoneypCoreHardhat env) (\<lambda>cs. retM (Some cs))
      else if contains frameworkPath ''truffle'' then bindM (deployMoneypCoreTruffle env) (\<lambda>cs. retM (Some cs))
      else retM None)"

definition deployMPContracts :: "'c env \<Rightarrow> string \<Rightarrow> js \<Rightarrow> js \<Rightarrow> js \<Rightarrow> ('c, contracts option) io" where
  "deployMPContracts env frameworkPath bountyAddress lpRewardsAddress multisigAddress =
     (if contains frameworkPath ''hardhat'' then
        bindM (deployMPContractsHardhat env bountyAddress lpRewardsAddress multisigAddress) (\<lambda>cs. retM (Some cs))
      else if contains frameworkPath ''truffle'' then
        bindM (deployMPContractsTruffle env bountyAddress lpRewardsAddress multisigAddress) (\<lambda>cs. retM (Some cs))
      else retM None)"

definition deployBPDToken :: "'c env \<Rightarrow> contracts \<Rightarrow> ('c, contracts) io" where
  "deployBPDToken env cs =
     bindM (deploy_token env ''BPDToken'' cs) (\<lambda>c. retM (set_prop cs ''bpdToken'' c))"

definition deployBPDTokenTester :: "'c env \<Rightarrow> contracts \<Rightarrow> ('c, contracts) io" where
  "deployBPDTokenTester env cs =
     bindM (deploy_token env ''BPDTokenTester'' cs) (\<lambda>c. retM (set_prop cs ''bpdToken'' c))"

section \<open>Proxy scripts\<close>

text \<open>After this an entry of the object of contracts is a contract or a wrapper.\<close>

datatype party = Plain contract_ref | Wrapped method_table proxy

type_synonym parties = "(string \<times> party) list"

text \<open>
  Every script is deployed with addresses of the plain contracts and then replaces the entry by its
  wrapper; no script reads an entry that was replaced before.
\<close>

definition deploy_script ::
  "'c env \<Rightarrow> js \<Rightarrow> (string \<times> contract_ref) list \<Rightarrow> string \<Rightarrow> js list result \<Rightarrow> contract_ref option \<Rightarrow>
     ('c, proxy) io" where
  "deploy_script env own ups a args target =
     bindM (liftM args) (\<lambda>as. bindM (deployM env a as) (\<lambda>script.
       retM \<lparr>owner = own, proxies = ups, scriptAddress = Str (address script), contract = target\<rparr>))"

definition wrap_entry ::
  "'c env \<Rightarrow> js \<Rightarrow> (string \<times> contract_ref) list \<Rightarrow> contracts \<Rightarrow> string \<Rightarrow> string \<Rightarrow> method_table \<Rightarrow>
     parties \<Rightarrow> ('c, parties) io" where
  "wrap_entry env own ups cs k a table ps =
     bindM (deploy_script env own ups a (addresses cs [k]) (lookup cs k)) (\<lambda>p.
       retM (set_prop ps k (Wrapped table p)))"

definition deployProxyScripts ::
  "'c env \<Rightarrow> contracts \<Rightarrow> contracts \<Rightarrow> js \<Rightarrow> string list \<Rightarrow> ('c, parties \<times> parties) io" where
  "deployProxyScripts env cs MPContracts own users =
     bindM (buildUserProxies env users) (\<lambda>ups.
     let core = map (\<lambda>(k, c). (k, Plain c)) cs; mp = map (\<lambda>(k, c). (k, Plain c)) MPContracts in
     bindM (deploy_script env own ups ''BorrowerWrappersScript''
              (append_results (addresses cs [''borrowerOperations'', ''vaultManager''])
                 (addresses MPContracts [''mpStaking''])) None) (\<lambda>bw.
     let core = set_prop core ''borrowerWrappers'' (Wrapped BorrowerWrappersProxy bw) in
     bindM (wrap_entry env own ups cs ''borrowerOperations'' ''BorrowerOperationsScript'' BorrowerOperationsProxy core) (\<lambda>core.
     bindM (wrap_entry env own ups cs ''vaultManager'' ''VaultManagerScript'' VaultManagerProxy core) (\<lambda>core.
     bindM (wrap_entry env own ups cs ''stabilityPool'' ''StabilityPoolScript'' StabilityPoolProxy core) (\<lambda>core.
     let sv = \<lparr>owner = own, proxies = ups, scriptAddress = Null, contract = lookup cs ''sortedVaults''\<rparr>;
         core = set_prop core ''sortedVaults'' (Wrapped SortedVaultsProxy sv) in
     bindM (wrap_entry env own ups cs ''bpdToken'' ''TokenScript'' TokenProxy core) (\<lambda>core.
     bindM (wrap_entry env own ups MPContracts ''mpToken'' ''TokenScript'' TokenProxy mp) (\<lambda>mp.
     bindM (wrap_entry env own ups MPContracts ''mpStaking'' ''MPStakingScript'' MPStakingProxy mp) (\<lambda>mp.
       retM (core, mp)))))))))"

section \<open>Connecting\<close>

definition connectCoreContracts :: "'c env \<Rightarrow> contracts \<Rightarrow> contracts \<Rightarrow> ('c, unit) io" where
  "connectCoreContracts env cs MPContracts = seqM
    [wire env cs ''sortedVaults'' ''setParams''
       (append_results (Inr [Str maxBytes32]) (addresses cs [''vaultManager'', ''borrowerOperations''])),
     wire env cs ''functionCaller'' ''setVaultManagerAddress'' (addresses cs [''vaultManager'']),
     wire env cs ''functionCaller'' ''setSortedVaultsAddress'' (addresses cs [''sortedVaults'']),
     wire env cs ''vaultManager'' ''setAddresses''
       (append_results
         (addresses cs [''borrowerOperations'', ''activePool'', ''defaultPool'', ''stabilityPool'', ''gasPool'',
            ''collSurplusPool'', ''priceFeedTestnet'', ''bpdToken'', ''sortedVaults''])
         (addresses MPContracts [''mpToken'', ''mpStaking''])),
     wire env cs ''borrowerOperations'' ''setAddresses''
       (append_results
         (addresses cs [''vaultManager'', ''activePool'', ''defaultPool'', ''stabilityPool'', ''gasPool'',
            ''collSurplusPool'', ''priceFeedTestnet'', ''sortedVaults'', ''bpdToken''])
         (addresses MPContracts [''mpStaking''])),
     wire env cs ''stabilityPool'' ''setAddresses''
       (append_results
         (addresses cs [''borrowerOperations'', ''vaultManager'', ''activePool'', ''bpdToken'', ''sortedVaults'',
            ''priceFeedTestnet''])
         (addresses MPContracts [''communityIssuance''])),
     wire env cs ''activePool'' ''setAddresses''
       (addresses cs [''borrowerOperations'', ''vaultManager'', ''stabilityPool'', ''defaultPool'']),
     wire env cs ''defaultPool'' ''setAddresses'' (addresses cs [''vaultManager'', ''activePool'']),
     wire env cs ''collSurplusPool'' ''setAddresses''
       (addresses cs [''borrowerOperations'', ''vaultManager'', ''activePool'']),
     wire env cs ''hintHelpers'' ''setAddresses'' (addresses cs [''sortedVaults'', ''vaultManager''])]"

definition connectMPContracts :: "'c env \<Rightarrow> contracts \<Rightarrow> ('c, unit) io" where
  "connectMPContracts env MPContracts =
     wire env MPContracts ''lockupContractFactory'' ''setMPTokenAddress'' (addresses MPContracts [''mpToken''])"

definition connectMPContractsToCore :: "'c env \<Rightarrow> contracts \<Rightarrow> contracts \<Rightarrow> ('c, unit) io" where
  "connectMPContractsToCore env MPContracts cs = seqM
    [wire env MPContracts ''mpStaking'' ''setAddresses''
       (append_results (addresses MPContracts [''mpToken''])
         (addresses cs [''bpdToken'', ''vaultManager'', ''borrowerOperations'', ''activePool''])),
     wire env MPContracts ''communityIssuance'' ''setAddresses''
       (append_results (addresses MPContracts [''mpToken'']) (addresses cs [''stabilityPool'']))]"

definition connectRskSwapPool :: "'c env \<Rightarrow> contract_ref \<Rightarrow> contracts \<Rightarrow> js \<Rightarrow> js \<Rightarrow> ('c, unit) io" where
  "connectRskSwapPool env uniPool MPContracts uniswapPairAddr duration =
     bindM (liftM (addresses MPContracts [''mpToken''])) (\<lambda>as.
     bindM (callM env uniPool ''setParams'' (as @ [uniswapPairAddr, duration])) (\<lambda>_. retM ()))"

section \<open>\<open>truffleDeploymentHelpers.js\<close>\<close>

definition truffle_steps :: "(string \<times> string) list" where
  "truffle_steps =
    [(''priceFeedTestnet'', ''PriceFeedTestnet''), (''sortedVaults'', ''SortedVaults''),
     (''vaultManager'', ''VaultManager''), (''activePool'', ''ActivePool''),
     (''stabilityPool'', ''StabilityPool''), (''defaultPool'', ''DefaultPool''),
     (''functionCaller'', ''FunctionCaller''), (''borrowerOperations'', ''BorrowerOperations'')]"

definition deployMoneyp :: "'c env \<Rightarrow> ('c, contracts) io" where
  "deployMoneyp env =
     bindM (deploy_all env truffle_steps) (\<lambda>cs.
     bindM (deploy_token env ''BPDToken'' cs) (\<lambda>bpdToken.
     let all = cs @ [(''bpdToken'', bpdToken)] in
     bindM (setAsDeployed_all all
       [(''defaultPool'', ''DefaultPool''), (''priceFeedTestnet'', ''PriceFeedTestnet''),
        (''bpdToken'', ''BPDToken''), (''sortedVaults'', ''SortedVaults''), (''vaultManager'', ''VaultManager''),
        (''activePool'', ''ActivePool''), (''stabilityPool'', ''StabilityPool''),
        (''functionCaller'', ''FunctionCaller''), (''borrowerOperations'', ''BorrowerOperations'')]) (\<lambda>_.
       retM (pick all [''priceFeedTestnet'', ''bpdToken'', ''sortedVaults'', ''vaultManager'', ''activePool'',
         ''stabilityPool'', ''defaultPool'', ''functionCaller'', ''borrowerOperations'']))))"

definition getAddresses :: "contracts \<Rightarrow> (string \<times> js) list result" where
  "getAddresses cs =
     mapE (\<lambda>(name, k). bindE (con cs k) (\<lambda>c. Inr (name, Str (address c))))
      [(''BorrowerOperations'', ''borrowerOperations''), (''PriceFeedTestnet'', ''priceFeedTestnet''),
       (''BPDToken'', ''bpdToken''), (''SortedVaults'', ''sortedVaults''), (''VaultManager'', ''vaultManager''),
       (''StabilityPool'', ''stabilityPool''), (''ActivePool'', ''activePool''), (''DefaultPool'', ''defaultPool''),
       (''FunctionCaller'', ''functionCaller'')]"

text \<open>A missing address is \<open>undefined\<close>.\<close>

definition connectContracts :: "'c env \<Rightarrow> contracts \<Rightarrow> (string \<times> js) list \<Rightarrow> ('c, unit) io" where
  "connectContracts env cs addrs =
     forM [(''sortedVaults'', ''setVaultManager'', ''VaultManager''),
           (''functionCaller'', ''setVaultManagerAddress'', ''VaultManager''),
           (''functionCaller'', ''setSortedVaultsAddress'', ''SortedVaults''),
           (''priceFeedTestnet'', ''setVaultManagerAddress'', ''VaultManager''),
           (''vaultManager'', ''setBPDToken'', ''BPDToken''),
           (''vaultManager'', ''setSortedVaults'', ''SortedVaults''),
           (''vaultManager'', ''setPriceFeed'', ''PriceFeedTestnet''),
           (''vaultManager'', ''setActivePool'', ''ActivePool''),
           (''vaultManager'', ''setDefaultPool'', ''DefaultPool''),
           (''vaultManager'', ''setStabilityPool'', ''StabilityPool''),
           (''vaultManager'', ''setBorrowerOperations'', ''BorrowerOperations''),
           (''borrowerOperations'', ''setSortedVaults'', ''SortedVaults''),
           (''borrowerOperations'', ''setPriceFeed'', ''PriceFeedTestnet''),
           (''borrowerOperations'', ''setActivePool'', ''ActivePool''),
           (''borrowerOperations'', ''setDefaultPool'', ''DefaultPool''),
           (''borrowerOperations'', ''setVaultManager'', ''VaultManager''),
           (''stabilityPool'', ''setActivePoolAddress'', ''ActivePool''),
           (''stabilityPool'', ''setDefaultPoolAddress'', ''DefaultPool''),
           (''activePool'', ''setStabilityPoolAddress'', ''StabilityPool''),
           (''activePool'', ''setDefaultPoolAddress'', ''DefaultPool''),
           (''defaultPool'', ''setStabilityPoolAddress'', ''StabilityPool''),
           (''defaultPool'', ''setActivePoolAddress'', ''ActivePool'')]
       (\<lambda>(k, m, a). wire env cs k m (Inr [opt addrs a]))"

text \<open>The two transactions are not awaited: an error of the first does not stop the second.\<close>

definition connectEchidnaProxy :: "'c env \<Rightarrow> contract_ref \<Rightarrow> (string \<times> js) list \<Rightarrow> ('c, unit) io" where
  "connectEchidnaProxy env echidnaProxy addrs w =
     (case callM env echidnaProxy ''setVaultManager'' [opt addrs ''VaultManager''] w of (_, w') \<Rightarrow>
      case callM env echidnaProxy ''setBorrowerOperations'' [opt addrs ''BorrowerOperations''] w' of (_, w'') \<Rightarrow>
        (Inr (), w''))"

end
