(* ===== verification/Mainnet_Helpers.thy ===== *)
theory Mainnet_Helpers
  imports Deployment
begin

text \<open>
  \<open>packages/contracts/utils/mainnetDeploymentHelpers.js\<close>: deploying to a real network. The addresses of what was
  deployed are saved after each deployment, and a later run uses them instead of deploying again.
\<close>

section \<open>State\<close>

record config =
  OUTPUT_FILE :: string
  TX_CONFIRMATIONS :: js
  GAS_PRICE :: js
  ASDFGSCAN_BASE_URL :: js
  externalAddrs :: "(string \<times> js) list"
  moneypAddrs :: "(string \<times> js) list"
  beneficiaries :: "(string \<times> js) list"

record deployment_entry =
  entry_address :: string
  entry_txHash :: js
  entry_verification :: "string option"

type_synonym deployment_state = "(string \<times> deployment_entry) list"

text \<open>The object \<open>saveDeployment\<close> writes to the file.\<close>

definition entry_json :: "deployment_entry \<Rightarrow> js" where
  "entry_json e = Obj ([(''address'', Str (entry_address e)), (''txHash'', entry_txHash e)] @
     (case entry_verification e of None \<Rightarrow> [] | Some v \<Rightarrow> [(''verification'', Str v)]))"

definition state_json :: "deployment_state \<Rightarrow> (string \<times> js) list" where
  "state_json st = map (\<lambda>(n, e). (n, entry_json e)) st"

definition json_entry :: "js \<Rightarrow> deployment_entry result" where
  "json_entry j =
     bindE (get_prop j ''address'') (\<lambda>a. bindE (get_prop j ''txHash'') (\<lambda>h. bindE (get_prop j ''verification'') (\<lambda>v.
       Inr \<lparr>entry_address = (case a of Str s \<Rightarrow> s | _ \<Rightarrow> []), entry_txHash = h,
            entry_verification = (case v of Str s \<Rightarrow> Some s | _ \<Rightarrow> None)\<rparr>)))"

definition json_state :: "js \<Rightarrow> deployment_state result" where
  "json_state j = (case j of
      Obj ps \<Rightarrow> mapE (\<lambda>(n, v). bindE (json_entry v) (\<lambda>e. Inr (n, e))) ps
    | _ \<Rightarrow> Inl TypeError)"

definition loadPreviousDeployment :: "'c env \<Rightarrow> config \<Rightarrow> ('c, deployment_state) io" where
  "loadPreviousDeployment env cfg =
     bindM (serviceM env ''existsSync'' [Str (OUTPUT_FILE cfg)]) (\<lambda>e.
       if truthy e then
         bindM (logM [Str ''Loading previous deployment...'']) (\<lambda>_.
         bindM (serviceM env ''require'' [Str (''../'' @ OUTPUT_FILE cfg)]) (\<lambda>j. liftM (json_state j)))
       else retM [])"

definition saveDeployment :: "deployment_state \<Rightarrow> ('c, unit) io" where
  "saveDeployment st = record_event (Saved (state_json st))"

definition recorded :: "deployment_state \<Rightarrow> string \<Rightarrow> bool" where
  "recorded st name = (case lookup st name of None \<Rightarrow> False | Some e \<Rightarrow> entry_address e \<noteq> [])"

section \<open>Deploying\<close>

definition getFactory :: "'c env \<Rightarrow> string \<Rightarrow> ('c, js) io" where
  "getFactory env name = serviceM env ''getContractFactory'' [Str name]"

definition sendAndWaitForTransaction :: "'c env \<Rightarrow> config \<Rightarrow> ('c, js) io \<Rightarrow> ('c, js) io" where
  "sendAndWaitForTransaction env cfg txPromise =
     bindM txPromise (\<lambda>tx. bindM (getM tx ''hash'') (\<lambda>h.
       serviceM env ''waitForTransaction'' [h, TX_CONFIRMATIONS cfg]))"

definition gas_option :: "config \<Rightarrow> js" where
  "gas_option cfg = Obj [(''gasPrice'', GAS_PRICE cfg)]"

text \<open>
  \<open>a\<close> is the artifact of the factory. A contract that was deployed before is the contract at the saved
  address; otherwise it is deployed, awaited, entered into the state, and the state is saved.
\<close>

definition deploy_and_save ::
  "'c env \<Rightarrow> config \<Rightarrow> string \<Rightarrow> string \<Rightarrow> js list \<Rightarrow> deployment_state \<Rightarrow> ('c, contract_ref \<times> deployment_state) io" where
  "deploy_and_save env cfg a name params st =
     bindM (logM [Str ''Deploying contract '', Str name, Str ''...'']) (\<lambda>_.
     bindM (deployM env a (params @ [gas_option cfg])) (\<lambda>c.
     bindM (serviceM env ''waitForTransaction'' [tx_hash env c, TX_CONFIRMATIONS cfg]) (\<lambda>_.
     let st' = set_prop st name
           \<lparr>entry_address = address c, entry_txHash = tx_hash env c, entry_verification = None\<rparr> in
     bindM (saveDeployment st') (\<lambda>_. retM (c, st')))))"

definition loadOrDeploy ::
  "'c env \<Rightarrow> config \<Rightarrow> string \<Rightarrow> string \<Rightarrow> js list \<Rightarrow> deployment_state \<Rightarrow> ('c, contract_ref \<times> deployment_state) io" where
  "loadOrDeploy env cfg a name params st =
     (case lookup st name of
        None \<Rightarrow> deploy_and_save env cfg a name params st
      | Some e \<Rightarrow>
          if entry_address e \<noteq> [] then
            bindM (logM [Str ''Using previously deployed '', Str name, Str '' contract at address '', Str (entry_address e)])
              (\<lambda>_. retM (\<lparr>artifact = a, address = entry_address e\<rparr>, st))
          else deploy_and_save env cfg a name params st)"

text \<open>Several contracts without parameters, in order.\<close>

fun load_all ::
  "'c env \<Rightarrow> config \<Rightarrow> (string \<times> string) list \<Rightarrow> deployment_state \<Rightarrow> ('c, contracts \<times> deployment_state) io" where
  "load_all env cfg [] st = retM ([], st)"
| "load_all env cfg ((name, a) # steps) st =
     bindM (loadOrDeploy env cfg a name [] st) (\<lambda>(c, st').
     bindM (load_all env cfg steps st') (\<lambda>(cs, st''). retM ((name, c) # cs, st'')))"

section \<open>Verifying the source of a contract\<close>

fun error_name :: "js_error \<Rightarrow> string" where
  "error_name (Error m) = ''Error''"
| "error_name AssertionError = ''AssertionError''"
| "error_name TypeError = ''TypeError''"
| "error_name (ReferenceError x) = ''ReferenceError''"
| "error_name (Thrown s) = ''undefined''"
| "error_name (NamedError n m) = n"

definition verified_link :: "config \<Rightarrow> string \<Rightarrow> string" where
  "verified_link cfg a =
     (case ASDFGSCAN_BASE_URL cfg of Str u \<Rightarrow> u | _ \<Rightarrow> ''undefined'') @ ''/'' @ a @ ''#code''"

definition verifyContract ::
  "'c env \<Rightarrow> config \<Rightarrow> string \<Rightarrow> js list \<Rightarrow> deployment_state \<Rightarrow> ('c, deployment_state) io" where
  "verifyContract env cfg name args st =
     (case lookup st name of
        None \<Rightarrow> bindM (logM [Str ''  --> No deployment state for contract '', Str name, Str ''!!'']) (\<lambda>_. retM st)
      | Some e \<Rightarrow>
          if entry_address e = [] then
            bindM (logM [Str ''  --> No deployment state for contract '', Str name, Str ''!!'']) (\<lambda>_. retM st)
          else if (case entry_verification e of Some v \<Rightarrow> v \<noteq> [] | None \<Rightarrow> False) then
            bindM (logM [Str ''Contract '', Str name, Str '' already verified'']) (\<lambda>_. retM st)
          else
            let st' = set_prop st name (e\<lparr>entry_verification := Some (verified_link cfg (entry_address e))\<rparr>);
                save = bindM (saveDeployment st') (\<lambda>_. retM st') in
            tryM (serviceM env ''verify:verify'' [Str (entry_address e), Arr args]) (\<lambda>_. save)
              (\<lambda>err. if error_name err = ''NomicLabsHardhatPluginError'' then save
                else bindM (logM [Str ''Error verifying: '', Str (error_name err)]) (\<lambda>_.
                     bindM (logM [case error_text err of Some m \<Rightarrow> Str m | None \<Rightarrow> Undefined]) (\<lambda>_. retM st))))"

fun verify_all ::
  "'c env \<Rightarrow> config \<Rightarrow> (string \<times> js list) list \<Rightarrow> deployment_state \<Rightarrow> ('c, deployment_state) io" where
  "verify_all env cfg [] st = retM st"
| "verify_all env cfg ((name, args) # steps) st =
     bindM (verifyContract env cfg name args st) (verify_all env cfg steps)"

definition verify_if_configured ::
  "'c env \<Rightarrow> config \<Rightarrow> (string \<times> js list) list \<Rightarrow> deployment_state \<Rightarrow> ('c, deployment_state) io" where
  "verify_if_configured env cfg steps st =
     (if \<not> truthy (ASDFGSCAN_BASE_URL cfg) then
        bindM (logM [Str ''No Bitcoinscan Url defined, skipping verification'']) (\<lambda>_. retM st)
      else verify_all env cfg steps st)"

section \<open>The deployments\<close>

definition main_steps :: "(string \<times> string) list" where
  "main_steps =
    [(''priceFeed'', ''PriceFeed''), (''sortedVaults'', ''SortedVaults''), (''vaultManager'', ''VaultManager''),
     (''activePool'', ''ActivePool''), (''stabilityPool'', ''StabilityPool''), (''gasPool'', ''GasPool''),
     (''defaultPool'', ''DefaultPool''), (''collSurplusPool'', ''CollSurplusPool''),
     (''borrowerOperations'', ''BorrowerOperations''), (''hintHelpers'', ''HintHelpers'')]"

definition main_keys :: "string list" where
  "main_keys = [''priceFeed'', ''bpdToken'', ''sortedVaults'', ''vaultManager'', ''activePool'', ''stabilityPool'',
     ''gasPool'', ''defaultPool'', ''collSurplusPool'', ''borrowerOperations'', ''hintHelpers'']"

text \<open>The stability pool is not verified.\<close>

definition deployMoneypCoreMainnet ::
  "'c env \<Rightarrow> config \<Rightarrow> deployment_state \<Rightarrow> ('c, contracts \<times> deployment_state) io" where
  "deployMoneypCoreMainnet env cfg st =
     bindM (forM (map snd main_steps @ [''BPDToken'']) (getFactory env)) (\<lambda>_.
     bindM (load_all env cfg main_steps st) (\<lambda>(cs, st1).
     bindM (liftM (token_args cs)) (\<lambda>bpdTokenParams.
     bindM (loadOrDeploy env cfg ''BPDToken'' ''bpdToken'' bpdTokenParams st1) (\<lambda>(bpdToken, st2).
     bindM (verify_if_configured env cfg
       [(''priceFeed'', []), (''sortedVaults'', []), (''vaultManager'', []), (''activePool'', []), (''gasPool'', []),
        (''defaultPool'', []), (''collSurplusPool'', []), (''borrowerOperations'', []), (''hintHelpers'', []),
        (''bpdToken'', bpdTokenParams)] st2) (\<lambda>st3.
       retM (pick (cs @ [(''bpdToken'', bpdToken)]) main_keys, st3))))))"

definition deployMPContractsMainnet ::
  "'c env \<Rightarrow> config \<Rightarrow> js \<Rightarrow> js \<Rightarrow> js \<Rightarrow> deployment_state \<Rightarrow> ('c, contracts \<times> deployment_state) io" where
  "deployMPContractsMainnet env cfg bountyAddress lpRewardsAddress multisigAddress st =
     bindM (forM [''MPStaking'', ''LockupContractFactory'', ''CommunityIssuance'', ''MPToken''] (getFactory env)) (\<lambda>_.
     bindM (load_all env cfg [(''mpStaking'', ''MPStaking''), (''lockupContractFactory'', ''LockupContractFactory''),
              (''communityIssuance'', ''CommunityIssuance'')] st) (\<lambda>(cs, st1).
     bindM (liftM (mp_token_args cs bountyAddress lpRewardsAddress multisigAddress)) (\<lambda>mpTokenParams.
     bindM (loadOrDeploy env cfg ''MPToken'' ''mpToken'' mpTokenParams st1) (\<lambda>(mpToken, st2).
     bindM (verify_if_configured env cfg
       [(''mpStaking'', []), (''lockupContractFactory'', []), (''communityIssuance'', []),
        (''mpToken'', mpTokenParams)] st2) (\<lambda>st3.
       retM (cs @ [(''mpToken'', mpToken)], st3))))))"

definition deployRskSwapPoolMainnet ::
  "'c env \<Rightarrow> config \<Rightarrow> deployment_state \<Rightarrow> ('c, contract_ref \<times> deployment_state) io" where
  "deployRskSwapPoolMainnet env cfg st =
     bindM (getFactory env ''RskSwapPool'') (\<lambda>_.
     bindM (loadOrDeploy env cfg ''RskSwapPool'' ''rskSwapPool'' [] st) (\<lambda>(c, st1).
     bindM (verify_if_configured env cfg [(''rskSwapPool'', [])] st1) (\<lambda>st2. retM (c, st2))))"

definition deployMultiVaultGetterMainnet ::
  "'c env \<Rightarrow> config \<Rightarrow> contracts \<Rightarrow> deployment_state \<Rightarrow> ('c, contract_ref \<times> deployment_state) io" where
  "deployMultiVaultGetterMainnet env cfg moneypCore st =
     bindM (getFactory env ''MultiVaultGetter'') (\<lambda>_.
     bindM (liftM (addresses moneypCore [''vaultManager'', ''sortedVaults''])) (\<lambda>params.
     bindM (loadOrDeploy env cfg ''MultiVaultGetter'' ''multiVaultGetter'' params st) (\<lambda>(c, st1).
     bindM (verify_if_configured env cfg [(''multiVaultGetter'', params)] st1) (\<lambda>st2. retM (c, st2)))))"

section \<open>Connecting\<close>

definition isOwnershipRenounced :: "'c env \<Rightarrow> contract_ref \<Rightarrow> ('c, bool) io" where
  "isOwnershipRenounced env c =
     bindM (callM env c ''owner'' []) (\<lambda>own. retM (own = Str ZERO_ADDRESS))"

text \<open>\<open>await isOwnershipRenounced(c) || await sendAndWaitForTransaction(c.m(..args, {gasPrice}))\<close>\<close>

definition connect_at :: "'c env \<Rightarrow> config \<Rightarrow> contract_ref \<Rightarrow> string \<Rightarrow> js list result \<Rightarrow> ('c, unit) io" where
  "connect_at env cfg c m args =
     bindM (isOwnershipRenounced env c) (\<lambda>renounced.
       if renounced then retM ()
       else bindM (liftM args) (\<lambda>as.
            bindM (sendAndWaitForTransaction env cfg (callM env c m (as @ [gas_option cfg]))) (\<lambda>_. retM ())))"

definition connect :: "'c env \<Rightarrow> config \<Rightarrow> contracts \<Rightarrow> string \<Rightarrow> string \<Rightarrow> js list result \<Rightarrow> ('c, unit) io" where
  "connect env cfg cs k m args = bindM (liftM (con cs k)) (\<lambda>c. connect_at env cfg c m args)"

definition connectCoreContractsMainnet ::
  "'c env \<Rightarrow> config \<Rightarrow> contracts \<Rightarrow> contracts \<Rightarrow> js list \<Rightarrow> ('c, unit) io" where
  "connectCoreContractsMainnet env cfg cs MPContracts addrs = seqM
    [connect env cfg cs ''priceFeed'' ''setAddresses'' (Inr [Arr addrs]),
     connect env cfg cs ''sortedVaults'' ''setParams''
       (append_results (Inr [Str maxBytes32]) (addresses cs [''vaultManager'', ''borrowerOperations''])),
     connect env cfg cs ''vaultManager'' ''setAddresses''
       (append_results
         (addresses cs [''borrowerOperations'', ''activePool'', ''defaultPool'', ''stabilityPool'', ''gasPool'',
            ''collSurplusPool'', ''priceFeed'', ''bpdToken'', ''sortedVaults''])
         (addresses MPContracts [''mpToken'', ''mpStaking''])),
     connect env cfg cs ''borrowerOperations'' ''setAddresses''
       (append_results
         (addresses cs [''vaultManager'', ''activePool'', ''defaultPool'', ''stabilityPool'', ''gasPool'',
            ''collSurplusPool'', ''priceFeed'', ''sortedVaults'', ''bpdToken''])
         (addresses MPContracts [''mpStaking''])),
     connect env cfg cs ''stabilityPool'' ''setAddresses''
       (append_results
         (addresses cs [''borrowerOperations'', ''vaultManager'', ''activePool'', ''bpdToken'', ''sortedVaults'',
            ''priceFeed''])
         (addresses MPContracts [''communityIssuance''])),
     connect env cfg cs ''activePool'' ''setAddresses''
       (addresses cs [''borrowerOperations'', ''vaultManager'', ''stabilityPool'', ''defaultPool'']),
     connect env cfg cs ''defaultPool'' ''setAddresses'' (addresses cs [''vaultManager'', ''activePool'']),
     connect env cfg cs ''collSurplusPool'' ''setAddresses''
       (addresses cs [''borrowerOperations'', ''vaultManager'', ''activePool'']),
     connect env cfg cs ''hintHelpers'' ''setAddresses'' (addresses cs [''sortedVaults'', ''vaultManager''])]"

definition connectMPContractsMainnet :: "'c env \<Rightarrow> config \<Rightarrow> contracts \<Rightarrow> ('c, unit) io" where
  "connectMPContractsMainnet env cfg MPContracts =
     connect env cfg MPContracts ''lockupContractFactory'' ''setMPTokenAddress'' (addresses MPContracts [''mpToken''])"

definition connectMPContractsToCoreMainnet :: "'c env \<Rightarrow> config \<Rightarrow> contracts \<Rightarrow> contracts \<Rightarrow> ('c, unit) io" where
  "connectMPContractsToCoreMainnet env cfg MPContracts cs = seqM
    [connect env cfg MPContracts ''mpStaking'' ''setAddresses''
       (append_results (addresses MPContracts [''mpToken''])
         (addresses cs [''bpdToken'', ''vaultManager'', ''borrowerOperations'', ''activePool''])),
     connect env cfg MPContracts ''communityIssuance'' ''setAddresses''
       (append_results (addresses MPContracts [''mpToken'']) (addresses cs [''stabilityPool'']))]"

definition connectRskSwapPoolMainnet ::
  "'c env \<Rightarrow> config \<Rightarrow> contract_ref \<Rightarrow> contracts \<Rightarrow> js \<Rightarrow> js \<Rightarrow> ('c, unit) io" where
  "connectRskSwapPoolMainnet env cfg uniPool MPContracts pairAddr duration =
     connect_at env cfg uniPool ''setParams''
       (append_results (addresses MPContracts [''mpToken'']) (Inr [pairAddr, duration]))"

definition logContractObjects :: "contracts \<Rightarrow> ('c, unit) io" where
  "logContractObjects cs =
     bindM (logM [Str ''Contract objects addresses:'']) (\<lambda>_.
       forM cs (\<lambda>(k, c). logM [Str k, Str '': '', Str (address c)]))"

end
