(* ===== verification/Wiring.thy ===== *)
theory Wiring
  imports Mainnet_Helpers Sample_World "HOL-Library.Sublist"
begin

text \<open>
  The specification of the connection of the contracts: each setter with the contracts its parameters stand for,
  in the order in which the Solidity interface declares them. The functions that connect the
  contracts of the tests and of the main network implement it.
\<close>

section \<open>The interface of the setters\<close>

text \<open>Contract, setter, and the parameters of the setter by the name of the contract they expect.\<close>

type_synonym setter = "string \<times> string \<times> string list"

definition sortedVaults_setter :: setter where
  "sortedVaults_setter = (''sortedVaults'', ''setParams'', [''size'', ''vaultManager'', ''borrowerOperations''])"

definition functionCaller_setters :: "setter list" where
  "functionCaller_setters =
    [(''functionCaller'', ''setVaultManagerAddress'', [''vaultManager'']),
     (''functionCaller'', ''setSortedVaultsAddress'', [''sortedVaults''])]"

definition core_setters :: "string \<Rightarrow> setter list" where
  "core_setters price =
    [(''vaultManager'', ''setAddresses'',
        [''borrowerOperations'', ''activePool'', ''defaultPool'', ''stabilityPool'', ''gasPool'', ''collSurplusPool'',
         price, ''bpdToken'', ''sortedVaults'', ''mpToken'', ''mpStaking'']),
     (''borrowerOperations'', ''setAddresses'',
        [''vaultManager'', ''activePool'', ''defaultPool'', ''stabilityPool'', ''gasPool'', ''collSurplusPool'',
         price, ''sortedVaults'', ''bpdToken'', ''mpStaking'']),
     (''stabilityPool'', ''setAddresses'',
        [''borrowerOperations'', ''vaultManager'', ''activePool'', ''bpdToken'', ''sortedVaults'', price,
         ''communityIssuance'']),
     (''activePool'', ''setAddresses'', [''borrowerOperations'', ''vaultManager'', ''stabilityPool'', ''defaultPool'']),
     (''defaultPool'', ''setAddresses'', [''vaultManager'', ''activePool'']),
     (''collSurplusPool'', ''setAddresses'', [''borrowerOperations'', ''vaultManager'', ''activePool'']),
     (''hintHelpers'', ''setAddresses'', [''sortedVaults'', ''vaultManager''])]"

definition mp_setters :: "setter list" where
  "mp_setters =
    [(''lockupContractFactory'', ''setMPTokenAddress'', [''mpToken'']),
     (''mpStaking'', ''setAddresses'', [''mpToken'', ''bpdToken'', ''vaultManager'', ''borrowerOperations'', ''activePool'']),
     (''communityIssuance'', ''setAddresses'', [''mpToken'', ''stabilityPool''])]"

text \<open>The contracts of the MP token are looked up among the MP contracts, the others among the core.\<close>

definition role :: "contracts \<Rightarrow> contracts \<Rightarrow> string \<Rightarrow> contract_ref" where
  "role cs mp k = the (lookup (if k \<in> set mp_keys then mp else cs) k)"

definition role_value :: "contracts \<Rightarrow> contracts \<Rightarrow> string \<Rightarrow> js" where
  "role_value cs mp k = (if k = ''size'' then Str maxBytes32 else Str (address (role cs mp k)))"

definition setter_call :: "contracts \<Rightarrow> contracts \<Rightarrow> js list \<Rightarrow> setter \<Rightarrow> event" where
  "setter_call cs mp extra = (\<lambda>(k, m, roles). Called (role cs mp k) m (map (role_value cs mp) roles @ extra))"

section \<open>Calls in order\<close>

text \<open>All the calls when the code succeeds, the first ones when it fails.\<close>

definition calls_in_order :: "event list \<Rightarrow> ('c, 'a) io \<Rightarrow> bool" where
  "calls_in_order evs m \<longleftrightarrow> traces m (\<lambda>r es. case r of Inr _ \<Rightarrow> es = evs | Inl _ \<Rightarrow> prefix es evs)"

lemma calls_in_order_bindM:
  assumes "calls_in_order es m" "\<And>x. calls_in_order es' (f x)"
  shows "calls_in_order (es @ es') (bindM m f)"
  unfolding calls_in_order_def
  by (rule traces_bindM [OF assms [unfolded calls_in_order_def]]) (auto split: sum.splits)

lemma calls_in_order_retM: "calls_in_order [] (retM x)"
  by (simp add: calls_in_order_def traces_retM)

lemma calls_in_order_seqM:
  "list_all2 calls_in_order ess ms \<Longrightarrow> calls_in_order (concat ess) (seqM ms)"
  by (induction ess ms rule: list_all2_induct)
     (auto simp: seqM_def intro!: calls_in_order_retM calls_in_order_bindM)

lemma calls_in_order_wire:
  assumes "con cs k = Inr c" "args = Inr as"
  shows "calls_in_order [Called c m as] (wire env cs k m args)"
proof -
  have "calls_in_order ([Called c m as] @ []) (bindM (callM env c m as) (\<lambda>_. retM ()))"
    by (rule calls_in_order_bindM)
       (auto simp: calls_in_order_def intro!: traces_callM traces_retM split: sum.split)
  with assms show ?thesis by (simp add: wire_def)
qed

lemma con_found: "lookup cs k \<noteq> None \<Longrightarrow> con cs k = Inr (the (lookup cs k))"
  by (auto simp: con_def)

lemma addresses_found:
  "\<forall>k \<in> set ks. lookup cs k \<noteq> None \<Longrightarrow>
   addresses cs ks = Inr (map (\<lambda>k. Str (address (the (lookup cs k)))) ks)"
  by (induction ks) (auto simp: addresses_def con_found)

definition all_present :: "string list \<Rightarrow> contracts \<Rightarrow> bool" where
  "all_present ks cs \<longleftrightarrow> (\<forall>k \<in> set ks. lookup cs k \<noteq> None)"

lemmas setter_defs = setter_call_def role_value_def role_def mp_keys_def

text \<open>
  C32. The functions that connect the contracts of the tests call every setter of the core and of the MP contracts
  exactly once, in a fixed order, and pass for every parameter the address of the contract that
  the parameter stands for; when a call fails, the calls before it were made and no others.
\<close>

theorem test_contracts_wired:
  assumes "all_present core_keys cs" "all_present mp_keys mp"
  shows "calls_in_order
     (map (setter_call cs mp [])
        (sortedVaults_setter # functionCaller_setters @ core_setters ''priceFeedTestnet'' @ mp_setters))
     (seqM [connectCoreContracts env cs mp, connectMPContracts env mp, connectMPContractsToCore env mp cs])"
proof -
  note found = assms [unfolded all_present_def core_keys_def mp_keys_def, simplified]
  have core: "calls_in_order (concat (map (\<lambda>s. [setter_call cs mp [] s])
      (sortedVaults_setter # functionCaller_setters @ core_setters ''priceFeedTestnet'')))
      (connectCoreContracts env cs mp)"
    unfolding connectCoreContracts_def
    by (rule calls_in_order_seqM)
       (simp add: sortedVaults_setter_def functionCaller_setters_def core_setters_def setter_defs found
         con_found addresses_found append_results_def calls_in_order_wire)
  have mp: "calls_in_order [setter_call cs mp [] (hd mp_setters)] (connectMPContracts env mp)"
    unfolding connectMPContracts_def
    by (simp add: mp_setters_def setter_defs found con_found addresses_found calls_in_order_wire)
  have to_core: "calls_in_order (concat (map (\<lambda>s. [setter_call cs mp [] s]) (tl mp_setters)))
      (connectMPContractsToCore env mp cs)"
    unfolding connectMPContractsToCore_def
    by (rule calls_in_order_seqM)
       (simp add: mp_setters_def setter_defs found con_found addresses_found append_results_def calls_in_order_wire)
  have "calls_in_order (concat [concat (map (\<lambda>s. [setter_call cs mp [] s])
          (sortedVaults_setter # functionCaller_setters @ core_setters ''priceFeedTestnet'')),
        [setter_call cs mp [] (hd mp_setters)], concat (map (\<lambda>s. [setter_call cs mp [] s]) (tl mp_setters))])
      (seqM [connectCoreContracts env cs mp, connectMPContracts env mp, connectMPContractsToCore env mp cs])"
    by (rule calls_in_order_seqM) (simp only: list_all2_Cons list_all2_Nil core mp to_core simp_thms)
  then show ?thesis by (simp add: mp_setters_def)
qed

section \<open>The main network\<close>

text \<open>
  The contracts are ownable: \<open>R ch\<close> are those whose ownership is renounced in the state \<open>ch\<close> of the chain. The
  query \<open>owner\<close> tells and changes nothing, a setter renounces the ownership of its contract, and waiting
  for a transaction leaves ownership alone.
\<close>

definition setter_methods :: "string list" where
  "setter_methods = [''setAddresses'', ''setParams'', ''setMPTokenAddress'']"

definition ownable :: "'c env \<Rightarrow> ('c \<Rightarrow> contract_ref set) \<Rightarrow> bool" where
  "ownable env R \<longleftrightarrow>
     (\<forall>c ch. \<exists>own ch'. call env c ''owner'' [] ch = (Inr own, ch') \<and> R ch' = R ch \<and>
        (own = Str ZERO_ADDRESS \<longleftrightarrow> c \<in> R ch)) \<and>
     (\<forall>c m args ch tx ch'. m \<in> set setter_methods \<longrightarrow> call env c m args ch = (Inr tx, ch') \<longrightarrow>
        R ch' = insert c (R ch)) \<and>
     (\<forall>s args ch. R (snd (service env s args ch)) = R ch)"

lemma ownable_owner:
  assumes "ownable env R"
  obtains own ch' where "call env c ''owner'' [] ch = (Inr own, ch')" "R ch' = R ch"
    "own = Str ZERO_ADDRESS \<longleftrightarrow> c \<in> R ch"
  using assms unfolding ownable_def by blast

lemma ownable_setter:
  "ownable env R \<Longrightarrow> m \<in> set setter_methods \<Longrightarrow> call env c m args ch = (Inr tx, ch') \<Longrightarrow> R ch' = insert c (R ch)"
  unfolding ownable_def by blast

lemma ownable_service: "ownable env R \<Longrightarrow> service env s args ch = (r, ch') \<Longrightarrow> R ch' = R ch"
  unfolding ownable_def by (metis snd_conv)

fun is_setter :: "event \<Rightarrow> bool" where
  "is_setter (Called c m args) = (m \<in> set setter_methods)"
| "is_setter _ = False"

lemma send_Inr:
  assumes "ownable env R" "m \<in> set setter_methods"
    and "sendAndWaitForTransaction env cfg (callM env c m as) w = (Inr tx, w')"
  shows "\<exists>es. trace w' = trace w @ es \<and> filter is_setter es = [Called c m as] \<and>
    R (chain w') = insert c (R (chain w))"
proof -
  from assms(3) obtain tx1 w1 h where w1: "callM env c m as w = (Inr tx1, w1)"
    and w': "serviceM env ''waitForTransaction'' [h, TX_CONFIRMATIONS cfg] w1 = (Inr tx, w')"
    by (auto simp: sendAndWaitForTransaction_def bindM_Inr getM_def liftM_def)
  have "trace w1 = trace w @ [Called c m as]" "R (chain w1) = insert c (R (chain w))"
    using w1 ownable_setter [OF assms(1,2)] by (auto simp: callM_def split: prod.splits)
  moreover have "trace w' = trace w1 @ [Did ''waitForTransaction'' [h, TX_CONFIRMATIONS cfg]]"
    "R (chain w') = R (chain w1)"
    using w' ownable_service [OF assms(1)] by (auto simp: serviceM_def split: prod.splits)
  ultimately show ?thesis using assms(2) by auto
qed

lemma connect_at_Inr:
  assumes "ownable env R" "m \<in> set setter_methods"
    and "connect_at env cfg c m (Inr as) w = (Inr (), w')"
  shows "\<exists>es. trace w' = trace w @ es \<and>
    filter is_setter es = (if c \<in> R (chain w) then [] else [Called c m (as @ [gas_option cfg])]) \<and>
    R (chain w') = insert c (R (chain w))"
proof -
  obtain own ch where own: "call env c ''owner'' [] (chain w) = (Inr own, ch)" "R ch = R (chain w)"
    "own = Str ZERO_ADDRESS \<longleftrightarrow> c \<in> R (chain w)"
    using ownable_owner [OF assms(1)] by metis
  let ?w1 = "w\<lparr>chain := ch, trace := trace w @ [Called c ''owner'' []]\<rparr>"
  have asked: "isOwnershipRenounced env c w = (Inr (own = Str ZERO_ADDRESS), ?w1)"
    by (simp add: isOwnershipRenounced_def bindM_def callM_def retM_def own(1))
  have owner: "\<not> is_setter (Called c ''owner'' [])" by (simp add: setter_methods_def)
  show ?thesis
  proof (cases "own = Str ZERO_ADDRESS")
    case True
    with assms(3) asked have "w' = ?w1" by (simp add: connect_at_def bindM_def retM_def)
    with True own owner show ?thesis by auto
  next
    case False
    with assms(3) asked obtain tx where
      "sendAndWaitForTransaction env cfg (callM env c m (as @ [gas_option cfg])) ?w1 = (Inr tx, w')"
      by (auto simp: connect_at_def bindM_def retM_def split: prod.splits sum.splits)
    from send_Inr [OF assms(1,2) this] False own owner show ?thesis by auto
  qed
qed

text \<open>A list of connections of different contracts.\<close>

definition connect_all :: "'c env \<Rightarrow> config \<Rightarrow> (contract_ref \<times> string \<times> js list) list \<Rightarrow> ('c, unit) io" where
  "connect_all env cfg xs = seqM (map (\<lambda>(c, m, as). connect_at env cfg c m (Inr as)) xs)"

lemma connect_all_Inr:
  assumes "ownable env R" "\<forall>(c, m, as) \<in> set xs. m \<in> set setter_methods" "distinct (map fst xs)"
    and "connect_all env cfg xs w = (Inr (), w')"
  shows "\<exists>es. trace w' = trace w @ es \<and>
    filter is_setter es =
      map (\<lambda>(c, m, as). Called c m (as @ [gas_option cfg])) (filter (\<lambda>x. fst x \<notin> R (chain w)) xs) \<and>
    R (chain w') = R (chain w) \<union> fst ` set xs"
  using assms(2-4)
proof (induction xs arbitrary: w)
  case Nil
  then show ?case by (simp add: connect_all_def seqM_def retM_def)
next
  case (Cons x xs)
  obtain c m as where x: "x = (c, m, as)" by (cases x)
  from Cons.prems obtain w1 where step: "connect_at env cfg c m (Inr as) w = (Inr (), w1)"
    and rest: "connect_all env cfg xs w1 = (Inr (), w')"
    by (auto simp: connect_all_def seqM_def x bindM_Inr)
  obtain es where es: "trace w1 = trace w @ es"
    "filter is_setter es = (if c \<in> R (chain w) then [] else [Called c m (as @ [gas_option cfg])])"
    "R (chain w1) = insert c (R (chain w))"
    using connect_at_Inr [OF assms(1) _ step] Cons.prems(1) by (auto simp: x)
  obtain es' where es': "trace w' = trace w1 @ es'"
    "filter is_setter es' = map (\<lambda>(c, m, as). Called c m (as @ [gas_option cfg]))
       (filter (\<lambda>x. fst x \<notin> R (chain w1)) xs)" "R (chain w') = R (chain w1) \<union> fst ` set xs"
    using Cons.IH [OF _ _ rest] Cons.prems(1,2) by (auto simp: x)
  have "filter (\<lambda>x. fst x \<notin> R (chain w1)) xs = filter (\<lambda>x. fst x \<notin> R (chain w)) xs"
    using Cons.prems(2) es(3) by (auto simp: x intro!: filter_cong)
  with es es' show ?case by (auto simp: x intro!: exI [of _ "es @ es'"])
qed

text \<open>The connection of the main network is such a list.\<close>

definition triple :: "contracts \<Rightarrow> contracts \<Rightarrow> setter \<Rightarrow> contract_ref \<times> string \<times> js list" where
  "triple cs mp = (\<lambda>(k, m, roles). (role cs mp k, m, map (role_value cs mp) roles))"

definition main_triples :: "contracts \<Rightarrow> contracts \<Rightarrow> js list \<Rightarrow> (contract_ref \<times> string \<times> js list) list" where
  "main_triples cs mp addrs = (role cs mp ''priceFeed'', ''setAddresses'', [Arr addrs]) #
     map (triple cs mp) (sortedVaults_setter # core_setters ''priceFeed'' @ mp_setters)"

lemma main_triples_setters: "\<forall>(c, m, as) \<in> set (main_triples cs mp addrs). m \<in> set setter_methods"
  by (simp add: main_triples_def triple_def sortedVaults_setter_def core_setters_def mp_setters_def
      setter_methods_def)

lemma seqM_append: "seqM (xs @ ys) = bindM (seqM xs) (\<lambda>_. seqM ys)"
  by (induction xs) (simp_all add: seqM_def bindM_assoc)

lemma seqM_single: "seqM [m] = m"
  by (auto simp: seqM_def bindM_def retM_def fun_eq_iff split: prod.split sum.split)

lemma connect_found: "lookup cs k \<noteq> None \<Longrightarrow> connect env cfg cs k m args = connect_at env cfg (the (lookup cs k)) m args"
  by (simp add: connect_def con_found)

lemma main_connection_is_list:
  assumes "all_present main_keys cs" "all_present mp_keys mp"
  shows "seqM [connectCoreContractsMainnet env cfg cs mp addrs, connectMPContractsMainnet env cfg mp,
           connectMPContractsToCoreMainnet env cfg mp cs] =
         connect_all env cfg (main_triples cs mp addrs)"
proof -
  note found = assms [unfolded all_present_def main_keys_def mp_keys_def, simplified]
  note simps = triple_def setter_defs found connect_found addresses_found append_results_def
  have core: "connectCoreContractsMainnet env cfg cs mp addrs =
      connect_all env cfg ((role cs mp ''priceFeed'', ''setAddresses'', [Arr addrs]) #
        map (triple cs mp) (sortedVaults_setter # core_setters ''priceFeed''))"
    unfolding connectCoreContractsMainnet_def connect_all_def
    by (simp add: simps sortedVaults_setter_def core_setters_def)
  have mp: "connectMPContractsMainnet env cfg mp = connect_all env cfg (map (triple cs mp) [hd mp_setters])"
    unfolding connectMPContractsMainnet_def connect_all_def
    by (simp add: simps mp_setters_def seqM_single)
  have to_core: "connectMPContractsToCoreMainnet env cfg mp cs = connect_all env cfg (map (triple cs mp) (tl mp_setters))"
    unfolding connectMPContractsToCoreMainnet_def connect_all_def
    by (simp add: simps mp_setters_def)
  have append: "connect_all env cfg (xs @ ys) = bindM (connect_all env cfg xs) (\<lambda>_. connect_all env cfg ys)" for xs ys
    by (simp add: connect_all_def seqM_append)
  have "main_triples cs mp addrs = ((role cs mp ''priceFeed'', ''setAddresses'', [Arr addrs]) #
        map (triple cs mp) (sortedVaults_setter # core_setters ''priceFeed'')) @
      (map (triple cs mp) [hd mp_setters] @ map (triple cs mp) (tl mp_setters))"
    by (simp add: main_triples_def mp_setters_def)
  moreover have "seqM [a, b, c] = bindM a (\<lambda>_. bindM b (\<lambda>_. c))" for a b c :: "('c, unit) io"
    using seqM_append [of "[a, b]" "[c]"] seqM_append [of "[a]" "[b]"] by (simp add: seqM_single bindM_assoc)
  ultimately show ?thesis by (simp only: core mp to_core append)
qed

text \<open>
  C4. On the main network a successful connection calls, in the order of the interface and with the addresses
  its parameters stand for, the setters of exactly the contracts that were still owned, and leaves
  all of them renounced; so repeating it calls no setter again. The price feed gets the given list of
  oracles, the other setters the same addresses as in the tests.
\<close>

theorem main_connection_idempotent:
  assumes "all_present main_keys cs" "all_present mp_keys mp" "ownable env R"
    and "distinct (map fst (main_triples cs mp addrs))"
    and "seqM [connectCoreContractsMainnet env cfg cs mp addrs, connectMPContractsMainnet env cfg mp,
           connectMPContractsToCoreMainnet env cfg mp cs] w = (Inr (), w')"
  shows "\<exists>es. trace w' = trace w @ es \<and>
    filter is_setter es = map (\<lambda>(c, m, as). Called c m (as @ [gas_option cfg]))
      (filter (\<lambda>x. fst x \<notin> R (chain w)) (main_triples cs mp addrs)) \<and>
    fst ` set (main_triples cs mp addrs) \<subseteq> R (chain w')"
proof -
  from connect_all_Inr [OF assms(3) main_triples_setters assms(4)] assms(5) show ?thesis
    unfolding main_connection_is_list [OF assms(1,2)] by blast
qed

section \<open>Witnesses\<close>

definition sample_core :: contracts where
  "sample_core = map (\<lambda>k. (k, at_address k (''0x'' @ k))) (''priceFeed'' # core_keys)"

definition sample_mp :: contracts where
  "sample_mp = map (\<lambda>k. (k, at_address k (''0x'' @ k))) mp_keys"

text \<open>A chain whose state is the list of the renounced contracts.\<close>

definition owned_env :: "contract_ref list env" where
  "owned_env = \<lparr>
     deploy = (\<lambda>a args ch. (Inl (Error ''not used''), ch)),
     call = (\<lambda>c m args ch. if m = ''owner'' then (Inr (Str (if c \<in> set ch then ZERO_ADDRESS else ''0xdeployer'')), ch)
       else if m \<in> set setter_methods then (Inr (Obj [(''hash'', Str ''0xab'')]), c # ch) else (Inr Undefined, ch)),
     service = (\<lambda>s args ch. (Inr (Obj []), ch)),
     random = (\<lambda>lo hi ch. (''1'', ch)), to_BN = (\<lambda>v. Inl TypeError), toWei = (\<lambda>s u. Inr s),
     toHex = (\<lambda>v. Inl TypeError), asciiToHex = (\<lambda>s. s), sha3 = (\<lambda>s. s), tx_hash = (\<lambda>c. Null)\<rparr>"

definition owned_world :: "contract_ref list world" where
  "owned_world = \<lparr>chain = [at_address ''activePool'' ''0xactivePool''], trace = [], latestRandomSeed = initialRandomSeed\<rparr>"

definition sample_config :: config where
  "sample_config = \<lparr>OUTPUT_FILE = ''out.json'', TX_CONFIRMATIONS = Num 1, GAS_PRICE = Num 1000,
     ASDFGSCAN_BASE_URL = Str [], externalAddrs = [], moneypAddrs = [], beneficiaries = []\<rparr>"

lemma sample_complete:
  "all_present core_keys sample_core" "all_present main_keys sample_core" "all_present mp_keys sample_mp"
  by (simp_all add: all_present_def sample_core_def sample_mp_def core_keys_def main_keys_def mp_keys_def lookup_def)

lemma test_contracts_wired_witness:
  "calls_in_order
     (map (setter_call sample_core sample_mp [])
        (sortedVaults_setter # functionCaller_setters @ core_setters ''priceFeedTestnet'' @ mp_setters))
     (seqM [connectCoreContracts sample_env sample_core sample_mp, connectMPContracts sample_env sample_mp,
        connectMPContractsToCore sample_env sample_mp sample_core])"
  by (rule test_contracts_wired [OF sample_complete(1) sample_complete(3)])

lemma ownable_owned_env: "ownable owned_env set"
proof -
  have "''0xdeployer'' \<noteq> ZERO_ADDRESS" by (simp add: ZERO_ADDRESS_def zeros_def numeral_eq_Suc)
  then show ?thesis by (auto simp: ownable_def owned_env_def setter_methods_def)
qed

lemma connect_at_owned:
  "m \<in> set setter_methods \<Longrightarrow> \<exists>w'. connect_at owned_env cfg c m (Inr as) w = (Inr (), w')"
  by (auto simp: connect_at_def isOwnershipRenounced_def sendAndWaitForTransaction_def callM_def serviceM_def
      getM_def liftM_def bindM_def retM_def owned_env_def setter_methods_def lookup_def)

lemma connect_all_owned:
  "\<forall>(c, m, as) \<in> set xs. m \<in> set setter_methods \<Longrightarrow> \<exists>w'. connect_all owned_env cfg xs w = (Inr (), w')"
proof (induction xs arbitrary: w)
  case Nil
  show ?case by (simp add: connect_all_def seqM_def retM_def)
next
  case (Cons x xs)
  obtain c m as where x: "x = (c, m, as)" by (cases x)
  with Cons.prems obtain w1 where w1: "connect_at owned_env cfg c m (Inr as) w = (Inr (), w1)"
    using connect_at_owned by fastforce
  obtain w' where "connect_all owned_env cfg xs w1 = (Inr (), w')" using Cons by fastforce
  then have "connect_all owned_env cfg (x # xs) w = (Inr (), w')"
    using w1 by (auto simp: connect_all_def seqM_def x bindM_Inr)
  then show ?case by blast
qed

lemma sample_roles:
  "map fst (main_triples sample_core sample_mp addrs) =
   map (\<lambda>k. at_address k (''0x'' @ k))
     [''priceFeed'', ''sortedVaults'', ''vaultManager'', ''borrowerOperations'', ''stabilityPool'', ''activePool'',
      ''defaultPool'', ''collSurplusPool'', ''hintHelpers'', ''lockupContractFactory'', ''mpStaking'',
      ''communityIssuance'']"
  by (simp add: main_triples_def triple_def role_def sortedVaults_setter_def core_setters_def mp_setters_def
      sample_core_def sample_mp_def core_keys_def mp_keys_def lookup_def)

text \<open>One contract was connected before: the others are.\<close>

lemma main_connection_idempotent_witness:
  "\<exists>w' es. seqM [connectCoreContractsMainnet owned_env sample_config sample_core sample_mp [Str ''0xo''],
        connectMPContractsMainnet owned_env sample_config sample_mp,
        connectMPContractsToCoreMainnet owned_env sample_config sample_mp sample_core] owned_world = (Inr (), w') \<and>
     trace w' = trace owned_world @ es \<and> length (filter is_setter es) = 11"
proof -
  let ?xs = "main_triples sample_core sample_mp [Str ''0xo'']"
  obtain w' where run: "seqM [connectCoreContractsMainnet owned_env sample_config sample_core sample_mp [Str ''0xo''],
        connectMPContractsMainnet owned_env sample_config sample_mp,
        connectMPContractsToCoreMainnet owned_env sample_config sample_mp sample_core] owned_world = (Inr (), w')"
    using connect_all_owned [OF main_triples_setters] main_connection_is_list [OF sample_complete(2,3)] by metis
  have dist: "distinct (map fst ?xs)" unfolding sample_roles by (simp add: at_address_def)
  obtain es where es: "trace w' = trace owned_world @ es"
    "filter is_setter es = map (\<lambda>(c, m, as). Called c m (as @ [gas_option sample_config]))
       (filter (\<lambda>x. fst x \<notin> set (chain owned_world)) ?xs)"
    using main_connection_idempotent [OF sample_complete(2,3) ownable_owned_env dist run] by blast
  have "length (filter (\<lambda>x. fst x \<notin> set (chain owned_world)) ?xs) =
      length (filter (\<lambda>c. c \<notin> set (chain owned_world)) (map fst ?xs))"
    by (simp add: filter_map o_def)
  also have "\<dots> = 11" unfolding sample_roles by (simp add: owned_world_def at_address_def)
  finally show ?thesis using run es by auto
qed

text \<open>
  The script for the main network passes a list of one oracle, but the price feed accepts only lists of two
  (\<open>PriceFeed.setAddresses\<close> requires the length of its array): the connection of a fresh deployment fails.
\<close>

lemma single_oracle_fails:
  assumes "lookup cs ''priceFeed'' = Some pf" "ownable env R" "pf \<notin> R (chain w)"
    and "\<And>as opts ch. length as \<noteq> 2 \<Longrightarrow> \<exists>e ch'. call env pf ''setAddresses'' [Arr as, opts] ch = (Inl e, ch')"
  shows "\<exists>e w'. connectCoreContractsMainnet env cfg cs mp [oracle] w = (Inl e, w')"
proof -
  obtain own ch where own: "call env pf ''owner'' [] (chain w) = (Inr own, ch)" "own \<noteq> Str ZERO_ADDRESS"
    using ownable_owner [OF assms(2)] assms(3) by metis
  obtain e ch' where "call env pf ''setAddresses'' [Arr [oracle], gas_option cfg] ch = (Inl e, ch')"
    using assms(4) [of "[oracle]"] by fastforce
  with own assms(1) show ?thesis
    by (auto simp: connectCoreContractsMainnet_def seqM_def connect_def con_def connect_at_def
        isOwnershipRenounced_def sendAndWaitForTransaction_def callM_def bindM_def retM_def split: prod.splits)
qed

end
