(* ===== verification/Mainnet_Laws.thy ===== *)
theory Mainnet_Laws
  imports Wiring
begin

text \<open>
  What the deployment to a network promises when it is interrupted and run again: nothing that the saved
  state records is deployed again, and after an interruption the saved state lists everything that was
  deployed, except perhaps the contract that was being awaited.
\<close>

section \<open>Deployments and saved states of a trace\<close>

definition names :: "deployment_state \<Rightarrow> string set" where
  "names st = {n. recorded st n}"

text \<open>The names with an address in a saved object.\<close>

definition json_recorded :: "(string \<times> js) list \<Rightarrow> string \<Rightarrow> bool" where
  "json_recorded ps n = (case lookup ps n of
      Some v \<Rightarrow> (case get_prop v ''address'' of Inr (Str a) \<Rightarrow> a \<noteq> [] | _ \<Rightarrow> False)
    | None \<Rightarrow> False)"

fun deployed_event :: "event \<Rightarrow> string option" where
  "deployed_event (Deployed a args c) = Some a"
| "deployed_event _ = None"

definition deployed :: "event list \<Rightarrow> string list" where
  "deployed es = List.map_filter deployed_event es"

text \<open>The names in the file after the events, when \<open>N\<close> are in it before.\<close>

fun saved_names :: "string set \<Rightarrow> event list \<Rightarrow> string set" where
  "saved_names N [] = N"
| "saved_names N (Saved ps # es) = saved_names {n. json_recorded ps n} es"
| "saved_names N (_ # es) = saved_names N es"

text \<open>The steps that are still to be deployed.\<close>

fun new_steps :: "string set \<Rightarrow> (string \<times> string) list \<Rightarrow> (string \<times> string) list" where
  "new_steps N [] = []"
| "new_steps N ((n, a) # steps) =
     (if n \<in> N then new_steps N steps else (n, a) # new_steps (insert n N) steps)"

definition deploys ::
  "('a \<Rightarrow> deployment_state) \<Rightarrow> (string \<times> string) list \<Rightarrow> deployment_state \<Rightarrow> ('c, 'a) io \<Rightarrow> bool" where
  "deploys state steps st m \<longleftrightarrow> traces m (\<lambda>r es.
     let todo = new_steps (names st) steps in
     case r of
       Inr x \<Rightarrow> deployed es = map snd todo \<and> saved_names (names st) es = names st \<union> fst ` set todo \<and>
                names (state x) = names st \<union> fst ` set todo
     | Inl e \<Rightarrow> (\<exists>k \<le> length todo. deployed es = map snd (take k todo) \<and>
                 (saved_names (names st) es = names st \<union> fst ` set (take k todo) \<or>
                  saved_names (names st) es = names st \<union> fst ` set (take (k - 1) todo))))"

lemma deployed_simps [simp]:
  "deployed [] = []" "deployed (es @ es') = deployed es @ deployed es'"
  "deployed (e # es) = (case deployed_event e of None \<Rightarrow> deployed es | Some a \<Rightarrow> a # deployed es)"
  by (simp_all add: deployed_def List.map_filter_def split: option.split)

lemma saved_names_append [simp]: "saved_names N (es @ es') = saved_names (saved_names N es) es'"
  by (induction N es rule: saved_names.induct) simp_all

lemma fst_new_steps: "N \<union> fst ` set (new_steps N steps) = N \<union> fst ` set steps"
  by (induction N steps rule: new_steps.induct) auto

lemma new_steps_append:
  "new_steps N (xs @ ys) = new_steps N xs @ new_steps (N \<union> fst ` set (new_steps N xs)) ys"
  by (induction N xs rule: new_steps.induct) auto

lemma lookup_state_json: "lookup (state_json st) n = map_option entry_json (lookup st n)"
  by (induction st) (auto simp: state_json_def lookup_def)

lemma entry_json_address: "get_prop (entry_json e) ''address'' = Inr (Str (entry_address e))"
  by (simp add: entry_json_def lookup_def)

lemma json_recorded_state [simp]: "{n. json_recorded (state_json st) n} = names st"
  by (auto simp: json_recorded_def lookup_state_json names_def recorded_def entry_json_address
      split: option.splits)

lemma names_set_prop:
  "entry_address e \<noteq> [] \<Longrightarrow> names (set_prop st n e) = insert n (names st)"
  by (auto simp: names_def recorded_def lookup_set_prop split: if_splits)

section \<open>Composition\<close>

text \<open>Code that neither deploys nor saves.\<close>

definition silent :: "('c, 'a) io \<Rightarrow> bool" where
  "silent m \<longleftrightarrow> traces m (\<lambda>r es. deployed es = [] \<and> (\<forall>N. saved_names N es = N))"

lemma silent_bindM:
  assumes "silent m" "\<And>x. silent (f x)"
  shows "silent (bindM m f)"
  unfolding silent_def by (rule traces_bindM [OF assms [unfolded silent_def]]) auto

lemma silent_simple:
  "silent (retM x)" "silent (failM e)" "silent (liftM r)" "silent (logM ps)"
  "silent (serviceM env s args)" "silent (callM env c m args)"
  by (auto simp: silent_def traces_retM traces_failM traces_liftM logM_def
      intro!: traces_record traces_serviceM traces_callM)

lemma silent_mapM: "(\<And>x. silent (f x)) \<Longrightarrow> silent (mapM f xs)"
  by (induction xs) (auto intro!: silent_bindM silent_simple)

lemma silent_forM: "(\<And>x. silent (f x)) \<Longrightarrow> silent (forM xs f)"
  by (simp add: forM_def silent_bindM silent_mapM silent_simple)

lemma deploys_silent_bindM:
  assumes "silent m" "\<And>x. deploys state steps st (f x)"
  shows "deploys state steps st (bindM m f)"
  unfolding deploys_def
  by (rule traces_bindM [OF assms [unfolded silent_def deploys_def]])
     (auto simp: Let_def split: sum.splits intro: exI [of _ 0])

lemma deploys_bindM:
  assumes m: "deploys state xs st m" and f: "\<And>x. deploys state' ys (state x) (f x)"
  shows "deploys state' (xs @ ys) st (bindM m f)"
  unfolding deploys_def
proof (rule traces_bindM [OF m [unfolded deploys_def] f [unfolded deploys_def]], goal_cases)
  case (1 e es)
  let ?new = "new_steps (names st) xs"
  from 1 obtain k where k: "k \<le> length ?new" "deployed es = map snd (take k ?new)"
    "saved_names (names st) es = names st \<union> fst ` set (take k ?new) \<or>
     saved_names (names st) es = names st \<union> fst ` set (take (k - 1) ?new)"
    by (auto simp: Let_def)
  then show ?case by (auto simp: Let_def new_steps_append intro!: exI [of _ k])
next
  case (2 x es r es')
  let ?new = "new_steps (names st) xs"
  from 2 have x: "deployed es = map snd ?new" "saved_names (names st) es = names (state x)"
    "names (state x) = names st \<union> fst ` set ?new"
    by (auto simp: Let_def)
  let ?rest = "new_steps (names (state x)) ys"
  have app: "new_steps (names st) (xs @ ys) = ?new @ ?rest" by (simp add: new_steps_append x)
  show ?case
  proof (cases r)
    case (Inl e)
    with 2 obtain k where k: "k \<le> length ?rest" "deployed es' = map snd (take k ?rest)"
      "saved_names (names (state x)) es' = names (state x) \<union> fst ` set (take k ?rest) \<or>
       saved_names (names (state x)) es' = names (state x) \<union> fst ` set (take (k - 1) ?rest)"
      by (auto simp: Let_def)
    let ?k = "length ?new + k"
    have "take ?k (?new @ ?rest) = ?new @ take k ?rest" by simp
    moreover have "take (?k - 1) (?new @ ?rest) = ?new @ take (k - 1) ?rest" if "0 < k" using that by simp
    ultimately have "saved_names (names st) (es @ es') = names st \<union> fst ` set (take ?k (?new @ ?rest)) \<or>
      saved_names (names st) (es @ es') = names st \<union> fst ` set (take (?k - 1) (?new @ ?rest))"
      using k(3) x by (cases "k = 0") (simp_all add: image_Un Un_assoc)
    moreover have "deployed (es @ es') = map snd (take ?k (?new @ ?rest))" using k(2) x by simp
    moreover have "?k \<le> length (?new @ ?rest)" using k(1) by simp
    ultimately show ?thesis unfolding Inl app Let_def sum.case by blast
  next
    case (Inr y)
    with 2 x app show ?thesis by (auto simp: Let_def)
  qed
qed

lemma deploys_retM: "state x = st \<Longrightarrow> deploys state [] st (retM x)"
  unfolding deploys_def by (rule traces_retM) simp

lemma deploys_final:
  assumes "deploys state steps st m" "\<And>x. state' (f x) = state x"
  shows "deploys state' steps st (bindM m (\<lambda>x. retM (f x)))"
  using deploys_bindM [OF assms(1), of state' "[]" "\<lambda>x. retM (f x)"] assms(2)
  by (simp add: deploys_retM)

section \<open>The deployments\<close>

text \<open>A deployed contract has an address.\<close>

definition valid_deploy :: "'c env \<Rightarrow> bool" where
  "valid_deploy env \<longleftrightarrow> (\<forall>a args ch c ch'. deploy env a args ch = (Inr c, ch') \<longrightarrow> address c \<noteq> [])"

lemma valid_deployD: "valid_deploy env \<Longrightarrow> deploy env a args ch = (Inr c, ch') \<Longrightarrow> address c \<noteq> []"
  unfolding valid_deploy_def by blast

lemma traces_did: "traces (serviceM env s args) (\<lambda>r es. es = [Did s args])"
  by (rule traces_serviceM) simp

lemma deploys_deploy_and_save:
  assumes "valid_deploy env" "\<not> recorded st n"
  shows "deploys snd [(n, a)] st (deploy_and_save env cfg a n params st)"
proof -
  have "traces (deployM env a args) (\<lambda>r es. case r of
      Inr c \<Rightarrow> address c \<noteq> [] \<and> es = [Deployed a args c] | Inl _ \<Rightarrow> es = [])" for args
    using valid_deployD [OF assms(1)] by (fastforce simp: traces_def deployM_def split: prod.split sum.split)
  note dep = this [of "params @ [gas_option cfg]"]
  have n: "n \<notin> names st" using assms(2) by (simp add: names_def)
  have fin: "traces (bindM (saveDeployment st') (\<lambda>_. retM (c, st')))
      (\<lambda>r es. r = Inr (c, st') \<and> es = [Saved (state_json st')])" for c st'
    by (simp add: traces_def saveDeployment_def record_event_def bindM_def retM_def)
  let ?st' = "\<lambda>c. set_prop st n \<lparr>entry_address = address c, entry_txHash = tx_hash env c, entry_verification = None\<rparr>"
  let ?rest = "\<lambda>c. bindM (serviceM env ''waitForTransaction'' [tx_hash env c, TX_CONFIRMATIONS cfg]) (\<lambda>_.
      bindM (saveDeployment (?st' c)) (\<lambda>_. retM (c, ?st' c)))"
  have rest: "traces (?rest c) (\<lambda>r es. case r of
      Inl _ \<Rightarrow> (\<exists>s args. es = [Did s args])
    | Inr x \<Rightarrow> x = (c, ?st' c) \<and> (\<exists>s args. es = [Did s args, Saved (state_json (?st' c))]))" for c
    by (rule traces_bindM [OF traces_did fin]) (auto split: sum.splits)
  have "deploys snd [(n, a)] st (bindM (deployM env a (params @ [gas_option cfg])) ?rest)"
    unfolding deploys_def
    by (rule traces_bindM [OF dep rest])
      (use n in \<open>auto simp: Let_def names_set_prop split: sum.splits intro: exI [of _ "Suc 0"]\<close>)
  then show ?thesis
    unfolding deploy_and_save_def Let_def by (rule deploys_silent_bindM [OF silent_simple(4)])
qed

lemma deploys_loadOrDeploy:
  assumes "valid_deploy env"
  shows "deploys snd [(n, a)] st (loadOrDeploy env cfg a n params st)"
proof (cases "recorded st n")
  case True
  then obtain e where e: "lookup st n = Some e" "entry_address e \<noteq> []"
    by (auto simp: recorded_def split: option.splits)
  have "deploys snd [(n, a)] st (retM (\<lparr>artifact = a, address = entry_address e\<rparr>, st))"
    unfolding deploys_def
    by (rule traces_retM) (use True in \<open>auto simp: Let_def names_def\<close>)
  with e show ?thesis
    by (auto simp: loadOrDeploy_def intro!: deploys_silent_bindM silent_simple)
next
  case False
  then have "loadOrDeploy env cfg a n params st = deploy_and_save env cfg a n params st"
    by (auto simp: loadOrDeploy_def recorded_def split: option.splits)
  with deploys_deploy_and_save [OF assms False] show ?thesis by simp
qed

lemma deploys_load_all:
  assumes "valid_deploy env"
  shows "deploys snd steps st (load_all env cfg steps st)"
proof (induction steps arbitrary: st)
  case Nil
  show ?case by (simp add: deploys_retM)
next
  case (Cons s steps)
  obtain n a where s: "s = (n, a)" by fastforce
  have "deploys snd ([(n, a)] @ steps) st
    (bindM (loadOrDeploy env cfg a n [] st) (\<lambda>x. bindM (load_all env cfg steps (snd x))
       (\<lambda>y. retM ((n, fst x) # fst y, snd y))))"
    by (rule deploys_bindM [OF deploys_loadOrDeploy [OF assms]], rule deploys_final [OF Cons.IH]) simp
  then show ?case by (simp add: s case_prod_unfold)
qed

lemma deploys_verifyContract: "deploys id [] st (verifyContract env cfg n args st)"
proof -
  have ret: "deploys id [] st (retM st)" by (simp add: deploys_retM)
  have quiet: "deploys id [] st (bindM (logM ps) (\<lambda>_. retM st))"
    "deploys id [] st (bindM (logM ps) (\<lambda>_. bindM (logM qs) (\<lambda>_. retM st)))" for ps qs
    by (intro deploys_silent_bindM silent_simple ret)+
  have save: "deploys id [] st (bindM (saveDeployment st') (\<lambda>_. retM st'))"
    if "names st' = names st" for st'
    using that by (simp add: deploys_def traces_def saveDeployment_def record_event_def bindM_def retM_def)
  have attempt: "deploys id [] st (tryM (serviceM env s as) f g)"
    if f: "\<And>x. deploys id [] st (f x)" and g: "\<And>e. deploys id [] st (g e)" for s as f g
    unfolding deploys_def
    by (rule traces_tryM [OF traces_did f [unfolded deploys_def] g [unfolded deploys_def]])
       (auto split: sum.splits)
  show ?thesis
  proof (cases "lookup st n")
    case None
    then show ?thesis by (simp add: verifyContract_def quiet)
  next
    case (Some e)
    show ?thesis
    proof (cases "entry_address e = [] \<or> (\<exists>v. entry_verification e = Some v \<and> v \<noteq> [])")
      case True
      with Some show ?thesis by (auto simp: verifyContract_def quiet split: option.splits)
    next
      case False
      then have same: "names (set_prop st n (e\<lparr>entry_verification := v\<rparr>)) = names st" for v
        using Some by (auto simp: names_def recorded_def lookup_set_prop)
      from False Some show ?thesis
        by (auto simp: verifyContract_def Let_def split: option.split
            intro!: attempt save quiet same)
    qed
  qed
qed

lemma deploys_verify: "deploys id [] st (verify_if_configured env cfg steps st)"
proof -
  have "deploys id [] st (verify_all env cfg steps st)"
  proof (induction steps arbitrary: st)
    case Nil
    show ?case by (simp add: deploys_retM)
  next
    case (Cons s steps)
    obtain n args where s: "s = (n, args)" by fastforce
    have "deploys id ([] @ []) st (bindM (verifyContract env cfg n args st) (\<lambda>st'. verify_all env cfg steps st'))"
      by (rule deploys_bindM [OF deploys_verifyContract]) (simp add: Cons.IH)
    then show ?case by (simp only: s verify_all.simps append_Nil)
  qed
  then show ?thesis
    by (simp add: verify_if_configured_def deploys_silent_bindM silent_simple deploys_retM)
qed

lemma deploys_bindM_keep:
  assumes "deploys state steps st m" "\<And>x. deploys state' [] (state x) (f x)"
  shows "deploys state' steps st (bindM m f)"
  using deploys_bindM [OF assms] by simp

text \<open>Deploying, verifying and returning what \<open>g\<close> makes of the contract.\<close>

lemma deploys_load_and_verify:
  assumes "valid_deploy env"
  shows "deploys snd [(n, a)] st (bindM (loadOrDeploy env cfg a n params st) (\<lambda>(c, st1).
    bindM (verify_if_configured env cfg steps st1) (\<lambda>st2. retM (g c, st2))))"
  by (rule deploys_bindM_keep [OF deploys_loadOrDeploy [OF assms]])
     (auto simp: case_prod_unfold intro!: deploys_bindM_keep [OF deploys_verify] deploys_retM)

lemma silent_getFactory: "silent (getFactory env a)"
  by (simp add: getFactory_def silent_simple)

lemma deploys_with_token:
  assumes "valid_deploy env"
  shows "deploys snd (steps @ [(n, a)]) st (bindM (forM fs (getFactory env)) (\<lambda>_.
    bindM (load_all env cfg steps st) (\<lambda>(cs, st1). bindM (liftM (args cs)) (\<lambda>as.
    bindM (loadOrDeploy env cfg a n as st1) (\<lambda>(c, st2).
    bindM (verify_if_configured env cfg (vs as) st2) (\<lambda>st3. retM (g cs c, st3)))))))"
  by (rule deploys_silent_bindM, rule silent_forM, rule silent_getFactory,
      rule deploys_bindM [OF deploys_load_all [OF assms]])
     (auto simp: case_prod_unfold
        intro!: deploys_silent_bindM silent_simple deploys_load_and_verify [OF assms, unfolded case_prod_unfold])

text \<open>
  C3. Interrupted deployments can be resumed. Whatever the chain does and wherever the script fails, the
  contracts deployed are exactly the first ones, in order, of those that the loaded state does not
  record; after a failure the file records, besides what it recorded before, all of them or all
  but the last, which was deployed but not confirmed; without a failure it records everything. So
  a later run, which starts from the file, deploys none of the recorded contracts again. This holds
  for the core contracts, the MP contracts, the swap pool and the getter of the main network.
\<close>

theorem interrupted_deployment_resumable:
  assumes "valid_deploy env"
  shows "deploys snd (main_steps @ [(''bpdToken'', ''BPDToken'')]) st (deployMoneypCoreMainnet env cfg st) \<and>
    deploys snd [(''mpStaking'', ''MPStaking''), (''lockupContractFactory'', ''LockupContractFactory''),
                 (''communityIssuance'', ''CommunityIssuance''), (''mpToken'', ''MPToken'')] st
      (deployMPContractsMainnet env cfg bounty lpRewards multisig st) \<and>
    deploys snd [(''rskSwapPool'', ''RskSwapPool'')] st (deployRskSwapPoolMainnet env cfg st) \<and>
    deploys snd [(''multiVaultGetter'', ''MultiVaultGetter'')] st (deployMultiVaultGetterMainnet env cfg cs st)"
proof (intro conjI)
  show "deploys snd (main_steps @ [(''bpdToken'', ''BPDToken'')]) st (deployMoneypCoreMainnet env cfg st)"
    unfolding deployMoneypCoreMainnet_def by (rule deploys_with_token [OF assms])
  show "deploys snd [(''mpStaking'', ''MPStaking''), (''lockupContractFactory'', ''LockupContractFactory''),
          (''communityIssuance'', ''CommunityIssuance''), (''mpToken'', ''MPToken'')] st
      (deployMPContractsMainnet env cfg bounty lpRewards multisig st)"
    unfolding deployMPContractsMainnet_def
    using deploys_with_token [OF assms, where steps = "[(''mpStaking'', ''MPStaking''),
      (''lockupContractFactory'', ''LockupContractFactory''), (''communityIssuance'', ''CommunityIssuance'')]"
      and n = "''mpToken''" and a = "''MPToken''"] by simp
  show "deploys snd [(''rskSwapPool'', ''RskSwapPool'')] st (deployRskSwapPoolMainnet env cfg st)"
    unfolding deployRskSwapPoolMainnet_def
    by (intro deploys_silent_bindM silent_getFactory deploys_load_and_verify assms)
  show "deploys snd [(''multiVaultGetter'', ''MultiVaultGetter'')] st (deployMultiVaultGetterMainnet env cfg cs st)"
    unfolding deployMultiVaultGetterMainnet_def
    by (intro deploys_silent_bindM silent_getFactory silent_simple deploys_load_and_verify assms)
qed

lemma interrupted_deployment_resumable_witness:
  "deploys snd (main_steps @ [(''bpdToken'', ''BPDToken'')])
     [(''priceFeed'', \<lparr>entry_address = ''0xp'', entry_txHash = Null, entry_verification = None\<rparr>)]
     (deployMoneypCoreMainnet sample_env sample_config
       [(''priceFeed'', \<lparr>entry_address = ''0xp'', entry_txHash = Null, entry_verification = None\<rparr>)])"
proof -
  have "valid_deploy sample_env" by (auto simp: valid_deploy_def)
  from interrupted_deployment_resumable [OF this] show ?thesis by blast
qed

section \<open>What is returned is what is recorded\<close>

definition addr_of :: "deployment_state \<Rightarrow> string \<Rightarrow> string option" where
  "addr_of st n = map_option entry_address (lookup st n)"

lemma addr_of_set_prop: "addr_of (set_prop st n e) = (addr_of st)(n \<mapsto> entry_address e)"
  by (auto simp: addr_of_def lookup_set_prop)

lemma deploy_and_save_Inr:
  "deploy_and_save env cfg a n params st w = (Inr (c, st'), w') \<Longrightarrow> addr_of st' = (addr_of st)(n \<mapsto> address c)"
  by (auto simp: deploy_and_save_def Let_def bindM_Inr retM_def addr_of_set_prop)

lemma loadOrDeploy_Inr:
  "loadOrDeploy env cfg a n params st w = (Inr (c, st'), w') \<Longrightarrow> addr_of st' = (addr_of st)(n \<mapsto> address c)"
  by (auto simp: loadOrDeploy_def bindM_Inr retM_def addr_of_def deploy_and_save_Inr fun_upd_idem
      split: option.splits if_splits)

lemma load_all_Inr:
  assumes "load_all env cfg steps st w = (Inr (cs, st'), w')" "distinct (map fst steps)"
  shows "map fst cs = map fst steps \<and> (\<forall>(k, c) \<in> set cs. addr_of st' k = Some (address c)) \<and>
    (\<forall>n. n \<notin> fst ` set steps \<longrightarrow> addr_of st' n = addr_of st n)"
  using assms
proof (induction steps arbitrary: st w cs)
  case Nil
  then show ?case by (simp add: retM_def)
next
  case (Cons s steps)
  obtain n a where s: "s = (n, a)" by fastforce
  from Cons.prems(1) obtain c st1 w1 cs' where
    one: "loadOrDeploy env cfg a n [] st w = (Inr (c, st1), w1)" and
    rest: "load_all env cfg steps st1 w1 = (Inr (cs', st'), w')" and cs: "cs = (n, c) # cs'"
    by (auto simp: s bindM_Inr retM_def)
  have dist: "n \<notin> fst ` set steps" "distinct (map fst steps)" using Cons.prems(2) by (auto simp: s)
  note rec = Cons.IH [OF rest dist(2)]
  have "addr_of st' n = Some (address c)" using rec dist(1) loadOrDeploy_Inr [OF one] by simp
  moreover have "addr_of st' k = addr_of st k" if "k \<notin> fst ` set (s # steps)" for k
    using that rec loadOrDeploy_Inr [OF one] by (simp add: s)
  ultimately show ?case using rec by (auto simp: cs s)
qed

lemma verifyContract_Inr: "verifyContract env cfg n args st w = (Inr st', w') \<Longrightarrow> addr_of st' = addr_of st"
  by (auto simp: verifyContract_def Let_def tryM_def bindM_Inr retM_def addr_of_set_prop addr_of_def fun_upd_idem
      split: option.splits if_splits prod.splits sum.splits)

lemma verify_all_Inr: "verify_all env cfg steps st w = (Inr st', w') \<Longrightarrow> addr_of st' = addr_of st"
proof (induction steps arbitrary: st w)
  case Nil
  then show ?case by (simp add: retM_def)
next
  case (Cons s steps)
  then show ?case by (cases s) (auto simp: bindM_Inr dest: verifyContract_Inr)
qed

lemma verify_if_configured_Inr:
  "verify_if_configured env cfg steps st w = (Inr st', w') \<Longrightarrow> addr_of st' = addr_of st"
  by (auto simp: verify_if_configured_def bindM_Inr retM_def verify_all_Inr split: if_splits)

lemma pick_simps [simp]:
  "pick cs [] = []"
  "pick cs (k # ks) = (case lookup cs k of None \<Rightarrow> pick cs ks | Some c \<Rightarrow> (k, c) # pick cs ks)"
  by (simp_all add: pick_def List.map_filter_def split: option.split)

lemma lookup_pick: "lookup (pick cs ks) k = (if k \<in> set ks then lookup cs k else None)"
  by (induction ks) (auto simp: lookup_def split: option.split)

text \<open>
  After a successful deployment of the core contracts the returned object has a contract for every name, and
  the deployment state records exactly its address under that name, whether the contract was
  deployed in this run or loaded from the file; other entries keep their addresses.
\<close>

lemma mainnet_core_recorded:
  assumes "deployMoneypCoreMainnet env cfg st w = (Inr (cs, st'), w')"
  shows "all_present main_keys cs \<and>
    (\<forall>k \<in> set main_keys. addr_of st' k = Some (address (the (lookup cs k)))) \<and>
    (\<forall>n. n \<notin> set main_keys \<longrightarrow> addr_of st' n = addr_of st n)"
proof -
  from assms obtain cs0 st1 w1 w2 params b st2 w3 w4 where
    load: "load_all env cfg main_steps st w1 = (Inr (cs0, st1), w2)" and
    token: "loadOrDeploy env cfg ''BPDToken'' ''bpdToken'' params st1 w3 = (Inr (b, st2), w4)" and
    ver: "addr_of st' = addr_of st2" and
    cs: "cs = pick (cs0 @ [(''bpdToken'', b)]) main_keys"
    by (auto simp: deployMoneypCoreMainnet_def bindM_Inr retM_def liftM_def dest!: verify_if_configured_Inr)
  have keys: "set main_keys = insert ''bpdToken'' (fst ` set main_steps)" "''bpdToken'' \<notin> fst ` set main_steps"
    by (auto simp: main_keys_def main_steps_def)
  have "distinct (map fst main_steps)" by (simp add: main_steps_def)
  note loaded = load_all_Inr [OF load this]
  have addr: "addr_of st' = (addr_of st1)(''bpdToken'' \<mapsto> address b)"
    using loadOrDeploy_Inr [OF token] ver by simp
  have cs0: "lookup cs0 k \<noteq> None \<and> addr_of st1 k = Some (address (the (lookup cs0 k)))"
    if "k \<in> fst ` set main_steps" for k
  proof -
    have "k \<in> set (map fst cs0)" using that loaded by (metis list.set_map)
    then obtain c where "lookup cs0 k = Some c" by (auto simp: lookup_def dest: weak_map_of_SomeI)
    moreover from this have "(k, c) \<in> set cs0" by (simp add: lookup_def map_of_SomeD)
    ultimately show ?thesis using loaded by auto
  qed
  have nob: "lookup cs0 ''bpdToken'' = None"
    using loaded keys(2) by (metis (no_types, lifting) list.set_map lookup_def map_of_eq_None_iff)
  have app: "lookup (cs0 @ [(''bpdToken'', b)]) k = (case lookup cs0 k of None \<Rightarrow> (if k = ''bpdToken'' then Some b else None) | Some c \<Rightarrow> Some c)" for k
    by (simp add: lookup_def map_add_def split: option.split)
  have all: "lookup cs k \<noteq> None \<and> addr_of st' k = Some (address (the (lookup cs k)))" if "k \<in> set main_keys" for k
  proof (cases "k = ''bpdToken''")
    case True
    with that nob show ?thesis by (simp add: cs lookup_pick app addr)
  next
    case False
    with that keys(1) have "k \<in> fst ` set main_steps" by blast
    with that False cs0 [of k] show ?thesis by (auto simp: cs lookup_pick app addr split: option.split)
  qed
  moreover have "addr_of st' n = addr_of st n" if "n \<notin> set main_keys" for n
    using that loaded keys by (simp add: addr)
  ultimately show ?thesis by (simp add: all_present_def)
qed

text \<open>In the sample world every deployment succeeds.\<close>

lemma loadOrDeploy_sample: "\<exists>c st' w'. loadOrDeploy sample_env cfg a n ps st w = (Inr (c, st'), w')"
  by (auto simp: loadOrDeploy_def deploy_and_save_def Let_def bindM_def retM_def logM_def record_event_def
      deployM_def serviceM_def saveDeployment_def split: option.split)

lemma load_all_sample: "\<exists>cs st' w'. load_all sample_env cfg steps st w = (Inr (cs, st'), w')"
proof (induction steps arbitrary: st w)
  case Nil
  show ?case by (simp add: retM_def)
next
  case (Cons s steps)
  obtain n a where s: "s = (n, a)" by fastforce
  obtain c st1 w1 where "loadOrDeploy sample_env cfg a n [] st w = (Inr (c, st1), w1)"
    using loadOrDeploy_sample by blast
  moreover obtain cs st2 w2 where "load_all sample_env cfg steps st1 w1 = (Inr (cs, st2), w2)"
    using Cons by blast
  ultimately show ?case by (simp add: s bindM_def retM_def)
qed

lemma mainnet_core_recorded_witness:
  "\<exists>cs st' w'. deployMoneypCoreMainnet sample_env sample_config [] sample_world = (Inr (cs, st'), w') \<and>
     all_present main_keys cs \<and> addr_of st' ''bpdToken'' = Some (address (the (lookup cs ''bpdToken'')))"
proof -
  have "\<exists>w'. forM (map snd main_steps @ [''BPDToken'']) (getFactory sample_env) w = (Inr (), w')" for w
    by (simp add: main_steps_def forM_def getFactory_def bindM_def retM_def serviceM_def)
  then obtain w1 where fs: "forM (map snd main_steps @ [''BPDToken'']) (getFactory sample_env) sample_world = (Inr (), w1)"
    by blast
  obtain cs0 st1 w2 where load: "load_all sample_env sample_config main_steps [] w1 = (Inr (cs0, st1), w2)"
    using load_all_sample by blast
  have "distinct (map fst main_steps)" by (simp add: main_steps_def)
  from load_all_Inr [OF load this] have "set (map fst cs0) = set (map fst main_steps)" by simp
  then have "all_present [''vaultManager'', ''stabilityPool'', ''borrowerOperations''] cs0"
    by (auto simp: all_present_def lookup_def main_steps_def map_of_eq_None_iff)
  then obtain ps where ps: "token_args cs0 = Inr ps"
    by (simp add: token_args_def all_present_def addresses_found)
  obtain b st2 w3 where token: "loadOrDeploy sample_env sample_config ''BPDToken'' ''bpdToken'' ps st1 w2 = (Inr (b, st2), w3)"
    using loadOrDeploy_sample by blast
  have "\<exists>w4. verify_if_configured sample_env sample_config vs st2 w3 = (Inr st2, w4)" for vs
    by (simp add: verify_if_configured_def sample_config_def bindM_def retM_def logM_def record_event_def)
  then obtain cs st' w' where run: "deployMoneypCoreMainnet sample_env sample_config [] sample_world = (Inr (cs, st'), w')"
    using fs load ps token by (fastforce simp: deployMoneypCoreMainnet_def bindM_Inr retM_def liftM_def)
  from mainnet_core_recorded [OF run] have "all_present main_keys cs"
    and "\<forall>k \<in> set main_keys. addr_of st' k = Some (address (the (lookup cs k)))" by simp_all
  moreover have "''bpdToken'' \<in> set main_keys" by (simp add: main_keys_def)
  ultimately show ?thesis using run by blast
qed

end
