(* ===== verification/Mainnet_Deployment.thy ===== *)
theory Mainnet_Deployment
  imports Mainnet_Laws
begin

text \<open>
  \<open>packages/contracts/mainnetDeployment/mainnetDeployment.js\<close>: the script that deploys and connects the system on the
  main network and then exercises it, in the order of its statements. The statements are
  grouped by the comments of the script; what a group computes is passed on explicitly.
\<close>

section \<open>Helpers\<close>

text \<open>\<open>th.logBN(label, await c.m(..args))\<close>, and the same for an element of an array.\<close>

definition logBNM :: "string \<Rightarrow> js \<Rightarrow> ('c, unit) io" where
  "logBNM label v = bindM (liftM (js_text v)) (\<lambda>t. logM [Str (label @ '':''), Str (showBN t)])"

definition log_call :: "'c env \<Rightarrow> string \<Rightarrow> contract_ref \<Rightarrow> string \<Rightarrow> js list \<Rightarrow> ('c, unit) io" where
  "log_call env label c m args = bindM (callM env c m args) (logBNM label)"

definition log_index :: "string \<Rightarrow> js \<Rightarrow> nat \<Rightarrow> ('c, unit) io" where
  "log_index label v i = bindM (indexM v i) (logBNM label)"

definition squeezed :: "js \<Rightarrow> js result" where
  "squeezed v = bindE (asStr v) (\<lambda>s. Inr (Str (squeezeAddr s)))"

definition toLowerCase :: "js \<Rightarrow> string result" where
  "toLowerCase v = bindE (asStr v) (\<lambda>s. Inr (map lower_char s))"

text \<open>A contract instance bound to another wallet is marked in its artifact.\<close>

definition as_wallet :: "string \<Rightarrow> contract_ref \<Rightarrow> contract_ref" where
  "as_wallet w c = c\<lparr>artifact := artifact c @ '' as '' @ w\<rparr>"

definition send :: "'c env \<Rightarrow> config \<Rightarrow> contract_ref \<Rightarrow> string \<Rightarrow> js list \<Rightarrow> ('c, js) io" where
  "send env cfg c m args = sendAndWaitForTransaction env cfg (callM env c m args)"

definition gas_limit :: "config \<Rightarrow> int \<Rightarrow> js" where
  "gas_limit cfg n = Obj [(''gasPrice'', GAS_PRICE cfg), (''gasLimit'', Num n)]"

text \<open>What the groups of statements share.\<close>

record session =
  deployer :: string
  account2 :: string
  core :: contracts
  mp :: contracts
  swapPool :: contract_ref
  pairAddr :: js
  lockups :: contracts

definition coreC :: "session \<Rightarrow> string \<Rightarrow> ('c, contract_ref) io" where
  "coreC s k = liftM (con (core s) k)"

definition mpC :: "session \<Rightarrow> string \<Rightarrow> ('c, contract_ref) io" where
  "mpC s k = liftM (con (mp s) k)"

section \<open>Accounts and the Uniswap pair\<close>

definition signer_address :: "'c env \<Rightarrow> nat \<Rightarrow> ('c, string) io" where
  "signer_address env i =
     bindM (serviceM env ''getSigners'' []) (\<lambda>signers. bindM (indexM signers i) (\<lambda>w.
     bindM (getM w ''address'') (\<lambda>a. liftM (asStr a))))"

definition mainnet_start :: "'c env \<Rightarrow> config \<Rightarrow> ('c, string \<times> string \<times> deployment_state \<times> contract_ref) io" where
  "mainnet_start env cfg =
     bindM (serviceM env ''Date.toUTCString'' []) (\<lambda>date. bindM (logM [date]) (\<lambda>_.
     bindM (signer_address env 0) (\<lambda>dep. bindM (signer_address env 1) (\<lambda>acc2.
     bindM (loadPreviousDeployment env cfg) (\<lambda>st.
     bindM (logM [Str ''Deployer address: '', Str dep]) (\<lambda>_.
     bindM (assertM (Str dep = opt (moneypAddrs cfg) ''DEPLOYER'')) (\<lambda>_.
     bindM (logM [Str ''Account 2 address: '', Str acc2]) (\<lambda>_.
     bindM (assertM (Str acc2 = opt (beneficiaries cfg) ''ACCOUNT_2'')) (\<lambda>_.
     bindM (serviceM env ''getBalance'' [Str dep]) (\<lambda>balance.
     bindM (serviceM env ''formatEther'' [balance]) (\<lambda>t.
     bindM (logM [Str ''Deployer TRBTC Balance before deployments: '', t]) (\<lambda>_.
     bindM (liftM (asStr (opt (externalAddrs cfg) ''UNISWAP_V2_FACTORY''))) (\<lambda>fa.
     let factory = \<lparr>artifact = ''UniswapV2Factory'', address = fa\<rparr> in
     bindM (logM [Str ''Uniswp addr: '', Str fa]) (\<lambda>_.
     bindM (callM env factory ''allPairsLength'' []) (\<lambda>n.
     bindM (logM [Str ''Uniswap Factory number of pairs: '', n]) (\<lambda>_.
       retM (dep, acc2, st, factory)))))))))))))))))"

text \<open>The pair must have the same address in both directions; it is created when there is none.\<close>

definition mainnet_pair :: "'c env \<Rightarrow> config \<Rightarrow> contract_ref \<Rightarrow> contracts \<Rightarrow> ('c, js) io" where
  "mainnet_pair env cfg factory cs =
     bindM (liftM (con cs ''bpdToken'')) (\<lambda>token.
     let bpd = Str (address token); rbtc = opt (externalAddrs cfg) ''RBTC_ERC20'' in
     bindM (callM env factory ''getPair'' [bpd, rbtc]) (\<lambda>pair.
     bindM (callM env factory ''getPair'' [rbtc, bpd]) (\<lambda>pair'.
     bindM (assertM (pair = pair')) (\<lambda>_.
       if pair = Str ZERO_ADDRESS then
         bindM (send env cfg factory ''createPair'' [rbtc, bpd, gas_option cfg]) (\<lambda>_.
         bindM (callM env factory ''getPair'' [bpd, rbtc]) (\<lambda>pair.
         bindM (assertM (pair \<noteq> Str ZERO_ADDRESS)) (\<lambda>_.
         bindM (callM env factory ''getPair'' [rbtc, bpd]) (\<lambda>pair'.
         bindM (logM [Str ''BPD-WRBTC pair contract address after Uniswap pair creation: '', pair]) (\<lambda>_.
         bindM (assertM (pair' = pair)) (\<lambda>_. retM pair))))))
       else retM pair))))"

section \<open>Deploying and connecting\<close>

definition mainnet_contracts ::
  "'c env \<Rightarrow> config \<Rightarrow> contracts \<Rightarrow> js \<Rightarrow> deployment_state \<Rightarrow>
     ('c, (contract_ref \<times> contracts) \<times> deployment_state) io" where
  "mainnet_contracts env cfg cs pair st =
     bindM (deployRskSwapPoolMainnet env cfg st) (\<lambda>(pool, st1).
     bindM (deployMPContractsMainnet env cfg (opt (moneypAddrs cfg) ''GENERAL_SAFE'') (Str (address pool))
              (opt (moneypAddrs cfg) ''MP_SAFE'') st1) (\<lambda>(mps, st2).
     bindM (connectCoreContractsMainnet env cfg cs mps [opt (externalAddrs cfg) ''RSK_ORACLE'']) (\<lambda>_.
     bindM (connectMPContractsMainnet env cfg mps) (\<lambda>_.
     bindM (connectMPContractsToCoreMainnet env cfg mps cs) (\<lambda>_.
     bindM (deployMultiVaultGetterMainnet env cfg cs st2) (\<lambda>(getter, st3).
     bindM (connectRskSwapPoolMainnet env cfg pool mps pair (Num SECONDS_IN_SIX_WEEKS)) (\<lambda>_.
     bindM (logContractObjects mps) (\<lambda>_.
     bindM (logM [Str ''RskSwapPool address: '', Str (address pool)]) (\<lambda>_.
       retM ((pool, mps), st3))))))))))"

text \<open>A lockup contract for each beneficiary, at the saved address when the state has one.\<close>

definition lockup_contract ::
  "'c env \<Rightarrow> config \<Rightarrow> contracts \<Rightarrow> js \<Rightarrow> string \<Rightarrow> js \<Rightarrow> deployment_state \<Rightarrow> ('c, contract_ref \<times> deployment_state) io" where
  "lockup_contract env cfg mps unlock investor investorAddr st =
     bindM (getFactory env ''LockupContract'') (\<lambda>_.
     bindM (if recorded st investor then
              let a = (case lookup st investor of Some e \<Rightarrow> entry_address e | None \<Rightarrow> []) in
              bindM (logM [Str ''Using previously deployed '', Str investor, Str '' lockup contract at address '', Str a])
                (\<lambda>_. retM (\<lparr>artifact = ''LockupContract'', address = a\<rparr>, st))
            else
              bindM (logM [Str ''Deploying lockup contract for '', Str investor, Str ''...'']) (\<lambda>_.
              bindM (liftM (con mps ''lockupContractFactory'')) (\<lambda>lcf.
              bindM (send env cfg lcf ''deployLockupContract'' [investorAddr, unlock, gas_option cfg]) (\<lambda>txReceipt.
              bindM (liftM (logs txReceipt)) (\<lambda>ls.
              bindM (liftM (case ls of [] \<Rightarrow> Inl TypeError | l # _ \<Rightarrow> bindE (get_prop l ''address'') asStr)) (\<lambda>a.
              bindM (getM txReceipt ''transactionHash'') (\<lambda>h.
              let st' = set_prop st investor \<lparr>entry_address = a, entry_txHash = h, entry_verification = None\<rparr> in
              bindM (saveDeployment st') (\<lambda>_. retM (\<lparr>artifact = ''LockupContract'', address = a\<rparr>, st'))))))))) (\<lambda>(c, st1).
     bindM (if truthy (ASDFGSCAN_BASE_URL cfg) then verifyContract env cfg investor [] st1 else retM st1) (\<lambda>st2.
       retM (c, st2))))"

fun lockup_contracts ::
  "'c env \<Rightarrow> config \<Rightarrow> contracts \<Rightarrow> js \<Rightarrow> (string \<times> js) list \<Rightarrow> deployment_state \<Rightarrow> ('c, contracts \<times> deployment_state) io" where
  "lockup_contracts env cfg mps unlock [] st = retM ([], st)"
| "lockup_contracts env cfg mps unlock ((investor, a) # rest) st =
     bindM (lockup_contract env cfg mps unlock investor a st) (\<lambda>(c, st1).
     bindM (lockup_contracts env cfg mps unlock rest st1) (\<lambda>(cs, st2). retM ((investor, c) # cs, st2)))"

definition add_seconds :: "js \<Rightarrow> int \<Rightarrow> js result" where
  "add_seconds t n = (case t of Num m \<Rightarrow> Inr (Str (int_to_string (m + n))) | _ \<Rightarrow> Inl TypeError)"

definition mainnet_lockups ::
  "'c env \<Rightarrow> config \<Rightarrow> contracts \<Rightarrow> deployment_state \<Rightarrow> ('c, contracts \<times> deployment_state) io" where
  "mainnet_lockups env cfg mps st =
     bindM (serviceM env ''getBlockNumber'' []) (\<lambda>latestBlock.
     bindM (serviceM env ''getBlock'' [latestBlock]) (\<lambda>block.
     bindM (getM block ''timestamp'') (\<lambda>now.
     bindM (logM [Str ''time now: '', now]) (\<lambda>_.
     bindM (liftM (add_seconds now (SECONDS_IN_ONE_DAY * 3))) (\<lambda>threeDaysFromNow.
     bindM (logM [Str ''time threeDaysFromNow: '', threeDaysFromNow]) (\<lambda>_.
       lockup_contracts env cfg mps threeDaysFromNow (beneficiaries cfg) st))))))"

section \<open>Checks\<close>

definition lockup_checks :: "'c env \<Rightarrow> config \<Rightarrow> contracts \<Rightarrow> ('c, unit) io" where
  "lockup_checks env cfg lcs =
     bindM (logM [Str ''LOCKUP CONTRACT CHECKS'']) (\<lambda>_.
     forM lcs (\<lambda>(investor, lc).
       bindM (callM env lc ''beneficiary'' []) (\<lambda>onChain.
       bindM (callM env lc ''unlockTime'' []) (\<lambda>unlockTime.
       bindM (liftM (squeezed (opt (beneficiaries cfg) investor))) (\<lambda>b.
       bindM (liftM (squeezed onChain)) (\<lambda>o'.
         logM [Str ''lockupContract addr: '', Str (squeezeAddr (address lc)), Str ''beneficiary: '', Str investor,
               Str ''beneficiary addr: '', b, Str ''on-chain beneficiary addr: '', o',
               Str ''unlockTime: '', unlockTime]))))))"

definition token_checks :: "'c env \<Rightarrow> config \<Rightarrow> session \<Rightarrow> ('c, unit) io" where
  "token_checks env cfg s =
     bindM (logM [Str ''STORED ADDRESSES IN MP TOKEN'']) (\<lambda>_.
     bindM (mpC s ''mpToken'') (\<lambda>mpToken.
     bindM (callM env mpToken ''multisigAddress'' []) (\<lambda>stored.
     let mpSafe = opt (moneypAddrs cfg) ''MP_SAFE'' in
     bindM (liftM (toLowerCase mpSafe)) (\<lambda>a. bindM (liftM (toLowerCase stored)) (\<lambda>b.
     bindM (assertM (a = b)) (\<lambda>_.
     bindM (liftM (squeezed stored)) (\<lambda>x.
     bindM (logM [Str ''multi-sig address stored in MPToken : '', x]) (\<lambda>_.
     bindM (liftM (squeezed mpSafe)) (\<lambda>y.
     bindM (logM [Str ''MP Safe address: '', y]) (\<lambda>_.
     bindM (logM [Str ''INITIAL MP BALANCES'']) (\<lambda>_.
     bindM (log_call env ''RskSwapPool MP balance       '' mpToken ''balanceOf'' [Str (address (swapPool s))]) (\<lambda>_.
     bindM (log_call env ''MP Safe balance     '' mpToken ''balanceOf'' [mpSafe]) (\<lambda>_.
     bindM (log_call env ''General Safe balance       '' mpToken ''balanceOf'' [opt (moneypAddrs cfg) ''GENERAL_SAFE'']) (\<lambda>_.
     bindM (mpC s ''communityIssuance'') (\<lambda>issuance.
     bindM (log_call env ''Community Issuance balance'' mpToken ''balanceOf'' [Str (address issuance)]) (\<lambda>_.
     bindM (logM [Str ''PRICEFEED CHECKS'']) (\<lambda>_.
     bindM (coreC s ''priceFeed'') (\<lambda>priceFeed.
     bindM (log_call env ''PriceFeed first stored price'' priceFeed ''lastGoodPrice'' []) (\<lambda>_.
     bindM (callM env (swapPool s) ''rskSwapToken'' []) (\<lambda>t.
     bindM (logM [Str ''RskSwapPool's stored BPD-RBTC Uniswap Pair address: '', t]) (\<lambda>_.
     bindM (logM [Str ''SYSTEM GLOBAL VARS CHECKS'']) (\<lambda>_.
     bindM (coreC s ''vaultManager'') (\<lambda>vm.
     bindM (callM env vm ''BPD_GAS_COMPENSATION'' []) (\<lambda>liqReserve.
     bindM (callM env vm ''MIN_NET_DEBT'' []) (\<lambda>minNetDebt.
     bindM (logBNM ''system liquidation reserve'' liqReserve) (\<lambda>_.
       logBNM ''system min net debt      '' minNetDebt))))))))))))))))))))))))))"

section \<open>Exercising the system\<close>

text \<open>\<open>status.toString() != '1'\<close>\<close>

definition open_vault_if_needed ::
  "'c env \<Rightarrow> config \<Rightarrow> session \<Rightarrow> string \<Rightarrow> string \<Rightarrow> string \<Rightarrow> ('c, js) io \<Rightarrow> ('c, unit) io" where
  "open_vault_if_needed env cfg s user opening already openIt =
     bindM (coreC s ''vaultManager'') (\<lambda>vm.
     bindM (callM env vm ''getVaultStatus'' [Str user]) (\<lambda>status.
     bindM (liftM (js_text status)) (\<lambda>t.
       if t \<noteq> ''1'' then bindM (logM [Str opening]) (\<lambda>_. bindM openIt (\<lambda>_. retM ()))
       else logM [Str already])))"

definition log_vault :: "'c env \<Rightarrow> session \<Rightarrow> string \<Rightarrow> string \<Rightarrow> string \<Rightarrow> ('c, unit) io" where
  "log_vault env s who status user =
     bindM (coreC s ''vaultManager'') (\<lambda>vm.
     bindM (callM env vm ''Vaults'' [Str user]) (\<lambda>v.
     bindM (log_index (who @ '' debt'') v 0) (\<lambda>_.
     bindM (log_index (who @ '' coll'') v 1) (\<lambda>_.
     bindM (log_index (who @ '' stake'') v 2) (\<lambda>_.
     bindM (indexM v 3) (\<lambda>st. logM [Str status, st]))))))"

definition pair_contract :: "session \<Rightarrow> contract_ref result" where
  "pair_contract s = bindE (asStr (pairAddr s)) (\<lambda>a. Inr \<lparr>artifact = ''UniswapV2Pair'', address = a\<rparr>)"

definition log_reserves :: "'c env \<Rightarrow> contract_ref \<Rightarrow> string \<Rightarrow> string \<Rightarrow> ('c, unit) io" where
  "log_reserves env pair bpd rbtc =
     bindM (callM env pair ''getReserves'' []) (\<lambda>reserves.
     bindM (log_index bpd reserves 0) (\<lambda>_. log_index rbtc reserves 1))"

text \<open>The collateral of both vaults is \<open>th.dec(2, 17)\<close>, the debt \<open>th.dec(2000, 18)\<close>.\<close>

definition vault_args :: "js \<Rightarrow> js list" where
  "vault_args opts = [pct100, Str (dec ''2000'' (Digits 18)), Str ZERO_ADDRESS, Str ZERO_ADDRESS, opts]"

definition mainnet_vault :: "'c env \<Rightarrow> config \<Rightarrow> session \<Rightarrow> ('c, unit) io" where
  "mainnet_vault env cfg s =
     bindM (open_vault_if_needed env cfg s (deployer s) ''Deployer opening vault...'' ''Deployer already has an active vault''
       (bindM (coreC s ''borrowerOperations'') (\<lambda>bo. send env cfg bo ''openVault''
         (vault_args (Obj [(''value'', Str (dec ''2'' (Digits 17))), (''gasPrice'', GAS_PRICE cfg)]))))) (\<lambda>_.
     bindM (coreC s ''sortedVaults'') (\<lambda>sv.
     bindM (callM env sv ''contains'' [Str (deployer s)]) (\<lambda>c.
     bindM (logM [Str ''deployer is in sorted list after making vault: '', c]) (\<lambda>_.
     bindM (log_vault env s ''deployer'' ''deployer's vault status: '' (deployer s)) (\<lambda>_.
     bindM (coreC s ''bpdToken'') (\<lambda>bpd.
     bindM (log_call env ''deployer's BPD balance'' bpd ''balanceOf'' [Str (deployer s)]) (\<lambda>_.
     bindM (liftM (pair_contract s)) (\<lambda>pair.
     bindM (callM env pair ''token0'' []) (\<lambda>token0. bindM (callM env pair ''token1'' []) (\<lambda>token1.
     bindM (liftM (squeezed token0)) (\<lambda>t0.
     bindM (logM [Str ''BPD-RBTC Pair token 0: '', t0, Str ''BPDToken contract addr: '', Str (squeezeAddr (address bpd))]) (\<lambda>_.
     bindM (liftM (squeezed token1)) (\<lambda>t1.
     bindM (liftM (squeezed (opt (externalAddrs cfg) ''RBTC_ERC20''))) (\<lambda>w.
     bindM (logM [Str ''BPD-RBTC Pair token 1: '', t1, Str ''WRBTC ERC20 contract addr: '', w]) (\<lambda>_.
       log_reserves env pair ''BPD-RBTC Pair's BPD reserves before provision''
         ''BPD-RBTC Pair's RBTC reserves before provision'')))))))))))))))"

definition mainnet_lp_staking :: "'c env \<Rightarrow> config \<Rightarrow> session \<Rightarrow> ('c, unit) io" where
  "mainnet_lp_staking env cfg s =
     (let pool = swapPool s; dep = Str (deployer s) in
     bindM (logM [Str ''CHECK LP STAKING EARNS MP'']) (\<lambda>_.
     bindM (liftM (pair_contract s)) (\<lambda>pair.
     bindM (callM env pair ''balanceOf'' [dep]) (\<lambda>lpBal.
     bindM (logBNM ''deployer's LP token balance'' lpBal) (\<lambda>_.
     bindM (logM [Str ''BPDRBTCPair addr: '', Str (address pair)]) (\<lambda>_.
     bindM (callM env pool ''rskSwapToken'' []) (\<lambda>t.
     bindM (logM [Str ''Pair addr stored in RskSwapPool: '', t]) (\<lambda>_.
     bindM (log_call env ''deployer's farmed MP before staking LP tokens'' pool ''earned'' [dep]) (\<lambda>_.
     bindM (callM env pool ''balanceOf'' [dep]) (\<lambda>stake.
     bindM (liftM (js_text stake)) (\<lambda>st.
     bindM (if st = ''0'' then
              bindM (logM [Str ''Staking to RskSwapPool...'']) (\<lambda>_.
              bindM (send env cfg pair ''approve'' [Str (address pool), lpBal, gas_option cfg]) (\<lambda>_.
              bindM (send env cfg pool ''stake'' [Num 1, gas_option cfg]) (\<lambda>_. retM ())))
            else logM [Str ''Already staked in RskSwapPool'']) (\<lambda>_.
     bindM (logM [Str ''wait 90 seconds before checking earnings... '']) (\<lambda>_.
     bindM (serviceM env ''waitFunction'' []) (\<lambda>_.
     bindM (log_call env ''deployer's farmed MP from RskSwapPool after waiting ~1.5mins'' pool ''earned'' [dep]) (\<lambda>_.
     bindM (mpC s ''mpToken'') (\<lambda>mpToken.
       log_call env ''deployer MP Balance Before SP deposit'' mpToken ''balanceOf'' [dep]))))))))))))))))"

definition mainnet_sp :: "'c env \<Rightarrow> config \<Rightarrow> session \<Rightarrow> ('c, unit) io" where
  "mainnet_sp env cfg s =
     (let dep = Str (deployer s) in
     bindM (logM [Str ''CHECK DEPLOYER MAKING DEPOSIT AND EARNING MP'']) (\<lambda>_.
     bindM (coreC s ''stabilityPool'') (\<lambda>sp.
     bindM (log_call env ''deployer SP deposit before making deposit'' sp ''getCompoundedBPDDeposit'' [dep]) (\<lambda>_.
     bindM (send env cfg sp ''provideToSP'' [Str (dec ''15'' (Digits 18)), Str ZERO_ADDRESS, gas_limit cfg 400000]) (\<lambda>_.
     bindM (log_call env ''deployer SP deposit after depositing 15 BPD'' sp ''getCompoundedBPDDeposit'' [dep]) (\<lambda>_.
     bindM (logM [Str ''wait 90 seconds before withdrawing...'']) (\<lambda>_.
     bindM (serviceM env ''waitFunction'' []) (\<lambda>_.
     bindM (send env cfg sp ''withdrawFromSP'' [Str (dec ''1000'' (Digits 18)), gas_limit cfg 400000]) (\<lambda>_.
     bindM (log_call env ''deployer SP deposit after full withdrawal'' sp ''getCompoundedBPDDeposit'' [dep]) (\<lambda>_.
     bindM (mpC s ''mpToken'') (\<lambda>mpToken.
       log_call env ''deployer MP Balance after SP deposit withdrawal'' mpToken ''balanceOf'' [dep])))))))))))"

definition mainnet_lc_withdrawal :: "'c env \<Rightarrow> config \<Rightarrow> session \<Rightarrow> ('c, unit) io" where
  "mainnet_lc_withdrawal env cfg s =
     bindM (logM [Str ''CHECK BENEFICIARY ATTEMPTING WITHDRAWAL FROM LC'']) (\<lambda>_.
     bindM (liftM (con (lockups s) ''ACCOUNT_2'')) (\<lambda>lc.
     let lc2 = as_wallet (account2 s) lc; acc2 = Str (account2 s); here = Str (address lc) in
     bindM (mpC s ''mpToken'') (\<lambda>mpToken.
     bindM (send env cfg mpToken ''transfer'' [here, Str (dec ''10'' (Digits 18)), gas_option cfg]) (\<lambda>_.
     bindM (log_call env ''account2 MP bal before withdrawal attempt'' mpToken ''balanceOf'' [acc2]) (\<lambda>_.
     bindM (log_call env ''account2's LC MP bal before withdrawal attempt'' mpToken ''balanceOf'' [here]) (\<lambda>_.
     bindM (send env cfg lc2 ''withdrawMP'' [gas_limit cfg 1000000]) (\<lambda>_.
     bindM (log_call env ''account2's MP bal after LC withdrawal attempt'' mpToken ''balanceOf'' [acc2]) (\<lambda>_.
       log_call env ''account2's LC MP bal LC withdrawal attempt'' mpToken ''balanceOf'' [here]))))))))"

definition mainnet_mp_staking :: "'c env \<Rightarrow> config \<Rightarrow> session \<Rightarrow> ('c, unit) io" where
  "mainnet_mp_staking env cfg s =
     (let dep = Str (deployer s) in
     bindM (logM [Str ''CHECK DEPLOYER STAKING MP'']) (\<lambda>_.
     bindM (mpC s ''mpToken'') (\<lambda>mpToken.
     bindM (log_call env ''deployer MP bal before staking'' mpToken ''balanceOf'' [dep]) (\<lambda>_.
     bindM (mpC s ''mpStaking'') (\<lambda>staking.
     bindM (log_call env ''deployer stake before staking'' staking ''stakes'' [dep]) (\<lambda>_.
     bindM (send env cfg staking ''stake'' [Str (dec ''13'' (Digits 18)), gas_limit cfg 1000000]) (\<lambda>_.
     bindM (log_call env ''deployer MP bal after staking'' mpToken ''balanceOf'' [dep]) (\<lambda>_.
     bindM (log_call env ''deployer stake after staking'' staking ''stakes'' [dep]) (\<lambda>_.
       log_call env ''deployer pending BPD revenue share'' staking ''getPendingBPDGain'' [dep])))))))))"

definition mainnet_account2 :: "'c env \<Rightarrow> config \<Rightarrow> session \<Rightarrow> ('c, unit) io" where
  "mainnet_account2 env cfg s =
     bindM (open_vault_if_needed env cfg s (account2 s) ''Acct 2 opens a vault ...'' ''Acct 2 already has an active vault''
       (bindM (getFactory env ''BorrowerOperations'') (\<lambda>_.
        bindM (coreC s ''borrowerOperations'') (\<lambda>bo. send env cfg (as_wallet (account2 s) bo) ''openVault''
         (vault_args (Obj [(''value'', Str (dec ''2'' (Digits 17))), (''gasPrice'', GAS_PRICE cfg),
                           (''gasLimit'', Num 1000000)])))))) (\<lambda>_.
     bindM (log_vault env s ''acct2'' ''acct2 vault status: '' (account2 s)) (\<lambda>_.
     bindM (mpC s ''mpStaking'') (\<lambda>staking.
       log_call env ''deployer pending BPD revenue share from staking, after acct 2 opened vault'' staking
         ''getPendingBPDGain'' [Str (deployer s)])))"

definition mainnet_gains :: "'c env \<Rightarrow> config \<Rightarrow> session \<Rightarrow> ('c, unit) io" where
  "mainnet_gains env cfg s =
     (let dep = Str (deployer s) in
     bindM (logM [Str ''CHECK DEPLOYER WITHDRAWING STAKING GAINS'']) (\<lambda>_.
     bindM (coreC s ''bpdToken'') (\<lambda>bpd.
     bindM (log_call env ''deployer BPD bal before withdrawing staking gains'' bpd ''balanceOf'' [dep]) (\<lambda>_.
     bindM (mpC s ''mpStaking'') (\<lambda>staking.
     bindM (send env cfg staking ''unstake'' [Num 0, gas_limit cfg 1000000]) (\<lambda>_.
       log_call env ''deployer BPD bal after withdrawing staking gains'' bpd ''balanceOf'' [dep]))))))"

section \<open>System stats and the whole script\<close>

text \<open>The queries first, then their logs.\<close>

definition query_then_log ::
  "'c env \<Rightarrow> contract_ref \<Rightarrow> (string \<times> string) list \<Rightarrow> ('c, unit) io" where
  "query_then_log env c qs =
     bindM (mapM (\<lambda>(label, m). bindM (callM env c m []) (\<lambda>v. retM (label, v))) qs) (\<lambda>vs.
       forM vs (\<lambda>(label, v). logBNM label v))"

definition mainnet_stats :: "'c env \<Rightarrow> config \<Rightarrow> session \<Rightarrow> ('c, unit) io" where
  "mainnet_stats env cfg s =
     bindM (liftM (pair_contract s)) (\<lambda>pair.
     bindM (log_reserves env pair ''BPD-RBTC Pair's current BPD reserves'' ''BPD-RBTC Pair's current RBTC reserves'') (\<lambda>_.
     bindM (coreC s ''vaultManager'') (\<lambda>vm. bindM (coreC s ''sortedVaults'') (\<lambda>sv.
     bindM (coreC s ''stabilityPool'') (\<lambda>sp. bindM (mpC s ''mpStaking'') (\<lambda>staking.
     bindM (mpC s ''communityIssuance'') (\<lambda>issuance.
     bindM (callM env vm ''getVaultOwnersCount'' []) (\<lambda>n.
     bindM (logM [Str ''number of vaults: '', n, Str '' '']) (\<lambda>_.
     bindM (callM env sv ''getSize'' []) (\<lambda>size.
     bindM (logM [Str ''Vault list size: '', size, Str '' '']) (\<lambda>_.
     bindM (query_then_log env vm [(''Entire system debt'', ''getEntireSystemDebt''),
              (''Entire system coll'', ''getEntireSystemColl'')]) (\<lambda>_.
     bindM (query_then_log env vm [(''Base rate'', ''baseRate''),
              (''Current borrowing rate'', ''getBorrowingRateWithDecay'')]) (\<lambda>_.
     bindM (log_call env ''Total BPD SP deposits'' sp ''getTotalBPDDeposits'' []) (\<lambda>_.
     bindM (log_call env ''Total MP staked'' staking ''totalMPStaked'' []) (\<lambda>_.
     bindM (log_call env ''Total LP (BPD-RBTC) tokens staked in rskSwapPool'' (swapPool s) ''totalSupply'' []) (\<lambda>_.
     bindM (logM [Str ''VaultManager state variables:'']) (\<lambda>_.
     bindM (query_then_log env vm [(''Total vault stakes'', ''totalStakes''),
              (''Snapshot of total vault stakes before last liq. '', ''totalStakesSnapshot''),
              (''Snapshot of total vault collateral before last liq. '', ''totalCollateralSnapshot'')]) (\<lambda>_.
     bindM (query_then_log env vm [(''B_RBTC'', ''B_RBTC''), (''B_BPDDebt'', ''B_BPDDebt'')]) (\<lambda>_.
     bindM (logM [Str ''StabilityPool state variables:'']) (\<lambda>_.
     bindM (callM env sp ''P'' []) (\<lambda>P.
     bindM (callM env sp ''currentScale'' []) (\<lambda>currentScale.
     bindM (callM env sp ''currentEpoch'' []) (\<lambda>currentEpoch.
     bindM (callM env sp ''epochToScaleToSum'' [currentEpoch, currentScale]) (\<lambda>S.
     bindM (callM env sp ''epochToScaleToG'' [currentEpoch, currentScale]) (\<lambda>G.
     bindM (forM [(''Product P'', P), (''Current epoch'', currentEpoch), (''Current scale'', currentScale),
                  (''Sum S, at current epoch and scale'', S), (''Sum G, at current epoch and scale'', G)]
              (\<lambda>(label, v). logBNM label v)) (\<lambda>_.
     bindM (logM [Str ''MPStaking state variables:'']) (\<lambda>_.
     bindM (query_then_log env staking [(''F_BPD'', ''F_BPD''), (''F_RBTC'', ''F_RBTC'')]) (\<lambda>_.
     bindM (logM [Str ''CommunityIssuance state variables:'']) (\<lambda>_.
       log_call env ''Total MP issued to depositors / front ends'' issuance ''totalMPIssued'' [])))))))))))))))))))))))))))))"

definition exercise_steps :: "'c env \<Rightarrow> config \<Rightarrow> session \<Rightarrow> ('c, unit) io list" where
  "exercise_steps env cfg s =
    [lockup_checks env cfg (lockups s), token_checks env cfg s, mainnet_vault env cfg s, mainnet_lp_staking env cfg s,
     mainnet_sp env cfg s, mainnet_lc_withdrawal env cfg s, mainnet_mp_staking env cfg s,
     mainnet_account2 env cfg s, mainnet_gains env cfg s, mainnet_stats env cfg s]"

definition mainnet_deploy_all :: "'c env \<Rightarrow> config \<Rightarrow> ('c, session \<times> deployment_state) io" where
  "mainnet_deploy_all env cfg =
     bindM (mainnet_start env cfg) (\<lambda>(dep, acc2, st, factory).
     bindM (deployMoneypCoreMainnet env cfg st) (\<lambda>(cs, st1).
     bindM (logContractObjects cs) (\<lambda>_.
     bindM (mainnet_pair env cfg factory cs) (\<lambda>pair.
     bindM (mainnet_contracts env cfg cs pair st1) (\<lambda>((pool, mps), st2).
     bindM (mainnet_lockups env cfg mps st2) (\<lambda>(lcs, st3).
       retM (\<lparr>deployer = dep, account2 = acc2, core = cs, mp = mps, swapPool = pool, pairAddr = pair,
              lockups = lcs\<rparr>, st3)))))))"

definition mainnetDeploy :: "'c env \<Rightarrow> config \<Rightarrow> ('c, unit) io" where
  "mainnetDeploy env cfg =
     bindM (mainnet_deploy_all env cfg) (\<lambda>(s, st). seqM (exercise_steps env cfg s))"

end
