(* ===== verification/Helper_Laws.thy ===== *)
theory Helper_Laws
  imports Sample_World
begin

text \<open>
  What the single operations of \<open>testHelpers.js\<close> promise: the comparison of numbers by their texts and the
  summary of gas costs that rests on it, opening a vault, withdrawing to a target ratio, the events
  of a transaction, and the assertion of a revert.
\<close>

section \<open>Comparing numbers by their texts\<close>

lemma digit_val_less_iff:
  "is_digit c \<Longrightarrow> is_digit d \<Longrightarrow> (of_char c < (of_char d :: nat)) = (digit_val c < digit_val d)"
  by (auto simp: is_digit_def digit_val_def)

lemma digit_val_eq_iff: "is_digit c \<Longrightarrow> is_digit d \<Longrightarrow> (c = d) = (digit_val c = digit_val d)"
  by (auto simp: is_digit_def digit_val_def) (metis le_add_diff_inverse of_char_eq_iff)

lemma digits_less_Cons:
  fixes a b p x y :: nat
  assumes "x < p" "y < p"
  shows "(a * p + x < b * p + y) = (a < b \<or> a = b \<and> x < y)"
proof (cases "a < b")
  case True
  then have "Suc a * p \<le> b * p" by (intro mult_le_mono1) simp
  with True assms show ?thesis by simp
next
  case False
  then have "a = b \<or> Suc b * p \<le> a * p" by (metis Suc_leI linorder_neqE_nat mult_le_mono1)
  with False assms show ?thesis by auto
qed

lemma str_less_digits:
  assumes "length s = length t" "list_all is_digit s" "list_all is_digit t"
  shows "str_less s t = (digits_value s < digits_value t)"
  using assms
proof (induction s t rule: list_induct2)
  case Nil
  then show ?case by simp
next
  case (Cons c s d t)
  then have digits: "is_digit c" "is_digit d" "digits_value s < 10 ^ length t" "digits_value t < 10 ^ length t"
    using digits_value_less [of s] digits_value_less [of t] by simp_all
  have "str_less (c # s) (d # t) =
      (digit_val c < digit_val d \<or> digit_val c = digit_val d \<and> digits_value s < digits_value t)"
    using Cons digits by (simp add: digit_val_less_iff digit_val_eq_iff)
  then show ?case
    using digits_less_Cons [OF digits(3,4)] Cons.hyps by (simp add: digits_value_Cons)
qed

lemma str_less_same_length:
  assumes "0 \<le> x" "0 \<le> y" "length (int_to_string x) = length (int_to_string y)"
  shows "str_less (int_to_string x) (int_to_string y) = (x < y)"
  using assms str_less_digits [of "int_to_string x" "int_to_string y"] by (auto simp: int_to_string_def)

text \<open>Without the same number of digits the texts are ordered differently.\<close>

lemma text_order_differs: "bn_greater_as_text 9 10 \<and> \<not> bn_greater_as_text 10 9"
  by (simp add: bn_greater_as_text_def int_to_string_def nat_to_string.simps digit_char_def)

lemma insert_by_text_insort:
  assumes "\<forall>y \<in> set (x # xs). 0 \<le> y \<and> length (int_to_string y) = n"
  shows "insert_by_text x xs = insort x xs"
  using assms by (induction xs) (auto simp: str_less_same_length)

lemma sort_by_text_sort:
  assumes "\<forall>y \<in> set xs. 0 \<le> y \<and> length (int_to_string y) = n"
  shows "sort_by_text xs = sort xs"
  using assms
proof (induction xs)
  case Nil
  then show ?case by (simp add: sort_by_text_def)
next
  case (Cons x xs)
  then have "sort_by_text xs = sort xs" by simp
  then have "sort_by_text (x # xs) = insert_by_text x (sort xs)" by (simp add: sort_by_text_def)
  with Cons.prems show ?case by (simp add: insert_by_text_insort [where n = n])
qed

text \<open>
  The summary of gas costs that are positive and have the same number of digits: the least, the greatest and the
  mean cost, and the median of the sorted costs, which lies between the least and the greatest and
  is one of the costs. (Costs of different lengths are sorted as texts, and the median is wrong.)
\<close>

lemma gas_metrics_of_similar_costs:
  assumes "gs \<noteq> []" "\<forall>g \<in> set gs. 0 < g \<and> length (int_to_string g) = n"
  shows "minGas (getGasMetrics gs) = Some (Min (set gs)) \<and> maxGas (getGasMetrics gs) = Some (Max (set gs)) \<and>
    (\<exists>m. meanGas (getGasMetrics gs) = Some m \<and> m * of_nat (length gs) = of_int (sum_list gs)) \<and>
    (\<exists>m \<in> set gs. medianGas (getGasMetrics gs) = Some m \<and> m = sort gs ! (length gs div 2) \<and>
       Min (set gs) \<le> m \<and> m \<le> Max (set gs))"
proof -
  have pos: "0 < sum_list gs"
    using assms by (cases gs) (auto intro!: add_pos_nonneg sum_list_nonneg)
  have "sort_by_text gs = sort gs" by (rule sort_by_text_sort [of gs n]) (use assms(2) in force)
  moreover have "sort gs ! (length gs div 2) \<in> set gs"
    using assms(1) by (metis length_greater_0_conv length_sort nth_mem set_sort div_less_dividend one_less_numeral_iff semiring_norm(76))
  ultimately show ?thesis using pos assms(1) by (auto simp: getGasMetrics_def Let_def)
qed

lemma gas_metrics_of_similar_costs_witness:
  "medianGas (getGasMetrics [52000, 50000, 51000]) = Some (sort [52000, 50000, 51000] ! 1)"
proof -
  have "\<forall>g \<in> set [52000, 50000, 51000 :: int]. 0 < g \<and> length (int_to_string g) = 5"
    by (simp add: int_to_string_def nat_to_string.simps)
  from gas_metrics_of_similar_costs [OF _ this] show ?thesis by auto
qed

text \<open>The median of 9, 10 and 11 is taken to be 11.\<close>

lemma median_of_different_lengths: "medianGas (getGasMetrics [9, 10, 11]) = Some 11"
  by (simp add: getGasMetrics_def Let_def sort_by_text_def int_to_string_def nat_to_string.simps digit_char_def)

section \<open>Opening a vault\<close>

text \<open>A query that returns \<open>v\<close> and changes nothing.\<close>

definition answers :: "'c env \<Rightarrow> contracts \<Rightarrow> string \<Rightarrow> string \<Rightarrow> js list \<Rightarrow> js \<Rightarrow> bool" where
  "answers env cs k m args v \<longleftrightarrow> (\<exists>c. con cs k = Inr c \<and> (\<forall>ch. call env c m args ch = (Inr v, ch)))"

lemma callC_answers:
  assumes "answers env cs k m args v"
  shows "\<exists>e. callC env cs k m args w = (Inr v, w\<lparr>trace := trace w @ [e]\<rparr>)"
  using assms by (auto simp: answers_def callC_def bindM_def retM_def callM_def)

lemma callC_answers_Inr:
  "answers env cs k m args v \<Longrightarrow> callC env cs k m args w = (Inr x, w') \<Longrightarrow> x = v"
  using callC_answers [of env cs k m args v w] by auto

text \<open>
  The queries of the protocol: \<open>d\<close> is the least net debt, the rate with decay \<open>r\<close> is at most the rate \<open>r'\<close> the fee is
  computed with, \<open>gas\<close> is the gas compensation; big numbers convert to themselves.
\<close>

definition protocol :: "'c env \<Rightarrow> contracts \<Rightarrow> int \<Rightarrow> int \<Rightarrow> int \<Rightarrow> int \<Rightarrow> int \<Rightarrow> bool" where
  "protocol env cs d r r' gas price \<longleftrightarrow>
     answers env cs ''borrowerOperations'' ''MIN_NET_DEBT'' [] (BN d) \<and>
     answers env cs ''vaultManager'' ''getBorrowingRateWithDecay'' [] (BN r) \<and>
     (\<forall>x. answers env cs ''vaultManager'' ''getBorrowingFee'' [BN x] (BN (x * r' div BN_1e18))) \<and>
     (\<forall>x. answers env cs ''borrowerOperations'' ''getCompositeDebt'' [BN x] (BN (x + gas))) \<and>
     (\<forall>x. answers env cs ''vaultManager'' ''getActualDebtFromComposite'' [BN x] (BN (x - gas))) \<and>
     answers env cs ''priceFeedTestnet'' ''getPrice'' [] (BN price) \<and>
     (\<forall>n. to_BN env (BN n) = Inr n \<and> to_BN env (Num n) = Inr n) \<and> 0 \<le> d \<and> 0 \<le> r \<and> r \<le> r' \<and> 0 < price"

lemma openVault_least_amount:
  fixes d r r' n :: int
  assumes "net_of_rate d r = Inr n" "0 \<le> d" "0 \<le> r" "r \<le> r'"
  shows "d \<le> (n + 1) + (n + 1) * r' div BN_1e18" and "0 \<le> n"
proof -
  let ?D = "BN_1e18"
  have D: "0 < ?D" by (simp add: BN_1e18_def)
  have n: "n = d * ?D div (?D + r)"
    using assms D by (auto simp: net_of_rate_def bn_quotient_def split: if_splits)
  then show "0 \<le> n" using assms D by (simp add: pos_imp_zdiv_nonneg_iff)
  have "d * ?D < (n + 1) * (?D + r)"
    using assms D unfolding n by (metis add.commute add_pos_nonneg mult.commute pos_mod_bound
        div_mult_mod_eq add_strict_left_mono distrib_left mult.right_neutral)
  also have "\<dots> \<le> (n + 1) * ?D + (n + 1) * r'"
    using assms \<open>0 \<le> n\<close> by (simp add: distrib_left mult_left_mono)
  finally have "d * ?D - (n + 1) * ?D < (n + 1) * r'" by simp
  then have "(d - (n + 1)) * ?D < (n + 1) * r'" by (simp add: left_diff_distrib)
  then have "d - (n + 1) \<le> (n + 1) * r' div ?D"
    using zdiv_mono1 [OF less_imp_le D] D by fastforce
  then show "d \<le> (n + 1) + (n + 1) * r' div ?D" by simp
qed

lemma quotient_bounds:
  fixes a p :: int
  assumes "0 \<le> a" "0 < p"
  shows "bn_quotient a p * p \<le> a" "a < (bn_quotient a p + 1) * p"
proof -
  have "bn_quotient a p = a div p" using assms by (simp add: bn_quotient_def)
  then show "bn_quotient a p * p \<le> a" "a < (bn_quotient a p + 1) * p"
    using assms by (simp_all add: algebra_simps) (metis add.commute div_mult_mod_eq minus_mod_eq_mult_div
      mult.commute pos_mod_bound pos_mod_sign add_strict_left_mono le_add_same_cancel1)+
qed

lemma retM_Inr: "retM x w = (Inr y, w') \<longleftrightarrow> y = x \<and> w' = w"
  by (auto simp: retM_def)

lemma liftM_Inr: "liftM r w = (Inr y, w') \<longleftrightarrow> r = Inr y \<and> w' = w"
  by (auto simp: liftM_def)

lemmas run_simps = bindM_Inr retM_Inr liftM_Inr

lemma opM_BN: "opM f (BN a) (BN b) w = (Inr x, w') \<longleftrightarrow> x = BN (f a b) \<and> w' = w"
  by (auto simp: opM_def bn_op_def retM_Inr)

lemma callC_Inr:
  assumes "callC env cs k m args w = (Inr x, w')"
  shows "\<exists>c. con cs k = Inr c \<and> trace w' = trace w @ [Called c m args]"
proof -
  from assms obtain c where c: "con cs k = Inr c" and run: "callM env c m args w = (Inr x, w')"
    by (auto simp: callC_def run_simps)
  moreover have "trace w' = trace w @ [Called c m args]"
    using run by (cases "call env c m args (chain w)") (auto simp: callM_def)
  ultimately show ?thesis by blast
qed

lemma protocol_runs:
  assumes "protocol env cs d r r' gas price"
  shows "callC env cs ''borrowerOperations'' ''MIN_NET_DEBT'' [] w = (Inr x, w') \<Longrightarrow> x = BN d"
    and "getNetBorrowingAmount env cs (BN a) w = (Inr x, w') \<Longrightarrow> \<exists>n. net_of_rate a r = Inr n \<and> x = BN n"
    and "getOpenVaultTotalDebt env cs (BN b) w = (Inr x, w') \<Longrightarrow> x = BN (b + gas + b * r' div BN_1e18)"
    and "getActualDebtFromComposite env (BN t) cs w = (Inr x, w') \<Longrightarrow> x = BN (t - gas)"
    and "callC env cs ''priceFeedTestnet'' ''getPrice'' [] w = (Inr x, w') \<Longrightarrow> x = BN price"
    and "toBN env (Num k) w = (Inr x, w') \<Longrightarrow> x = BN k"
proof -
  note p = assms [unfolded protocol_def]
  have d: "answers env cs ''borrowerOperations'' ''MIN_NET_DEBT'' [] (BN d)"
    and r: "answers env cs ''vaultManager'' ''getBorrowingRateWithDecay'' [] (BN r)"
    and fee: "answers env cs ''vaultManager'' ''getBorrowingFee'' [BN b] (BN (b * r' div BN_1e18))"
    and composite: "answers env cs ''borrowerOperations'' ''getCompositeDebt'' [BN b] (BN (b + gas))"
    and actual: "answers env cs ''vaultManager'' ''getActualDebtFromComposite'' [BN t] (BN (t - gas))"
    and price: "answers env cs ''priceFeedTestnet'' ''getPrice'' [] (BN price)"
    and bn: "to_BN env (BN n) = Inr n" "to_BN env (Num n) = Inr n" for n
    using p by blast+
  note replies = callC_answers_Inr [OF d] callC_answers_Inr [OF r] callC_answers_Inr [OF fee]
    callC_answers_Inr [OF composite] callC_answers_Inr [OF actual] callC_answers_Inr [OF price]
  show "callC env cs ''borrowerOperations'' ''MIN_NET_DEBT'' [] w = (Inr x, w') \<Longrightarrow> x = BN d" by (rule replies)
  show "getNetBorrowingAmount env cs (BN a) w = (Inr x, w') \<Longrightarrow> \<exists>n. net_of_rate a r = Inr n \<and> x = BN n"
    by (auto simp: run_simps getNetBorrowingAmount_def bn bindE_eq_Inr_iff toBN_def dest!: replies)
  show "getOpenVaultTotalDebt env cs (BN b) w = (Inr x, w') \<Longrightarrow> x = BN (b + gas + b * r' div BN_1e18)"
    by (auto simp: run_simps getOpenVaultTotalDebt_def getCompositeDebt_def opM_BN dest!: replies)
  show "getActualDebtFromComposite env (BN t) cs w = (Inr x, w') \<Longrightarrow> x = BN (t - gas)"
    by (auto simp: getActualDebtFromComposite_def dest!: replies)
  show "callC env cs ''priceFeedTestnet'' ''getPrice'' [] w = (Inr x, w') \<Longrightarrow> x = BN price" by (rule replies)
  show "toBN env (Num k) w = (Inr x, w') \<Longrightarrow> x = BN k"
    by (auto simp: toBN_def run_simps bn)
qed

text \<open>
  C37. Opening a vault with a target ratio: when it succeeds, the last call is \<open>openVault\<close> of \<open>borrowerOperations\<close>, the net debt
  of the vault (the borrowed amount and its fee) is at least the least net debt of the protocol plus
  the extra amount, in spite of the rounding of both the amount and the fee, and the collateral sent
  is the greatest whose ratio to the total debt does not exceed the target.
\<close>

theorem openVault_least_debt_and_ratio:
  assumes "protocol env cs d r r' gas price" "opt options ''ICR'' = BN icr" "0 \<le> icr" "0 \<le> gas"
    and "opt options ''extraBPDAmount'' = BN extra" "0 \<le> extra"
    and "openVault env cs options w = (Inr (res, extraParams), w')"
  shows "\<exists>b t v c. con cs ''borrowerOperations'' = Inr c \<and>
    last (trace w') = Called c ''openVault'' [or_default (opt options ''maxFeePercentage'') pct100, BN b,
      or_default (opt options ''upperHint'') (Str ZERO_ADDRESS),
      or_default (opt options ''lowerHint'') (Str ZERO_ADDRESS), extraParams] \<and>
    get_prop extraParams ''value'' = Inr (BN v) \<and> lookup res ''totalDebt'' = Some (BN t) \<and>
    lookup res ''netDebt'' = Some (BN (t - gas)) \<and> d + extra \<le> t - gas \<and>
    v * price \<le> icr * t \<and> icr * t < (v + 1) * price"
proof -
  note sig = assms(1) [unfolded protocol_def]
  from assms(7) obtain w0 minNet w1 net w2 one w3 least w4 b w5 t w6 nd w7 p w8 m w9 v w10 w11 tx w12 coll where
    steps: "callC env cs ''borrowerOperations'' ''MIN_NET_DEBT'' [] w0 = (Inr minNet, w1)"
      "getNetBorrowingAmount env cs minNet w1 = (Inr net, w2)"
      "toBN env (Num 1) w2 = (Inr one, w3)"
      "opM (+) net one w3 = (Inr least, w4)"
      "opM (+) least (BN extra) w4 = (Inr b, w5)"
      "getOpenVaultTotalDebt env cs b w5 = (Inr t, w6)"
      "getActualDebtFromComposite env t cs w6 = (Inr nd, w7)"
      "callC env cs ''priceFeedTestnet'' ''getPrice'' [] w7 = (Inr p, w8)"
      "opM (*) (BN icr) t w8 = (Inr m, w9)"
      "bn_div m p = Inr v" "set_value (opt options ''extraParams'') v = Inr extraParams"
      "callC env cs ''borrowerOperations'' ''openVault'' [or_default (opt options ''maxFeePercentage'') pct100, b,
        or_default (opt options ''upperHint'') (Str ZERO_ADDRESS),
        or_default (opt options ''lowerHint'') (Str ZERO_ADDRESS), extraParams] w11 = (Inr tx, w')"
      "res = [(''bpdAmount'', b), (''netDebt'', nd), (''totalDebt'', t), (''ICR'', BN icr), (''collateral'', coll), (''tx'', tx)]"
    by (auto simp: openVault_def Let_def run_simps assms(2,5) string_toBN_def getM_def)
  note protocol = protocol_runs [OF assms(1)]
  have "minNet = BN d" "one = BN 1" "p = BN price" using steps(1,3,8) protocol(1,5,6) by blast+
  moreover from this obtain n where n: "net_of_rate d r = Inr n" "net = BN n" using steps(2) protocol(2) by blast
  ultimately have b: "b = BN (n + 1 + extra)" using steps(4,5) by (simp add: opM_BN)
  let ?b = "n + 1 + extra"
  let ?t = "?b + gas + ?b * r' div BN_1e18"
  have t: "t = BN ?t" using steps(6) protocol(3) b by blast
  have nd: "nd = BN (?t - gas)" using steps(7) protocol(4) t by blast
  have m: "m = BN (icr * ?t)" using steps(9) t by (simp add: opM_BN)
  have D: "0 < BN_1e18" by (simp add: BN_1e18_def)
  note least = openVault_least_amount [OF n(1)]
  have "0 \<le> n" and d: "d \<le> (n + 1) + (n + 1) * r' div BN_1e18" using least sig by blast+
  then have "(n + 1) * r' div BN_1e18 \<le> ?b * r' div BN_1e18"
    using assms(6) sig D by (intro zdiv_mono1 mult_right_mono) simp_all
  with d have debt: "d + extra \<le> ?t - gas" by simp
  have "0 \<le> ?b * r' div BN_1e18" using \<open>0 \<le> n\<close> assms(6) sig D by (simp add: pos_imp_zdiv_nonneg_iff)
  then have pos: "0 \<le> icr * ?t" using \<open>0 \<le> n\<close> assms(3,4,6) by simp
  obtain v' where v: "v = BN v'" "v' = bn_quotient (icr * ?t) price"
    using steps(10) m \<open>p = BN price\<close> sig by (auto simp: bn_div_def split: if_splits)
  have ratio: "v' * price \<le> icr * ?t" "icr * ?t < (v' + 1) * price"
    using quotient_bounds [OF pos] sig unfolding v(2) by blast+
  have ep: "get_prop extraParams ''value'' = Inr (BN v')"
    using steps(11) v(1) by (auto simp: set_value_def lookup_set_prop split: js.splits)
  obtain c where c: "con cs ''borrowerOperations'' = Inr c" "last (trace w') = Called c ''openVault''
      [or_default (opt options ''maxFeePercentage'') pct100, b, or_default (opt options ''upperHint'') (Str ZERO_ADDRESS),
       or_default (opt options ''lowerHint'') (Str ZERO_ADDRESS), extraParams]"
    using callC_Inr [OF steps(12)] by auto
  have res: "lookup res ''totalDebt'' = Some (BN ?t)" "lookup res ''netDebt'' = Some (BN (?t - gas))"
    using steps(13) t nd by (simp_all add: lookup_def)
  show ?thesis
    using c [unfolded b] ep res debt ratio by blast
qed

text \<open>In the sample world the vault is opened; the rate is the same with and without decay.\<close>

lemma sample_protocol: "protocol sample_env sample_contracts 1800 5000000000000000 5000000000000000 200 200"
  by (auto simp: protocol_def answers_def con_def lookup_def sample_contracts_def at_address_def)

lemma openVault_least_debt_and_ratio_witness:
  "\<exists>res ep w' b t v c. openVault sample_env sample_contracts
     [(''ICR'', BN 1500000000000000000), (''extraBPDAmount'', BN 7), (''extraParams'', Obj [(''from'', Str ''0xa'')])]
     sample_world = (Inr (res, ep), w') \<and> con sample_contracts ''borrowerOperations'' = Inr c \<and>
   last (trace w') = Called c ''openVault'' [pct100, BN b, Str ZERO_ADDRESS, Str ZERO_ADDRESS, ep] \<and>
   get_prop ep ''value'' = Inr (BN v) \<and> 1807 \<le> t - 200 \<and> v * 200 \<le> 1500000000000000000 * t"
proof -
  let ?options = "[(''ICR'', BN 1500000000000000000), (''extraBPDAmount'', BN 7),
    (''extraParams'', Obj [(''from'', Str ''0xa'')])]"
  have opts: "opt ?options ''ICR'' = BN 1500000000000000000" "opt ?options ''extraBPDAmount'' = BN 7"
    "opt ?options ''maxFeePercentage'' = Undefined" "opt ?options ''upperHint'' = Undefined"
    "opt ?options ''lowerHint'' = Undefined" "opt ?options ''extraParams'' = Obj [(''from'', Str ''0xa'')]"
    by (simp_all add: opt_def lookup_def)
  have run: "\<exists>res ep w'. openVault sample_env sample_contracts ?options sample_world = (Inr (res, ep), w')"
    by (simp add: openVault_def opts Let_def string_toBN_def toBN_def callC_def con_def lookup_def sample_contracts_def
        at_address_def callM_def getNetBorrowingAmount_def net_of_rate_def bn_quotient_def BN_1e18_def opM_def bn_op_def
        getOpenVaultTotalDebt_def getCompositeDebt_def getActualDebtFromComposite_def bn_div_def set_value_def
        getM_def bindM_def retM_def)
  then obtain res ep w' where run: "openVault sample_env sample_contracts ?options sample_world = (Inr (res, ep), w')"
    by blast
  from openVault_least_debt_and_ratio [OF sample_protocol opts(1) _ _ opts(2) _ run] run
  show ?thesis by (auto simp: opts or_default_def)
qed

end
