(* ===== verification/Mutators.thy ===== *)
theory Mutators
  imports Sample_World
begin

text \<open>
  \<open>packages/contracts/eth-mutants-custom\<close>, the mutation testing tool for the contracts: a mutation
  (\<open>src/mutation.js\<close>) and the mutators that find the places of a source to change
  (\<open>src/mutators\<close>). The Solidity parser is a parameter that yields the nodes of a source in the order they are visited.
\<close>

section \<open>Texts\<close>

text \<open>\<open>str.replace(pattern, rep)\<close> of a text pattern: the first occurrence.\<close>

fun replace_first :: "string \<Rightarrow> string \<Rightarrow> string \<Rightarrow> string" where
  "replace_first pat rep [] = (if pat = [] then rep else [])"
| "replace_first pat rep (c # s) =
     (if take (length pat) (c # s) = pat then rep @ drop (length pat) (c # s)
      else c # replace_first pat rep s)"

text \<open>\<open>str.replace(/o[^=]/, rep)\<close>: the first \<open>o\<close> with a following character other than \<open>=\<close>, and that character.\<close>

fun replace_not_before_eq :: "char \<Rightarrow> string \<Rightarrow> string \<Rightarrow> string" where
  "replace_not_before_eq p rep (c # d # s) =
     (if c = p \<and> d \<noteq> CHR ''='' then rep @ s else c # replace_not_before_eq p rep (d # s))"
| "replace_not_before_eq p rep s = s"

definition slice :: "nat \<Rightarrow> nat \<Rightarrow> string \<Rightarrow> string" where
  "slice a b s = take (b - a) (drop a s)"

text \<open>\<open>parseInt\<close>: the longest prefix of digits, hexadecimal after \<open>0x\<close>; none is \<open>NaN\<close>.\<close>

definition hex_value :: "char \<Rightarrow> nat option" where
  "hex_value c = (let n = of_char c in
     if 48 \<le> n \<and> n \<le> 57 then Some (n - 48)
     else if 97 \<le> n \<and> n \<le> 102 then Some (n - 87)
     else if 65 \<le> n \<and> n \<le> 70 then Some (n - 55) else None)"

definition hex_digits_value :: "string \<Rightarrow> nat" where
  "hex_digits_value s = foldl (\<lambda>a c. 16 * a + the (hex_value c)) 0 s"

definition is_space :: "char \<Rightarrow> bool" where
  "is_space c \<longleftrightarrow> (of_char c :: nat) \<in> {9, 10, 11, 12, 13, 32, 160}"

definition parseUnsigned :: "string \<Rightarrow> nat option" where
  "parseUnsigned s =
     (if take 2 s = ''0x'' \<or> take 2 s = ''0X'' then
        (case takeWhile (\<lambda>c. hex_value c \<noteq> None) (drop 2 s) of [] \<Rightarrow> None | h \<Rightarrow> Some (hex_digits_value h))
      else (case takeWhile is_digit s of [] \<Rightarrow> None | d \<Rightarrow> Some (digits_value d)))"

definition parseInt :: "string \<Rightarrow> int option" where
  "parseInt s =
     (let t = dropWhile is_space s in
      if take 1 t = ''-'' then map_option (\<lambda>n. - int n) (parseUnsigned (drop 1 t))
      else if take 1 t = ''+'' then map_option int (parseUnsigned (drop 1 t))
      else map_option int (parseUnsigned t))"

section \<open>The libraries of the tool\<close>

text \<open>
  The nodes of the syntax tree the mutators look at, with their ranges: the positions of the first and the last
  character.
\<close>

type_synonym range = "nat \<times> nat"

datatype node =
    BinaryOperation string range range
  | NumberLiteral string "string option" range
  | BooleanLiteral bool range

datatype part = Added string | Removed string | Common string

text \<open>
  \<open>nodes\<close> is the parser together with its visitor, \<open>double_text n d\<close> the text of the sum of \<open>d\<close> and the double nearest
  to \<open>n\<close>, used beyond the integers that doubles represent exactly. \<open>copy_baseline\<close> copies the contracts
  to the baseline, \<open>npm\<close> runs the tests on the files and returns the exit status, \<open>null\<close> when the
  command cannot be started.
\<close>

type_synonym files = "string \<Rightarrow> string option"

record tool_env =
  nodes :: "string \<Rightarrow> node list result"
  sha1 :: "string \<Rightarrow> string"
  diffLines :: "string \<Rightarrow> string \<Rightarrow> part list"
  chalk :: "string \<Rightarrow> string \<Rightarrow> string"
  double_text :: "int \<Rightarrow> int \<Rightarrow> string"
  copy_baseline :: "files \<Rightarrow> files"
  glob :: "string \<Rightarrow> files \<Rightarrow> string list result"
  npm :: "string list \<Rightarrow> files \<Rightarrow> int option"

section \<open>Mutations\<close>

definition baselineDir :: string where "baselineDir = ''.eth-mutants/baseline''"
definition contractsDir :: string where "contractsDir = ''contracts''"
definition defaultContractsGlob :: string where "defaultContractsGlob = ''*.sol''"

record mutation =
  file_path :: string
  start_at :: nat
  end_at :: nat
  replacement :: string

definition splice :: "string \<Rightarrow> nat \<Rightarrow> int \<Rightarrow> string \<Rightarrow> string" where
  "splice str start len rep = take start str @ rep @ drop (nat (int start + len)) str"

definition applyToString :: "mutation \<Rightarrow> string \<Rightarrow> string" where
  "applyToString m original = splice original (start_at m) (int (end_at m) - int (start_at m)) (replacement m)"

definition mutation_hash :: "tool_env \<Rightarrow> mutation \<Rightarrow> string" where
  "mutation_hash env m =
     take 8 (sha1 env (join '':'' [file_path m, nat_to_string (start_at m), nat_to_string (end_at m), replacement m]))"

definition baseline_path :: "string \<Rightarrow> string" where
  "baseline_path f = baselineDir @ drop (length contractsDir) f"

definition baseline :: "mutation \<Rightarrow> string" where
  "baseline m = baseline_path (file_path m)"

definition readFile :: "string \<Rightarrow> (files, string) io" where
  "readFile f w = (case chain w f of None \<Rightarrow> (Inl (NamedError ''Error'' ''ENOENT''), w) | Some s \<Rightarrow> (Inr s, w))"

definition writeFile :: "string \<Rightarrow> string \<Rightarrow> (files, unit) io" where
  "writeFile f s w = (Inr (), w\<lparr>chain := (chain w)(f \<mapsto> s)\<rparr>)"

definition apply_mutation :: "mutation \<Rightarrow> (files, unit) io" where
  "apply_mutation m = bindM (readFile (file_path m)) (\<lambda>original. writeFile (file_path m) (applyToString m original))"

definition restore :: "mutation \<Rightarrow> (files, unit) io" where
  "restore m =
     bindM (logM [Str (''Restoring '' @ file_path m)]) (\<lambda>_.
     bindM (readFile (baseline m)) (\<lambda>original. writeFile (file_path m) original))"

fun coloured :: "tool_env \<Rightarrow> part \<Rightarrow> string" where
  "coloured env (Added v) = chalk env ''green'' v"
| "coloured env (Removed v) = chalk env ''red'' v"
| "coloured env (Common v) = []"

definition mutation_diff :: "tool_env \<Rightarrow> mutation \<Rightarrow> (files, string) io" where
  "mutation_diff env m =
     bindM (readFile (baseline m)) (\<lambda>original.
       retM (concat (map (coloured env) (diffLines env original (applyToString m original)))))"

text \<open>\<open>createPatch\<close> of the diff library is the argument.\<close>

definition mutation_patch :: "(string \<Rightarrow> string \<Rightarrow> string \<Rightarrow> string) \<Rightarrow> mutation \<Rightarrow> (files, string) io" where
  "mutation_patch createPatch m =
     bindM (readFile (baseline m)) (\<lambda>original. retM (createPatch (file_path m) original (applyToString m original)))"

section \<open>Mutators\<close>

text \<open>The mutation of an operator: the text between the operands is replaced, if by a non-empty text.\<close>

definition operator_mutation :: "string \<Rightarrow> string \<Rightarrow> range \<Rightarrow> range \<Rightarrow> (string \<Rightarrow> string option) \<Rightarrow> mutation list" where
  "operator_mutation f source l r change =
     (let s = snd l + 1; e = fst r in
      case change (slice s e source) of
        None \<Rightarrow> []
      | Some t \<Rightarrow> if t = [] then [] else [\<lparr>file_path = f, start_at = s, end_at = e, replacement = t\<rparr>])"

definition boundary_change :: "string \<Rightarrow> string \<Rightarrow> string option" where
  "boundary_change operator text =
     (if operator = ''<'' then Some (replace_not_before_eq (CHR ''<'') ''<= '' text)
      else if operator = ''>'' then Some (replace_not_before_eq (CHR ''>'') ''>= '' text)
      else if operator = ''<='' then Some (replace_first ''<='' ''<'' text)
      else if operator = ''>='' then Some (replace_first ''>='' ''>'' text)
      else None)"

definition inversion_change :: "string \<Rightarrow> string \<Rightarrow> string option" where
  "inversion_change operator text =
     (if operator = ''<'' then Some (replace_first ''<'' ''>'' text)
      else if operator = ''>'' then Some (replace_first ''>'' ''<'' text)
      else if operator = ''<='' then Some (replace_first ''<='' ''>='' text)
      else if operator = ''>='' then Some (replace_first ''>='' ''<='' text)
      else if operator = ''=='' then Some (replace_first ''=='' ''!='' text)
      else if operator = ''!='' then Some (replace_first ''!='' ''=='' text)
      else None)"

fun ConditionalBoundaryMutator :: "string \<Rightarrow> string \<Rightarrow> node \<Rightarrow> mutation list" where
  "ConditionalBoundaryMutator f source (BinaryOperation operator l r) =
     operator_mutation f source l r (boundary_change operator)"
| "ConditionalBoundaryMutator f source _ = []"

fun ConditionalInversionMutator :: "string \<Rightarrow> string \<Rightarrow> node \<Rightarrow> mutation list" where
  "ConditionalInversionMutator f source (BinaryOperation operator l r) =
     operator_mutation f source l r (inversion_change operator)"
| "ConditionalInversionMutator f source _ = []"

definition literal_mutation :: "string \<Rightarrow> range \<Rightarrow> string \<Rightarrow> mutation" where
  "literal_mutation f r t = \<lparr>file_path = f, start_at = fst r, end_at = snd r + 1, replacement = t\<rparr>"

fun BooleanMutator :: "string \<Rightarrow> node \<Rightarrow> mutation list" where
  "BooleanMutator f (BooleanLiteral v r) = [literal_mutation f r (if v then ''false'' else ''true'')]"
| "BooleanMutator f _ = []"

text \<open>\<open>(num + d).toString()\<close>; doubles are exact up to 2 to the 53.\<close>

definition number_text :: "tool_env \<Rightarrow> int \<Rightarrow> int \<Rightarrow> string" where
  "number_text env n d = (if \<bar>n\<bar> < 2 ^ 53 then int_to_string (n + d) else double_text env n d)"

fun NumberIncreaseMutator :: "tool_env \<Rightarrow> string \<Rightarrow> node \<Rightarrow> mutation list" where
  "NumberIncreaseMutator env f (NumberLiteral number subdenomination r) =
     (if subdenomination \<noteq> None then []
      else if number = ''1e18'' then [literal_mutation f r ''1e19'']
      else [literal_mutation f r (case parseInt number of None \<Rightarrow> ''1'' | Some n \<Rightarrow> number_text env n 1)])"
| "NumberIncreaseMutator env f _ = []"

fun NumberDecreaseMutator :: "tool_env \<Rightarrow> string \<Rightarrow> node \<Rightarrow> mutation list" where
  "NumberDecreaseMutator env f (NumberLiteral number subdenomination r) =
     (if number = ''1e18'' then [literal_mutation f r ''1e17'']
      else [literal_mutation f r (case parseInt number of None \<Rightarrow> ''0'' | Some n \<Rightarrow> number_text env n (- 1))])"
| "NumberDecreaseMutator env f _ = []"

text \<open>A mutator visits all nodes; the composite mutator runs its mutators one after the other.\<close>

definition CompositeMutator :: "(node \<Rightarrow> mutation list) list \<Rightarrow> node list \<Rightarrow> mutation list" where
  "CompositeMutator mutators ns = concat (map (\<lambda>mu. concat (map mu ns)) mutators)"

definition all_mutators :: "tool_env \<Rightarrow> string \<Rightarrow> string \<Rightarrow> (node \<Rightarrow> mutation list) list" where
  "all_mutators env f source =
     [ConditionalBoundaryMutator f source, ConditionalInversionMutator f source, BooleanMutator f,
      NumberIncreaseMutator env f, NumberDecreaseMutator env f]"

end
