(* ===== verification/Mutation_Runs.thy ===== *)
theory Mutation_Runs
  imports Mutators
begin

text \<open>
  \<open>packages/contracts/eth-mutants-custom\<close>, continued: the reporter (\<open>src/reporter.js\<close>) and the commands
  (\<open>src/commands.js\<close>). The state of the computations is the file system; the theorem says what a whole test run
  does to it and how it judges the mutations. The emoji before the messages of the reporter
  are left out.
\<close>

section \<open>The reporter\<close>

record reporter =
  survived :: "mutation list"
  killed :: "mutation list"

definition new_reporter :: reporter where
  "new_reporter = \<lparr>survived = [], killed = []\<rparr>"

definition formatMutant :: "tool_env \<Rightarrow> mutation \<Rightarrow> string" where
  "formatMutant env m = chalk env ''green'' (mutation_hash env m)"

definition writeM :: "string \<Rightarrow> (files, unit) io" where
  "writeM t = record_event (Did ''stdout.write'' [Str t])"

definition beginMutant :: "tool_env \<Rightarrow> mutation \<Rightarrow> (files, unit) io" where
  "beginMutant env m =
     (let h = mutation_hash env m in
      bindM (logM [Str (''Applying mutation '' @ h @ '' to '' @ file_path m)]) (\<lambda>_.
      bindM (mutation_diff env m) (\<lambda>d. bindM (writeM d) (\<lambda>_.
        logM [Str (''Running tests for mutation '' @ h)]))))"

definition mutantSurvived :: "tool_env \<Rightarrow> mutation \<Rightarrow> reporter \<Rightarrow> (files, reporter) io" where
  "mutantSurvived env m r =
     bindM (logM [Str ('' Mutant '' @ formatMutant env m @ '' survived testing.'')])
       (\<lambda>_. retM (r\<lparr>survived := survived r @ [m]\<rparr>))"

definition mutantKilled :: "tool_env \<Rightarrow> mutation \<Rightarrow> reporter \<Rightarrow> (files, reporter) io" where
  "mutantKilled env m r =
     bindM (logM [Str ('' Mutant '' @ formatMutant env m @ '' was killed by tests.'')])
       (\<lambda>_. retM (r\<lparr>killed := killed r @ [m]\<rparr>))"

definition reporter_summary :: "tool_env \<Rightarrow> reporter \<Rightarrow> (files, unit) io" where
  "reporter_summary env r =
     bindM (logM [Str (nat_to_string (length (survived r)) @ '' mutants survived testing, '' @
                       nat_to_string (length (killed r)) @ '' mutants killed.'')])
       (\<lambda>_. logM [Str (''Survivors: '' @ join '', '' (map (formatMutant env) (survived r)))])"

section \<open>Commands\<close>

text \<open>The callback of the copy ignores its error.\<close>

definition prepare :: "tool_env \<Rightarrow> (files, unit) io" where
  "prepare env w = (Inr (), w\<lparr>chain := copy_baseline env (chain w)\<rparr>)"

definition parseM :: "tool_env \<Rightarrow> string \<Rightarrow> (files, node list) io" where
  "parseM env source = liftM (nodes env source)"

definition file_mutations :: "tool_env \<Rightarrow> string \<Rightarrow> (files, mutation list) io" where
  "file_mutations env f =
     bindM (readFile f) (\<lambda>source. bindM (parseM env source) (\<lambda>ns.
       retM (CompositeMutator (all_mutators env f source) ns)))"

definition generateAllMutations :: "tool_env \<Rightarrow> string list \<Rightarrow> (files, mutation list) io" where
  "generateAllMutations env fs = bindM (mapM (file_mutations env) fs) (\<lambda>mss. retM (concat mss))"

text \<open>\<open>process.exit(n)\<close> ends the computation; no code of the tool catches it.\<close>

definition exitM :: "int \<Rightarrow> (files, 'a) io" where
  "exitM n = failM (NamedError ''process.exit'' (int_to_string n))"

definition runTests :: "tool_env \<Rightarrow> string list \<Rightarrow> (files, bool) io" where
  "runTests env testFilePaths w =
     (let args = ''test'' # testFilePaths in
      bindM (logM [Str ''args are:'']) (\<lambda>_. bindM (forM args (\<lambda>a. logM [Str a])) (\<lambda>_.
      bindM (record_event (Did ''npm.cmd'' (map Str args))) (\<lambda>_.
        retM (npm env args (chain w) = Some 0)))) w)"

text \<open>The loop over the mutations.\<close>

fun test_mutations ::
  "tool_env \<Rightarrow> bool \<Rightarrow> string list \<Rightarrow> mutation list \<Rightarrow> reporter \<Rightarrow> (files, reporter) io" where
  "test_mutations env failfast paths [] r = retM r"
| "test_mutations env failfast paths (m # ms) r =
     bindM (apply_mutation m) (\<lambda>_. bindM (beginMutant env m) (\<lambda>_. bindM (runTests env paths) (\<lambda>result.
     bindM (if result then
              bindM (mutantSurvived env m r) (\<lambda>r'. if failfast then exitM 1 else retM r')
            else mutantKilled env m r) (\<lambda>r'.
     bindM (restore m) (\<lambda>_. test_mutations env failfast paths ms r')))))"

definition getContractsGlob :: "string list \<Rightarrow> string" where
  "getContractsGlob argv =
     (if 3 < length argv \<and> argv ! 3 \<noteq> [] then ''/'' @ argv ! 3 else ''/'' @ defaultContractsGlob)"

definition test_paths :: "string list \<Rightarrow> string list" where
  "test_paths argv = map (\<lambda>a. ''./test/'' @ a) (filter (\<lambda>a. contains a ''Test'' \<and> contains a ''.js'') argv)"

definition getTestFilePaths :: "string list \<Rightarrow> (files, string list) io" where
  "getTestFilePaths argv =
     bindM (logM [Str ''paths are:'']) (\<lambda>_. bindM (forM (test_paths argv) (\<lambda>p. logM [Str p])) (\<lambda>_.
       retM (test_paths argv)))"

text \<open>The command \<open>test\<close>; the reporter is returned for the theorem to speak of.\<close>

definition test_command :: "tool_env \<Rightarrow> bool \<Rightarrow> string list \<Rightarrow> (files, reporter) io" where
  "test_command env failfast argv =
     bindM (getTestFilePaths argv) (\<lambda>paths.
     bindM (prepare env) (\<lambda>_. \<lambda>w.
       (case glob env (contractsDir @ getContractsGlob argv) (chain w) of
          Inl e \<Rightarrow> bindM (record_event (Did ''console.error'' [])) (\<lambda>_. exitM 1) w
        | Inr fs \<Rightarrow>
            bindM (generateAllMutations env fs) (\<lambda>ms.
            bindM (test_mutations env failfast paths ms new_reporter) (\<lambda>r.
            bindM (reporter_summary env r) (\<lambda>_. retM r))) w)))"

text \<open>
  The command \<open>preflight\<close> looks up the test files after it has started the copy; an error of \<open>glob\<close> leaves
  its files undefined, and the loop over them throws.
\<close>

definition preflight_mutation :: "tool_env \<Rightarrow> mutation \<Rightarrow> (files, unit) io" where
  "preflight_mutation env m =
     bindM (logM [Str (file_path m @ '':'' @ mutation_hash env m @ '':'')]) (\<lambda>_.
     bindM (mutation_diff env m) writeM)"

definition preflight_files :: "tool_env \<Rightarrow> string list result \<Rightarrow> (files, mutation list) io" where
  "preflight_files env found =
     (case found of
        Inl e \<Rightarrow> failM TypeError
      | Inr fs \<Rightarrow>
          bindM (generateAllMutations env fs) (\<lambda>ms.
          bindM (logM [Str (nat_to_string (length ms) @ '' possible mutations found.'')]) (\<lambda>_.
          bindM (logM [Str ''---'']) (\<lambda>_.
          bindM (forM ms (preflight_mutation env)) (\<lambda>_. retM ms)))))"

definition preflight_command :: "tool_env \<Rightarrow> string list \<Rightarrow> (files, mutation list) io" where
  "preflight_command env argv =
     bindM (getTestFilePaths argv) (\<lambda>_. bindM (prepare env) (\<lambda>_. \<lambda>w.
       preflight_files env (glob env (contractsDir @ getContractsGlob argv) (chain w)) w))"

section \<open>The command line\<close>

text \<open>The command of the arguments as yargs parsed them: \<open>test\<close> with its option, or \<open>preflight\<close>.\<close>

datatype command = Test bool | Preflight

definition run_command :: "tool_env \<Rightarrow> command \<Rightarrow> string list \<Rightarrow> (files, mutation list) io" where
  "run_command env c argv =
     (case c of
        Test failfast \<Rightarrow> bindM (test_command env failfast argv) (\<lambda>r. retM (survived r))
      | Preflight \<Rightarrow> preflight_command env argv)"

section \<open>What a test run does\<close>

text \<open>Computations that only print.\<close>

definition prints :: "(files, 'a) io \<Rightarrow> 'a \<Rightarrow> bool" where
  "prints m x \<longleftrightarrow> (\<forall>w. \<exists>es. m w = (Inr x, w\<lparr>trace := trace w @ es\<rparr>))"

lemma prints_bind: "prints m x \<Longrightarrow> prints (f x) y \<Longrightarrow> prints (bindM m f) y"
  unfolding prints_def
proof
  fix w
  assume m: "\<forall>w. \<exists>es. m w = (Inr x, w\<lparr>trace := trace w @ es\<rparr>)"
    and f: "\<forall>w. \<exists>es. f x w = (Inr y, w\<lparr>trace := trace w @ es\<rparr>)"
  obtain es where 1: "m w = (Inr x, w\<lparr>trace := trace w @ es\<rparr>)" using m by blast
  obtain es' where "f x (w\<lparr>trace := trace w @ es\<rparr>) = (Inr y, w\<lparr>trace := trace w @ es @ es'\<rparr>)"
    using f [rule_format, of "w\<lparr>trace := trace w @ es\<rparr>"] by auto
  with 1 show "\<exists>es. bindM m f w = (Inr y, w\<lparr>trace := trace w @ es\<rparr>)" by (auto simp: bindM_def)
qed

lemma prints_retM: "prints (retM x) x"
  by (auto simp: prints_def retM_def intro!: exI [of _ "[]"])

lemma prints_record_event: "prints (record_event e) ()"
  by (auto simp: prints_def record_event_def)

lemma prints_logM: "prints (logM p) ()"
  by (simp add: logM_def prints_record_event)

lemma prints_mapM: "(\<And>x. prints (f x) (g x)) \<Longrightarrow> prints (mapM f xs) (map g xs)"
  by (induction xs) (auto intro!: prints_bind prints_retM)

lemma prints_forM: "(\<And>x. prints (f x) (g x)) \<Longrightarrow> prints (forM xs f) ()"
  unfolding forM_def by (rule prints_bind [OF prints_mapM prints_retM])

text \<open>In a sequence of statements the intermediate results are units.\<close>

lemmas prints_intros = prints_bind [where x = "()"] prints_retM prints_record_event prints_logM
  prints_forM [where g = "\<lambda>_. ()"]

lemma prints_run:
  assumes "prints m x"
  obtains es where "m w = (Inr x, w\<lparr>trace := trace w @ es\<rparr>)"
  using assms unfolding prints_def by blast

text \<open>The tests succeed with the mutation in place.\<close>

definition survives :: "tool_env \<Rightarrow> string list \<Rightarrow> files \<Rightarrow> mutation \<Rightarrow> bool" where
  "survives env paths fs m \<longleftrightarrow>
     npm env (''test'' # paths) (fs(file_path m \<mapsto> applyToString m (the (fs (file_path m))))) = Some 0"

text \<open>The file of the mutation exists and the baseline has a copy of it.\<close>

definition restorable :: "files \<Rightarrow> mutation \<Rightarrow> bool" where
  "restorable fs m \<longleftrightarrow> fs (file_path m) \<noteq> None \<and> fs (baseline m) = fs (file_path m) \<and> baseline m \<noteq> file_path m"

definition judged :: "(mutation \<Rightarrow> bool) \<Rightarrow> mutation list \<Rightarrow> reporter \<Rightarrow> reporter" where
  "judged P ms r = r\<lparr>survived := survived r @ filter P ms, killed := killed r @ filter (\<lambda>m. \<not> P m) ms\<rparr>"

lemma judged_Cons: "judged P (m # ms) r =
    judged P ms (if P m then r\<lparr>survived := survived r @ [m]\<rparr> else r\<lparr>killed := killed r @ [m]\<rparr>)"
  by (cases r) (simp add: judged_def)

lemma judged_Nil: "judged P [] r = r"
  by (cases r) (simp add: judged_def)

lemma runTests_run:
  obtains w' where "runTests env paths w = (Inr (npm env (''test'' # paths) (chain w) = Some 0), w')"
    "chain w' = chain w"
proof -
  have "prints (bindM (logM [Str ''args are:'']) (\<lambda>_. bindM (forM (''test'' # paths) (\<lambda>a. logM [Str a])) (\<lambda>_.
      bindM (record_event (Did ''npm.cmd'' (map Str (''test'' # paths)))) (\<lambda>_.
        retM (npm env (''test'' # paths) (chain w) = Some 0)))) :: (files, bool) io)
      (npm env (''test'' # paths) (chain w) = Some 0)"
    by (intro prints_intros)
  then show ?thesis by (rule prints_run [where w = w]) (use that in \<open>simp add: runTests_def Let_def\<close>)
qed

lemma run_bind: "m w = (Inr x, w') \<Longrightarrow> bindM m f w = f x w'"
  by (simp add: bindM_def)

lemma mutation_step:
  assumes "restorable (chain w) m"
  obtains w' where "chain w' = (chain w)(file_path m \<mapsto> applyToString m (the (chain w (file_path m))))"
    and "test_mutations env ff paths (m # ms) r w =
      bindM (if survives env paths (chain w) m then
               bindM (mutantSurvived env m r) (\<lambda>r'. if ff then exitM 1 else retM r')
             else mutantKilled env m r)
        (\<lambda>r'. bindM (restore m) (\<lambda>_. test_mutations env ff paths ms r')) w'"
proof -
  let ?mutated = "(chain w)(file_path m \<mapsto> applyToString m (the (chain w (file_path m))))"
  obtain s where s: "chain w (file_path m) = Some s" "chain w (baseline m) = Some s" "baseline m \<noteq> file_path m"
    using assms by (auto simp: restorable_def)
  let ?w1 = "w\<lparr>chain := ?mutated\<rparr>"
  have applied: "apply_mutation m w = (Inr (), ?w1)"
    using s by (simp add: apply_mutation_def readFile_def writeFile_def bindM_def)
  let ?d = "concat (map (coloured env) (diffLines env s (applyToString m s)))"
  have diff: "mutation_diff env m w1 = (Inr ?d, w1)" if "chain w1 = ?mutated" for w1 :: "files world"
    using s that by (simp add: mutation_diff_def readFile_def bindM_def retM_def)
  obtain w2 where began: "beginMutant env m ?w1 = (Inr (), w2)" and w2: "chain w2 = ?mutated"
    by (simp add: beginMutant_def Let_def bindM_def logM_def record_event_def writeM_def diff)
  obtain w3 where ran: "runTests env paths w2 = (Inr (survives env paths (chain w) m), w3)" and w3: "chain w3 = ?mutated"
    by (rule runTests_run [of env paths w2]) (simp add: w2 survives_def)
  show ?thesis
    by (rule that [OF w3]) (simp only: test_mutations.simps run_bind [where m = "apply_mutation m", OF applied]
        run_bind [where m = "beginMutant env m", OF began] run_bind [where m = "runTests env paths", OF ran])
qed

lemma mutantSurvived_run:
  obtains w' where "mutantSurvived env m r w = (Inr (r\<lparr>survived := survived r @ [m]\<rparr>), w')" "chain w' = chain w"
  by (simp add: mutantSurvived_def bindM_def logM_def record_event_def retM_def)

lemma mutantKilled_run:
  obtains w' where "mutantKilled env m r w = (Inr (r\<lparr>killed := killed r @ [m]\<rparr>), w')" "chain w' = chain w"
  by (simp add: mutantKilled_def bindM_def logM_def record_event_def retM_def)

lemma restore_run:
  assumes "restorable fs m" "chain w = fs(file_path m \<mapsto> t)"
  obtains w' where "restore m w = (Inr (), w')" "chain w' = fs"
  using assms by (auto simp: restore_def restorable_def bindM_def logM_def record_event_def readFile_def writeFile_def
      map_upd_triv)

lemma exitM_run: "exitM n w = (Inl (NamedError ''process.exit'' (int_to_string n)), w)"
  by (simp add: exitM_def failM_def)

lemma int_to_string_1: "int_to_string 1 = ''1''"
  by code_simp

text \<open>The loop over the mutations: without a survivor, or without the option to stop at one, and up to the first.\<close>

lemma test_mutations_complete:
  assumes "\<forall>m \<in> set ms. restorable (chain w) m" "ff \<longrightarrow> (\<forall>m \<in> set ms. \<not> survives env paths (chain w) m)"
  shows "\<exists>w'. test_mutations env ff paths ms r w = (Inr (judged (survives env paths (chain w)) ms r), w') \<and>
    chain w' = chain w"
  using assms
proof (induction ms arbitrary: r w)
  case Nil
  then show ?case by (simp add: retM_def judged_Nil)
next
  case (Cons m ms)
  let ?S = "survives env paths (chain w)"
  have m: "restorable (chain w) m" using Cons.prems(1) by simp
  from mutation_step [OF m, of env ff paths ms r] obtain w1 where
    w1: "chain w1 = (chain w)(file_path m \<mapsto> applyToString m (the (chain w (file_path m))))" and
    run: "test_mutations env ff paths (m # ms) r w =
      bindM (if ?S m then bindM (mutantSurvived env m r) (\<lambda>r'. if ff then exitM 1 else retM r')
             else mutantKilled env m r)
        (\<lambda>r'. bindM (restore m) (\<lambda>_. test_mutations env ff paths ms r')) w1" by blast
  let ?r = "if ?S m then r\<lparr>survived := survived r @ [m]\<rparr> else r\<lparr>killed := killed r @ [m]\<rparr>"
  obtain w2 where judge: "(if ?S m then bindM (mutantSurvived env m r) (\<lambda>r'. if ff then exitM 1 else retM r')
      else mutantKilled env m r) w1 = (Inr ?r, w2)" "chain w2 = chain w1"
    using Cons.prems(2) by (cases "?S m")
      (auto simp: bindM_def retM_def mutantSurvived_def mutantKilled_def logM_def record_event_def)
  obtain w3 where w3: "restore m w2 = (Inr (), w3)" "chain w3 = chain w"
    using restore_run [OF m, of w2] judge(2) w1 by metis
  have "test_mutations env ff paths (m # ms) r w = test_mutations env ff paths ms ?r w3"
    using run judge(1) w3(1) by (simp add: bindM_def)
  then show ?case using Cons.IH [of w3 ?r] Cons.prems w3(2) by (simp add: judged_Cons)
qed

lemma test_mutations_failfast:
  assumes "\<forall>m \<in> set ms. restorable (chain w) m" "\<exists>m \<in> set ms. survives env paths (chain w) m"
  shows "\<exists>m w'. find (survives env paths (chain w)) ms = Some m \<and>
    test_mutations env True paths ms r w = (Inl (NamedError ''process.exit'' ''1''), w') \<and>
    chain w' = (chain w)(file_path m \<mapsto> applyToString m (the (chain w (file_path m))))"
  using assms
proof (induction ms arbitrary: r w)
  case Nil
  then show ?case by simp
next
  case (Cons m ms)
  let ?S = "survives env paths (chain w)"
  have m: "restorable (chain w) m" using Cons.prems(1) by simp
  from mutation_step [OF m, of env True paths ms r] obtain w1 where
    w1: "chain w1 = (chain w)(file_path m \<mapsto> applyToString m (the (chain w (file_path m))))" and
    run: "test_mutations env True paths (m # ms) r w =
      bindM (if ?S m then bindM (mutantSurvived env m r) (\<lambda>r'. if True then exitM 1 else retM r')
             else mutantKilled env m r)
        (\<lambda>r'. bindM (restore m) (\<lambda>_. test_mutations env True paths ms r')) w1" by blast
  show ?case
  proof (cases "?S m")
    case True
    obtain w2 where survived: "mutantSurvived env m r w1 = (Inr (r\<lparr>survived := survived r @ [m]\<rparr>), w2)"
      and w2: "chain w2 = chain w1" by (rule mutantSurvived_run)
    have "test_mutations env True paths (m # ms) r w = (Inl (NamedError ''process.exit'' ''1''), w2)"
      unfolding run using True survived by (simp add: bindM_def exitM_run int_to_string_1)
    moreover have "find ?S (m # ms) = Some m" using True by simp
    ultimately show ?thesis using w1 w2 by metis
  next
    case False
    obtain w2 where judge: "mutantKilled env m r w1 = (Inr (r\<lparr>killed := killed r @ [m]\<rparr>), w2)" "chain w2 = chain w1"
      by (rule mutantKilled_run)
    obtain w3 where w3: "restore m w2 = (Inr (), w3)" "chain w3 = chain w"
      using restore_run [OF m, of w2] judge(2) w1 by metis
    have "test_mutations env True paths (m # ms) r w = test_mutations env True paths ms (r\<lparr>killed := killed r @ [m]\<rparr>) w3"
      using run judge(1) w3(1) False by (simp add: bindM_def)
    moreover have "find ?S (m # ms) = find ?S ms" using False by simp
    moreover have "\<forall>m \<in> set ms. restorable (chain w3) m" "\<exists>m \<in> set ms. survives env paths (chain w3) m"
      using Cons.prems w3(2) False by simp_all
    ultimately show ?thesis
      using Cons.IH [of w3 "r\<lparr>killed := killed r @ [m]\<rparr>"] w3(2) by (simp del: test_mutations.simps)
  qed
qed

section \<open>The whole command\<close>

lemma mutator_file:
  assumes "m \<in> set (CompositeMutator (all_mutators env f source) ns)"
  shows "file_path m = f"
proof -
  from assms obtain mu n where "mu \<in> set (all_mutators env f source)" "m \<in> set (mu n)"
    by (auto simp: CompositeMutator_def)
  then show ?thesis
    by (cases n) (auto simp: all_mutators_def operator_mutation_def Let_def literal_mutation_def
        split: option.splits if_splits)
qed

definition mutations_of :: "tool_env \<Rightarrow> files \<Rightarrow> string list \<Rightarrow> mutation list" where
  "mutations_of env fs found =
     concat (map (\<lambda>f. CompositeMutator (all_mutators env f (the (fs f))) (projr (nodes env (the (fs f))))) found)"

definition baseline_ready :: "tool_env \<Rightarrow> files \<Rightarrow> string list \<Rightarrow> bool" where
  "baseline_ready env fs found \<longleftrightarrow> (\<forall>f \<in> set found. fs f \<noteq> None \<and> fs (baseline_path f) = fs f \<and>
     baseline_path f \<noteq> f \<and> (\<exists>ns. nodes env (the (fs f)) = Inr ns))"

lemma generateAllMutations_run:
  assumes "baseline_ready env (chain w) found"
  shows "generateAllMutations env found w = (Inr (mutations_of env (chain w) found), w)"
proof -
  have "mapM (file_mutations env) found w =
     (Inr (map (\<lambda>f. CompositeMutator (all_mutators env f (the (chain w f))) (projr (nodes env (the (chain w f))))) found), w)"
    using assms by (induction found)
      (auto simp: baseline_ready_def retM_def bindM_def file_mutations_def readFile_def parseM_def liftM_def)
  then show ?thesis by (simp add: generateAllMutations_def bindM_def retM_def mutations_of_def)
qed

lemma mutations_restorable:
  assumes "baseline_ready env fs found" "m \<in> set (mutations_of env fs found)"
  shows "restorable fs m"
  using assms by (auto simp: mutations_of_def baseline_ready_def restorable_def baseline_def dest!: mutator_file)

lemma reporter_summary_run:
  obtains w' where "reporter_summary env r w = (Inr (), w')" "chain w' = chain w"
  by (simp add: reporter_summary_def bindM_def logM_def record_event_def)

lemma test_command_start:
  assumes "glob env (contractsDir @ getContractsGlob argv) fs = Inr found" "fs = copy_baseline env (chain w)"
    and "baseline_ready env fs found"
  obtains w' where "chain w' = fs" and "test_command env ff argv w =
    bindM (test_mutations env ff (test_paths argv) (mutations_of env fs found) new_reporter)
      (\<lambda>r. bindM (reporter_summary env r) (\<lambda>_. retM r)) w'"
proof -
  have "prints (getTestFilePaths argv :: (files, string list) io) (test_paths argv)"
    unfolding getTestFilePaths_def by (intro prints_intros)
  then obtain es where paths: "getTestFilePaths argv w = (Inr (test_paths argv), w\<lparr>trace := trace w @ es\<rparr>)"
    by (rule prints_run)
  let ?w = "w\<lparr>trace := trace w @ es, chain := fs\<rparr>"
  have "generateAllMutations env found ?w = (Inr (mutations_of env fs found), ?w)"
    using generateAllMutations_run [of env ?w found] assms(3) by simp
  then have "test_command env ff argv w =
    bindM (test_mutations env ff (test_paths argv) (mutations_of env fs found) new_reporter)
      (\<lambda>r. bindM (reporter_summary env r) (\<lambda>_. retM r)) ?w"
    using assms(1,2) by (simp add: test_command_def bindM_def paths prepare_def)
  then show ?thesis by (rule that [rotated]) simp
qed


text \<open>One contract with one comparison, and tests that do not notice a changed boundary.\<close>

definition sample_file :: string where "sample_file = ''contracts/A.sol''"

definition sample_files :: files where
  "sample_files = [sample_file \<mapsto> ''x < 5'']"

definition sample_tool :: tool_env where
  "sample_tool = \<lparr>
     nodes = (\<lambda>s. Inr [BinaryOperation ''<'' (0, 0) (4, 4), NumberLiteral ''5'' None (4, 4)]),
     sha1 = (\<lambda>s. s), diffLines = (\<lambda>s t. [Removed s, Added t]), chalk = (\<lambda>c s. s), double_text = (\<lambda>n d. []),
     copy_baseline = (\<lambda>fs. fs(baseline_path sample_file := fs sample_file)),
     glob = (\<lambda>p fs. Inr [sample_file]),
     npm = (\<lambda>args fs. if fs sample_file = Some ''x <= 5'' then Some 0 else Some 1)\<rparr>"


end
