(* ===== verification/Mutator_Laws.thy ===== *)
theory Mutator_Laws
  imports Mutators
begin

text \<open>
  What the mutators of conditions do to a source: which operator they put in the place of the old
  one, that nothing else changes, and when a mutation changes nothing at all.
\<close>

definition comparisons :: "string list" where
  "comparisons = [''<'', ''>'', ''<='', ''>='', ''=='', ''!='']"

text \<open>Text between the operands and the operator: blanks, or comments without operators.\<close>

definition plain :: "string \<Rightarrow> bool" where
  "plain s \<longleftrightarrow> (\<forall>c \<in> set s. c \<notin> {CHR ''<'', CHR ''>'', CHR ''='', CHR ''!''})"

definition inverse_operator :: "string \<Rightarrow> string" where
  "inverse_operator op =
     (if op = ''<'' then ''>'' else if op = ''>'' then ''<'' else if op = ''<='' then ''>=''
      else if op = ''>='' then ''<='' else if op = ''=='' then ''!='' else ''=='')"

text \<open>The operator with the other boundary and the text after it; a strict one takes the place of the next character too.\<close>

definition other_boundary :: "string \<Rightarrow> string \<Rightarrow> string" where
  "other_boundary op post =
     (if op = ''<='' \<or> op = ''>='' then take 1 op @ post
      else case post of [] \<Rightarrow> op | c # rest \<Rightarrow> op @ ''= '' @ rest)"

lemma replace_first_at:
  assumes "op \<noteq> []" "hd op \<notin> set pre"
  shows "replace_first op rep (pre @ op @ post) = pre @ rep @ post"
  using assms(2)
proof (induction pre)
  case Nil
  then show ?case using assms(1) by (cases op) simp_all
next
  case (Cons c pre)
  then show ?case using assms(1) by (cases op) auto
qed

lemma comparison_start: "op \<in> set comparisons \<Longrightarrow> op \<noteq> [] \<and> hd op \<in> {CHR ''<'', CHR ''>'', CHR ''='', CHR ''!''}"
  unfolding comparisons_def by fastforce

lemma replace_first_plain:
  assumes "plain pre" "op \<in> set comparisons"
  shows "replace_first op rep (pre @ op @ post) = pre @ rep @ post"
  using comparison_start [OF assms(2)] assms(1) by (intro replace_first_at) (auto simp: plain_def)

lemma replace_not_before_eq_plain:
  assumes "plain pre" "plain post" "p = CHR ''<'' \<or> p = CHR ''>''"
  shows "replace_not_before_eq p (p # ''= '') (pre @ p # post) =
    pre @ (case post of [] \<Rightarrow> [p] | c # rest \<Rightarrow> p # ''= '' @ rest)"
  using assms
proof (induction pre)
  case Nil
  then show ?case by (cases post) (auto simp: plain_def)
next
  case (Cons c pre)
  then have "replace_not_before_eq p (p # ''= '') (c # pre @ p # post) =
      c # replace_not_before_eq p (p # ''= '') (pre @ p # post)"
    by (cases pre) (auto simp: plain_def)
  with Cons show ?case by (simp add: plain_def)
qed

lemma inversion_change_plain:
  assumes "plain pre" "op \<in> set comparisons"
  shows "inversion_change op (pre @ op @ post) = Some (pre @ inverse_operator op @ post)"
proof -
  have r: "replace_first op rep (pre @ op @ post) = pre @ rep @ post" for rep
    by (rule replace_first_plain [OF assms])
  from assms(2) show ?thesis using r by (auto simp: comparisons_def inversion_change_def inverse_operator_def)
qed

lemma boundary_change_plain:
  assumes "plain pre" "plain post" "op \<in> set comparisons"
  shows "boundary_change op (pre @ op @ post) =
    (if op = ''=='' \<or> op = ''!='' then None else Some (pre @ other_boundary op post))"
proof -
  have r: "replace_first op rep (pre @ op @ post) = pre @ rep @ post" for rep
    by (rule replace_first_plain [OF assms(1,3)])
  note s = replace_not_before_eq_plain [OF assms(1,2)]
  from assms(3) show ?thesis
    using r s [of "CHR ''<''"] s [of "CHR ''>''"]
    by (auto simp: comparisons_def boundary_change_def other_boundary_def split: list.splits)
qed

text \<open>The node of an operator between the texts \<open>a @ pre\<close> and \<open>post @ b\<close>, where \<open>b\<close> starts with the right operand.\<close>

definition comparison_node :: "nat \<Rightarrow> nat \<Rightarrow> string \<Rightarrow> string \<Rightarrow> string \<Rightarrow> string \<Rightarrow> node" where
  "comparison_node l r a pre op post =
     BinaryOperation op (l, length a - 1) (length a + length pre + length op + length post, r)"

lemma operator_mutation_between:
  assumes "a \<noteq> []" "change (pre @ op @ post) = Some t" "t \<noteq> []"
  shows "\<exists>m. operator_mutation f (a @ pre @ op @ post @ b) (l, length a - 1)
      (length a + length pre + length op + length post, r) change = [m] \<and>
    file_path m = f \<and> applyToString m (a @ pre @ op @ post @ b) = a @ t @ b"
proof -
  have "Suc (length a - 1) = length a" using assms(1) by (cases a) simp_all
  with assms show ?thesis
    by (simp add: operator_mutation_def slice_def Let_def applyToString_def splice_def nat_add_distrib)
qed

lemma operator_mutation_none:
  assumes "a \<noteq> []" "change (pre @ op @ post) = None"
  shows "operator_mutation f (a @ pre @ op @ post @ b) (l, length a - 1)
      (length a + length pre + length op + length post, r) change = []"
proof -
  have "Suc (length a - 1) = length a" using assms(1) by (cases a) simp_all
  with assms(2) show ?thesis by (simp add: operator_mutation_def slice_def Let_def)
qed

lemma inverse_operators:
  "\<forall>op \<in> set comparisons. inverse_operator op \<in> set comparisons \<and> inverse_operator (inverse_operator op) = op \<and>
    inverse_operator op \<noteq> op \<and> length (inverse_operator op) = length op"
  by code_simp

lemmas inverse_operator_comparison = inverse_operators [rule_format]

text \<open>
  The mutators of a comparison. The inversion gives one mutation, which replaces exactly the operator by another
  one, and inverting the mutated comparison restores the source. The change of the boundary gives no
  mutation of an equality test; otherwise it gives one, which toggles between the strict and the
  weak operator, but takes the character after a strict operator with it, and leaves the
  source unchanged when the right operand follows a strict operator directly.
\<close>

lemma comparison_mutants:
  assumes "op \<in> set comparisons" "plain pre" "plain post" "a \<noteq> []"
    and "source = a @ pre @ op @ post @ b" "inverted = a @ pre @ inverse_operator op @ post @ b"
  shows "(\<exists>m. ConditionalInversionMutator f source (comparison_node l r a pre op post) = [m] \<and>
      applyToString m source = inverted \<and> inverted \<noteq> source) \<and>
    (\<exists>m. ConditionalInversionMutator f inverted (comparison_node l r a pre (inverse_operator op) post) = [m] \<and>
      applyToString m inverted = source) \<and>
    (if op = ''=='' \<or> op = ''!=''
     then ConditionalBoundaryMutator f source (comparison_node l r a pre op post) = []
     else \<exists>m. ConditionalBoundaryMutator f source (comparison_node l r a pre op post) = [m] \<and>
       applyToString m source = a @ pre @ other_boundary op post @ b \<and>
       (applyToString m source = source \<longleftrightarrow> op \<in> {''<'', ''>''} \<and> post = []))"
proof (intro conjI)
  note inv = inverse_operator_comparison [OF assms(1)]
  have nonempty: "inverse_operator op \<noteq> []" "op \<noteq> []" using inv assms(1) by (auto simp: comparisons_def)
  have other: "inverted \<noteq> source" using inv assms(5,6) by simp
  show "\<exists>m. ConditionalInversionMutator f source (comparison_node l r a pre op post) = [m] \<and>
      applyToString m source = inverted \<and> inverted \<noteq> source"
    using operator_mutation_between [OF assms(4), of "inversion_change op" pre op post "pre @ inverse_operator op @ post" f b l r]
      inversion_change_plain [OF assms(2,1)] nonempty other by (auto simp: comparison_node_def assms(5,6))
  show "\<exists>m. ConditionalInversionMutator f inverted (comparison_node l r a pre (inverse_operator op) post) = [m] \<and>
      applyToString m inverted = source"
    using operator_mutation_between [OF assms(4), of "inversion_change (inverse_operator op)" pre "inverse_operator op" post
        "pre @ op @ post" f b l r]
      inversion_change_plain [OF assms(2) inv [THEN conjunct1]] nonempty inv by (auto simp: comparison_node_def assms(5,6))
  have change: "boundary_change op (pre @ op @ post) =
      (if op = ''=='' \<or> op = ''!='' then None else Some (pre @ other_boundary op post))"
    by (rule boundary_change_plain [OF assms(2,3,1)])
  show "if op = ''=='' \<or> op = ''!=''
     then ConditionalBoundaryMutator f source (comparison_node l r a pre op post) = []
     else \<exists>m. ConditionalBoundaryMutator f source (comparison_node l r a pre op post) = [m] \<and>
       applyToString m source = a @ pre @ other_boundary op post @ b \<and>
       (applyToString m source = source \<longleftrightarrow> op \<in> {''<'', ''>''} \<and> post = [])"
  proof (cases "op = ''=='' \<or> op = ''!=''")
    case True
    with change operator_mutation_none [OF assms(4), of "boundary_change op" pre op post] show ?thesis
      by (auto simp: comparison_node_def assms(5))
  next
    case False
    with change have "boundary_change op (pre @ op @ post) = Some (pre @ other_boundary op post)" by simp
    moreover have "pre @ other_boundary op post \<noteq> []"
      using assms(1) by (auto simp: other_boundary_def comparisons_def split: list.splits)
    moreover have "other_boundary op post = op @ post \<longleftrightarrow> op \<in> {''<'', ''>''} \<and> post = []"
      using assms(1,3) False by (auto simp: other_boundary_def comparisons_def plain_def split: list.splits)
    ultimately show ?thesis
      using False operator_mutation_between [OF assms(4), of "boundary_change op" pre op post _ f b l r]
      by (auto simp: comparison_node_def assms(5))
  qed
qed

text \<open>\<open>a <b\<close>: the inversion yields \<open>a >b\<close>, the change of the boundary nothing new.\<close>

lemma comparison_mutants_witness:
  "\<exists>m m'. ConditionalInversionMutator ''A.sol'' ''a <b'' (BinaryOperation ''<'' (0, 0) (3, 3)) = [m] \<and>
     applyToString m ''a <b'' = ''a >b'' \<and>
     ConditionalBoundaryMutator ''A.sol'' ''a <b'' (BinaryOperation ''<'' (0, 0) (3, 3)) = [m'] \<and>
     applyToString m' ''a <b'' = ''a <b''"
proof -
  have "''<'' \<in> set comparisons" "plain '' ''" "plain []" "''a'' \<noteq> []"
    by (simp_all add: comparisons_def plain_def)
  from comparison_mutants [OF this refl refl, where f = "''A.sol''" and b = "''b''" and l = 0 and r = 3] show ?thesis
    by (auto simp: comparison_node_def inverse_operator_def numeral_3_eq_3)
qed

end
