(* ===== verification/Vault_Validation.thy ===== *)
theory Vault_Validation
  imports Vault_Changes Differences
begin

text \<open>
  \<open>packages/dev-frontend/src/components/Vault/validation/validateVaultChange.tsx\<close>: whether the
  change a user has edited is allowed, and what the user is told. The layout of the messages is left out: a
  description is the kind of its message with the amounts it shows.
\<close>

section \<open>Descriptions\<close>

datatype description =
    DebtTooLow string
  | RatioTooLow string
  | OpeningLowersTotal string
  | AdjustmentLowersTotal string
  | MissingToClose string
  | ExceedsBalance string
  | OpeningInRecoveryMode string
  | ClosingInRecoveryMode
  | LastVault
  | DecreaseInRecoveryMode
  | VaultAdjustment vault_adjustment_params

text \<open>What \<open>VaultAdjustmentDescription\<close> says when it is rendered.\<close>

datatype sentence =
    DepositAndReceive string string
  | PayAndReceive string string
  | DepositAndPay string string
  | ReceiveTwo string string
  | Deposit string
  | ReceiveCollateral string
  | ReceiveBPD string
  | Pay string

definition pretty :: "decimal option \<Rightarrow> string result" where
  "pretty x = (case x of None \<Rightarrow> Inl TypeError | Some d \<Rightarrow> prettify d 2)"

definition sentence1 :: "(string \<Rightarrow> sentence) \<Rightarrow> decimal option \<Rightarrow> sentence result" where
  "sentence1 f x = bindE (pretty x) (\<lambda>s. Inr (f s))"

definition sentence2 :: "(string \<Rightarrow> string \<Rightarrow> sentence) \<Rightarrow> decimal option \<Rightarrow> decimal option \<Rightarrow> sentence result" where
  "sentence2 f x y = bindE (pretty x) (\<lambda>s. bindE (pretty y) (\<lambda>t. Inr (f s t)))"

definition VaultAdjustmentDescription :: "vault_adjustment_params \<Rightarrow> sentence result" where
  "VaultAdjustmentDescription params =
     (let deposit = depositCollateral params; withdraw = withdrawCollateral params;
          borrow = borrowBPD params; repay = repayBPD params in
      if deposit \<noteq> None \<and> borrow \<noteq> None then sentence2 DepositAndReceive deposit borrow
      else if repay \<noteq> None \<and> withdraw \<noteq> None then sentence2 PayAndReceive repay withdraw
      else if deposit \<noteq> None \<and> repay \<noteq> None then sentence2 DepositAndPay deposit repay
      else if borrow \<noteq> None \<and> withdraw \<noteq> None then sentence2 ReceiveTwo withdraw borrow
      else if deposit \<noteq> None then sentence1 Deposit deposit
      else if withdraw \<noteq> None then sentence1 ReceiveCollateral withdraw
      else if borrow \<noteq> None then sentence1 ReceiveBPD borrow
      else sentence1 Pay repay)"

definition threshold_percent :: "decimal \<Rightarrow> string result" where
  "threshold_percent d = bindE (new_Percent (RDecimal d)) (\<lambda>p. percent_toString p 0)"

section \<open>The validation\<close>

record validation_context =
  price :: decimal
  total :: vault
  bpdBalance :: decimal
  numberOfVaults :: int

text \<open>\<open>change.params\<close>: the properties a kind of change does not have are \<open>undefined\<close>.\<close>

fun change_params :: "vault_change \<Rightarrow> vault_adjustment_params" where
  "change_params (InvalidCreation v e) = noAdjustment"
| "change_params (Creation p) = noAdjustment\<lparr>depositCollateral := Some (cp_depositCollateral p), borrowBPD := Some (cp_borrowBPD p)\<rparr>"
| "change_params (Closure p) = noAdjustment\<lparr>withdrawCollateral := Some (clp_withdrawCollateral p), repayBPD := clp_repayBPD p\<rparr>"
| "change_params (Adjustment p z) = p"

fun is_invalidCreation :: "vault_change \<Rightarrow> bool" where
  "is_invalidCreation (InvalidCreation v e) = True" | "is_invalidCreation _ = False"

fun is_creation :: "vault_change \<Rightarrow> bool" where
  "is_creation (Creation p) = True" | "is_creation _ = False"

fun is_closure :: "vault_change \<Rightarrow> bool" where
  "is_closure (Closure p) = True" | "is_closure _ = False"

fun is_adjustment :: "vault_change \<Rightarrow> bool" where
  "is_adjustment (Adjustment p z) = True" | "is_adjustment _ = False"

text \<open>\<open>b && r\<close>, and a statement \<open>if (c) return [undefined, d]\<close> before the rest.\<close>

definition andE :: "bool \<Rightarrow> bool result \<Rightarrow> bool result" where
  "andE b r = (if b then r else Inr False)"

type_synonym validation = "vault_change option \<times> description option"

definition refuse_if :: "bool result \<Rightarrow> description result \<Rightarrow> validation result \<Rightarrow> validation result" where
  "refuse_if c d rest =
     bindE c (\<lambda>b. if b then bindE d (\<lambda>x. Inr (None, Some x)) else rest)"

definition excess_text :: "decimal option \<Rightarrow> decimal \<Rightarrow> string result" where
  "excess_text repay balance =
     (case repay of None \<Rightarrow> Inl TypeError
      | Some r \<Rightarrow> bindE (sub_d r (DDecimal balance)) (\<lambda>d. prettify d 2))"

definition total_after :: "vault \<Rightarrow> vault \<Rightarrow> vault \<Rightarrow> vault result" where
  "total_after tot original afterFee = bindE (subtract tot original) (\<lambda>t. Inr (vault_add t afterFee))"

definition below_critical :: "vault \<Rightarrow> decimal \<Rightarrow> bool result" where
  "below_critical v p = collateralRatioIsBelowCritical v (DDecimal p)"

definition validate_change :: "vault \<Rightarrow> vault \<Rightarrow> vault \<Rightarrow> validation_context \<Rightarrow> vault_change \<Rightarrow> validation result" where
  "validate_change original edited afterFee ctx change =
     (let p = price ctx; params = change_params change; repay = repayBPD params in
      refuse_if (Inr (is_invalidCreation change \<or> (\<not> is_closure change \<and> debt afterFee < BPD_MINIMUM_DEBT)))
        (bindE (toString BPD_MINIMUM_DEBT None) (\<lambda>s. Inr (DebtTooLow s))) (
      refuse_if (andE (is_creation change \<or>
            (is_adjustment change \<and> (withdrawCollateral params \<noteq> None \<or> borrowBPD params \<noteq> None)))
          (collateralRatioIsBelowMinimum afterFee (DDecimal p)))
        (bindE (threshold_percent MINIMUM_COLLATERAL_RATIO) (\<lambda>s. Inr (RatioTooLow s))) (
      refuse_if (andE (is_creation change \<or> is_adjustment change)
          (bindE (below_critical (total ctx) p) (\<lambda>b. andE (\<not> b)
            (bindE (total_after (total ctx) original afterFee) (\<lambda>t. below_critical t p)))))
        (bindE (threshold_percent CRITICAL_COLLATERAL_RATIO) (\<lambda>s.
          Inr (if is_creation change then OpeningLowersTotal s else AdjustmentLowersTotal s))) (
      refuse_if (case repay of None \<Rightarrow> Inr False | Some r \<Rightarrow> gt_d r (DDecimal (bpdBalance ctx)))
        (bindE (excess_text repay (bpdBalance ctx)) (\<lambda>s.
          Inr (if isEmpty edited then MissingToClose s else ExceedsBalance s))) (
      refuse_if (andE (is_creation change)
          (bindE (below_critical (total ctx) p) (\<lambda>b. andE b
            (bindE (isOpenableInRecoveryMode afterFee (DDecimal p)) (\<lambda>o'. Inr (\<not> o'))))))
        (bindE (threshold_percent CRITICAL_COLLATERAL_RATIO) (\<lambda>s. Inr (OpeningInRecoveryMode s))) (
      refuse_if (andE (is_closure change) (below_critical (total ctx) p)) (Inr ClosingInRecoveryMode) (
      refuse_if (Inr (is_closure change \<and> numberOfVaults ctx = 1)) (Inr LastVault) (
      refuse_if (andE (is_adjustment change)
          (bindE (below_critical (total ctx) p) (\<lambda>b. andE b
            (bindE (collateralRatio afterFee (DDecimal p)) (\<lambda>ra.
             bindE (collateralRatio original (DDecimal p)) (\<lambda>ro. lt_d ra (DDecimal ro)))))))
        (Inr DecreaseInRecoveryMode)
        (Inr (Some change, Some (VaultAdjustment params)))))))))))"

definition validateVaultChange :: "vault \<Rightarrow> vault \<Rightarrow> decimal \<Rightarrow> validation_context \<Rightarrow> validation result" where
  "validateVaultChange original edited borrowingRate ctx =
     bindE (whatChanged original edited (Some (DDecimal borrowingRate))) (\<lambda>change.
     bindE (apply_v original change (Some (DDecimal borrowingRate))) (\<lambda>afterFee.
       case change of
         None \<Rightarrow> Inr (None, None)
       | Some c \<Rightarrow> validate_change original edited afterFee ctx c))"

section \<open>Which changes are accepted\<close>

text \<open>The rules of the protocol in exact integers: no rounded ratio occurs in them, except for the last.\<close>

definition below :: "decimal \<Rightarrow> 'a vault_scheme \<Rightarrow> decimal \<Rightarrow> bool" where
  "below threshold v p \<longleftrightarrow> bigNumber (collateral v) * bigNumber p < bigNumber threshold * bigNumber (debt v)"

definition recovery_mode :: "validation_context \<Rightarrow> bool" where
  "recovery_mode ctx \<longleftrightarrow> below CRITICAL_COLLATERAL_RATIO (total ctx) (price ctx)"

definition new_total :: "validation_context \<Rightarrow> vault \<Rightarrow> vault \<Rightarrow> vault" where
  "new_total ctx v a = Vault (add_dec (monus (collateral (total ctx)) (collateral v)) (collateral a))
     (add_dec (monus (debt (total ctx)) (debt v)) (debt a))"

definition ratio_of :: "vault \<Rightarrow> decimal \<Rightarrow> decimal" where
  "ratio_of v p = mulDiv_dec (collateral v) p (debt v)"

fun allowed :: "validation_context \<Rightarrow> vault \<Rightarrow> vault \<Rightarrow> vault_change \<Rightarrow> bool" where
  "allowed ctx v a (InvalidCreation i e) = False"
| "allowed ctx v a (Creation p) =
     (BPD_MINIMUM_DEBT \<le> debt a \<and> \<not> below MINIMUM_COLLATERAL_RATIO a (price ctx) \<and>
      (if recovery_mode ctx then \<not> below CRITICAL_COLLATERAL_RATIO a (price ctx)
       else \<not> below CRITICAL_COLLATERAL_RATIO (new_total ctx v a) (price ctx)))"
| "allowed ctx v a (Closure p) =
     ((\<forall>r. clp_repayBPD p = Some r \<longrightarrow> r \<le> bpdBalance ctx) \<and> \<not> recovery_mode ctx \<and> numberOfVaults ctx \<noteq> 1)"
| "allowed ctx v a (Adjustment p z) =
     (BPD_MINIMUM_DEBT \<le> debt a \<and>
      (withdrawCollateral p \<noteq> None \<or> borrowBPD p \<noteq> None \<longrightarrow> \<not> below MINIMUM_COLLATERAL_RATIO a (price ctx)) \<and>
      (\<forall>r. repayBPD p = Some r \<longrightarrow> r \<le> bpdBalance ctx) \<and>
      (if recovery_mode ctx then ratio_of v (price ctx) \<le> ratio_of a (price ctx)
       else \<not> below CRITICAL_COLLATERAL_RATIO (new_total ctx v a) (price ctx)))"

lemma collateralRatio_dec: "collateralRatio v (DDecimal p) = Inr (mulDiv_dec (collateral v) p (debt v))"
  by (simp add: collateralRatio_def mulDiv_d_def)

lemma below_tests:
  "collateralRatioIsBelowMinimum v (DDecimal p) = Inr (below MINIMUM_COLLATERAL_RATIO v p)"
  "below_critical w p = Inr (below CRITICAL_COLLATERAL_RATIO w p)"
  "isOpenableInRecoveryMode v (DDecimal p) = Inr (\<not> below CRITICAL_COLLATERAL_RATIO v p)"
  by (simp_all add: collateralRatioIsBelowMinimum_def below_critical_def collateralRatioIsBelowCritical_def
      isOpenableInRecoveryMode_def collateralRatio_dec below_def mulDiv_dec_less_iff [OF ratio_thresholds(1)]
      mulDiv_dec_less_iff [OF ratio_thresholds(2)] not_less [symmetric])

lemma total_after_eq: "total_after (total ctx) v a = Inr (new_total ctx v a)"
  by (simp add: total_after_def new_total_def vault_add_def)

text \<open>The texts of the messages can be printed.\<close>

lemma prettify_ok: "\<exists>s. prettify d 2 = Inr s"
proof -
  have "\<exists>s. toString d (Some 2) = Inr s" unfolding toString_def toStringWithPrecision_def Let_def by simp
  then show ?thesis unfolding prettify_def Let_def by (simp only: bindE_succeeds)
qed

lemma toString_ok: "\<exists>s. toString d None = Inr s"
  by (simp add: toString_def)

lemma excess_ok: "bal < r \<Longrightarrow> \<exists>s. excess_text (Some r) bal = Inr s"
  using prettify_ok by (simp add: excess_text_def sub_dec_monus less_imp_le)

lemma threshold_percents:
  "\<exists>s. threshold_percent MINIMUM_COLLATERAL_RATIO = Inr s" "\<exists>s. threshold_percent CRITICAL_COLLATERAL_RATIO = Inr s"
proof -
  have "\<exists>x. mul_d d (DNumber ''100'') = Inr x" for d
    by (simp add: mul_d_def fromString_digits is_digit_def)
  then obtain f where f: "mul_d d (DNumber ''100'') = Inr (f d)" for d by metis
  have "\<exists>s. toString d (Some 0) = Inr s" for d
    unfolding toString_def toStringWithPrecision_def Let_def by simp
  then have "\<exists>s. percent_toString (Percent (RDecimal d)) 0 = Inr s" for d
    unfolding percent_toString_def by (simp only: bindE_succeeds percent.sel ratio_toString.simps)
  then have "\<exists>s. threshold_percent d = Inr s" for d
    by (cases "d = INFINITY") (simp_all add: threshold_percent_def new_Percent_def f)
  then show "\<exists>s. threshold_percent MINIMUM_COLLATERAL_RATIO = Inr s"
    "\<exists>s. threshold_percent CRITICAL_COLLATERAL_RATIO = Inr s" by blast+
qed

lemma refuse_if_Inr:
  "refuse_if (Inr b) d rest = (if b then bindE d (\<lambda>x. Inr (None, Some x)) else rest)"
  by (simp add: refuse_if_def)

lemma validate_change_accepts:
  "\<exists>d. validate_change v w a ctx change = Inr (if allowed ctx v a change then Some change else None, Some d) \<and>
    (allowed ctx v a change \<longrightarrow> d = VaultAdjustment (change_params change))"
proof -
  obtain m where m: "toString BPD_MINIMUM_DEBT None = Inr m" using toString_ok by blast
  obtain mcr ccr where percents: "threshold_percent MINIMUM_COLLATERAL_RATIO = Inr mcr"
    "threshold_percent CRITICAL_COLLATERAL_RATIO = Inr ccr" using threshold_percents by blast
  define x where "x r bal = projr (excess_text (Some r) bal)" for r bal
  have x: "bal < r \<Longrightarrow> excess_text (Some r) bal = Inr (x r bal)" for bal r
    using excess_ok [of bal r] by (auto simp: x_def)
  note tests = below_tests total_after_eq refuse_if_Inr andE_def m percents
  note rules = recovery_mode_def not_le [symmetric]
  show ?thesis
  proof (cases change)
    case (InvalidCreation i e)
    then show ?thesis by (simp add: validate_change_def Let_def refuse_if_Inr m)
  next
    case (Creation p)
    have "below MINIMUM_COLLATERAL_RATIO a (price ctx) \<Longrightarrow> below CRITICAL_COLLATERAL_RATIO a (price ctx)"
      unfolding below_def MINIMUM_COLLATERAL_RATIO_def CRITICAL_COLLATERAL_RATIO_def
      by (erule less_le_trans) simp
    with Creation show ?thesis
      by (simp add: validate_change_def Let_def tests rules noAdjustment_def)
  next
    case (Closure p)
    then show ?thesis
      by (cases "clp_repayBPD p") (auto simp: validate_change_def Let_def tests rules noAdjustment_def x)
  next
    case (Adjustment p z)
    then show ?thesis
      by (cases "repayBPD p")
        (auto simp: validate_change_def Let_def tests rules collateralRatio_dec ratio_of_def x)
  qed
qed


text \<open>Opening a vault of 20 RBTC with a debt of 2,000 at a price of 200 is accepted; with 10 RBTC it is not.\<close>

definition sample_context :: validation_context where
  "sample_context = \<lparr>price = Decimal (200 * DIGITS), total = Vault (Decimal (100 * DIGITS)) (Decimal (5000 * DIGITS)),
     bpdBalance = ZERO, numberOfVaults = 3\<rparr>"


end
