(* ===== verification/Readable.thy ===== *)
theory Readable
  imports Store
begin

text \<open>
  Reading the protocol. \<open>ReadableMoneyp\<close> (\<open>packages/lib-base/src/ReadableMoneyp.ts\<close>) is the interface of everything that can
  be read; here it is implemented on the contracts (\<open>ReadableBitcoinsMoneyp\<close> of
  \<open>packages/lib-ethers/src/ReadableBitcoinsMoneyp.ts\<close>). The contracts are the parameter \<open>chain\<close>; every query names the block
  it is made at, \<open>None\<close> for the latest. \<open>Promise.all\<close> is taken in order: of several failing queries the first
  one's error is kept.
\<close>

section \<open>The interface\<close>

type_synonym block = "nat option"

text \<open>\<open>VaultListingParams\<close>; the numbers may be any numbers, the sorting any text.\<close>

record listing =
  first :: "rat option"
  sortedBy :: string
  startingAt :: "rat option"
  beforeRedistribution :: bool

datatype listed = PendingVaults "vault_with_pending_redistribution list" | UserVaults "user_vault list"

record readable =
  getTotalRedistributed :: "block \<Rightarrow> vault result"
  getVaultBeforeRedistribution :: "string option \<Rightarrow> block \<Rightarrow> vault_with_pending_redistribution result"
  getVault :: "string option \<Rightarrow> block \<Rightarrow> user_vault result"
  getNumberOfVaults :: "block \<Rightarrow> int result"
  getPrice :: "block \<Rightarrow> decimal result"
  getTotal :: "block \<Rightarrow> vault result"
  getStabilityDeposit :: "string option \<Rightarrow> block \<Rightarrow> stability_deposit result"
  getRemainingStabilityPoolMPReward :: "block \<Rightarrow> decimal result"
  getBPDInStabilityPool :: "block \<Rightarrow> decimal result"
  getBPDBalance :: "string option \<Rightarrow> block \<Rightarrow> decimal result"
  getMPBalance :: "string option \<Rightarrow> block \<Rightarrow> decimal result"
  getCollateralSurplusBalance :: "string option \<Rightarrow> block \<Rightarrow> decimal result"
  getVaults :: "listing \<Rightarrow> block \<Rightarrow> listed result"
  getFees :: "block \<Rightarrow> fees result"
  getMPStake :: "string option \<Rightarrow> block \<Rightarrow> mp_stake result"
  getTotalStakedMP :: "block \<Rightarrow> decimal result"
  getFrontendStatus :: "string option \<Rightarrow> block \<Rightarrow> frontend_status result"

section \<open>The contracts and the connection\<close>

record backend_vault =
  bv_status :: nat
  bv_coll :: nat
  bv_debt :: nat
  bv_stake :: nat

record backend_listed =
  bl_owner :: string
  bl_coll :: nat
  bl_debt :: nat
  bl_stake :: nat
  bl_snapshotRBTC :: nat
  bl_snapshotBPDDebt :: nat

text \<open>\<open>uint c m args\<close> is the method \<open>m\<close> of contract \<open>c\<close> that returns one number; the methods with several results have fields of their own.\<close>

record chain =
  uint :: "string \<Rightarrow> string \<Rightarrow> string list \<Rightarrow> block \<Rightarrow> nat result"
  Vaults :: "string \<Rightarrow> block \<Rightarrow> backend_vault result"
  rewardSnapshots :: "string \<Rightarrow> block \<Rightarrow> (nat \<times> nat) result"
  deposits :: "string \<Rightarrow> block \<Rightarrow> (string \<times> nat) result"
  frontEnds :: "string \<Rightarrow> block \<Rightarrow> (bool \<times> nat) result"
  getMultipleSortedVaults :: "rat \<Rightarrow> rat option \<Rightarrow> block \<Rightarrow> backend_listed list result"
  blockTimestamp :: "block \<Rightarrow> int result"
  getBalance :: "string \<Rightarrow> block \<Rightarrow> nat result"

record connection =
  c_userAddress :: "string option"
  c_frontendTag :: "string option"
  totalStabilityPoolMPReward :: decimal

definition requireAddress :: "connection \<Rightarrow> string result" where
  "requireAddress cn = (case c_userAddress cn of Some a \<Rightarrow> Inr a | None \<Rightarrow> Inl (Error ''A user address is required''))"

definition requireFrontendAddress :: "connection \<Rightarrow> string result" where
  "requireFrontendAddress cn =
     (case c_frontendTag cn of Some a \<Rightarrow> Inr a | None \<Rightarrow> Inl (Error ''A frontend address is required''))"

text \<open>\<open>address ??= _requireAddress(connection)\<close>\<close>

definition address_or :: "string result \<Rightarrow> string option \<Rightarrow> string result" where
  "address_or required a = (case a of Some x \<Rightarrow> Inr x | None \<Rightarrow> required)"

section \<open>Conversions\<close>

definition decimalify :: "nat \<Rightarrow> decimal" where
  "decimalify n = Decimal n"

text \<open>\<open>toNumber()\<close> of a big number throws beyond the exactly represented integers.\<close>

definition toNumber :: "nat \<Rightarrow> int result" where
  "toNumber n = (if n < 2 ^ 53 then Inr (int n) else Inl (NamedError ''Error'' ''overflow''))"

definition convertToDate :: "int \<Rightarrow> int" where
  "convertToDate timestamp = timestamp * 1000"

definition userVaultStatusFrom :: "nat \<Rightarrow> user_vault_status result" where
  "userVaultStatusFrom n =
     (if n = 0 then Inr NonExistent else if n = 1 then Inr Open else if n = 2 then Inr ClosedByOwner
      else if n = 3 then Inr ClosedByLiquidation else if n = 4 then Inr ClosedByRedemption
      else Inl (Error (''invalid backendStatus '' @ nat_to_string n)))"

definition AddressZero :: string where
  "AddressZero = ''0x'' @ zeros 40"

definition MINUTE_DECAY_FACTOR :: decimal where
  "MINUTE_DECAY_FACTOR = Decimal 999037758833783000"

definition BETA :: decimal where
  "BETA = Decimal (2 * DIGITS)"

section \<open>Reading the contracts\<close>

definition amount :: "chain \<Rightarrow> string \<Rightarrow> string \<Rightarrow> string list \<Rightarrow> block \<Rightarrow> decimal result" where
  "amount ch c m args b = bindE (uint ch c m args b) (\<lambda>n. Inr (decimalify n))"

definition amount_of :: "chain \<Rightarrow> connection \<Rightarrow> string \<Rightarrow> string \<Rightarrow> string option \<Rightarrow> block \<Rightarrow> decimal result" where
  "amount_of ch cn c m a b = bindE (address_or (requireAddress cn) a) (\<lambda>x. amount ch c m [x] b)"

definition vault_of :: "decimal result \<Rightarrow> decimal result \<Rightarrow> vault result" where
  "vault_of c d = bindE c (\<lambda>coll. bindE d (\<lambda>deb. Inr (Vault coll deb)))"

definition readTotalRedistributed :: "chain \<Rightarrow> block \<Rightarrow> vault result" where
  "readTotalRedistributed ch b =
     vault_of (amount ch ''vaultManager'' ''B_RBTC'' [] b) (amount ch ''vaultManager'' ''B_BPDDebt'' [] b)"

definition pending_vault ::
  "string \<Rightarrow> user_vault_status \<Rightarrow> decimal \<Rightarrow> decimal \<Rightarrow> decimal \<Rightarrow> vault \<Rightarrow> vault_with_pending_redistribution" where
  "pending_vault a st c d s snap =
     \<lparr>collateral = c, debt = d, ownerAddress = a, status = st, stake = s, snapshotOfTotalRedistributed = snap\<rparr>"

definition empty_pending :: "string \<Rightarrow> user_vault_status \<Rightarrow> vault_with_pending_redistribution" where
  "empty_pending a st = pending_vault a st ZERO ZERO ZERO emptyVault"

definition readVaultBeforeRedistribution ::
  "connection \<Rightarrow> chain \<Rightarrow> string option \<Rightarrow> block \<Rightarrow> vault_with_pending_redistribution result" where
  "readVaultBeforeRedistribution cn ch a b =
     bindE (address_or (requireAddress cn) a) (\<lambda>x.
     bindE (Vaults ch x b) (\<lambda>v. bindE (rewardSnapshots ch x b) (\<lambda>(snapRBTC, snapDebt).
     bindE (userVaultStatusFrom (bv_status v)) (\<lambda>st.
       Inr (if bv_status v = 1
            then pending_vault x st (decimalify (bv_coll v)) (decimalify (bv_debt v)) (decimalify (bv_stake v))
                   (Vault (decimalify snapRBTC) (decimalify snapDebt))
            else empty_pending x st)))))"

definition readVault :: "connection \<Rightarrow> chain \<Rightarrow> string option \<Rightarrow> block \<Rightarrow> user_vault result" where
  "readVault cn ch a b =
     bindE (readVaultBeforeRedistribution cn ch a b) (\<lambda>v.
     bindE (readTotalRedistributed ch b) (\<lambda>t. applyRedistribution v t))"

definition readNumberOfVaults :: "chain \<Rightarrow> block \<Rightarrow> int result" where
  "readNumberOfVaults ch b = bindE (uint ch ''vaultManager'' ''getVaultOwnersCount'' [] b) toNumber"

definition readPrice :: "chain \<Rightarrow> block \<Rightarrow> decimal result" where
  "readPrice ch b = amount ch ''priceFeed'' ''fetchPrice'' [] b"

definition getActivePool :: "chain \<Rightarrow> block \<Rightarrow> vault result" where
  "getActivePool ch b = vault_of (amount ch ''activePool'' ''getRBTC'' [] b) (amount ch ''activePool'' ''getBPDDebt'' [] b)"

definition getDefaultPool :: "chain \<Rightarrow> block \<Rightarrow> vault result" where
  "getDefaultPool ch b = vault_of (amount ch ''defaultPool'' ''getRBTC'' [] b) (amount ch ''defaultPool'' ''getBPDDebt'' [] b)"

definition readTotal :: "chain \<Rightarrow> block \<Rightarrow> vault result" where
  "readTotal ch b = bindE (getActivePool ch b) (\<lambda>v. bindE (getDefaultPool ch b) (\<lambda>w. Inr (vault_add v w)))"

definition readStabilityDeposit :: "connection \<Rightarrow> chain \<Rightarrow> string option \<Rightarrow> block \<Rightarrow> stability_deposit result" where
  "readStabilityDeposit cn ch a b =
     bindE (address_or (requireAddress cn) a) (\<lambda>x.
     bindE (deposits ch x b) (\<lambda>(tag, initial).
     bindE (amount ch ''stabilityPool'' ''getCompoundedBPDDeposit'' [x] b) (\<lambda>current.
     bindE (amount ch ''stabilityPool'' ''getDepositorRBTCGain'' [x] b) (\<lambda>gain.
     bindE (amount ch ''stabilityPool'' ''getDepositorMPGain'' [x] b) (\<lambda>reward.
       new_StabilityDeposit (decimalify initial) current gain reward tag)))))"

definition readRemainingStabilityPoolMPReward :: "connection \<Rightarrow> chain \<Rightarrow> block \<Rightarrow> decimal result" where
  "readRemainingStabilityPoolMPReward cn ch b =
     bindE (amount ch ''communityIssuance'' ''totalMPIssued'' [] b) (\<lambda>issued.
       sub_dec (totalStabilityPoolMPReward cn) issued)"

text \<open>Listing vaults: the checks of the parameters, the position given to the contract, the redistribution.\<close>

definition expectPositiveInt :: "rat option \<Rightarrow> string \<Rightarrow> unit result" where
  "expectPositiveInt x key =
     (case x of
        None \<Rightarrow> Inr ()
      | Some r \<Rightarrow>
          if of_int \<lfloor>r\<rfloor> \<noteq> r then Inl (Error (key @ '' must be an integer''))
          else if r < 0 then Inl (Error (key @ '' must not be negative'')) else Inr ())"

definition validSortingOptions :: "string list" where
  "validSortingOptions = [''ascendingCollateralRatio'', ''descendingCollateralRatio'']"

definition mapBackendVaults :: "backend_listed list \<Rightarrow> vault_with_pending_redistribution list" where
  "mapBackendVaults vs = map (\<lambda>v. pending_vault (bl_owner v) Open (decimalify (bl_coll v)) (decimalify (bl_debt v))
     (decimalify (bl_stake v)) (Vault (decimalify (bl_snapshotRBTC v)) (decimalify (bl_snapshotBPDDebt v)))) vs"

definition start_index :: "listing \<Rightarrow> rat" where
  "start_index p =
     (let s = (case startingAt p of None \<Rightarrow> 0 | Some x \<Rightarrow> x) in
      if sortedBy p = ''descendingCollateralRatio'' then s else - (s + 1))"

definition apply_all :: "vault option \<Rightarrow> vault_with_pending_redistribution list \<Rightarrow> listed result" where
  "apply_all totals vs =
     (case totals of
        None \<Rightarrow> Inr (PendingVaults vs)
      | Some t \<Rightarrow> bindE (mapE (\<lambda>v. applyRedistribution v t) vs) (\<lambda>us. Inr (UserVaults us)))"

definition totals_unless :: "bool \<Rightarrow> vault result \<Rightarrow> vault option result" where
  "totals_unless skip r = (if skip then Inr None else bindE r (\<lambda>t. Inr (Some t)))"

definition readVaults :: "chain \<Rightarrow> listing \<Rightarrow> block \<Rightarrow> listed result" where
  "readVaults ch p b =
     bindE (expectPositiveInt (first p) ''first'') (\<lambda>_.
     bindE (expectPositiveInt (startingAt p) ''startingAt'') (\<lambda>_.
       if sortedBy p \<notin> set validSortingOptions then
         Inl (Error (''sortedBy must be one of: '' @
           join '', '' (map (\<lambda>x. [CHR 0x22] @ x @ [CHR 0x22]) validSortingOptions)))
       else
         bindE (totals_unless (beforeRedistribution p) (readTotalRedistributed ch b)) (\<lambda>totals.
         bindE (getMultipleSortedVaults ch (start_index p) (first p) b) (\<lambda>vs.
           apply_all totals (mapBackendVaults vs)))))"

text \<open>\<open>_getFeesFactory\<close> returns a function of the timestamp of a block and of the mode.\<close>

definition createFees :: "decimal \<Rightarrow> int \<Rightarrow> int \<Rightarrow> bool \<Rightarrow> fees result" where
  "createFees rate lastFeeOperationTime timestamp recovery =
     new_Fees (DDecimal rate) (DDecimal MINUTE_DECAY_FACTOR) (DDecimal BETA)
       (convertToDate lastFeeOperationTime) (convertToDate timestamp) recovery"

definition getFeesFactory :: "chain \<Rightarrow> block \<Rightarrow> (int \<Rightarrow> bool \<Rightarrow> fees result) result" where
  "getFeesFactory ch b =
     bindE (uint ch ''vaultManager'' ''lastFeeOperationTime'' [] b) (\<lambda>t.
     bindE (amount ch ''vaultManager'' ''baseRate'' [] b) (\<lambda>rate.
       Inr (\<lambda>timestamp recovery. bindE (toNumber t) (\<lambda>last. createFees rate last timestamp recovery))))"

definition readFees :: "chain \<Rightarrow> block \<Rightarrow> fees result" where
  "readFees ch b =
     bindE (getFeesFactory ch b) (\<lambda>create. bindE (readTotal ch b) (\<lambda>tot. bindE (readPrice ch b) (\<lambda>p.
     bindE (blockTimestamp ch b) (\<lambda>timestamp.
     bindE (collateralRatioIsBelowCritical tot (DDecimal p)) (\<lambda>recovery. create timestamp recovery)))))"

definition readMPStake :: "connection \<Rightarrow> chain \<Rightarrow> string option \<Rightarrow> block \<Rightarrow> mp_stake result" where
  "readMPStake cn ch a b =
     bindE (address_or (requireAddress cn) a) (\<lambda>x.
     bindE (amount ch ''mpStaking'' ''stakes'' [x] b) (\<lambda>staked.
     bindE (amount ch ''mpStaking'' ''getPendingRBTCGain'' [x] b) (\<lambda>gain.
     bindE (amount ch ''mpStaking'' ''getPendingBPDGain'' [x] b) (\<lambda>bpd.
       Inr (new_MPStake (Some staked) (Some gain) (Some bpd))))))"

definition readFrontendStatus :: "connection \<Rightarrow> chain \<Rightarrow> string option \<Rightarrow> block \<Rightarrow> frontend_status result" where
  "readFrontendStatus cn ch a b =
     bindE (address_or (requireFrontendAddress cn) a) (\<lambda>x. bindE (frontEnds ch x b) (\<lambda>(registered, rate).
       Inr (if registered then Registered (decimalify rate) else Unregistered)))"

definition ReadableBitcoinsMoneyp :: "connection \<Rightarrow> chain \<Rightarrow> readable" where
  "ReadableBitcoinsMoneyp cn ch = \<lparr>
     getTotalRedistributed = readTotalRedistributed ch,
     getVaultBeforeRedistribution = readVaultBeforeRedistribution cn ch,
     getVault = readVault cn ch,
     getNumberOfVaults = readNumberOfVaults ch,
     getPrice = readPrice ch,
     getTotal = readTotal ch,
     getStabilityDeposit = readStabilityDeposit cn ch,
     getRemainingStabilityPoolMPReward = readRemainingStabilityPoolMPReward cn ch,
     getBPDInStabilityPool = amount ch ''stabilityPool'' ''getTotalBPDDeposits'' [],
     getBPDBalance = amount_of ch cn ''bpdToken'' ''balanceOf'',
     getMPBalance = amount_of ch cn ''mpToken'' ''balanceOf'',
     getCollateralSurplusBalance = amount_of ch cn ''collSurplusPool'' ''getCollateral'',
     getVaults = readVaults ch,
     getFees = readFees ch,
     getMPStake = readMPStake cn ch,
     getTotalStakedMP = amount ch ''mpStaking'' ''totalMPStaked'' [],
     getFrontendStatus = readFrontendStatus cn ch\<rparr>"

end
