(* ===== verification/Cached_Reads.thy ===== *)
theory Cached_Reads
  imports Readable Store_Properties
begin

text \<open>
  Reading through the store. \<open>_CachedReadableMoneyp\<close> (\<open>packages/lib-base/src/_CachedReadableMoneyp.ts\<close>) asks a cache
  before it reads; the cache of \<open>ReadableBitcoinsMoneyp.ts\<close> answers from the state of the store, and
  \<open>BlockPolledMoneypStore\<close> (\<open>packages/lib-ethers/src/BlockPolledMoneypStore.ts\<close>) fetches this state at every new block.
\<close>

section \<open>A readable with a cache\<close>

text \<open>\<open>_MoneypReadCache\<close>: the same operations, but at once, and with \<open>undefined\<close> for what is not cached.\<close>

record read_cache =
  cTotalRedistributed :: "block \<Rightarrow> vault option"
  cVaultBeforeRedistribution :: "string option \<Rightarrow> block \<Rightarrow> vault_with_pending_redistribution option"
  cVault :: "string option \<Rightarrow> block \<Rightarrow> user_vault option"
  cNumberOfVaults :: "block \<Rightarrow> int option"
  cPrice :: "block \<Rightarrow> decimal option"
  cTotal :: "block \<Rightarrow> vault option"
  cStabilityDeposit :: "string option \<Rightarrow> block \<Rightarrow> stability_deposit option"
  cRemainingStabilityPoolMPReward :: "block \<Rightarrow> decimal option"
  cBPDInStabilityPool :: "block \<Rightarrow> decimal option"
  cBPDBalance :: "string option \<Rightarrow> block \<Rightarrow> decimal option"
  cMPBalance :: "string option \<Rightarrow> block \<Rightarrow> decimal option"
  cCollateralSurplusBalance :: "string option \<Rightarrow> block \<Rightarrow> decimal option"
  cVaults :: "listing \<Rightarrow> block \<Rightarrow> listed option"
  cFees :: "block \<Rightarrow> fees option"
  cMPStake :: "string option \<Rightarrow> block \<Rightarrow> mp_stake option"
  cTotalStakedMP :: "block \<Rightarrow> decimal option"
  cFrontendStatus :: "string option \<Rightarrow> block \<Rightarrow> frontend_status option"

text \<open>\<open>cache.get(..) ?? readable.get(..)\<close>\<close>

definition cached :: "'a option \<Rightarrow> 'a result \<Rightarrow> 'a result" where
  "cached c r = (case c of Some v \<Rightarrow> Inr v | None \<Rightarrow> r)"

definition cachedTotalRedistributed :: "readable \<Rightarrow> read_cache \<Rightarrow> block \<Rightarrow> vault result" where
  "cachedTotalRedistributed r c b = cached (cTotalRedistributed c b) (getTotalRedistributed r b)"

definition cachedVaultBeforeRedistribution ::
  "readable \<Rightarrow> read_cache \<Rightarrow> string option \<Rightarrow> block \<Rightarrow> vault_with_pending_redistribution result" where
  "cachedVaultBeforeRedistribution r c a b =
     cached (cVaultBeforeRedistribution c a b) (getVaultBeforeRedistribution r a b)"

definition cachedVault :: "readable \<Rightarrow> read_cache \<Rightarrow> string option \<Rightarrow> block \<Rightarrow> user_vault result" where
  "cachedVault r c a b =
     bindE (cachedVaultBeforeRedistribution r c a b) (\<lambda>v.
     bindE (cachedTotalRedistributed r c b) (\<lambda>t. applyRedistribution v t))"

text \<open>The listed vaults are asked for before redistribution; \<open>beforeRedistribution\<close> decides what is done with them.\<close>

definition redistribute :: "vault option \<Rightarrow> listed \<Rightarrow> listed result" where
  "redistribute totals l =
     (case totals of
        None \<Rightarrow> Inr l
      | Some t \<Rightarrow> (case l of PendingVaults vs \<Rightarrow> apply_all (Some t) vs | UserVaults us \<Rightarrow> Inl TypeError))"

definition cachedVaults :: "readable \<Rightarrow> read_cache \<Rightarrow> listing \<Rightarrow> block \<Rightarrow> listed result" where
  "cachedVaults r c p b =
     (let q = p\<lparr>beforeRedistribution := True\<rparr> in
      bindE (totals_unless (beforeRedistribution p) (cachedTotalRedistributed r c b)) (\<lambda>totals.
      bindE (cached (cVaults c q b) (getVaults r q b)) (\<lambda>vs. redistribute totals vs)))"

definition CachedReadableMoneyp :: "readable \<Rightarrow> read_cache \<Rightarrow> readable" where
  "CachedReadableMoneyp r c = \<lparr>
     getTotalRedistributed = cachedTotalRedistributed r c,
     getVaultBeforeRedistribution = cachedVaultBeforeRedistribution r c,
     getVault = cachedVault r c,
     getNumberOfVaults = (\<lambda>b. cached (cNumberOfVaults c b) (getNumberOfVaults r b)),
     getPrice = (\<lambda>b. cached (cPrice c b) (getPrice r b)),
     getTotal = (\<lambda>b. cached (cTotal c b) (getTotal r b)),
     getStabilityDeposit = (\<lambda>a b. cached (cStabilityDeposit c a b) (getStabilityDeposit r a b)),
     getRemainingStabilityPoolMPReward =
       (\<lambda>b. cached (cRemainingStabilityPoolMPReward c b) (getRemainingStabilityPoolMPReward r b)),
     getBPDInStabilityPool = (\<lambda>b. cached (cBPDInStabilityPool c b) (getBPDInStabilityPool r b)),
     getBPDBalance = (\<lambda>a b. cached (cBPDBalance c a b) (getBPDBalance r a b)),
     getMPBalance = (\<lambda>a b. cached (cMPBalance c a b) (getMPBalance r a b)),
     getCollateralSurplusBalance =
       (\<lambda>a b. cached (cCollateralSurplusBalance c a b) (getCollateralSurplusBalance r a b)),
     getVaults = cachedVaults r c,
     getFees = (\<lambda>b. cached (cFees c b) (getFees r b)),
     getMPStake = (\<lambda>a b. cached (cMPStake c a b) (getMPStake r a b)),
     getTotalStakedMP = (\<lambda>b. cached (cTotalStakedMP c b) (getTotalStakedMP r b)),
     getFrontendStatus = (\<lambda>a b. cached (cFrontendStatus c a b) (getFrontendStatus r a b))\<rparr>"

section \<open>The cache on the store\<close>

text \<open>The extra state of the store: the block it was fetched from and its timestamp.\<close>

definition state_block :: "int store \<Rightarrow> block" where
  "state_block s = (case extraState s of None \<Rightarrow> None | Some x \<Rightarrow> map_option nat (map_of x ''blockTag''))"

definition blockHit :: "int store \<Rightarrow> block \<Rightarrow> bool" where
  "blockHit s b \<longleftrightarrow> b = None \<or> b = state_block s"

definition userHit :: "connection \<Rightarrow> int store \<Rightarrow> string option \<Rightarrow> block \<Rightarrow> bool" where
  "userHit cn s a b \<longleftrightarrow> blockHit s b \<and> (a = None \<or> a = c_userAddress cn)"

definition frontendHit :: "connection \<Rightarrow> int store \<Rightarrow> string option \<Rightarrow> block \<Rightarrow> bool" where
  "frontendHit cn s a b \<longleftrightarrow> blockHit s b \<and> (a = None \<or> a = c_frontendTag cn)"

text \<open>A property of the state, \<open>undefined\<close> before the store is loaded.\<close>

definition base_if :: "bool \<Rightarrow> int store \<Rightarrow> (base_state \<Rightarrow> 'a) \<Rightarrow> 'a option" where
  "base_if hit s f = (if hit then map_option f (baseState s) else None)"

definition derived_if :: "bool \<Rightarrow> int store \<Rightarrow> (derived_state \<Rightarrow> 'a) \<Rightarrow> 'a option" where
  "derived_if hit s f = (if hit then map_option f (derivedState s) else None)"

definition StoreBasedCache :: "connection \<Rightarrow> int store \<Rightarrow> read_cache" where
  "StoreBasedCache cn s = \<lparr>
     cTotalRedistributed = (\<lambda>b. base_if (blockHit s b) s totalRedistributed),
     cVaultBeforeRedistribution = (\<lambda>a b. base_if (userHit cn s a b) s vaultBeforeRedistribution),
     cVault = (\<lambda>a b. derived_if (userHit cn s a b) s d_vault),
     cNumberOfVaults = (\<lambda>b. base_if (blockHit s b) s numberOfVaults),
     cPrice = (\<lambda>b. base_if (blockHit s b) s price),
     cTotal = (\<lambda>b. base_if (blockHit s b) s totalVault),
     cStabilityDeposit = (\<lambda>a b. base_if (userHit cn s a b) s stabilityDeposit),
     cRemainingStabilityPoolMPReward = (\<lambda>b. base_if (blockHit s b) s remainingStabilityPoolMPReward),
     cBPDInStabilityPool = (\<lambda>b. base_if (blockHit s b) s bpdInStabilityPool),
     cBPDBalance = (\<lambda>a b. base_if (userHit cn s a b) s bpdBalance),
     cMPBalance = (\<lambda>a b. base_if (userHit cn s a b) s mpBalance),
     cCollateralSurplusBalance = (\<lambda>a b. base_if (userHit cn s a b) s collateralSurplusBalance),
     cVaults = (\<lambda>p b. None),
     cFees = (\<lambda>b. derived_if (blockHit s b) s d_fees),
     cMPStake = (\<lambda>a b. base_if (userHit cn s a b) s mpStake),
     cTotalStakedMP = (\<lambda>b. base_if (blockHit s b) s totalStakedMP),
     cFrontendStatus = (\<lambda>a b. base_if (frontendHit cn s a b) s frontend)\<rparr>"

definition BlockPolledReadable :: "connection \<Rightarrow> chain \<Rightarrow> int store \<Rightarrow> readable" where
  "BlockPolledReadable cn ch s = CachedReadableMoneyp (ReadableBitcoinsMoneyp cn ch) (StoreBasedCache cn s)"

section \<open>Polling\<close>

text \<open>
  \<open>.catch(errCatch(key))\<close> puts the error object itself in the place of the value. Such a state does not have the
  types of the store; the model has no state then.
\<close>

definition caught :: "'a result \<Rightarrow> 'a option" where
  "caught r = (case r of Inr v \<Rightarrow> Some v | Inl e \<Rightarrow> None)"

definition riskiest_listing :: listing where
  "riskiest_listing = \<lparr>first = Some 1, sortedBy = ''ascendingCollateralRatio'', startingAt = None,
     beforeRedistribution = True\<rparr>"

definition getRiskiestVaultBeforeRedistribution :: "readable \<Rightarrow> block \<Rightarrow> vault_with_pending_redistribution result" where
  "getRiskiestVaultBeforeRedistribution r b =
     bindE (getVaults r riskiest_listing b) (\<lambda>l. case l of
         PendingVaults [] \<Rightarrow> Inr (empty_pending AddressZero NonExistent)
       | PendingVaults (v # vs) \<Rightarrow> Inr v
       | UserVaults us \<Rightarrow> Inl TypeError)"

text \<open>The properties of the user, read from the chain or given defaults when there is no user.\<close>

record user_state =
  us_accountBalance :: decimal
  us_bpdBalance :: decimal
  us_mpBalance :: decimal
  us_collateralSurplusBalance :: decimal
  us_vaultBeforeRedistribution :: vault_with_pending_redistribution
  us_stabilityDeposit :: stability_deposit
  us_mpStake :: mp_stake
  us_ownFrontend :: frontend_status

definition no_user :: user_state where
  "no_user = \<lparr>us_accountBalance = ZERO, us_bpdBalance = ZERO, us_mpBalance = ZERO, us_collateralSurplusBalance = ZERO,
     us_vaultBeforeRedistribution = empty_pending AddressZero NonExistent,
     us_stabilityDeposit = \<lparr>initialBPD = ZERO, currentBPD = ZERO, sd_collateralGain = ZERO, mpReward = ZERO,
       frontendTag = AddressZero\<rparr>,
     us_mpStake = new_MPStake None None None, us_ownFrontend = Unregistered\<rparr>"

definition get_user_state :: "chain \<Rightarrow> readable \<Rightarrow> string \<Rightarrow> block \<Rightarrow> user_state option" where
  "get_user_state ch r u b =
     Option.bind (caught (bindE (getBalance ch u b) (\<lambda>n. Inr (decimalify n)))) (\<lambda>acc.
     Option.bind (caught (getBPDBalance r (Some u) b)) (\<lambda>bpd.
     Option.bind (caught (getMPBalance r (Some u) b)) (\<lambda>mpb.
     Option.bind (caught (getCollateralSurplusBalance r (Some u) b)) (\<lambda>surplus.
     Option.bind (caught (getVaultBeforeRedistribution r (Some u) b)) (\<lambda>v.
     Option.bind (caught (getStabilityDeposit r (Some u) b)) (\<lambda>sd.
     Option.bind (caught (getMPStake r (Some u) b)) (\<lambda>st.
     Option.bind (caught (getFrontendStatus r (Some u) b)) (\<lambda>own.
       Some \<lparr>us_accountBalance = acc, us_bpdBalance = bpd, us_mpBalance = mpb, us_collateralSurplusBalance = surplus,
         us_vaultBeforeRedistribution = v, us_stabilityDeposit = sd, us_mpStake = st, us_ownFrontend = own\<rparr>))))))))"

definition extra_of :: "block \<Rightarrow> int \<Rightarrow> int extra_state" where
  "extra_of b timestamp =
     (case b of None \<Rightarrow> [] | Some n \<Rightarrow> [(''blockTag'', int n)]) @ [(''blockTimestamp'', timestamp)]"

text \<open>An address that is not given, or the empty text, is falsy.\<close>

definition given :: "string option \<Rightarrow> string option" where
  "given a = (if a = Some [] then None else a)"

definition get_state :: "connection \<Rightarrow> chain \<Rightarrow> block \<Rightarrow> (base_state \<times> int extra_state) option" where
  "get_state cn ch b =
     (let r = ReadableBitcoinsMoneyp cn ch in
     Option.bind (caught (blockTimestamp ch b)) (\<lambda>timestamp.
     Option.bind (caught (getFeesFactory ch b)) (\<lambda>create.
     Option.bind (caught (getPrice r b)) (\<lambda>p.
     Option.bind (caught (getNumberOfVaults r b)) (\<lambda>n.
     Option.bind (caught (getTotalRedistributed r b)) (\<lambda>redistributed.
     Option.bind (caught (getTotal r b)) (\<lambda>tot.
     Option.bind (caught (getBPDInStabilityPool r b)) (\<lambda>pool.
     Option.bind (caught (getTotalStakedMP r b)) (\<lambda>staked.
     Option.bind (caught (getRiskiestVaultBeforeRedistribution r b)) (\<lambda>riskiest.
     Option.bind (caught (getRemainingStabilityPoolMPReward r b)) (\<lambda>remaining.
     Option.bind (case given (c_frontendTag cn) of
         Some f \<Rightarrow> caught (getFrontendStatus r (Some f) b) | None \<Rightarrow> Some Unregistered) (\<lambda>fe.
     Option.bind (case given (c_userAddress cn) of
         Some u \<Rightarrow> get_user_state ch r u b | None \<Rightarrow> Some no_user) (\<lambda>us.
     Option.bind (caught (create timestamp False)) (\<lambda>fs.
       Some (\<lparr>frontend = fe, ownFrontend = us_ownFrontend us, numberOfVaults = n, accountBalance = us_accountBalance us,
         bpdBalance = us_bpdBalance us, mpBalance = us_mpBalance us,
         collateralSurplusBalance = us_collateralSurplusBalance us, price = p, bpdInStabilityPool = pool,
         totalVault = tot, totalRedistributed = redistributed,
         vaultBeforeRedistribution = us_vaultBeforeRedistribution us, stabilityDeposit = us_stabilityDeposit us,
         remainingStabilityPoolMPReward = remaining, feesInNormalMode = fs, mpStake = us_mpStake us,
         totalStakedMP = staked, riskiestVaultBeforeRedistribution = riskiest\<rparr>, extra_of b timestamp)))))))))))))))"

text \<open>\<open>_reduceExtra\<close>, and an update that gives every property of the base state.\<close>

definition reduceExtra :: "int extra_state \<Rightarrow> int extra_state \<Rightarrow> int extra_state" where
  "reduceExtra old upd =
     concat (map (\<lambda>k. case (case map_of upd k of None \<Rightarrow> map_of old k | Some v \<Rightarrow> Some v) of
         None \<Rightarrow> [] | Some v \<Rightarrow> [(k, v)]) [''blockTag'', ''blockTimestamp''])"

definition full_update :: "base_state \<Rightarrow> base_state_update" where
  "full_update b = \<lparr>u_frontend = Some (frontend b), u_ownFrontend = Some (ownFrontend b),
     u_numberOfVaults = Some (numberOfVaults b), u_accountBalance = Some (accountBalance b),
     u_bpdBalance = Some (bpdBalance b), u_mpBalance = Some (mpBalance b),
     u_collateralSurplusBalance = Some (collateralSurplusBalance b), u_price = Some (price b),
     u_bpdInStabilityPool = Some (bpdInStabilityPool b), u_totalVault = Some (totalVault b),
     u_totalRedistributed = Some (totalRedistributed b),
     u_vaultBeforeRedistribution = Some (vaultBeforeRedistribution b),
     u_stabilityDeposit = Some (stabilityDeposit b),
     u_remainingStabilityPoolMPReward = Some (remainingStabilityPoolMPReward b),
     u_feesInNormalMode = Some (feesInNormalMode b), u_mpStake = Some (mpStake b),
     u_totalStakedMP = Some (totalStakedMP b),
     u_riskiestVaultBeforeRedistribution = Some (riskiestVaultBeforeRedistribution b)\<rparr>"

text \<open>What happens when the state fetched by the initial \<open>_get()\<close>, or for a new block, arrives.\<close>

definition initial_arrives :: "base_state \<times> int extra_state \<Rightarrow> int store \<Rightarrow> int outcome" where
  "initial_arrives st s = (if loaded s then (None, s) else load (fst st) (Some (snd st)) s)"

definition block_arrives ::
  "(int \<Rightarrow> string) \<Rightarrow> int callbacks \<Rightarrow> base_state \<times> int extra_state \<Rightarrow> int store \<Rightarrow> int outcome" where
  "block_arrives loc cb st s =
     (if loaded s then update loc reduceExtra cb (Some (full_update (fst st))) (Some (snd st)) s
      else load (fst st) (Some (snd st)) s)"

section \<open>Polled stores\<close>

text \<open>
  The stores that a connection can reach: the states arrive in any order, also an old one late, between them the
  timer fires and listeners come and go. A block that was read never changes (\<open>ch\<close>); the initial
  state is read from the latest block of some other time (\<open>ch'\<close>). States whose derivation
  throws (a decay of more than 2 to the 32 minutes) are left out.
\<close>

inductive polled :: "connection \<Rightarrow> chain \<Rightarrow> (int \<Rightarrow> string) \<Rightarrow> int callbacks \<Rightarrow> int store \<Rightarrow> bool"
  for cn ch loc cb where
  Polled_new: "polled cn ch loc cb (new_store lg ol)"
| Polled_initial: "polled cn ch loc cb s \<Longrightarrow> get_state cn ch' None = Some st \<Longrightarrow> derive (fst st) = Inr d \<Longrightarrow>
    polled cn ch loc cb (snd (initial_arrives st s))"
| Polled_block: "polled cn ch loc cb s \<Longrightarrow> get_state cn ch (Some n) = Some st \<Longrightarrow> derive (fst st) = Inr d \<Longrightarrow>
    polled cn ch loc cb (snd (block_arrives loc cb st s))"
| Polled_timer: "polled cn ch loc cb s \<Longrightarrow> i \<in> set (timers s) \<Longrightarrow>
    polled cn ch loc cb (snd (timer_callback loc reduceExtra cb i s))"
| Polled_listener: "polled cn ch loc cb s \<Longrightarrow> polled cn ch loc cb (perform a s)"
| Polled_stop: "polled cn ch loc cb s \<Longrightarrow> polled cn ch loc cb (stop s)"

text \<open>Everything in the store was read from one block: the one it names, or the latest of some time.\<close>

definition one_block :: "connection \<Rightarrow> chain \<Rightarrow> int store \<Rightarrow> bool" where
  "one_block cn ch s \<longleftrightarrow>
     (\<not> loaded s \<and> baseState s = None \<and> derivedState s = None \<and> extraState s = None) \<or>
     (loaded s \<and> (\<exists>b d x. baseState s = Some b \<and> derive b = Inr d \<and> derivedState s = Some d \<and> extraState s = Some x \<and>
        (\<forall>n. state_block s = Some n \<longrightarrow> (\<exists>x'. get_state cn ch (Some n) = Some (b, x')))))"

lemma new_base_full: "new_base (Some (full_update b)) b' = b"
  by (simp add: new_base_def override_def full_update_def orElse_def)

lemma state_block_extra_of: "extraState s = Some (extra_of b t) \<Longrightarrow> state_block s = b"
  by (cases b) (simp_all add: state_block_def extra_of_def)

lemma state_block_reduceExtra:
  "extraState s = Some (reduceExtra old (extra_of (Some n) t)) \<Longrightarrow> state_block s = Some n"
  by (simp add: state_block_def reduceExtra_def extra_of_def)

lemma get_state_extra: "get_state cn ch b = Some (base, x) \<Longrightarrow> \<exists>t. x = extra_of b t"
  by (auto simp: get_state_def Let_def Option.bind_eq_Some_conv)

lemma one_block_core:
  assumes "core s = core t"
  shows "one_block cn ch s = one_block cn ch t"
proof -
  note c = core_selectors [OF assms]
  have "state_block s = state_block t" using c(6) by (simp add: state_block_def)
  with c show ?thesis by (simp add: one_block_def)
qed

text \<open>An update of a loaded store without new data, or with all data of a block.\<close>

lemma one_block_update:
  assumes "baseState s = Some b" "derivedState s = Some d" "loaded s" "extraState s = Some old"
    and "derive (new_base u b) = Inr d'" "x' = (case x of None \<Rightarrow> old | Some new \<Rightarrow> reduceExtra old new)"
  shows "\<exists>t. core (snd (update loc reduceExtra cb u x s)) = core t \<and> loaded t \<and> baseState t = Some (new_base u b) \<and>
    derivedState t = Some d' \<and> extraState t = Some x'"
proof -
  have x: "x = None \<and> Some x' = extraState s \<or>
      (\<exists>o' new. x = Some new \<and> extraState s = Some o' \<and> Some x' = Some (reduceExtra o' new))"
    using assms(4,6) by (cases x) auto
  obtain l where l: "update loc reduceExtra cb u x s =
    (let s' = scheduleUpdate (reduced (new_base u b) d' (Some x') l s) in
     notify cb \<lparr>newState = state s', oldState = state s, stateChange = difference_of (state s') (state s)\<rparr> s')"
    using update_success [OF assms(1,2,5) x] by blast
  let ?t = "scheduleUpdate (reduced (new_base u b) d' (Some x') l s)"
  have "core (snd (update loc reduceExtra cb u x s)) = core ?t"
    unfolding l Let_def notify_def using core_notify_each by (simp add: Let_def)
  moreover have "loaded ?t" "baseState ?t = Some (new_base u b)" "derivedState ?t = Some d'" "extraState ?t = Some x'"
    using assms(3) by (simp_all add: timers_schedule reduced_def)
  ultimately show ?thesis by blast
qed

lemma one_block_load:
  assumes "\<not> loaded s" "derive b = Inr d"
  shows "\<exists>t. core (snd (load b (Some x) s)) = core t \<and> loaded t \<and> baseState t = Some b \<and> derivedState t = Some d \<and>
    extraState t = Some x"
proof -
  let ?t = "scheduleUpdate (s\<lparr>baseState := Some b, derivedState := Some d, extraState := Some x, loaded := True\<rparr>)"
  have "core (snd (load b (Some x) s)) = core ?t" using assms by (simp add: load_def Let_def)
  moreover have "loaded ?t" "baseState ?t = Some b" "derivedState ?t = Some d" "extraState ?t = Some x"
    by (simp_all add: timers_schedule)
  ultimately show ?thesis by blast
qed

lemma one_blockI:
  assumes "core s = core t" "loaded t" "baseState t = Some b" "derive b = Inr d" "derivedState t = Some d"
    and "extraState t = Some x" "\<And>n. state_block t = Some n \<Longrightarrow> \<exists>x'. get_state cn ch (Some n) = Some (b, x')"
  shows "one_block cn ch s"
proof -
  have "one_block cn ch t" using assms(2-) unfolding one_block_def by blast
  then show ?thesis by (simp add: one_block_core [OF assms(1)])
qed

lemma polled_one_block: "polled cn ch loc cb s \<Longrightarrow> one_block cn ch s"
proof (induction rule: polled.induct)
  case (Polled_new lg ol)
  then show ?case by (simp add: one_block_def new_store_def)
next
  case (Polled_initial s ch' st d)
  obtain b x where st: "st = (b, x)" by fastforce
  obtain t where x: "x = extra_of None t" using get_state_extra Polled_initial.hyps(2) st by blast
  show ?case
  proof (cases "loaded s")
    case True
    with Polled_initial.IH show ?thesis by (simp add: initial_arrives_def)
  next
    case False
    from one_block_load [OF False, of b d x] Polled_initial.hyps(3) st obtain s' where
      s': "core (snd (initial_arrives st s)) = core s'" "loaded s'" "baseState s' = Some b" "derivedState s' = Some d"
        "extraState s' = Some x" using False by (auto simp: initial_arrives_def)
    from one_blockI [OF s'(1-3) _ s'(4,5)] Polled_initial.hyps(3) st state_block_extra_of [of s' None t] s'(5) x
    show ?thesis by simp
  qed
next
  case (Polled_block s n st d)
  obtain b x where st: "st = (b, x)" by fastforce
  obtain t where x: "x = extra_of (Some n) t" using get_state_extra Polled_block.hyps(2) st by blast
  show ?case
  proof (cases "loaded s")
    case True
    then obtain b0 d0 old where old: "baseState s = Some b0" "derivedState s = Some d0" "extraState s = Some old"
      using Polled_block.IH by (auto simp: one_block_def)
    have "derive (new_base (Some (full_update b)) b0) = Inr d" using Polled_block.hyps(3) st by (simp add: new_base_full)
    from one_block_update [OF old(1,2) True old(3) this, of "reduceExtra old x" "Some x" loc cb] obtain s' where
      s': "core (snd (block_arrives loc cb st s)) = core s'" "loaded s'" "baseState s' = Some b" "derivedState s' = Some d"
        "extraState s' = Some (reduceExtra old x)" using True st by (auto simp: block_arrives_def new_base_full)
    from one_blockI [OF s'(1-3) _ s'(4,5)] Polled_block.hyps(2,3) st state_block_reduceExtra [of s' old n t] s'(5) x
    show ?thesis by simp
  next
    case False
    from one_block_load [OF False, of b d x] Polled_block.hyps(3) st obtain s' where
      s': "core (snd (block_arrives loc cb st s)) = core s'" "loaded s'" "baseState s' = Some b" "derivedState s' = Some d"
        "extraState s' = Some x" using False by (auto simp: block_arrives_def)
    from one_blockI [OF s'(1-3) _ s'(4,5)] Polled_block.hyps(2,3) st state_block_extra_of [of s' "Some n" t] s'(5) x
    show ?thesis by simp
  qed
next
  case (Polled_timer s i)
  let ?s = "s\<lparr>timers := removeAll i (timers s), updateTimeoutId := None\<rparr>"
  show ?case
  proof (cases "loaded s")
    case True
    then obtain b d old where old: "baseState s = Some b" "derivedState s = Some d" "extraState s = Some old"
      "derive b = Inr d" and n: "\<And>n. state_block s = Some n \<Longrightarrow> \<exists>x'. get_state cn ch (Some n) = Some (b, x')"
      using Polled_timer.IH by (auto simp: one_block_def)
    from one_block_update [of ?s b d old None d old None loc cb] old True obtain s' where
      s': "core (snd (timer_callback loc reduceExtra cb i s)) = core s'" "loaded s'" "baseState s' = Some b"
        "derivedState s' = Some d" "extraState s' = Some old" by (auto simp: timer_callback_def new_base_def)
    have "state_block s' = state_block s" using s'(5) old(3) by (simp add: state_block_def)
    with one_blockI [OF s'(1-3) old(4) s'(4,5)] n show ?thesis by simp
  next
    case False
    with Polled_timer.IH have "baseState s = None" by (simp add: one_block_def)
    then have "snd (timer_callback loc reduceExtra cb i s) = ?s" by (simp add: timer_callback_def update_def)
    with False Polled_timer.IH show ?thesis by (simp add: one_block_def state_block_def)
  qed
next
  case (Polled_listener s a)
  then show ?case using one_block_core [OF core_perform] by blast
next
  case (Polled_stop s)
  have "state_block (stop s) = state_block s" "loaded (stop s) = loaded s" "baseState (stop s) = baseState s"
    "derivedState (stop s) = derivedState s" "extraState (stop s) = extraState s"
    by (simp_all add: stop_def cancelUpdateIfScheduled_def state_block_def split: option.split)
  with Polled_stop.IH show ?case by (simp add: one_block_def)
qed

section \<open>Reads through a polled store\<close>

lemma caught_Some [simp]: "caught r = Some v \<longleftrightarrow> r = Inr v"
  by (cases r) (simp_all add: caught_def)

lemma get_user_state_reads:
  assumes "get_user_state ch r u b = Some us"
  shows "getBPDBalance r (Some u) b = Inr (us_bpdBalance us)" "getMPBalance r (Some u) b = Inr (us_mpBalance us)"
    "getCollateralSurplusBalance r (Some u) b = Inr (us_collateralSurplusBalance us)"
    "getVaultBeforeRedistribution r (Some u) b = Inr (us_vaultBeforeRedistribution us)"
    "getStabilityDeposit r (Some u) b = Inr (us_stabilityDeposit us)" "getMPStake r (Some u) b = Inr (us_mpStake us)"
proof -
  from assms obtain acc bpd mpb surplus v sd st own where
    reads: "getBPDBalance r (Some u) b = Inr bpd" "getMPBalance r (Some u) b = Inr mpb"
      "getCollateralSurplusBalance r (Some u) b = Inr surplus" "getVaultBeforeRedistribution r (Some u) b = Inr v"
      "getStabilityDeposit r (Some u) b = Inr sd" "getMPStake r (Some u) b = Inr st"
    and us: "us = \<lparr>us_accountBalance = acc, us_bpdBalance = bpd, us_mpBalance = mpb, us_collateralSurplusBalance = surplus,
         us_vaultBeforeRedistribution = v, us_stabilityDeposit = sd, us_mpStake = st, us_ownFrontend = own\<rparr>"
    unfolding get_user_state_def Option.bind_eq_Some_conv caught_Some Option.option.inject by blast
  show "getBPDBalance r (Some u) b = Inr (us_bpdBalance us)" "getMPBalance r (Some u) b = Inr (us_mpBalance us)"
    "getCollateralSurplusBalance r (Some u) b = Inr (us_collateralSurplusBalance us)"
    "getVaultBeforeRedistribution r (Some u) b = Inr (us_vaultBeforeRedistribution us)"
    "getStabilityDeposit r (Some u) b = Inr (us_stabilityDeposit us)" "getMPStake r (Some u) b = Inr (us_mpStake us)"
    by (simp_all only: reads us user_state.simps)
qed

lemma get_state_cases:
  assumes "get_state cn ch b = Some (base, x)" "r = ReadableBitcoinsMoneyp cn ch"
  obtains fe us timestamp create where
    "getTotalRedistributed r b = Inr (totalRedistributed base)" "getNumberOfVaults r b = Inr (numberOfVaults base)"
    "getPrice r b = Inr (price base)" "getTotal r b = Inr (totalVault base)"
    "getRemainingStabilityPoolMPReward r b = Inr (remainingStabilityPoolMPReward base)"
    "getBPDInStabilityPool r b = Inr (bpdInStabilityPool base)" "getTotalStakedMP r b = Inr (totalStakedMP base)"
    "getFeesFactory ch b = Inr create" "blockTimestamp ch b = Inr timestamp"
    "create timestamp False = Inr (feesInNormalMode base)"
    "(case given (c_frontendTag cn) of
        Some f \<Rightarrow> caught (getFrontendStatus r (Some f) b) | None \<Rightarrow> Some Unregistered) = Some fe" "frontend base = fe"
    "(case given (c_userAddress cn) of Some u \<Rightarrow> get_user_state ch r u b | None \<Rightarrow> Some no_user) = Some us"
    "vaultBeforeRedistribution base = us_vaultBeforeRedistribution us" "stabilityDeposit base = us_stabilityDeposit us"
    "bpdBalance base = us_bpdBalance us" "mpBalance base = us_mpBalance us"
    "collateralSurplusBalance base = us_collateralSurplusBalance us" "mpStake base = us_mpStake us"
proof -
  from assms(1) obtain timestamp create p n redistributed tot pool staked riskiest remaining fe us fs where
    reads: "blockTimestamp ch b = Inr timestamp" "getFeesFactory ch b = Inr create" "getPrice r b = Inr p"
      "getNumberOfVaults r b = Inr n" "getTotalRedistributed r b = Inr redistributed" "getTotal r b = Inr tot"
      "getBPDInStabilityPool r b = Inr pool" "getTotalStakedMP r b = Inr staked"
      "getRemainingStabilityPoolMPReward r b = Inr remaining"
      "(case given (c_frontendTag cn) of
        Some f \<Rightarrow> caught (getFrontendStatus r (Some f) b) | None \<Rightarrow> Some Unregistered) = Some fe"
      "(case given (c_userAddress cn) of Some u \<Rightarrow> get_user_state ch r u b | None \<Rightarrow> Some no_user) = Some us"
      "create timestamp False = Inr fs"
    and base: "base = \<lparr>frontend = fe, ownFrontend = us_ownFrontend us, numberOfVaults = n,
         accountBalance = us_accountBalance us,
         bpdBalance = us_bpdBalance us, mpBalance = us_mpBalance us,
         collateralSurplusBalance = us_collateralSurplusBalance us, price = p, bpdInStabilityPool = pool,
         totalVault = tot, totalRedistributed = redistributed,
         vaultBeforeRedistribution = us_vaultBeforeRedistribution us, stabilityDeposit = us_stabilityDeposit us,
         remainingStabilityPoolMPReward = remaining, feesInNormalMode = fs, mpStake = us_mpStake us,
         totalStakedMP = staked, riskiestVaultBeforeRedistribution = riskiest\<rparr>"
    unfolding get_state_def Let_def Option.bind_eq_Some_conv caught_Some Option.option.inject prod.inject assms(2) [symmetric]
    by (elim exE conjE) (rule that; (assumption | rule sym, assumption))
  show thesis
    by (rule that [of create timestamp fe us]) (simp_all only: reads base base_state.simps)
qed

lemma get_state_reads:
  assumes "get_state cn ch b = Some (base, x)" "r = ReadableBitcoinsMoneyp cn ch"
  shows "getTotalRedistributed r b = Inr (totalRedistributed base)" "getNumberOfVaults r b = Inr (numberOfVaults base)"
    "getPrice r b = Inr (price base)" "getTotal r b = Inr (totalVault base)"
    "getRemainingStabilityPoolMPReward r b = Inr (remainingStabilityPoolMPReward base)"
    "getBPDInStabilityPool r b = Inr (bpdInStabilityPool base)" "getTotalStakedMP r b = Inr (totalStakedMP base)"
    "\<exists>create timestamp. getFeesFactory ch b = Inr create \<and> blockTimestamp ch b = Inr timestamp \<and>
      create timestamp False = Inr (feesInNormalMode base)"
    "given (c_frontendTag cn) = Some f \<Longrightarrow> getFrontendStatus r (Some f) b = Inr (frontend base)"
  by (rule get_state_cases [OF assms], assumption)+
     (rule get_state_cases [OF assms], blast, rule get_state_cases [OF assms], simp)

lemma get_state_user_reads:
  assumes "get_state cn ch b = Some (base, x)" "r = ReadableBitcoinsMoneyp cn ch" "given (c_userAddress cn) = Some u"
  shows "getVaultBeforeRedistribution r (Some u) b = Inr (vaultBeforeRedistribution base)"
    "getStabilityDeposit r (Some u) b = Inr (stabilityDeposit base)" "getBPDBalance r (Some u) b = Inr (bpdBalance base)"
    "getMPBalance r (Some u) b = Inr (mpBalance base)"
    "getCollateralSurplusBalance r (Some u) b = Inr (collateralSurplusBalance base)"
    "getMPStake r (Some u) b = Inr (mpStake base)"
proof -
  obtain us where us: "get_user_state ch r u b = Some us"
    "vaultBeforeRedistribution base = us_vaultBeforeRedistribution us" "stabilityDeposit base = us_stabilityDeposit us"
    "bpdBalance base = us_bpdBalance us" "mpBalance base = us_mpBalance us"
    "collateralSurplusBalance base = us_collateralSurplusBalance us" "mpStake base = us_mpStake us"
    by (rule get_state_cases [OF assms(1,2)]) (simp add: assms(3))
  note reads = get_user_state_reads [OF us(1)]
  show "getVaultBeforeRedistribution r (Some u) b = Inr (vaultBeforeRedistribution base)"
    "getStabilityDeposit r (Some u) b = Inr (stabilityDeposit base)" "getBPDBalance r (Some u) b = Inr (bpdBalance base)"
    "getMPBalance r (Some u) b = Inr (mpBalance base)"
    "getCollateralSurplusBalance r (Some u) b = Inr (collateralSurplusBalance base)"
    "getMPStake r (Some u) b = Inr (mpStake base)"
    by (simp_all only: reads us(2-))
qed

lemma rbm_sel [simp]:
  "getTotalRedistributed (ReadableBitcoinsMoneyp cn ch) = readTotalRedistributed ch"
  "getTotal (ReadableBitcoinsMoneyp cn ch) = readTotal ch" "getPrice (ReadableBitcoinsMoneyp cn ch) = readPrice ch"
  "getVaultBeforeRedistribution (ReadableBitcoinsMoneyp cn ch) = readVaultBeforeRedistribution cn ch"
  "getVault (ReadableBitcoinsMoneyp cn ch) = readVault cn ch" "getFees (ReadableBitcoinsMoneyp cn ch) = readFees ch"
  "getVaults (ReadableBitcoinsMoneyp cn ch) = readVaults ch"
  by (simp_all add: ReadableBitcoinsMoneyp_def)

text \<open>The fees and the vault of the user are derived; the derivation is what reading them does.\<close>

lemma setRecoveryMode_created:
  assumes "createFees r l t False = Inr f"
  shows "setRecoveryMode f m = createFees r l t m"
proof -
  let ?ok = "lt_d MINUTE_DECAY_FACTOR (DNumber ''1'')"
  have "?ok = Inr True" using assms
    unfolding createFees_def new_Fees_def from_d.simps bindE.simps by (cases ?ok) (auto simp: assertE_eq_Inr_iff)
  with assms show ?thesis
    unfolding createFees_def new_Fees_def setRecoveryMode_def from_d.simps bindE.simps by (auto simp: assertE_eq_Inr_iff)
qed

lemma get_state_derived:
  assumes "get_state cn ch b = Some (base, x)" "derive base = Inr d"
  shows "readFees ch b = Inr (d_fees d)"
    and "given (c_userAddress cn) = Some u \<Longrightarrow> readVault cn ch (Some u) b = Inr (d_vault d)"
proof -
  note reads = get_state_reads [OF assms(1) refl]
  obtain recovery where recovery: "collateralRatioIsBelowCritical (totalVault base) (DDecimal (price base)) = Inr recovery"
    and f: "setRecoveryMode (feesInNormalMode base) recovery = Inr (d_fees d)"
    and v: "applyRedistribution (vaultBeforeRedistribution base) (totalRedistributed base) = Inr (d_vault d)"
    using assms(2) by (auto simp: derive_def bindE_eq_Inr_iff)
  obtain create timestamp where c: "getFeesFactory ch b = Inr create" "blockTimestamp ch b = Inr timestamp"
    "create timestamp False = Inr (feesInNormalMode base)" using reads(8) by blast
  then obtain rate last where "\<And>t m. create t m = createFees rate last t m"
    by (auto simp: getFeesFactory_def bindE_eq_Inr_iff)
  with c(3) f have "create timestamp recovery = Inr (d_fees d)"
    using setRecoveryMode_created by metis
  then show "readFees ch b = Inr (d_fees d)"
    using c(1,2) reads(3,4) recovery by (simp add: readFees_def)
  show "given (c_userAddress cn) = Some u \<Longrightarrow> readVault cn ch (Some u) b = Inr (d_vault d)"
    using reads(1) get_state_user_reads(1) [OF assms(1) refl] v by (simp add: readVault_def)
qed

text \<open>Leaving out the own address is the same as giving it.\<close>

lemma read_own:
  assumes "c_userAddress cn = Some u"
  shows "getVaultBeforeRedistribution (ReadableBitcoinsMoneyp cn ch) None = getVaultBeforeRedistribution (ReadableBitcoinsMoneyp cn ch) (Some u)"
    "getVault (ReadableBitcoinsMoneyp cn ch) None = getVault (ReadableBitcoinsMoneyp cn ch) (Some u)"
    "getStabilityDeposit (ReadableBitcoinsMoneyp cn ch) None = getStabilityDeposit (ReadableBitcoinsMoneyp cn ch) (Some u)"
    "getBPDBalance (ReadableBitcoinsMoneyp cn ch) None = getBPDBalance (ReadableBitcoinsMoneyp cn ch) (Some u)"
    "getMPBalance (ReadableBitcoinsMoneyp cn ch) None = getMPBalance (ReadableBitcoinsMoneyp cn ch) (Some u)"
    "getCollateralSurplusBalance (ReadableBitcoinsMoneyp cn ch) None = getCollateralSurplusBalance (ReadableBitcoinsMoneyp cn ch) (Some u)"
    "getMPStake (ReadableBitcoinsMoneyp cn ch) None = getMPStake (ReadableBitcoinsMoneyp cn ch) (Some u)"
  using assms by (auto simp: ReadableBitcoinsMoneyp_def fun_eq_iff readVaultBeforeRedistribution_def readVault_def
      readStabilityDeposit_def amount_of_def readMPStake_def address_or_def requireAddress_def)

lemma read_own_frontend:
  "c_frontendTag cn = Some f \<Longrightarrow> getFrontendStatus (ReadableBitcoinsMoneyp cn ch) None =
     getFrontendStatus (ReadableBitcoinsMoneyp cn ch) (Some f)"
  by (auto simp: ReadableBitcoinsMoneyp_def fun_eq_iff readFrontendStatus_def address_or_def requireFrontendAddress_def)

text \<open>The block a read through the store of block \<open>n\<close> refers to.\<close>

definition read_block :: "nat \<Rightarrow> block \<Rightarrow> block" where
  "read_block n b = (case b of None \<Rightarrow> Some n | Some m \<Rightarrow> Some m)"

lemma cached_block:
  assumes "baseState s = Some base" "state_block s = Some n" "g (Some n) = Inr (f base)"
  shows "cached (base_if (blockHit s b) s f) (g b) = g (read_block n b)"
  using assms by (cases b) (auto simp: cached_def base_if_def blockHit_def read_block_def)

lemma cached_user:
  assumes "baseState s = Some base" "state_block s = Some n" "c_userAddress cn = Some u"
    and "g (Some u) (Some n) = Inr (f base)" "g None = g (Some u)" "a = None \<or> a = Some u \<or> b \<noteq> None"
  shows "cached (base_if (userHit cn s a b) s f) (g a b) = g a (read_block n b)"
  using assms by (cases b) (auto simp: cached_def base_if_def userHit_def blockHit_def read_block_def)

lemma cached_frontend:
  assumes "baseState s = Some base" "state_block s = Some n" "c_frontendTag cn = Some w"
    and "g (Some w) (Some n) = Inr (f base)" "g None = g (Some w)" "a = None \<or> a = Some w \<or> b \<noteq> None"
  shows "cached (base_if (frontendHit cn s a b) s f) (g a b) = g a (read_block n b)"
  using assms by (cases b) (auto simp: cached_def base_if_def frontendHit_def blockHit_def read_block_def)

lemma polled_state:
  assumes "polled cn ch loc cb s" "state_block s = Some n"
  obtains base d x where "baseState s = Some base" "derive base = Inr d" "derivedState s = Some d"
    "get_state cn ch (Some n) = Some (base, x)"
proof -
  have "extraState s \<noteq> None" using assms(2) by (auto simp: state_block_def split: option.splits)
  with polled_one_block [OF assms(1)] assms(2) that show thesis unfolding one_block_def by blast
qed

lemma cached_vaults:
  assumes "\<And>b. cachedTotalRedistributed (ReadableBitcoinsMoneyp cn ch) c b = readTotalRedistributed ch (read_block n b)"
    and "\<And>q b. cVaults c q b = None"
  shows "cachedVaults (ReadableBitcoinsMoneyp cn ch) c p (Some m) = Inr l \<longleftrightarrow> readVaults ch p (Some m) = Inr l"
  using assms by (auto simp: cachedVaults_def Let_def readVaults_def cached_def read_block_def bindE_eq_Inr_iff
      totals_unless_def apply_all_def redistribute_def start_index_def split: if_splits)

text \<open>
  Of the vault of another user, \<open>getVault\<close> without a block reads the latest state but adds the
  redistribution of the block of the store.
\<close>

lemma other_vault_mixes_blocks:
  assumes "polled cn ch loc cb s" "state_block s = Some n" "a \<noteq> None" "a \<noteq> c_userAddress cn"
  shows "getVault (BlockPolledReadable cn ch s) a None =
    bindE (readVaultBeforeRedistribution cn ch a None) (\<lambda>v.
    bindE (readTotalRedistributed ch (Some n)) (\<lambda>t. applyRedistribution v t))"
proof -
  obtain base d x where st: "baseState s = Some base" "get_state cn ch (Some n) = Some (base, x)"
    using polled_state [OF assms(1,2)] by metis
  have t: "cachedTotalRedistributed (ReadableBitcoinsMoneyp cn ch) (StoreBasedCache cn s) None = readTotalRedistributed ch (Some n)"
    using cached_block [OF st(1) assms(2), of "readTotalRedistributed ch" totalRedistributed None] get_state_reads(1) [OF st(2) refl]
    by (simp add: cachedTotalRedistributed_def StoreBasedCache_def read_block_def)
  have v: "cachedVaultBeforeRedistribution (ReadableBitcoinsMoneyp cn ch) (StoreBasedCache cn s) a None =
      readVaultBeforeRedistribution cn ch a None"
    using assms(3,4) by (auto simp: cachedVaultBeforeRedistribution_def StoreBasedCache_def userHit_def base_if_def cached_def)
  show ?thesis by (simp only: BlockPolledReadable_def CachedReadableMoneyp_def readable.simps cachedVault_def t v)
qed

lemmas polled_sel = BlockPolledReadable_def CachedReadableMoneyp_def StoreBasedCache_def
  cachedTotalRedistributed_def cachedVaultBeforeRedistribution_def

lemma polled_block_reads:
  assumes "polled cn ch loc cb s" "state_block s = Some n"
  shows "getTotalRedistributed (BlockPolledReadable cn ch s) b = readTotalRedistributed ch (read_block n b)"
    "getNumberOfVaults (BlockPolledReadable cn ch s) b = readNumberOfVaults ch (read_block n b)"
    "getPrice (BlockPolledReadable cn ch s) b = readPrice ch (read_block n b)"
    "getTotal (BlockPolledReadable cn ch s) b = readTotal ch (read_block n b)"
    "getRemainingStabilityPoolMPReward (BlockPolledReadable cn ch s) b = readRemainingStabilityPoolMPReward cn ch (read_block n b)"
    "getBPDInStabilityPool (BlockPolledReadable cn ch s) b = amount ch ''stabilityPool'' ''getTotalBPDDeposits'' [] (read_block n b)"
    "getTotalStakedMP (BlockPolledReadable cn ch s) b = amount ch ''mpStaking'' ''totalMPStaked'' [] (read_block n b)"
    "getFees (BlockPolledReadable cn ch s) b = readFees ch (read_block n b)"
proof -
  obtain base d x where st: "baseState s = Some base" "derive base = Inr d" "derivedState s = Some d"
    "get_state cn ch (Some n) = Some (base, x)" by (rule polled_state [OF assms])
  note reads = get_state_reads [OF st(4) refl]
  note block = cached_block [OF st(1) assms(2)]
  show "getTotalRedistributed (BlockPolledReadable cn ch s) b = readTotalRedistributed ch (read_block n b)"
    "getNumberOfVaults (BlockPolledReadable cn ch s) b = readNumberOfVaults ch (read_block n b)"
    "getPrice (BlockPolledReadable cn ch s) b = readPrice ch (read_block n b)"
    "getTotal (BlockPolledReadable cn ch s) b = readTotal ch (read_block n b)"
    "getRemainingStabilityPoolMPReward (BlockPolledReadable cn ch s) b = readRemainingStabilityPoolMPReward cn ch (read_block n b)"
    "getBPDInStabilityPool (BlockPolledReadable cn ch s) b = amount ch ''stabilityPool'' ''getTotalBPDDeposits'' [] (read_block n b)"
    "getTotalStakedMP (BlockPolledReadable cn ch s) b = amount ch ''mpStaking'' ''totalMPStaked'' [] (read_block n b)"
    using reads by (simp_all add: polled_sel block ReadableBitcoinsMoneyp_def)
  have "readFees ch (Some n) = Inr (d_fees d)" by (rule get_state_derived(1) [OF st(4,2)])
  then show "getFees (BlockPolledReadable cn ch s) b = readFees ch (read_block n b)"
    using st(3) assms(2)
    by (cases b) (auto simp: polled_sel ReadableBitcoinsMoneyp_def cached_def derived_if_def blockHit_def read_block_def)
qed

lemma polled_user_reads:
  assumes "polled cn ch loc cb s" "state_block s = Some n" "c_userAddress cn = Some u" "u \<noteq> []"
    and "a = None \<or> a = Some u \<or> b \<noteq> None" "rd = ReadableBitcoinsMoneyp cn ch"
  shows "getVaultBeforeRedistribution (BlockPolledReadable cn ch s) a b = getVaultBeforeRedistribution rd a (read_block n b)"
    "getStabilityDeposit (BlockPolledReadable cn ch s) a b = getStabilityDeposit rd a (read_block n b)"
    "getBPDBalance (BlockPolledReadable cn ch s) a b = getBPDBalance rd a (read_block n b)"
    "getMPBalance (BlockPolledReadable cn ch s) a b = getMPBalance rd a (read_block n b)"
    "getCollateralSurplusBalance (BlockPolledReadable cn ch s) a b = getCollateralSurplusBalance rd a (read_block n b)"
    "getMPStake (BlockPolledReadable cn ch s) a b = getMPStake rd a (read_block n b)"
proof -
  obtain base d x where st: "baseState s = Some base" "get_state cn ch (Some n) = Some (base, x)"
    using polled_state [OF assms(1,2)] by metis
  have u: "given (c_userAddress cn) = Some u" using assms(3,4) by (simp add: given_def)
  note reads = get_state_user_reads [OF st(2) assms(6) u]
  note own = read_own [OF assms(3), of ch, folded assms(6)]
  note user = cached_user [OF st(1) assms(2,3) _ _ assms(5)]
  show "getVaultBeforeRedistribution (BlockPolledReadable cn ch s) a b = getVaultBeforeRedistribution rd a (read_block n b)"
    "getStabilityDeposit (BlockPolledReadable cn ch s) a b = getStabilityDeposit rd a (read_block n b)"
    "getBPDBalance (BlockPolledReadable cn ch s) a b = getBPDBalance rd a (read_block n b)"
    "getMPBalance (BlockPolledReadable cn ch s) a b = getMPBalance rd a (read_block n b)"
    "getCollateralSurplusBalance (BlockPolledReadable cn ch s) a b = getCollateralSurplusBalance rd a (read_block n b)"
    "getMPStake (BlockPolledReadable cn ch s) a b = getMPStake rd a (read_block n b)"
    by (simp_all only: polled_sel readable.simps read_cache.simps assms(6) [symmetric]
        user [where g = "getVaultBeforeRedistribution rd" and f = vaultBeforeRedistribution, OF reads(1) own(1)]
        user [where g = "getStabilityDeposit rd" and f = stabilityDeposit, OF reads(2) own(3)]
        user [where g = "getBPDBalance rd" and f = bpdBalance, OF reads(3) own(4)]
        user [where g = "getMPBalance rd" and f = mpBalance, OF reads(4) own(5)]
        user [where g = "getCollateralSurplusBalance rd" and f = collateralSurplusBalance, OF reads(5) own(6)]
        user [where g = "getMPStake rd" and f = mpStake, OF reads(6) own(7)])
qed

lemma polled_vault_read:
  assumes "polled cn ch loc cb s" "state_block s = Some n" "c_userAddress cn = Some u" "u \<noteq> []"
    and "a = None \<or> a = Some u \<or> b \<noteq> None"
  shows "getVault (BlockPolledReadable cn ch s) a b = readVault cn ch a (read_block n b)"
  using polled_user_reads(1) [OF assms refl] polled_block_reads(1) [OF assms(1,2), of b]
  by (simp add: BlockPolledReadable_def CachedReadableMoneyp_def cachedVault_def readVault_def)

lemma polled_vaults_read:
  assumes "polled cn ch loc cb s" "state_block s = Some n"
  shows "getVaults (BlockPolledReadable cn ch s) p (Some m) = Inr l \<longleftrightarrow> readVaults ch p (Some m) = Inr l"
proof -
  have "cachedTotalRedistributed (ReadableBitcoinsMoneyp cn ch) (StoreBasedCache cn s) b' = readTotalRedistributed ch (read_block n b')" for b'
    using polled_block_reads(1) [OF assms, of b'] by (simp add: BlockPolledReadable_def CachedReadableMoneyp_def)
  from cached_vaults [OF this] show ?thesis
    by (simp add: BlockPolledReadable_def CachedReadableMoneyp_def StoreBasedCache_def)
qed

section \<open>A concrete chain\<close>

definition sample_chain :: chain where
  "sample_chain = \<lparr>uint = (\<lambda>c m args b. Inr (if c = ''vaultManager'' then 0 else DIGITS)),
     Vaults = (\<lambda>a b. Inr \<lparr>bv_status = 0, bv_coll = 0, bv_debt = 0, bv_stake = 0\<rparr>),
     rewardSnapshots = (\<lambda>a b. Inr (0, 0)), deposits = (\<lambda>a b. Inr (AddressZero, DIGITS)),
     frontEnds = (\<lambda>a b. Inr (False, 0)), getMultipleSortedVaults = (\<lambda>i n b. Inr []),
     blockTimestamp = (\<lambda>b. Inr 0), getBalance = (\<lambda>a b. Inr DIGITS)\<rparr>"

definition sample_connection :: connection where
  "sample_connection = \<lparr>c_userAddress = Some ''0x1'', c_frontendTag = None, totalStabilityPoolMPReward = ONE\<rparr>"

definition sample_chain_fees :: fees where
  "sample_chain_fees = \<lparr>baseRateWithoutDecay = ZERO, minuteDecayFactor = MINUTE_DECAY_FACTOR, beta = BETA,
     lastFeeOperation = 0, timeOfLatestBlock = 0, recoveryMode = False\<rparr>"

definition sample_chain_base :: base_state where
  "sample_chain_base = \<lparr>frontend = Unregistered, ownFrontend = Unregistered, numberOfVaults = 0,
     accountBalance = ONE, bpdBalance = ONE, mpBalance = ONE, collateralSurplusBalance = ONE,
     price = ONE, bpdInStabilityPool = ONE, totalVault = Vault (Decimal (2 * DIGITS)) (Decimal (2 * DIGITS)),
     totalRedistributed = emptyVault, vaultBeforeRedistribution = empty_pending ''0x1'' NonExistent,
     stabilityDeposit = \<lparr>initialBPD = ONE, currentBPD = ONE, sd_collateralGain = ONE, mpReward = ONE,
       frontendTag = AddressZero\<rparr>,
     remainingStabilityPoolMPReward = ZERO, feesInNormalMode = sample_chain_fees,
     mpStake = new_MPStake (Some ONE) (Some ONE) (Some ONE), totalStakedMP = ONE,
     riskiestVaultBeforeRedistribution = empty_pending AddressZero NonExistent\<rparr>"

lemma sample_chain_created: "createFees ZERO 0 0 m = Inr (sample_chain_fees\<lparr>recoveryMode := m\<rparr>)"
  using small_literals(2)
  by (simp add: createFees_def new_Fees_def sample_chain_fees_def lt_d_def assertE_def convertToDate_def
      decimal_order MINUTE_DECAY_FACTOR_def ONE_def DIGITS_def del: from_d.simps(3))

lemma sample_amount: "amount sample_chain c m args b = Inr (if c = ''vaultManager'' then ZERO else ONE)"
  by (simp add: amount_def sample_chain_def decimalify_def ZERO_def ONE_def DIGITS_def)

lemma sample_amount_of:
  "c \<noteq> ''vaultManager'' \<Longrightarrow> amount_of sample_chain cn c m (Some a) b = Inr ONE"
  by (simp add: amount_of_def address_or_def sample_amount)

lemma sample_reads:
  "readTotalRedistributed sample_chain b = Inr emptyVault"
  "readNumberOfVaults sample_chain b = Inr 0"
  "readPrice sample_chain b = Inr ONE"
  "readTotal sample_chain b = Inr (Vault (Decimal (2 * DIGITS)) (Decimal (2 * DIGITS)))"
  "readRemainingStabilityPoolMPReward sample_connection sample_chain b = Inr ZERO"
  "readVaultBeforeRedistribution cn sample_chain (Some u) b = Inr (empty_pending u NonExistent)"
  "readStabilityDeposit cn sample_chain (Some u) b = Inr \<lparr>initialBPD = ONE, currentBPD = ONE, sd_collateralGain = ONE,
     mpReward = ONE, frontendTag = AddressZero\<rparr>"
  "readMPStake cn sample_chain (Some u) b = Inr (new_MPStake (Some ONE) (Some ONE) (Some ONE))"
  "readFrontendStatus cn sample_chain (Some u) b = Inr Unregistered"
  "readVaults sample_chain riskiest_listing b = Inr (PendingVaults [])"
  by (simp_all add: readTotalRedistributed_def vault_of_def sample_amount emptyVault_def Vault_def vault_add_def
      readNumberOfVaults_def toNumber_def readPrice_def readTotal_def getActivePool_def getDefaultPool_def
      readRemainingStabilityPoolMPReward_def sub_dec_def new_Decimal_def sample_connection_def
      readVaultBeforeRedistribution_def address_or_def userVaultStatusFrom_def readStabilityDeposit_def
      new_StabilityDeposit_def readMPStake_def readFrontendStatus_def
      readVaults_def riskiest_listing_def expectPositiveInt_def validSortingOptions_def totals_unless_def
      mapBackendVaults_def apply_all_def)
    (simp_all add: sample_chain_def toNumber_def add_dec_def ONE_def ZERO_def DIGITS_def decimalify_def decimal_order)

lemma sample_fees_factory: "\<exists>create. getFeesFactory sample_chain b = Inr create \<and> (\<forall>m. create 0 m = createFees ZERO 0 0 m)"
  by (simp add: getFeesFactory_def sample_amount) (simp add: sample_chain_def toNumber_def)

lemma sample_user_state:
  "get_user_state sample_chain (ReadableBitcoinsMoneyp cn sample_chain) u b = Some \<lparr>us_accountBalance = ONE,
     us_bpdBalance = ONE, us_mpBalance = ONE, us_collateralSurplusBalance = ONE,
     us_vaultBeforeRedistribution = empty_pending u NonExistent,
     us_stabilityDeposit = \<lparr>initialBPD = ONE, currentBPD = ONE, sd_collateralGain = ONE, mpReward = ONE,
       frontendTag = AddressZero\<rparr>,
     us_mpStake = new_MPStake (Some ONE) (Some ONE) (Some ONE), us_ownFrontend = Unregistered\<rparr>"
proof -
  have "getBalance sample_chain u b = Inr DIGITS" by (simp add: sample_chain_def)
  then show ?thesis
    by (simp add: get_user_state_def ReadableBitcoinsMoneyp_def sample_reads sample_amount_of caught_def decimalify_def
        ONE_def DIGITS_def)
qed

lemma sample_chain_state:
  "get_state sample_connection sample_chain (Some 7) = Some (sample_chain_base, extra_of (Some 7) 0)"
proof -
  obtain create where c: "getFeesFactory sample_chain (Some 7) = Inr create" "create 0 False = Inr sample_chain_fees"
    using sample_fees_factory [of "Some 7"] sample_chain_created [of False] by (auto simp: sample_chain_fees_def)
  have t: "blockTimestamp sample_chain (Some 7) = Inr 0" by (simp add: sample_chain_def)
  have g: "given (c_frontendTag sample_connection) = None" "given (c_userAddress sample_connection) = Some ''0x1''"
    by (simp_all add: given_def sample_connection_def)
  have r: "getRiskiestVaultBeforeRedistribution (ReadableBitcoinsMoneyp sample_connection sample_chain) (Some 7) =
      Inr (empty_pending AddressZero NonExistent)"
    by (simp add: getRiskiestVaultBeforeRedistribution_def sample_reads)
  show ?thesis
    by (simp add: get_state_def c t g r sample_user_state sample_chain_base_def caught_def)
      (simp add: ReadableBitcoinsMoneyp_def sample_reads sample_amount c)
qed

lemma sample_chain_derives: "\<exists>d. derive sample_chain_base = Inr d"
proof -
  obtain r where r: "collateralRatioIsBelowCritical (Vault (Decimal (2 * DIGITS)) (Decimal (2 * DIGITS))) (DDecimal ONE) = Inr r"
    by (simp add: collateralRatioIsBelowCritical_def collateralRatio_def)
  let ?f = "sample_chain_fees\<lparr>recoveryMode := r\<rparr>"
  have f: "setRecoveryMode sample_chain_fees r = Inr ?f"
    using setRecoveryMode_created [OF sample_chain_created [of False], of r] sample_chain_created [of r]
    by (simp add: sample_chain_fees_def)
  have f_ok: "minuteDecayFactor ?f \<le> ONE" "minutesSinceLastFeeOperation ?f None \<le> 0xffffffff"
    by (simp_all add: sample_chain_fees_def minutesSinceLastFeeOperation_def decimal_order MINUTE_DECAY_FACTOR_def ONE_def)
  obtain br rr where rates: "borrowingRate ?f None = Inr br" "redemptionRate ?f None None = Inr rr"
    using rates_exist [OF f_ok] by blast
  obtain u where u: "applyRedistribution (empty_pending ''0x1'' NonExistent) emptyVault = Inr u"
    by (simp add: applyRedistribution_def empty_pending_def pending_vault_def Let_def)
  obtain v where v: "applyRedistribution (empty_pending AddressZero NonExistent) emptyVault = Inr v"
    by (simp add: applyRedistribution_def empty_pending_def pending_vault_def Let_def)
  obtain m where "collateralRatioIsBelowMinimum v (DDecimal ONE) = Inr m"
    by (simp add: collateralRatioIsBelowMinimum_def collateralRatio_def)
  with r f rates u v show ?thesis by (simp add: derive_def sample_chain_base_def)
qed

lemma sample_polled:
  "\<exists>s. polled sample_connection sample_chain loc cb s \<and> state_block s = Some 7"
proof -
  obtain d where d: "derive (fst (sample_chain_base, extra_of (Some 7) 0)) = Inr d" using sample_chain_derives by auto
  let ?s = "snd (block_arrives loc cb (sample_chain_base, extra_of (Some 7) 0) (new_store False True))"
  have "polled sample_connection sample_chain loc cb ?s" by (rule Polled_block [OF Polled_new sample_chain_state d])
  moreover have "state_block ?s = Some 7"
  proof (rule state_block_extra_of)
    show "extraState ?s = Some (extra_of (Some 7) 0)"
      using d by (simp add: block_arrives_def new_store_def load_def Let_def timers_schedule)
  qed
  ultimately show ?thesis by blast
qed



end
