(* ===== verification/Batching.thy ===== *)
theory Batching
  imports Moneyp_Prelude "HOL-Library.Multiset"
begin

text \<open>
  The provider that batches calls (\<open>packages/providers/src/BatchedProvider.ts\<close>). A call that may be batched is queued
  and a timer is (re)started; when it fires, the queued calls are sent as one call of the Multicall
  contract. The provider below it and the Multicall contract are the parameter \<open>network\<close>; the event loop is a
  step relation, with the promises as numbers.
\<close>

section \<open>Requests\<close>

datatype bytes_like = HexText string | ByteList "nat list"

datatype block_tag = Tag string | Height nat

record request =
  req_to :: "string option"
  req_from :: "string option"
  req_gasLimit :: "nat option"
  req_gasPrice :: "nat option"
  req_data :: "bytes_like option"
  req_value :: "nat option"

type_synonym call_request = "string option \<times> bytes_like option"

definition multicallAddress :: "int \<Rightarrow> string option" where
  "multicallAddress = map_of [
     (1, ''0xeefBa1e63905eF1D7ACbA5a8513c70307C1cE441''),
     (3, ''0x53C43764255c17BD724F74c4eF150724AC50a3ed''),
     (4, ''0x42Ad527de7d4e9d9d011aC45B31D8551f8Fe9821''),
     (5, ''0x77dCa2C955b15e9dE4dbBCf1246B4B85b651e50e''),
     (42, ''0x2cc8688C5f75E365aaEEb4ea8D6a480405A48D2A'')]"

definition hasMulticall :: "int \<Rightarrow> bool" where
  "hasMulticall chainId \<longleftrightarrow> multicallAddress chainId \<noteq> None"

definition batchableCall :: "request \<Rightarrow> bool" where
  "batchableCall q \<longleftrightarrow> req_gasLimit q = None \<and> req_gasPrice q = None \<and> req_value q = None"

definition batchedCall :: "request \<Rightarrow> string \<Rightarrow> bool" where
  "batchedCall q address \<longleftrightarrow> req_to q = Some address \<and>
     (case req_data q of Some (HexText s) \<Rightarrow> take 10 s = ''0x252dba42'' | _ \<Rightarrow> False)"

section \<open>The state\<close>

record batched_calls =
  calls :: "call_request list"
  callbacks :: "nat list"
  batch_tag :: "block_tag option"

definition emptyBatch :: batched_calls where
  "emptyBatch = \<lparr>calls = [], callbacks = [], batch_tag = None\<rparr>"

record provider =
  chainId :: int
  multicall :: "string option"
  timeoutId :: "nat option"
  batched :: batched_calls
  numberOfBatchedCalls :: int
  numberOfActualCalls :: int
  timeOfLastRatioCheck :: "int option"

definition new_provider :: provider where
  "new_provider = \<lparr>chainId = 0, multicall = None, timeoutId = None, batched = emptyBatch, numberOfBatchedCalls = 0,
     numberOfActualCalls = 0, timeOfLastRatioCheck = None\<rparr>"

text \<open>What is sent to the network, with the promises waiting for the answer.\<close>

datatype sent =
    Aggregate "call_request list" "block_tag option" "nat list"
  | Single call_request "block_tag option" "nat list"
  | Direct request "block_tag option" nat

text \<open>
  The world of a provider: running timers with the time they are due, requests on the way, calls whose
  properties are being resolved, and the settled promises with the time and the outcome, where
  \<open>None\<close> stands for \<open>undefined\<close>. The request of every promise is kept.
\<close>

type_synonym settlement = "nat \<times> int \<times> string option result"

record provider_world =
  prov :: provider
  clock :: int
  running :: "(nat \<times> int) list"
  nextTimer :: nat
  resolving :: "nat list"
  inflight :: "sent list"
  settled :: "settlement list"
  requests :: "(request \<times> block_tag option) list"

record network =
  base_call :: "request \<Rightarrow> block_tag option \<Rightarrow> string result"
  aggregate :: "call_request list \<Rightarrow> block_tag option \<Rightarrow> string list result"

definition batchingDelayMs :: int where
  "batchingDelayMs = 10"

definition new_world :: provider_world where
  "new_world = \<lparr>prov = new_provider, clock = 0, running = [], nextTimer = 0, resolving = [], inflight = [],
     settled = [], requests = []\<rparr>"

section \<open>The operations\<close>

definition set_chainId :: "int \<Rightarrow> provider \<Rightarrow> provider result" where
  "set_chainId n p =
     (if multicall p \<noteq> None then Inl (Error ''can only set chainId once'')
      else Inr (p\<lparr>multicall := if hasMulticall n then multicallAddress n else None, chainId := n\<rparr>))"

definition ratio_check :: "int \<Rightarrow> provider \<Rightarrow> provider" where
  "ratio_check now p =
     (case timeOfLastRatioCheck p of
        None \<Rightarrow> p\<lparr>timeOfLastRatioCheck := Some now\<rparr>
      | Some t \<Rightarrow>
          if now - t \<ge> 10000 \<and> numberOfActualCalls p \<noteq> 0
          then p\<lparr>numberOfBatchedCalls := 0, numberOfActualCalls := 0, timeOfLastRatioCheck := Some now\<rparr> else p)"

definition effective :: "block_tag option \<Rightarrow> block_tag" where
  "effective tag = (case tag of None \<Rightarrow> Tag ''latest'' | Some t \<Rightarrow> t)"

definition alreadyBatchedCallsConflictWith :: "provider \<Rightarrow> block_tag option \<Rightarrow> bool" where
  "alreadyBatchedCallsConflictWith p tag \<longleftrightarrow>
     calls (batched p) \<noteq> [] \<and> effective tag \<noteq> effective (batch_tag (batched p))"

text \<open>\<open>clearTimeout\<close> of a timer that has fired does nothing.\<close>

definition clearTimeout :: "nat option \<Rightarrow> (nat \<times> int) list \<Rightarrow> (nat \<times> int) list" where
  "clearTimeout tid ts = (case tid of None \<Rightarrow> ts | Some i \<Rightarrow> filter (\<lambda>(j, due). j \<noteq> i) ts)"

definition enqueueCall :: "call_request \<Rightarrow> nat \<Rightarrow> provider_world \<Rightarrow> provider_world" where
  "enqueueCall c promise w =
     (let p = prov w; b = batched p in
      w\<lparr>running := (nextTimer w, clock w + batchingDelayMs) # clearTimeout (timeoutId p) (running w),
        nextTimer := Suc (nextTimer w),
        prov := p\<lparr>timeoutId := Some (nextTimer w),
          batched := b\<lparr>calls := calls b @ [c], callbacks := callbacks b @ [promise]\<rparr>\<rparr>\<rparr>)"

text \<open>\<open>call\<close> up to its \<open>await\<close>, and after it.\<close>

definition begin_call :: "request \<Rightarrow> block_tag option \<Rightarrow> provider_world \<Rightarrow> provider_world" where
  "begin_call q tag w =
     (let promise = length (requests w); w' = w\<lparr>requests := requests w @ [(q, tag)]\<rparr> in
      if multicall (prov w) = None then w'\<lparr>inflight := inflight w @ [Direct q tag promise]\<rparr>
      else w'\<lparr>prov := ratio_check (clock w) (prov w), resolving := resolving w @ [promise]\<rparr>)"

definition resume_call :: "nat \<Rightarrow> provider_world \<Rightarrow> provider_world" where
  "resume_call promise w =
     (let (q, tag) = requests w ! promise; p = prov w; address = the (multicall p);
          w' = w\<lparr>resolving := remove1 promise (resolving w)\<rparr> in
      if batchedCall q address \<or> \<not> batchableCall q \<or> alreadyBatchedCallsConflictWith p tag
      then w'\<lparr>prov := p\<lparr>numberOfActualCalls := numberOfActualCalls p + 1\<rparr>,
              inflight := inflight w @ [Direct q tag promise]\<rparr>
      else let b = batched p;
               b' = (if calls b = [] then b\<lparr>batch_tag := tag\<rparr> else b) in
           enqueueCall (req_to q, req_data q) promise
             (w'\<lparr>prov := p\<lparr>numberOfBatchedCalls := numberOfBatchedCalls p + 1, batched := b'\<rparr>\<rparr>))"

text \<open>
  The object of the Multicall contract has this provider for its own and calls back into \<open>call\<close>, which only counts
  the call and hands it down.
\<close>

definition dispatchCalls :: "provider_world \<Rightarrow> provider_world" where
  "dispatchCalls w =
     (let p = prov w; b = batched p; w' = w\<lparr>prov := p\<lparr>batched := emptyBatch\<rparr>\<rparr>; q = ratio_check (clock w) p in
      case calls b of
        [] \<Rightarrow> w'\<lparr>settled := settled w @ map (\<lambda>i. (i, clock w, Inl TypeError)) (callbacks b)\<rparr>
      | [c] \<Rightarrow> w'\<lparr>inflight := inflight w @ [Single c (batch_tag b) (callbacks b)]\<rparr>
      | _ \<Rightarrow> w'\<lparr>prov := q\<lparr>batched := emptyBatch, numberOfActualCalls := numberOfActualCalls q + 1\<rparr>,
              inflight := inflight w @ [Aggregate (calls b) (batch_tag b) (callbacks b)]\<rparr>)"

definition fire :: "nat \<Rightarrow> provider_world \<Rightarrow> provider_world" where
  "fire i w = dispatchCalls (w\<lparr>running := filter (\<lambda>(j, due). j \<noteq> i) (running w)\<rparr>)"

text \<open>The answers: the results are handed out by position; a missing one is \<open>undefined\<close>.\<close>

definition plain_request :: "call_request \<Rightarrow> request" where
  "plain_request c = \<lparr>req_to = fst c, req_from = None, req_gasLimit = None, req_gasPrice = None, req_data = snd c,
     req_value = None\<rparr>"

definition hand_out :: "int \<Rightarrow> nat list \<Rightarrow> string list result \<Rightarrow> settlement list" where
  "hand_out now ps r =
     (case r of
        Inl e \<Rightarrow> map (\<lambda>i. (i, now, Inl e)) ps
      | Inr results \<Rightarrow> map (\<lambda>k. (ps ! k, now, Inr (if k < length results then Some (results ! k) else None)))
          [0..<length ps])"

fun answers_to :: "network \<Rightarrow> int \<Rightarrow> sent \<Rightarrow> settlement list" where
  "answers_to net now (Aggregate cs tag ps) = hand_out now ps (aggregate net cs tag)"
| "answers_to net now (Single c tag ps) = hand_out now ps (bindE (base_call net (plain_request c) tag) (\<lambda>r. Inr [r]))"
| "answers_to net now (Direct q tag p) = [(p, now, bindE (base_call net q tag) (\<lambda>r. Inr (Some r)))]"

definition reply :: "network \<Rightarrow> nat \<Rightarrow> provider_world \<Rightarrow> provider_world" where
  "reply net k w = w\<lparr>inflight := take k (inflight w) @ drop (Suc k) (inflight w),
     settled := settled w @ answers_to net (clock w) (inflight w ! k)\<rparr>"

text \<open>\<open>getBalance\<close> asks the Multicall contract if it can, through \<open>call\<close>, and the provider below otherwise.\<close>

datatype balance_route = BaseBalance | MulticallBalance string

definition getBalance_route :: "(string \<Rightarrow> bool) \<Rightarrow> provider \<Rightarrow> string \<Rightarrow> balance_route" where
  "getBalance_route isAddress p a =
     (case multicall p of
        None \<Rightarrow> BaseBalance
      | Some m \<Rightarrow> if \<not> isAddress a then BaseBalance else MulticallBalance m)"

section \<open>The event loop\<close>

text \<open>The answer of the network depends on the time at which it is given.\<close>

inductive progress :: "(int \<Rightarrow> network) \<Rightarrow> provider_world \<Rightarrow> provider_world \<Rightarrow> bool" for net where
  Resume: "i \<in> set (resolving w) \<Longrightarrow> progress net w (resume_call i w)"
| Fire: "(i, due) \<in> set (running w) \<Longrightarrow> clock w \<le> t \<Longrightarrow> due \<le> t \<Longrightarrow> progress net w (fire i (w\<lparr>clock := t\<rparr>))"
| Reply: "k < length (inflight w) \<Longrightarrow> clock w \<le> t \<Longrightarrow> progress net w (reply (net t) k (w\<lparr>clock := t\<rparr>))"

inductive reachable_world :: "(int \<Rightarrow> network) \<Rightarrow> provider_world \<Rightarrow> bool" for net where
  World_new: "reachable_world net new_world"
| World_chain: "reachable_world net w \<Longrightarrow> set_chainId n (prov w) = Inr p \<Longrightarrow> reachable_world net (w\<lparr>prov := p\<rparr>)"
| World_call: "reachable_world net w \<Longrightarrow> clock w \<le> t \<Longrightarrow> reachable_world net (begin_call q tag (w\<lparr>clock := t\<rparr>))"
| World_progress: "reachable_world net w \<Longrightarrow> progress net w w' \<Longrightarrow> reachable_world net w'"

section \<open>The invariant\<close>

fun waiting :: "sent \<Rightarrow> nat list" where
  "waiting (Aggregate cs tag ps) = ps" | "waiting (Single c tag ps) = ps" | "waiting (Direct q tag p) = [p]"

text \<open>The promises that wait, and all promises with where they are.\<close>

definition unanswered :: "provider_world \<Rightarrow> nat list" where
  "unanswered w = resolving w @ callbacks (batched (prov w)) @ concat (map waiting (inflight w))"

definition promises :: "provider_world \<Rightarrow> nat multiset" where
  "promises w = mset (unanswered w) + mset (map fst (settled w))"

definition call_of :: "request \<Rightarrow> call_request" where
  "call_of q = (req_to q, req_data q)"

definition queued_for :: "(request \<times> block_tag option) list \<Rightarrow> block_tag option \<Rightarrow> call_request \<Rightarrow> nat \<Rightarrow> bool" where
  "queued_for reqs tag c i \<longleftrightarrow> i < length reqs \<and> c = call_of (fst (reqs ! i)) \<and>
     effective (snd (reqs ! i)) = effective tag"

fun sent_for :: "(request \<times> block_tag option) list \<Rightarrow> sent \<Rightarrow> bool" where
  "sent_for reqs (Aggregate cs tag ps) = list_all2 (queued_for reqs tag) cs ps"
| "sent_for reqs (Single c tag ps) = list_all2 (queued_for reqs tag) [c] ps"
| "sent_for reqs (Direct q tag i) = (i < length reqs \<and> reqs ! i = (q, tag))"

text \<open>A promise is resolved with what the network answers to its request, or to its request without the sender.\<close>

definition answer_of :: "network \<Rightarrow> request \<times> block_tag option \<Rightarrow> string \<Rightarrow> bool" where
  "answer_of net r v \<longleftrightarrow> (\<exists>q tag. (q = fst r \<or> q = plain_request (call_of (fst r))) \<and> effective tag = effective (snd r) \<and>
     base_call net q tag = Inr v)"

fun properly_settled :: "(int \<Rightarrow> network) \<Rightarrow> (request \<times> block_tag option) list \<Rightarrow> settlement \<Rightarrow> bool" where
  "properly_settled net reqs (i, t, Inl e) = (i < length reqs)"
| "properly_settled net reqs (i, t, Inr v) = (i < length reqs \<and> (\<exists>s. v = Some s \<and> answer_of (net t) (reqs ! i) s))"

text \<open>What is documented of Multicall: it answers the calls one by one at the same block, and fails if one of them fails.\<close>

definition multicall_aggregates :: "network \<Rightarrow> bool" where
  "multicall_aggregates net \<longleftrightarrow> (\<forall>cs tag rs. aggregate net cs tag = Inr rs \<longrightarrow>
     mapE (\<lambda>c. base_call net (plain_request c) tag) cs = Inr rs)"

text \<open>Exactly one timer runs while calls are queued, and none otherwise.\<close>

definition timer_ok :: "provider_world \<Rightarrow> bool" where
  "timer_ok w \<longleftrightarrow> (if calls (batched (prov w)) = [] then running w = []
     else \<exists>i due. running w = [(i, due)] \<and> timeoutId (prov w) = Some i)"

definition world_ok :: "(int \<Rightarrow> network) \<Rightarrow> provider_world \<Rightarrow> bool" where
  "world_ok net w \<longleftrightarrow> promises w = mset [0..<length (requests w)] \<and> timer_ok w \<and>
     list_all2 (queued_for (requests w) (batch_tag (batched (prov w)))) (calls (batched (prov w))) (callbacks (batched (prov w))) \<and>
     (\<forall>s \<in> set (inflight w). sent_for (requests w) s) \<and>
     (\<forall>x \<in> set (settled w). properly_settled net (requests w) x) \<and>
     (resolving w \<noteq> [] \<longrightarrow> multicall (prov w) \<noteq> None)"

lemma world_okI:
  assumes "promises w = mset [0..<length (requests w)]" "timer_ok w"
    and "list_all2 (queued_for (requests w) (batch_tag (batched (prov w)))) (calls (batched (prov w))) (callbacks (batched (prov w)))"
    and "\<And>s. s \<in> set (inflight w) \<Longrightarrow> sent_for (requests w) s"
    and "\<And>x. x \<in> set (settled w) \<Longrightarrow> properly_settled net (requests w) x"
    and "resolving w \<noteq> [] \<Longrightarrow> multicall (prov w) \<noteq> None"
  shows "world_ok net w"
  using assms by (simp add: world_ok_def)

lemma world_okD:
  assumes "world_ok net w"
  shows "promises w = mset [0..<length (requests w)]" "timer_ok w"
    and "list_all2 (queued_for (requests w) (batch_tag (batched (prov w)))) (calls (batched (prov w))) (callbacks (batched (prov w)))"
    and "s \<in> set (inflight w) \<Longrightarrow> sent_for (requests w) s"
    and "x \<in> set (settled w) \<Longrightarrow> properly_settled net (requests w) x"
    and "resolving w \<noteq> [] \<Longrightarrow> multicall (prov w) \<noteq> None"
  using assms by (simp_all add: world_ok_def)

text \<open>New requests change nothing for the old promises.\<close>

lemma queued_for_append: "queued_for reqs tag c i \<Longrightarrow> queued_for (reqs @ xs) tag c i"
  by (simp add: queued_for_def nth_append)

lemma sent_for_append: "sent_for reqs s \<Longrightarrow> sent_for (reqs @ xs) s"
  by (cases s) (auto simp: nth_append intro: queued_for_append list_all2_mono)

lemma properly_settled_append: "properly_settled net reqs x \<Longrightarrow> properly_settled net (reqs @ xs) x"
  by (cases "(net, reqs, x)" rule: properly_settled.cases) (auto simp: nth_append)

lemma ratio_check_simps [simp]:
  "batched (ratio_check now p) = batched p" "multicall (ratio_check now p) = multicall p"
  "timeoutId (ratio_check now p) = timeoutId p"
  by (simp_all add: ratio_check_def split: option.split)

lemma world_ok_new: "world_ok net new_world"
  by (rule world_okI) (simp_all add: new_world_def new_provider_def emptyBatch_def promises_def unanswered_def timer_ok_def)

lemma world_ok_clock: "world_ok net (w\<lparr>clock := t\<rparr>) = world_ok net w"
  by (simp add: world_ok_def promises_def unanswered_def timer_ok_def)

lemma world_ok_chain:
  assumes "world_ok net w" "set_chainId n (prov w) = Inr p"
  shows "world_ok net (w\<lparr>prov := p\<rparr>)"
  using assms by (auto simp: world_ok_def set_chainId_def promises_def unanswered_def timer_ok_def split: if_splits)

lemma mset_upto_Suc: "mset_set {0..<Suc n} = add_mset n (mset_set {0..<n})"
  by (simp add: atLeast0_lessThan_Suc)

lemma world_ok_begin_call:
  assumes "world_ok net w"
  shows "world_ok net (begin_call q tag w)"
proof -
  note ok = world_okD [OF assms]
  have queue: "list_all2 (queued_for (requests w @ [(q, tag)]) (batch_tag (batched (prov w)))) (calls (batched (prov w)))
      (callbacks (batched (prov w)))"
    using ok(3) by (rule list_all2_mono) (rule queued_for_append)
  have sent: "\<And>s. s \<in> set (inflight w) \<Longrightarrow> sent_for (requests w @ [(q, tag)]) s" by (intro sent_for_append ok(4))
  have settled: "\<And>x. x \<in> set (settled w) \<Longrightarrow> properly_settled net (requests w @ [(q, tag)]) x"
    by (intro properly_settled_append ok(5))
  have all: "promises (begin_call q tag w) = add_mset (length (requests w)) (promises w)"
    by (simp add: begin_call_def Let_def promises_def unanswered_def)
  show ?thesis
  proof (rule world_okI)
    show "promises (begin_call q tag w) = mset [0..<length (requests (begin_call q tag w))]"
      using all ok(1) by (simp add: begin_call_def Let_def mset_upto_Suc)
  qed (use ok(2,6) queue sent settled in \<open>auto simp: begin_call_def Let_def timer_ok_def nth_append split: if_splits\<close>)
qed

lemma world_ok_resume_call:
  assumes "world_ok net w" "i \<in> set (resolving w)"
  shows "world_ok net (resume_call i w)"
proof -
  note ok = world_okD [OF assms(1)]
  obtain q tag where r: "requests w ! i = (q, tag)" by fastforce
  have "i \<in># promises w" using assms(2) by (simp add: promises_def unanswered_def)
  then have i: "i < length (requests w)" using ok(1) by auto
  have m: "\<exists>y. multicall (prov w) = Some y" using ok(6) assms(2) by fastforce
  have moved: "mset (remove1 i (resolving w)) + {#i#} = mset (resolving w)" using assms(2) by simp
  let ?b = "batched (prov w)"
  let ?direct = "batchedCall q (the (multicall (prov w))) \<or> \<not> batchableCall q \<or> alreadyBatchedCallsConflictWith (prov w) tag"
  show ?thesis
  proof (cases ?direct)
    case True
    have "mset (unanswered (resume_call i w)) = mset (unanswered w)"
      using True r moved by (simp add: resume_call_def Let_def unanswered_def ac_simps)
    with True r i ok(1-5) m show ?thesis
      by (intro world_okI) (auto simp: resume_call_def Let_def promises_def timer_ok_def)
  next
    case False
    let ?tag = "if calls ?b = [] then tag else batch_tag ?b"
    have queue: "list_all2 (queued_for (requests w) ?tag) (calls ?b @ [call_of q]) (callbacks ?b @ [i])"
      using ok(3) False r i by (auto simp: queued_for_def alreadyBatchedCallsConflictWith_def intro!: list_all2_appendI)
    have "mset (unanswered (resume_call i w)) = mset (unanswered w)"
      using False r moved by (simp add: resume_call_def Let_def enqueueCall_def unanswered_def ac_simps)
    moreover have "filter (\<lambda>(j, due). Some j \<noteq> timeoutId (prov w)) (running w) = []"
      using ok(2) by (auto simp: timer_ok_def split: if_splits)
    ultimately show ?thesis
      using False r i ok(1-5) m queue
      by (intro world_okI)
        (auto simp: resume_call_def Let_def enqueueCall_def promises_def timer_ok_def clearTimeout_def call_of_def
          split: option.splits if_splits)
  qed
qed

text \<open>A dispatch moves the whole queue into one request.\<close>

lemma dispatchCalls_cases:
  assumes "list_all2 P (calls (batched (prov w))) (callbacks (batched (prov w)))" "calls (batched (prov w)) \<noteq> []"
  obtains p s where "dispatchCalls w = w\<lparr>prov := p\<lparr>batched := emptyBatch\<rparr>, inflight := inflight w @ [s]\<rparr>"
    "multicall p = multicall (prov w)" "waiting s = callbacks (batched (prov w))"
    "s = Single (hd (calls (batched (prov w)))) (batch_tag (batched (prov w))) (callbacks (batched (prov w))) \<and>
       length (calls (batched (prov w))) = 1 \<or>
     s = Aggregate (calls (batched (prov w))) (batch_tag (batched (prov w))) (callbacks (batched (prov w)))"
proof (cases "calls (batched (prov w))")
  case Nil
  with assms(2) show thesis by simp
next
  case (Cons c cs)
  let ?q = "ratio_check (clock w) (prov w)"
  show thesis
  proof (cases cs)
    case Nil
    with Cons show thesis
      by (intro that [where p = "prov w" and s = "Single c (batch_tag (batched (prov w))) (callbacks (batched (prov w)))"])
        (simp_all add: dispatchCalls_def Let_def)
  next
    case (Cons c' cs')
    with \<open>calls (batched (prov w)) = c # cs\<close> show thesis
      by (intro that [where p = "?q\<lparr>numberOfActualCalls := numberOfActualCalls ?q + 1\<rparr>" and
          s = "Aggregate (calls (batched (prov w))) (batch_tag (batched (prov w))) (callbacks (batched (prov w)))"])
        (simp_all add: dispatchCalls_def Let_def)
  qed
qed

lemma world_ok_fire:
  assumes "world_ok net w" "(i, due) \<in> set (running w)"
  shows "world_ok net (fire i w)"
    and "length (resolving (fire i w)) = length (resolving w)" "callbacks (batched (prov (fire i w))) = []"
    and "length (inflight (fire i w)) = Suc (length (inflight w))" "callbacks (batched (prov w)) \<noteq> []"
    and "requests (fire i w) = requests w"
proof -
  note ok = world_okD [OF assms(1)]
  have nonempty: "calls (batched (prov w)) \<noteq> []" and timer: "running w = [(i, due)]"
    using ok(2) assms(2) by (auto simp: timer_ok_def split: if_splits)
  let ?w = "w\<lparr>running := []\<rparr>"
  have fire: "fire i w = dispatchCalls ?w" by (simp add: fire_def timer)
  have ne: "calls (batched (prov ?w)) \<noteq> []" using nonempty by simp
  have queue: "list_all2 (queued_for (requests w) (batch_tag (batched (prov w)))) (calls (batched (prov ?w)))
      (callbacks (batched (prov ?w)))" using ok(3) by simp
  obtain p s where d: "fire i w = ?w\<lparr>prov := p\<lparr>batched := emptyBatch\<rparr>, inflight := inflight ?w @ [s]\<rparr>"
    "multicall p = multicall (prov ?w)" "waiting s = callbacks (batched (prov ?w))"
    "s = Single (hd (calls (batched (prov ?w)))) (batch_tag (batched (prov ?w))) (callbacks (batched (prov ?w))) \<and>
       length (calls (batched (prov ?w))) = 1 \<or>
     s = Aggregate (calls (batched (prov ?w))) (batch_tag (batched (prov ?w))) (callbacks (batched (prov ?w)))"
    unfolding fire by (rule dispatchCalls_cases [OF queue ne])
  have "[hd (calls (batched (prov w)))] = calls (batched (prov w))" if "length (calls (batched (prov w))) = 1"
    using that by (cases "calls (batched (prov w))") simp_all
  then have sent: "sent_for (requests w) s" using d(4) ok(3) by auto
  show "world_ok net (fire i w)"
    using ok d(1-3) sent by (intro world_okI)
      (auto simp: promises_def unanswered_def timer_ok_def emptyBatch_def ac_simps)
  show "callbacks (batched (prov w)) \<noteq> []" using queue nonempty by auto
  show "length (resolving (fire i w)) = length (resolving w)" "callbacks (batched (prov (fire i w))) = []"
    "length (inflight (fire i w)) = Suc (length (inflight w))" "requests (fire i w) = requests w"
    by (simp_all add: d(1) emptyBatch_def)
qed

text \<open>An answer settles exactly the promises that waited for it, each with the answer to its own request.\<close>

lemma fst_hand_out: "map fst (hand_out now ps r) = ps"
  by (cases r) (simp_all add: hand_out_def o_def map_nth)

lemma fst_answers: "map fst (answers_to net now s) = waiting s"
  by (cases s) (simp_all add: fst_hand_out)

lemma mapE_Inr_nth: "mapE f xs = Inr ys \<Longrightarrow> length ys = length xs \<and> (\<forall>k < length xs. f (xs ! k) = Inr (ys ! k))"
  by (induction xs arbitrary: ys) (auto simp: bindE_eq_Inr_iff nth_Cons split: nat.split)

lemma hand_out_settles:
  assumes "list_all2 (queued_for reqs tag) cs ps" "x \<in> set (hand_out now ps r)"
    and "\<And>rs. r = Inr rs \<Longrightarrow> mapE (\<lambda>c. base_call (net now) (plain_request c) tag) cs = Inr rs"
  shows "properly_settled net reqs x"
proof (cases r)
  case (Inl e)
  then show ?thesis using assms(1,2) by (auto simp: hand_out_def queued_for_def list_all2_conv_all_nth in_set_conv_nth)
next
  case (Inr rs)
  note answered = mapE_Inr_nth [OF assms(3) [OF Inr]]
  have len: "length cs = length ps" using assms(1) by (rule list_all2_lengthD)
  obtain k where k: "k < length ps" "x = (ps ! k, now, Inr (Some (rs ! k)))"
    using assms(2) Inr answered len by (auto simp: hand_out_def)
  have q: "queued_for reqs tag (cs ! k) (ps ! k)" using assms(1) k(1) by (simp add: list_all2_conv_all_nth)
  have "base_call (net now) (plain_request (cs ! k)) tag = Inr (rs ! k)" using answered k(1) len by simp
  then have "answer_of (net now) (reqs ! (ps ! k)) (rs ! k)"
    unfolding answer_of_def using q by (intro exI [of _ "plain_request (cs ! k)"] exI [of _ tag]) (simp add: queued_for_def)
  with k(2) q show ?thesis by (simp add: queued_for_def)
qed

lemma answers_settle:
  assumes "sent_for reqs s" "x \<in> set (answers_to (net now) now s)" "multicall_aggregates (net now)"
  shows "properly_settled net reqs x"
proof (cases s)
  case (Aggregate cs tag ps)
  with assms show ?thesis
    by (auto simp: multicall_aggregates_def intro: hand_out_settles [of reqs tag cs ps x now "aggregate (net now) cs tag"])
next
  case (Single c tag ps)
  with assms show ?thesis
    by (auto simp: bindE_eq_Inr_iff
        intro!: hand_out_settles [of reqs tag "[c]" ps x now "bindE (base_call (net now) (plain_request c) tag) (\<lambda>r. Inr [r])"])
next
  case (Direct q tag i)
  with assms show ?thesis
    by (cases "base_call (net now) q tag") (auto simp: answer_of_def)
qed

lemma world_ok_reply:
  assumes "world_ok net w" "k < length (inflight w)" "multicall_aggregates (net (clock w))"
  shows "world_ok net (reply (net (clock w)) k w)"
proof -
  note ok = world_okD [OF assms(1)]
  let ?s = "inflight w ! k"
  have split: "inflight w = take k (inflight w) @ ?s # drop (Suc k) (inflight w)" by (rule id_take_nth_drop [OF assms(2)])
  have "mset (concat (map waiting (inflight w))) =
      mset (concat (map waiting (take k (inflight w) @ drop (Suc k) (inflight w)))) + mset (waiting ?s)"
    by (subst split) simp
  then have "promises (reply (net (clock w)) k w) = promises w"
    by (simp add: promises_def unanswered_def reply_def fst_answers ac_simps del: mset_map)
  moreover have "\<And>s. s \<in> set (take k (inflight w)) \<union> set (drop (Suc k) (inflight w)) \<Longrightarrow> s \<in> set (inflight w)"
    by (auto dest: in_set_takeD in_set_dropD)
  moreover have "\<And>x. x \<in> set (answers_to (net (clock w)) (clock w) ?s) \<Longrightarrow> properly_settled net (requests w) x"
    using answers_settle [of "requests w" ?s _ net "clock w"] ok(4) [of ?s] assms(2,3) by simp
  ultimately show ?thesis
    using ok by (intro world_okI) (auto simp: reply_def timer_ok_def)
qed

lemma world_ok_progress:
  assumes "progress net w w'" "world_ok net w" "\<And>t. multicall_aggregates (net t)"
  shows "world_ok net w'"
  using assms(1)
proof cases
  case (Resume i)
  then show ?thesis using world_ok_resume_call [OF assms(2)] by simp
next
  case (Fire i due t)
  then show ?thesis using world_ok_fire(1) [of net "w\<lparr>clock := t\<rparr>"] assms(2) by (simp add: world_ok_clock)
next
  case (Reply k t)
  then show ?thesis using world_ok_reply [of net "w\<lparr>clock := t\<rparr>" k] assms(2,3) by (simp add: world_ok_clock)
qed

lemma reachable_world_ok:
  assumes "reachable_world net w" "\<And>t. multicall_aggregates (net t)"
  shows "world_ok net w"
  using assms(1)
proof induction
  case World_new
  show ?case by (rule world_ok_new)
next
  case (World_chain w n p)
  then show ?case using world_ok_chain by blast
next
  case (World_call w t q tag)
  then show ?case by (simp add: world_ok_begin_call world_ok_clock)
next
  case (World_progress w w')
  then show ?case using world_ok_progress assms(2) by blast
qed

section \<open>Every call is answered\<close>

text \<open>
  What is left to do before all promises are settled: a call that is being resolved may still be queued, sent and
  answered.
\<close>

definition work :: "provider_world \<Rightarrow> nat" where
  "work w = 3 * length (resolving w) + 2 * length (callbacks (batched (prov w))) + length (inflight w)"

lemma work_resume:
  assumes "i \<in> set (resolving w)"
  shows "work (resume_call i w) < work w" "requests (resume_call i w) = requests w"
proof -
  obtain q tag where r: "requests w ! i = (q, tag)" by fastforce
  have "length (resolving w) = Suc (length (remove1 i (resolving w)))"
    using length_pos_if_in_set [OF assms] assms by (simp add: length_remove1)
  with r show "work (resume_call i w) < work w"
    by (simp add: work_def resume_call_def enqueueCall_def Let_def)
  show "requests (resume_call i w) = requests w"
    using r by (simp add: resume_call_def enqueueCall_def Let_def)
qed

lemma work_progress:
  assumes "progress net w w'" "world_ok net w"
  shows "work w' < work w \<and> requests w' = requests w"
  using assms(1)
proof cases
  case (Resume i)
  then show ?thesis using work_resume by simp
next
  case (Fire i due t)
  have "callbacks (batched (prov w)) \<noteq> []" using world_ok_fire(5) [OF assms(2) Fire(2)] .
  then show ?thesis
    using world_ok_fire [of net "w\<lparr>clock := t\<rparr>" i due] Fire assms(2)
    by (cases "callbacks (batched (prov w))") (simp_all add: work_def world_ok_clock)
next
  case (Reply k t)
  then show ?thesis by (simp add: work_def reply_def)
qed

lemma work_left:
  assumes "world_ok net w" "\<nexists>w'. progress net w w'"
  shows "unanswered w = []"
proof (rule ccontr)
  assume left: "unanswered w \<noteq> []"
  note ok = world_okD [OF assms(1)]
  consider i where "i \<in> set (resolving w)" | "callbacks (batched (prov w)) \<noteq> []" | "inflight w \<noteq> []"
    using left by (cases "resolving w"; cases "inflight w") (auto simp: unanswered_def)
  then show False
  proof cases
    case 1
    then show False using assms(2) Resume by blast
  next
    case 2
    then have "calls (batched (prov w)) \<noteq> []" using ok(3) by auto
    then obtain i due where "(i, due) \<in> set (running w)" using ok(2) by (auto simp: timer_ok_def)
    then show False using assms(2) Fire [of i due w "max (clock w) due"] by fastforce
  next
    case 3
    then show False using assms(2) Reply [of 0 w "clock w"] by auto
  qed
qed

text \<open>
  The answers may keep the first caller waiting for ever, though: every queued call restarts the timer, so calls
  that follow each other within the delay are never sent.
\<close>

definition sample_request :: request where
  "sample_request = \<lparr>req_to = Some ''0x1'', req_from = None, req_gasLimit = None, req_gasPrice = None,
     req_data = Some (HexText ''0x00''), req_value = None\<rparr>"

definition ask :: "int \<Rightarrow> provider_world \<Rightarrow> provider_world" where
  "ask t w = resume_call (length (requests w)) (begin_call sample_request None (w\<lparr>clock := t\<rparr>))"

lemma ask_queues:
  assumes "multicall (prov w) \<noteq> None" "resolving w = []" "batch_tag (batched (prov w)) = None"
  shows "callbacks (batched (prov (ask t w))) = callbacks (batched (prov w)) @ [length (requests w)]"
    "multicall (prov (ask t w)) = multicall (prov w)" "resolving (ask t w) = []" "inflight (ask t w) = inflight w"
    "settled (ask t w) = settled w" "batch_tag (batched (prov (ask t w))) = None" "clock (ask t w) = t"
    "length (requests (ask t w)) = Suc (length (requests w))" "timeoutId (prov (ask t w)) = Some (nextTimer w)"
    "running (ask t w) = (nextTimer w, t + 10) # clearTimeout (timeoutId (prov w)) (running w)"
  using assms by (simp_all add: ask_def begin_call_def resume_call_def enqueueCall_def Let_def sample_request_def
      batchedCall_def batchableCall_def alreadyBatchedCallsConflictWith_def batchingDelayMs_def)

lemma ask_reachable:
  assumes "reachable_world net w" "multicall (prov w) \<noteq> None" "clock w \<le> t"
  shows "reachable_world net (ask t w)"
  unfolding ask_def
  by (rule World_progress [OF World_call [OF assms(1,3)]], rule Resume)
    (use assms(2) in \<open>auto simp: begin_call_def Let_def\<close>)

definition connected_world :: provider_world where
  "connected_world = new_world\<lparr>prov := new_provider\<lparr>multicall := multicallAddress 1, chainId := 1\<rparr>\<rparr>"

lemma connected_world_reachable: "reachable_world net connected_world"
proof -
  have "set_chainId 1 (prov new_world) = Inr (new_provider\<lparr>multicall := multicallAddress 1, chainId := 1\<rparr>)"
    by (simp add: set_chainId_def new_world_def new_provider_def hasMulticall_def multicallAddress_def)
  from World_chain [OF World_new this] show ?thesis by (simp add: connected_world_def)
qed

lemma calls_can_starve:
  "\<exists>w. reachable_world net w \<and> clock w = 9 * int n \<and> unanswered w = [0..<Suc n] \<and> inflight w = [] \<and> settled w = [] \<and>
     (\<forall>(i, due) \<in> set (running w). clock w < due)"
proof -
  have "\<exists>w. reachable_world net w \<and> clock w = 9 * int n \<and> callbacks (batched (prov w)) = [0..<Suc n] \<and> inflight w = [] \<and>
     settled w = [] \<and> multicall (prov w) \<noteq> None \<and> resolving w = [] \<and> batch_tag (batched (prov w)) = None \<and>
     length (requests w) = Suc n \<and> (\<exists>i. timeoutId (prov w) = Some i \<and> running w = [(i, clock w + 10)])"
  proof (induction n)
    case 0
    have "multicall (prov connected_world) \<noteq> None" "resolving connected_world = []" "requests connected_world = []"
      "batch_tag (batched (prov connected_world)) = None" "clock connected_world = 0"
      "callbacks (batched (prov connected_world)) = []" "inflight connected_world = []" "settled connected_world = []"
      "timeoutId (prov connected_world) = None" "running connected_world = []"
      by (simp_all add: connected_world_def new_world_def new_provider_def multicallAddress_def emptyBatch_def)
    note start = this
    show ?case
      using ask_queues [OF start(1,2,4), of 0] ask_reachable [OF connected_world_reachable start(1), of 0] start
      by (intro exI [of _ "ask 0 connected_world"]) (simp add: clearTimeout_def)
  next
    case (Suc n)
    then obtain w where w: "reachable_world net w" "clock w = 9 * int n" "callbacks (batched (prov w)) = [0..<Suc n]"
      "inflight w = []" "settled w = []" "multicall (prov w) \<noteq> None" "resolving w = []" "batch_tag (batched (prov w)) = None"
      "length (requests w) = Suc n" "\<exists>i. timeoutId (prov w) = Some i \<and> running w = [(i, clock w + 10)]" by blast
    let ?t = "9 * int (Suc n)"
    show ?case
      using ask_queues [OF w(6-8), of ?t] ask_reachable [OF w(1,6), of ?t] w
      by (intro exI [of _ "ask ?t w"]) (auto simp: clearTimeout_def)
  qed
  then show ?thesis by (auto simp: unanswered_def)
qed

text \<open>A network of one contract, which repeats what it is sent, for the examples.\<close>

definition echo :: network where
  "echo = \<lparr>base_call = (\<lambda>q tag. case req_data q of Some (HexText s) \<Rightarrow> Inr s | _ \<Rightarrow> Inl TypeError),
     aggregate = (\<lambda>cs tag. mapE (\<lambda>c. case snd c of Some (HexText s) \<Rightarrow> Inr s | _ \<Rightarrow> Inl TypeError) cs)\<rparr>"

lemma echo_aggregates: "multicall_aggregates echo"
  by (auto simp: multicall_aggregates_def echo_def plain_request_def)

text \<open>Two calls, queued, sent as one and answered.\<close>

definition two_calls :: provider_world where
  "two_calls = ask 5 (ask 0 connected_world)"

definition two_answers :: provider_world where
  "two_answers = reply echo 0 ((fire 1 (two_calls\<lparr>clock := 15\<rparr>))\<lparr>clock := 20\<rparr>)"

lemma two_calls_reachable: "reachable_world net two_calls"
proof -
  have "multicall (prov connected_world) \<noteq> None" "clock connected_world \<le> 0"
    "multicall (prov (ask 0 connected_world)) \<noteq> None" "clock (ask 0 connected_world) \<le> 5" by code_simp+
  then show ?thesis unfolding two_calls_def by (intro ask_reachable connected_world_reachable)
qed

lemma two_answers_run: "(progress (\<lambda>t. echo) ^^ 2) two_calls two_answers"
proof -
  let ?w = "fire 1 (two_calls\<lparr>clock := 15\<rparr>)"
  have "(1, 15) \<in> set (running two_calls)" "clock two_calls \<le> 15" "0 < length (inflight ?w)" "clock ?w \<le> 20"
    by code_simp+
  then have "progress (\<lambda>t. echo) two_calls ?w" "progress (\<lambda>t. echo) ?w two_answers"
    unfolding two_answers_def by (auto intro: Fire Reply)
  then show ?thesis by (auto simp: numeral_2_eq_2)
qed

lemma two_answers_end: "\<nexists>w. progress net two_answers w"
proof -
  have "resolving two_answers = []" "running two_answers = []" "inflight two_answers = []" by code_simp+
  then show ?thesis by (auto elim: progress.cases)
qed

lemma two_answers_settled:
  "settled two_answers = [(0, 20, Inr (Some ''0x00'')), (1, 20, Inr (Some ''0x00''))]" "length (requests two_calls) = 2"
  by code_simp+

text \<open>
  C26. Batched calls are answered. In every reachable state of the provider, a run of the event loop without new
  calls ends: it makes at most \<open>work w\<close> steps, however its steps are ordered, and when nothing more can happen
  every promise that was handed out is settled, none of them twice.
\<close>

theorem every_call_is_answered:
  assumes "reachable_world net w" "\<And>t. multicall_aggregates (net t)" "(progress net ^^ k) w w'"
  shows "k \<le> work w \<and> ((\<nexists>w''. progress net w' w'') \<longrightarrow> mset (map fst (settled w')) = mset [0..<length (requests w)])"
proof -
  have "k + work w' \<le> work w \<and> requests w' = requests w \<and> world_ok net w'"
    using assms(3)
  proof (induction k arbitrary: w')
    case 0
    then show ?case using reachable_world_ok [OF assms(1,2)] by simp
  next
    case (Suc k)
    then obtain v where v: "(progress net ^^ k) w v" "progress net v w'" by auto
    with Suc.IH [OF v(1)] work_progress [OF v(2)] world_ok_progress [OF v(2) _ assms(2)] show ?case by auto
  qed
  moreover from this have "mset (map fst (settled w')) = mset [0..<length (requests w)]" if "\<nexists>w''. progress net w' w''"
    using work_left [OF _ that] world_okD(1) [of net w'] by (simp add: promises_def)
  ultimately show ?thesis by simp
qed

lemma every_call_is_answered_witness:
  "(progress (\<lambda>t. echo) ^^ 2) two_calls two_answers \<and> 2 \<le> work two_calls \<and>
   mset (map fst (settled two_answers)) = mset [0..<2]"
  using every_call_is_answered [OF two_calls_reachable echo_aggregates two_answers_run] two_answers_run
    two_answers_end [of "\<lambda>t. echo"] two_answers_settled(2) by simp


lemma two_answers_reachable: "reachable_world (\<lambda>t. echo) two_answers"
  using two_answers_run two_calls_reachable [of "\<lambda>t. echo"] by (auto simp: numeral_2_eq_2 intro: World_progress)


end
