(* ===== verification/Populating.thy ===== *)
theory Populating
  imports Readable Vault_Changes
begin

text \<open>
  Preparing transactions (\<open>packages/lib-ethers/src/PopulatableBitcoinsMoneyp.ts\<close>): the arguments of the contract
  methods, the hints for the sorted list of vaults, the gas, and the details read from the receipt.
  Contracts and node are parameters of the record \<open>eth_session\<close>; a transaction is the method it calls
  with its arguments.
\<close>

section \<open>Transactions\<close>

datatype arg = Uint nat | Addr string | Flag bool | Addrs "string list"

record overrides =
  ov_from :: "string option"
  ov_nonce :: "nat option"
  ov_gasLimit :: "nat option"
  ov_gasPrice :: "nat option"

record raw_transaction =
  tx_contract :: string
  tx_method :: string
  tx_args :: "arg list"
  tx_value :: "nat option"
  tx_overrides :: overrides

text \<open>A log with what the interface of its contract makes of it, the name of the event with its arguments.\<close>

record log_entry =
  log_address :: string
  log_parsed :: "(string \<times> (string \<times> arg) list) result"

record tx_receipt =
  rc_status :: nat
  rc_from :: string
  rc_logs :: "log_entry list"

record eth_session =
  s_connection :: connection
  s_readable :: readable
  contract_address :: "string \<Rightarrow> string"
  getApproxHint :: "nat \<Rightarrow> nat \<Rightarrow> nat \<Rightarrow> (string \<times> nat \<times> nat) result"
  findInsertPosition :: "nat \<Rightarrow> string \<Rightarrow> string \<Rightarrow> (string \<times> string) result"
  getFirst :: "string result"
  getRedemptionHints :: "nat \<Rightarrow> nat \<Rightarrow> nat \<Rightarrow> (string \<times> nat \<times> nat) result"
  estimateGas :: "raw_transaction \<Rightarrow> nat result"
  populateTransaction :: "raw_transaction \<Rightarrow> unit result"
  priceFeedIsTestnet :: bool
  signer_send :: "(raw_transaction \<Rightarrow> string result) option"
  transactionReceipt :: "string \<Rightarrow> tx_receipt option result"

text \<open>\<open>estimateAndPopulate\<close> of \<open>packages/lib-ethers/src/contracts.ts\<close>.\<close>

definition estimateAndPopulate :: "eth_session \<Rightarrow> (nat \<Rightarrow> nat) \<Rightarrow> raw_transaction \<Rightarrow> raw_transaction result" where
  "estimateAndPopulate ss adjustGas tx =
     bindE (case ov_gasLimit (tx_overrides tx) of
         Some g \<Rightarrow> Inr tx
       | None \<Rightarrow> bindE (estimateGas ss tx) (\<lambda>g.
           Inr (tx\<lparr>tx_overrides := (tx_overrides tx)\<lparr>ov_gasLimit := Some (adjustGas g)\<rparr>\<rparr>))) (\<lambda>tx'.
     bindE (populateTransaction ss tx') (\<lambda>_. Inr tx'))"

definition contract_call :: "string \<Rightarrow> string \<Rightarrow> nat option \<Rightarrow> overrides \<Rightarrow> arg list \<Rightarrow> raw_transaction" where
  "contract_call c m v ov args = \<lparr>tx_contract = c, tx_method = m, tx_args = args, tx_value = v, tx_overrides = ov\<rparr>"

definition addGasForPotentialLastFeeOperationTimeUpdate :: "nat \<Rightarrow> nat" where
  "addGasForPotentialLastFeeOperationTimeUpdate gas = gas + 10000"

definition addGasForPotentialListTraversal :: "nat \<Rightarrow> nat" where
  "addGasForPotentialListTraversal gas = gas + 25000"

definition addGasForMPIssuance :: "nat \<Rightarrow> nat" where
  "addGasForMPIssuance gas = gas + 50000"

definition redeemMaxIterations :: nat where
  "redeemMaxIterations = 70"

definition defaultBorrowingRateSlippageTolerance :: decimal where
  "defaultBorrowingRateSlippageTolerance = Decimal 5000000000000000"

definition defaultRedemptionRateSlippageTolerance :: decimal where
  "defaultRedemptionRateSlippageTolerance = Decimal 1000000000000000"

text \<open>\<open>_requireAddress(connection, overrides)\<close>\<close>

definition requireAddressFor :: "overrides \<Rightarrow> connection \<Rightarrow> string result" where
  "requireAddressFor ov cn = (case ov_from ov of Some a \<Rightarrow> Inr a | None \<Rightarrow> requireAddress cn)"

section \<open>Details of a receipt\<close>

type_synonym parsed_event = "string \<times> (string \<times> arg) list"

definition extractEvents :: "eth_session \<Rightarrow> string \<Rightarrow> tx_receipt \<Rightarrow> string \<Rightarrow> parsed_event list result" where
  "extractEvents ss c rc name =
     bindE (mapE log_parsed (filter (\<lambda>l. log_address l = contract_address ss c) (rc_logs rc))) (\<lambda>es.
       Inr (filter (\<lambda>e. fst e = name) es))"

definition amount_in :: "string \<Rightarrow> parsed_event \<Rightarrow> decimal result" where
  "amount_in key e = (case map_of (snd e) key of Some (Uint n) \<Rightarrow> Inr (decimalify n) | _ \<Rightarrow> Inl TypeError)"

definition address_in :: "string \<Rightarrow> parsed_event \<Rightarrow> string option" where
  "address_in key e = (case map_of (snd e) key of Some (Addr a) \<Rightarrow> Some a | _ \<Rightarrow> None)"

text \<open>\<open>const [x] = events.map(f)\<close>: every event is mapped, the first is taken, if any.\<close>

definition first_of :: "(parsed_event \<Rightarrow> 'a result) \<Rightarrow> parsed_event list \<Rightarrow> 'a option result" where
  "first_of f es = bindE (mapE f es) (\<lambda>xs. Inr (case xs of [] \<Rightarrow> None | x # _ \<Rightarrow> Some x))"

definition required :: "'a option result \<Rightarrow> 'a result" where
  "required r = bindE r (\<lambda>x. case x of None \<Rightarrow> Inl TypeError | Some y \<Rightarrow> Inr y)"

record 'p vault_change_details =
  vc_params :: 'p
  vc_newVault :: "vault option"
  vc_fee :: "decimal option"

definition newVault_in :: "eth_session \<Rightarrow> tx_receipt \<Rightarrow> vault option result" where
  "newVault_in ss rc =
     bindE (extractEvents ss ''borrowerOperations'' rc ''VaultUpdated'') (first_of (\<lambda>e.
       vault_of (amount_in ''_coll'' e) (amount_in ''_debt'' e)))"

definition wrapVaultChangeWithFees :: "eth_session \<Rightarrow> 'p \<Rightarrow> tx_receipt \<Rightarrow> 'p vault_change_details result" where
  "wrapVaultChangeWithFees ss params rc =
     bindE (newVault_in ss rc) (\<lambda>newVault.
     bindE (bindE (extractEvents ss ''borrowerOperations'' rc ''BPDBorrowingFeePaid'') (first_of (amount_in ''_BPDFee''))) (\<lambda>fee.
       Inr \<lparr>vc_params = params, vc_newVault = newVault, vc_fee = fee\<rparr>))"

record closure_details =
  cl_withdrawCollateral :: "decimal option"
  cl_repayBPD :: "decimal option"

definition wrapVaultClosure :: "eth_session \<Rightarrow> tx_receipt \<Rightarrow> closure_details result" where
  "wrapVaultClosure ss rc =
     bindE (bindE (extractEvents ss ''bpdToken'' rc ''Transfer'') (\<lambda>es.
       first_of (amount_in ''value'')
         (filter (\<lambda>e. address_in ''from'' e = Some (rc_from rc) \<and> address_in ''to'' e = Some AddressZero) es))) (\<lambda>repayBPD.
     bindE (bindE (extractEvents ss ''activePool'' rc ''BitcoinSent'') (\<lambda>es.
       first_of (amount_in ''_amount'') (filter (\<lambda>e. address_in ''_to'' e = Some (rc_from rc)) es))) (\<lambda>withdrawCollateral.
     bindE (required (Inr repayBPD)) (\<lambda>repay.
       Inr \<lparr>cl_withdrawCollateral = withdrawCollateral, cl_repayBPD = nonZero repay\<rparr>)))"

record liquidation_totals =
  collateralGasCompensation :: decimal
  bpdGasCompensation :: decimal
  totalLiquidated :: vault

record liquidation_details =
  liquidatedAddresses :: "string option list"
  liq_totals :: "liquidation_totals option"

definition wrapLiquidation :: "eth_session \<Rightarrow> tx_receipt \<Rightarrow> liquidation_details result" where
  "wrapLiquidation ss rc =
     bindE (extractEvents ss ''vaultManager'' rc ''VaultLiquidated'') (\<lambda>borrowers.
     bindE (bindE (extractEvents ss ''vaultManager'' rc ''Liquidation'') (first_of (\<lambda>e.
       bindE (amount_in ''_collGasCompensation'' e) (\<lambda>c. bindE (amount_in ''_BPDGasCompensation'' e) (\<lambda>b.
       bindE (vault_of (amount_in ''_liquidatedColl'' e) (amount_in ''_liquidatedDebt'' e)) (\<lambda>v.
         Inr \<lparr>collateralGasCompensation = c, bpdGasCompensation = b, totalLiquidated = v\<rparr>)))))) (\<lambda>totals.
       Inr \<lparr>liquidatedAddresses = map (address_in ''_borrower'') borrowers, liq_totals = totals\<rparr>))"

record gains_details =
  bpdLoss :: decimal
  newBPDDeposit :: "decimal option"
  g_collateralGain :: decimal
  g_mpReward :: "decimal option"

definition extractStabilityPoolGainsWithdrawalDetails :: "eth_session \<Rightarrow> tx_receipt \<Rightarrow> gains_details result" where
  "extractStabilityPoolGainsWithdrawalDetails ss rc =
     bindE (bindE (extractEvents ss ''stabilityPool'' rc ''UserDepositChanged'') (first_of (amount_in ''_newDeposit''))) (\<lambda>deposit.
     bindE (required (bindE (extractEvents ss ''stabilityPool'' rc ''RBTCGainWithdrawn'') (first_of (\<lambda>e.
       bindE (amount_in ''_RBTC'' e) (\<lambda>g. bindE (amount_in ''_BPDLoss'' e) (\<lambda>l. Inr (g, l))))))) (\<lambda>(gain, loss).
     bindE (bindE (extractEvents ss ''stabilityPool'' rc ''MPPaidToDepositor'') (first_of (amount_in ''_MP''))) (\<lambda>reward.
       Inr \<lparr>bpdLoss = loss, newBPDDeposit = deposit, g_collateralGain = gain, g_mpReward = reward\<rparr>)))"

record deposit_change_details =
  dc_gains :: gains_details
  dc_depositBPD :: "decimal option"
  dc_withdrawBPD :: "decimal option"
  dc_withdrawAllBPD :: "bool option"

definition wrapStabilityDepositTopup :: "eth_session \<Rightarrow> decimal \<Rightarrow> tx_receipt \<Rightarrow> deposit_change_details result" where
  "wrapStabilityDepositTopup ss topup rc =
     bindE (extractStabilityPoolGainsWithdrawalDetails ss rc) (\<lambda>gains.
       Inr \<lparr>dc_gains = gains, dc_depositBPD = Some topup, dc_withdrawBPD = None, dc_withdrawAllBPD = None\<rparr>)"

definition wrapStabilityDepositWithdrawal :: "eth_session \<Rightarrow> tx_receipt \<Rightarrow> deposit_change_details result" where
  "wrapStabilityDepositWithdrawal ss rc =
     bindE (extractStabilityPoolGainsWithdrawalDetails ss rc) (\<lambda>gains.
     bindE (bindE (extractEvents ss ''bpdToken'' rc ''Transfer'') (\<lambda>es.
       first_of (amount_in ''value'') (filter (\<lambda>e. address_in ''from'' e = Some (contract_address ss ''stabilityPool'') \<and>
         address_in ''to'' e = Some (rc_from rc)) es))) (\<lambda>withdrawBPD.
     bindE (required (Inr (newBPDDeposit gains))) (\<lambda>deposit.
       Inr \<lparr>dc_gains = gains, dc_depositBPD = None, dc_withdrawBPD = withdrawBPD,
         dc_withdrawAllBPD = Some (isZero deposit)\<rparr>)))"

definition wrapCollateralGainTransfer :: "eth_session \<Rightarrow> tx_receipt \<Rightarrow> (gains_details \<times> vault option) result" where
  "wrapCollateralGainTransfer ss rc =
     bindE (newVault_in ss rc) (\<lambda>newVault.
     bindE (extractStabilityPoolGainsWithdrawalDetails ss rc) (\<lambda>gains. Inr (gains, newVault)))"

record redemption_details =
  rd_attempted :: decimal
  rd_actual :: decimal
  rd_collateralTaken :: decimal
  rd_fee :: decimal

definition redemptionDetails :: "eth_session \<Rightarrow> tx_receipt \<Rightarrow> redemption_details option result" where
  "redemptionDetails ss rc =
     bindE (extractEvents ss ''vaultManager'' rc ''Redemption'') (first_of (\<lambda>e.
       bindE (amount_in ''_attemptedBPDAmount'' e) (\<lambda>att. bindE (amount_in ''_actualBPDAmount'' e) (\<lambda>act.
       bindE (amount_in ''_RBTCSent'' e) (\<lambda>taken. bindE (amount_in ''_RBTCFee'' e) (\<lambda>fee.
         Inr \<lparr>rd_attempted = att, rd_actual = act, rd_collateralTaken = taken, rd_fee = fee\<rparr>))))))"

section \<open>Sending\<close>

datatype 'd receipt_state = PendingReceipt | FailedReceipt tx_receipt | SuccessfulReceipt tx_receipt 'd

definition receiptFrom :: "(tx_receipt \<Rightarrow> 'd result) \<Rightarrow> tx_receipt option \<Rightarrow> 'd receipt_state result" where
  "receiptFrom parse raw =
     (case raw of
        None \<Rightarrow> Inr PendingReceipt
      | Some rc \<Rightarrow> if rc_status rc \<noteq> 0 then bindE (parse rc) (\<lambda>d. Inr (SuccessfulReceipt rc d)) else Inr (FailedReceipt rc))"

definition getReceipt :: "eth_session \<Rightarrow> (tx_receipt \<Rightarrow> 'd result) \<Rightarrow> string \<Rightarrow> 'd receipt_state result" where
  "getReceipt ss parse hash = bindE (transactionReceipt ss hash) (receiptFrom parse)"

definition waitForReceipt :: "eth_session \<Rightarrow> (tx_receipt \<Rightarrow> 'd result) \<Rightarrow> string \<Rightarrow> 'd receipt_state result" where
  "waitForReceipt ss parse hash =
     bindE (transactionReceipt ss hash) (\<lambda>raw. bindE (receiptFrom parse raw) (\<lambda>r.
       assertE (raw \<noteq> None) (Inr r)))"

definition send_populated :: "eth_session \<Rightarrow> raw_transaction \<Rightarrow> string result" where
  "send_populated ss tx =
     (case signer_send ss of
        None \<Rightarrow> Inl (Error ''Must be connected through a Signer'')
      | Some sendTransaction \<Rightarrow> sendTransaction tx)"

section \<open>Hints\<close>

definition maxNumberOfTrialsAtOnce :: nat where
  "maxNumberOfTrialsAtOnce = 2500"

function trials :: "nat \<Rightarrow> nat list" where
  "trials n = (if n = 0 then []
     else min n maxNumberOfTrialsAtOnce # trials (n - min n maxNumberOfTrialsAtOnce))"
  by auto
termination by (relation "measure id") (auto simp: maxNumberOfTrialsAtOnce_def)

declare trials.simps [simp del]

definition generateTrials :: "nat \<Rightarrow> nat list result" where
  "generateTrials n = assertE (n > 0) (Inr (trials n))"

text \<open>\<open>Math.ceil(10 * Math.sqrt(n))\<close>: the least number whose square is not below \<open>100 * n\<close>.\<close>

function root_from :: "nat \<Rightarrow> nat \<Rightarrow> nat" where
  "root_from k m = (if m \<le> k * k then k else root_from (Suc k) m)"
  by auto
termination
proof (relation "measure (\<lambda>(k, m). m - k)")
  fix k m :: nat
  assume "\<not> m \<le> k * k"
  then have "k * k < m" by simp
  with le_square [of k] have "k < m" by (rule le_less_trans)
  then show "((Suc k, m), (k, m)) \<in> measure (\<lambda>(k, m). m - k)" by simp
qed simp

declare root_from.simps [simp del]

definition totalNumberOfTrials :: "nat \<Rightarrow> nat" where
  "totalNumberOfTrials n = root_from 0 (100 * n)"

definition collectApproxHint ::
  "eth_session \<Rightarrow> decimal \<Rightarrow> nat \<times> (nat \<times> string) list \<Rightarrow> nat \<Rightarrow> (nat \<times> (nat \<times> string) list) result" where
  "collectApproxHint ss nicr st numberOfTrials =
     bindE (getApproxHint ss (bigNumber nicr) numberOfTrials (fst st)) (\<lambda>(hintAddress, diff, seed).
       Inr (seed, snd st @ [(diff, hintAddress)]))"

text \<open>\<open>results.reduce((a, b) => a.diff.lt(b.diff) ? a : b)\<close>\<close>

definition best_hint :: "(nat \<times> string) list \<Rightarrow> nat \<times> string" where
  "best_hint rs = foldl (\<lambda>a b. if fst a < fst b then a else b) (hd rs) (tl rs)"

definition findHintsForNominalCollateralRatio :: "eth_session \<Rightarrow> nat \<Rightarrow> decimal \<Rightarrow> (string \<times> string) result" where
  "findHintsForNominalCollateralRatio ss seed nicr =
     bindE (getNumberOfVaults (s_readable ss) None) (\<lambda>n.
       if n = 0 then Inr (AddressZero, AddressZero)
       else if infinite_d nicr \<noteq> None then bindE (getFirst ss) (\<lambda>f. Inr (AddressZero, f))
       else bindE (generateTrials (totalNumberOfTrials (nat n))) (\<lambda>ts.
         bindE (foldE (collectApproxHint ss nicr) (seed, []) ts) (\<lambda>(_, results).
           findInsertPosition ss (bigNumber nicr) (snd (best_hint results)) (snd (best_hint results)))))"

text \<open>\<open>is_pending\<close> tells whether the vault is an instance of \<open>VaultWithPendingRedistribution\<close>.\<close>

definition findHints :: "eth_session \<Rightarrow> nat \<Rightarrow> bool \<Rightarrow> vault \<Rightarrow> (string \<times> string) result" where
  "findHints ss seed is_pending v =
     (if is_pending then Inl (Error ''Rewards must be applied to this Vault'')
      else findHintsForNominalCollateralRatio ss seed (nominalCollateralRatio v))"

record redemption_hints =
  truncatedAmount :: decimal
  firstRedemptionHint :: string
  partialHints :: "string \<times> string \<times> nat"

definition findRedemptionHints :: "eth_session \<Rightarrow> nat \<Rightarrow> decimal \<Rightarrow> redemption_hints result" where
  "findRedemptionHints ss seed amt =
     bindE (getPrice (s_readable ss) None) (\<lambda>p.
     bindE (getRedemptionHints ss (bigNumber amt) (bigNumber p) redeemMaxIterations) (\<lambda>(firstHint, nicr, truncated).
     bindE (if nicr = 0 then Inr (AddressZero, AddressZero)
            else findHintsForNominalCollateralRatio ss seed (decimalify nicr)) (\<lambda>(upper, lower).
       Inr \<lparr>truncatedAmount = decimalify truncated, firstRedemptionHint = firstHint, partialHints = (upper, lower, nicr)\<rparr>)))"

section \<open>Vaults\<close>

record 'd populated =
  rawPopulatedTransaction :: raw_transaction
  parse_details :: "tx_receipt \<Rightarrow> 'd result"

definition populated_by :: "raw_transaction result \<Rightarrow> (tx_receipt \<Rightarrow> 'd result) \<Rightarrow> 'd populated result" where
  "populated_by r p = bindE r (\<lambda>tx. Inr \<lparr>rawPopulatedTransaction = tx, parse_details = p\<rparr>)"

definition noDetails :: "tx_receipt \<Rightarrow> unit result" where
  "noDetails rc = Inr ()"

definition rate_or :: "decimalish option \<Rightarrow> decimal result \<Rightarrow> decimal result" where
  "rate_or given_rate def = (case given_rate of Some x \<Rightarrow> from_d x | None \<Rightarrow> def)"

definition hex_of :: "decimal \<Rightarrow> arg" where
  "hex_of d = Uint (bigNumber d)"

definition populate_openVault ::
  "eth_session \<Rightarrow> nat \<Rightarrow> raw_params \<Rightarrow> decimalish option \<Rightarrow> overrides \<Rightarrow>
    vault_creation_params vault_change_details populated result" where
  "populate_openVault ss seed params maxBorrowingRate ov =
     bindE (normalizeVaultCreation params) (\<lambda>normalized.
     bindE (getFees (s_readable ss) None) (\<lambda>f.
     bindE (borrowingRate f None) (\<lambda>rate.
     bindE (create (params_of_creation normalized) (Some (DDecimal rate))) (\<lambda>newVault.
     bindE (rate_or maxBorrowingRate (add_d rate (DDecimal defaultBorrowingRateSlippageTolerance))) (\<lambda>maxRate.
     bindE (findHints ss seed False newVault) (\<lambda>(upper, lower).
       populated_by (estimateAndPopulate ss
           (addGasForPotentialLastFeeOperationTimeUpdate \<circ> addGasForPotentialListTraversal)
           (contract_call ''borrowerOperations'' ''openVault'' (Some (bigNumber (cp_depositCollateral normalized))) ov
             [hex_of maxRate, hex_of (cp_borrowBPD normalized), Addr upper, Addr lower]))
         (wrapVaultChangeWithFees ss normalized)))))))"

definition populate_closeVault :: "eth_session \<Rightarrow> overrides \<Rightarrow> closure_details populated result" where
  "populate_closeVault ss ov =
     populated_by (estimateAndPopulate ss id (contract_call ''borrowerOperations'' ''closeVault'' None ov []))
       (wrapVaultClosure ss)"

definition populate_adjustVault ::
  "eth_session \<Rightarrow> nat \<Rightarrow> raw_params \<Rightarrow> decimalish option \<Rightarrow> overrides \<Rightarrow>
    vault_adjustment_params vault_change_details populated result" where
  "populate_adjustVault ss seed params maxBorrowingRate ov =
     bindE (requireAddressFor ov (s_connection ss)) (\<lambda>address.
     bindE (normalizeVaultAdjustment params) (\<lambda>normalized.
     bindE (getVault (s_readable ss) (Some address) None) (\<lambda>v.
     bindE (if borrowBPD normalized \<noteq> None
            then bindE (getFees (s_readable ss) None) (\<lambda>f. bindE (borrowingRate f None) (\<lambda>r. Inr (Some r)))
            else Inr None) (\<lambda>rate.
     bindE (adjust v (params_of_adjustment normalized) (map_option DDecimal rate)) (\<lambda>finalVault.
     bindE (rate_or maxBorrowingRate (case rate of
         Some r \<Rightarrow> add_d r (DDecimal defaultBorrowingRateSlippageTolerance) | None \<Rightarrow> Inr ZERO)) (\<lambda>maxRate.
     bindE (findHints ss seed False finalVault) (\<lambda>(upper, lower).
       populated_by (estimateAndPopulate ss
           ((if borrowBPD normalized \<noteq> None then addGasForPotentialLastFeeOperationTimeUpdate else id) \<circ>
             addGasForPotentialListTraversal)
           (contract_call ''borrowerOperations'' ''adjustVault''
             (map_option bigNumber (depositCollateral normalized)) ov
             [hex_of maxRate,
              hex_of (case withdrawCollateral normalized of Some w \<Rightarrow> w | None \<Rightarrow> ZERO),
              hex_of (case borrowBPD normalized of Some b \<Rightarrow> b | None \<Rightarrow>
                (case repayBPD normalized of Some r \<Rightarrow> r | None \<Rightarrow> ZERO)),
              Flag (borrowBPD normalized \<noteq> None), Addr upper, Addr lower]))
         (wrapVaultChangeWithFees ss normalized))))))))"

definition populate_depositCollateral ::
  "eth_session \<Rightarrow> nat \<Rightarrow> decimalish \<Rightarrow> overrides \<Rightarrow> vault_adjustment_params vault_change_details populated result" where
  "populate_depositCollateral ss seed amt ov = populate_adjustVault ss seed [(''depositCollateral'', Some amt)] None ov"

definition populate_withdrawCollateral ::
  "eth_session \<Rightarrow> nat \<Rightarrow> decimalish \<Rightarrow> overrides \<Rightarrow> vault_adjustment_params vault_change_details populated result" where
  "populate_withdrawCollateral ss seed amt ov = populate_adjustVault ss seed [(''withdrawCollateral'', Some amt)] None ov"

definition populate_borrowBPD ::
  "eth_session \<Rightarrow> nat \<Rightarrow> decimalish \<Rightarrow> decimalish option \<Rightarrow> overrides \<Rightarrow>
    vault_adjustment_params vault_change_details populated result" where
  "populate_borrowBPD ss seed amt maxRate ov = populate_adjustVault ss seed [(''borrowBPD'', Some amt)] maxRate ov"

definition populate_repayBPD ::
  "eth_session \<Rightarrow> nat \<Rightarrow> decimalish \<Rightarrow> overrides \<Rightarrow> vault_adjustment_params vault_change_details populated result" where
  "populate_repayBPD ss seed amt ov = populate_adjustVault ss seed [(''repayBPD'', Some amt)] None ov"

definition populate_claimCollateralSurplus :: "eth_session \<Rightarrow> overrides \<Rightarrow> unit populated result" where
  "populate_claimCollateralSurplus ss ov =
     populated_by (estimateAndPopulate ss id (contract_call ''borrowerOperations'' ''claimCollateral'' None ov [])) noDetails"

definition populate_setPrice :: "eth_session \<Rightarrow> decimalish \<Rightarrow> overrides \<Rightarrow> unit populated result" where
  "populate_setPrice ss p ov =
     (if \<not> priceFeedIsTestnet ss then Inl (Error ''setPrice() unavailable on this deployment of Moneyp'')
      else bindE (from_d p) (\<lambda>d.
        populated_by (estimateAndPopulate ss id (contract_call ''priceFeed'' ''setPrice'' None ov [hex_of d])) noDetails))"

section \<open>Liquidation and the stability pool\<close>

text \<open>An address or a list of addresses.\<close>

definition populate_liquidate :: "eth_session \<Rightarrow> string + string list \<Rightarrow> overrides \<Rightarrow> liquidation_details populated result" where
  "populate_liquidate ss a ov =
     populated_by (estimateAndPopulate ss addGasForMPIssuance (case a of
         Inr as \<Rightarrow> contract_call ''vaultManager'' ''batchLiquidateVaults'' None ov [Addrs as]
       | Inl x \<Rightarrow> contract_call ''vaultManager'' ''liquidate'' None ov [Addr x])) (wrapLiquidation ss)"

definition populate_liquidateUpTo :: "eth_session \<Rightarrow> nat \<Rightarrow> overrides \<Rightarrow> liquidation_details populated result" where
  "populate_liquidateUpTo ss n ov =
     populated_by (estimateAndPopulate ss addGasForMPIssuance
       (contract_call ''vaultManager'' ''liquidateVaults'' None ov [Uint n])) (wrapLiquidation ss)"

definition populate_depositBPDInStabilityPool ::
  "eth_session \<Rightarrow> decimalish \<Rightarrow> string option \<Rightarrow> overrides \<Rightarrow> deposit_change_details populated result" where
  "populate_depositBPDInStabilityPool ss amt tag ov =
     bindE (from_d amt) (\<lambda>d.
       populated_by (estimateAndPopulate ss addGasForMPIssuance
         (contract_call ''stabilityPool'' ''provideToSP'' None ov
           [hex_of d, Addr (case tag of Some t \<Rightarrow> t | None \<Rightarrow>
             (case c_frontendTag (s_connection ss) of Some t \<Rightarrow> t | None \<Rightarrow> AddressZero))]))
         (wrapStabilityDepositTopup ss d))"

definition populate_withdrawBPDFromStabilityPool ::
  "eth_session \<Rightarrow> decimalish \<Rightarrow> overrides \<Rightarrow> deposit_change_details populated result" where
  "populate_withdrawBPDFromStabilityPool ss amt ov =
     bindE (from_d amt) (\<lambda>d.
       populated_by (estimateAndPopulate ss addGasForMPIssuance
         (contract_call ''stabilityPool'' ''withdrawFromSP'' None ov [hex_of d])) (wrapStabilityDepositWithdrawal ss))"

definition populate_withdrawGainsFromStabilityPool :: "eth_session \<Rightarrow> overrides \<Rightarrow> gains_details populated result" where
  "populate_withdrawGainsFromStabilityPool ss ov =
     populated_by (estimateAndPopulate ss addGasForMPIssuance
       (contract_call ''stabilityPool'' ''withdrawFromSP'' None ov [hex_of ZERO]))
       (extractStabilityPoolGainsWithdrawalDetails ss)"

definition populate_transferCollateralGainToVault ::
  "eth_session \<Rightarrow> nat \<Rightarrow> overrides \<Rightarrow> (gains_details \<times> vault option) populated result" where
  "populate_transferCollateralGainToVault ss seed ov =
     bindE (requireAddressFor ov (s_connection ss)) (\<lambda>address.
     bindE (getVault (s_readable ss) (Some address) None) (\<lambda>initialVault.
     bindE (getStabilityDeposit (s_readable ss) (Some address) None) (\<lambda>sd.
     bindE (addCollateral initialVault (DDecimal (sd_collateralGain sd))) (\<lambda>finalVault.
     bindE (findHints ss seed False finalVault) (\<lambda>(upper, lower).
       populated_by (estimateAndPopulate ss (addGasForPotentialListTraversal \<circ> addGasForMPIssuance)
         (contract_call ''stabilityPool'' ''withdrawRBTCGainToVault'' None ov [Addr upper, Addr lower]))
         (wrapCollateralGainTransfer ss))))))"

section \<open>Tokens, staking and frontends\<close>

definition populate_sendBPD :: "eth_session \<Rightarrow> string \<Rightarrow> decimalish \<Rightarrow> overrides \<Rightarrow> unit populated result" where
  "populate_sendBPD ss to amt ov = bindE (from_d amt) (\<lambda>d.
     populated_by (estimateAndPopulate ss id (contract_call ''bpdToken'' ''transfer'' None ov [Addr to, hex_of d])) noDetails)"

definition populate_sendMP :: "eth_session \<Rightarrow> string \<Rightarrow> decimalish \<Rightarrow> overrides \<Rightarrow> unit populated result" where
  "populate_sendMP ss to amt ov = bindE (from_d amt) (\<lambda>d.
     populated_by (estimateAndPopulate ss id (contract_call ''mpToken'' ''transfer'' None ov [Addr to, hex_of d])) noDetails)"

definition populate_stakeMP :: "eth_session \<Rightarrow> decimalish \<Rightarrow> overrides \<Rightarrow> unit populated result" where
  "populate_stakeMP ss amt ov = bindE (from_d amt) (\<lambda>d.
     populated_by (estimateAndPopulate ss id (contract_call ''mpStaking'' ''stake'' None ov [hex_of d])) noDetails)"

definition populate_unstakeMP :: "eth_session \<Rightarrow> decimalish \<Rightarrow> overrides \<Rightarrow> unit populated result" where
  "populate_unstakeMP ss amt ov = bindE (from_d amt) (\<lambda>d.
     populated_by (estimateAndPopulate ss id (contract_call ''mpStaking'' ''unstake'' None ov [hex_of d])) noDetails)"

definition populate_withdrawGainsFromStaking :: "eth_session \<Rightarrow> overrides \<Rightarrow> unit populated result" where
  "populate_withdrawGainsFromStaking ss ov = populate_unstakeMP ss (DDecimal ZERO) ov"

definition populate_registerFrontend :: "eth_session \<Rightarrow> decimalish \<Rightarrow> overrides \<Rightarrow> unit populated result" where
  "populate_registerFrontend ss rate ov = bindE (from_d rate) (\<lambda>d.
     populated_by (estimateAndPopulate ss id (contract_call ''stabilityPool'' ''registerFrontEnd'' None ov [hex_of d])) noDetails)"

section \<open>Redemption\<close>

text \<open>
  What the closures of \<open>redeemBPD\<close> share, and a populated redemption; the function it keeps for
  \<open>increaseAmountByMinimumNetDebt\<close> is given by the amount and the rate it would use.
\<close>

record redemption_frame =
  rf_fees :: fees
  rf_total :: vault
  rf_firstHint :: string
  rf_overrides :: overrides

record redemption =
  rm_transaction :: raw_transaction
  attemptedBPDAmount :: decimal
  redeemableBPDAmount :: decimal
  isTruncated :: bool
  rm_increase :: "(decimal \<times> decimalish option) option"

definition defaultMaxRedemptionRate :: "redemption_frame \<Rightarrow> decimal \<Rightarrow> decimal result" where
  "defaultMaxRedemptionRate rf amt =
     bindE (div_d amt (DDecimal (debt (rf_total rf)))) (\<lambda>fraction.
     bindE (redemptionRate (rf_fees rf) (Some (DDecimal fraction)) None) (\<lambda>rate.
     bindE (add_d rate (DDecimal defaultRedemptionRateSlippageTolerance)) (\<lambda>r.
       min_d (DDecimal r) (DDecimal ONE))))"

definition populateRedemption ::
  "eth_session \<Rightarrow> redemption_frame \<Rightarrow> decimal \<Rightarrow> decimalish option \<Rightarrow> decimal \<Rightarrow> string \<times> string \<times> nat \<Rightarrow> redemption result" where
  "populateRedemption ss rf attempted maxRate truncated hints =
     bindE (rate_or maxRate (defaultMaxRedemptionRate rf truncated)) (\<lambda>rate.
     bindE (estimateAndPopulate ss addGasForPotentialLastFeeOperationTimeUpdate
         (contract_call ''vaultManager'' ''redeemCollateral'' None (rf_overrides rf)
           [hex_of truncated, Addr (rf_firstHint rf), Addr (fst hints), Addr (fst (snd hints)), Uint (snd (snd hints)),
            Uint redeemMaxIterations, hex_of rate])) (\<lambda>tx.
       Inr \<lparr>rm_transaction = tx, attemptedBPDAmount = attempted, redeemableBPDAmount = truncated,
         isTruncated = truncated < attempted,
         rm_increase = if truncated < attempted then Some (add_dec truncated BPD_MINIMUM_NET_DEBT, maxRate) else None\<rparr>))"

definition populate_redeemBPD ::
  "eth_session \<Rightarrow> nat \<Rightarrow> decimalish \<Rightarrow> decimalish option \<Rightarrow> overrides \<Rightarrow> (redemption_frame \<times> redemption) result" where
  "populate_redeemBPD ss seed amt maxRate ov =
     bindE (from_d amt) (\<lambda>attempted.
     bindE (getFees (s_readable ss) None) (\<lambda>f.
     bindE (getTotal (s_readable ss) None) (\<lambda>tot.
     bindE (findRedemptionHints ss seed attempted) (\<lambda>h.
       if isZero (truncatedAmount h)
       then bindE (toString BPD_MINIMUM_NET_DEBT None) (\<lambda>s.
         Inl (Error (''redeemBPD: amount too low to redeem (try at least '' @ s @ '')'')))
       else
         let rf = \<lparr>rf_fees = f, rf_total = tot, rf_firstHint = firstRedemptionHint h, rf_overrides = ov\<rparr> in
         bindE (populateRedemption ss rf attempted maxRate (truncatedAmount h) (partialHints h)) (\<lambda>m. Inr (rf, m))))))"

definition increaseAmountByMinimumNetDebt ::
  "eth_session \<Rightarrow> redemption_frame \<Rightarrow> redemption \<Rightarrow> decimalish option \<Rightarrow> redemption result" where
  "increaseAmountByMinimumNetDebt ss rf m newMaxRate =
     (case rm_increase m of
        None \<Rightarrow> Inl (Error (''PopulatedBitcoinsRedemption: increaseAmountByMinimumNetDebt() can '' @
          ''only be called when amount is truncated''))
      | Some (amt, maxRate) \<Rightarrow>
          populateRedemption ss rf amt (case newMaxRate of Some x \<Rightarrow> Some x | None \<Rightarrow> maxRate) amt (AddressZero, AddressZero, 0))"

end
