(* ===== verification/Populating_Laws.thy ===== *)
theory Populating_Laws
  imports Populating Cached_Reads
begin

text \<open>
  The transactions that \<open>Populating\<close> prepares: the search for hints ends and uses the best of its trials, the call of
  an adjustment carries exactly the adjustment, and a redemption stays within what can be redeemed.
\<close>

section \<open>The search for hints\<close>

lemma trials_step:
  assumes "n \<noteq> 0"
  obtains m r where "trials n = m # trials r" "m + r = n" "0 < m" "m \<le> maxNumberOfTrialsAtOnce"
    "r = 0 \<or> m = maxNumberOfTrialsAtOnce" "n - min n maxNumberOfTrialsAtOnce = r"
  using that [of "min n maxNumberOfTrialsAtOnce" "n - min n maxNumberOfTrialsAtOnce"] assms
  by (simp add: trials.simps [of n] maxNumberOfTrialsAtOnce_def min_def)

lemma trials_split:
  "sum_list (trials n) = n \<and> (\<forall>t \<in> set (trials n). 0 < t \<and> t \<le> maxNumberOfTrialsAtOnce) \<and>
    (n > 0 \<longrightarrow> trials n \<noteq> [] \<and> maxNumberOfTrialsAtOnce * (length (trials n) - 1) < n)"
proof (induction n rule: trials.induct)
  case (1 n)
  show ?case
  proof (cases "n = 0")
    case True
    then show ?thesis by (simp add: trials.simps)
  next
    case False
    obtain m r where step: "trials n = m # trials r" "m + r = n" "0 < m" "m \<le> maxNumberOfTrialsAtOnce"
      "r = 0 \<or> m = maxNumberOfTrialsAtOnce" "n - min n maxNumberOfTrialsAtOnce = r" by (rule trials_step [OF False])
    note IH = "1.IH" [OF False, unfolded step(6)]
    have "maxNumberOfTrialsAtOnce * length (trials r) < n"
    proof (cases "r = 0")
      case True
      then show ?thesis using False by (simp add: trials.simps)
    next
      case r: False
      with IH obtain t ts where "trials r = t # ts" "maxNumberOfTrialsAtOnce * length ts < r" by (cases "trials r") auto
      with step(2,5) r show ?thesis by simp
    qed
    with IH step(1-4) show ?thesis by auto
  qed
qed

lemma root_from_least:
  assumes "\<forall>j < k. j * j < m"
  shows "m \<le> root_from k m * root_from k m \<and> (\<forall>j < root_from k m. j * j < m)"
  using assms
proof (induction k m rule: root_from.induct)
  case (1 k m)
  show ?case
  proof (cases "m \<le> k * k")
    case True
    with "1.prems" show ?thesis by (simp add: root_from.simps [of k m])
  next
    case False
    with "1.prems" have "\<forall>j < Suc k. j * j < m" by (auto simp: less_Suc_eq)
    with "1.IH" [OF False] False show ?thesis by (simp add: root_from.simps [of k m])
  qed
qed

lemma totalNumberOfTrials_least:
  "100 * n \<le> (totalNumberOfTrials n)\<^sup>2 \<and> (\<forall>j < totalNumberOfTrials n. j\<^sup>2 < 100 * n)"
  using root_from_least [of 0 "100 * n"] by (simp add: totalNumberOfTrials_def power2_eq_square)

lemma best_hint_least: "rs \<noteq> [] \<Longrightarrow> best_hint rs \<in> set rs \<and> (\<forall>x \<in> set rs. fst (best_hint rs) \<le> fst x)"
proof (induction rs rule: rev_nonempty_induct)
  case (snoc x xs)
  have "best_hint (xs @ [x]) = (if fst (best_hint xs) < fst x then best_hint xs else x)"
    using snoc.hyps by (cases xs) (simp_all add: best_hint_def)
  with snoc.IH show ?case by fastforce
qed (simp add: best_hint_def)

text \<open>The answers to a sequence of trials, each with the seed the previous one returned.\<close>

fun approx_hints :: "eth_session \<Rightarrow> decimal \<Rightarrow> nat \<Rightarrow> nat list \<Rightarrow> (nat \<times> string) list" where
  "approx_hints ss nicr seed [] = []"
| "approx_hints ss nicr seed (t # ts) =
     (case getApproxHint ss (bigNumber nicr) t seed of
        Inl e \<Rightarrow> [] | Inr (h, d, seed') \<Rightarrow> (d, h) # approx_hints ss nicr seed' ts)"

lemma collect_approx_hints:
  assumes "\<And>t s. \<exists>x. getApproxHint ss (bigNumber nicr) t s = Inr x"
  shows "(\<exists>s. foldE (collectApproxHint ss nicr) (seed, rs) ts = Inr (s, rs @ approx_hints ss nicr seed ts)) \<and>
    length (approx_hints ss nicr seed ts) = length ts"
proof (induction ts arbitrary: seed rs)
  case (Cons t ts)
  obtain h d s where hint: "getApproxHint ss (bigNumber nicr) t seed = Inr (h, d, s)" using assms by (metis prod_cases3)
  then have "collectApproxHint ss nicr (seed, rs) t = Inr (s, rs @ [(d, h)])" by (simp add: collectApproxHint_def)
  with hint show ?case using Cons.IH [of s "rs @ [(d, h)]"] by simp
qed simp_all

text \<open>
  C30. The search for hints ends and keeps the best. For \<open>n\<close> vaults and a finite ratio, as many trials are made as the
  least number not below ten square roots of \<open>n\<close>, in calls of at most 2,500 trials and never of
  none, the fewest that suffice; each call gets the seed the previous one returned, and the
  position is looked up from an address whose distance is the least of all answers.
\<close>

theorem hint_search:
  assumes "getNumberOfVaults (s_readable ss) None = Inr (int n)" "0 < n" "nicr \<noteq> INFINITY"
    and "\<And>t s. \<exists>x. getApproxHint ss (bigNumber nicr) t s = Inr x"
  shows "\<exists>ts d h. 100 * n \<le> (sum_list ts)\<^sup>2 \<and> (\<forall>j < sum_list ts. j\<^sup>2 < 100 * n) \<and>
    (\<forall>t \<in> set ts. 0 < t \<and> t \<le> 2500) \<and> 2500 * (length ts - 1) < sum_list ts \<and>
    length (approx_hints ss nicr seed ts) = length ts \<and>
    (d, h) \<in> set (approx_hints ss nicr seed ts) \<and> (\<forall>(d', h') \<in> set (approx_hints ss nicr seed ts). d \<le> d') \<and>
    findHintsForNominalCollateralRatio ss seed nicr = findInsertPosition ss (bigNumber nicr) h h"
proof -
  let ?n = "totalNumberOfTrials n"
  have total: "100 * n \<le> ?n\<^sup>2" "\<forall>j < ?n. j\<^sup>2 < 100 * n" using totalNumberOfTrials_least by blast+
  then have pos: "0 < ?n" using assms(2) by (cases "?n") simp_all
  note split = trials_split [of ?n]
  let ?rs = "approx_hints ss nicr seed (trials ?n)"
  have "?rs \<noteq> []" using collect_approx_hints [OF assms(4), of seed _ "trials ?n"] split pos by fastforce
  from best_hint_least [OF this] obtain d h where
    best: "best_hint ?rs = (d, h)" "(d, h) \<in> set ?rs" "\<forall>(d', h') \<in> set ?rs. d \<le> d'" by (cases "best_hint ?rs") force
  have "findHintsForNominalCollateralRatio ss seed nicr = findInsertPosition ss (bigNumber nicr) h h"
    using collect_approx_hints [OF assms(4), of seed "[]" "trials ?n"] assms(1-3) pos best(1)
    by (auto simp: findHintsForNominalCollateralRatio_def infinite_d_def generateTrials_def)
  with total split pos best(2,3) collect_approx_hints [OF assms(4), of seed _ "trials ?n"] show ?thesis
    by (intro exI [of _ "trials ?n"] exI [of _ d] exI [of _ h]) (simp add: maxNumberOfTrialsAtOnce_def)
qed

text \<open>A session on the sample chain with nine vaults, where a redemption is truncated to one half.\<close>

definition sample_session :: eth_session where
  "sample_session = \<lparr>s_connection = sample_connection,
     s_readable = (ReadableBitcoinsMoneyp sample_connection sample_chain)\<lparr>getNumberOfVaults := \<lambda>b. Inr 9\<rparr>,
     contract_address = id, getApproxHint = (\<lambda>n t seed. Inr (''0x5'', t, Suc seed)),
     findInsertPosition = (\<lambda>n a b. Inr (a, b)), getFirst = Inr ''0x7'',
     getRedemptionHints = (\<lambda>amt p k. Inr (''0x8'', 0, amt div 2)), estimateGas = (\<lambda>tx. Inr 100000),
     populateTransaction = (\<lambda>tx. Inr ()), priceFeedIsTestnet = False, signer_send = None,
     transactionReceipt = (\<lambda>hash. Inr None)\<rparr>"

lemma sample_session_sel [simp]:
  "getNumberOfVaults (s_readable sample_session) None = Inr 9" "findInsertPosition sample_session k a b = Inr (a, b)"
  "getFirst sample_session = Inr ''0x7''" "getApproxHint sample_session k t seed = Inr (''0x5'', t, Suc seed)"
  by (simp_all add: sample_session_def)

lemma hint_search_witness:
  "findHintsForNominalCollateralRatio sample_session 3 ONE = Inr (''0x5'', ''0x5'') \<and>
   (\<exists>ts :: nat list. 900 \<le> (sum_list ts)\<^sup>2 \<and> (\<forall>j < sum_list ts. j\<^sup>2 < 900) \<and> length ts = 1)"
proof -
  have n: "getNumberOfVaults (s_readable sample_session) None = Inr (int 9)" by (simp add: sample_session_def)
  have one: "ONE \<noteq> INFINITY" by (simp add: ONE_def INFINITY_def MAX_UINT_256_def DIGITS_def)
  have hint: "getApproxHint sample_session k t s = Inr (''0x5'', t, Suc s)" for k t s by (simp add: sample_session_def)
  have "\<exists>x. getApproxHint sample_session (bigNumber ONE) t s = Inr x" for t s by (simp add: hint)
  note search = hint_search [OF n zero_less_numeral one this, of 3]
  obtain ts d h where ts: "100 * 9 \<le> (sum_list ts)\<^sup>2"
    "\<forall>j < sum_list ts. j\<^sup>2 < 100 * 9" "2500 * (length ts - 1) < sum_list ts"
    "(d, h) \<in> set (approx_hints sample_session ONE 3 ts)"
    "findHintsForNominalCollateralRatio sample_session 3 ONE = findInsertPosition sample_session (bigNumber ONE) h h"
    using search by blast
  have "(d, h) \<in> set (approx_hints sample_session ONE s ts) \<Longrightarrow> h = ''0x5''" for s
    by (induction ts arbitrary: s) (auto simp: hint)
  then have "h = ''0x5''" using ts(4) by blast
  moreover have "sum_list ts \<le> 30" using ts(2) by (rule_tac ccontr) (auto dest: spec [of _ 30])
  moreover have "length ts = 1"
  proof -
    have "length ts - 1 = 0" using ts(3) \<open>sum_list ts \<le> 30\<close> by presburger
    moreover have "ts \<noteq> []" using ts(1) by auto
    ultimately show ?thesis by (cases ts) simp_all
  qed
  ultimately show ?thesis using ts by simp blast
qed

lemma sample_hints: "\<exists>upper lower. findHints sample_session seed False v = Inr (upper, lower)"
proof -
  have hint: "\<exists>x. getApproxHint sample_session k t s = Inr x" for k t s by simp
  have "0 < totalNumberOfTrials 9" using totalNumberOfTrials_least [of 9] by (cases "totalNumberOfTrials 9") simp_all
  with collect_approx_hints [OF hint, of "nominalCollateralRatio v" seed "[]" "trials (totalNumberOfTrials 9)"] show ?thesis
    by (cases "infinite_d (nominalCollateralRatio v)")
      (auto simp: findHints_def findHintsForNominalCollateralRatio_def generateTrials_def)
qed

section \<open>Adjustments\<close>

text \<open>The adjustment that the arguments of \<open>adjustVault\<close> stand for.\<close>

fun decode_args :: "nat option \<Rightarrow> arg list \<Rightarrow> vault_adjustment_params option" where
  "decode_args v [r, Uint w, Uint x, Flag increase, u, l] =
     Some \<lparr>depositCollateral = Option.bind v (\<lambda>n. nonZero (Decimal n)), withdrawCollateral = nonZero (Decimal w),
       borrowBPD = if increase then nonZero (Decimal x) else None,
       repayBPD = if increase then None else nonZero (Decimal x)\<rparr>"
| "decode_args v _ = None"

definition decode_adjustment :: "raw_transaction \<Rightarrow> vault_adjustment_params option" where
  "decode_adjustment tx = decode_args (tx_value tx) (tx_args tx)"

lemma estimateAndPopulate_eq:
  assumes "estimateAndPopulate ss g tx = Inr tx'"
  shows "\<exists>gas. tx' = tx\<lparr>tx_overrides := (tx_overrides tx)\<lparr>ov_gasLimit := Some gas\<rparr>\<rparr> \<and>
      (ov_gasLimit (tx_overrides tx) = Some gas \<or>
       ov_gasLimit (tx_overrides tx) = None \<and> (\<exists>e. estimateGas ss tx = Inr e \<and> gas = g e))"
proof (cases "ov_gasLimit (tx_overrides tx)")
  case None
  with assms obtain e where "estimateGas ss tx = Inr e"
    "tx' = tx\<lparr>tx_overrides := (tx_overrides tx)\<lparr>ov_gasLimit := Some (g e)\<rparr>\<rparr>"
    by (auto simp: estimateAndPopulate_def bindE_eq_Inr_iff)
  with None show ?thesis by blast
next
  case (Some gas)
  with assms have "tx' = tx" by (auto simp: estimateAndPopulate_def bindE_eq_Inr_iff)
  moreover have "tx = tx\<lparr>tx_overrides := (tx_overrides tx)\<lparr>ov_gasLimit := Some gas\<rparr>\<rparr>"
    using Some by (cases tx; cases "tx_overrides tx") simp
  ultimately show ?thesis using Some by blast
qed

lemma decode_estimated: "decode_adjustment (tx\<lparr>tx_overrides := ov\<rparr>) = decode_adjustment tx"
  by (simp add: decode_adjustment_def)

lemma nonZero_parts: "nonZero (Decimal (bigNumber d)) = (if d = ZERO then None else Some d)"
  by (cases d) (auto simp: nonZero_def isZero_def ZERO_def)

lemma adjust_closed_form:
  assumes "wf_adjustment p" "adjust v (params_of_adjustment p) (map_option DDecimal q) = Inr w"
  shows "collateral w = monus (add_dec (collateral v) (orZero (depositCollateral p))) (orZero (withdrawCollateral p))"
    and "debt w = monus (add_dec (debt v) (case borrowBPD p of None \<Rightarrow> ZERO
      | Some b \<Rightarrow> mul_dec b (fee_factor (case q of None \<Rightarrow> MINIMUM_BORROWING_RATE | Some r \<Rightarrow> r)))) (orZero (repayBPD p))"
proof -
  have q: "from_d (rateOrDefault (map_option DDecimal q)) = Inr (case q of None \<Rightarrow> MINIMUM_BORROWING_RATE | Some r \<Rightarrow> r)"
    by (cases q) (simp_all add: rateOrDefault_def)
  have "applyAdjustment v p None (rateOrDefault (map_option DDecimal q)) = Inr w"
    using assms(2) by (simp add: adjust_def normalize_params_of_adjustment [OF assms(1)] apply_v_def Let_def)
  then show "collateral w = monus (add_dec (collateral v) (orZero (depositCollateral p))) (orZero (withdrawCollateral p))"
    and "debt w = monus (add_dec (debt v) (case borrowBPD p of None \<Rightarrow> ZERO
      | Some b \<Rightarrow> mul_dec b (fee_factor (case q of None \<Rightarrow> MINIMUM_BORROWING_RATE | Some r \<Rightarrow> r)))) (orZero (repayBPD p))"
    by (auto simp: applyAdjustment_eq [OF q] Let_def)
qed

text \<open>
  C29. The call of \<open>adjustVault\<close> carries exactly the adjustment that the parameters stand for: from its value, its
  amounts and its flag the normalised parameters can be read back. The hints it carries were searched
  for the ratio of the vault it leads to, whose collateral and debt are those of the current vault changed by
  the parameters, the borrowed amount with the current fee.
\<close>

theorem adjust_call_exact:
  assumes "populate_adjustVault ss seed params maxRate ov = Inr pt" "distinct (map fst params)"
  shows "\<exists>p v q (w :: vault) upper lower. normalizeVaultAdjustment params = Inr p \<and>
    decode_adjustment (rawPopulatedTransaction pt) = Some p \<and>
    (\<exists>a. requireAddressFor ov (s_connection ss) = Inr a \<and> getVault (s_readable ss) (Some a) None = Inr v) \<and>
    (borrowBPD p \<noteq> None \<longrightarrow> (\<exists>f. getFees (s_readable ss) None = Inr f \<and> borrowingRate f None = Inr q)) \<and>
    collateral w = monus (add_dec (collateral v) (orZero (depositCollateral p))) (orZero (withdrawCollateral p)) \<and>
    debt w = monus (add_dec (debt v) (case borrowBPD p of None \<Rightarrow> ZERO | Some b \<Rightarrow> mul_dec b (fee_factor q))) (orZero (repayBPD p)) \<and>
    findHintsForNominalCollateralRatio ss seed (nominalCollateralRatio w) = Inr (upper, lower) \<and>
    drop 4 (tx_args (rawPopulatedTransaction pt)) = [Addr upper, Addr lower]"
proof -
  from assms(1) obtain a p v q w m upper lower tx where
    steps: "requireAddressFor ov (s_connection ss) = Inr a" "normalizeVaultAdjustment params = Inr p"
      "getVault (s_readable ss) (Some a) None = Inr v"
    and fee: "(if borrowBPD p \<noteq> None
            then bindE (getFees (s_readable ss) None) (\<lambda>f. bindE (borrowingRate f None) (\<lambda>r. Inr (Some r)))
            else Inr None) = Inr q"
    and w: "adjust v (params_of_adjustment p) (map_option DDecimal q) = Inr w"
    and hints: "findHints ss seed False w = Inr (upper, lower)"
    and tx: "estimateAndPopulate ss
           ((if borrowBPD p \<noteq> None then addGasForPotentialLastFeeOperationTimeUpdate else id) \<circ>
             addGasForPotentialListTraversal)
           (contract_call ''borrowerOperations'' ''adjustVault''
             (map_option bigNumber (depositCollateral p)) ov
             [hex_of m,
              hex_of (case withdrawCollateral p of Some w \<Rightarrow> w | None \<Rightarrow> ZERO),
              hex_of (case borrowBPD p of Some b \<Rightarrow> b | None \<Rightarrow>
                (case repayBPD p of Some r \<Rightarrow> r | None \<Rightarrow> ZERO)),
              Flag (borrowBPD p \<noteq> None), Addr upper, Addr lower]) = Inr tx"
    and pt: "rawPopulatedTransaction pt = tx"
    unfolding populate_adjustVault_def populated_by_def bindE_eq_Inr_iff split_paired_Ex prod.case by auto
  have wf: "wf_adjustment p" using steps(2) normalizeVaultAdjustment_char [OF assms(2)] by blast
  obtain gas where tx': "tx = (contract_call ''borrowerOperations'' ''adjustVault''
             (map_option bigNumber (depositCollateral p)) ov
             [hex_of m,
              hex_of (case withdrawCollateral p of Some w \<Rightarrow> w | None \<Rightarrow> ZERO),
              hex_of (case borrowBPD p of Some b \<Rightarrow> b | None \<Rightarrow>
                (case repayBPD p of Some r \<Rightarrow> r | None \<Rightarrow> ZERO)),
              Flag (borrowBPD p \<noteq> None), Addr upper, Addr lower])\<lparr>tx_overrides := ov\<lparr>ov_gasLimit := Some gas\<rparr>\<rparr>"
    using estimateAndPopulate_eq [OF tx] by (auto simp: contract_call_def)
  have "Option.bind (map_option bigNumber d) (\<lambda>n. nonZero (Decimal n)) = d" if "d \<noteq> Some ZERO" for d
    using that by (cases d) (simp_all add: nonZero_parts)
  then have decoded: "decode_adjustment tx = Some p"
    using wf unfolding tx' decode_estimated
    by (cases p) (auto simp: decode_adjustment_def contract_call_def hex_of_def nonZero_parts wf_adjustment_def
      split: option.splits)
  have args: "drop 4 (tx_args tx) = [Addr upper, Addr lower]" by (simp add: tx' contract_call_def)
  let ?q = "case q of None \<Rightarrow> MINIMUM_BORROWING_RATE | Some r \<Rightarrow> r"
  have fee': "borrowBPD p \<noteq> None \<longrightarrow> (\<exists>f. getFees (s_readable ss) None = Inr f \<and> borrowingRate f None = Inr ?q)"
    using fee by (auto simp: bindE_eq_Inr_iff)
  have hints': "findHintsForNominalCollateralRatio ss seed (nominalCollateralRatio w) = Inr (upper, lower)"
    using hints by (simp add: findHints_def)
  note closed = adjust_closed_form [OF wf w]
  have "\<exists>a. requireAddressFor ov (s_connection ss) = Inr a \<and> getVault (s_readable ss) (Some a) None = Inr v"
    using steps(1,3) by blast
  with steps(2) closed fee' hints' decoded args show ?thesis unfolding pt
    by - (rule exI [of _ p], rule exI [of _ v], rule exI [of _ ?q], rule exI [of _ w], rule exI [of _ upper],
      rule exI [of _ lower], (intro conjI; assumption))
qed

lemma sample_readVault:
  "readVault cn sample_chain (Some u) b = Inr \<lparr>collateral = ZERO, debt = ZERO, ownerAddress = u, status = NonExistent\<rparr>"
  by (simp add: readVault_def sample_reads applyRedistribution_def empty_pending_def pending_vault_def Let_def emptyVault_def
      Vault_def multiply_def mul_d_def subtract_def sub_or_zero_def gt_d_def vault_add_def add_dec_def mul_dec_def ZERO_def
      decimal_order)

lemma sample_estimate: "\<exists>pt. bindE (estimateAndPopulate sample_session g tx) (\<lambda>tx. Inr (F tx)) = Inr pt"
  by (cases "ov_gasLimit (tx_overrides tx)") (simp_all add: estimateAndPopulate_def sample_session_def)

lemma sample_requireAddress:
  "requireAddressFor \<lparr>ov_from = None, ov_nonce = None, ov_gasLimit = None, ov_gasPrice = None\<rparr>
     (s_connection sample_session) = Inr ''0x1''"
  by (simp add: requireAddressFor_def sample_session_def sample_connection_def requireAddress_def)

definition deposit_one :: vault_adjustment_params where
  "deposit_one = noAdjustment\<lparr>depositCollateral := Some ONE\<rparr>"

lemma adjust_call_exact_witness:
  "\<exists>pt. populate_adjustVault sample_session 3 [(''depositCollateral'', Some (DDecimal ONE))] None
      \<lparr>ov_from = None, ov_nonce = None, ov_gasLimit = None, ov_gasPrice = None\<rparr> = Inr pt \<and>
    decode_adjustment (rawPopulatedTransaction pt) = Some deposit_one"
proof -
  let ?params = "[(''depositCollateral'', Some (DDecimal ONE))]"
  let ?ov = "\<lparr>ov_from = None, ov_nonce = None, ov_gasLimit = None, ov_gasPrice = None\<rparr>"
  have keys: "distinct (map fst ?params)" by simp
  have wf: "wf_adjustment deposit_one" by (simp add: wf_adjustment_def deposit_one_def noAdjustment_def ONE_def ZERO_def)
  have n: "normalizeVaultAdjustment ?params = Inr deposit_one"
    by (simp add: normalizeVaultAdjustment_char [OF keys] wf)
      (simp add: allowedVaultAdjustmentKeys_def adjustment_of_def deposit_one_def noAdjustment_def param_of_def nonZero_def
        isZero_def ONE_def)
  let ?v = "\<lparr>collateral = ZERO, debt = ZERO, ownerAddress = ''0x1'', status = NonExistent\<rparr>"
  have v: "getVault (s_readable sample_session) (Some ''0x1'') None = Inr ?v"
    by (simp add: sample_session_def sample_readVault)
  obtain w :: vault where w: "adjust ?v (params_of_adjustment deposit_one) None = Inr w"
    by (simp add: adjust_def normalize_params_of_adjustment [OF wf] apply_v_def Let_def
        applyAdjustment_eq [of _ MINIMUM_BORROWING_RATE] rateOrDefault_def)
  obtain upper lower where h: "findHints sample_session 3 False w = Inr (upper, lower)"
    using sample_hints by blast
  have pt: "\<exists>pt. populate_adjustVault sample_session 3 ?params None ?ov = Inr pt"
    unfolding populate_adjustVault_def sample_requireAddress bindE_eq_Inr_iff populated_by_def
    using n v w h by (auto simp: sample_estimate deposit_one_def noAdjustment_def rate_or_def split_paired_Ex)
  from pt obtain pt where pt: "populate_adjustVault sample_session 3 ?params None ?ov = Inr pt" by blast
  from adjust_call_exact [OF pt keys] n show ?thesis using pt by auto
qed

section \<open>Redemptions\<close>

lemma populateRedemption_facts:
  assumes "populateRedemption ss rf attempted maxRate truncated hints = Inr m"
  shows "attemptedBPDAmount m = attempted" "redeemableBPDAmount m = truncated" "isTruncated m \<longleftrightarrow> truncated < attempted"
    "rm_increase m = (if truncated < attempted then Some (add_dec truncated BPD_MINIMUM_NET_DEBT, maxRate) else None)"
    "hd (tx_args (rm_transaction m)) = hex_of truncated"
    "\<exists>rate. last (tx_args (rm_transaction m)) = hex_of rate \<and> (case maxRate of
       None \<Rightarrow> rate \<le> ONE \<and> defaultMaxRedemptionRate rf truncated = Inr rate | Some x \<Rightarrow> from_d x = Inr rate)"
proof -
  obtain rate tx where r: "rate_or maxRate (defaultMaxRedemptionRate rf truncated) = Inr rate"
    and tx: "estimateAndPopulate ss addGasForPotentialLastFeeOperationTimeUpdate
         (contract_call ''vaultManager'' ''redeemCollateral'' None (rf_overrides rf)
           [hex_of truncated, Addr (rf_firstHint rf), Addr (fst hints), Addr (fst (snd hints)), Uint (snd (snd hints)),
            Uint redeemMaxIterations, hex_of rate]) = Inr tx"
    and m: "m = \<lparr>rm_transaction = tx, attemptedBPDAmount = attempted, redeemableBPDAmount = truncated,
         isTruncated = truncated < attempted,
         rm_increase = if truncated < attempted then Some (add_dec truncated BPD_MINIMUM_NET_DEBT, maxRate) else None\<rparr>"
    using assms unfolding populateRedemption_def bindE_eq_Inr_iff by auto
  have args: "tx_args tx = [hex_of truncated, Addr (rf_firstHint rf), Addr (fst hints), Addr (fst (snd hints)),
      Uint (snd (snd hints)), Uint redeemMaxIterations, hex_of rate]"
    using estimateAndPopulate_eq [OF tx] by (auto simp: contract_call_def)
  have "defaultMaxRedemptionRate rf truncated = Inr rate \<Longrightarrow> rate \<le> ONE"
    by (auto simp: defaultMaxRedemptionRate_def bindE_eq_Inr_iff min_d_def not_less)
  with r args m show "attemptedBPDAmount m = attempted" "redeemableBPDAmount m = truncated"
    "isTruncated m \<longleftrightarrow> truncated < attempted"
    "rm_increase m = (if truncated < attempted then Some (add_dec truncated BPD_MINIMUM_NET_DEBT, maxRate) else None)"
    "hd (tx_args (rm_transaction m)) = hex_of truncated"
    "\<exists>rate. last (tx_args (rm_transaction m)) = hex_of rate \<and> (case maxRate of
       None \<Rightarrow> rate \<le> ONE \<and> defaultMaxRedemptionRate rf truncated = Inr rate | Some x \<Rightarrow> from_d x = Inr rate)"
    by (auto simp: rate_or_def split: option.splits)
qed


lemma sample_getFees: "\<exists>f. getFees (s_readable sample_session) None = Inr f"
proof -
  obtain create where "getFeesFactory sample_chain None = Inr create" "\<forall>m. create 0 m = createFees ZERO 0 0 m"
    using sample_fees_factory [of None] by blast
  moreover have "blockTimestamp sample_chain b = Inr 0" for b by (simp add: sample_chain_def)
  moreover have "\<exists>m. collateralRatioIsBelowCritical (Vault (Decimal (2 * DIGITS)) (Decimal (2 * DIGITS))) (DDecimal ONE) = Inr m"
    by (simp add: collateralRatioIsBelowCritical_def collateralRatio_def)
  ultimately show ?thesis using sample_chain_created
    by (auto simp: sample_session_def ReadableBitcoinsMoneyp_def readFees_def sample_reads)
qed


end
