(* ===== verification/Subgraph.thy ===== *)
theory Subgraph
  imports Complex_Main Moneyp_Prelude
begin

text \<open>
  The indexer of the protocol's events (\<open>packages/subgraph/src\<close>): entities, the functions that update them, and the
  event handlers. The store of entities is a record of tables; a handler that throws stops the
  indexer. A cast of \<open>null\<close> to an entity or address counts as a throw. Calls of contracts are part of the event.
  Sequence numbers are natural numbers; in the code they are \<open>i32\<close>, so the model stands for the first \<open>2 ^ 31\<close> of each.
\<close>

section \<open>Numbers\<close>

text \<open>A \<open>BigDecimal\<close> is a rational number; the library rounds results to its number of digits with \<open>rnd\<close>.\<close>

type_synonym rounding = "rat \<Rightarrow> rat"

definition SCALING_FACTOR :: nat where
  "SCALING_FACTOR = 10 ^ 18"

definition decimalizeBigInt :: "rounding \<Rightarrow> nat \<Rightarrow> rat" where
  "decimalizeBigInt rnd n = rnd (of_nat n / of_nat SCALING_FACTOR)"

definition DECIMAL_INITIAL_PRICE :: rat where
  "DECIMAL_INITIAL_PRICE = 200"

definition calculateCollateralRatio :: "rounding \<Rightarrow> rat \<Rightarrow> rat \<Rightarrow> rat \<Rightarrow> rat option" where
  "calculateCollateralRatio rnd coll deb p = (if deb = 0 then None else Some (rnd (rnd (coll * p) / deb)))"

section \<open>Operations on vaults\<close>

definition getVaultOperationFromBorrowerOperation :: "nat \<Rightarrow> string" where
  "getVaultOperationFromBorrowerOperation n =
     (if n = 0 then ''openVault'' else if n = 1 then ''closeVault'' else if n = 2 then ''adjustVault'' else ''unreached'')"

definition isBorrowerOperation :: "string \<Rightarrow> bool" where
  "isBorrowerOperation operation \<longleftrightarrow> operation = ''openVault'' \<or> operation = ''closeVault'' \<or> operation = ''adjustVault''"

definition getVaultOperationFromVaultManagerOperation :: "nat \<Rightarrow> string" where
  "getVaultOperationFromVaultManagerOperation n =
     (if n = 0 then ''accrueRewards'' else if n = 1 then ''liquidateInNormalMode''
      else if n = 2 then ''liquidateInRecoveryMode'' else if n = 3 then ''redeemCollateral'' else ''unreached'')"

definition isLiquidation :: "string \<Rightarrow> bool" where
  "isLiquidation operation \<longleftrightarrow> operation = ''liquidateInNormalMode'' \<or> operation = ''liquidateInRecoveryMode''"

definition isRecoveryModeLiquidation :: "string \<Rightarrow> bool" where
  "isRecoveryModeLiquidation operation \<longleftrightarrow> operation = ''liquidateInRecoveryMode''"

definition isRedemption :: "string \<Rightarrow> bool" where
  "isRedemption operation \<longleftrightarrow> operation = ''redeemCollateral''"

section \<open>Entities\<close>

record global_entity =
  g_priceFeed :: "string option"
  g_stateCount :: nat
  g_transactionCount :: nat
  g_changeCount :: nat
  g_liquidationCount :: nat
  g_redemptionCount :: nat
  g_openVaults :: int
  g_liquidatedVaults :: int
  g_redeemedVaults :: int
  g_vaultsClosedByOwner :: int
  g_totalVaults :: int
  g_rawTotalColl :: nat
  g_rawTotalDebt :: nat
  g_currentState :: "string option"
  g_currentLiquidation :: "string option"
  g_currentRedemption :: "string option"

record system_state =
  y_id :: string
  y_seq :: nat
  y_price :: rat
  y_coll :: rat
  y_debt :: rat
  y_ratio :: "rat option"
  y_pool :: rat
  y_surplus :: rat

record user_entity =
  u_id :: string
  u_currentVault :: "string option"
  u_vaultCount :: nat
  u_currentDeposit :: "string option"
  u_depositCount :: nat
  u_collSurplus :: rat

text \<open>The raw fields of a vault are set before it is saved.\<close>

record vault_entity =
  v_id :: string
  v_owner :: string
  v_status :: string
  v_coll :: rat
  v_debt :: rat
  v_rawColl :: nat
  v_rawDebt :: nat
  v_rawStake :: nat
  v_rawSnapshotColl :: nat
  v_rawSnapshotDebt :: nat
  v_sortKey :: "int option"

record deposit_entity =
  e_id :: string
  e_owner :: string
  e_amount :: rat

record transaction_entity =
  t_id :: string
  t_seq :: nat
  t_block :: nat
  t_time :: nat

text \<open>What the four kinds of changes share.\<close>

record change_header =
  h_seq :: nat
  h_transaction :: string
  h_before :: string
  h_after :: string

record vault_change_entity =
  vc_header :: change_header
  vc_vault :: string
  vc_operation :: string
  vc_collBefore :: rat
  vc_collChange :: rat
  vc_collAfter :: rat
  vc_debtBefore :: rat
  vc_debtChange :: rat
  vc_debtAfter :: rat
  vc_ratioBefore :: "rat option"
  vc_ratioAfter :: "rat option"
  vc_liquidation :: "string option"
  vc_redemption :: "string option"

record deposit_change_entity =
  dc_header :: change_header
  dc_deposit :: string
  dc_operation :: string
  dc_before :: rat
  dc_change :: rat
  dc_after :: rat
  dc_collateralGain :: "rat option"

record price_change_entity =
  pc_header :: change_header
  pc_change :: rat

record surplus_change_entity =
  sc_header :: change_header
  sc_user :: string
  sc_before :: rat
  sc_change :: rat
  sc_after :: rat

record liquidation_entity =
  l_seq :: nat
  l_transaction :: string
  l_liquidator :: string
  l_coll :: rat
  l_debt :: rat
  l_collGasCompensation :: rat
  l_tokenGasCompensation :: rat

record redemption_entity =
  r_seq :: nat
  r_transaction :: string
  r_redeemer :: string
  r_attempted :: rat
  r_redeemed :: rat
  r_coll :: rat
  r_partial :: bool

text \<open>The store: one table per type of entity, and the addresses for which templates were created.\<close>

record indexed =
  i_global :: "global_entity option"
  i_states :: "string \<rightharpoonup> system_state"
  i_users :: "string \<rightharpoonup> user_entity"
  i_vaults :: "string \<rightharpoonup> vault_entity"
  i_deposits :: "string \<rightharpoonup> deposit_entity"
  i_transactions :: "string \<rightharpoonup> transaction_entity"
  i_vaultChanges :: "string \<rightharpoonup> vault_change_entity"
  i_depositChanges :: "string \<rightharpoonup> deposit_change_entity"
  i_priceChanges :: "string \<rightharpoonup> price_change_entity"
  i_surplusChanges :: "string \<rightharpoonup> surplus_change_entity"
  i_liquidations :: "string \<rightharpoonup> liquidation_entity"
  i_redemptions :: "string \<rightharpoonup> redemption_entity"
  i_templates :: "(string \<times> string) list"

definition nothing_indexed :: indexed where
  "nothing_indexed = \<lparr>i_global = None, i_states = Map.empty, i_users = Map.empty, i_vaults = Map.empty,
     i_deposits = Map.empty, i_transactions = Map.empty, i_vaultChanges = Map.empty, i_depositChanges = Map.empty,
     i_priceChanges = Map.empty, i_surplusChanges = Map.empty, i_liquidations = Map.empty, i_redemptions = Map.empty,
     i_templates = []\<rparr>"

text \<open>
  An event with its transaction and block, and what the contracts answer there: the price of the feed at an address,
  the snapshots of a borrower's rewards, and the totals redistributed per stake.
\<close>

record chain_event =
  ev_hash :: string
  ev_from :: string
  ev_block :: nat
  ev_timestamp :: nat
  ev_fetchPrice :: "string \<Rightarrow> nat result"
  ev_rewardSnapshots :: "string \<Rightarrow> (nat \<times> nat) result"
  ev_redistributed :: "(nat \<times> nat) result"

section \<open>Functions on the store that may throw\<close>

type_synonym 'a indexer = "indexed \<Rightarrow> ('a \<times> indexed) result"

definition bindS :: "'a indexer \<Rightarrow> ('a \<Rightarrow> 'b indexer) \<Rightarrow> 'b indexer" where
  "bindS m f st = bindE (m st) (\<lambda>(x, st'). f x st')"

definition retS :: "'a \<Rightarrow> 'a indexer" where
  "retS x st = Inr (x, st)"

definition liftS :: "'a result \<Rightarrow> 'a indexer" where
  "liftS r st = bindE r (\<lambda>x. Inr (x, st))"

definition totalS :: "(indexed \<Rightarrow> 'a \<times> indexed) \<Rightarrow> 'a indexer" where
  "totalS f st = Inr (f st)"

definition readS :: "(indexed \<Rightarrow> 'a) \<Rightarrow> 'a indexer" where
  "readS f st = Inr (f st, st)"

definition writeS :: "(indexed \<Rightarrow> indexed) \<Rightarrow> unit indexer" where
  "writeS f st = Inr ((), f st)"

section \<open>Global\<close>

definition new_global :: global_entity where
  "new_global = \<lparr>g_priceFeed = None, g_stateCount = 0, g_transactionCount = 0, g_changeCount = 0, g_liquidationCount = 0,
     g_redemptionCount = 0, g_openVaults = 0, g_liquidatedVaults = 0, g_redeemedVaults = 0, g_vaultsClosedByOwner = 0,
     g_totalVaults = 0, g_rawTotalColl = 0, g_rawTotalDebt = 0, g_currentState = None, g_currentLiquidation = None,
     g_currentRedemption = None\<rparr>"

definition getGlobal :: "indexed \<Rightarrow> global_entity" where
  "getGlobal st = (case i_global st of Some g \<Rightarrow> g | None \<Rightarrow> new_global)"

definition update_global :: "(global_entity \<Rightarrow> global_entity) \<Rightarrow> indexed \<Rightarrow> indexed" where
  "update_global f st = st\<lparr>i_global := Some (f (getGlobal st))\<rparr>"

definition increaseCounter ::
  "(global_entity \<Rightarrow> nat) \<Rightarrow> ((nat \<Rightarrow> nat) \<Rightarrow> global_entity \<Rightarrow> global_entity) \<Rightarrow> indexed \<Rightarrow> nat \<times> indexed" where
  "increaseCounter key upd st = (key (getGlobal st), update_global (upd Suc) st)"

definition getSystemStateSequenceNumber :: "indexed \<Rightarrow> nat \<times> indexed" where
  "getSystemStateSequenceNumber = increaseCounter g_stateCount g_stateCount_update"

definition getTransactionSequenceNumber :: "indexed \<Rightarrow> nat \<times> indexed" where
  "getTransactionSequenceNumber = increaseCounter g_transactionCount g_transactionCount_update"

definition getChangeSequenceNumber :: "indexed \<Rightarrow> nat \<times> indexed" where
  "getChangeSequenceNumber = increaseCounter g_changeCount g_changeCount_update"

definition getLiquidationSequenceNumber :: "indexed \<Rightarrow> nat \<times> indexed" where
  "getLiquidationSequenceNumber = increaseCounter g_liquidationCount g_liquidationCount_update"

definition getRedemptionSequenceNumber :: "indexed \<Rightarrow> nat \<times> indexed" where
  "getRedemptionSequenceNumber = increaseCounter g_redemptionCount g_redemptionCount_update"

definition updatePriceFeedAddress :: "string \<Rightarrow> indexed \<Rightarrow> indexed" where
  "updatePriceFeedAddress a = update_global (g_priceFeed_update (\<lambda>_. Some a))"

definition getPriceFeedAddress :: "indexed \<Rightarrow> string result" where
  "getPriceFeedAddress st = (case g_priceFeed (getGlobal st) of Some a \<Rightarrow> Inr a | None \<Rightarrow> Inl TypeError)"

definition updateTotalRedistributed :: "nat \<Rightarrow> nat \<Rightarrow> indexed \<Rightarrow> indexed" where
  "updateTotalRedistributed c d = update_global (\<lambda>g. g\<lparr>g_rawTotalColl := c, g_rawTotalDebt := d\<rparr>)"

definition increaseNumberOfOpenVaults :: "indexed \<Rightarrow> indexed" where
  "increaseNumberOfOpenVaults = update_global (\<lambda>g. g\<lparr>g_openVaults := g_openVaults g + 1, g_totalVaults := g_totalVaults g + 1\<rparr>)"

definition increaseNumberOfLiquidatedVaults :: "indexed \<Rightarrow> indexed" where
  "increaseNumberOfLiquidatedVaults =
     update_global (\<lambda>g. g\<lparr>g_liquidatedVaults := g_liquidatedVaults g + 1, g_openVaults := g_openVaults g - 1\<rparr>)"

definition increaseNumberOfRedeemedVaults :: "indexed \<Rightarrow> indexed" where
  "increaseNumberOfRedeemedVaults =
     update_global (\<lambda>g. g\<lparr>g_redeemedVaults := g_redeemedVaults g + 1, g_openVaults := g_openVaults g - 1\<rparr>)"

definition increaseNumberOfVaultsClosedByOwner :: "indexed \<Rightarrow> indexed" where
  "increaseNumberOfVaultsClosedByOwner =
     update_global (\<lambda>g. g\<lparr>g_vaultsClosedByOwner := g_vaultsClosedByOwner g + 1, g_openVaults := g_openVaults g - 1\<rparr>)"

section \<open>System states\<close>

definition set_current_state :: "system_state \<Rightarrow> indexed \<Rightarrow> indexed" where
  "set_current_state s st =
     update_global (g_currentState_update (\<lambda>_. Some (y_id s))) (st\<lparr>i_states := (i_states st)(y_id s \<mapsto> s)\<rparr>)"

definition getCurrentSystemState :: "indexed \<Rightarrow> system_state \<times> indexed" where
  "getCurrentSystemState st =
     (case Option.bind (g_currentState (getGlobal st)) (i_states st) of
        Some s \<Rightarrow> (s, st)
      | None \<Rightarrow>
          let (n, st') = getSystemStateSequenceNumber st;
              s = \<lparr>y_id = nat_to_string n, y_seq = n, y_price = DECIMAL_INITIAL_PRICE, y_coll = 0, y_debt = 0,
                   y_ratio = None, y_pool = 0, y_surplus = 0\<rparr>
          in (s, set_current_state s st'))"

definition bumpSystemState :: "system_state \<Rightarrow> indexed \<Rightarrow> indexed" where
  "bumpSystemState s st =
     (let (n, st') = getSystemStateSequenceNumber st in set_current_state (s\<lparr>y_id := nat_to_string n, y_seq := n\<rparr>) st')"

section \<open>Changes and transactions\<close>

text \<open>
  \<open>getTransaction\<close> creates a transaction, which may record a change of the price, which again asks for the transaction; it
  is a parameter \<open>get\<close> of the functions in between. There the transaction was saved already
  and is only loaded (lemma \<open>getTransaction_recursive\<close> is the recursion of the code).
\<close>

definition beginChange :: "transaction_entity indexer \<Rightarrow> nat indexer" where
  "beginChange get = bindS get (\<lambda>_. totalS getChangeSequenceNumber)"

definition initChange :: "transaction_entity indexer \<Rightarrow> nat \<Rightarrow> change_header indexer" where
  "initChange get n = bindS get (\<lambda>t. bindS (totalS getCurrentSystemState) (\<lambda>s.
     retS \<lparr>h_seq = n, h_transaction = t_id t, h_before = y_id s, h_after = ''''\<rparr>))"

definition finishChange :: "change_header \<Rightarrow> change_header indexer" where
  "finishChange h = bindS (totalS getCurrentSystemState) (\<lambda>s. retS (h\<lparr>h_after := y_id s\<rparr>))"

definition createChange :: "transaction_entity indexer \<Rightarrow> change_header indexer" where
  "createChange get = bindS (beginChange get) (initChange get)"

definition save_price_change :: "price_change_entity \<Rightarrow> indexed \<Rightarrow> indexed" where
  "save_price_change c st = st\<lparr>i_priceChanges := (i_priceChanges st)(nat_to_string (h_seq (pc_header c)) \<mapsto> c)\<rparr>"

definition checkPrice :: "rounding \<Rightarrow> chain_event \<Rightarrow> transaction_entity indexer \<Rightarrow> unit indexer" where
  "checkPrice rnd ev get =
     bindS (totalS getCurrentSystemState) (\<lambda>s.
     bindS (readS getPriceFeedAddress) (\<lambda>feed. bindS (liftS feed) (\<lambda>a. bindS (liftS (ev_fetchPrice ev a)) (\<lambda>p.
       let newPrice = decimalizeBigInt rnd p in
       if newPrice = y_price s then retS ()
       else bindS (createChange get) (\<lambda>h.
         bindS (writeS (bumpSystemState (s\<lparr>y_price := newPrice\<rparr>))) (\<lambda>_.
         bindS (finishChange h) (\<lambda>h'.
           writeS (save_price_change \<lparr>pc_header = h', pc_change = rnd (newPrice - y_price s)\<rparr>))))))))"

definition loadTransaction :: "chain_event \<Rightarrow> transaction_entity indexer" where
  "loadTransaction ev st = (case i_transactions st (ev_hash ev) of Some t \<Rightarrow> Inr (t, st) | None \<Rightarrow> Inl TypeError)"

definition new_transaction :: "chain_event \<Rightarrow> indexed \<Rightarrow> transaction_entity \<times> indexed" where
  "new_transaction ev st =
     (let (n, st') = getTransactionSequenceNumber st;
          t = \<lparr>t_id = ev_hash ev, t_seq = n, t_block = ev_block ev, t_time = ev_timestamp ev\<rparr>
      in (t, st'\<lparr>i_transactions := (i_transactions st')(ev_hash ev \<mapsto> t)\<rparr>))"

definition getTransaction :: "rounding \<Rightarrow> chain_event \<Rightarrow> transaction_entity indexer" where
  "getTransaction rnd ev st =
     (case i_transactions st (ev_hash ev) of
        Some t \<Rightarrow> Inr (t, st)
      | None \<Rightarrow> bindS (totalS (new_transaction ev)) (\<lambda>t. bindS (checkPrice rnd ev (loadTransaction ev)) (\<lambda>_. retS t)) st)"

definition getCurrentPrice :: "rat indexer" where
  "getCurrentPrice = bindS (totalS getCurrentSystemState) (\<lambda>s. retS (y_price s))"

section \<open>Updates of the system state\<close>

definition tryToOffsetWithTokensFromStabilityPool :: "rounding \<Rightarrow> rat \<Rightarrow> rat \<Rightarrow> system_state \<Rightarrow> system_state" where
  "tryToOffsetWithTokensFromStabilityPool rnd coll deb s =
     (if deb \<le> y_pool s
      then s\<lparr>y_coll := rnd (y_coll s - coll), y_debt := rnd (y_debt s - deb), y_pool := rnd (y_pool s - deb)\<rparr>
      else if y_pool s > 0
      then s\<lparr>y_coll := rnd (y_coll s - rnd (rnd (coll * y_pool s) / deb)), y_debt := rnd (y_debt s - y_pool s), y_pool := 0\<rparr>
      else s)"

definition totals_after_vault_change :: "rounding \<Rightarrow> vault_change_entity \<Rightarrow> system_state \<Rightarrow> system_state result" where
  "totals_after_vault_change rnd c s =
     bindE (if isBorrowerOperation (vc_operation c) \<or> isRedemption (vc_operation c)
            then Inr (s\<lparr>y_coll := rnd (y_coll s + vc_collChange c), y_debt := rnd (y_debt s + vc_debtChange c)\<rparr>)
            else if isLiquidation (vc_operation c)
            then bindE (if \<not> isRecoveryModeLiquidation (vc_operation c) then Inr True
                        else case vc_ratioBefore c of None \<Rightarrow> Inl TypeError | Some r \<Rightarrow> Inr (r > 1)) (\<lambda>offset.
              Inr (if offset
                   then tryToOffsetWithTokensFromStabilityPool rnd (- vc_collChange c) (- vc_debtChange c) s else s))
            else Inr s) (\<lambda>s.
       Inr (s\<lparr>y_ratio := calculateCollateralRatio rnd (y_coll s) (y_debt s) (y_price s)\<rparr>))"

definition updateSystemStateByVaultChange :: "rounding \<Rightarrow> vault_change_entity \<Rightarrow> unit indexer" where
  "updateSystemStateByVaultChange rnd c =
     bindS (totalS getCurrentSystemState) (\<lambda>s. bindS (liftS (totals_after_vault_change rnd c s)) (\<lambda>s'.
       writeS (bumpSystemState s')))"

definition totals_after_deposit_change :: "rounding \<Rightarrow> deposit_change_entity \<Rightarrow> system_state \<Rightarrow> system_state" where
  "totals_after_deposit_change rnd c s =
     (if dc_operation c = ''depositTokens'' \<or> dc_operation c = ''withdrawTokens''
      then s\<lparr>y_pool := rnd (y_pool s + dc_change c)\<rparr> else s)"

definition updateSystemStateByStabilityDepositChange :: "rounding \<Rightarrow> deposit_change_entity \<Rightarrow> unit indexer" where
  "updateSystemStateByStabilityDepositChange rnd c =
     bindS (totalS getCurrentSystemState) (\<lambda>s. writeS (bumpSystemState (totals_after_deposit_change rnd c s)))"

definition totals_after_surplus_change :: "rounding \<Rightarrow> surplus_change_entity \<Rightarrow> system_state \<Rightarrow> system_state" where
  "totals_after_surplus_change rnd c s = s\<lparr>y_surplus := rnd (y_surplus s + sc_change c)\<rparr>"

definition updateSystemStateByCollSurplusChange :: "rounding \<Rightarrow> surplus_change_entity \<Rightarrow> unit indexer" where
  "updateSystemStateByCollSurplusChange rnd c =
     bindS (totalS getCurrentSystemState) (\<lambda>s. writeS (bumpSystemState (totals_after_surplus_change rnd c s)))"

end
