(* ===== verification/Subgraph_Events.thy ===== *)
theory Subgraph_Events
  imports Subgraph
begin

text \<open>
  The entities of users, vaults, stability deposits, liquidations and redemptions of \<open>packages/subgraph/src/entities\<close>, and the
  handlers of \<open>packages/subgraph/src/mappings\<close>.
\<close>

section \<open>Users\<close>

definition save_user :: "user_entity \<Rightarrow> indexed \<Rightarrow> indexed" where
  "save_user u st = st\<lparr>i_users := (i_users st)(u_id u \<mapsto> u)\<rparr>"

definition new_user :: "string \<Rightarrow> user_entity" where
  "new_user a = \<lparr>u_id = a, u_currentVault = None, u_vaultCount = 0, u_currentDeposit = None, u_depositCount = 0,
     u_collSurplus = 0\<rparr>"

definition getUser :: "string \<Rightarrow> indexed \<Rightarrow> user_entity \<times> indexed" where
  "getUser a st = (case i_users st a of Some u \<Rightarrow> (u, st) | None \<Rightarrow> (new_user a, save_user (new_user a) st))"

definition save_surplus_change :: "surplus_change_entity \<Rightarrow> indexed \<Rightarrow> indexed" where
  "save_surplus_change c st = st\<lparr>i_surplusChanges := (i_surplusChanges st)(nat_to_string (h_seq (sc_header c)) \<mapsto> c)\<rparr>"

definition updateUserClaimColl :: "rounding \<Rightarrow> chain_event \<Rightarrow> string \<Rightarrow> nat \<Rightarrow> unit indexer" where
  "updateUserClaimColl rnd ev borrower surplus =
     bindS (totalS (getUser borrower)) (\<lambda>user.
       let newCollSurplus = decimalizeBigInt rnd surplus in
       if newCollSurplus = u_collSurplus user then retS ()
       else bindS (createChange (getTransaction rnd ev)) (\<lambda>h.
         let c = \<lparr>sc_header = h, sc_user = u_id user, sc_before = u_collSurplus user,
                  sc_change = rnd (newCollSurplus - u_collSurplus user), sc_after = newCollSurplus\<rparr> in
         bindS (updateSystemStateByCollSurplusChange rnd c) (\<lambda>_.
         bindS (finishChange h) (\<lambda>h'.
         bindS (writeS (save_surplus_change (c\<lparr>sc_header := h'\<rparr>))) (\<lambda>_.
           writeS (save_user (user\<lparr>u_collSurplus := newCollSurplus\<rparr>)))))))"

section \<open>Liquidations and redemptions\<close>

definition getCurrentLiquidation :: "rounding \<Rightarrow> chain_event \<Rightarrow> (string \<times> liquidation_entity) indexer" where
  "getCurrentLiquidation rnd ev =
     bindS (readS (\<lambda>st. Option.bind (g_currentLiquidation (getGlobal st))
         (\<lambda>k. map_option (\<lambda>l. (k, l)) (i_liquidations st k)))) (\<lambda>current.
       case current of
         Some x \<Rightarrow> retS x
       | None \<Rightarrow>
           bindS (totalS getLiquidationSequenceNumber) (\<lambda>n.
           bindS (getTransaction rnd ev) (\<lambda>t.
           bindS (totalS (getUser (ev_from ev))) (\<lambda>u.
             let l = \<lparr>l_seq = n, l_transaction = t_id t, l_liquidator = u_id u, l_coll = 0, l_debt = 0,
                      l_collGasCompensation = 0, l_tokenGasCompensation = 0\<rparr> in
             bindS (writeS (\<lambda>st. st\<lparr>i_liquidations := (i_liquidations st)(nat_to_string n \<mapsto> l)\<rparr>)) (\<lambda>_.
             bindS (writeS (update_global (g_currentLiquidation_update (\<lambda>_. Some (nat_to_string n))))) (\<lambda>_.
               retS (nat_to_string n, l)))))))"

definition finishCurrentLiquidation :: "rounding \<Rightarrow> chain_event \<Rightarrow> nat \<Rightarrow> nat \<Rightarrow> nat \<Rightarrow> nat \<Rightarrow> unit indexer" where
  "finishCurrentLiquidation rnd ev liquidatedColl liquidatedDebt collGas tokenGas =
     bindS (getCurrentLiquidation rnd ev) (\<lambda>(k, l).
     bindS (writeS (\<lambda>st. st\<lparr>i_liquidations := (i_liquidations st)(k \<mapsto> l\<lparr>l_coll := decimalizeBigInt rnd liquidatedColl,
         l_debt := decimalizeBigInt rnd liquidatedDebt, l_collGasCompensation := decimalizeBigInt rnd collGas,
         l_tokenGasCompensation := decimalizeBigInt rnd tokenGas\<rparr>)\<rparr>)) (\<lambda>_.
       writeS (update_global (g_currentLiquidation_update (\<lambda>_. None)))))"

definition getCurrentRedemption :: "rounding \<Rightarrow> chain_event \<Rightarrow> (string \<times> redemption_entity) indexer" where
  "getCurrentRedemption rnd ev =
     bindS (readS (\<lambda>st. Option.bind (g_currentRedemption (getGlobal st))
         (\<lambda>k. map_option (\<lambda>r. (k, r)) (i_redemptions st k)))) (\<lambda>current.
       case current of
         Some x \<Rightarrow> retS x
       | None \<Rightarrow>
           bindS (totalS getRedemptionSequenceNumber) (\<lambda>n.
           bindS (getTransaction rnd ev) (\<lambda>t.
           bindS (totalS (getUser (ev_from ev))) (\<lambda>u.
             let r = \<lparr>r_seq = n, r_transaction = t_id t, r_redeemer = u_id u, r_attempted = 0, r_redeemed = 0,
                      r_coll = 0, r_partial = False\<rparr> in
             bindS (writeS (\<lambda>st. st\<lparr>i_redemptions := (i_redemptions st)(nat_to_string n \<mapsto> r)\<rparr>)) (\<lambda>_.
             bindS (writeS (update_global (g_currentRedemption_update (\<lambda>_. Some (nat_to_string n))))) (\<lambda>_.
               retS (nat_to_string n, r)))))))"

definition finishCurrentRedemption :: "rounding \<Rightarrow> chain_event \<Rightarrow> nat \<Rightarrow> nat \<Rightarrow> nat \<Rightarrow> unit indexer" where
  "finishCurrentRedemption rnd ev attempted actual collSent =
     bindS (getCurrentRedemption rnd ev) (\<lambda>(k, r).
     bindS (writeS (\<lambda>st. st\<lparr>i_redemptions := (i_redemptions st)(k \<mapsto> r\<lparr>r_attempted := decimalizeBigInt rnd attempted,
         r_redeemed := decimalizeBigInt rnd actual, r_coll := decimalizeBigInt rnd collSent, r_partial := actual < attempted\<rparr>)\<rparr>)) (\<lambda>_.
       writeS (update_global (g_currentRedemption_update (\<lambda>_. None)))))"

section \<open>Vaults\<close>

definition sub_id :: "string \<Rightarrow> nat \<Rightarrow> string" where
  "sub_id a n = a @ ''-'' @ nat_to_string n"

definition open_vault :: "string \<Rightarrow> nat \<Rightarrow> vault_entity" where
  "open_vault a n = \<lparr>v_id = sub_id a n, v_owner = a, v_status = ''open'', v_coll = 0, v_debt = 0, v_rawColl = 0,
     v_rawDebt = 0, v_rawStake = 0, v_rawSnapshotColl = 0, v_rawSnapshotDebt = 0, v_sortKey = None\<rparr>"

definition getCurrentVaultOfOwner :: "string \<Rightarrow> vault_entity indexer" where
  "getCurrentVaultOfOwner a =
     bindS (totalS (getUser a)) (\<lambda>owner.
       case u_currentVault owner of
         None \<Rightarrow>
           bindS (writeS (save_user (owner\<lparr>u_vaultCount := Suc (u_vaultCount owner),
               u_currentVault := Some (sub_id a (u_vaultCount owner))\<rparr>))) (\<lambda>_.
           bindS (writeS increaseNumberOfOpenVaults) (\<lambda>_. retS (open_vault a (u_vaultCount owner))))
       | Some k \<Rightarrow> bindS (readS (\<lambda>st. i_vaults st k)) (\<lambda>v.
           case v of Some x \<Rightarrow> retS x | None \<Rightarrow> liftS (Inl TypeError)))"

definition closeCurrentVaultOfOwner :: "string \<Rightarrow> unit indexer" where
  "closeCurrentVaultOfOwner a =
     bindS (totalS (getUser a)) (\<lambda>owner. writeS (save_user (owner\<lparr>u_currentVault := None\<rparr>)))"

definition save_vault_change :: "vault_change_entity \<Rightarrow> indexed \<Rightarrow> indexed" where
  "save_vault_change c st = st\<lparr>i_vaultChanges := (i_vaultChanges st)(nat_to_string (h_seq (vc_header c)) \<mapsto> c)\<rparr>"

definition save_vault :: "vault_entity \<Rightarrow> indexed \<Rightarrow> indexed" where
  "save_vault v st = st\<lparr>i_vaults := (i_vaults st)(v_id v \<mapsto> v)\<rparr>"

definition sort_key :: "nat \<Rightarrow> nat \<Rightarrow> nat \<Rightarrow> int option" where
  "sort_key deb stake snapshotDebt =
     (if stake \<noteq> 0 then Some (int (deb * SCALING_FACTOR div stake) - int snapshotDebt) else None)"

text \<open>The change that \<open>updateVault\<close> records, with the liquidation or redemption it belongs to.\<close>

definition vault_change_of ::
  "rounding \<Rightarrow> change_header \<Rightarrow> rat \<Rightarrow> string \<Rightarrow> vault_entity \<Rightarrow> rat \<Rightarrow> rat \<Rightarrow> string option \<Rightarrow> string option \<Rightarrow> vault_change_entity" where
  "vault_change_of rnd h p operation v coll deb liq red =
     \<lparr>vc_header = h, vc_vault = v_id v, vc_operation = operation,
      vc_collBefore = v_coll v, vc_collChange = rnd (coll - v_coll v), vc_collAfter = coll,
      vc_debtBefore = v_debt v, vc_debtChange = rnd (deb - v_debt v), vc_debtAfter = deb,
      vc_ratioBefore = calculateCollateralRatio rnd (v_coll v) (v_debt v) p,
      vc_ratioAfter = calculateCollateralRatio rnd coll deb p, vc_liquidation = liq, vc_redemption = red\<rparr>"

text \<open>The end of \<open>updateVault\<close>, which closes the vault when it has no collateral and saves it.\<close>

definition close_if_empty :: "string \<Rightarrow> string \<Rightarrow> nat \<Rightarrow> string indexer" where
  "close_if_empty operation a coll =
     (if coll \<noteq> 0 then retS ''open''
      else bindS (closeCurrentVaultOfOwner a) (\<lambda>_.
        if isLiquidation operation
        then bindS (writeS increaseNumberOfLiquidatedVaults) (\<lambda>_. retS ''closedByLiquidation'')
        else if isRedemption operation
        then bindS (writeS increaseNumberOfRedeemedVaults) (\<lambda>_. retS ''closedByRedemption'')
        else bindS (writeS increaseNumberOfVaultsClosedByOwner) (\<lambda>_. retS ''closedByOwner'')))"

definition record_vault_change ::
  "rounding \<Rightarrow> chain_event \<Rightarrow> string \<Rightarrow> vault_entity \<Rightarrow> rat \<Rightarrow> rat \<Rightarrow> unit indexer" where
  "record_vault_change rnd ev operation v newCollateral newDebt =
     bindS (createChange (getTransaction rnd ev)) (\<lambda>h.
     bindS getCurrentPrice (\<lambda>p.
     bindS (if isLiquidation operation then bindS (getCurrentLiquidation rnd ev) (\<lambda>(k, _). retS (Some k)) else retS None) (\<lambda>liq.
     bindS (if isRedemption operation then bindS (getCurrentRedemption rnd ev) (\<lambda>(k, _). retS (Some k)) else retS None) (\<lambda>red.
       let c = vault_change_of rnd h p operation v newCollateral newDebt liq red in
       bindS (updateSystemStateByVaultChange rnd c) (\<lambda>_.
       bindS (finishChange h) (\<lambda>h'. writeS (save_vault_change (c\<lparr>vc_header := h'\<rparr>))))))))"

text \<open>The status of a vault stays as it is unless the vault is closed; a vault that is updated is open.\<close>

definition updateVault ::
  "rounding \<Rightarrow> chain_event \<Rightarrow> string \<Rightarrow> string \<Rightarrow> nat \<Rightarrow> nat \<Rightarrow> nat \<Rightarrow> nat \<times> nat \<Rightarrow> unit indexer" where
  "updateVault rnd ev operation borrower coll deb stake snapshots =
     bindS (getCurrentVaultOfOwner borrower) (\<lambda>v.
       let newCollateral = decimalizeBigInt rnd coll; newDebt = decimalizeBigInt rnd deb in
       if newCollateral = v_coll v \<and> newDebt = v_debt v then retS ()
       else
         bindS (record_vault_change rnd ev operation v newCollateral newDebt) (\<lambda>_.
         bindS (close_if_empty operation borrower coll) (\<lambda>status.
           writeS (save_vault (v\<lparr>v_coll := newCollateral, v_debt := newDebt, v_rawColl := coll, v_rawDebt := deb,
             v_rawStake := stake, v_rawSnapshotColl := fst snapshots, v_rawSnapshotDebt := snd snapshots,
             v_sortKey := sort_key deb stake (snd snapshots),
             v_status := if coll = 0 then status else v_status v\<rparr>)))))"

section \<open>Stability deposits\<close>

definition getCurrentStabilityDepositOfOwner :: "string \<Rightarrow> deposit_entity option indexer" where
  "getCurrentStabilityDepositOfOwner a =
     bindS (totalS (getUser a)) (\<lambda>owner. readS (\<lambda>st. Option.bind (u_currentDeposit owner) (i_deposits st)))"

definition openNewStabilityDepositForOwner :: "string \<Rightarrow> deposit_entity indexer" where
  "openNewStabilityDepositForOwner a =
     bindS (totalS (getUser a)) (\<lambda>owner.
       let d = \<lparr>e_id = sub_id a (u_depositCount owner), e_owner = u_id owner, e_amount = 0\<rparr> in
       bindS (writeS (save_user (owner\<lparr>u_depositCount := Suc (u_depositCount owner), u_currentDeposit := Some (e_id d)\<rparr>))) (\<lambda>_.
         retS d))"

definition closeCurrentStabilityDepositOfOwner :: "string \<Rightarrow> unit indexer" where
  "closeCurrentStabilityDepositOfOwner a =
     bindS (totalS (getUser a)) (\<lambda>owner. writeS (save_user (owner\<lparr>u_currentDeposit := None\<rparr>)))"

definition save_deposit_change :: "deposit_change_entity \<Rightarrow> indexed \<Rightarrow> indexed" where
  "save_deposit_change c st = st\<lparr>i_depositChanges := (i_depositChanges st)(nat_to_string (h_seq (dc_header c)) \<mapsto> c)\<rparr>"

definition save_deposit :: "deposit_entity \<Rightarrow> indexed \<Rightarrow> indexed" where
  "save_deposit d st = st\<lparr>i_deposits := (i_deposits st)(e_id d \<mapsto> d)\<rparr>"

definition updateStabilityDepositByOperation ::
  "rounding \<Rightarrow> chain_event \<Rightarrow> deposit_entity \<Rightarrow> string \<Rightarrow> rat \<Rightarrow> rat option \<Rightarrow> deposit_entity indexer" where
  "updateStabilityDepositByOperation rnd ev d operation amt gain =
     bindS (createChange (getTransaction rnd ev)) (\<lambda>h.
       let c = \<lparr>dc_header = h, dc_deposit = e_id d, dc_operation = operation, dc_before = e_amount d,
                dc_change = rnd (amt - e_amount d), dc_after = amt, dc_collateralGain = gain\<rparr> in
       bindS (updateSystemStateByStabilityDepositChange rnd c) (\<lambda>_.
       bindS (finishChange h) (\<lambda>h'.
       bindS (writeS (save_deposit_change (c\<lparr>dc_header := h'\<rparr>))) (\<lambda>_. retS (d\<lparr>e_amount := amt\<rparr>)))))"

definition updateStabilityDeposit :: "rounding \<Rightarrow> chain_event \<Rightarrow> string \<Rightarrow> nat \<Rightarrow> unit indexer" where
  "updateStabilityDeposit rnd ev user amt =
     bindS (getCurrentStabilityDepositOfOwner user) (\<lambda>current.
       let newAmount = decimalizeBigInt rnd amt in
       if current = None \<and> newAmount = 0 \<or> map_option e_amount current = Some newAmount then retS ()
       else
         bindS (case current of Some d \<Rightarrow> retS d | None \<Rightarrow> openNewStabilityDepositForOwner user) (\<lambda>d.
         bindS (updateStabilityDepositByOperation rnd ev d
             (if newAmount > e_amount d then ''depositTokens'' else ''withdrawTokens'') newAmount None) (\<lambda>d'.
         bindS (if newAmount = 0 then closeCurrentStabilityDepositOfOwner user else retS ()) (\<lambda>_.
           writeS (save_deposit d')))))"

definition withdrawCollateralGainFromStabilityDeposit :: "rounding \<Rightarrow> chain_event \<Rightarrow> string \<Rightarrow> nat \<Rightarrow> nat \<Rightarrow> unit indexer" where
  "withdrawCollateralGainFromStabilityDeposit rnd ev user gain loss =
     (if gain = 0 \<and> loss = 0 then retS ()
      else bindS (getCurrentStabilityDepositOfOwner user) (\<lambda>current.
        case current of
          None \<Rightarrow> liftS (Inl TypeError)
        | Some d \<Rightarrow>
            let newAmount = rnd (e_amount d - decimalizeBigInt rnd loss) in
            bindS (updateStabilityDepositByOperation rnd ev d ''withdrawCollateralGain'' newAmount
                (Some (decimalizeBigInt rnd gain))) (\<lambda>d'.
            bindS (if newAmount = 0 then closeCurrentStabilityDepositOfOwner user else retS ()) (\<lambda>_.
              writeS (save_deposit d')))))"

section \<open>Handlers\<close>

text \<open>The events with the parameters that the handlers use; the operation is the number of the contract's enumeration.\<close>

datatype protocol_event =
    BorrowerOperationsAddressChanged string
  | StabilityPoolAddressChanged string
  | CollSurplusPoolAddressChanged string
  | PriceFeedAddressChanged string
  | BorrowerVaultUpdated string nat nat nat nat
  | ManagerVaultUpdated string nat nat nat nat
  | VaultLiquidated string nat nat nat
  | LiquidationDone nat nat nat nat
  | RedemptionDone nat nat nat
  | UserDepositChanged string nat
  | RBTCGainWithdrawn string nat nat
  | CollBalanceUpdated string nat

definition create_template :: "string \<Rightarrow> string \<Rightarrow> unit indexer" where
  "create_template t a = writeS (\<lambda>st. st\<lparr>i_templates := i_templates st @ [(t, a)]\<rparr>)"

definition handleBorrowerVaultUpdated :: "rounding \<Rightarrow> chain_event \<Rightarrow> string \<Rightarrow> nat \<Rightarrow> nat \<Rightarrow> nat \<Rightarrow> nat \<Rightarrow> unit indexer" where
  "handleBorrowerVaultUpdated rnd ev borrower deb coll stake operation =
     bindS (liftS (ev_rewardSnapshots ev borrower)) (\<lambda>snapshots.
       updateVault rnd ev (getVaultOperationFromBorrowerOperation operation) borrower coll deb stake snapshots)"

definition handleVaultUpdated :: "rounding \<Rightarrow> chain_event \<Rightarrow> string \<Rightarrow> nat \<Rightarrow> nat \<Rightarrow> nat \<Rightarrow> nat \<Rightarrow> unit indexer" where
  "handleVaultUpdated rnd ev borrower deb coll stake operation =
     bindS (liftS (ev_rewardSnapshots ev borrower)) (\<lambda>snapshots.
       updateVault rnd ev (getVaultOperationFromVaultManagerOperation operation) borrower coll deb stake snapshots)"

definition handleVaultLiquidated :: "rounding \<Rightarrow> chain_event \<Rightarrow> string \<Rightarrow> nat \<Rightarrow> nat \<Rightarrow> nat \<Rightarrow> unit indexer" where
  "handleVaultLiquidated rnd ev borrower deb coll operation =
     bindS (updateVault rnd ev ''accrueRewards'' borrower coll deb 0 (0, 0)) (\<lambda>_.
       updateVault rnd ev (getVaultOperationFromVaultManagerOperation operation) borrower 0 0 0 (0, 0))"

definition handleLiquidation :: "rounding \<Rightarrow> chain_event \<Rightarrow> nat \<Rightarrow> nat \<Rightarrow> nat \<Rightarrow> nat \<Rightarrow> unit indexer" where
  "handleLiquidation rnd ev liquidatedDebt liquidatedColl collGas tokenGas =
     bindS (finishCurrentLiquidation rnd ev liquidatedColl liquidatedDebt collGas tokenGas) (\<lambda>_.
     bindS (liftS (ev_redistributed ev)) (\<lambda>(c, d). writeS (updateTotalRedistributed c d)))"

fun handle_event :: "rounding \<Rightarrow> chain_event \<Rightarrow> protocol_event \<Rightarrow> unit indexer" where
  "handle_event rnd ev (BorrowerOperationsAddressChanged a) = create_template ''BorrowerOperations'' a"
| "handle_event rnd ev (StabilityPoolAddressChanged a) = create_template ''StabilityPool'' a"
| "handle_event rnd ev (CollSurplusPoolAddressChanged a) = create_template ''CollSurplusPool'' a"
| "handle_event rnd ev (PriceFeedAddressChanged a) = writeS (updatePriceFeedAddress a)"
| "handle_event rnd ev (BorrowerVaultUpdated b deb coll stake operation) =
     handleBorrowerVaultUpdated rnd ev b deb coll stake operation"
| "handle_event rnd ev (ManagerVaultUpdated b deb coll stake operation) = handleVaultUpdated rnd ev b deb coll stake operation"
| "handle_event rnd ev (VaultLiquidated b deb coll operation) = handleVaultLiquidated rnd ev b deb coll operation"
| "handle_event rnd ev (LiquidationDone deb coll collGas tokenGas) = handleLiquidation rnd ev deb coll collGas tokenGas"
| "handle_event rnd ev (RedemptionDone attempted actual collSent) = finishCurrentRedemption rnd ev attempted actual collSent"
| "handle_event rnd ev (UserDepositChanged user amt) = updateStabilityDeposit rnd ev user amt"
| "handle_event rnd ev (RBTCGainWithdrawn user gain loss) = withdrawCollateralGainFromStabilityDeposit rnd ev user gain loss"
| "handle_event rnd ev (CollBalanceUpdated user surplus) = updateUserClaimColl rnd ev user surplus"

text \<open>The stores that arise from indexing events; an event whose handler throws stops the indexer.\<close>

inductive indexes :: "rounding \<Rightarrow> indexed \<Rightarrow> bool" for rnd where
  Indexes_start: "indexes rnd nothing_indexed"
| Indexes_event: "indexes rnd st \<Longrightarrow> handle_event rnd ev e st = Inr ((), st') \<Longrightarrow> indexes rnd st'"

end
