(* ===== verification/Subgraph_Trail.thy ===== *)
theory Subgraph_Trail
  imports Subgraph_Events
begin

text \<open>
  The audit trail of the indexer: every change is recorded once under its number, and the change with number \<open>n\<close> leads from
  system state \<open>n\<close> to system state \<open>n + 1\<close>. Proved with partial correctness hoares of the functions on the store.
\<close>

section \<open>Triples\<close>

definition hoare :: "(indexed \<Rightarrow> bool) \<Rightarrow> 'a indexer \<Rightarrow> ('a \<Rightarrow> indexed \<Rightarrow> bool) \<Rightarrow> bool" where
  "hoare P m Q \<longleftrightarrow> (\<forall>st x st'. P st \<longrightarrow> m st = Inr (x, st') \<longrightarrow> Q x st')"

lemma bindS_Inr: "bindS m f st = Inr (y, st'') \<longleftrightarrow> (\<exists>x st'. m st = Inr (x, st') \<and> f x st' = Inr (y, st''))"
  by (auto simp: bindS_def bindE_eq_Inr_iff)

lemma hoare_bindS: "hoare P m R \<Longrightarrow> (\<And>x. hoare (R x) (f x) Q) \<Longrightarrow> hoare P (bindS m f) Q"
  unfolding hoare_def bindS_Inr by blast

lemma hoare_retS: "(\<And>st. P st \<Longrightarrow> Q x st) \<Longrightarrow> hoare P (retS x) Q"
  by (simp add: hoare_def retS_def)

lemma hoare_writeS: "(\<And>st. P st \<Longrightarrow> Q () (f st)) \<Longrightarrow> hoare P (writeS f) Q"
  by (simp add: hoare_def writeS_def)

lemma hoare_readS: "(\<And>st. P st \<Longrightarrow> Q (f st) st) \<Longrightarrow> hoare P (readS f) Q"
  by (simp add: hoare_def readS_def)

lemma hoare_totalS: "(\<And>st x st'. P st \<Longrightarrow> f st = (x, st') \<Longrightarrow> Q x st') \<Longrightarrow> hoare P (totalS f) Q"
  by (simp add: hoare_def totalS_def)

lemma hoare_liftS: "(\<And>st x. P st \<Longrightarrow> r = Inr x \<Longrightarrow> Q x st) \<Longrightarrow> hoare P (liftS r) Q"
  by (auto simp: hoare_def liftS_def bindE_eq_Inr_iff)

lemma hoare_if: "(b \<Longrightarrow> hoare P m Q) \<Longrightarrow> (\<not> b \<Longrightarrow> hoare P m' Q) \<Longrightarrow> hoare P (if b then m else m') Q"
  by simp

lemma hoare_option:
  "(x = None \<Longrightarrow> hoare P m Q) \<Longrightarrow> (\<And>y. x = Some y \<Longrightarrow> hoare P (f y) Q) \<Longrightarrow>
    hoare P (case x of None \<Rightarrow> m | Some y \<Rightarrow> f y) Q"
  by (cases x) simp_all

lemma hoare_weaken: "hoare P m Q \<Longrightarrow> (\<And>st. P' st \<Longrightarrow> P st) \<Longrightarrow> (\<And>x st. Q x st \<Longrightarrow> Q' x st) \<Longrightarrow> hoare P' m Q'"
  unfolding hoare_def by blast

lemma hoareD: "hoare P m Q \<Longrightarrow> m st = Inr (x, st') \<Longrightarrow> P st \<Longrightarrow> Q x st'"
  unfolding hoare_def by blast

abbreviation keeps :: "(indexed \<Rightarrow> bool) \<Rightarrow> 'a indexer \<Rightarrow> bool" where
  "keeps P m \<equiv> hoare P m (\<lambda>_. P)"

lemmas hoare_rules = hoare_bindS hoare_retS hoare_writeS hoare_readS hoare_totalS hoare_liftS hoare_if hoare_option

text \<open>
  Functions whose every run relates the store before to the store after by a preorder, such as that of being equal in some
  tables. The lemmas carry the relation through the functions of the monad.
\<close>

locale store_preorder =
  fixes below :: "indexed \<Rightarrow> indexed \<Rightarrow> bool"
  assumes below_refl: "below st st"
    and below_trans: "below st st' \<Longrightarrow> below st' st'' \<Longrightarrow> below st st''"
begin

definition stays :: "'a indexer \<Rightarrow> bool" where
  "stays m \<longleftrightarrow> (\<forall>st x st'. m st = Inr (x, st') \<longrightarrow> below st st')"

lemma stays_bindS: "stays m \<Longrightarrow> (\<And>x. stays (f x)) \<Longrightarrow> stays (bindS m f)"
  unfolding stays_def bindS_Inr using below_trans by blast

lemma stays_basic: "stays (retS x)" "stays (readS f)" "stays (liftS r)"
  by (auto simp: stays_def retS_def readS_def liftS_def bindE_eq_Inr_iff below_refl)

lemma stays_writeS: "(\<And>st. below st (g st)) \<Longrightarrow> stays (writeS g)"
  by (simp add: stays_def writeS_def)

lemma stays_totalS: "(\<And>st x st'. f st = (x, st') \<Longrightarrow> below st st') \<Longrightarrow> stays (totalS f)"
  by (simp add: stays_def totalS_def)

lemma stays_if: "stays m \<Longrightarrow> stays m' \<Longrightarrow> stays (if b then m else m')"
  by simp

lemma stays_option: "stays m \<Longrightarrow> (\<And>y. stays (f y)) \<Longrightarrow> stays (case x of None \<Rightarrow> m | Some y \<Rightarrow> f y)"
  by (cases x) simp_all

lemma stays_prod: "(\<And>a b. stays (f a b)) \<Longrightarrow> stays (case x of (a, b) \<Rightarrow> f a b)"
  by (cases x) simp

lemmas stays_intros = stays_bindS stays_basic stays_if stays_option stays_prod

lemma stays_keeps:
  assumes "stays m" "\<And>st st'. below st st' \<Longrightarrow> P st \<Longrightarrow> P st'"
  shows "keeps P m"
  using assms unfolding stays_def hoare_def by blast

lemma staysD: "stays m \<Longrightarrow> m st = Inr (x, st') \<Longrightarrow> below st st'"
  unfolding stays_def by blast

end

section \<open>Stores\<close>

lemma nat_to_string_inject [simp]: "nat_to_string m = nat_to_string n \<longleftrightarrow> m = n"
  by (metis digits_value_nat_to_string)

lemma getGlobal_update [simp]: "getGlobal (update_global f st) = f (getGlobal st)"
  by (simp add: update_global_def getGlobal_def)

lemma getGlobal_frame [simp]:
  "getGlobal (st\<lparr>i_states := a\<rparr>) = getGlobal st" "getGlobal (st\<lparr>i_users := b\<rparr>) = getGlobal st"
  "getGlobal (st\<lparr>i_vaults := c\<rparr>) = getGlobal st" "getGlobal (st\<lparr>i_deposits := d\<rparr>) = getGlobal st"
  "getGlobal (st\<lparr>i_transactions := e\<rparr>) = getGlobal st" "getGlobal (st\<lparr>i_vaultChanges := f\<rparr>) = getGlobal st"
  "getGlobal (st\<lparr>i_depositChanges := g\<rparr>) = getGlobal st" "getGlobal (st\<lparr>i_priceChanges := h\<rparr>) = getGlobal st"
  "getGlobal (st\<lparr>i_surplusChanges := i\<rparr>) = getGlobal st" "getGlobal (st\<lparr>i_liquidations := j\<rparr>) = getGlobal st"
  "getGlobal (st\<lparr>i_redemptions := k\<rparr>) = getGlobal st" "getGlobal (st\<lparr>i_templates := l\<rparr>) = getGlobal st"
  by (simp_all add: getGlobal_def)

lemma update_global_frame [simp]:
  "i_states (update_global f st) = i_states st" "i_users (update_global f st) = i_users st"
  "i_vaults (update_global f st) = i_vaults st" "i_deposits (update_global f st) = i_deposits st"
  "i_transactions (update_global f st) = i_transactions st" "i_vaultChanges (update_global f st) = i_vaultChanges st"
  "i_depositChanges (update_global f st) = i_depositChanges st" "i_priceChanges (update_global f st) = i_priceChanges st"
  "i_surplusChanges (update_global f st) = i_surplusChanges st" "i_liquidations (update_global f st) = i_liquidations st"
  "i_redemptions (update_global f st) = i_redemptions st"
  by (simp_all add: update_global_def)

section \<open>The trail\<close>

datatype recorded_change =
    RecordedVault vault_change_entity
  | RecordedDeposit deposit_change_entity
  | RecordedPrice price_change_entity
  | RecordedSurplus surplus_change_entity

fun header_of :: "recorded_change \<Rightarrow> change_header" where
  "header_of (RecordedVault c) = vc_header c"
| "header_of (RecordedDeposit c) = dc_header c"
| "header_of (RecordedPrice c) = pc_header c"
| "header_of (RecordedSurplus c) = sc_header c"

definition changes_at :: "indexed \<Rightarrow> string \<Rightarrow> recorded_change set" where
  "changes_at st k = RecordedVault ` set_option (i_vaultChanges st k) \<union> RecordedDeposit ` set_option (i_depositChanges st k) \<union>
     RecordedPrice ` set_option (i_priceChanges st k) \<union> RecordedSurplus ` set_option (i_surplusChanges st k)"

text \<open>The system state that a change leads to; its identity is that of the new state.\<close>

fun leads :: "rounding \<Rightarrow> recorded_change \<Rightarrow> system_state \<Rightarrow> system_state \<Rightarrow> bool" where
  "leads rnd (RecordedVault c) s s' \<longleftrightarrow>
     (\<exists>t. totals_after_vault_change rnd c s = Inr t \<and> s' = t\<lparr>y_id := y_id s', y_seq := y_seq s'\<rparr>)"
| "leads rnd (RecordedDeposit c) s s' \<longleftrightarrow> s' = (totals_after_deposit_change rnd c s)\<lparr>y_id := y_id s', y_seq := y_seq s'\<rparr>"
| "leads rnd (RecordedPrice c) s s' \<longleftrightarrow>
     s' = s\<lparr>y_id := y_id s', y_seq := y_seq s', y_price := y_price s'\<rparr> \<and> pc_change c = rnd (y_price s' - y_price s)"
| "leads rnd (RecordedSurplus c) s s' \<longleftrightarrow> s' = (totals_after_surplus_change rnd c s)\<lparr>y_id := y_id s', y_seq := y_seq s'\<rparr>"

definition linked :: "rounding \<Rightarrow> indexed \<Rightarrow> nat \<Rightarrow> recorded_change \<Rightarrow> bool" where
  "linked rnd st n c \<longleftrightarrow> h_seq (header_of c) = n \<and> i_transactions st (h_transaction (header_of c)) \<noteq> None \<and>
     h_before (header_of c) = nat_to_string n \<and> h_after (header_of c) = nat_to_string (Suc n) \<and>
     (\<exists>s s'. i_states st (nat_to_string n) = Some s \<and> i_states st (nat_to_string (Suc n)) = Some s' \<and> leads rnd c s s')"

text \<open>The first \<open>c\<close> changes are changes_at and linked, and \<open>s\<close> system states are stored, the last of them current.\<close>

definition trail :: "rounding \<Rightarrow> nat \<Rightarrow> nat \<Rightarrow> indexed \<Rightarrow> bool" where
  "trail rnd c s st \<longleftrightarrow> (c = 0 \<or> c < s) \<and>
     (\<forall>n < c. \<exists>x. changes_at st (nat_to_string n) = {x} \<and> linked rnd st n x) \<and>
     (\<forall>k. changes_at st k \<noteq> {} \<longrightarrow> k \<in> nat_to_string ` {..<c}) \<and>
     g_stateCount (getGlobal st) = s \<and>
     (\<forall>n < s. \<exists>y. i_states st (nat_to_string n) = Some y \<and> y_id y = nat_to_string n \<and> y_seq y = n) \<and>
     g_currentState (getGlobal st) = (if s = 0 then None else Some (nat_to_string (s - 1))) \<and>
     (\<forall>k t. i_transactions st k = Some t \<longrightarrow> t_id t = k)"

definition changes_made :: "indexed \<Rightarrow> nat" where
  "changes_made st = g_changeCount (getGlobal st)"

definition audited :: "rounding \<Rightarrow> indexed \<Rightarrow> bool" where
  "audited rnd st \<longleftrightarrow> (\<exists>s. trail rnd (changes_made st) s st \<and> (s = Suc (changes_made st) \<or> s = 0 \<and> changes_made st = 0))"

text \<open>A change that was begun for an event and is not changes_at yet.\<close>

definition pending :: "rounding \<Rightarrow> chain_event \<Rightarrow> change_header \<Rightarrow> indexed \<Rightarrow> bool" where
  "pending rnd ev h st \<longleftrightarrow> changes_made st = Suc (h_seq h) \<and> trail rnd (h_seq h) (Suc (h_seq h)) st \<and>
     h_transaction h = ev_hash ev \<and> i_transactions st (ev_hash ev) \<noteq> None \<and> h_before h = nat_to_string (h_seq h)"

text \<open>What the trail depends on.\<close>

definition same_trail :: "indexed \<Rightarrow> indexed \<Rightarrow> bool" where
  "same_trail st st' \<longleftrightarrow> i_vaultChanges st' = i_vaultChanges st \<and> i_depositChanges st' = i_depositChanges st \<and>
     i_priceChanges st' = i_priceChanges st \<and> i_surplusChanges st' = i_surplusChanges st \<and> i_states st' = i_states st \<and>
     i_transactions st' = i_transactions st \<and> g_stateCount (getGlobal st') = g_stateCount (getGlobal st) \<and>
     g_currentState (getGlobal st') = g_currentState (getGlobal st)"

lemma trail_frame: "same_trail st st' \<Longrightarrow> trail rnd c s st' = trail rnd c s st"
  by (simp add: same_trail_def trail_def changes_at_def linked_def)

definition same_changes :: "indexed \<Rightarrow> indexed \<Rightarrow> bool" where
  "same_changes st st' \<longleftrightarrow> same_trail st st' \<and> changes_made st' = changes_made st"

lemma frame:
  assumes "same_changes st st'"
  shows "audited rnd st' = audited rnd st" "pending rnd ev h st' = pending rnd ev h st"
proof -
  have "i_transactions st' = i_transactions st" using assms by (simp add: same_changes_def same_trail_def)
  then show "audited rnd st' = audited rnd st" "pending rnd ev h st' = pending rnd ev h st"
    using assms trail_frame by (auto simp: same_changes_def audited_def pending_def)
qed

lemma recorded_frame:
  "i_vaultChanges st' = i_vaultChanges st \<Longrightarrow> i_depositChanges st' = i_depositChanges st \<Longrightarrow>
   i_priceChanges st' = i_priceChanges st \<Longrightarrow> i_surplusChanges st' = i_surplusChanges st \<Longrightarrow> changes_at st' = changes_at st"
  by (simp add: changes_at_def fun_eq_iff)

lemma linked_mono:
  assumes "linked rnd st n c" "i_states st \<subseteq>\<^sub>m i_states st'" "i_transactions st \<subseteq>\<^sub>m i_transactions st'"
  shows "linked rnd st' n c"
  using assms unfolding linked_def map_le_def by (metis domI domIff)

lemma trail_current:
  assumes "trail rnd c (Suc s) st"
  obtains y where "getCurrentSystemState st = (y, st)" "i_states st (nat_to_string s) = Some y" "y_id y = nat_to_string s"
proof -
  have "g_currentState (getGlobal st) = Some (nat_to_string s)" using assms by (simp add: trail_def)
  moreover obtain y where "i_states st (nat_to_string s) = Some y" "y_id y = nat_to_string s"
    using assms by (auto simp: trail_def)
  ultimately show ?thesis using that by (simp add: getCurrentSystemState_def)
qed

lemma trail_first:
  assumes "trail rnd c 0 st" "getCurrentSystemState st = (y, st')" "\<And>k. changes_at st k = {}"
  shows "trail rnd c (Suc 0) st'" "y_id y = nat_to_string 0" "changes_made st' = changes_made st"
    "i_transactions st' = i_transactions st"
proof -
  have st': "st' = set_current_state y (snd (getSystemStateSequenceNumber st))" "y_id y = nat_to_string 0" "y_seq y = 0"
    using assms(1,2) by (auto simp: trail_def getCurrentSystemState_def getSystemStateSequenceNumber_def increaseCounter_def
        Let_def)
  moreover have "changes_at st' = changes_at st"
    by (rule recorded_frame) (simp_all add: st' set_current_state_def getSystemStateSequenceNumber_def increaseCounter_def)
  ultimately show "trail rnd c (Suc 0) st'" "y_id y = nat_to_string 0" "changes_made st' = changes_made st"
    "i_transactions st' = i_transactions st"
    using assms(1,3)
    by (auto simp: trail_def set_current_state_def getSystemStateSequenceNumber_def increaseCounter_def changes_made_def)
qed

section \<open>Recording a change\<close>

text \<open>After the new state is stored, the next state is current and the old one is kept.\<close>

lemma trail_bump:
  assumes "trail rnd c (Suc s) st"
  shows "trail rnd c (Suc (Suc s)) (bumpSystemState y st)"
    "i_states (bumpSystemState y st) (nat_to_string (Suc s)) = Some (y\<lparr>y_id := nat_to_string (Suc s), y_seq := Suc s\<rparr>)"
    "i_states (bumpSystemState y st) (nat_to_string s) = i_states st (nat_to_string s)"
    "changes_made (bumpSystemState y st) = changes_made st"
    "i_transactions (bumpSystemState y st) = i_transactions st"
proof -
  let ?st = "bumpSystemState y st"
  have count: "g_stateCount (getGlobal st) = Suc s" using assms by (simp add: trail_def)
  then have st: "?st = set_current_state (y\<lparr>y_id := nat_to_string (Suc s), y_seq := Suc s\<rparr>) (update_global (g_stateCount_update Suc) st)"
    by (simp add: bumpSystemState_def getSystemStateSequenceNumber_def increaseCounter_def)
  have states: "i_states ?st = (i_states st)(nat_to_string (Suc s) \<mapsto> y\<lparr>y_id := nat_to_string (Suc s), y_seq := Suc s\<rparr>)"
    by (simp add: st set_current_state_def)
  have rec: "changes_at ?st = changes_at st" by (rule recorded_frame) (simp_all add: st set_current_state_def)
  show "changes_made ?st = changes_made st" "i_transactions ?st = i_transactions st"
    by (simp_all add: st set_current_state_def changes_made_def)
  show "i_states ?st (nat_to_string (Suc s)) = Some (y\<lparr>y_id := nat_to_string (Suc s), y_seq := Suc s\<rparr>)"
    "i_states ?st (nat_to_string s) = i_states st (nat_to_string s)" by (simp_all add: states)
  have old: "i_states ?st (nat_to_string n) = i_states st (nat_to_string n)" if "n \<le> s" for n
    using that by (simp add: states)
  have link: "linked rnd ?st n x" if "linked rnd st n x" "n < c" for n x
    using that assms old [of n] old [of "Suc n"]
    by (simp add: linked_def trail_def \<open>i_transactions ?st = i_transactions st\<close>)
  have "g_stateCount (getGlobal ?st) = Suc (Suc s)" "g_currentState (getGlobal ?st) = Some (nat_to_string (Suc s))"
    by (simp_all add: st set_current_state_def count)
  moreover have "\<exists>y. i_states ?st (nat_to_string n) = Some y \<and> y_id y = nat_to_string n \<and> y_seq y = n"
    if "n < Suc (Suc s)" for n
    using that assms by (cases "n = Suc s") (simp_all add: states trail_def)
  moreover have "\<exists>x. changes_at ?st (nat_to_string n) = {x} \<and> linked rnd ?st n x" if "n < c" for n
    using that assms link by (fastforce simp: rec trail_def)
  ultimately show "trail rnd c (Suc (Suc s)) ?st"
    using assms by (auto simp: trail_def rec \<open>i_transactions ?st = i_transactions st\<close>)
qed

lemma trail_save:
  assumes "trail rnd c (Suc (Suc c)) st" "\<And>k. changes_at st' k = (if k = nat_to_string c then {x} else changes_at st k)"
    "i_states st' = i_states st" "i_transactions st' = i_transactions st" "getGlobal st' = getGlobal st" "linked rnd st c x"
  shows "trail rnd (Suc c) (Suc (Suc c)) st'"
proof -
  have link: "linked rnd st' n y = linked rnd st n y" for n y by (simp add: linked_def assms(3,4))
  have "\<exists>y. changes_at st' (nat_to_string n) = {y} \<and> linked rnd st' n y" if "n < Suc c" for n
    using that assms(1,6) by (cases "n = c") (simp_all add: assms(2) link trail_def)
  moreover have "k \<in> nat_to_string ` {..<Suc c}" if "changes_at st' k \<noteq> {}" for k
    using that assms(1) by (cases "k = nat_to_string c") (auto simp: assms(2) trail_def lessThan_Suc)
  ultimately show ?thesis using assms(1) by (simp add: trail_def assms(3-5))
qed

lemma recorded_fresh: "trail rnd c s st \<Longrightarrow> changes_at st (nat_to_string c) = {}"
  by (auto simp: trail_def)

lemma recorded_empty:
  "changes_at st k = {} \<longleftrightarrow> i_vaultChanges st k = None \<and> i_depositChanges st k = None \<and> i_priceChanges st k = None \<and>
     i_surplusChanges st k = None"
  by (auto simp: changes_at_def)

text \<open>One change is changes_at: the state is bumped, the change is finished and saved.\<close>

lemma recorded_saved:
  assumes "pending rnd ev h st" "getCurrentSystemState st = (y, st)"
    and "finishChange h (bumpSystemState y' st) = Inr (h', st2)"
    and "\<And>k. changes_at st2 (nat_to_string (h_seq h')) = {} \<Longrightarrow>
      changes_at st3 k = (if k = nat_to_string (h_seq h') then {x} else changes_at st2 k)"
    and "i_states st3 = i_states st2" "i_transactions st3 = i_transactions st2" "getGlobal st3 = getGlobal st2"
    and "header_of x = h'" "\<And>z. z = y'\<lparr>y_id := y_id z, y_seq := y_seq z\<rparr> \<Longrightarrow> leads rnd x y z"
  shows "audited rnd st3" "h' = h\<lparr>h_after := nat_to_string (Suc (h_seq h))\<rparr>" "i_transactions st3 = i_transactions st"
proof -
  let ?c = "h_seq h"
  have p: "trail rnd ?c (Suc ?c) st" "changes_made st = Suc ?c" "i_transactions st (h_transaction h) \<noteq> None"
    "h_before h = nat_to_string ?c" using assms(1) by (simp_all add: pending_def)
  note bump = trail_bump [OF p(1), of y']
  obtain z where z: "getCurrentSystemState (bumpSystemState y' st) = (z, bumpSystemState y' st)"
    "i_states (bumpSystemState y' st) (nat_to_string (Suc ?c)) = Some z" "y_id z = nat_to_string (Suc ?c)"
    by (rule trail_current [OF bump(1)])
  then have h': "h' = h\<lparr>h_after := nat_to_string (Suc ?c)\<rparr>" "st2 = bumpSystemState y' st"
    using assms(3) by (auto simp: finishChange_def bindS_def totalS_def retS_def)
  obtain y0 where y: "getCurrentSystemState st = (y0, st)" "i_states st (nat_to_string ?c) = Some y0"
    by (rule trail_current [OF p(1)])
  have zz: "z = y'\<lparr>y_id := nat_to_string (Suc ?c), y_seq := Suc ?c\<rparr>" using z(2) bump(2) by simp
  have "leads rnd x y z" by (rule assms(9)) (simp add: zz)
  then have link: "linked rnd st2 ?c x"
    using z(2) y(2) y(1) assms(2,8) p(3,4) bump(3,5) by (simp add: linked_def h')
  have "changes_at st2 (nat_to_string ?c) = {}" using recorded_fresh [OF bump(1)] h' by simp
  then have "changes_at st3 k = (if k = nat_to_string ?c then {x} else changes_at st2 k)" for k
    using assms(4) [of k] h'(1) by simp
  from trail_save [OF _ this assms(5-7) link] bump(1) h'(2) have "trail rnd (Suc ?c) (Suc (Suc ?c)) st3" by simp
  moreover have "changes_made st3 = Suc ?c" using p(2) bump(4) assms(7) h'(2) by (simp add: changes_made_def)
  ultimately show "audited rnd st3" by (simp add: audited_def)
  show "h' = h\<lparr>h_after := nat_to_string (Suc ?c)\<rparr>" by (fact h'(1))
  show "i_transactions st3 = i_transactions st" using assms(6) h'(2) bump(5) by simp
qed

section \<open>Transactions and prices\<close>

text \<open>What the functions that ask for the transaction rely on.\<close>

definition gives_transaction :: "rounding \<Rightarrow> chain_event \<Rightarrow> transaction_entity indexer \<Rightarrow> bool" where
  "gives_transaction rnd ev get \<longleftrightarrow>
     (\<forall>st t. i_transactions st (ev_hash ev) = Some t \<longrightarrow> get st = Inr (t, st)) \<and>
     hoare (audited rnd) get (\<lambda>t st. audited rnd st \<and> i_transactions st (ev_hash ev) = Some t)"

lemma audited_transaction_id: "audited rnd st \<Longrightarrow> i_transactions st k = Some t \<Longrightarrow> t_id t = k"
  by (auto simp: audited_def trail_def)

lemma loadTransaction_gives: "gives_transaction rnd ev (loadTransaction ev)"
  by (auto simp: gives_transaction_def hoare_def loadTransaction_def split: option.splits)

lemma trail_current_any:
  assumes "trail rnd c s st" "s = Suc c \<or> s = 0 \<and> c = 0" "getCurrentSystemState st = (y, st')"
  shows "trail rnd c (Suc c) st' \<and> y_id y = nat_to_string c \<and> changes_made st' = changes_made st \<and>
    i_transactions st' = i_transactions st"
proof (cases "s = 0")
  case True
  with assms have c: "c = 0" "\<And>k. changes_at st k = {}" by (auto simp: trail_def)
  with True assms trail_first [of rnd 0 st y st'] show ?thesis by simp
next
  case False
  with assms trail_current [of rnd c c st] show ?thesis by force
qed

lemma audited_current:
  assumes "audited rnd st" "getCurrentSystemState st = (y, st')"
  shows "audited rnd st'" "i_transactions st' = i_transactions st"
proof -
  obtain s where "trail rnd (changes_made st) s st" "s = Suc (changes_made st) \<or> s = 0 \<and> changes_made st = 0"
    using assms(1) by (auto simp: audited_def)
  from trail_current_any [OF this assms(2)] show "audited rnd st'" "i_transactions st' = i_transactions st"
    by (auto simp: audited_def)
qed

lemma createChange_pending:
  assumes "gives_transaction rnd ev get"
  shows "hoare (audited rnd) (createChange get) (pending rnd ev)"
  unfolding hoare_def
proof (intro allI impI)
  fix st h st'
  assume c: "audited rnd st" and run: "createChange get st = Inr (h, st')"
  then obtain t st1 n st2 where t: "get st = Inr (t, st1)" and n: "getChangeSequenceNumber st1 = (n, st2)"
    and init: "initChange get n st2 = Inr (h, st')"
    by (auto simp: createChange_def beginChange_def bindS_Inr totalS_def)
  have 1: "audited rnd st1" "i_transactions st1 (ev_hash ev) = Some t"
    using assms c t unfolding gives_transaction_def hoare_def by blast+
  have n': "n = changes_made st1" "changes_made st2 = Suc n" "same_trail st1 st2" "i_transactions st2 = i_transactions st1"
    using n by (auto simp: getChangeSequenceNumber_def increaseCounter_def changes_made_def same_trail_def)
  have "get st2 = Inr (t, st2)" using assms 1(2) n'(4) by (simp add: gives_transaction_def)
  with init obtain y where y: "getCurrentSystemState st2 = (y, st')"
    "h = \<lparr>h_seq = n, h_transaction = t_id t, h_before = y_id y, h_after = []\<rparr>"
    by (auto simp: initChange_def bindS_Inr totalS_def retS_def)
  obtain s where "trail rnd n s st2" "s = Suc n \<or> s = 0 \<and> n = 0"
    using 1(1) n' trail_frame by (auto simp: audited_def)
  from trail_current_any [OF this y(1)] show "pending rnd ev h st'"
    using n' 1 audited_transaction_id [OF 1] y(2) by (simp add: pending_def)
qed

lemma pending_current:
  assumes "pending rnd ev h st"
  obtains y where "getCurrentSystemState st = (y, st)" "i_states st (nat_to_string (h_seq h)) = Some y"
  using assms trail_current [of rnd "h_seq h" "h_seq h" st] by (auto simp: pending_def)

text \<open>The current state stays current while nothing is bumped.\<close>

lemma current_again: "getCurrentSystemState st = (y, st') \<Longrightarrow> getCurrentSystemState st' = (y, st')"
  by (auto simp: getCurrentSystemState_def set_current_state_def Let_def split: option.splits prod.splits)

lemma current_frame:
  assumes "same_trail st st'" "getCurrentSystemState st = (y, st)"
  shows "getCurrentSystemState st' = (y, st')"
proof (cases "Option.bind (g_currentState (getGlobal st)) (i_states st)")
  case None
  with assms(2) have "st = set_current_state y (snd (getSystemStateSequenceNumber st))"
    by (auto simp: getCurrentSystemState_def Let_def split: prod.splits)
  then have "i_states st (y_id y) = Some y \<and> g_currentState (getGlobal st) = Some (y_id y)"
    by (metis (no_types, lifting) fun_upd_same getGlobal_update global_entity.select_convs(14) global_entity.surjective
        global_entity.update_convs(14) indexed.select_convs(2) indexed.surjective indexed.update_convs(2)
        set_current_state_def update_global_frame(1))
  with None show ?thesis by simp
next
  case (Some z)
  with assms show ?thesis by (simp add: getCurrentSystemState_def same_trail_def)
qed

lemma createChange_present:
  assumes "gives_transaction rnd ev get" "i_transactions st (ev_hash ev) = Some t" "getCurrentSystemState st = (y, st)"
    and "createChange get st = Inr (h, st')"
  shows "getCurrentSystemState st' = (y, st')" "i_transactions st' = i_transactions st"
proof -
  let ?st = "update_global (g_changeCount_update Suc) st"
  have "get st = Inr (t, st)" "get ?st = Inr (t, ?st)" using assms(1,2) by (simp_all add: gives_transaction_def)
  moreover have c: "getCurrentSystemState ?st = (y, ?st)"
    by (rule current_frame [OF _ assms(3)]) (simp add: same_trail_def)
  ultimately have "st' = ?st" using assms(4)
    by (simp add: createChange_def beginChange_def initChange_def bindS_def totalS_def retS_def getChangeSequenceNumber_def
        increaseCounter_def)
  with c show "getCurrentSystemState st' = (y, st')" "i_transactions st' = i_transactions st" by simp_all
qed

lemma price_leads:
  assumes "z = y\<lparr>y_price := p, y_id := y_id z, y_seq := y_seq z\<rparr>"
  shows "leads rnd (RecordedPrice \<lparr>pc_header = h, pc_change = rnd (p - y_price y)\<rparr>) y z"
  using assms by (cases y; cases z) simp

lemma checkPrice_audited:
  assumes "gives_transaction rnd ev get"
  shows "hoare (\<lambda>st. audited rnd st \<and> i_transactions st (ev_hash ev) = Some t) (checkPrice rnd ev get)
    (\<lambda>_ st. audited rnd st \<and> i_transactions st (ev_hash ev) = Some t)"
  unfolding hoare_def
proof (intro allI impI; elim conjE)
  fix st u st'
  assume c: "audited rnd st" and tx: "i_transactions st (ev_hash ev) = Some t" and run: "checkPrice rnd ev get st = Inr (u, st')"
  obtain y st1 where y: "getCurrentSystemState st = (y, st1)" by fastforce
  have 1: "audited rnd st1" "i_transactions st1 = i_transactions st" "getCurrentSystemState st1 = (y, st1)"
    using audited_current [OF c y] current_again [OF y] by simp_all
  from run y obtain p where p: "(if p = y_price y then retS ()
       else bindS (createChange get) (\<lambda>h.
         bindS (writeS (bumpSystemState (y\<lparr>y_price := p\<rparr>))) (\<lambda>_.
         bindS (finishChange h) (\<lambda>h'.
           writeS (save_price_change \<lparr>pc_header = h', pc_change = rnd (p - y_price y)\<rparr>))))) st1 = Inr (u, st')"
    by (auto simp: checkPrice_def bindS_Inr totalS_def readS_def liftS_def bindE_eq_Inr_iff Let_def)
  show "audited rnd st' \<and> i_transactions st' (ev_hash ev) = Some t"
  proof (cases "p = y_price y")
    case True
    with p 1 tx show ?thesis by (simp add: retS_def)
  next
    case False
    with p obtain h st2 h' st3 where h: "createChange get st1 = Inr (h, st2)"
      and fin: "finishChange h (bumpSystemState (y\<lparr>y_price := p\<rparr>) st2) = Inr (h', st3)"
      and st': "st' = save_price_change \<lparr>pc_header = h', pc_change = rnd (p - y_price y)\<rparr> st3"
      by (auto simp: bindS_Inr writeS_def)
    note pend = hoareD [OF createChange_pending [OF assms] h 1(1)]
    have tx1: "i_transactions st1 (ev_hash ev) = Some t" using tx 1(2) by simp
    note present = createChange_present [OF assms tx1 1(3) h]
    have fresh: "changes_at st3 (nat_to_string (h_seq h')) = {} \<Longrightarrow> changes_at st' k = (if k = nat_to_string (h_seq h')
        then {RecordedPrice \<lparr>pc_header = h', pc_change = rnd (p - y_price y)\<rparr>} else changes_at st3 k)" for k
      by (simp add: st' save_price_change_def recorded_empty) (simp add: changes_at_def)
    note saved = recorded_saved [OF pend present(1) fin fresh, OF _ _ _ _ _ price_leads]
    show ?thesis using saved tx1 present(2) by (simp add: st' save_price_change_def)
  qed
qed

lemma new_transaction_audited:
  assumes "audited rnd st" "i_transactions st (ev_hash ev) = None" "new_transaction ev st = (t, st')"
  shows "audited rnd st'" "i_transactions st' (ev_hash ev) = Some t"
proof -
  have st': "st' = (update_global (g_transactionCount_update Suc) st)\<lparr>i_transactions := (i_transactions st)(ev_hash ev \<mapsto> t)\<rparr>"
    "t_id t = ev_hash ev"
    using assms(3) by (auto simp: new_transaction_def getTransactionSequenceNumber_def increaseCounter_def Let_def)
  show "i_transactions st' (ev_hash ev) = Some t" by (simp add: st')
  have rec: "changes_at st' = changes_at st" by (rule recorded_frame) (simp_all add: st')
  have mono: "i_states st \<subseteq>\<^sub>m i_states st'" "i_transactions st \<subseteq>\<^sub>m i_transactions st'"
    using assms(2) by (auto simp: st' map_le_def)
  have "trail rnd c s st'" if "trail rnd c s st" for c s
    using that linked_mono [OF _ mono] st'(2) unfolding trail_def rec
    by (simp add: st'(1)) blast
  with assms(1) show "audited rnd st'" by (auto simp: audited_def changes_made_def st'(1))
qed

lemma getTransaction_gives: "gives_transaction rnd ev (getTransaction rnd ev)"
proof -
  have "audited rnd st' \<and> i_transactions st' (ev_hash ev) = Some t"
    if c: "audited rnd st" and run: "getTransaction rnd ev st = Inr (t, st')" for st t st'
  proof (cases "i_transactions st (ev_hash ev)")
    case (Some t')
    with run c show ?thesis by (simp add: getTransaction_def)
  next
    case None
    with run obtain st1 u where new: "new_transaction ev st = (t, st1)"
      and price: "checkPrice rnd ev (loadTransaction ev) st1 = Inr (u, st')"
      by (auto simp: getTransaction_def bindS_Inr totalS_def retS_def)
    note 1 = new_transaction_audited [OF c None new]
    from hoareD [OF checkPrice_audited [OF loadTransaction_gives] price] 1 show ?thesis by simp
  qed
  then have "hoare (audited rnd) (getTransaction rnd ev) (\<lambda>t st. audited rnd st \<and> i_transactions st (ev_hash ev) = Some t)"
    unfolding hoare_def by blast
  moreover have "getTransaction rnd ev st = Inr (t, st)" if "i_transactions st (ev_hash ev) = Some t" for st t
    using that by (simp add: getTransaction_def)
  ultimately show ?thesis by (simp only: gives_transaction_def) blast
qed

text \<open>The recursion of the code: a change of the price asks for the transaction that is being created.\<close>

lemma createChange_load:
  assumes "i_transactions st (ev_hash ev) = Some t"
  shows "createChange (loadTransaction ev) st = createChange (getTransaction rnd ev) st"
  using assms
  by (simp add: createChange_def beginChange_def initChange_def bindS_def loadTransaction_def getTransaction_def totalS_def
      getChangeSequenceNumber_def increaseCounter_def)

lemma getCurrentSystemState_transactions:
  "getCurrentSystemState st = (y, st') \<Longrightarrow> i_transactions st' = i_transactions st"
  by (auto simp: getCurrentSystemState_def set_current_state_def getSystemStateSequenceNumber_def increaseCounter_def Let_def
      split: option.splits)

lemma getTransaction_recursive:
  "getTransaction rnd ev st =
     (case i_transactions st (ev_hash ev) of
        Some t \<Rightarrow> Inr (t, st)
      | None \<Rightarrow> bindS (totalS (new_transaction ev)) (\<lambda>t. bindS (checkPrice rnd ev (getTransaction rnd ev)) (\<lambda>_. retS t)) st)"
proof (cases "i_transactions st (ev_hash ev)")
  case None
  obtain t st1 where new: "new_transaction ev st = (t, st1)" by fastforce
  obtain y st2 where y: "getCurrentSystemState st1 = (y, st2)" by fastforce
  have "i_transactions st2 (ev_hash ev) = Some t"
    using new getCurrentSystemState_transactions [OF y]
    by (auto simp: new_transaction_def Let_def split: prod.splits)
  note same = createChange_load [OF this, of rnd]
  have "checkPrice rnd ev (loadTransaction ev) st1 = checkPrice rnd ev (getTransaction rnd ev) st1"
    by (simp add: checkPrice_def bindS_def totalS_def y readS_def liftS_def Let_def same bindE_case split: sum.split)
  with None new show ?thesis by (simp add: getTransaction_def [of rnd ev st] bindS_def totalS_def)
qed (simp add: getTransaction_def)

section \<open>The handlers\<close>

lemma same_changesI:
  assumes "i_vaultChanges st' = i_vaultChanges st" "i_depositChanges st' = i_depositChanges st"
    "i_priceChanges st' = i_priceChanges st" "i_surplusChanges st' = i_surplusChanges st" "i_states st' = i_states st"
    "i_transactions st' = i_transactions st" "g_stateCount (getGlobal st') = g_stateCount (getGlobal st)"
    "g_currentState (getGlobal st') = g_currentState (getGlobal st)" "g_changeCount (getGlobal st') = g_changeCount (getGlobal st)"
  shows "same_changes st st'"
  using assms by (simp add: same_changes_def same_trail_def changes_made_def)

lemma getUser_frame: "getUser a st = (u, st') \<Longrightarrow> same_changes st st'"
  by (auto simp: getUser_def save_user_def split: option.splits intro!: same_changesI)

interpretation changes: store_preorder same_changes
  by unfold_locales (simp_all add: same_changes_def same_trail_def)

lemma framed_write:
  "same_changes st (save_user u st)" "same_changes st (save_vault v st)" "same_changes st (save_deposit d st)"
  "same_changes st (increaseNumberOfOpenVaults st)" "same_changes st (increaseNumberOfLiquidatedVaults st)"
  "same_changes st (increaseNumberOfRedeemedVaults st)" "same_changes st (increaseNumberOfVaultsClosedByOwner st)"
  "same_changes st (updatePriceFeedAddress a st)" "same_changes st (updateTotalRedistributed m n st)"
  "same_changes st (st\<lparr>i_templates := ts\<rparr>)" "same_changes st (st\<lparr>i_liquidations := ls\<rparr>)"
  "same_changes st (st\<lparr>i_redemptions := rs\<rparr>)"
  "same_changes st (update_global (g_currentLiquidation_update f) st)"
  "same_changes st (update_global (g_currentRedemption_update f) st)"
  by (auto intro!: same_changesI simp: save_user_def save_vault_def save_deposit_def increaseNumberOfOpenVaults_def
      increaseNumberOfLiquidatedVaults_def increaseNumberOfRedeemedVaults_def increaseNumberOfVaultsClosedByOwner_def
      updatePriceFeedAddress_def updateTotalRedistributed_def)

lemma framed_keeps:
  assumes "changes.stays m"
  shows "keeps (audited rnd) m" "keeps (pending rnd ev h) m"
proof -
  show "keeps (audited rnd) m" by (rule changes.stays_keeps [OF assms]) (simp add: frame(1))
  show "keeps (pending rnd ev h) m" by (rule changes.stays_keeps [OF assms]) (simp add: frame(2))
qed

lemma keeps_bindS: "keeps P m \<Longrightarrow> (\<And>x. keeps P (f x)) \<Longrightarrow> keeps P (bindS m f)"
  by (rule hoare_bindS)

lemma bindS_retS [simp]: "bindS m retS = m"
  by (simp add: fun_eq_iff bindS_def retS_def bindE_case split: sum.split)

lemma bindS_lift_Inr [simp]: "bindS (liftS (Inr x)) f = f x"
  by (simp add: fun_eq_iff bindS_def liftS_def)

lemma getTransaction_keeps: "keeps (audited rnd) (getTransaction rnd ev)" "keeps (pending rnd ev h) (getTransaction rnd ev)"
proof -
  show "keeps (audited rnd) (getTransaction rnd ev)"
    using getTransaction_gives [of rnd ev] unfolding gives_transaction_def by (blast intro: hoare_weaken)
  show "keeps (pending rnd ev h) (getTransaction rnd ev)"
    by (auto simp: hoare_def getTransaction_def pending_def)
qed

lemma total_framed:
  "changes.stays (totalS (getUser a))"
  "changes.stays (totalS getLiquidationSequenceNumber)" "changes.stays (totalS getRedemptionSequenceNumber)"
  by (rule changes.stays_totalS, erule getUser_frame)
    (rule changes.stays_totalS, rule same_changesI,
      auto simp: getLiquidationSequenceNumber_def getRedemptionSequenceNumber_def increaseCounter_def)+

lemmas framed_steps = total_framed changes.stays_basic framed_write [THEN changes.stays_writeS]

lemma keeps_option: "keeps P m \<Longrightarrow> (\<And>y. keeps P (f y)) \<Longrightarrow> keeps P (case x of None \<Rightarrow> m | Some y \<Rightarrow> f y)"
  by (cases x) simp_all

lemma keeps_prod: "(\<And>a b. keeps P (f a b)) \<Longrightarrow> keeps P (case x of (a, b) \<Rightarrow> f a b)"
  by (cases x) simp

lemmas keeps_intros = keeps_bindS keeps_option keeps_prod hoare_if getTransaction_keeps
  framed_steps [THEN framed_keeps(1)] framed_steps [THEN framed_keeps(2)]

lemma getCurrentLiquidation_keeps:
  "keeps (audited rnd) (getCurrentLiquidation rnd ev)" "keeps (pending rnd ev h) (getCurrentLiquidation rnd ev)"
  unfolding getCurrentLiquidation_def Let_def by (intro keeps_intros)+

lemma getCurrentRedemption_keeps:
  "keeps (audited rnd) (getCurrentRedemption rnd ev)" "keeps (pending rnd ev h) (getCurrentRedemption rnd ev)"
  unfolding getCurrentRedemption_def Let_def by (intro keeps_intros)+

lemma getCurrentPrice_keeps: "keeps (pending rnd ev h) getCurrentPrice"
  unfolding hoare_def
proof (intro allI impI)
  fix st x st'
  assume p: "pending rnd ev h st" and run: "getCurrentPrice st = Inr (x, st')"
  obtain y where "getCurrentSystemState st = (y, st)" by (rule pending_current [OF p])
  with p run show "pending rnd ev h st'" by (simp add: getCurrentPrice_def bindS_def totalS_def retS_def)
qed

text \<open>Every update of the system state that is changes_at by a change goes through this lemma.\<close>

lemma recorded_by:
  assumes save: "\<And>h' st. getGlobal (save h' st) = getGlobal st \<and> i_states (save h' st) = i_states st \<and>
      i_transactions (save h' st) = i_transactions st"
    and rec: "\<And>h' st k. changes_at st (nat_to_string (h_seq h')) = {} \<Longrightarrow>
      changes_at (save h' st) k = (if k = nat_to_string (h_seq h') then {x h'} else changes_at st k)"
    and header: "\<And>h'. header_of (x h') = h'"
    and lead: "\<And>h' y y' z. f y = Inr y' \<Longrightarrow> z = y'\<lparr>y_id := y_id z, y_seq := y_seq z\<rparr> \<Longrightarrow> leads rnd (x h') y z"
    and rest: "\<And>u. keeps (audited rnd) (rest u)"
  shows "hoare (pending rnd ev h)
    (bindS (bindS (totalS getCurrentSystemState) (\<lambda>s. bindS (liftS (f s)) (\<lambda>s'. writeS (bumpSystemState s')))) (\<lambda>_.
     bindS (finishChange h) (\<lambda>h'. bindS (writeS (save h')) rest))) (\<lambda>_. audited rnd)"
  unfolding hoare_def
proof (intro allI impI)
  fix st u st'
  assume p: "pending rnd ev h st" and run: "bindS (bindS (totalS getCurrentSystemState)
      (\<lambda>s. bindS (liftS (f s)) (\<lambda>s'. writeS (bumpSystemState s')))) (\<lambda>_.
      bindS (finishChange h) (\<lambda>h'. bindS (writeS (save h')) rest)) st = Inr (u, st')"
  obtain y where y: "getCurrentSystemState st = (y, st)" by (rule pending_current [OF p])
  with run obtain y' h' st2 where y': "f y = Inr y'" and fin: "finishChange h (bumpSystemState y' st) = Inr (h', st2)"
    and last_step: "rest () (save h' st2) = Inr (u, st')"
    by (auto simp: bindS_Inr totalS_def liftS_def writeS_def bindE_eq_Inr_iff)
  have "audited rnd (save h' st2)"
    by (rule recorded_saved(1) [OF p y fin rec]) (use save header lead [OF y'] in auto)
  with last_step rest show "audited rnd st'" unfolding hoare_def by blast
qed

text \<open>The four kinds of changes.\<close>

lemma recorded_save:
  "changes_at st (nat_to_string (h_seq h)) = {} \<Longrightarrow> vc_header c = h \<Longrightarrow>
     changes_at (save_vault_change c st) k = (if k = nat_to_string (h_seq h) then {RecordedVault c} else changes_at st k)"
  "changes_at st (nat_to_string (h_seq h)) = {} \<Longrightarrow> dc_header d = h \<Longrightarrow>
     changes_at (save_deposit_change d st) k = (if k = nat_to_string (h_seq h) then {RecordedDeposit d} else changes_at st k)"
  "changes_at st (nat_to_string (h_seq h)) = {} \<Longrightarrow> sc_header e = h \<Longrightarrow>
     changes_at (save_surplus_change e st) k = (if k = nat_to_string (h_seq h) then {RecordedSurplus e} else changes_at st k)"
  by (simp_all add: save_vault_change_def save_deposit_change_def save_surplus_change_def recorded_empty)
    (simp_all add: changes_at_def)

lemma leads_recorded:
  "totals_after_vault_change rnd c y = Inr y' \<Longrightarrow> z = y'\<lparr>y_id := y_id z, y_seq := y_seq z\<rparr> \<Longrightarrow>
     leads rnd (RecordedVault (c\<lparr>vc_header := h\<rparr>)) y z"
  "Inr (totals_after_deposit_change rnd d y) = Inr y' \<Longrightarrow> z = y'\<lparr>y_id := y_id z, y_seq := y_seq z\<rparr> \<Longrightarrow>
     leads rnd (RecordedDeposit (d\<lparr>dc_header := h\<rparr>)) y z"
  "Inr (totals_after_surplus_change rnd e y) = Inr y' \<Longrightarrow> z = y'\<lparr>y_id := y_id z, y_seq := y_seq z\<rparr> \<Longrightarrow>
     leads rnd (RecordedSurplus (e\<lparr>sc_header := h\<rparr>)) y z"
proof -
  have "totals_after_vault_change rnd (c\<lparr>vc_header := h\<rparr>) y = totals_after_vault_change rnd c y"
    by (simp add: totals_after_vault_change_def cong: if_cong)
  then show "totals_after_vault_change rnd c y = Inr y' \<Longrightarrow> z = y'\<lparr>y_id := y_id z, y_seq := y_seq z\<rparr> \<Longrightarrow>
     leads rnd (RecordedVault (c\<lparr>vc_header := h\<rparr>)) y z" by (auto simp only: leads.simps)
  have "totals_after_deposit_change rnd (d\<lparr>dc_header := h\<rparr>) y = totals_after_deposit_change rnd d y"
    by (simp add: totals_after_deposit_change_def)
  then show "Inr (totals_after_deposit_change rnd d y) = Inr y' \<Longrightarrow> z = y'\<lparr>y_id := y_id z, y_seq := y_seq z\<rparr> \<Longrightarrow>
     leads rnd (RecordedDeposit (d\<lparr>dc_header := h\<rparr>)) y z" by (simp only: leads.simps sum.inject)
  have "totals_after_surplus_change rnd (e\<lparr>sc_header := h\<rparr>) y = totals_after_surplus_change rnd e y"
    by (simp add: totals_after_surplus_change_def)
  then show "Inr (totals_after_surplus_change rnd e y) = Inr y' \<Longrightarrow> z = y'\<lparr>y_id := y_id z, y_seq := y_seq z\<rparr> \<Longrightarrow>
     leads rnd (RecordedSurplus (e\<lparr>sc_header := h\<rparr>)) y z" by (simp only: leads.simps sum.inject)
qed

lemma vault_change_recorded:
  assumes "\<And>u. keeps (audited rnd) (rest u)"
  shows "hoare (pending rnd ev h) (bindS (updateSystemStateByVaultChange rnd c) (\<lambda>_. bindS (finishChange h) (\<lambda>h'.
      bindS (writeS (save_vault_change (c\<lparr>vc_header := h'\<rparr>))) rest))) (\<lambda>_. audited rnd)"
  unfolding updateSystemStateByVaultChange_def
  by (rule recorded_by [where x = "\<lambda>h'. RecordedVault (c\<lparr>vc_header := h'\<rparr>)", OF _ recorded_save(1) _ leads_recorded(1) assms])
    (simp_all add: save_vault_change_def)

lemma deposit_change_recorded:
  assumes "\<And>u. keeps (audited rnd) (rest u)"
  shows "hoare (pending rnd ev h) (bindS (updateSystemStateByStabilityDepositChange rnd c) (\<lambda>_. bindS (finishChange h) (\<lambda>h'.
      bindS (writeS (save_deposit_change (c\<lparr>dc_header := h'\<rparr>))) rest))) (\<lambda>_. audited rnd)"
proof -
  have "updateSystemStateByStabilityDepositChange rnd c = bindS (totalS getCurrentSystemState)
      (\<lambda>s. bindS (liftS (Inr (totals_after_deposit_change rnd c s))) (\<lambda>s'. writeS (bumpSystemState s')))"
    by (simp add: updateSystemStateByStabilityDepositChange_def)
  then show ?thesis
    by (simp only:, intro recorded_by [where x = "\<lambda>h'. RecordedDeposit (c\<lparr>dc_header := h'\<rparr>)", OF _ recorded_save(2) _
        leads_recorded(2) assms]) (simp_all add: save_deposit_change_def)
qed

lemma surplus_change_recorded:
  assumes "\<And>u. keeps (audited rnd) (rest u)"
  shows "hoare (pending rnd ev h) (bindS (updateSystemStateByCollSurplusChange rnd c) (\<lambda>_. bindS (finishChange h) (\<lambda>h'.
      bindS (writeS (save_surplus_change (c\<lparr>sc_header := h'\<rparr>))) rest))) (\<lambda>_. audited rnd)"
proof -
  have "updateSystemStateByCollSurplusChange rnd c = bindS (totalS getCurrentSystemState)
      (\<lambda>s. bindS (liftS (Inr (totals_after_surplus_change rnd c s))) (\<lambda>s'. writeS (bumpSystemState s')))"
    by (simp add: updateSystemStateByCollSurplusChange_def)
  then show ?thesis
    by (simp only:, intro recorded_by [where x = "\<lambda>h'. RecordedSurplus (c\<lparr>sc_header := h'\<rparr>)", OF _ recorded_save(3) _
        leads_recorded(3) assms]) (simp_all add: save_surplus_change_def)
qed

text \<open>A function that creates a change and goes on with it.\<close>

lemma created_keeps:
  assumes "\<And>h. hoare (pending rnd ev h) (f h) (\<lambda>_. audited rnd)"
  shows "keeps (audited rnd) (bindS (createChange (getTransaction rnd ev)) f)"
  by (rule hoare_bindS [OF createChange_pending [OF getTransaction_gives] assms])

lemma record_vault_change_audited: "keeps (audited rnd) (record_vault_change rnd ev operation v coll deb)"
  unfolding record_vault_change_def Let_def
proof (rule created_keeps)
  fix h
  have rec: "hoare (pending rnd ev h) (bindS (updateSystemStateByVaultChange rnd c) (\<lambda>_. bindS (finishChange h) (\<lambda>h'.
      writeS (save_vault_change (c\<lparr>vc_header := h'\<rparr>))))) (\<lambda>_. audited rnd)" for c
    using vault_change_recorded [of rnd retS ev h c] by (simp add: hoare_retS)
  show "hoare (pending rnd ev h)
     (bindS getCurrentPrice (\<lambda>p.
      bindS (if isLiquidation operation then bindS (getCurrentLiquidation rnd ev) (\<lambda>(k, _). retS (Some k)) else retS None) (\<lambda>liq.
      bindS (if isRedemption operation then bindS (getCurrentRedemption rnd ev) (\<lambda>(k, _). retS (Some k)) else retS None) (\<lambda>red.
       bindS (updateSystemStateByVaultChange rnd (vault_change_of rnd h p operation v coll deb liq red)) (\<lambda>_.
       bindS (finishChange h) (\<lambda>h'.
         writeS (save_vault_change ((vault_change_of rnd h p operation v coll deb liq red)\<lparr>vc_header := h'\<rparr>)))))))) (\<lambda>_. audited rnd)"
    by (rule hoare_bindS [OF getCurrentPrice_keeps], rule hoare_bindS [where R = "\<lambda>_. pending rnd ev h"],
        intro keeps_intros getCurrentLiquidation_keeps, rule hoare_bindS [where R = "\<lambda>_. pending rnd ev h"],
        intro keeps_intros getCurrentRedemption_keeps, rule rec)
qed

lemma updateVault_audited: "keeps (audited rnd) (updateVault rnd ev operation borrower coll deb stake snapshots)"
  unfolding updateVault_def getCurrentVaultOfOwner_def close_if_empty_def closeCurrentVaultOfOwner_def Let_def
  by (intro keeps_intros record_vault_change_audited)

lemma updateUserClaimColl_audited: "keeps (audited rnd) (updateUserClaimColl rnd ev borrower surplus)"
  unfolding updateUserClaimColl_def Let_def
  by (intro keeps_intros created_keeps surplus_change_recorded)

lemma updateStabilityDepositByOperation_audited:
  "keeps (audited rnd) (updateStabilityDepositByOperation rnd ev d operation amt gain)"
  unfolding updateStabilityDepositByOperation_def Let_def
  by (intro created_keeps deposit_change_recorded keeps_intros)

lemma updateStabilityDeposit_audited: "keeps (audited rnd) (updateStabilityDeposit rnd ev user amt)"
  unfolding updateStabilityDeposit_def getCurrentStabilityDepositOfOwner_def openNewStabilityDepositForOwner_def
    closeCurrentStabilityDepositOfOwner_def Let_def
  by (intro keeps_intros updateStabilityDepositByOperation_audited)

lemma withdrawCollateralGain_audited:
  "keeps (audited rnd) (withdrawCollateralGainFromStabilityDeposit rnd ev user gain loss)"
  unfolding withdrawCollateralGainFromStabilityDeposit_def getCurrentStabilityDepositOfOwner_def
    closeCurrentStabilityDepositOfOwner_def Let_def
  by (intro keeps_intros updateStabilityDepositByOperation_audited)

lemma handle_event_audited: "keeps (audited rnd) (handle_event rnd ev e)"
  by (cases e) (simp_all add: create_template_def handleBorrowerVaultUpdated_def handleVaultUpdated_def
      handleVaultLiquidated_def handleLiquidation_def finishCurrentLiquidation_def finishCurrentRedemption_def;
    intro keeps_intros getCurrentLiquidation_keeps getCurrentRedemption_keeps updateVault_audited updateUserClaimColl_audited
      updateStabilityDeposit_audited withdrawCollateralGain_audited)+

lemma indexes_audited: "indexes rnd st \<Longrightarrow> audited rnd st"
proof (induction rule: indexes.induct)
  case Indexes_start
  show ?case by (simp add: audited_def trail_def changes_made_def nothing_indexed_def getGlobal_def new_global_def changes_at_def)
next
  case (Indexes_event st ev e st')
  from hoareD [OF handle_event_audited Indexes_event.hyps(2) Indexes_event.IH] show ?case .
qed

end
