(* ===== verification/Subgraph_Laws.thy ===== *)
theory Subgraph_Laws
  imports Subgraph_Trail
begin

text \<open>
  What the indexer's store tells: the audit trail of the changes, and the counters of vaults. Two event orders that the
  contracts produce and the handlers do not expect are evaluated at the end.
\<close>

section \<open>Runs\<close>

text \<open>Indexing a list of events.\<close>

definition index_events :: "rounding \<Rightarrow> (chain_event \<times> protocol_event) list \<Rightarrow> indexed \<Rightarrow> indexed result" where
  "index_events rnd es st = foldE (\<lambda>st (ev, e). bindE (handle_event rnd ev e st) (\<lambda>(_, st'). Inr st')) st es"

lemma index_events_indexes:
  assumes "index_events rnd es st = Inr st'" "indexes rnd st"
  shows "indexes rnd st'"
  using assms unfolding index_events_def
  by (rule foldE_invariant) (auto simp: bindE_eq_Inr_iff intro: Indexes_event)

text \<open>An event of the transaction with the given hash, in a block where the price is \<open>p\<close>.\<close>

definition sample_event :: "string \<Rightarrow> nat \<Rightarrow> chain_event" where
  "sample_event hash p = \<lparr>ev_hash = hash, ev_from = ''0x1'', ev_block = 7, ev_timestamp = 70,
     ev_fetchPrice = (\<lambda>a. Inr (p * SCALING_FACTOR)), ev_rewardSnapshots = (\<lambda>a. Inr (0, 0)), ev_redistributed = Inr (0, 0)\<rparr>"

definition opening_run :: "(chain_event \<times> protocol_event) list" where
  "opening_run =
     [(sample_event ''0xa'' 200, PriceFeedAddressChanged ''0xfeed''),
      (sample_event ''0xb'' 200, BorrowerVaultUpdated ''0x1'' (100 * SCALING_FACTOR) (2 * SCALING_FACTOR) 5 0),
      (sample_event ''0xc'' 190, UserDepositChanged ''0x1'' (50 * SCALING_FACTOR))]"

definition has_counts :: "nat \<Rightarrow> nat \<Rightarrow> indexed result \<Rightarrow> bool" where
  "has_counts c s r = (case r of Inl _ \<Rightarrow> False | Inr st \<Rightarrow> g_changeCount (getGlobal st) = c \<and> g_stateCount (getGlobal st) = s)"

lemma small_ids [simp]:
  "nat_to_string 0 = ''0''" "nat_to_string (Suc 0) = ''1''" "nat_to_string 2 = ''2''" "nat_to_string 3 = ''3''"
  "nat_to_string (Suc (Suc 0)) = ''2''" "nat_to_string (Suc (Suc (Suc 0))) = ''3''"
  by code_simp+

lemmas monad_defs = bindS_def retS_def liftS_def totalS_def readS_def writeS_def

lemmas store_defs = getGlobal_def update_global_def increaseCounter_def getSystemStateSequenceNumber_def
  getTransactionSequenceNumber_def getChangeSequenceNumber_def getLiquidationSequenceNumber_def
  getRedemptionSequenceNumber_def updatePriceFeedAddress_def getPriceFeedAddress_def updateTotalRedistributed_def
  increaseNumberOfOpenVaults_def increaseNumberOfLiquidatedVaults_def increaseNumberOfRedeemedVaults_def
  increaseNumberOfVaultsClosedByOwner_def set_current_state_def getCurrentSystemState_def bumpSystemState_def
  beginChange_def initChange_def finishChange_def createChange_def save_price_change_def checkPrice_def loadTransaction_def
  new_transaction_def getTransaction_def getCurrentPrice_def new_global_def nothing_indexed_def Let_def

lemmas entity_defs = save_user_def new_user_def getUser_def save_surplus_change_def sub_id_def open_vault_def
  getCurrentVaultOfOwner_def closeCurrentVaultOfOwner_def save_vault_change_def save_vault_def sort_key_def vault_change_of_def
  close_if_empty_def record_vault_change_def updateVault_def getCurrentStabilityDepositOfOwner_def
  openNewStabilityDepositForOwner_def closeCurrentStabilityDepositOfOwner_def save_deposit_change_def save_deposit_def
  updateStabilityDepositByOperation_def updateStabilityDeposit_def handleBorrowerVaultUpdated_def handleVaultUpdated_def
  updateSystemStateByVaultChange_def updateSystemStateByStabilityDepositChange_def totals_after_vault_change_def
  totals_after_deposit_change_def decimalizeBigInt_def SCALING_FACTOR_def DECIMAL_INITIAL_PRICE_def calculateCollateralRatio_def
  getVaultOperationFromBorrowerOperation_def isBorrowerOperation_def isLiquidation_def isRedemption_def
  isRecoveryModeLiquidation_def getVaultOperationFromVaultManagerOperation_def

lemma opening_run_counts: "has_counts 3 4 (index_events (\<lambda>x. x) opening_run nothing_indexed)"
  by (simp add: has_counts_def index_events_def opening_run_def sample_event_def monad_defs store_defs entity_defs)

section \<open>The audit trail\<close>

text \<open>
  C8. The indexer keeps an audit trail. In every store it reaches there is exactly one change, of whatever kind, for
  each number below the number of changes made, and none for any other identity. The change with number
  \<open>n\<close> belongs to a stored transaction, says that it leads from system state \<open>n\<close> to system state \<open>n + 1\<close>, and both are
  stored and differ exactly by its effect; so following all changes from the first state leads to the
  current one, although changes of the price are recorded in the middle of other changes.
\<close>

theorem audit_trail:
  assumes "indexes rnd st"
  shows "(\<forall>k. changes_at st k \<noteq> {} \<longleftrightarrow> k \<in> nat_to_string ` {..<g_changeCount (getGlobal st)}) \<and>
    (\<forall>n < g_changeCount (getGlobal st). \<exists>x s s'. changes_at st (nat_to_string n) = {x} \<and> h_seq (header_of x) = n \<and>
       i_transactions st (h_transaction (header_of x)) \<noteq> None \<and>
       h_before (header_of x) = nat_to_string n \<and> i_states st (nat_to_string n) = Some s \<and> y_seq s = n \<and>
       h_after (header_of x) = nat_to_string (Suc n) \<and> i_states st (nat_to_string (Suc n)) = Some s' \<and> y_seq s' = Suc n \<and>
       leads rnd x s s') \<and>
    (0 < g_changeCount (getGlobal st) \<longrightarrow>
       g_currentState (getGlobal st) = Some (nat_to_string (g_changeCount (getGlobal st))))"
proof -
  let ?c = "g_changeCount (getGlobal st)"
  obtain s where t: "trail rnd ?c s st" "s = Suc ?c \<or> s = 0 \<and> ?c = 0"
    using indexes_audited [OF assms] by (auto simp: audited_def changes_made_def)
  have one: "\<exists>x s s'. changes_at st (nat_to_string n) = {x} \<and> h_seq (header_of x) = n \<and>
       i_transactions st (h_transaction (header_of x)) \<noteq> None \<and>
       h_before (header_of x) = nat_to_string n \<and> i_states st (nat_to_string n) = Some s \<and> y_seq s = n \<and>
       h_after (header_of x) = nat_to_string (Suc n) \<and> i_states st (nat_to_string (Suc n)) = Some s' \<and> y_seq s' = Suc n \<and>
       leads rnd x s s'" if "n < ?c" for n
  proof -
    have "\<forall>n < ?c. \<exists>x. changes_at st (nat_to_string n) = {x} \<and> linked rnd st n x" using t(1)
      unfolding trail_def by (elim conjE) assumption
    with that obtain x where x: "changes_at st (nat_to_string n) = {x}" "linked rnd st n x" by blast
    then obtain s1 s2 where s: "i_states st (nat_to_string n) = Some s1" "i_states st (nat_to_string (Suc n)) = Some s2"
      "leads rnd x s1 s2" by (auto simp: linked_def)
    have "n < s" "Suc n < s" using t(2) that by auto
    then have "y_seq s1 = n" "y_seq s2 = Suc n" using t(1) s(1,2) unfolding trail_def by (metis option.inject)+
    with x s show ?thesis unfolding linked_def by blast
  qed
  moreover have "changes_at st k \<noteq> {} \<longleftrightarrow> k \<in> nat_to_string ` {..<?c}" for k
  proof
    show "changes_at st k \<noteq> {} \<Longrightarrow> k \<in> nat_to_string ` {..<?c}" using t(1) by (simp add: trail_def)
    show "k \<in> nat_to_string ` {..<?c} \<Longrightarrow> changes_at st k \<noteq> {}" using one by blast
  qed
  moreover have "0 < ?c \<longrightarrow> g_currentState (getGlobal st) = Some (nat_to_string ?c)"
    using t by (auto simp: trail_def)
  ultimately show ?thesis by blast
qed

lemma audit_trail_witness:
  "\<exists>st. indexes (\<lambda>x. x) st \<and> g_changeCount (getGlobal st) = 3 \<and>
     (\<exists>x s s'. changes_at st ''2'' = {x} \<and> i_states st ''2'' = Some s \<and> i_states st ''3'' = Some s' \<and> leads (\<lambda>x. x) x s s')"
proof -
  obtain st where st: "index_events (\<lambda>x. x) opening_run nothing_indexed = Inr st" "g_changeCount (getGlobal st) = 3"
    using opening_run_counts by (auto simp: has_counts_def split: sum.splits)
  have i: "indexes (\<lambda>x. x) st" by (rule index_events_indexes [OF st(1) Indexes_start])
  from audit_trail [OF i, THEN conjunct2, THEN conjunct1, rule_format, of 2] i st(2) show ?thesis by auto
qed

section \<open>The counters of vaults\<close>

text \<open>The current vault of an address and the number of its vaults, as far as they are known.\<close>

definition vaults_known :: "indexed \<Rightarrow> string \<Rightarrow> string option \<times> nat" where
  "vaults_known st a = (case i_users st a of None \<Rightarrow> (None, 0) | Some u \<Rightarrow> (u_currentVault u, u_vaultCount u))"

definition users_ok :: "indexed \<Rightarrow> bool" where
  "users_ok st \<longleftrightarrow> (\<forall>a u. i_users st a = Some u \<longrightarrow> u_id u = a)"

definition vault_counters :: "indexed \<Rightarrow> int \<times> int \<times> int \<times> int \<times> int" where
  "vault_counters st = (let g = getGlobal st in
     (g_openVaults g, g_liquidatedVaults g, g_redeemedVaults g, g_vaultsClosedByOwner g, g_totalVaults g))"

definition same_books :: "indexed \<Rightarrow> indexed \<Rightarrow> bool" where
  "same_books st st' \<longleftrightarrow> (users_ok st \<longrightarrow> users_ok st' \<and> vaults_known st' = vaults_known st) \<and>
     i_vaults st' = i_vaults st \<and> vault_counters st' = vault_counters st"

interpretation books: store_preorder same_books
  by unfold_locales (auto simp: same_books_def)

definition having :: "(string \<rightharpoonup> vault_entity) \<Rightarrow> string \<Rightarrow> string set" where
  "having vs s = {k. \<exists>v. vs k = Some v \<and> v_status v = s}"

text \<open>A stored vault is one of its owner's, and it is open exactly while it is the current one.\<close>

definition vault_booked :: "(string \<Rightarrow> string option \<times> nat) \<Rightarrow> string \<Rightarrow> vault_entity \<Rightarrow> bool" where
  "vault_booked view k v \<longleftrightarrow> v_id v = k \<and> (\<exists>n < snd (view (v_owner v)). k = sub_id (v_owner v) n) \<and>
     v_status v \<in> {''open'', ''closedByLiquidation'', ''closedByRedemption'', ''closedByOwner''} \<and>
     (v_status v = ''open'' \<longleftrightarrow> fst (view (v_owner v)) = Some k)"

text \<open>The books, for the view of the users' vaults, the stored vaults and the counters.\<close>

definition books_hold ::
  "(string \<Rightarrow> string option \<times> nat) \<Rightarrow> (string \<rightharpoonup> vault_entity) \<Rightarrow> int \<times> int \<times> int \<times> int \<times> int \<Rightarrow> bool" where
  "books_hold view vs c \<longleftrightarrow>
     (\<forall>a k. fst (view a) = Some k \<longrightarrow> (\<exists>n < snd (view a). k = sub_id a n)) \<and>
     (\<forall>k v. vs k = Some v \<longrightarrow> vault_booked view k v) \<and>
     finite {a. fst (view a) \<noteq> None} \<and> finite (dom vs) \<and>
     c = (int (card {a. fst (view a) \<noteq> None}), int (card (having vs ''closedByLiquidation'')),
          int (card (having vs ''closedByRedemption'')), int (card (having vs ''closedByOwner'')),
          int (card {a. fst (view a) \<noteq> None}) + int (card (having vs ''closedByLiquidation'')) +
          int (card (having vs ''closedByRedemption'')) + int (card (having vs ''closedByOwner'')))"

definition books_ok :: "indexed \<Rightarrow> bool" where
  "books_ok st \<longleftrightarrow> users_ok st \<and> books_hold (vaults_known st) (i_vaults st) (vault_counters st)"

lemma same_books_ok: "same_books st st' \<Longrightarrow> books_ok st \<Longrightarrow> books_ok st'"
  by (simp add: same_books_def books_ok_def)

text \<open>The identity of a vault determines its owner and its number.\<close>

lemma dash_not_in_number: "CHR ''-'' \<notin> set (nat_to_string n)"
proof
  assume "CHR ''-'' \<in> set (nat_to_string n)"
  then have "is_digit (CHR ''-'')" using all_digits_nat_to_string [of n] by (auto simp: list_all_iff)
  then show False by (simp add: is_digit_def)
qed

lemma sub_id_inject [simp]: "sub_id a m = sub_id b n \<longleftrightarrow> a = b \<and> m = n"
proof
  assume "sub_id a m = sub_id b n"
  then have eq: "rev (nat_to_string m) @ CHR ''-'' # rev a = rev (nat_to_string n) @ CHR ''-'' # rev b"
    unfolding sub_id_def by (metis append_Cons append_assoc append_eq_append_conv2 rev.simps(2) rev_append rev_rev_ident self_append_conv)
  have "takeWhile (\<lambda>c. c \<noteq> CHR ''-'') (rev (nat_to_string k) @ CHR ''-'' # xs) = rev (nat_to_string k)" for k xs
    using dash_not_in_number [of k] by (subst takeWhile_append2) auto
  with eq have "rev (nat_to_string m) = rev (nat_to_string n)" by metis
  with eq show "a = b \<and> m = n" by simp
qed simp

section \<open>What leaves the books alone\<close>

lemma same_booksI:
  assumes "i_users st' = i_users st" "i_vaults st' = i_vaults st" "vault_counters st' = vault_counters st"
  shows "same_books st st'"
  using assms by (auto simp: same_books_def users_ok_def vaults_known_def fun_eq_iff)

lemma getUser_books: "getUser a st = (u, st') \<Longrightarrow> same_books st st'"
  by (auto simp: getUser_def save_user_def new_user_def same_books_def users_ok_def vaults_known_def vault_counters_def fun_eq_iff
      split: option.splits if_splits)

text \<open>A user that is saved with the same vaults.\<close>

lemma save_user_books:
  assumes "users_ok st" "vaults_known st (u_id u) = (u_currentVault u, u_vaultCount u)"
  shows "users_ok (save_user u st)" "vaults_known (save_user u st) = vaults_known st" "i_vaults (save_user u st) = i_vaults st"
    "vault_counters (save_user u st) = vault_counters st"
  using assms by (auto simp: save_user_def users_ok_def vaults_known_def vault_counters_def fun_eq_iff Let_def)

lemma getUser_view:
  assumes "users_ok st" "getUser a st = (u, st')"
  shows "u_id u = a" "vaults_known st' a = (u_currentVault u, u_vaultCount u)" "users_ok st'" "i_users st' a = Some u"
  using assms by (auto simp: getUser_def save_user_def new_user_def users_ok_def vaults_known_def split: option.splits if_splits)

lemma total_books:
  "books.stays (totalS (getUser a))" "books.stays (totalS getCurrentSystemState)" "books.stays (totalS getChangeSequenceNumber)"
  "books.stays (totalS getLiquidationSequenceNumber)" "books.stays (totalS getRedemptionSequenceNumber)"
  "books.stays (totalS (new_transaction ev))"
proof -
  show "books.stays (totalS (getUser a))" by (rule books.stays_totalS, erule getUser_books)
  show "books.stays (totalS getCurrentSystemState)"
    by (rule books.stays_totalS, rule same_booksI) (auto simp: getCurrentSystemState_def set_current_state_def
        getSystemStateSequenceNumber_def increaseCounter_def Let_def vault_counters_def split: option.splits)
  show "books.stays (totalS getChangeSequenceNumber)" "books.stays (totalS getLiquidationSequenceNumber)"
    "books.stays (totalS getRedemptionSequenceNumber)" "books.stays (totalS (new_transaction ev))"
    by (rule books.stays_totalS, rule same_booksI, auto simp: getChangeSequenceNumber_def getLiquidationSequenceNumber_def
        getRedemptionSequenceNumber_def new_transaction_def getTransactionSequenceNumber_def increaseCounter_def Let_def
        vault_counters_def)+
qed

lemma write_books:
  "same_books st (bumpSystemState s st)" "same_books st (save_price_change pc st)" "same_books st (save_vault_change vc st)"
  "same_books st (save_deposit_change dc st)" "same_books st (save_surplus_change sc st)" "same_books st (save_deposit d st)"
  "same_books st (updatePriceFeedAddress a st)" "same_books st (updateTotalRedistributed m n st)"
  "same_books st (st\<lparr>i_templates := ts\<rparr>)" "same_books st (st\<lparr>i_liquidations := ls\<rparr>)"
  "same_books st (st\<lparr>i_redemptions := rs\<rparr>)"
  "same_books st (update_global (g_currentLiquidation_update f) st)"
  "same_books st (update_global (g_currentRedemption_update f) st)"
  by (auto intro!: same_booksI simp: bumpSystemState_def set_current_state_def getSystemStateSequenceNumber_def
      increaseCounter_def save_price_change_def save_vault_change_def save_deposit_change_def save_surplus_change_def
      save_deposit_def updatePriceFeedAddress_def updateTotalRedistributed_def Let_def vault_counters_def)

lemmas books_steps = total_books books.stays_intros write_books [THEN books.stays_writeS]

lemma createChange_books: "books.stays get \<Longrightarrow> books.stays (createChange get)"
  unfolding createChange_def beginChange_def initChange_def by (intro books_steps)

lemma loadTransaction_books: "books.stays (loadTransaction ev)"
  by (auto simp: books.stays_def loadTransaction_def books.below_refl split: option.splits)

lemma getTransaction_books: "books.stays (getTransaction rnd ev)"
proof -
  have new: "books.stays (bindS (totalS (new_transaction ev)) (\<lambda>t. bindS (checkPrice rnd ev (loadTransaction ev)) (\<lambda>_. retS t)))"
    unfolding checkPrice_def finishChange_def Let_def by (intro books_steps createChange_books loadTransaction_books)
  show ?thesis
    unfolding books.stays_def
  proof (intro allI impI)
    fix st t st'
    assume "getTransaction rnd ev st = Inr (t, st')"
    with books.staysD [OF new] show "same_books st st'"
      by (auto simp: getTransaction_def books.below_refl split: option.splits)
  qed
qed

lemma record_vault_change_books: "books.stays (record_vault_change rnd ev operation v coll deb)"
  unfolding record_vault_change_def getCurrentPrice_def getCurrentLiquidation_def getCurrentRedemption_def
    updateSystemStateByVaultChange_def finishChange_def Let_def
  by (intro books_steps createChange_books getTransaction_books)

lemma updateStabilityDepositByOperation_books: "books.stays (updateStabilityDepositByOperation rnd ev d operation amt gain)"
  unfolding updateStabilityDepositByOperation_def updateSystemStateByStabilityDepositChange_def finishChange_def Let_def
  by (intro books_steps createChange_books getTransaction_books)

text \<open>Functions that load a user and save it with the same vaults.\<close>

lemma user_update_books:
  assumes "\<And>u. u_id (f u) = u_id u \<and> u_currentVault (f u) = u_currentVault u \<and> u_vaultCount (f u) = u_vaultCount u"
  shows "books.stays (bindS (totalS (getUser a)) (\<lambda>u. bindS (writeS (save_user (f u))) (\<lambda>_. retS (g u))))"
  unfolding books.stays_def
proof (intro allI impI)
  fix st x st'
  assume run: "bindS (totalS (getUser a)) (\<lambda>u. bindS (writeS (save_user (f u))) (\<lambda>_. retS (g u))) st = Inr (x, st')"
  then obtain u st1 where u: "getUser a st = (u, st1)" "st' = save_user (f u) st1"
    by (auto simp: bindS_Inr totalS_def writeS_def retS_def)
  have 1: "same_books st st1" using u(1) by (rule getUser_books)
  have "same_books st1 st'" if "users_ok st"
    using getUser_view [OF that u(1)] save_user_books [of st1 "f u"] assms [of u] by (auto simp: same_books_def u(2))
  moreover have "i_vaults st' = i_vaults st1" "vault_counters st' = vault_counters st1"
    by (simp_all add: u(2) save_user_def vault_counters_def)
  ultimately show "same_books st st'" using 1 unfolding same_books_def by auto
qed

lemma deposit_steps_books:
  "books.stays (openNewStabilityDepositForOwner a)" "books.stays (closeCurrentStabilityDepositOfOwner a)"
  using user_update_books [of "\<lambda>owner. owner\<lparr>u_depositCount := Suc (u_depositCount owner),
        u_currentDeposit := Some (sub_id a (u_depositCount owner))\<rparr>" a
      "\<lambda>owner. \<lparr>e_id = sub_id a (u_depositCount owner), e_owner = u_id owner, e_amount = 0\<rparr>"]
    user_update_books [of "\<lambda>owner. owner\<lparr>u_currentDeposit := None\<rparr>" a "\<lambda>_. ()"]
  by (simp_all add: openNewStabilityDepositForOwner_def closeCurrentStabilityDepositOfOwner_def Let_def bindS_def writeS_def
      retS_def)

section \<open>Opening, saving and closing a vault\<close>

lemma books_open:
  assumes "books_hold view vs (n, l, r, o', t)" "fst (view a) = None"
  shows "books_hold (view(a := (Some (sub_id a (snd (view a))), Suc (snd (view a))))) vs (n + 1, l, r, o', t + 1)"
proof -
  let ?view = "view(a := (Some (sub_id a (snd (view a))), Suc (snd (view a))))"
  have owners: "{b. fst (?view b) \<noteq> None} = insert a {b. fst (view b) \<noteq> None}" by auto
  have fin: "finite {b. fst (view b) \<noteq> None}" "a \<notin> {b. fst (view b) \<noteq> None}"
    using assms by (simp_all add: books_hold_def)
  have card: "card {b. fst (?view b) \<noteq> None} = Suc (card {b. fst (view b) \<noteq> None})"
    unfolding owners using fin by simp
  have stored: "vault_booked ?view k v" if "vs k = Some v" for k v
  proof -
    have "vault_booked view k v" using assms(1) that by (simp add: books_hold_def)
    then show ?thesis using assms(2) by (cases "v_owner v = a") (auto simp: vault_booked_def intro: less_SucI)
  qed
  have current: "\<exists>n < snd (?view b). k = sub_id b n" if "fst (?view b) = Some k" for b k
    using that assms(1) by (cases "b = a") (auto simp: books_hold_def)
  show ?thesis
    using assms(1) stored current fin(1) owners card unfolding books_hold_def by (simp del: fun_upd_apply)
qed

text \<open>The current vault of its owner, stored or not.\<close>

lemma current_is_open:
  assumes "books_hold view vs c" "fst (view a) = Some k" "vs k = Some v"
  shows "v_status v = ''open''" "v_owner v = a"
proof -
  have "vault_booked view k v" "\<exists>n < snd (view a). k = sub_id a n"
    using assms by (simp_all add: books_hold_def)
  with assms(2) show "v_status v = ''open''" "v_owner v = a" by (auto simp: vault_booked_def)
qed

lemma having_save:
  assumes "\<And>w. vs (v_id v) = Some w \<Longrightarrow> v_status w \<noteq> s"
  shows "having (vs(v_id v \<mapsto> v)) s = (if v_status v = s then insert (v_id v) (having vs s) else having vs s)"
    "v_id v \<notin> having vs s"
  using assms by (auto simp: having_def)

lemma books_save:
  assumes "books_hold view vs c" "fst (view (v_owner v)) = Some (v_id v)" "v_status v = ''open''"
  shows "books_hold view (vs(v_id v \<mapsto> v)) c"
proof -
  have "having (vs(v_id v \<mapsto> v)) s = having vs s" if "s \<noteq> ''open''" for s
    using having_save(1) [of vs v s] current_is_open(1) [OF assms(1,2)] assms(3) that by auto
  then have h: "having (vs(v_id v \<mapsto> v)) ''closedByLiquidation'' = having vs ''closedByLiquidation''"
    "having (vs(v_id v \<mapsto> v)) ''closedByRedemption'' = having vs ''closedByRedemption''"
    "having (vs(v_id v \<mapsto> v)) ''closedByOwner'' = having vs ''closedByOwner''" by simp_all
  have "\<exists>n < snd (view (v_owner v)). v_id v = sub_id (v_owner v) n" using assms(1,2) by (simp add: books_hold_def)
  with assms(2,3) have "vault_booked view (v_id v) v" by (simp add: vault_booked_def)
  with assms(1) show ?thesis unfolding books_hold_def h by simp
qed

text \<open>Closing the current vault with one of the three statuses.\<close>

lemma books_close:
  assumes "books_hold view vs (n, l, r, o', t)" "fst (view a) = Some (v_id v)" "v_owner v = a"
    and "v_status v \<in> {''closedByLiquidation'', ''closedByRedemption'', ''closedByOwner''}"
  shows "books_hold (view(a := (None, snd (view a)))) (vs(v_id v \<mapsto> v))
    (n - 1, if v_status v = ''closedByLiquidation'' then l + 1 else l, if v_status v = ''closedByRedemption'' then r + 1 else r,
     if v_status v = ''closedByOwner'' then o' + 1 else o', t)"
proof -
  let ?view = "view(a := (None, snd (view a)))" and ?vs = "vs(v_id v \<mapsto> v)"
  have owners: "{b. fst (?view b) \<noteq> None} = {b. fst (view b) \<noteq> None} - {a}" "a \<in> {b. fst (view b) \<noteq> None}"
    using assms(2) by auto
  have fin: "finite {b. fst (view b) \<noteq> None}" "finite (dom vs)" using assms(1) by (simp_all add: books_hold_def)
  have "card {b. fst (view b) \<noteq> None} > 0" using fin(1) owners(2) by (auto simp: card_gt_0_iff)
  then have card: "int (card {b. fst (?view b) \<noteq> None}) = int (card {b. fst (view b) \<noteq> None}) - 1"
    unfolding owners(1) using owners(2) fin(1) by (simp add: of_nat_diff)
  have finh: "finite (having vs s)" for s
    by (rule finite_subset [OF _ fin(2)]) (auto simp: having_def)
  have grow: "int (card (having ?vs s)) = (if v_status v = s then int (card (having vs s)) + 1 else int (card (having vs s)))"
    if "s \<noteq> ''open''" for s
  proof -
    have "\<And>w. vs (v_id v) = Some w \<Longrightarrow> v_status w \<noteq> s" using current_is_open(1) [OF assms(1,2)] that by auto
    from having_save [of vs v, OF this] finh show ?thesis by simp
  qed
  have stored: "vault_booked ?view k w" if "?vs k = Some w" for k w
  proof (cases "k = v_id v")
    case True
    have "\<exists>n < snd (view a). v_id v = sub_id a n" using assms(1,2) by (simp add: books_hold_def)
    with True that assms(3,4) show ?thesis by (auto simp: vault_booked_def)
  next
    case False
    with that have "vault_booked view k w" using assms(1) by (simp add: books_hold_def)
    with False assms(2) show ?thesis by (cases "v_owner w = a") (auto simp: vault_booked_def)
  qed
  have current: "\<exists>n < snd (?view b). k = sub_id b n" if "fst (?view b) = Some k" for b k
    using that assms(1) by (cases "b = a") (simp_all add: books_hold_def)
  have c: "n = int (card {a. fst (view a) \<noteq> None})" "l = int (card (having vs ''closedByLiquidation''))"
    "r = int (card (having vs ''closedByRedemption''))" "o' = int (card (having vs ''closedByOwner''))" "t = n + l + r + o'"
    using assms(1) by (simp_all add: books_hold_def)
  have "finite {b. fst (?view b) \<noteq> None}" unfolding owners(1) using fin(1) by simp
  moreover have "finite (dom ?vs)" using fin(2) by simp
  moreover have "t = int (card {b. fst (?view b) \<noteq> None}) + int (card (having ?vs ''closedByLiquidation'')) +
      int (card (having ?vs ''closedByRedemption'')) + int (card (having ?vs ''closedByOwner''))"
    unfolding card using assms(4) c by (auto simp: grow)
  ultimately show ?thesis
    unfolding books_hold_def using stored current card c by (simp add: grow del: fun_upd_apply)
qed

section \<open>The books are kept\<close>

text \<open>\<open>v\<close> is the current vault of \<open>a\<close>, as it was loaded or created.\<close>

definition updating :: "string \<Rightarrow> vault_entity \<Rightarrow> indexed \<Rightarrow> bool" where
  "updating a v st \<longleftrightarrow> books_ok st \<and> fst (vaults_known st a) = Some (v_id v) \<and> v_owner v = a \<and> v_status v = ''open''"

lemma books_stays_updating: "books.stays m \<Longrightarrow> keeps (updating a v) m"
  by (rule books.stays_keeps) (auto simp: updating_def same_books_def books_ok_def)

lemma vaults_known_save: "vaults_known (save_user u st) = (vaults_known st)(u_id u := (u_currentVault u, u_vaultCount u))"
  by (auto simp: vaults_known_def save_user_def fun_eq_iff)

lemma users_ok_save: "users_ok st \<Longrightarrow> users_ok (save_user u st)"
  by (simp add: users_ok_def save_user_def)

lemma view_update_global [simp]: "vaults_known (update_global f st) = vaults_known st" "users_ok (update_global f st) = users_ok st"
  by (simp_all add: vaults_known_def users_ok_def fun_eq_iff)

lemma view_save_vault [simp]:
  "vaults_known (save_vault v st) = vaults_known st" "users_ok (save_vault v st) = users_ok st"
  "i_vaults (save_vault v st) = (i_vaults st)(v_id v \<mapsto> v)" "vault_counters (save_vault v st) = vault_counters st"
  by (simp_all add: vaults_known_def users_ok_def save_vault_def fun_eq_iff vault_counters_def)

lemma save_user_frame [simp]:
  "i_vaults (save_user u st) = i_vaults st" "getGlobal (save_user u st) = getGlobal st"
  "vault_counters (save_user u st) = vault_counters st"
  by (simp_all add: save_user_def vault_counters_def)

lemma getCurrentVaultOfOwner_updating: "hoare books_ok (getCurrentVaultOfOwner a) (updating a)"
  unfolding hoare_def
proof (intro allI impI)
  fix st v st'
  assume ok: "books_ok st" and run: "getCurrentVaultOfOwner a st = Inr (v, st')"
  obtain owner st1 where owner: "getUser a st = (owner, st1)" by fastforce
  have ok1: "books_ok st1" by (rule same_books_ok [OF getUser_books [OF owner] ok])
  have users: "users_ok st" using ok by (simp add: books_ok_def)
  note view = getUser_view [OF users owner]
  show "updating a v st'"
  proof (cases "u_currentVault owner")
    case None
    then have v: "v = open_vault a (u_vaultCount owner)" and st': "st' = increaseNumberOfOpenVaults (save_user
        (owner\<lparr>u_vaultCount := Suc (u_vaultCount owner), u_currentVault := Some (sub_id a (u_vaultCount owner))\<rparr>) st1)"
      using run owner by (simp_all add: getCurrentVaultOfOwner_def monad_defs)
    obtain n l r o' t where c: "vault_counters st1 = (n, l, r, o', t)" by (metis prod_cases5)
    have "books_hold (vaults_known st1) (i_vaults st1) (n, l, r, o', t)" "fst (vaults_known st1 a) = None"
      using ok1 view(2) None c by (simp_all add: books_ok_def)
    from books_open [OF this] have "books_ok st'"
      using view c by (simp add: books_ok_def st' increaseNumberOfOpenVaults_def vaults_known_save users_ok_save)
        (simp add: vault_counters_def Let_def)
    then show ?thesis
      using view(1) by (simp add: updating_def v open_vault_def st' increaseNumberOfOpenVaults_def vaults_known_save)
  next
    case (Some k)
    with run owner obtain w where "i_vaults st1 k = Some w" "v = w" "st' = st1"
      by (auto simp: getCurrentVaultOfOwner_def monad_defs split: option.splits)
    moreover have hold: "books_hold (vaults_known st1) (i_vaults st1) (vault_counters st1)" using ok1 by (simp add: books_ok_def)
    moreover have "fst (vaults_known st1 a) = Some k" using view(2) Some by simp
    moreover from calculation have "vault_booked (vaults_known st1) k w" by (simp add: books_hold_def)
    ultimately show ?thesis using ok1 current_is_open [OF hold] by (auto simp: updating_def vault_booked_def)
  qed
qed

text \<open>The end of an update: the vault is closed if it is empty, and saved.\<close>

lemma close_and_save_books:
  assumes w: "\<And>status. v_id (w status) = v_id v \<and> v_owner (w status) = v_owner v \<and>
    v_status (w status) = (if coll = 0 then status else v_status v)"
  shows "hoare (updating a v) (bindS (close_if_empty operation a coll) (\<lambda>status. writeS (save_vault (w status)))) (\<lambda>_. books_ok)"
  unfolding hoare_def
proof (intro allI impI)
  fix st x st'
  assume up: "updating a v st" and run: "bindS (close_if_empty operation a coll) (\<lambda>status. writeS (save_vault (w status))) st = Inr (x, st')"
  have ok: "users_ok st" "books_hold (vaults_known st) (i_vaults st) (vault_counters st)"
    and cur: "fst (vaults_known st a) = Some (v_id v)" "v_owner v = a" "v_status v = ''open''"
    using up by (simp_all add: updating_def books_ok_def)
  show "books_ok st'"
  proof (cases "coll = 0")
    case False
    then have "st' = save_vault (w ''open'') st" using run by (simp add: close_if_empty_def monad_defs)
    with ok cur False books_save [OF ok(2), of "w ''open''"] w [of "''open''"] show ?thesis by (simp add: books_ok_def)
  next
    case True
    obtain u st1 where u: "getUser a st = (u, st1)" by fastforce
    have same: "same_books st st1" by (rule getUser_books [OF u])
    note view = getUser_view [OF ok(1) u]
    obtain n l r o' t where c: "vault_counters st1 = (n, l, r, o', t)" by (metis prod_cases5)
    have hold: "books_hold (vaults_known st1) (i_vaults st1) (n, l, r, o', t)" and cur1: "fst (vaults_known st1 a) = Some (v_id v)"
      using same ok cur(1) c by (simp_all add: same_books_def)
    have shut: "books_ok (save_vault (w s) (update_global f (save_user (u\<lparr>u_currentVault := None\<rparr>) st1)))"
      if "s \<in> {''closedByLiquidation'', ''closedByRedemption'', ''closedByOwner''}"
        "vault_counters (update_global f st1) = (n - 1, if s = ''closedByLiquidation'' then l + 1 else l,
           if s = ''closedByRedemption'' then r + 1 else r, if s = ''closedByOwner'' then o' + 1 else o', t)" for s f
    proof -
      have "fst (vaults_known st1 a) = Some (v_id (w s))" "v_owner (w s) = a" "v_status (w s) = s"
        using w [of s] cur1 cur(2) True by simp_all
      from books_close [OF hold this(1,2)] that this(3)
      have "books_hold ((vaults_known st1)(a := (None, snd (vaults_known st1 a)))) ((i_vaults st1)(v_id (w s) \<mapsto> w s))
          (vault_counters (update_global f st1))" by simp
      moreover have "vault_counters (update_global f (save_user (u\<lparr>u_currentVault := None\<rparr>) st1)) = vault_counters (update_global f st1)"
        by (simp add: vault_counters_def)
      ultimately show ?thesis using view by (simp add: books_ok_def vaults_known_save users_ok_save)
    qed
    show ?thesis
      using run True u c
      by (auto simp: close_if_empty_def closeCurrentVaultOfOwner_def monad_defs increaseNumberOfLiquidatedVaults_def
          increaseNumberOfRedeemedVaults_def increaseNumberOfVaultsClosedByOwner_def vault_counters_def Let_def
          split: if_splits intro!: shut)
  qed
qed

lemma updateVault_books: "keeps books_ok (updateVault rnd ev operation borrower coll deb stake snapshots)"
proof -
  have "hoare (updating borrower v)
     (bindS (record_vault_change rnd ev operation v c d) (\<lambda>_. bindS (close_if_empty operation borrower coll) (\<lambda>status.
       writeS (save_vault (v\<lparr>v_coll := c, v_debt := d, v_rawColl := coll, v_rawDebt := deb, v_rawStake := stake,
         v_rawSnapshotColl := fst snapshots, v_rawSnapshotDebt := snd snapshots,
         v_sortKey := sort_key deb stake (snd snapshots), v_status := if coll = 0 then status else v_status v\<rparr>)))))
     (\<lambda>_. books_ok)" for v c d
    by (rule hoare_bindS [OF books_stays_updating [OF record_vault_change_books]], rule close_and_save_books) simp
  moreover have "hoare (updating borrower v) (retS ()) (\<lambda>_. books_ok)" for v
    by (rule hoare_retS) (simp add: updating_def)
  ultimately show ?thesis
    unfolding updateVault_def Let_def by (intro hoare_bindS [OF getCurrentVaultOfOwner_updating] hoare_if)
qed

lemma books_stays_ok: "books.stays m \<Longrightarrow> keeps books_ok m"
  by (rule books.stays_keeps, assumption, rule same_books_ok)

lemma withdrawal_books: "books.stays (withdrawCollateralGainFromStabilityDeposit rnd ev user gain loss)"
  unfolding withdrawCollateralGainFromStabilityDeposit_def getCurrentStabilityDepositOfOwner_def Let_def
  by (intro books_steps updateStabilityDepositByOperation_books deposit_steps_books)

lemma updateStabilityDeposit_books: "books.stays (updateStabilityDeposit rnd ev user amt)"
  unfolding updateStabilityDeposit_def getCurrentStabilityDepositOfOwner_def Let_def
  by (intro books_steps updateStabilityDepositByOperation_books deposit_steps_books)

text \<open>A user that was loaded before other functions ran is saved with the vaults it still has.\<close>

lemma updateUserClaimColl_books: "keeps books_ok (updateUserClaimColl rnd ev borrower surplus)"
proof -
  let ?has = "\<lambda>u st. books_ok st \<and> vaults_known st (u_id u) = (u_currentVault u, u_vaultCount u)"
  have get: "hoare books_ok (totalS (getUser borrower)) ?has"
    unfolding hoare_def totalS_def
    using getUser_books same_books_ok getUser_view by (auto simp: books_ok_def) (metis same_books_ok books_ok_def)+
  have keep: "keeps (?has u) m" if "books.stays m" for u m
    using that by (rule books.stays_keeps) (auto simp: same_books_def books_ok_def)
  have save: "hoare (?has u) (writeS (save_user (u\<lparr>u_collSurplus := q\<rparr>))) (\<lambda>_. books_ok)" for u q
    by (rule hoare_writeS)
      (use save_user_books [of _ "u\<lparr>u_collSurplus := q\<rparr>"] in \<open>auto simp: books_ok_def\<close>)
  have body: "hoare (?has u) (bindS (createChange (getTransaction rnd ev)) (\<lambda>h.
      bindS (updateSystemStateByCollSurplusChange rnd (c h)) (\<lambda>_. bindS (finishChange h) (\<lambda>h'.
      bindS (writeS (save_surplus_change ((c h)\<lparr>sc_header := h'\<rparr>))) (\<lambda>_. writeS (save_user (u\<lparr>u_collSurplus := q\<rparr>))))))) (\<lambda>_. books_ok)"
    for u c q
    unfolding updateSystemStateByCollSurplusChange_def finishChange_def
    by (rule hoare_bindS, rule keep, intro books_steps createChange_books getTransaction_books,
      rule hoare_bindS, rule keep, intro books_steps, rule hoare_bindS, rule keep, intro books_steps,
      rule hoare_bindS, rule keep, intro books_steps, rule save)
  show ?thesis
    unfolding updateUserClaimColl_def Let_def
  proof (rule hoare_bindS [OF get], rule hoare_if)
    show "hoare (?has u) (retS ()) (\<lambda>_. books_ok)" for u by (rule hoare_retS) simp
  qed (rule body)
qed

lemma handle_event_books: "keeps books_ok (handle_event rnd ev e)"
proof -
  have liquidation: "books.stays (finishCurrentLiquidation rnd ev a b c d)" for a b c d
    unfolding finishCurrentLiquidation_def getCurrentLiquidation_def Let_def by (intro books_steps getTransaction_books)
  have redemption: "books.stays (finishCurrentRedemption rnd ev a b c)" for a b c
    unfolding finishCurrentRedemption_def getCurrentRedemption_def Let_def by (intro books_steps getTransaction_books)
  note steps = liquidation redemption updateStabilityDeposit_books withdrawal_books
  show ?thesis
    by (cases e) (simp_all add: create_template_def handleBorrowerVaultUpdated_def handleVaultUpdated_def
        handleVaultLiquidated_def handleLiquidation_def;
      intro updateUserClaimColl_books updateVault_books keeps_bindS keeps_prod steps [THEN books_stays_ok]
        books_steps [THEN books_stays_ok])+
qed

lemma indexes_books: "indexes rnd st \<Longrightarrow> books_ok st"
proof (induction rule: indexes.induct)
  case Indexes_start
  show ?case
    by (simp add: books_ok_def books_hold_def users_ok_def vaults_known_def vault_counters_def nothing_indexed_def getGlobal_def
        new_global_def having_def)
next
  case (Indexes_event st ev e st')
  from hoareD [OF handle_event_books Indexes_event.hyps(2) Indexes_event.IH] show ?case .
qed

text \<open>
  C9. The counters of vaults agree with the stored vaults. In every store that the indexer reaches, the numbers of
  vaults closed by liquidation, by redemption and by their owners are the numbers of stored vaults with
  these statuses, the number of open vaults is the number of stored open vaults and of users whose current vault
  is not stored yet, and the total is the sum of the four. A stored vault is open exactly while it
  is its owner's current vault.
\<close>

theorem vault_counters_agree:
  assumes "indexes rnd st"
  shows "g_liquidatedVaults (getGlobal st) = int (card (having (i_vaults st) ''closedByLiquidation'')) \<and>
    g_redeemedVaults (getGlobal st) = int (card (having (i_vaults st) ''closedByRedemption'')) \<and>
    g_vaultsClosedByOwner (getGlobal st) = int (card (having (i_vaults st) ''closedByOwner'')) \<and>
    g_openVaults (getGlobal st) = int (card (having (i_vaults st) ''open'')) +
      int (card {a. \<exists>u k. i_users st a = Some u \<and> u_currentVault u = Some k \<and> i_vaults st k = None}) \<and>
    g_totalVaults (getGlobal st) = g_openVaults (getGlobal st) + g_liquidatedVaults (getGlobal st) +
      g_redeemedVaults (getGlobal st) + g_vaultsClosedByOwner (getGlobal st) \<and>
    (\<forall>k v. i_vaults st k = Some v \<longrightarrow>
       (v_status v = ''open'' \<longleftrightarrow> (\<exists>u. i_users st (v_owner v) = Some u \<and> u_currentVault u = Some k)))"
proof -
  have ok: "users_ok st" and hold: "books_hold (vaults_known st) (i_vaults st) (vault_counters st)"
    using indexes_books [OF assms] by (simp_all add: books_ok_def)
  have view: "fst (vaults_known st a) = Some k \<longleftrightarrow> (\<exists>u. i_users st a = Some u \<and> u_currentVault u = Some k)" for a k
    by (auto simp: vaults_known_def split: option.splits)
  let ?phantoms = "{a. \<exists>u k. i_users st a = Some u \<and> u_currentVault u = Some k \<and> i_vaults st k = None}"
  let ?owners = "{a. \<exists>k. fst (vaults_known st a) = Some k \<and> i_vaults st k \<noteq> None}"
  have fin: "finite {a. fst (vaults_known st a) \<noteq> None}" using hold by (simp add: books_hold_def)
  have split: "{a. fst (vaults_known st a) \<noteq> None} = ?owners \<union> ?phantoms" "?owners \<inter> ?phantoms = {}" using view by auto
  have "finite ?owners" "finite ?phantoms" by (rule finite_subset [OF _ fin], use split(1) in blast)+
  then have "card {a. fst (vaults_known st a) \<noteq> None} = card ?owners + card ?phantoms"
    unfolding split(1) using split(2) by (rule card_Un_disjoint)
  moreover have "bij_betw (\<lambda>a. the (fst (vaults_known st a))) ?owners (having (i_vaults st) ''open'')"
  proof (rule bij_betw_byWitness [where f' = "\<lambda>k. v_owner (the (i_vaults st k))"])
    show "(\<lambda>a. the (fst (vaults_known st a))) ` ?owners \<subseteq> having (i_vaults st) ''open''"
      using current_is_open(1) [OF hold] by (auto simp: having_def)
    show "(\<lambda>k. v_owner (the (i_vaults st k))) ` having (i_vaults st) ''open'' \<subseteq> ?owners"
      using hold by (auto simp: having_def books_hold_def vault_booked_def)
    show "\<forall>a \<in> ?owners. v_owner (the (i_vaults st (the (fst (vaults_known st a))))) = a"
      using current_is_open(2) [OF hold] by auto
    show "\<forall>k \<in> having (i_vaults st) ''open''. the (fst (vaults_known st (v_owner (the (i_vaults st k))))) = k"
      using hold by (auto simp: having_def books_hold_def vault_booked_def)
  qed
  ultimately have open_count: "card {a. fst (vaults_known st a) \<noteq> None} = card (having (i_vaults st) ''open'') + card ?phantoms"
    by (simp add: bij_betw_same_card)
  have counters: "vault_counters st = (int (card {a. fst (vaults_known st a) \<noteq> None}), int (card (having (i_vaults st) ''closedByLiquidation'')),
          int (card (having (i_vaults st) ''closedByRedemption'')), int (card (having (i_vaults st) ''closedByOwner'')),
          int (card {a. fst (vaults_known st a) \<noteq> None}) + int (card (having (i_vaults st) ''closedByLiquidation'')) +
          int (card (having (i_vaults st) ''closedByRedemption'')) + int (card (having (i_vaults st) ''closedByOwner'')))"
    using hold unfolding books_hold_def by (elim conjE)
  have "v_status v = ''open'' \<longleftrightarrow> (\<exists>u. i_users st (v_owner v) = Some u \<and> u_currentVault u = Some k)" if "i_vaults st k = Some v" for k v
    using hold that by (simp add: books_hold_def vault_booked_def view)
  with counters open_count show ?thesis by (simp add: vault_counters_def Let_def)
qed

lemma vault_counters_agree_witness:
  "\<exists>st. indexes (\<lambda>x. x) st \<and> g_changeCount (getGlobal st) = 3 \<and>
     g_liquidatedVaults (getGlobal st) = int (card (having (i_vaults st) ''closedByLiquidation''))"
proof -
  obtain st where st: "index_events (\<lambda>x. x) opening_run nothing_indexed = Inr st" "g_changeCount (getGlobal st) = 3"
    using opening_run_counts by (auto simp: has_counts_def split: sum.splits)
  have i: "indexes (\<lambda>x. x) st" by (rule index_events_indexes [OF st(1) Indexes_start])
  from vault_counters_agree [OF i] i st(2) show ?thesis by blast
qed

section \<open>Orders of events that the handlers do not expect\<close>

text \<open>
  The contracts report a liquidation with \<open>VaultLiquidated\<close> and then \<open>VaultUpdated\<close> with no collateral and no debt. The second
  opens a vault that is never stored: it is counted as open, and the next event of a vault of the same borrower stops the indexer.
\<close>

definition liquidation_run :: "(chain_event \<times> protocol_event) list" where
  "liquidation_run =
     [(sample_event ''0xa'' 200, PriceFeedAddressChanged ''0xfeed''),
      (sample_event ''0xb'' 200, BorrowerVaultUpdated ''0x1'' (100 * SCALING_FACTOR) (2 * SCALING_FACTOR) 5 0),
      (sample_event ''0xd'' 200, VaultLiquidated ''0x1'' (100 * SCALING_FACTOR) (2 * SCALING_FACTOR) 1),
      (sample_event ''0xd'' 200, ManagerVaultUpdated ''0x1'' 0 0 0 1)]"

definition reopened :: protocol_event where
  "reopened = BorrowerVaultUpdated ''0x1'' (50 * SCALING_FACTOR) (2 * SCALING_FACTOR) 5 0"

lemma liquidation_stops_indexer:
  "case index_events (\<lambda>x. x) liquidation_run nothing_indexed of
     Inl _ \<Rightarrow> False
   | Inr st \<Rightarrow> g_openVaults (getGlobal st) = 1 \<and> g_liquidatedVaults (getGlobal st) = 1 \<and> i_vaults st ''0x1-1'' = None \<and>
       map_option v_status (i_vaults st ''0x1-0'') = Some ''closedByLiquidation'' \<and>
       handle_event (\<lambda>x. x) (sample_event ''0xe'' 200) reopened st = Inl TypeError"
  by (simp add: index_events_def liquidation_run_def reopened_def sample_event_def handleVaultLiquidated_def
      getCurrentLiquidation_def tryToOffsetWithTokensFromStabilityPool_def monad_defs store_defs entity_defs)

text \<open>
  When a depositor adds or withdraws tokens, the contract reports the new deposit before the loss since the last change; the
  handler of the loss subtracts it from the deposit that no longer contains it. Here 50 tokens remain of 100 after a loss of 30
  and a withdrawal of 20.
\<close>

definition deposit_run :: "protocol_event list \<Rightarrow> (chain_event \<times> protocol_event) list" where
  "deposit_run es = (sample_event ''0xa'' 200, PriceFeedAddressChanged ''0xfeed'') #
     (sample_event ''0xb'' 200, UserDepositChanged ''0x1'' (100 * SCALING_FACTOR)) # map (Pair (sample_event ''0xc'' 200)) es"

definition deposited :: "protocol_event list \<Rightarrow> rat option" where
  "deposited es = (case index_events (\<lambda>x. x) (deposit_run es) nothing_indexed of
     Inl _ \<Rightarrow> None | Inr st \<Rightarrow> map_option e_amount (i_deposits st ''0x1-0''))"

lemma loss_is_counted_twice:
  "deposited [UserDepositChanged ''0x1'' (50 * SCALING_FACTOR),
     RBTCGainWithdrawn ''0x1'' SCALING_FACTOR (30 * SCALING_FACTOR)] = Some 20"
  "deposited [RBTCGainWithdrawn ''0x1'' SCALING_FACTOR (30 * SCALING_FACTOR),
     UserDepositChanged ''0x1'' (70 * SCALING_FACTOR)] = Some 70"
  by (simp_all add: deposited_def deposit_run_def index_events_def sample_event_def
      withdrawCollateralGainFromStabilityDeposit_def monad_defs store_defs entity_defs)

text \<open>A depositor who withdraws the whole deposit with a gain stops the indexer.\<close>

lemma closing_deposit_stops_indexer:
  "index_events (\<lambda>x. x) (deposit_run [UserDepositChanged ''0x1'' 0, RBTCGainWithdrawn ''0x1'' SCALING_FACTOR 0]) nothing_indexed =
     Inl TypeError"
  by (simp add: deposit_run_def index_events_def sample_event_def
      withdrawCollateralGainFromStabilityDeposit_def monad_defs store_defs entity_defs)

end
