(* ===== verification/Editors.thy ===== *)
theory Editors
  imports Deposits Fee_Rates Vault_Validation
begin

text \<open>
  The editors of \<open>packages/dev-frontend/src/components\<close>: the reducers of \<open>VaultManager.tsx\<close>,
  \<open>StabilityDepositManager.tsx\<close>, \<open>StakingManager.tsx\<close> and \<open>StakingViewProvider.tsx\<close>, the validation of deposits, and what
  \<open>RedemptionManager.tsx\<close> computes. Layout is left out; a text is kept with the amounts it shows. Of an update of the store a
  reducer is given the properties it reads.
\<close>

section \<open>The vault editor\<close>

record vault_editor =
  ve_original :: user_vault
  ve_edited :: vault
  ve_changePending :: bool
  ve_debtDirty :: bool
  ve_addedMinimumDebt :: bool

text \<open>The last is an update of the store to a vault, with whether the vault before redistribution changed.\<close>

datatype vault_action =
    StartVaultChange
  | FinishVaultChange
  | RevertVault
  | AddMinimumDebt
  | RemoveMinimumDebt
  | EditCollateral decimalish
  | EditDebt decimalish
  | UpdateVault user_vault bool

definition copy_of :: "user_vault \<Rightarrow> vault" where
  "copy_of v = Vault (collateral v) (debt v)"

definition vault_editor_init :: "user_vault \<Rightarrow> vault_editor" where
  "vault_editor_init v = \<lparr>ve_original = v, ve_edited = copy_of v, ve_changePending = False, ve_debtDirty = False,
     ve_addedMinimumDebt = False\<rparr>"

definition finishVaultChange :: "vault_editor \<Rightarrow> vault_editor" where
  "finishVaultChange s = s\<lparr>ve_changePending := False\<rparr>"

definition revertVault :: "vault_editor \<Rightarrow> vault_editor" where
  "revertVault s = s\<lparr>ve_edited := copy_of (ve_original s), ve_debtDirty := False, ve_addedMinimumDebt := False\<rparr>"

definition addMinimumDebt :: "vault_editor \<Rightarrow> vault_editor result" where
  "addMinimumDebt s = bindE (setDebt (ve_edited s) (DDecimal BPD_MINIMUM_DEBT)) (\<lambda>v.
     Inr (s\<lparr>ve_edited := v, ve_addedMinimumDebt := True\<rparr>))"

definition removeMinimumDebt :: "vault_editor \<Rightarrow> vault_editor result" where
  "removeMinimumDebt s = bindE (setDebt (ve_edited s) (DNumber ''0'')) (\<lambda>v.
     Inr (s\<lparr>ve_edited := v, ve_addedMinimumDebt := False\<rparr>))"

definition editCollateral :: "vault_editor \<Rightarrow> decimalish \<Rightarrow> vault_editor result" where
  "editCollateral s newValue =
     bindE (from_d newValue) (\<lambda>newCollateral.
     bindE (setCollateral (ve_edited s) (DDecimal newCollateral)) (\<lambda>v.
       let newState = s\<lparr>ve_edited := v\<rparr> in
       if \<not> ve_debtDirty s \<and> isEmpty (ve_edited s) \<and> nonZero newCollateral \<noteq> None then addMinimumDebt newState
       else if \<not> ve_debtDirty s \<and> ve_addedMinimumDebt s \<and> isZero newCollateral then removeMinimumDebt newState
       else Inr newState))"

definition updateVaultEditor :: "vault_editor \<Rightarrow> user_vault \<Rightarrow> bool \<Rightarrow> vault_editor result" where
  "updateVaultEditor s v changeCommitted =
     (let newState = s\<lparr>ve_original := v\<rparr> in
      if ve_changePending s \<and> changeCommitted then Inr (finishVaultChange (revertVault newState))
      else bindE (whatChanged (ve_original s) (ve_edited s) (Some (DNumber ''0''))) (\<lambda>change.
        if (case change of None \<Rightarrow> False | Some c \<Rightarrow> is_creation c \<and> \<not> isEmpty v \<or> is_closure c \<and> isEmpty v)
        then Inr (revertVault newState)
        else bindE (apply_v v change (Some (DNumber ''0''))) (\<lambda>e. Inr (newState\<lparr>ve_edited := e\<rparr>))))"

fun vault_editor_reduce :: "vault_editor \<Rightarrow> vault_action \<Rightarrow> vault_editor result" where
  "vault_editor_reduce s StartVaultChange = Inr (s\<lparr>ve_changePending := True\<rparr>)"
| "vault_editor_reduce s FinishVaultChange = Inr (finishVaultChange s)"
| "vault_editor_reduce s (EditCollateral x) = editCollateral s x"
| "vault_editor_reduce s (EditDebt x) =
     bindE (setDebt (ve_edited s) x) (\<lambda>v. Inr (s\<lparr>ve_edited := v, ve_debtDirty := True\<rparr>))"
| "vault_editor_reduce s AddMinimumDebt = addMinimumDebt s"
| "vault_editor_reduce s RemoveMinimumDebt = removeMinimumDebt s"
| "vault_editor_reduce s RevertVault = Inr (revertVault s)"
| "vault_editor_reduce s (UpdateVault v c) = updateVaultEditor s v c"

definition feeFrom :: "'a vault_scheme \<Rightarrow> 'b vault_scheme \<Rightarrow> decimal \<Rightarrow> decimal result" where
  "feeFrom original edited rate =
     bindE (whatChanged original edited (Some (DDecimal rate))) (\<lambda>change.
       Inr (case change of
              None \<Rightarrow> ZERO
            | Some c \<Rightarrow> if is_invalidCreation c then ZERO
                        else case borrowBPD (change_params c) of None \<Rightarrow> ZERO | Some b \<Rightarrow> mul_dec b rate))"

text \<open>What \<open>CLOSING\<close> and other properties of the component dispatch.\<close>

definition initial_edits :: "decimalish option \<Rightarrow> decimalish option \<Rightarrow> vault_action list" where
  "initial_edits coll deb = (case coll of None \<Rightarrow> [] | Some x \<Rightarrow> [EditCollateral x]) @
     (case deb of None \<Rightarrow> [] | Some x \<Rightarrow> [EditDebt x])"

section \<open>The editor of stability deposits\<close>

record deposit_editor =
  de_original :: stability_deposit
  de_editedBPD :: decimal
  de_changePending :: bool

datatype deposit_action =
    StartDepositChange
  | FinishDepositChange
  | RevertDeposit
  | EditDeposit decimalish
  | UpdateDeposit "stability_deposit option"

definition deposit_editor_init :: "stability_deposit \<Rightarrow> deposit_editor" where
  "deposit_editor_init d = \<lparr>de_original = d, de_editedBPD = currentBPD d, de_changePending = False\<rparr>"

definition finishDepositChange :: "deposit_editor \<Rightarrow> deposit_editor" where
  "finishDepositChange s = s\<lparr>de_changePending := False\<rparr>"

definition revertDeposit :: "deposit_editor \<Rightarrow> deposit_editor" where
  "revertDeposit s = s\<lparr>de_editedBPD := currentBPD (de_original s)\<rparr>"

definition deposit_committed :: "stability_deposit \<Rightarrow> stability_deposit \<Rightarrow> bool" where
  "deposit_committed original updated \<longleftrightarrow> initialBPD updated \<noteq> initialBPD original \<or>
     currentBPD updated > currentBPD original \<or> sd_collateralGain updated < sd_collateralGain original \<or>
     mpReward updated < mpReward original"

fun deposit_editor_reduce :: "deposit_editor \<Rightarrow> deposit_action \<Rightarrow> deposit_editor result" where
  "deposit_editor_reduce s StartDepositChange = Inr (s\<lparr>de_changePending := True\<rparr>)"
| "deposit_editor_reduce s FinishDepositChange = Inr (finishDepositChange s)"
| "deposit_editor_reduce s (EditDeposit x) = bindE (from_d x) (\<lambda>d. Inr (s\<lparr>de_editedBPD := d\<rparr>))"
| "deposit_editor_reduce s RevertDeposit = Inr (revertDeposit s)"
| "deposit_editor_reduce s (UpdateDeposit None) = Inr s"
| "deposit_editor_reduce s (UpdateDeposit (Some updated)) =
     (let newState = s\<lparr>de_original := updated\<rparr> in
      if de_changePending s \<and> deposit_committed (de_original s) updated
      then Inr (finishDepositChange (revertDeposit newState))
      else bindE (sd_whatChanged (de_original s) (DDecimal (de_editedBPD s))) (\<lambda>change.
        bindE (sd_apply updated change) (\<lambda>e. Inr (newState\<lparr>de_editedBPD := e\<rparr>))))"

text \<open>The method \<open>gt\<close> of a value that is a \<open>Decimal\<close> unless it was made by other code.\<close>

definition exceeds :: "decimalish option \<Rightarrow> decimal \<Rightarrow> bool result" where
  "exceeds x balance = (case x of None \<Rightarrow> Inr False | Some (DDecimal d) \<Rightarrow> gt_d d (DDecimal balance) | Some _ \<Rightarrow> Inl TypeError)"

definition excess :: "decimalish option \<Rightarrow> decimal \<Rightarrow> string result" where
  "excess x balance = (case x of Some (DDecimal d) \<Rightarrow> bindE (sub_d d (DDecimal balance)) (\<lambda>e. prettify e 2) | _ \<Rightarrow> Inl TypeError)"

datatype deposit_description =
    OwnFrontend
  | DepositExceedsBalance string
  | UndercollateralizedVaults
  | StabilityAction stability_deposit stability_deposit_change

record deposit_context =
  dx_bpdBalance :: decimal
  dx_haveOwnFrontend :: bool
  dx_haveUndercollateralizedVaults :: bool

definition validateStabilityDepositChange ::
  "stability_deposit \<Rightarrow> decimal \<Rightarrow> deposit_context \<Rightarrow> (stability_deposit_change option \<times> deposit_description option) result" where
  "validateStabilityDepositChange originalDeposit editedBPD ctx =
     bindE (sd_whatChanged originalDeposit (DDecimal editedBPD)) (\<lambda>change.
       if dx_haveOwnFrontend ctx then Inr (None, Some OwnFrontend)
       else case change of
         None \<Rightarrow> Inr (None, None)
       | Some c \<Rightarrow>
           bindE (exceeds (depositBPD c) (dx_bpdBalance ctx)) (\<lambda>tooMuch.
           if tooMuch then bindE (excess (depositBPD c) (dx_bpdBalance ctx)) (\<lambda>s. Inr (None, Some (DepositExceedsBalance s)))
           else if withdrawBPD c \<noteq> None \<and> dx_haveUndercollateralizedVaults ctx then Inr (None, Some UndercollateralizedVaults)
           else Inr (Some c, Some (StabilityAction originalDeposit c))))"

text \<open>What the description says: whether tokens are deposited or withdrawn, how many, and the gains that are claimed.\<close>

definition pretty_method :: "decimalish option \<Rightarrow> string result" where
  "pretty_method x = (case x of Some (DDecimal d) \<Rightarrow> prettify d 2 | _ \<Rightarrow> Inl TypeError)"

definition pretty_gain :: "decimal \<Rightarrow> int \<Rightarrow> string \<Rightarrow> string list result" where
  "pretty_gain d precision unit =
     (case nonZero d of None \<Rightarrow> Inr [] | Some g \<Rightarrow> bindE (prettify g precision) (\<lambda>s. Inr [s @ unit]))"

definition StabilityActionDescription ::
  "string \<Rightarrow> stability_deposit \<Rightarrow> stability_deposit_change \<Rightarrow> (bool \<times> string \<times> string list) result" where
  "StabilityActionDescription GT originalDeposit change =
     bindE (pretty_gain (sd_collateralGain originalDeposit) 4 '' RBTC'') (\<lambda>gain.
     bindE (pretty_gain (mpReward originalDeposit) 2 ('' '' @ GT)) (\<lambda>reward.
     bindE (if depositBPD change \<noteq> None then pretty_method (depositBPD change) else pretty_method (withdrawBPD change)) (\<lambda>amt.
       Inr (depositBPD change \<noteq> None, amt, gain @ reward))))"

section \<open>The editor of stakes\<close>

record stake_editor =
  se_original :: mp_stake
  se_editedMP :: decimal

datatype stake_action =
    RevertStake
  | EditStake decimalish
  | UpdateStake "mp_stake option"

definition stake_editor_init :: "mp_stake \<Rightarrow> stake_editor" where
  "stake_editor_init s = \<lparr>se_original = s, se_editedMP = stakedMP s\<rparr>"

fun stake_editor_reduce :: "stake_editor \<Rightarrow> stake_action \<Rightarrow> stake_editor result" where
  "stake_editor_reduce s (EditStake x) = bindE (from_d x) (\<lambda>d. Inr (s\<lparr>se_editedMP := d\<rparr>))"
| "stake_editor_reduce s RevertStake = Inr (s\<lparr>se_editedMP := stakedMP (se_original s)\<rparr>)"
| "stake_editor_reduce s (UpdateStake None) = Inr s"
| "stake_editor_reduce s (UpdateStake (Some updated)) =
     bindE (mp_whatChanged (se_original s) (DDecimal (se_editedMP s))) (\<lambda>change.
     bindE (mp_apply updated change) (\<lambda>e. Inr \<lparr>se_original = updated, se_editedMP = e\<rparr>))"

datatype stake_description =
    StakeExceedsBalance string
  | StakingAction mp_stake mp_stake_change

definition validate_stake :: "mp_stake \<Rightarrow> decimal \<Rightarrow> decimal \<Rightarrow> (mp_stake_change option \<times> stake_description option) result" where
  "validate_stake originalStake editedMP balance =
     bindE (mp_whatChanged originalStake (DDecimal editedMP)) (\<lambda>change.
       case change of
         None \<Rightarrow> Inr (None, None)
       | Some c \<Rightarrow> bindE (exceeds (stakeMP c) balance) (\<lambda>tooMuch.
           if tooMuch then bindE (excess (stakeMP c) balance) (\<lambda>s. Inr (None, Some (StakeExceedsBalance s)))
           else Inr (Some c, Some (StakingAction originalStake c))))"

text \<open>The amounts of the description: staked and withdrawn tokens, and the gains that are claimed.\<close>

definition StakingManagerActionDescription ::
  "string \<Rightarrow> string \<Rightarrow> mp_stake \<Rightarrow> mp_stake_change \<Rightarrow> (string option \<times> string option \<times> string list) result" where
  "StakingManagerActionDescription GT COIN originalStake change =
     bindE (case stakeMP change of None \<Rightarrow> Inr None | x \<Rightarrow> bindE (pretty_method x) (\<lambda>s. Inr (Some (s @ '' '' @ GT)))) (\<lambda>stake.
     bindE (case unstakeMP change of None \<Rightarrow> Inr None | x \<Rightarrow> bindE (pretty_method x) (\<lambda>s. Inr (Some (s @ '' '' @ GT)))) (\<lambda>unstake.
     bindE (pretty_gain (mp_collateralGain originalStake) 4 '' RBTC'') (\<lambda>gain.
     bindE (pretty_gain (bpdGain originalStake) 2 ('' '' @ COIN)) (\<lambda>bpd.
       Inr (if mp_isEmpty originalStake \<and> stake \<noteq> None then (stake, None, []) else (stake, unstake, gain @ bpd))))))"

section \<open>The view of the stake\<close>

record staking_view =
  sv_mpStake :: mp_stake
  sv_changePending :: bool
  sv_adjusting :: bool

text \<open>An update of the store comes with the old stake and, if it changed, the new one.\<close>

datatype staking_view_action =
    StartAdjusting
  | CancelAdjusting
  | StartStakeChange
  | AbortStakeChange
  | UpdateStakeView mp_stake "mp_stake option"

definition staking_view_init :: "mp_stake \<Rightarrow> staking_view" where
  "staking_view_init s = \<lparr>sv_mpStake = s, sv_changePending = False, sv_adjusting = False\<rparr>"

definition stake_committed :: "mp_stake \<Rightarrow> mp_stake \<Rightarrow> bool" where
  "stake_committed oldStake updated \<longleftrightarrow> stakedMP updated \<noteq> stakedMP oldStake \<or>
     mp_collateralGain updated < mp_collateralGain oldStake \<or> bpdGain updated < bpdGain oldStake"

fun staking_view_reduce :: "staking_view \<Rightarrow> staking_view_action \<Rightarrow> staking_view" where
  "staking_view_reduce s StartAdjusting = s\<lparr>sv_adjusting := True\<rparr>"
| "staking_view_reduce s CancelAdjusting = s\<lparr>sv_adjusting := False\<rparr>"
| "staking_view_reduce s StartStakeChange = s\<lparr>sv_changePending := True\<rparr>"
| "staking_view_reduce s AbortStakeChange = s\<lparr>sv_changePending := False\<rparr>"
| "staking_view_reduce s (UpdateStakeView oldStake None) = s"
| "staking_view_reduce s (UpdateStakeView oldStake (Some updated)) =
     s\<lparr>sv_mpStake := updated, sv_adjusting := False,
       sv_changePending := (if stake_committed oldStake updated then False else sv_changePending s)\<rparr>"

definition staking_view_of :: "staking_view \<Rightarrow> string" where
  "staking_view_of s = (if sv_adjusting s then ''ADJUSTING'' else if mp_isEmpty (sv_mpStake s) then ''NONE'' else ''ACTIVE'')"

section \<open>Redemption\<close>

record redemption_context =
  rx_price :: decimal
  rx_fees :: fees
  rx_total :: vault
  rx_bpdBalance :: decimal

datatype redemption_description =
    TotalRatioTooLow string
  | RedemptionExceedsBalance string
  | RedeemFor string string

record redemption_panel =
  rp_collateral :: decimal
  rp_rate :: decimal
  rp_fee :: decimal
  rp_maxRate :: decimal
  rp_canRedeem :: bool
  rp_description :: redemption_description

definition RedemptionManager :: "redemption_context \<Rightarrow> decimal \<Rightarrow> redemption_panel result" where
  "RedemptionManager ctx bpdAmount =
     (let ethAmount = div_dec bpdAmount (rx_price ctx) in
      bindE (redemptionRate (rx_fees ctx) (Some (DDecimal (div_dec bpdAmount (debt (rx_total ctx))))) None) (\<lambda>rate.
      let ethFee = mul_dec ethAmount rate in
      bindE (add_d rate (DNumber ''0.001'')) (\<lambda>maxRate.
      bindE (collateralRatioIsBelowMinimum (rx_total ctx) (DDecimal (rx_price ctx))) (\<lambda>low.
      bindE (if low then bindE (threshold_percent MINIMUM_COLLATERAL_RATIO) (\<lambda>s. Inr (False, TotalRatioTooLow s))
             else if bpdAmount > rx_bpdBalance ctx
             then bindE (sub_dec bpdAmount (rx_bpdBalance ctx)) (\<lambda>e. bindE (prettify e 2) (\<lambda>s. Inr (False, RedemptionExceedsBalance s)))
             else bindE (sub_dec ethAmount ethFee) (\<lambda>n. bindE (prettify n 4) (\<lambda>s. bindE (prettify bpdAmount 2) (\<lambda>t.
               Inr (True, RedeemFor s t))))) (\<lambda>(can, d).
        Inr \<lparr>rp_collateral = ethAmount, rp_rate = rate, rp_fee = ethFee, rp_maxRate = maxRate, rp_canRedeem = can,
             rp_description = d\<rparr>)))))"

end
