(* ===== verification/Editor_Laws.thy ===== *)
theory Editor_Laws
  imports Editors
begin

text \<open>
  What the editors do when the store changes under an edit: they never lose it, except for the vault that appears or disappears,
  and they never throw, except for one case of the vault editor. The panel of redemptions and the validation of deposits and stakes
  are total.
\<close>

section \<open>Carrying an edit over\<close>

text \<open>An edited amount \<open>x\<close> of an original amount, when the original changes: the difference is kept, a zero stays zero.\<close>

definition moved :: "decimal \<Rightarrow> decimal \<Rightarrow> decimal \<Rightarrow> decimal" where
  "moved x original updated =
     (if x = ZERO \<and> original \<noteq> ZERO then ZERO
      else if x < original then monus updated (monus original x) else add_dec updated (monus x original))"

lemma moved_simps [simp]: "moved x original original = x" "moved x x updated = updated"
  by (auto simp: moved_def decimal_order decimal_eq_iff add_dec_def)

lemma moved_ZERO_original [simp]: "moved x ZERO updated = add_dec updated x"
  by (simp add: moved_def decimal_order)

context amount_diff
begin

lemma rebase: "\<exists>c. what_changed s (DDecimal d) = Inr c \<and> apply_change t c = Inr (moved d (amount s) (amount t))"
proof -
  have d: "from_d (DDecimal d) = Inr d" by simp
  consider "amount s < d" | "amount s = d" | "d < amount s" by (rule linorder_cases)
  then show ?thesis
  proof cases
    case 1
    then have "moved d (amount s) (amount t) = add_dec (amount t) (monus d (amount s))"
      by (auto simp: moved_def decimal_order)
    with increase [OF d 1] show ?thesis by metis
  next
    case 2
    then show ?thesis using unchanged [of "DDecimal d" s] apply_None [of t] by (auto intro!: exI [of _ None])
  next
    case 3
    then have "amount s \<noteq> ZERO" by (auto simp: decimal_order)
    with 3 have "moved d (amount s) (amount t) = (if d = ZERO then ZERO else monus (amount t) (monus (amount s) d))"
      by (simp add: moved_def)
    with decrease [OF d 3] show ?thesis by metis
  qed
qed

end

section \<open>The vault editor\<close>

text \<open>The rate that the editor computes its changes with.\<close>

lemma zero_rate: "from_d (rateOrDefault (Some (DNumber ''0''))) = Inr ZERO"
  by (simp add: rateOrDefault_def del: from_d.simps)

lemma refee_ZERO: "mul_dec (divCeil_dec d ONE) ONE = d"
  using refee_bounds [of d ZERO] by (simp add: refee_def decimal_eq_iff less_eq_decimal_def)

lemma apply_moved_adjustment:
  assumes "\<not> isEmpty e"
  shows "apply_v v (Some (Adjustment (adjustment_between ZERO b e) (setToZero_of b e))) (Some (DNumber ''0'')) =
    Inr (Vault (moved (collateral e) (collateral b) (collateral v)) (moved (debt e) (debt b) (debt v)))"
  using assms refee_ZERO
  by (auto simp: apply_v_def rateOrDefault_def applyAdjustment_eq [OF small_literals(1)] adjustment_between_def setToZero_of_def moved_def
      isEmpty_iff decimal_order not_less Let_def decimal_eq_iff add_dec_def)

text \<open>Vaults that the protocol keeps: empty ones, and those whose debt covers the liquidation reserve.\<close>

definition covered :: "'a vault_scheme \<Rightarrow> bool" where
  "covered v \<longleftrightarrow> isEmpty v \<or> BPD_LIQUIDATION_RESERVE \<le> debt v"

definition carried :: "'a vault_scheme \<Rightarrow> vault \<Rightarrow> 'b vault_scheme \<Rightarrow> vault" where
  "carried original edited v =
     (if isEmpty original \<noteq> isEmpty edited then edited
      else Vault (moved (collateral edited) (collateral original) (collateral v)) (moved (debt edited) (debt original) (debt v)))"

lemma updateVaultEditor_eq:
  assumes "covered (ve_original s)" "\<not> (ve_changePending s \<and> committed)"
  shows "updateVaultEditor s v committed =
    (if isEmpty (ve_original s) \<and> \<not> isEmpty (ve_edited s) \<and> \<not> isEmpty v
     then if debt (ve_edited s) < BPD_LIQUIDATION_RESERVE then Inl cantCreate else Inr (revertVault (s\<lparr>ve_original := v\<rparr>))
     else if \<not> isEmpty (ve_original s) \<and> isEmpty (ve_edited s) \<and> isEmpty v then Inr (revertVault (s\<lparr>ve_original := v\<rparr>))
     else Inr (s\<lparr>ve_original := v, ve_edited := carried (ve_original s) (ve_edited s) v\<rparr>))"
proof -
  let ?o = "ve_original s" and ?e = "ve_edited s" and ?r = "Some (DNumber ''0'')"
  note defs = updateVaultEditor_def Let_def carried_def
  consider (same) "collateral ?o = collateral ?e \<and> debt ?o = debt ?e"
    | (invalid) "isEmpty ?o" "\<not> isEmpty ?e" "debt ?e < BPD_LIQUIDATION_RESERVE"
    | (creation) "isEmpty ?o" "\<not> isEmpty ?e" "BPD_LIQUIDATION_RESERVE \<le> debt ?e"
    | (closure) "\<not> isEmpty ?o" "isEmpty ?e"
    | (adjustment) "\<not> isEmpty ?o" "\<not> isEmpty ?e" "\<not> (collateral ?o = collateral ?e \<and> debt ?o = debt ?e)"
    by (cases "isEmpty ?o"; cases "isEmpty ?e"; force simp: isEmpty_iff not_less)
  then show ?thesis
  proof cases
    case same
    then have "isEmpty ?o = isEmpty ?e" by (simp add: isEmpty_iff)
    with same assms(2) show ?thesis by (auto simp: defs whatChanged_def apply_v_def)
  next
    case invalid
    then have "whatChanged ?o ?e ?r = Inr (Some (InvalidCreation ?e MissingLiquidationReserve))"
      by (auto simp: whatChanged_def isEmpty_iff)
    with invalid assms(2) show ?thesis by (auto simp: defs apply_v_def)
  next
    case creation
    from whatChanged_creation [OF zero_rate this(1,3)] apply_creation [OF zero_rate _ creation(3), of v]
      creation assms(2) show ?thesis
      by (auto simp: defs close_to_ZERO_rate)
  next
    case closure
    then have "BPD_LIQUIDATION_RESERVE \<le> debt ?o" using assms(1) by (simp add: covered_def)
    from whatChanged_closure [OF closure this] closure assms(2) show ?thesis
      by (auto simp: defs apply_v_def isEmpty_iff)
  next
    case adjustment
    from whatChanged_adjustment [OF zero_rate adjustment] apply_moved_adjustment [OF adjustment(2), of v ?o] adjustment assms(2)
    show ?thesis by (auto simp: defs)
  qed
qed


definition sample_vault :: "nat \<Rightarrow> nat \<Rightarrow> user_vault" where
  "sample_vault c d = \<lparr>collateral = Decimal (c * DIGITS), debt = Decimal (d * DIGITS), ownerAddress = ''0x1'', status = Open\<rparr>"


text \<open>The user's edits and the updates of a store that keeps covered vaults.\<close>

inductive edits :: "vault_editor \<Rightarrow> bool" where
  Edits_init: "covered v \<Longrightarrow> edits (vault_editor_init v)"
| Edits_start: "edits s \<Longrightarrow> edits (s\<lparr>ve_changePending := True\<rparr>)"
| Edits_finish: "edits s \<Longrightarrow> vault_editor_reduce s FinishVaultChange = Inr s' \<Longrightarrow> edits s'"
| Edits_revert: "edits s \<Longrightarrow> vault_editor_reduce s RevertVault = Inr s' \<Longrightarrow> edits s'"
| Edits_collateral: "edits s \<Longrightarrow> vault_editor_reduce s (EditCollateral x) = Inr s' \<Longrightarrow> edits s'"
| Edits_debt: "edits s \<Longrightarrow> vault_editor_reduce s (EditDebt x) = Inr s' \<Longrightarrow> edits s'"
| Edits_store: "edits s \<Longrightarrow> covered v \<Longrightarrow> vault_editor_reduce s (UpdateVault v c) = Inr s' \<Longrightarrow> edits s'"

definition debt_by_default :: "vault_editor \<Rightarrow> bool" where
  "debt_by_default s \<longleftrightarrow> covered (ve_original s) \<and> (\<not> ve_debtDirty s \<longrightarrow>
     (if ve_addedMinimumDebt s then debt (ve_edited s) = BPD_MINIMUM_DEBT \<and> isEmpty (ve_original s)
      else debt (ve_edited s) = debt (ve_original s)))"

lemma debt_by_default_revert: "covered (ve_original s) \<Longrightarrow> debt_by_default (revertVault s)"
  by (simp add: debt_by_default_def revertVault_def copy_of_def)

lemma reserve_below_minimum: "ZERO < BPD_LIQUIDATION_RESERVE" "BPD_LIQUIDATION_RESERVE \<le> BPD_MINIMUM_DEBT" "BPD_MINIMUM_DEBT \<noteq> ZERO"
  by (simp_all add: constant_defs decimal_order decimal_eq_iff add_dec_def)

lemma covered_isEmpty: "covered v \<Longrightarrow> isEmpty v \<longleftrightarrow> debt v = ZERO"
  using reserve_below_minimum(1) by (auto simp: covered_def isEmpty_iff leD)

lemma debt_by_default_collateral:
  assumes "debt_by_default s" "editCollateral s x = Inr s'"
  shows "debt_by_default s'"
  using assms covered_isEmpty [of "ve_original s"]
  by (auto simp: editCollateral_def bindE_eq_Inr_iff addMinimumDebt_def removeMinimumDebt_def debt_by_default_def Let_def
      isEmpty_iff isZero_iff setDebt_def simp del: from_d.simps(3) split: if_splits)

lemma debt_by_default_store:
  assumes "debt_by_default s" "covered v" "updateVaultEditor s v c = Inr s'"
  shows "debt_by_default s'"
proof (cases "ve_changePending s \<and> c")
  case True
  with assms show ?thesis
    by (auto simp: updateVaultEditor_def finishVaultChange_def revertVault_def copy_of_def debt_by_default_def)
next
  case False
  let ?o = "ve_original s" and ?e = "ve_edited s" and ?n = "s\<lparr>ve_original := v, ve_edited := carried (ve_original s) (ve_edited s) v\<rparr>"
  have o: "covered ?o" using assms(1) by (simp add: debt_by_default_def)
  have "s' = revertVault (s\<lparr>ve_original := v\<rparr>) \<or> s' = ?n \<and> (isEmpty ?o \<and> \<not> isEmpty ?e \<longrightarrow> isEmpty v)"
    using assms(3) by (auto simp: updateVaultEditor_eq [OF o False] split: if_splits)
  moreover have "debt_by_default ?n" if "isEmpty ?o \<and> \<not> isEmpty ?e \<longrightarrow> isEmpty v"
  proof (cases "isEmpty ?o")
    case True
    with that assms(1,2) reserve_below_minimum(3) covered_isEmpty [of v] show ?thesis
      by (auto simp: debt_by_default_def carried_def isEmpty_iff)
  next
    case False
    then have "ve_debtDirty s \<or> debt ?e = debt ?o \<and> \<not> isEmpty ?e \<and> \<not> ve_addedMinimumDebt s"
      using assms(1) covered_isEmpty [OF o] by (auto simp: debt_by_default_def isEmpty_iff split: if_splits)
    with False assms(1,2) show ?thesis by (auto simp: debt_by_default_def carried_def)
  qed
  moreover have "debt_by_default (revertVault (s\<lparr>ve_original := v\<rparr>))" by (rule debt_by_default_revert) (simp add: assms(2))
  ultimately show ?thesis by blast
qed

lemma edits_debt_by_default: "edits s \<Longrightarrow> debt_by_default s"
proof (induction rule: edits.induct)
  case (Edits_init v)
  then show ?case by (simp add: debt_by_default_def vault_editor_init_def copy_of_def)
next
  case (Edits_collateral s x s')
  then show ?case using debt_by_default_collateral by simp
next
  case (Edits_store s v c s')
  then show ?case using debt_by_default_store by simp
qed (auto simp: debt_by_default_def finishVaultChange_def revertVault_def copy_of_def bindE_eq_Inr_iff)

text \<open>
  Until the user enters a debt, the editor shows one by rule: the original debt, or, while collateral is entered for a
  vault that does not exist, the minimum debt. This survives all edits and all updates of the store.
\<close>

lemma untouched_debt:
  assumes "edits s" "\<not> ve_debtDirty s"
  shows "debt (ve_edited s) = (if ve_addedMinimumDebt s then BPD_MINIMUM_DEBT else debt (ve_original s)) \<and>
    (ve_addedMinimumDebt s \<longrightarrow> isEmpty (ve_original s))"
  using edits_debt_by_default [OF assms(1)] assms(2) by (auto simp: debt_by_default_def)

lemma untouched_debt_witness:
  "\<exists>s. edits s \<and> debt (ve_edited s) = BPD_MINIMUM_DEBT \<and> isEmpty (ve_original s)"
proof -
  have empty: "covered (sample_vault 0 0)" by (simp add: covered_def isEmpty_iff sample_vault_def decimal_eq_iff)
  let ?s = "(vault_editor_init (sample_vault 0 0))\<lparr>ve_edited := Vault ONE BPD_MINIMUM_DEBT, ve_addedMinimumDebt := True\<rparr>"
  have "copy_of (sample_vault 0 0) = emptyVault" by (simp add: copy_of_def sample_vault_def emptyVault_def ZERO_def)
  then have "vault_editor_reduce (vault_editor_init (sample_vault 0 0)) (EditCollateral (DDecimal ONE)) = Inr ?s"
    by (simp add: editCollateral_def addMinimumDebt_def vault_editor_init_def Let_def nonZero_def)
  from Edits_collateral [OF Edits_init [OF empty] this] have s: "edits ?s" .
  from untouched_debt [OF s] s show ?thesis by (auto simp: vault_editor_init_def)
qed

section \<open>Deposits and stakes\<close>

text \<open>
  C18. The editors of the stability deposit and of the stake follow the store without ever throwing: an update keeps
  the difference between the edited and the original amount, stopping at zero, and an amount set to zero stays zero;
  an update that leaves the amount as it was keeps the edit. Only the update that commits the user's own change to the deposit
  drops the edit and ends the change.
\<close>

theorem amount_editors_follow_store:
  "deposit_editor_reduce s (UpdateDeposit (Some d)) =
     Inr (if de_changePending s \<and> deposit_committed (de_original s) d
          then \<lparr>de_original = d, de_editedBPD = currentBPD d, de_changePending = False\<rparr>
          else s\<lparr>de_original := d, de_editedBPD := moved (de_editedBPD s) (currentBPD (de_original s)) (currentBPD d)\<rparr>) \<and>
   stake_editor_reduce t (UpdateStake (Some m)) =
     Inr \<lparr>se_original = m, se_editedMP = moved (se_editedMP t) (stakedMP (se_original t)) (stakedMP m)\<rparr> \<and>
   moved x c c = x \<and> (c \<noteq> ZERO \<longrightarrow> moved ZERO c c' = ZERO) \<and>
   (x \<noteq> ZERO \<or> c = ZERO \<longrightarrow> int (bigNumber (moved x c c')) = max 0 (int (bigNumber c') + int (bigNumber x) - int (bigNumber c)))"
proof -
  obtain dc where "sd_whatChanged (de_original s) (DDecimal (de_editedBPD s)) = Inr dc"
      "sd_apply d dc = Inr (moved (de_editedBPD s) (currentBPD (de_original s)) (currentBPD d))"
    using deposit.rebase [of "de_original s" "de_editedBPD s" d] by blast
  moreover obtain mc where "mp_whatChanged (se_original t) (DDecimal (se_editedMP t)) = Inr mc"
      "mp_apply m mc = Inr (moved (se_editedMP t) (stakedMP (se_original t)) (stakedMP m))"
    using mpstake.rebase [of "se_original t" "se_editedMP t" m] by blast
  ultimately show ?thesis
    by (auto simp: finishDepositChange_def revertDeposit_def Let_def moved_def decimal_order decimal_eq_iff add_dec_def)
qed

definition deposit_of :: "nat \<Rightarrow> stability_deposit" where
  "deposit_of n = \<lparr>initialBPD = Decimal (n * DIGITS), currentBPD = Decimal (n * DIGITS), sd_collateralGain = ZERO, mpReward = ZERO,
     frontendTag = []\<rparr>"

lemma amount_editors_follow_store_witness:
  "deposit_editor_reduce \<lparr>de_original = deposit_of 100, de_editedBPD = Decimal (70 * DIGITS), de_changePending = False\<rparr>
     (UpdateDeposit (Some (deposit_of 90))) =
   Inr \<lparr>de_original = deposit_of 90, de_editedBPD = Decimal (60 * DIGITS), de_changePending = False\<rparr>"
  using amount_editors_follow_store [of "\<lparr>de_original = deposit_of 100, de_editedBPD = Decimal (70 * DIGITS), de_changePending = False\<rparr>"
      "deposit_of 90" "stake_editor_init (new_MPStake None None None)" "new_MPStake None None None" ONE ONE HALF]
  by (simp add: deposit_of_def moved_def decimal_order decimal_eq_iff monus_def DIGITS_def)

lemma whatChanged_cases:
  "sd_whatChanged d (DDecimal e) =
     Inr (if e = currentBPD d then None
          else if currentBPD d < e
          then Some \<lparr>depositBPD = Some (DDecimal (monus e (currentBPD d))), withdrawBPD = None, withdrawAllBPD = False\<rparr>
          else Some \<lparr>depositBPD = None, withdrawBPD = Some (DDecimal (monus (currentBPD d) e)), withdrawAllBPD = isZero e\<rparr>)"
  "mp_whatChanged t (DDecimal e) =
     Inr (if e = stakedMP t then None
          else if stakedMP t < e
          then Some \<lparr>stakeMP = Some (DDecimal (monus e (stakedMP t))), unstakeMP = None, unstakeAllMP = False\<rparr>
          else Some \<lparr>stakeMP = None, unstakeMP = Some (DDecimal (monus (stakedMP t) e)), unstakeAllMP = isZero e\<rparr>)"
  by (auto simp: sd_whatChanged_def mp_whatChanged_def sub_dec_monus less_imp_le)

lemma prettify_exists: "0 \<le> p \<Longrightarrow> \<exists>s. prettify d p = Inr s"
  by (simp add: prettify_def toString_def toStringWithPrecision_def Let_def)

lemma excess_exists: "balance < d \<Longrightarrow> \<exists>s. excess (Some (DDecimal d)) balance = Inr s"
  by (simp add: excess_def sub_dec_monus less_imp_le prettify_exists)

text \<open>
  C19. Which deposits and stakes are accepted. The validation never throws. A deposit is accepted exactly when the address is
  not that of a registered frontend, the amount differs, an increase is within the balance, and a decrease happens while no vault is
  undercollateralized; a change of the stake exactly when the amount differs and an increase is within the balance. The accepted
  change applied to the original gives the edited amount, and a refusal always comes with a message unless nothing was changed.
\<close>

theorem deposit_and_stake_validation:
  "(\<exists>c m. validateStabilityDepositChange d e ctx = Inr (c, m) \<and>
      (c \<noteq> None \<longleftrightarrow> \<not> dx_haveOwnFrontend ctx \<and> e \<noteq> currentBPD d \<and>
         bigNumber e \<le> bigNumber (currentBPD d) + bigNumber (dx_bpdBalance ctx) \<and>
         (e < currentBPD d \<longrightarrow> \<not> dx_haveUndercollateralizedVaults ctx)) \<and>
      (c \<noteq> None \<longrightarrow> sd_apply d c = Inr e) \<and>
      (m = None \<longleftrightarrow> e = currentBPD d \<and> \<not> dx_haveOwnFrontend ctx)) \<and>
   (\<exists>c m. validate_stake t e balance = Inr (c, m) \<and>
      (c \<noteq> None \<longleftrightarrow> e \<noteq> stakedMP t \<and> bigNumber e \<le> bigNumber (stakedMP t) + bigNumber balance) \<and>
      (c \<noteq> None \<longrightarrow> mp_apply t c = Inr e) \<and> (m = None \<longleftrightarrow> e = stakedMP t))"
proof (intro conjI)
  obtain c where c: "sd_whatChanged d (DDecimal e) = Inr c" "sd_apply d c = Inr e"
    using deposit.rebase [of d e d] by auto
  have "\<exists>s. excess (Some (DDecimal (monus e (currentBPD d)))) (dx_bpdBalance ctx) = Inr s"
    if "dx_bpdBalance ctx < monus e (currentBPD d)" using that by (rule excess_exists)
  with c show "\<exists>c m. validateStabilityDepositChange d e ctx = Inr (c, m) \<and>
      (c \<noteq> None \<longleftrightarrow> \<not> dx_haveOwnFrontend ctx \<and> e \<noteq> currentBPD d \<and>
         bigNumber e \<le> bigNumber (currentBPD d) + bigNumber (dx_bpdBalance ctx) \<and>
         (e < currentBPD d \<longrightarrow> \<not> dx_haveUndercollateralizedVaults ctx)) \<and>
      (c \<noteq> None \<longrightarrow> sd_apply d c = Inr e) \<and>
      (m = None \<longleftrightarrow> e = currentBPD d \<and> \<not> dx_haveOwnFrontend ctx)"
    unfolding whatChanged_cases validateStabilityDepositChange_def
    by (auto simp: exceeds_def gt_d_def decimal_order decimal_eq_iff not_less le_diff_conv less_diff_conv add.commute split: if_splits)
next
  obtain c where c: "mp_whatChanged t (DDecimal e) = Inr c" "mp_apply t c = Inr e"
    using mpstake.rebase [of t e t] by auto
  have "\<exists>s. excess (Some (DDecimal (monus e (stakedMP t)))) balance = Inr s" if "balance < monus e (stakedMP t)"
    using that by (rule excess_exists)
  with c show "\<exists>c m. validate_stake t e balance = Inr (c, m) \<and>
      (c \<noteq> None \<longleftrightarrow> e \<noteq> stakedMP t \<and> bigNumber e \<le> bigNumber (stakedMP t) + bigNumber balance) \<and>
      (c \<noteq> None \<longrightarrow> mp_apply t c = Inr e) \<and> (m = None \<longleftrightarrow> e = stakedMP t)"
    unfolding whatChanged_cases validate_stake_def
    by (auto simp: exceeds_def gt_d_def decimal_order decimal_eq_iff not_less le_diff_conv less_diff_conv add.commute split: if_splits)
qed

lemma deposit_and_stake_validation_witness:
  "\<exists>c m. validateStabilityDepositChange (deposit_of 100) (Decimal (150 * DIGITS))
     \<lparr>dx_bpdBalance = Decimal (60 * DIGITS), dx_haveOwnFrontend = False, dx_haveUndercollateralizedVaults = True\<rparr> = Inr (c, m) \<and>
     c \<noteq> None \<and> sd_apply (deposit_of 100) c = Inr (Decimal (150 * DIGITS))"
proof -
  let ?d = "deposit_of 100" and ?e = "Decimal (150 * DIGITS)"
    and ?ctx = "\<lparr>dx_bpdBalance = Decimal (60 * DIGITS), dx_haveOwnFrontend = False, dx_haveUndercollateralizedVaults = True\<rparr>"
  obtain c m where "validateStabilityDepositChange ?d ?e ?ctx = Inr (c, m)"
    "c \<noteq> None \<longleftrightarrow> \<not> dx_haveOwnFrontend ?ctx \<and> ?e \<noteq> currentBPD ?d \<and>
       bigNumber ?e \<le> bigNumber (currentBPD ?d) + bigNumber (dx_bpdBalance ?ctx) \<and>
       (?e < currentBPD ?d \<longrightarrow> \<not> dx_haveUndercollateralizedVaults ?ctx)"
    "c \<noteq> None \<longrightarrow> sd_apply ?d c = Inr ?e"
    using deposit_and_stake_validation [THEN conjunct1, of ?d ?e ?ctx] by blast
  then show ?thesis by (auto simp: deposit_of_def decimal_order DIGITS_def)
qed

section \<open>Redemption\<close>

lemma redemptionRate_at_most_one: "redemptionRate f x w = Inr r \<Longrightarrow> r \<le> ONE"
  by (auto simp: redemptionRate_def bindE_eq_Inr_iff min_d_def Let_def decimal_order split: if_splits)

text \<open>
  The panel of redemptions is total: for constructed fees, at most \<open>2 ^ 32 - 1\<close> minutes after the last fee operation, it shows
  a panel for every amount, price and state of the system, also for a price or a debt of zero. The fee is at most the collateral, the
  tolerated rate exceeds the rate by 0.1%, and redeeming is enabled exactly when the total ratio is not below the minimum and
  the amount is within the balance.
\<close>

lemma redemption_panel_total:
  assumes "new_Fees r g b l t m = Inr (rx_fees ctx)"
    and "minutesSinceLastFeeOperation (rx_fees ctx) None \<le> 0xffffffff"
  shows "\<exists>p. RedemptionManager ctx x = Inr p \<and> rp_fee p \<le> rp_collateral p \<and> rp_rate p \<le> ONE \<and>
    bigNumber (rp_maxRate p) = bigNumber (rp_rate p) + DIGITS div 1000 \<and>
    (rp_canRedeem p \<longleftrightarrow> collateralRatioIsBelowMinimum (rx_total ctx) (DDecimal (rx_price ctx)) = Inr False \<and> x \<le> rx_bpdBalance ctx)"
proof -
  obtain B where "baseRate (rx_fees ctx) None = Inr B"
    using decayed [OF less_imp_le [OF constructed_factor [OF assms(1)]] assms(2)] by blast
  then obtain rate where rate: "redemptionRate (rx_fees ctx) (Some (DDecimal (div_dec x (debt (rx_total ctx))))) None = Inr rate"
    by (simp add: redemptionRate_def min_d_def Let_def)
  let ?coll = "div_dec x (rx_price ctx)"
  have one: "rate \<le> ONE" by (rule redemptionRate_at_most_one [OF rate])
  then have fee: "mul_dec ?coll rate \<le> ?coll"
    using mul_dec_le_right [of rate ?coll] by (simp add: mul_dec_def mult.commute ONE_def less_eq_decimal_def DIGITS_def)
  have tolerance: "from_d (DNumber ''0.001'') = Inr (Decimal (DIGITS div 1000))"
    using fromString_point [of "''0''" "''001''"] by (simp add: literal_eval fromString_digits DIGITS_def)
  obtain low where low: "collateralRatioIsBelowMinimum (rx_total ctx) (DDecimal (rx_price ctx)) = Inr low"
    by (simp add: collateralRatioIsBelowMinimum_def collateralRatio_def)
  obtain mcr where mcr: "threshold_percent MINIMUM_COLLATERAL_RATIO = Inr mcr" using threshold_percents by blast
  have pretty: "prettify d 2 = Inr (projr (prettify d 2))" "prettify d 4 = Inr (projr (prettify d 4))" for d
    using prettify_exists [of 2 d] prettify_exists [of 4 d] by auto
  show ?thesis
    using one fee
    by (auto simp: RedemptionManager_def Let_def rate low mcr tolerance add_d_def sub_dec_monus less_imp_le not_less
        pretty [THEN arg_cong [where f = "\<lambda>r. bindE r f" for f]] add_dec_def simp del: from_d.simps(3))
qed

lemma redemption_panel_total_witness:
  "\<exists>p. RedemptionManager \<lparr>rx_price = ZERO, rx_fees = sample_fees, rx_total = emptyVault, rx_bpdBalance = ONE\<rparr> HALF = Inr p \<and>
     rp_fee p \<le> rp_collateral p"
  using redemption_panel_total [of "DDecimal HALF" "DDecimal HALF" "DDecimal ONE" 60000 60000 False
      "\<lparr>rx_price = ZERO, rx_fees = sample_fees, rx_total = emptyVault, rx_bpdBalance = ONE\<rparr>" HALF] sample_fees_constructed
  by (auto simp: sample_fees_def minutesSinceLastFeeOperation_def)

text \<open>The reducer throws when the vault that is being opened with too little debt is opened elsewhere.\<close>

lemma opening_elsewhere_throws:
  "bindE (vault_editor_reduce (vault_editor_init (sample_vault 0 0)) (EditDebt (DDecimal ONE)))
     (\<lambda>s. vault_editor_reduce s (UpdateVault (sample_vault 2 2000) True)) = Inl cantCreate"
proof -
  have "copy_of (sample_vault 0 0) = emptyVault" by (simp add: copy_of_def sample_vault_def emptyVault_def ZERO_def)
  then show ?thesis
    by (simp add: vault_editor_init_def updateVaultEditor_eq covered_def isEmpty_iff sample_vault_def constant_defs decimal_order
        decimal_eq_iff ONE_def DIGITS_def)
qed

end
