(* ===== verification/Views.thy ===== *)
theory Views
  imports Vaults Vault_Validation
begin

text \<open>
  The state machines behind the panels of \<open>packages/dev-frontend/src/components\<close>: the views of the vault and of the stability
  deposit (\<open>VaultViewProvider.tsx\<close>, \<open>StabilityViewProvider.tsx\<close>), of the farm (\<open>transitions.ts\<close>) and of the wallet
  (\<open>WalletConnector.tsx\<close>), and the life of a transaction (\<open>Transaction.tsx\<close>). Effects of React run after a render, first the
  cleanups of those whose dependencies changed, then their bodies; what they set is rendered next.
\<close>

section \<open>The view of the vault\<close>

datatype vault_view = VNone | VLiquidated | VRedeemed | VOpening | VAdjusting | VClosing | VActive

datatype vault_event =
    OpenVaultPressed
  | AdjustVaultPressed
  | CloseVaultPressed
  | CancelAdjustVaultPressed
  | VaultClosed
  | VaultLiquidatedSeen
  | VaultRedeemedSeen
  | VaultAdjusted
  | VaultSurplusCollateralClaimed
  | VaultOpened

fun vault_transitions :: "vault_view \<Rightarrow> vault_event \<Rightarrow> vault_view option" where
  "vault_transitions VNone OpenVaultPressed = Some VOpening"
| "vault_transitions VNone VaultOpened = Some VActive"
| "vault_transitions VLiquidated OpenVaultPressed = Some VOpening"
| "vault_transitions VLiquidated VaultSurplusCollateralClaimed = Some VNone"
| "vault_transitions VLiquidated VaultOpened = Some VActive"
| "vault_transitions VRedeemed OpenVaultPressed = Some VOpening"
| "vault_transitions VRedeemed VaultSurplusCollateralClaimed = Some VNone"
| "vault_transitions VRedeemed VaultOpened = Some VActive"
| "vault_transitions VOpening CancelAdjustVaultPressed = Some VNone"
| "vault_transitions VOpening VaultOpened = Some VActive"
| "vault_transitions VAdjusting CancelAdjustVaultPressed = Some VActive"
| "vault_transitions VAdjusting VaultAdjusted = Some VActive"
| "vault_transitions VAdjusting VaultClosed = Some VNone"
| "vault_transitions VAdjusting VaultLiquidatedSeen = Some VLiquidated"
| "vault_transitions VAdjusting VaultRedeemedSeen = Some VRedeemed"
| "vault_transitions VClosing CancelAdjustVaultPressed = Some VActive"
| "vault_transitions VClosing VaultClosed = Some VNone"
| "vault_transitions VClosing VaultAdjusted = Some VActive"
| "vault_transitions VClosing VaultLiquidatedSeen = Some VLiquidated"
| "vault_transitions VClosing VaultRedeemedSeen = Some VRedeemed"
| "vault_transitions VActive AdjustVaultPressed = Some VAdjusting"
| "vault_transitions VActive CloseVaultPressed = Some VClosing"
| "vault_transitions VActive VaultClosed = Some VNone"
| "vault_transitions VActive VaultLiquidatedSeen = Some VLiquidated"
| "vault_transitions VActive VaultRedeemedSeen = Some VRedeemed"
| "vault_transitions _ _ = None"

fun vaultStatusEvents :: "user_vault_status \<Rightarrow> vault_event option" where
  "vaultStatusEvents Open = Some VaultOpened"
| "vaultStatusEvents ClosedByOwner = Some VaultClosed"
| "vaultStatusEvents ClosedByLiquidation = Some VaultLiquidatedSeen"
| "vaultStatusEvents ClosedByRedemption = Some VaultRedeemedSeen"
| "vaultStatusEvents NonExistent = None"

definition orView :: "'v option \<Rightarrow> 'v \<Rightarrow> 'v" where
  "orView next v = (case next of Some v' \<Rightarrow> v' | None \<Rightarrow> v)"

definition vault_transition :: "vault_view \<Rightarrow> vault_event \<Rightarrow> vault_view" where
  "vault_transition v e = orView (vault_transitions v e) v"

definition getInitialVaultView :: "user_vault_status \<Rightarrow> vault_view" where
  "getInitialVaultView s =
     (if s = ClosedByLiquidation then VLiquidated else if s = ClosedByRedemption then VRedeemed
      else if s = Open then VActive else VNone)"

text \<open>The effect that runs when the status of the vault has changed.\<close>

definition vault_status_effect :: "user_vault_status \<Rightarrow> vault_view \<Rightarrow> vault_view" where
  "vault_status_effect s v = (case vaultStatusEvents s of None \<Rightarrow> v | Some e \<Rightarrow> vault_transition v e)"

section \<open>The view of the stability deposit\<close>

datatype stability_view = SNone | SDepositing | SActive | SAdjusting

datatype stability_event =
    DepositPressed | AdjustDepositPressed | CancelPressed | DepositConfirmed | RewardsClaimed | DepositEmptied

fun stability_transitions :: "stability_view \<Rightarrow> stability_event \<Rightarrow> stability_view option" where
  "stability_transitions SNone DepositPressed = Some SDepositing"
| "stability_transitions SDepositing CancelPressed = Some SNone"
| "stability_transitions SDepositing DepositConfirmed = Some SActive"
| "stability_transitions SActive RewardsClaimed = Some SActive"
| "stability_transitions SActive AdjustDepositPressed = Some SAdjusting"
| "stability_transitions SActive DepositEmptied = Some SNone"
| "stability_transitions SAdjusting CancelPressed = Some SActive"
| "stability_transitions SAdjusting DepositConfirmed = Some SActive"
| "stability_transitions SAdjusting DepositEmptied = Some SNone"
| "stability_transitions _ _ = None"

definition stability_transition :: "stability_view \<Rightarrow> stability_event \<Rightarrow> stability_view" where
  "stability_transition v e = orView (stability_transitions v e) v"

definition getInitialStabilityView :: "bool \<Rightarrow> stability_view" where
  "getInitialStabilityView none = (if none then SNone else SActive)"

definition stability_effect :: "bool \<Rightarrow> stability_view \<Rightarrow> stability_view" where
  "stability_effect none v = (if none then stability_transition v DepositEmptied else v)"

section \<open>The view of the farm\<close>

datatype farm_view = FInactive | FStaking | FActive | FAdjusting | FDisabled

datatype farm_event =
    StakePressed | FAdjustPressed | FCancelPressed | StakeApproved | StakeConfirmed | ClaimRewardConfirmed
  | UnstakeAndClaimConfirmed

fun farm_transitions :: "farm_view \<Rightarrow> farm_event \<Rightarrow> farm_view option" where
  "farm_transitions FInactive StakePressed = Some FStaking"
| "farm_transitions FStaking FCancelPressed = Some FInactive"
| "farm_transitions FStaking StakeConfirmed = Some FActive"
| "farm_transitions FStaking StakeApproved = Some FStaking"
| "farm_transitions FActive FAdjustPressed = Some FAdjusting"
| "farm_transitions FActive ClaimRewardConfirmed = Some FActive"
| "farm_transitions FActive UnstakeAndClaimConfirmed = Some FInactive"
| "farm_transitions FAdjusting FCancelPressed = Some FActive"
| "farm_transitions FAdjusting StakeConfirmed = Some FActive"
| "farm_transitions FAdjusting StakeApproved = Some FAdjusting"
| "farm_transitions FDisabled ClaimRewardConfirmed = Some FDisabled"
| "farm_transitions FDisabled UnstakeAndClaimConfirmed = Some FDisabled"
| "farm_transitions _ _ = None"

section \<open>The connection to a wallet\<close>

datatype 'c connection_state =
    Inactive
  | Activating 'c
  | ConnectionActive 'c
  | RejectedByUser 'c
  | AlreadyPending 'c
  | ConnectionFailed 'c

text \<open>A failure comes with whether its message matches \<open>user rejected\<close> and \<open>already pending\<close>.\<close>

datatype 'c connection_action =
    StartActivating 'c
  | Fail bool bool
  | FinishActivating
  | Retry
  | Cancel
  | Deactivate

fun connector :: "'c connection_state \<Rightarrow> 'c option" where
  "connector Inactive = None"
| "connector (Activating c) = Some c"
| "connector (ConnectionActive c) = Some c"
| "connector (RejectedByUser c) = Some c"
| "connector (AlreadyPending c) = Some c"
| "connector (ConnectionFailed c) = Some c"

fun connectionReducer :: "'c \<Rightarrow> 'c connection_state \<Rightarrow> 'c connection_action \<Rightarrow> 'c connection_state" where
  "connectionReducer injected s (StartActivating c) = Activating c"
| "connectionReducer injected s FinishActivating =
     ConnectionActive (case connector s of None \<Rightarrow> injected | Some c \<Rightarrow> c)"
| "connectionReducer injected s (Fail rejected pending) =
     (case connector s of
        None \<Rightarrow> s
      | Some c \<Rightarrow> if rejected then RejectedByUser c else if pending then AlreadyPending c else ConnectionFailed c)"
| "connectionReducer injected s Retry = (case connector s of None \<Rightarrow> s | Some c \<Rightarrow> Activating c)"
| "connectionReducer injected s Cancel = Inactive"
| "connectionReducer injected s Deactivate = Inactive"

section \<open>Transactions\<close>

text \<open>A transaction is known by its hash. A failure keeps its message; that it has a hint is kept as a flag.\<close>

datatype tx_state =
    TxIdle
  | TxFailed string string bool
  | TxWaitingForApproval string
  | TxCancelled string
  | TxWaitingForConfirmation string string
  | TxConfirmed string
  | TxConfirmedOneShot string

fun tx_id :: "tx_state \<Rightarrow> string option" where
  "tx_id TxIdle = None"
| "tx_id (TxFailed i m h) = Some i"
| "tx_id (TxWaitingForApproval i) = Some i"
| "tx_id (TxCancelled i) = Some i"
| "tx_id (TxWaitingForConfirmation i tx) = Some i"
| "tx_id (TxConfirmed i) = Some i"
| "tx_id (TxConfirmedOneShot i) = Some i"

fun tx_of :: "tx_state \<Rightarrow> string option" where
  "tx_of (TxWaitingForConfirmation i tx) = Some tx"
| "tx_of _ = None"

datatype tx_type = TyIdle | TyFailed | TyWaitingForApproval | TyCancelled | TyWaitingForConfirmation | TyConfirmed | TyConfirmedOneShot

fun type_of_tx :: "tx_state \<Rightarrow> tx_type" where
  "type_of_tx TxIdle = TyIdle"
| "type_of_tx (TxFailed i m h) = TyFailed"
| "type_of_tx (TxWaitingForApproval i) = TyWaitingForApproval"
| "type_of_tx (TxCancelled i) = TyCancelled"
| "type_of_tx (TxWaitingForConfirmation i tx) = TyWaitingForConfirmation"
| "type_of_tx (TxConfirmed i) = TyConfirmed"
| "type_of_tx (TxConfirmedOneShot i) = TyConfirmedOneShot"

definition useMyTransactionState :: "(string \<Rightarrow> bool) \<Rightarrow> tx_state \<Rightarrow> tx_state" where
  "useMyTransactionState mine s = (case tx_id s of Some i \<Rightarrow> if mine i then s else TxIdle | None \<Rightarrow> TxIdle)"

text \<open>
  The two effects of \<open>TransactionMonitor\<close>: the transaction that is watched, with whether it has \<open>finished\<close>, and
  whether the timer that returns to \<open>idle\<close> is running. An effect that was cleaned up is cancelled and does nothing any more, except
  that a finished one still reports the revert it is asking the reason of.
\<close>

record tx_monitor =
  tm_state :: tx_state
  tm_watched :: "(string \<times> string \<times> bool) option"
  tm_timer :: bool
  tm_sends :: "string list"
  tm_reports :: "string list"

text \<open>The effects after a render with state \<open>new\<close> after \<open>old\<close>: the watched transaction and the states that are set, in order.\<close>

definition watch_effect :: "tx_state \<Rightarrow> tx_state \<Rightarrow> tx_monitor \<Rightarrow> (string \<times> string \<times> bool) option \<times> tx_state list" where
  "watch_effect old new m =
     (if (tx_id old, tx_of old) = (tx_id new, tx_of new) then (tm_watched m, [])
      else (case (tx_id new, tx_of new) of (Some i, Some tx) \<Rightarrow> if i \<noteq> [] then Some (i, tx, False) else None | _ \<Rightarrow> None,
            case tm_watched m of Some (i, tx, finished) \<Rightarrow> if \<not> finished then [TxIdle] else [] | None \<Rightarrow> []))"

definition timer_effect :: "tx_state \<Rightarrow> tx_state \<Rightarrow> tx_monitor \<Rightarrow> bool \<times> tx_state list" where
  "timer_effect old new m =
     (if (type_of_tx old, tx_id old) = (type_of_tx new, tx_id new) then (tm_timer m, [])
      else case new of
        TxConfirmedOneShot i \<Rightarrow> (False, if i \<noteq> [] then [TxConfirmed i] else [])
      | _ \<Rightarrow> (type_of_tx new \<in> {TyConfirmed, TyFailed, TyCancelled}, []))"

text \<open>Setting the state renders and runs the effects, which may set it again.\<close>

fun set_tx_state :: "nat \<Rightarrow> tx_state \<Rightarrow> tx_monitor \<Rightarrow> tx_monitor" where
  "set_tx_state 0 new m = m\<lparr>tm_state := new\<rparr>"
| "set_tx_state (Suc n) new m =
     (let (w, idle) = watch_effect (tm_state m) new m;
          (t, again) = timer_effect (tm_state m) new m;
          m' = m\<lparr>tm_state := new, tm_watched := w, tm_timer := t\<rparr>
      in if idle @ again = [] then m' else set_tx_state n (last (idle @ again)) m')"

definition setTransactionState :: "tx_state \<Rightarrow> tx_monitor \<Rightarrow> tx_monitor" where
  "setTransactionState = set_tx_state 3"

definition tx_monitor_init :: tx_monitor where
  "tx_monitor_init = \<lparr>tm_state = TxIdle, tm_watched = None, tm_timer = False, tm_sends = [], tm_reports = []\<rparr>"

text \<open>\<open>sendTransaction\<close>: until the promise of \<open>send\<close> settles, the identity is among the sends under way.\<close>

definition sendTransaction :: "string \<Rightarrow> tx_monitor \<Rightarrow> tx_monitor" where
  "sendTransaction i m = setTransactionState (TxWaitingForApproval i) (m\<lparr>tm_sends := i # tm_sends m\<rparr>)"

datatype send_result = Sent string | Denied | SendError

definition send_settled :: "string \<Rightarrow> send_result \<Rightarrow> tx_monitor \<Rightarrow> tx_monitor" where
  "send_settled i r m =
     setTransactionState
       (case r of
          Sent tx \<Rightarrow> TxWaitingForConfirmation i tx
        | Denied \<Rightarrow> TxCancelled i
        | SendError \<Rightarrow> TxFailed i ''Failed to send transaction (try again)'' True)
       (m\<lparr>tm_sends := remove1 i (tm_sends m)\<rparr>)"

text \<open>
  The revert reason, from the result of calling the transaction again: \<open>None\<close> when a request fails or the result is not an encoded
  text. \<open>decode\<close> decodes the arguments.
\<close>

definition tryToGetRevertReason :: "(nat list \<Rightarrow> string result) \<Rightarrow> nat list result \<Rightarrow> string option" where
  "tryToGetRevertReason decode r =
     (case r of
        Inl _ \<Rightarrow> None
      | Inr bytes \<Rightarrow>
          if length bytes mod 32 = 4 \<and> take 4 bytes = [0x08, 0xc3, 0x79, 0xa0]
          then (case decode (drop 4 bytes) of Inl _ \<Rightarrow> None | Inr reason \<Rightarrow> Some reason)
          else None)"

text \<open>How waiting for the receipt of the watched transaction ends.\<close>

datatype receipt_result = ReceiptSucceeded | ReceiptReverted | ReceiptError

definition finish_watch :: "tx_monitor \<Rightarrow> tx_monitor" where
  "finish_watch m = m\<lparr>tm_watched := map_option (\<lambda>(i, tx, _). (i, tx, True)) (tm_watched m)\<rparr>"

definition waitForConfirmation :: "string \<Rightarrow> receipt_result \<Rightarrow> tx_monitor \<Rightarrow> tx_monitor" where
  "waitForConfirmation i r m =
     (case r of
        ReceiptSucceeded \<Rightarrow> setTransactionState (TxConfirmedOneShot i) (finish_watch m)
      | ReceiptReverted \<Rightarrow> finish_watch (m\<lparr>tm_reports := i # tm_reports m\<rparr>)
      | ReceiptError \<Rightarrow> setTransactionState (TxFailed i ''Failed'' True) m)"

definition revert_reported :: "string \<Rightarrow> string option \<Rightarrow> tx_monitor \<Rightarrow> tx_monitor" where
  "revert_reported i reason m =
     setTransactionState (TxFailed i (case reason of Some (c # x) \<Rightarrow> ''Reverted: '' @ c # x | _ \<Rightarrow> ''Failed'') False)
       (m\<lparr>tm_reports := remove1 i (tm_reports m)\<rparr>)"

text \<open>A new provider restarts the first effect.\<close>

definition provider_changed :: "tx_monitor \<Rightarrow> tx_monitor" where
  "provider_changed m =
     (let m' = m\<lparr>tm_watched := (case tm_state m of
                    TxWaitingForConfirmation i tx \<Rightarrow> if i \<noteq> [] then Some (i, tx, False) else None | _ \<Rightarrow> None)\<rparr>
      in case tm_watched m of Some (i, tx, False) \<Rightarrow> setTransactionState TxIdle m' | _ \<Rightarrow> m')"

definition timer_fires :: "tx_monitor \<Rightarrow> tx_monitor" where
  "timer_fires m = setTransactionState TxIdle m"

text \<open>The button of a transaction: whether it can be pressed and the reason it shows, as text or as tooltip.\<close>

definition failureReasons :: "(bool \<times> string) list \<Rightarrow> tx_state \<Rightarrow> string list" where
  "failureReasons requires s = map snd (filter (\<lambda>(ok, _). \<not> ok) requires) @
     (if type_of_tx s = TyWaitingForApproval \<or> type_of_tx s = TyWaitingForConfirmation then [''You must wait for confirmation''] else [])"

record tx_button =
  tb_disabled :: bool
  tb_text :: "string option"
  tb_tooltip :: "string option"

definition transaction_button :: "bool option \<Rightarrow> string option \<Rightarrow> (bool \<times> string) list \<Rightarrow> tx_state \<Rightarrow> tx_button" where
  "transaction_button showAsText tooltip requires s =
     (let reasons = failureReasons requires s;
          asText = (case showAsText of Some b \<Rightarrow> b | None \<Rightarrow> tooltip = None \<or> tooltip = Some []) in
      if reasons = [] then \<lparr>tb_disabled = False, tb_text = None, tb_tooltip = tooltip\<rparr>
      else if asText then \<lparr>tb_disabled = True, tb_text = Some (hd reasons), tb_tooltip = tooltip\<rparr>
      else \<lparr>tb_disabled = True, tb_text = None, tb_tooltip = Some (hd reasons)\<rparr>)"

text \<open>What the vault editor does with the state of its transaction: whether it starts or ends a change, and the event it dispatches.\<close>

definition vault_transaction_effect :: "vault_change option \<Rightarrow> tx_state \<Rightarrow> bool option \<times> vault_event option" where
  "vault_transaction_effect validChange s =
     (if type_of_tx s = TyWaitingForApproval then (Some True, None)
      else if type_of_tx s = TyFailed \<or> type_of_tx s = TyCancelled then (Some False, None)
      else if type_of_tx s = TyConfirmedOneShot
      then (None, case validChange of
              None \<Rightarrow> None
            | Some c \<Rightarrow> if is_closure c then Some VaultClosed
                        else if is_creation c \<or> is_adjustment c then Some VaultAdjusted else None)
      else (None, None))"

end
