(* ===== verification/View_Laws.thy ===== *)
theory View_Laws
  imports Views
begin

text \<open>
  Invariants of the panels' state machines: the view of the vault against the status of the vault, and the states of a transaction
  against what is under way.
\<close>

section \<open>The view of the vault\<close>

text \<open>What the panel shown for a view can dispatch: its buttons, and what a confirmed transaction of the panel reports.\<close>

fun offers :: "vault_view \<Rightarrow> vault_event list" where
  "offers VNone = [OpenVaultPressed]"
| "offers VLiquidated = [OpenVaultPressed, VaultSurplusCollateralClaimed]"
| "offers VRedeemed = [OpenVaultPressed, VaultSurplusCollateralClaimed]"
| "offers VOpening = [CancelAdjustVaultPressed, VaultAdjusted]"
| "offers VAdjusting = [CancelAdjustVaultPressed, VaultAdjusted, VaultClosed]"
| "offers VClosing = [CancelAdjustVaultPressed, VaultAdjusted, VaultClosed]"
| "offers VActive = [AdjustVaultPressed, CloseVaultPressed]"

text \<open>The status, the view, and whether a closure was confirmed that the store does not show yet.\<close>

inductive vault_pages :: "user_vault_status \<Rightarrow> vault_view \<Rightarrow> bool \<Rightarrow> bool" where
  Pages_mount: "vault_pages s (vault_status_effect s (getInitialVaultView s)) False"
| Pages_event: "vault_pages s v c \<Longrightarrow> e \<in> set (offers v) \<Longrightarrow> vault_pages s (vault_transition v e) (c \<or> e = VaultClosed)"
| Pages_status: "vault_pages s v c \<Longrightarrow> s' \<noteq> s \<Longrightarrow> s' \<noteq> NonExistent \<Longrightarrow> vault_pages s' (vault_status_effect s' v) False"

text \<open>
  C20. The panel of the vault follows its status. Whatever the user presses and however the status changes, the panel of an
  existing vault (shown, adjusted or closed) is shown only while the vault is open, and while it is open that panel is
  shown unless its closure was confirmed before the store has noticed.
\<close>

theorem vault_view_follows_status:
  assumes "vault_pages s v c"
  shows "(v \<in> {VActive, VAdjusting, VClosing} \<longrightarrow> s = Open) \<and> (s = Open \<longrightarrow> v \<in> {VActive, VAdjusting, VClosing} \<or> c)"
  using assms
proof (induction rule: vault_pages.induct)
  case (Pages_mount s)
  show ?case by (cases s) (simp_all add: vault_status_effect_def getInitialVaultView_def vault_transition_def orView_def)
next
  case (Pages_event s v c e)
  then show ?case by (cases v) (auto simp: vault_transition_def orView_def)
next
  case (Pages_status s v c s')
  then show ?case by (cases s'; cases v) (simp_all add: vault_status_effect_def vault_transition_def orView_def)
qed

lemma vault_view_follows_status_witness: "\<exists>v. vault_pages Open v False \<and> v = VAdjusting \<and> v \<in> {VActive, VAdjusting, VClosing}"
proof -
  have "vault_pages Open VActive False"
    using Pages_mount [of Open] by (simp add: vault_status_effect_def getInitialVaultView_def vault_transition_def orView_def)
  from Pages_event [OF this, of AdjustVaultPressed] have p: "vault_pages Open VAdjusting False"
    by (simp add: vault_transition_def orView_def)
  with vault_view_follows_status [OF p] show ?thesis by auto
qed

text \<open>Who cancels opening a vault after a liquidation is not offered the surplus any more.\<close>

lemma cancelling_hides_surplus:
  "vault_transition (vault_transition VLiquidated OpenVaultPressed) CancelAdjustVaultPressed = VNone"
  "VaultSurplusCollateralClaimed \<in> set (offers VLiquidated)" "VaultSurplusCollateralClaimed \<notin> set (offers VNone)"
  by (simp_all add: vault_transition_def orView_def)

text \<open>A deposit that appears while there is none is not shown: only emptying a deposit has an effect on the view.\<close>

lemma deposit_made_elsewhere_is_not_shown: "stability_effect False SNone = SNone" "getInitialStabilityView False = SActive"
  by (simp_all add: stability_effect_def getInitialStabilityView_def)

section \<open>Transactions\<close>

text \<open>The effects agree with the state.\<close>

definition watches :: "tx_monitor \<Rightarrow> bool" where
  "watches m \<longleftrightarrow> tm_timer m = (type_of_tx (tm_state m) \<in> {TyConfirmed, TyFailed, TyCancelled}) \<and>
     type_of_tx (tm_state m) \<noteq> TyConfirmedOneShot \<and>
     (case tm_watched m of None \<Rightarrow> tx_of (tm_state m) = None | Some (i, tx, _) \<Rightarrow> tm_state m = TxWaitingForConfirmation i tx)"

definition unfinished :: "tx_monitor \<Rightarrow> bool" where
  "unfinished m \<longleftrightarrow> (\<exists>i tx. tm_watched m = Some (i, tx, False))"

lemma watches_not_shot: "watches m \<Longrightarrow> TxConfirmedOneShot i \<noteq> tm_state m"
  by (metis watches_def type_of_tx.simps(7))

lemma watch_effect_eq:
  assumes "watches m" "tx_id new \<noteq> Some []"
  shows "watch_effect (tm_state m) new m =
    (if new = tm_state m then (tm_watched m, [])
     else (case new of TxWaitingForConfirmation i tx \<Rightarrow> Some (i, tx, False) | _ \<Rightarrow> None,
           if unfinished m then [TxIdle] else []))"
proof (cases "tm_watched m")
  case None
  then have "tx_of (tm_state m) = None" "\<not> unfinished m" using assms(1) by (simp_all add: watches_def unfinished_def)
  with None assms(2) show ?thesis by (cases new; cases "tm_state m") (auto simp: watch_effect_def)
next
  case (Some w)
  obtain i tx f where w: "w = (i, tx, f)" by (cases w)
  with Some have "tm_state m = TxWaitingForConfirmation i tx" "unfinished m \<longleftrightarrow> \<not> f"
    using assms(1) by (auto simp: watches_def unfinished_def)
  with Some w assms(2) show ?thesis by (cases new) (auto simp: watch_effect_def)
qed

lemma timer_effect_eq:
  assumes "watches m" "tx_id new \<noteq> Some []"
  shows "timer_effect (tm_state m) new m =
    (type_of_tx new \<in> {TyConfirmed, TyFailed, TyCancelled}, case new of TxConfirmedOneShot i \<Rightarrow> [TxConfirmed i] | _ \<Rightarrow> [])"
proof (cases "(type_of_tx (tm_state m), tx_id (tm_state m)) = (type_of_tx new, tx_id new)")
  case True
  then have "timer_effect (tm_state m) new m = (tm_timer m, [])" by (simp add: timer_effect_def)
  moreover have "type_of_tx new \<noteq> TyConfirmedOneShot" using True assms(1) by (auto simp: watches_def)
  ultimately show ?thesis using True assms(1) by (cases new) (simp_all add: watches_def)
next
  case False
  with assms(2) show ?thesis by (cases new) (auto simp: timer_effect_def)
qed

text \<open>The monitor after the effects of a state that sets no other.\<close>

definition rested :: "tx_state \<Rightarrow> tx_monitor \<Rightarrow> tx_monitor" where
  "rested new m = m\<lparr>tm_state := new,
     tm_watched := (if new = tm_state m then tm_watched m
                    else case new of TxWaitingForConfirmation i tx \<Rightarrow> Some (i, tx, False) | _ \<Rightarrow> None),
     tm_timer := (type_of_tx new \<in> {TyConfirmed, TyFailed, TyCancelled})\<rparr>"

lemma set_tx_state_eq:
  assumes "watches m" "tx_id new \<noteq> Some []"
  shows "set_tx_state (Suc n) new m =
    (case new of
       TxConfirmedOneShot i \<Rightarrow> set_tx_state n (TxConfirmed i) (rested new m)
     | _ \<Rightarrow> if unfinished m \<and> new \<noteq> tm_state m then set_tx_state n TxIdle (rested new m) else rested new m)"
  using assms by (cases new) (auto simp: watch_effect_eq timer_effect_eq rested_def Let_def watches_def)

lemma rested_watches: "watches m \<Longrightarrow> type_of_tx new \<noteq> TyConfirmedOneShot \<Longrightarrow> watches (rested new m)"
  by (cases new) (auto simp: rested_def watches_def split: option.splits)

lemma rested_sel [simp]: "tm_state (rested new m) = new" "tm_sends (rested new m) = tm_sends m" "tm_reports (rested new m) = tm_reports m"
  by (simp_all add: rested_def)

text \<open>Three rounds of effects are enough: after them no effect sets the state again.\<close>

lemma setTransactionState_eq:
  assumes "watches m" "tx_id new \<noteq> Some []"
  shows "setTransactionState new m =
    (case new of
       TxConfirmedOneShot i \<Rightarrow> m\<lparr>tm_state := TxConfirmed i, tm_watched := None, tm_timer := True\<rparr>
     | _ \<Rightarrow> if unfinished m \<and> new \<noteq> tm_state m then m\<lparr>tm_state := TxIdle, tm_watched := None, tm_timer := False\<rparr>
           else rested new m)"
proof -
  have w: "type_of_tx new \<noteq> TyConfirmedOneShot \<Longrightarrow> watches (rested new m)" by (rule rested_watches [OF assms(1)])
  have i: "watches m' \<Longrightarrow> watches (rested TxIdle m')" for m' by (rule rested_watches) simp_all
  have n: "set_tx_state 3 new m = (case new of
       TxConfirmedOneShot i \<Rightarrow> set_tx_state 2 (TxConfirmed i) (rested new m)
     | _ \<Rightarrow> if unfinished m \<and> new \<noteq> tm_state m then set_tx_state 2 TxIdle (rested new m) else rested new m)"
    using set_tx_state_eq [OF assms, of 2] by (simp add: numeral_3_eq_3 numeral_2_eq_2)
  have idle: "set_tx_state 2 TxIdle (rested new m) = m\<lparr>tm_state := TxIdle, tm_watched := None, tm_timer := False\<rparr>"
    if "type_of_tx new \<noteq> TyConfirmedOneShot" "new \<noteq> tm_state m"
    using w [OF that(1)] i [OF w [OF that(1)]] that(2)
    by (simp add: numeral_2_eq_2 set_tx_state_eq del: set_tx_state.simps) (simp add: rested_def)
  have shot: "set_tx_state 2 (TxConfirmed i) (rested (TxConfirmedOneShot i) m) =
      m\<lparr>tm_state := TxConfirmed i, tm_watched := None, tm_timer := True\<rparr>" for i
    using watches_not_shot [OF assms(1)] by (simp add: numeral_2_eq_2 watch_effect_def timer_effect_def rested_def Let_def)
  show ?thesis
    using n idle shot by (cases new) (simp_all add: setTransactionState_def)
qed

section \<open>The life of a transaction\<close>

inductive monitored :: "tx_monitor \<Rightarrow> bool" where
  Monitored_init: "monitored tx_monitor_init"
| Monitored_send: "monitored m \<Longrightarrow> i \<noteq> [] \<Longrightarrow> monitored (sendTransaction i m)"
| Monitored_settled: "monitored m \<Longrightarrow> i \<in> set (tm_sends m) \<Longrightarrow> monitored (send_settled i r m)"
| Monitored_receipt: "monitored m \<Longrightarrow> tm_watched m = Some (i, tx, False) \<Longrightarrow> monitored (waitForConfirmation i r m)"
| Monitored_report: "monitored m \<Longrightarrow> i \<in> set (tm_reports m) \<Longrightarrow> monitored (revert_reported i reason m)"
| Monitored_timer: "monitored m \<Longrightarrow> tm_timer m \<Longrightarrow> monitored (timer_fires m)"
| Monitored_provider: "monitored m \<Longrightarrow> monitored (provider_changed m)"

definition mon_ok :: "tx_monitor \<Rightarrow> bool" where
  "mon_ok m \<longleftrightarrow> watches m \<and> [] \<notin> set (tm_sends m) \<and> [] \<notin> set (tm_reports m) \<and>
     (\<forall>i. tm_state m = TxWaitingForApproval i \<longrightarrow> i \<in> set (tm_sends m)) \<and>
     (\<forall>i tx f. tm_watched m = Some (i, tx, f) \<longrightarrow> i \<noteq> [] \<and> (f \<longrightarrow> i \<in> set (tm_reports m)))"

lemma watches_updates [simp]:
  "watches (m\<lparr>tm_sends := xs\<rparr>) = watches m" "watches (m\<lparr>tm_reports := xs\<rparr>) = watches m"
  by (simp_all add: watches_def split: option.splits)

text \<open>Setting a state other than waiting for an approval keeps the invariant; so does a send that is under way.\<close>

lemma mon_ok_set:
  assumes "watches m" "[] \<notin> set (tm_sends m)" "[] \<notin> set (tm_reports m)" "tx_id new \<noteq> Some []"
    and "\<And>i. new = TxWaitingForApproval i \<Longrightarrow> i \<in> set (tm_sends m)"
    and "\<And>i tx f. tm_watched m = Some (i, tx, f) \<Longrightarrow> new = tm_state m \<Longrightarrow> i \<noteq> [] \<and> (f \<longrightarrow> i \<in> set (tm_reports m))"
  shows "mon_ok (setTransactionState new m)"
proof -
  consider (shot) i where "setTransactionState new m = m\<lparr>tm_state := TxConfirmed i, tm_watched := None, tm_timer := True\<rparr>"
    | (idle) "setTransactionState new m = m\<lparr>tm_state := TxIdle, tm_watched := None, tm_timer := False\<rparr>"
    | (rest) "type_of_tx new \<noteq> TyConfirmedOneShot" "setTransactionState new m = rested new m"
    using setTransactionState_eq [OF assms(1,4)] by (cases new) (auto split: if_splits)
  then show ?thesis
  proof cases
    case (shot i)
    then show ?thesis using assms(2,3) by (simp add: mon_ok_def watches_def)
  next
    case idle
    then show ?thesis using assms(2,3) by (simp add: mon_ok_def watches_def)
  next
    case rest
    have "i \<noteq> [] \<and> (f \<longrightarrow> i \<in> set (tm_reports m))" if "tm_watched (rested new m) = Some (i, tx, f)" for i tx f
      using that assms(4,6) by (cases new) (auto simp: rested_def split: if_splits)
    with rest show ?thesis using assms(2,3,5) rested_watches [OF assms(1) rest(1)] by (simp add: mon_ok_def)
  qed
qed

lemma finish_watch_watches: "watches m \<Longrightarrow> watches (finish_watch m)"
  by (auto simp: watches_def finish_watch_def split: option.splits)

lemma monitored_ok: "monitored m \<Longrightarrow> mon_ok m"
proof (induction rule: monitored.induct)
  case Monitored_init
  show ?case by (simp add: mon_ok_def watches_def tx_monitor_init_def)
next
  case (Monitored_send m i)
  then show ?case unfolding sendTransaction_def by (intro mon_ok_set) (auto simp: mon_ok_def)
next
  case (Monitored_settled m i r)
  then have "i \<noteq> []" "[] \<notin> set (remove1 i (tm_sends m))" using set_remove1_subset [of i "tm_sends m"] by (auto simp: mon_ok_def)
  with Monitored_settled show ?case
    unfolding send_settled_def by (intro mon_ok_set) (auto simp: mon_ok_def split: send_result.splits)
next
  case (Monitored_receipt m i tx r)
  then have "i \<noteq> []" "watches m" "watches (finish_watch m)" by (auto simp: mon_ok_def finish_watch_watches)
  moreover have st: "tm_state m = TxWaitingForConfirmation i tx"
    using Monitored_receipt by (simp add: mon_ok_def watches_def)
  ultimately show ?case
  proof (cases r)
    case ReceiptSucceeded
    have "mon_ok (setTransactionState (TxConfirmedOneShot i) (finish_watch m))"
      using Monitored_receipt st \<open>i \<noteq> []\<close> \<open>watches (finish_watch m)\<close>
      by (intro mon_ok_set) (auto simp: mon_ok_def finish_watch_def)
    with ReceiptSucceeded show ?thesis by (simp add: waitForConfirmation_def)
  next
    case ReceiptReverted
    with Monitored_receipt \<open>i \<noteq> []\<close> \<open>watches (finish_watch m)\<close> show ?thesis
      by (auto simp: waitForConfirmation_def mon_ok_def finish_watch_def watches_def)
  next
    case ReceiptError
    have "mon_ok (setTransactionState (TxFailed i ''Failed'' True) m)"
      using Monitored_receipt st \<open>i \<noteq> []\<close> by (intro mon_ok_set) (auto simp: mon_ok_def)
    with ReceiptError show ?thesis by (simp add: waitForConfirmation_def)
  qed
next
  case (Monitored_report m i reason)
  then have "i \<noteq> []" "[] \<notin> set (remove1 i (tm_reports m))" using set_remove1_subset [of i "tm_reports m"] by (auto simp: mon_ok_def)
  moreover have "tm_watched m = Some (j, tx, f) \<Longrightarrow> TxFailed a b c \<noteq> tm_state m" for j tx f a b c
    using Monitored_report.IH by (auto simp: mon_ok_def watches_def)
  ultimately show ?case
    using Monitored_report unfolding revert_reported_def by (intro mon_ok_set) (auto simp: mon_ok_def)
next
  case (Monitored_timer m)
  then show ?case unfolding timer_fires_def by (intro mon_ok_set) (auto simp: mon_ok_def)
next
  case (Monitored_provider m)
  let ?m = "m\<lparr>tm_watched := (case tm_state m of TxWaitingForConfirmation i tx \<Rightarrow> if i \<noteq> [] then Some (i, tx, False) else None | _ \<Rightarrow> None)\<rparr>"
  have "mon_ok ?m"
    using Monitored_provider.IH by (cases "tm_state m") (auto simp: mon_ok_def watches_def split: option.splits)
  moreover from this have "mon_ok (setTransactionState TxIdle ?m)" by (intro mon_ok_set) (auto simp: mon_ok_def)
  ultimately show ?case unfolding provider_changed_def Let_def by (auto split: option.split bool.split prod.split)
qed

text \<open>
  C11. A transaction never gets stuck. In every reachable state of the monitor, a wait for approval belongs to a send under way, a wait for a
  confirmation is watched or its revert is about to be reported, a result is shown while the timer that returns to idle runs,
  and the one-shot state never stays. A succeeded receipt is confirmed; but a receipt that cannot be
  fetched ends in the idle state, so its failure is never shown.
\<close>

theorem transaction_never_stuck:
  assumes "monitored m"
  shows "(case tm_state m of
       TxIdle \<Rightarrow> True
     | TxWaitingForApproval i \<Rightarrow> i \<in> set (tm_sends m)
     | TxWaitingForConfirmation i tx \<Rightarrow> tm_watched m = Some (i, tx, False) \<or> i \<in> set (tm_reports m)
     | TxConfirmedOneShot i \<Rightarrow> False
     | _ \<Rightarrow> tm_timer m \<and> tm_state (timer_fires m) = TxIdle) \<and>
    (\<forall>i tx. tm_watched m = Some (i, tx, False) \<longrightarrow>
       tm_state (waitForConfirmation i ReceiptSucceeded m) = TxConfirmed i \<and>
       tm_state (waitForConfirmation i ReceiptError m) = TxIdle)"
proof -
  have ok: "mon_ok m" by (rule monitored_ok [OF assms])
  then have w: "watches m" by (simp add: mon_ok_def)
  have idle: "tm_state (timer_fires m) = TxIdle"
    using setTransactionState_eq [OF w, of TxIdle] by (simp add: timer_fires_def)
  have watched: "tm_state (waitForConfirmation i ReceiptSucceeded m) = TxConfirmed i \<and>
      tm_state (waitForConfirmation i ReceiptError m) = TxIdle" if "tm_watched m = Some (i, tx, False)" for i tx
  proof -
    have "i \<noteq> []" "tm_state m = TxWaitingForConfirmation i tx" "unfinished m"
      using that ok w by (auto simp: mon_ok_def watches_def unfinished_def)
    then show ?thesis
      using setTransactionState_eq [OF w, of "TxFailed i ''Failed'' True"]
        setTransactionState_eq [OF finish_watch_watches [OF w], of "TxConfirmedOneShot i"]
      by (simp add: waitForConfirmation_def)
  qed
  have "case tm_state m of
       TxIdle \<Rightarrow> True
     | TxWaitingForApproval i \<Rightarrow> i \<in> set (tm_sends m)
     | TxWaitingForConfirmation i tx \<Rightarrow> tm_watched m = Some (i, tx, False) \<or> i \<in> set (tm_reports m)
     | TxConfirmedOneShot i \<Rightarrow> False
     | _ \<Rightarrow> tm_timer m \<and> tm_state (timer_fires m) = TxIdle"
    using ok w idle by (cases "tm_state m"; cases "tm_watched m") (auto simp: mon_ok_def watches_def)
  with watched show ?thesis by blast
qed

lemma transaction_never_stuck_witness:
  "\<exists>m. monitored m \<and> tm_watched m = Some (''stake'', ''0xab'', False) \<and>
     tm_state (waitForConfirmation ''stake'' ReceiptSucceeded m) = TxConfirmed ''stake''"
proof -
  have "watches tx_monitor_init" by (simp add: watches_def tx_monitor_init_def)
  then have "sendTransaction ''stake'' tx_monitor_init =
      tx_monitor_init\<lparr>tm_state := TxWaitingForApproval ''stake'', tm_sends := [''stake'']\<rparr>"
    by (simp add: sendTransaction_def setTransactionState_eq) (simp add: unfinished_def rested_def tx_monitor_init_def)
  moreover from this have "watches (sendTransaction ''stake'' tx_monitor_init)" by (simp add: watches_def tx_monitor_init_def)
  ultimately have "tm_watched (send_settled ''stake'' (Sent ''0xab'') (sendTransaction ''stake'' tx_monitor_init)) =
      Some (''stake'', ''0xab'', False)"
    by (simp add: send_settled_def setTransactionState_eq) (simp add: unfinished_def rested_def tx_monitor_init_def)
  moreover have "monitored (send_settled ''stake'' (Sent ''0xab'') (sendTransaction ''stake'' tx_monitor_init))"
    by (rule Monitored_settled [OF Monitored_send [OF Monitored_init]])
      (simp_all add: \<open>sendTransaction ''stake'' tx_monitor_init = _\<close>)
  ultimately show ?thesis using transaction_never_stuck by blast
qed

end
