(* ===== verification/Web_Sockets.thy ===== *)
theory Web_Sockets
  imports Moneyp_Prelude
begin

text \<open>
  \<open>packages/providers/src/WebSocketAugmentedProvider.ts\<close>: a provider that takes blocks and calls from a web socket while one
  is open, and from the provider below it otherwise. The web sockets and the provider below are numbered sources; an
  emitter calls a listener as often as it is registered.
\<close>

section \<open>The state\<close>

datatype listener = Listener nat | ListenOnce nat nat

text \<open>
  The fields of the class; how often the block listener is registered with the provider below and with each
  socket; the sockets that are open, those with a handler of closing, the timers of reconnecting and of
  notifying that are running; and the calls of listeners with their block.
\<close>

record ws_provider =
  w_provider :: "nat option"
  w_params :: "(string \<times> string) option"
  w_reconnect :: "nat option"
  w_seenBlock :: nat
  w_scheduled :: bool
  w_listeners :: "listener list"
  w_base_on :: nat
  w_socket_on :: "nat \<Rightarrow> nat"
  w_open :: "nat set"
  w_handled :: "nat set"
  w_sockets :: nat
  w_timers :: "nat list"
  w_timer_count :: nat
  w_due :: nat
  w_calls :: "(nat \<times> nat) list"

definition new_ws_provider :: ws_provider where
  "new_ws_provider = \<lparr>w_provider = None, w_params = None, w_reconnect = None, w_seenBlock = 0, w_scheduled = False,
     w_listeners = [], w_base_on = 0, w_socket_on = (\<lambda>_. 0), w_open = {}, w_handled = {}, w_sockets = 0, w_timers = [],
     w_timer_count = 0, w_due = 0, w_calls = []\<rparr>"

section \<open>Block events\<close>

definition base_off :: "ws_provider \<Rightarrow> ws_provider" where
  "base_off p = p\<lparr>w_base_on := w_base_on p - 1\<rparr>"

definition startBlockEvents :: "ws_provider \<Rightarrow> ws_provider" where
  "startBlockEvents p =
     (case w_provider p of
        Some s \<Rightarrow> p\<lparr>w_socket_on := (w_socket_on p)(s := Suc (w_socket_on p s))\<rparr>
      | None \<Rightarrow> p\<lparr>w_base_on := Suc (w_base_on p)\<rparr>)"

definition stopBlockEvents :: "ws_provider \<Rightarrow> ws_provider" where
  "stopBlockEvents p =
     (case w_provider p of
        Some s \<Rightarrow> p\<lparr>w_socket_on := (w_socket_on p)(s := w_socket_on p s - 1)\<rparr>
      | None \<Rightarrow> base_off p)"

definition switchover :: "ws_provider \<Rightarrow> ws_provider" where
  "switchover p =
     (if w_listeners p \<noteq> [] then startBlockEvents (if w_provider p \<noteq> None then base_off p else p) else p)"

definition addBlockListener :: "listener \<Rightarrow> ws_provider \<Rightarrow> ws_provider" where
  "addBlockListener l p =
     (if l \<notin> set (w_listeners p) then
        let p' = p\<lparr>w_listeners := w_listeners p @ [l]\<rparr> in
        if length (w_listeners p') = 1 then startBlockEvents p' else p'
      else p)"

definition removeBlockListener :: "listener \<Rightarrow> ws_provider \<Rightarrow> ws_provider" where
  "removeBlockListener l p =
     (if l \<in> set (w_listeners p) then
        let p' = p\<lparr>w_listeners := remove1 l (w_listeners p)\<rparr> in
        if w_listeners p' = [] then stopBlockEvents p' else p'
      else p)"

section \<open>Sockets\<close>

definition openWebSocket :: "string \<times> string \<Rightarrow> ws_provider \<Rightarrow> ws_provider" where
  "openWebSocket params p =
     (let s = w_sockets p in
      switchover (p\<lparr>w_provider := Some s, w_params := Some params, w_open := insert s (w_open p),
        w_handled := insert s (w_handled p), w_sockets := Suc s\<rparr>))"

definition closeWebSocket :: "ws_provider \<Rightarrow> ws_provider" where
  "closeWebSocket p =
     (case w_provider p of
        None \<Rightarrow> p
      | Some s \<Rightarrow>
          let p' = switchover (p\<lparr>w_provider := None, w_open := w_open p - {s}, w_handled := w_handled p - {s}\<rparr>) in
          (case w_reconnect p' of
             None \<Rightarrow> p'
           | Some t \<Rightarrow> p'\<lparr>w_timers := removeAll t (w_timers p'), w_reconnect := None\<rparr>))"

definition onWebSocketClose :: "ws_provider \<Rightarrow> ws_provider" where
  "onWebSocketClose p =
     (let p' = closeWebSocket p; t = w_timer_count p' in
      p'\<lparr>w_timers := t # w_timers p', w_reconnect := Some t, w_timer_count := Suc t\<rparr>)"

text \<open>A socket is closed from the other side; its handler runs if it still has one.\<close>

definition socket_closes :: "nat \<Rightarrow> ws_provider \<Rightarrow> ws_provider" where
  "socket_closes s p =
     (let p' = p\<lparr>w_open := w_open p - {s}\<rparr> in if s \<in> w_handled p then onWebSocketClose p' else p')"

definition reconnects :: "nat \<Rightarrow> ws_provider \<Rightarrow> ws_provider" where
  "reconnects t p =
     (let p' = p\<lparr>w_timers := removeAll t (w_timers p)\<rparr> in
      case w_params p' of Some params \<Rightarrow> openWebSocket params p' | None \<Rightarrow> p')"

section \<open>Notification\<close>

definition onBlock :: "nat \<Rightarrow> ws_provider \<Rightarrow> ws_provider" where
  "onBlock n p =
     (let p' = p\<lparr>w_seenBlock := n\<rparr> in
      if \<not> w_scheduled p' then p'\<lparr>w_scheduled := True, w_due := Suc (w_due p')\<rparr> else p')"

text \<open>A block of the provider below or of an open socket.\<close>

definition base_block :: "nat \<Rightarrow> ws_provider \<Rightarrow> ws_provider" where
  "base_block n p = (onBlock n ^^ w_base_on p) p"

definition socket_block :: "nat \<Rightarrow> nat \<Rightarrow> ws_provider \<Rightarrow> ws_provider" where
  "socket_block s n p = (onBlock n ^^ w_socket_on p s) p"

fun call_listener :: "listener \<Rightarrow> ws_provider \<Rightarrow> ws_provider" where
  "call_listener (Listener f) p = p\<lparr>w_calls := w_calls p @ [(f, w_seenBlock p)]\<rparr>"
| "call_listener (ListenOnce k f) p =
     removeBlockListener (ListenOnce k f) (p\<lparr>w_calls := w_calls p @ [(f, w_seenBlock p)]\<rparr>)"

definition notify_listeners :: "ws_provider \<Rightarrow> ws_provider" where
  "notify_listeners p =
     (let p' = p\<lparr>w_scheduled := False, w_due := w_due p - 1\<rparr> in fold call_listener (w_listeners p') p')"

section \<open>Retries\<close>

definition message_includes :: "string \<Rightarrow> string \<Rightarrow> bool" where
  "message_includes x m \<longleftrightarrow> (\<exists>i \<in> {..length m}. take (length x) (drop i m) = x)"

definition isHeaderNotFoundError :: "js_error \<Rightarrow> bool" where
  "isHeaderNotFoundError e =
     (case e of Error m \<Rightarrow> message_includes ''header not found'' m | NamedError n m \<Rightarrow> message_includes ''header not found'' m
      | _ \<Rightarrow> False)"

text \<open>
  \<open>_retrySeenBlock\<close> may retry forever. The parameter tells, for every attempt, how it ends and
  which block was the last seen then.
\<close>

partial_function (option) retrySeenBlock :: "(nat \<Rightarrow> 'a result \<times> nat) \<Rightarrow> nat \<Rightarrow> nat \<Rightarrow> ('a result \<times> nat) option" where
  "retrySeenBlock attempt startingBlock retries =
     (case attempt retries of
        (Inr x, _) \<Rightarrow> Some (Inr x, retries)
      | (Inl e, seen) \<Rightarrow>
          if seen \<noteq> startingBlock \<or> \<not> isHeaderNotFoundError e then Some (Inl e, retries)
          else retrySeenBlock attempt startingBlock (Suc retries))"

text \<open>\<open>call\<close> and \<open>getBalance\<close> go to the socket when it is ready, and are retried for the last seen block.\<close>

definition perform_on :: "bool option \<Rightarrow> 'a \<Rightarrow> 'a \<Rightarrow> 'a" where
  "perform_on ready socket base = (if ready = Some True then socket else base)"

definition call_at :: "(nat \<Rightarrow> 'a result \<times> nat) \<Rightarrow> nat option \<Rightarrow> nat \<Rightarrow> ('a result \<times> nat) option" where
  "call_at attempt blockTag seenBlock =
     (if blockTag = Some seenBlock then retrySeenBlock attempt seenBlock 0 else Some (fst (attempt 0), 0))"

section \<open>Receipts\<close>

text \<open>Receipts are asked of the socket whenever there is one: its \<open>ready\<close> is a promise, unlike \<open>isReady\<close>.\<close>

definition getTransactionReceipt :: "ws_provider \<Rightarrow> 'a \<Rightarrow> 'a \<Rightarrow> 'a" where
  "getTransactionReceipt p socket base = (if w_provider p \<noteq> None then socket else base)"

record chain_receipt =
  rc_blockNumber :: nat
  rc_confirmations :: nat

text \<open>The network as the provider sees it, where time counts the queries that were answered.\<close>

record chain_view =
  cv_receipt :: "nat \<Rightarrow> chain_receipt option"
  cv_block :: "nat \<Rightarrow> nat \<Rightarrow> string list option"
  cv_next :: "nat \<Rightarrow> nat"

partial_function (option) blockContainsTx :: "chain_view \<Rightarrow> nat \<Rightarrow> string \<Rightarrow> nat \<Rightarrow> (bool \<times> nat) option" where
  "blockContainsTx c b txHash n =
     (case cv_block c b n of None \<Rightarrow> blockContainsTx c b txHash (Suc n) | Some txs \<Rightarrow> Some (txHash \<in> set txs, Suc n))"

partial_function (option) receiptFromLatest ::
  "chain_view \<Rightarrow> string \<Rightarrow> nat option \<Rightarrow> nat \<Rightarrow> (chain_receipt option \<times> nat) option" where
  "receiptFromLatest c txHash latestBlock n =
     (case latestBlock of
        None \<Rightarrow> Some (cv_receipt c n, Suc n)
      | Some latest \<Rightarrow>
          (case cv_receipt c n of
             None \<Rightarrow>
               Option.bind (blockContainsTx c latest txHash (Suc n)) (\<lambda>(contained, m).
                 if \<not> contained then Some (None, m) else receiptFromLatest c txHash latestBlock m)
           | Some r \<Rightarrow>
               if int (rc_blockNumber r) + int (rc_confirmations r) - 1 \<ge> int latest then Some (Some r, Suc n)
               else receiptFromLatest c txHash latestBlock (Suc n)))"

definition enough :: "nat option \<Rightarrow> chain_receipt \<Rightarrow> bool" where
  "enough confirmations r \<longleftrightarrow> (case confirmations of None \<Rightarrow> True | Some k \<Rightarrow> rc_confirmations r \<ge> k)"

partial_function (option) waitForTransaction ::
  "chain_view \<Rightarrow> string \<Rightarrow> nat option \<Rightarrow> nat option \<Rightarrow> nat \<Rightarrow> (chain_receipt \<times> nat) option" where
  "waitForTransaction c txHash confirmations latestBlock n =
     Option.bind (receiptFromLatest c txHash latestBlock n) (\<lambda>(receipt, m).
       case receipt of
         Some r \<Rightarrow> if enough confirmations r then Some (r, m)
                   else waitForTransaction c txHash confirmations (Some (cv_next c m)) m
       | None \<Rightarrow> waitForTransaction c txHash confirmations (Some (cv_next c m)) m)"

end
