(* ===== verification/Web_Socket_Laws.thy ===== *)
theory Web_Socket_Laws
  imports Web_Sockets
begin

text \<open>
  Whoever opens a socket only while none is open or about to be reopened hears every block once; retries and waiting
  for a transaction return as soon as the network's answers allow it.
\<close>

section \<open>Block events\<close>

definition the_source :: "ws_provider \<Rightarrow> nat set" where
  "the_source p = set_option (w_provider p)"

definition on_count :: "ws_provider \<Rightarrow> nat" where
  "on_count p = (if w_listeners p = [] then 0 else 1)"

definition sources_ok :: "ws_provider \<Rightarrow> bool" where
  "sources_ok p \<longleftrightarrow> w_open p = the_source p \<and> w_handled p = the_source p \<and> (\<forall>s \<in> the_source p. s < w_sockets p) \<and>
     w_base_on p = (if w_provider p = None then on_count p else 0) \<and>
     (\<forall>s \<in> the_source p. w_socket_on p s = on_count p) \<and> (\<forall>s \<ge> w_sockets p. w_socket_on p s = 0)"

definition timers_agree :: "ws_provider \<Rightarrow> bool" where
  "timers_agree p \<longleftrightarrow> (w_timers p = [] \<or> w_provider p = None \<and> w_params p \<noteq> None \<and> (\<exists>t. w_timers p = [t])) \<and>
     (w_provider p \<noteq> None \<longrightarrow> w_params p \<noteq> None) \<and>
     w_due p = (if w_scheduled p then 1 else 0) \<and> distinct (w_listeners p)"

lemmas ok_defs = sources_ok_def timers_agree_def the_source_def on_count_def

text \<open>The steps of an owner who opens a socket only while none is open and none will be reopened.\<close>

inductive listens :: "ws_provider \<Rightarrow> bool" where
  Listens_new: "listens new_ws_provider"
| Listens_open: "listens p \<Longrightarrow> w_provider p = None \<Longrightarrow> w_timers p = [] \<Longrightarrow> listens (openWebSocket params p)"
| Listens_close: "listens p \<Longrightarrow> listens (closeWebSocket p)"
| Listens_closed: "listens p \<Longrightarrow> s \<in> w_open p \<Longrightarrow> listens (socket_closes s p)"
| Listens_reconnect: "listens p \<Longrightarrow> t \<in> set (w_timers p) \<Longrightarrow> listens (reconnects t p)"
| Listens_base: "listens p \<Longrightarrow> listens (base_block n p)"
| Listens_socket: "listens p \<Longrightarrow> s \<in> w_open p \<Longrightarrow> listens (socket_block s n p)"
| Listens_notify: "listens p \<Longrightarrow> 0 < w_due p \<Longrightarrow> listens (notify_listeners p)"
| Listens_add: "listens p \<Longrightarrow> listens (addBlockListener l p)"
| Listens_remove: "listens p \<Longrightarrow> listens (removeBlockListener l p)"

lemma add_ok:
  assumes "sources_ok p" "timers_agree p"
  shows "sources_ok (addBlockListener l p)" "timers_agree (addBlockListener l p)"
  using assms by (auto simp: addBlockListener_def startBlockEvents_def ok_defs Let_def split: option.splits if_splits)

lemma remove_ok:
  assumes "sources_ok p" "timers_agree p"
  shows "sources_ok (removeBlockListener l p)" "timers_agree (removeBlockListener l p)"
  using assms by (auto simp: removeBlockListener_def stopBlockEvents_def base_off_def ok_defs Let_def split: option.splits if_splits)

lemma open_ok:
  assumes "sources_ok p" "timers_agree p" "w_provider p = None" "w_timers p = []"
  shows "sources_ok (openWebSocket params p)" "timers_agree (openWebSocket params p)" "w_timers (openWebSocket params p) = []"
  using assms
  by (auto simp: openWebSocket_def switchover_def startBlockEvents_def base_off_def ok_defs Let_def split: option.splits if_splits)

lemma close_ok:
  assumes "sources_ok p" "timers_agree p"
  shows "sources_ok (closeWebSocket p)" "timers_agree (closeWebSocket p)" "w_provider (closeWebSocket p) = None"
    "w_provider p \<noteq> None \<Longrightarrow> w_timers (closeWebSocket p) = []" "w_params (closeWebSocket p) = w_params p"
  using assms
  by (auto simp: closeWebSocket_def switchover_def startBlockEvents_def base_off_def ok_defs Let_def split: option.splits if_splits)

lemma closed_ok:
  assumes "sources_ok p" "timers_agree p" "s \<in> w_open p"
  shows "sources_ok (socket_closes s p) \<and> timers_agree (socket_closes s p)"
proof -
  have s: "w_provider p = Some s" "s \<in> w_handled p" "w_timers p = []"
    using assms by (auto simp: ok_defs)
  then have eq: "socket_closes s p = onWebSocketClose (p\<lparr>w_open := {}\<rparr>)" "closeWebSocket (p\<lparr>w_open := {}\<rparr>) = closeWebSocket p"
    using assms by (auto simp: socket_closes_def closeWebSocket_def switchover_def startBlockEvents_def ok_defs Let_def)
  from close_ok [OF assms(1,2)] s show ?thesis
    using assms(2) unfolding eq onWebSocketClose_def by (auto simp: Let_def ok_defs)
qed

lemma reconnects_ok:
  assumes "sources_ok p" "timers_agree p" "t \<in> set (w_timers p)"
  shows "sources_ok (reconnects t p) \<and> timers_agree (reconnects t p)"
proof -
  have t: "w_timers p = [t]" "w_provider p = None" "w_params p \<noteq> None" using assms(2,3) by (auto simp: timers_agree_def)
  have "sources_ok (p\<lparr>w_timers := []\<rparr>)" "timers_agree (p\<lparr>w_timers := []\<rparr>)" using assms(1,2) t by (auto simp: ok_defs)
  from open_ok [OF this] t show ?thesis by (auto simp: reconnects_def Let_def)
qed

lemma onBlock_ok:
  assumes "sources_ok p" "timers_agree p"
  shows "sources_ok (onBlock n p) \<and> timers_agree (onBlock n p)"
  using assms by (auto simp: onBlock_def Let_def ok_defs)

lemma blocks_ok: "sources_ok p \<Longrightarrow> timers_agree p \<Longrightarrow> sources_ok ((onBlock n ^^ k) p) \<and> timers_agree ((onBlock n ^^ k) p)"
  by (induction k) (auto simp: onBlock_ok)

subsection \<open>Notification\<close>

fun is_once :: "listener \<Rightarrow> bool" where
  "is_once (Listener f) = False" | "is_once (ListenOnce k f) = True"

fun callee :: "listener \<Rightarrow> nat" where
  "callee (Listener f) = f" | "callee (ListenOnce k f) = f"

lemma remove_sel [simp]:
  "w_calls (removeBlockListener l p) = w_calls p" "w_seenBlock (removeBlockListener l p) = w_seenBlock p"
  "w_listeners (removeBlockListener l p) = remove1 l (w_listeners p)"
  by (auto simp: removeBlockListener_def stopBlockEvents_def base_off_def Let_def remove1_idem split: option.splits)

lemma call_ok:
  assumes "sources_ok p" "timers_agree p"
  shows "sources_ok (call_listener l p) \<and> timers_agree (call_listener l p)"
proof -
  have "sources_ok (p\<lparr>w_calls := c\<rparr>)" "timers_agree (p\<lparr>w_calls := c\<rparr>)" for c using assms by (auto simp: ok_defs)
  then show ?thesis by (cases l) (simp_all add: remove_ok)
qed

lemma call_listeners:
  assumes "sources_ok p" "timers_agree p" "distinct ls" "set ls \<subseteq> set (w_listeners p)"
  shows "sources_ok (fold call_listener ls p) \<and> timers_agree (fold call_listener ls p) \<and>
    w_calls (fold call_listener ls p) = w_calls p @ map (\<lambda>l. (callee l, w_seenBlock p)) ls \<and>
    w_listeners (fold call_listener ls p) = filter (\<lambda>l. l \<notin> set ls \<or> \<not> is_once l) (w_listeners p)"
  using assms
proof (induction ls arbitrary: p)
  case (Cons l ls)
  let ?p = "call_listener l p"
  have d: "distinct (w_listeners p)" using Cons.prems(2) by (simp add: timers_agree_def)
  have l: "w_listeners ?p = filter (\<lambda>x. x \<noteq> l \<or> \<not> is_once l) (w_listeners p)"
    by (cases l) (simp_all add: distinct_remove1_removeAll [OF d] removeAll_filter_not_eq neq_commute)
  have "w_seenBlock ?p = w_seenBlock p" "w_calls ?p = w_calls p @ [(callee l, w_seenBlock p)]" by (cases l; simp)+
  moreover have "set ls \<subseteq> set (w_listeners ?p)" using Cons.prems(3,4) l by auto
  ultimately show ?case
    using Cons.IH [of ?p] Cons.prems(3) call_ok [OF Cons.prems(1,2), of l]
    by (auto simp: l conj_commute intro!: filter_cong)
qed simp

lemma notify_ok:
  assumes "sources_ok p" "timers_agree p" "0 < w_due p"
  shows "sources_ok (notify_listeners p) \<and> timers_agree (notify_listeners p) \<and>
    w_calls (notify_listeners p) = w_calls p @ map (\<lambda>l. (callee l, w_seenBlock p)) (w_listeners p) \<and>
    w_listeners (notify_listeners p) = filter (\<lambda>l. \<not> is_once l) (w_listeners p)"
proof -
  let ?p = "p\<lparr>w_scheduled := False, w_due := w_due p - 1\<rparr>"
  have "sources_ok ?p" "timers_agree ?p" using assms by (auto simp: ok_defs split: if_splits)
  moreover have "distinct (w_listeners p)" using assms(2) by (simp add: timers_agree_def)
  ultimately show ?thesis
    using call_listeners [of ?p "w_listeners p"] by (auto simp: notify_listeners_def Let_def intro: filter_cong)
qed

lemma listens_ok: "listens p \<Longrightarrow> sources_ok p \<and> timers_agree p"
proof (induction rule: listens.induct)
  case Listens_new
  show ?case by (simp add: ok_defs new_ws_provider_def)
qed (simp_all add: open_ok close_ok closed_ok reconnects_ok base_block_def socket_block_def blocks_ok notify_ok add_ok remove_ok)

text \<open>
  C21. Every block is heard once. As long as the owner opens a socket only while none is open and none will be reopened, whatever
  closes, reopens and is registered: the block listener is registered with exactly the current source, once, if there are
  listeners and nowhere otherwise; so a block of the current source, and of no other, is noticed, once. At most one notification
  is under way, and it calls every listener once with the latest block and forgets those that listen once.
\<close>

theorem every_block_heard_once:
  assumes "listens p"
  shows "(case w_provider p of
       None \<Rightarrow> w_open p = {} \<and> base_block n p = (if w_listeners p = [] then p else onBlock n p)
     | Some s \<Rightarrow> w_open p = {s} \<and> base_block n p = p \<and> socket_block s n p = (if w_listeners p = [] then p else onBlock n p)) \<and>
    w_due p = (if w_scheduled p then 1 else 0) \<and> w_seenBlock (onBlock n p) = n \<and> w_scheduled (onBlock n p) \<and>
    (w_scheduled p \<longrightarrow>
       w_calls (notify_listeners p) = w_calls p @ map (\<lambda>l. (callee l, w_seenBlock p)) (w_listeners p) \<and>
       w_listeners (notify_listeners p) = filter (\<lambda>l. \<not> is_once l) (w_listeners p))"
  using listens_ok [OF assms] notify_ok [of p]
  by (auto simp: ok_defs base_block_def socket_block_def onBlock_def Let_def split: option.splits)

lemma every_block_heard_once_witness:
  "\<exists>p. listens p \<and> w_listeners p \<noteq> [] \<and> w_provider p = Some 0 \<and> socket_block 0 5 p = onBlock 5 p"
proof -
  let ?p = "openWebSocket (''ws://x'', ''1'') (addBlockListener (Listener 7) new_ws_provider)"
  have p: "listens ?p"
    by (rule Listens_open [OF Listens_add [OF Listens_new]])
      (simp_all add: addBlockListener_def new_ws_provider_def startBlockEvents_def)
  moreover have "w_listeners ?p = [Listener 7]" "w_provider ?p = Some 0"
    by (simp_all add: openWebSocket_def switchover_def addBlockListener_def new_ws_provider_def startBlockEvents_def base_off_def)
  ultimately show ?thesis using every_block_heard_once [OF p, of 5] by auto
qed

subsection \<open>Reconnecting\<close>

text \<open>
  Closing while a reconnection is due does nothing: the socket is opened again afterwards. Opening then leaves two sockets
  open that both report blocks.
\<close>

definition disconnected :: ws_provider where
  "disconnected = socket_closes 0 (openWebSocket (''ws://x'', ''1'') (addBlockListener (Listener 7) new_ws_provider))"

lemmas step_defs = disconnected_def socket_closes_def onWebSocketClose_def closeWebSocket_def openWebSocket_def switchover_def
  startBlockEvents_def base_off_def addBlockListener_def new_ws_provider_def reconnects_def Let_def

lemma closing_keeps_reconnecting: "closeWebSocket disconnected = disconnected" "w_timers disconnected = [0]"
  by (simp_all add: step_defs)

lemma reopened_listens_twice:
  "let p = reconnects 0 (openWebSocket (''ws://y'', ''1'') disconnected) in
     w_open p = {1, 2} \<and> w_socket_on p 1 = 1 \<and> w_socket_on p 2 = 1"
  by (auto simp: step_defs)

section \<open>Retries\<close>

definition decisive :: "(nat \<Rightarrow> 'a result \<times> nat) \<Rightarrow> nat \<Rightarrow> nat \<Rightarrow> bool" where
  "decisive attempt b j =
     (case attempt j of (Inr x, _) \<Rightarrow> True | (Inl e, seen) \<Rightarrow> seen \<noteq> b \<or> \<not> isHeaderNotFoundError e)"

lemma retry_step:
  "retrySeenBlock attempt b r =
     (if decisive attempt b r then Some (fst (attempt r), r) else retrySeenBlock attempt b (Suc r))"
  by (subst retrySeenBlock.simps) (auto simp: decisive_def split: sum.splits prod.splits)

lemma retry_until:
  assumes "decisive attempt b k" "r \<le> k" "\<And>j. r \<le> j \<Longrightarrow> j < k \<Longrightarrow> \<not> decisive attempt b j"
  shows "retrySeenBlock attempt b r = Some (fst (attempt k), k)"
  using assms
proof (induction "k - r" arbitrary: r)
  case 0
  then show ?case by (subst retry_step) auto
next
  case (Suc d)
  then have "\<not> decisive attempt b r" "retrySeenBlock attempt b (Suc r) = Some (fst (attempt k), k)" by auto
  then show ?case by (subst retry_step) simp
qed

lemma retry_decides:
  assumes ret: "retrySeenBlock attempt b r = Some y"
  shows "\<exists>k \<ge> r. decisive attempt b k"
proof (rule retrySeenBlock.raw_induct [where P = "\<lambda>attempt b r y. \<exists>k \<ge> r. decisive attempt b k", OF _ ret])
  fix retry and attempt :: "nat \<Rightarrow> 'a result \<times> nat" and b r y
  assume IH: "\<And>attempt b r y. retry attempt b r = Some y \<Longrightarrow> \<exists>k \<ge> r. decisive attempt b k"
    and step: "(case attempt r of (Inl e, seen) \<Rightarrow>
        if seen \<noteq> b \<or> \<not> isHeaderNotFoundError e then Some (Inl e, r) else retry attempt b (Suc r)
      | (Inr x, seen) \<Rightarrow> Some (Inr x, r)) = Some y"
  show "\<exists>k \<ge> r. decisive attempt b k"
  proof (cases "decisive attempt b r")
    case False
    with step have "retry attempt b (Suc r) = Some y" by (auto simp: decisive_def split: sum.splits prod.splits if_splits)
    from IH [OF this] show ?thesis using Suc_leD by blast
  qed auto
qed

text \<open>
  C23. Retries. A call at the last seen block is repeated until it succeeds, fails for another reason than a missing header, or
  another block is seen; it returns the result of the first such attempt, and never returns exactly if there is none. A call at any
  other block is made once.
\<close>

theorem retries_return_iff:
  "(call_at attempt (Some b) b = None \<longleftrightarrow> (\<forall>j. \<not> decisive attempt b j)) \<and>
   (\<forall>k. decisive attempt b k \<and> (\<forall>j < k. \<not> decisive attempt b j) \<longrightarrow> call_at attempt (Some b) b = Some (fst (attempt k), k)) \<and>
   (tag \<noteq> Some b \<longrightarrow> call_at attempt tag b = Some (fst (attempt 0), 0))"
proof -
  have least: "retrySeenBlock attempt b 0 = Some (fst (attempt (LEAST j. decisive attempt b j)), LEAST j. decisive attempt b j)"
    if "decisive attempt b k" for k
    using that by (intro retry_until) (auto intro: LeastI dest: not_less_Least)
  have "retrySeenBlock attempt b 0 = None \<longleftrightarrow> (\<forall>j. \<not> decisive attempt b j)"
    using least retry_decides [of attempt b 0] by (cases "retrySeenBlock attempt b 0") auto
  then show ?thesis by (auto simp: call_at_def intro!: retry_until)
qed

lemma retries_return_iff_witness:
  "call_at (\<lambda>j. if j < 2 then (Inl (Error ''header not found''), 5) else (Inr (3 :: nat), 5)) (Some 5) 5 = Some (Inr 3, 2)"
proof -
  let ?a = "\<lambda>j :: nat. if j < 2 then (Inl (Error ''header not found''), 5 :: nat) else (Inr (3 :: nat), 5)"
  have "isHeaderNotFoundError (Error ''header not found'')"
    by (auto simp: isHeaderNotFoundError_def message_includes_def intro!: bexI [of _ 0])
  then have "decisive ?a 5 2" "\<forall>j < 2. \<not> decisive ?a 5 j" by (simp_all add: decisive_def)
  with retries_return_iff [of ?a 5 None] show ?thesis by auto
qed

section \<open>Waiting for a transaction\<close>

lemma blockContainsTx_returns:
  assumes "cv_block c b k \<noteq> None" "n \<le> k"
  shows "\<exists>x m. blockContainsTx c b txHash n = Some (x, m) \<and> n < m"
  using assms
proof (induction "k - n" arbitrary: n)
  case 0
  then show ?case by (subst blockContainsTx.simps) auto
next
  case (Suc d)
  then obtain x m where "blockContainsTx c b txHash (Suc n) = Some (x, m)" "Suc n < m"
    using Suc.hyps(1) [of "Suc n"] Suc.hyps(2) Suc.prems by (metis Suc_diff_Suc Suc_inject Suc_leI zero_less_Suc zero_less_diff)
  then show ?case
    by (subst blockContainsTx.simps) (auto split: option.split)
qed

text \<open>
  The network answers in the end: blocks can be fetched again and again, and from some time on the receipt has enough
  confirmations and counts all blocks announced so far.
\<close>

definition settles_at :: "chain_view \<Rightarrow> nat option \<Rightarrow> nat \<Rightarrow> bool" where
  "settles_at c confirmations N \<longleftrightarrow> (\<forall>b n. \<exists>k \<ge> n. cv_block c b k \<noteq> None) \<and>
     (\<forall>n \<ge> N. \<exists>r. cv_receipt c n = Some r \<and> enough confirmations r \<and>
        (\<forall>m \<le> n. int (cv_next c m) \<le> int (rc_blockNumber r) + int (rc_confirmations r) - 1))"

definition announced :: "chain_view \<Rightarrow> nat \<Rightarrow> nat option \<Rightarrow> bool" where
  "announced c n latest \<longleftrightarrow> (\<forall>b. latest = Some b \<longrightarrow> (\<exists>m \<le> n. b = cv_next c m))"

lemma receiptFromLatest_returns:
  assumes "settles_at c confirmations N" "announced c n latest"
  shows "\<exists>x m. receiptFromLatest c txHash latest n = Some (x, m) \<and> n < m \<and>
    (N \<le> n \<longrightarrow> (\<exists>r. x = Some r \<and> enough confirmations r))"
  using assms(2)
proof (induction "N - n" arbitrary: n rule: less_induct)
  case less
  show ?case
  proof (cases latest)
    case None
    have "N \<le> n \<Longrightarrow> \<exists>r. cv_receipt c n = Some r \<and> enough confirmations r"
      using assms(1) unfolding settles_at_def by blast
    with None show ?thesis by (subst receiptFromLatest.simps) auto
  next
    case (Some b)
    have later: "announced c m latest" if "n \<le> m" for m
      using less.prems that by (auto simp: announced_def intro: order_trans)
    show ?thesis
    proof (cases "N \<le> n")
      case True
      then obtain r where r: "cv_receipt c n = Some r" "enough confirmations r"
        "\<forall>m \<le> n. int (cv_next c m) \<le> int (rc_blockNumber r) + int (rc_confirmations r) - 1"
        using assms(1) unfolding settles_at_def by blast
      with less.prems Some have "int b \<le> int (rc_blockNumber r) + int (rc_confirmations r) - 1" by (auto simp: announced_def)
      with r Some show ?thesis by (subst receiptFromLatest.simps) auto
    next
      case False
      obtain k where "Suc n \<le> k" "cv_block c b k \<noteq> None" using assms(1) unfolding settles_at_def by blast
      from blockContainsTx_returns [OF this(2,1)] obtain x m where m: "blockContainsTx c b txHash (Suc n) = Some (x, m)" "Suc n < m"
        by blast
      have again: "\<exists>x m'. receiptFromLatest c txHash latest k = Some (x, m') \<and> n < m'" if "n < k" for k
        using less.hyps [of k] later [of k] that False by (meson diff_less_mono2 less_imp_le less_trans not_le)
      show ?thesis
        using again [of m] again [of "Suc n"] m Some False
        by (subst receiptFromLatest.simps) (auto split: option.split)
    qed
  qed
qed

lemma waitForTransaction_returns:
  assumes "settles_at c confirmations N" "announced c n latest"
  shows "\<exists>r m. waitForTransaction c txHash confirmations latest n = Some (r, m) \<and> enough confirmations r"
  using assms(2)
proof (induction "N - n" arbitrary: n latest rule: less_induct)
  case less
  obtain x m where x: "receiptFromLatest c txHash latest n = Some (x, m)" "n < m"
    "N \<le> n \<longrightarrow> (\<exists>r. x = Some r \<and> enough confirmations r)"
    using receiptFromLatest_returns [OF assms(1) less.prems] by blast
  show ?case
  proof (cases "\<exists>r. x = Some r \<and> enough confirmations r")
    case True
    with x(1) show ?thesis by (subst waitForTransaction.simps) auto
  next
    case False
    then have "N - m < N - n" using x(2,3) by auto
    from less.hyps [OF this, of "Some (cv_next c m)"] False x(1) show ?thesis
      by (subst waitForTransaction.simps) (auto simp: announced_def split: option.split)
  qed
qed

text \<open>What is returned was an answer of the network.\<close>

lemma receiptFromLatest_sound:
  assumes ret: "receiptFromLatest c txHash latest n = Some y"
  shows "fst y = Some r \<Longrightarrow> \<exists>k. cv_receipt c k = Some r"
proof -
  have "\<forall>r. fst y = Some r \<longrightarrow> (\<exists>k. cv_receipt c k = Some r)"
  proof (rule receiptFromLatest.raw_induct
      [where P = "\<lambda>c txHash latest n y. \<forall>r. fst y = Some r \<longrightarrow> (\<exists>k. cv_receipt c k = Some r)", OF _ ret])
    fix rec c txHash latest n y
    assume IH: "\<And>c txHash latest n y. rec c txHash latest n = Some y \<Longrightarrow> \<forall>r. fst y = Some r \<longrightarrow> (\<exists>k. cv_receipt c k = Some r)"
      and step: "(case latest of None \<Rightarrow> Some (cv_receipt c n, Suc n)
        | Some latesta \<Rightarrow> (case cv_receipt c n of
            None \<Rightarrow> Option.bind (blockContainsTx c latesta txHash (Suc n))
              (\<lambda>(contained, m). if \<not> contained then Some (None, m) else rec c txHash latest m)
          | Some r \<Rightarrow> if int latesta \<le> int (rc_blockNumber r) + int (rc_confirmations r) - 1 then Some (Some r, Suc n)
                      else rec c txHash latest (Suc n))) = Some y"
    consider m where "rec c txHash latest m = Some y" | "fst y = None" | "fst y = cv_receipt c n"
      using step by (auto split: option.splits if_splits prod.splits simp: bind_eq_Some_conv)
    then show "\<forall>r. fst y = Some r \<longrightarrow> (\<exists>k. cv_receipt c k = Some r)"
      by cases (use IH in \<open>auto dest: sym\<close>)
  qed
  then show "fst y = Some r \<Longrightarrow> \<exists>k. cv_receipt c k = Some r" by blast
qed

lemma waitForTransaction_sound:
  assumes ret: "waitForTransaction c txHash confirmations latest n = Some y"
  shows "enough confirmations (fst y) \<and> (\<exists>k. cv_receipt c k = Some (fst y))"
proof (rule waitForTransaction.raw_induct
    [where P = "\<lambda>c txHash confirmations latest n y. enough confirmations (fst y) \<and> (\<exists>k. cv_receipt c k = Some (fst y))", OF _ ret])
  fix rec c txHash confirmations latest n y
  assume IH: "\<And>c txHash confirmations latest n y. rec c txHash confirmations latest n = Some y \<Longrightarrow>
      enough confirmations (fst y) \<and> (\<exists>k. cv_receipt c k = Some (fst y))"
    and step: "Option.bind (receiptFromLatest c txHash latest n) (\<lambda>(receipt, m).
        case receipt of
          None \<Rightarrow> rec c txHash confirmations (Some (cv_next c m)) m
        | Some r \<Rightarrow> if enough confirmations r then Some (r, m) else rec c txHash confirmations (Some (cv_next c m)) m) = Some y"
  from step obtain x m where x: "receiptFromLatest c txHash latest n = Some (x, m)" by (auto simp: bind_eq_Some_conv)
  with step consider "rec c txHash confirmations (Some (cv_next c m)) m = Some y" | "x = Some (fst y)" "enough confirmations (fst y)"
    by (auto split: option.splits if_splits)
  then show "enough confirmations (fst y) \<and> (\<exists>k. cv_receipt c k = Some (fst y))"
    by cases (use IH receiptFromLatest_sound [OF x] in auto)
qed

text \<open>
  C22. Waiting for a transaction. It returns only a receipt that the network gave and that has the confirmations asked for; and it does
  return when the network's answers settle, that is, blocks can be fetched again and again and from some time on the receipt has enough
  confirmations and is not behind the announced blocks.
\<close>

theorem waiting_returns_confirmed:
  "(settles_at c confirmations N \<longrightarrow> (\<exists>y. waitForTransaction c txHash confirmations None 0 = Some y)) \<and>
   (waitForTransaction c txHash confirmations None 0 = Some y \<longrightarrow>
      enough confirmations (fst y) \<and> (\<exists>k. cv_receipt c k = Some (fst y)))"
  using waitForTransaction_returns [of c confirmations N 0 None] waitForTransaction_sound
  by (fastforce simp: announced_def)

definition settling :: chain_view where
  "settling = \<lparr>cv_receipt = (\<lambda>n. if n < 2 then None else Some \<lparr>rc_blockNumber = 8, rc_confirmations = 3\<rparr>),
     cv_block = (\<lambda>b n. if n < 5 then None else Some []), cv_next = (\<lambda>n. 9)\<rparr>"

lemma waiting_returns_confirmed_witness:
  "settles_at settling (Some 2) 2 \<and> (\<exists>y. waitForTransaction settling ''0xab'' (Some 2) None 0 = Some y \<and> rc_confirmations (fst y) = 3)"
proof -
  have "\<exists>k \<ge> n. cv_block settling b k \<noteq> None" for b n by (rule exI [of _ "n + 5"]) (simp add: settling_def)
  then have s: "settles_at settling (Some 2) 2" by (auto simp: settles_at_def settling_def enough_def)
  then obtain y where y: "waitForTransaction settling ''0xab'' (Some 2) None 0 = Some y"
    using waiting_returns_confirmed [of settling "Some 2" 2 "''0xab''"] by blast
  then obtain k where "cv_receipt settling k = Some (fst y)"
    using waiting_returns_confirmed [of settling "Some 2" 2 "''0xab''" y] by blast
  then have "fst y = \<lparr>rc_blockNumber = 8, rc_confirmations = 3\<rparr>" by (simp add: settling_def split: if_splits)
  then have "rc_confirmations (fst y) = 3" by simp
  with s y show ?thesis by blast
qed

end
