(* ===== verification/Hooks.thy ===== *)
theory Hooks
  imports Store
begin

text \<open>
  The hooks through which components of React use the store (\<open>packages/lib-react/src\<close>) and values that arrive later
  (\<open>packages/dev-frontend/src/hooks/AsyncValue.ts\<close>). A component renders, then its effects run: an effect whose dependencies
  changed cleans up and subscribes anew. Functions of the program that are passed around are numbered; a dependency is compared by its
  number, \<open>code\<close> gives what the function computes.
\<close>

section \<open>Comparing values\<close>

text \<open>
  A value is a primitive (also \<open>null\<close>), a function or an object, the latter two by their address; for these \<open>Object.is\<close> is equality,
  when primitives are told apart as \<open>Object.is\<close> does. The heap has the own properties of every object, in order; of two entries
  with the same key the first counts. Only enumerable properties are modelled, so an array has no \<open>length\<close> here. Objects that are compared are not changed.
\<close>

datatype 'p js_ref = Primitive 'p | Function_at nat | Object_at nat

type_synonym 'p properties = "(string \<times> 'p js_ref) list"
type_synonym 'p heap = "nat \<Rightarrow> 'p properties"

definition hasOwnProperty :: "'p properties \<Rightarrow> string \<Rightarrow> bool" where
  "hasOwnProperty ob key \<longleftrightarrow> map_of ob key \<noteq> None"

definition object_keys :: "'p properties \<Rightarrow> string list" where
  "object_keys ob = remdups (map fst ob)"

definition shallowEquals :: "'p properties \<Rightarrow> 'p properties \<Rightarrow> bool" where
  "shallowEquals a b \<longleftrightarrow>
     length (object_keys a) = length (object_keys b) \<and>
     list_all (\<lambda>key. hasOwnProperty b key \<and> map_of a key = map_of b key) (object_keys a)"

definition isObject :: "'p js_ref \<Rightarrow> bool" where
  "isObject a \<longleftrightarrow> (case a of Object_at _ \<Rightarrow> True | _ \<Rightarrow> False)"

definition properties_of :: "'p heap \<Rightarrow> 'p js_ref \<Rightarrow> 'p properties" where
  "properties_of h a = (case a of Object_at n \<Rightarrow> h n | _ \<Rightarrow> [])"

definition hook_equals :: "'p heap \<Rightarrow> 'p js_ref \<Rightarrow> 'p js_ref \<Rightarrow> bool" where
  "hook_equals h a b \<longleftrightarrow>
     (if isObject a \<and> isObject b then shallowEquals (properties_of h a) (properties_of h b) else a = b)"

section \<open>A value selected from the store\<close>

text \<open>
  A component with \<open>useMoneypSelector\<close>: the function it selects with, what it showed last, whether it will render again, and its
  subscription, the listener in the store with the function that was current when it subscribed.
\<close>

record 'p selecting =
  sel_function :: nat
  sel_shown :: "'p js_ref"
  sel_rerender :: bool
  sel_subscription :: "(nat \<times> nat) option"

type_synonym ('v, 'p) selectors = "nat \<Rightarrow> 'v store_state \<Rightarrow> 'p js_ref"

definition selector_mount :: "('v, 'p) selectors \<Rightarrow> nat \<Rightarrow> 'v store \<Rightarrow> 'p selecting" where
  "selector_mount code f s = \<lparr>sel_function = f, sel_shown = code f (state s), sel_rerender = False, sel_subscription = None\<rparr>"

definition selector_render :: "('v, 'p) selectors \<Rightarrow> nat \<Rightarrow> 'v store \<Rightarrow> 'p selecting \<Rightarrow> 'p selecting" where
  "selector_render code f s c = c\<lparr>sel_function := f, sel_shown := code f (state s), sel_rerender := False\<rparr>"

definition selector_effect :: "'v store \<times> 'p selecting \<Rightarrow> 'v store \<times> 'p selecting" where
  "selector_effect sc =
     (let (s, c) = sc; f = sel_function c; new = (\<lambda>s. (subscribe s, c\<lparr>sel_subscription := Some (nextListener s, f)\<rparr>)) in
      case sel_subscription c of
        None \<Rightarrow> new s
      | Some (l, g) \<Rightarrow> if g = f then (s, c) else new (unsubscribe l s))"

definition selector_listener ::
  "'p heap \<Rightarrow> ('v, 'p) selectors \<Rightarrow> nat \<Rightarrow> 'v listener_params \<Rightarrow> 'p selecting \<Rightarrow> 'p selecting" where
  "selector_listener h code f p c =
     (if \<not> hook_equals h (code f (newState p)) (code f (oldState p)) then c\<lparr>sel_rerender := True\<rparr> else c)"

text \<open>What the calls of listeners do to the component: those of its own listener run \<open>selector_listener\<close>.\<close>

fun selector_observe :: "'p heap \<Rightarrow> ('v, 'p) selectors \<Rightarrow> 'v event \<Rightarrow> 'p selecting \<Rightarrow> 'p selecting" where
  "selector_observe h code (Notified l p) c =
     (case sel_subscription c of
        Some (m, f) \<Rightarrow> if l = m then selector_listener h code f p c else c
      | None \<Rightarrow> c)"
| "selector_observe h code e c = c"

text \<open>An operation of the store followed by what the component makes of the events it added.\<close>

definition selector_after ::
  "'p heap \<Rightarrow> ('v, 'p) selectors \<Rightarrow> 'v store \<Rightarrow> 'v store \<Rightarrow> 'p selecting \<Rightarrow> 'p selecting" where
  "selector_after h code s s' c = fold (selector_observe h code) (drop (length (trace s)) (trace s')) c"

section \<open>A state that is reduced from updates of the store and own actions\<close>

datatype ('v, 'act) hook_action = OwnAction 'act | UpdateStore "'v listener_params"

text \<open>
  A component with \<open>useMoneypReducer\<close>: the number of the store it was initialised from, its state, what it showed last and whether it will render
  again. A reducer that throws leaves the state.
\<close>

record 'p reducing =
  red_oldStore :: nat
  red_state :: "'p js_ref"
  red_shown :: "'p js_ref"
  red_rerender :: bool

definition reducer_mount :: "('v store_state \<Rightarrow> 'p js_ref) \<Rightarrow> nat \<Rightarrow> 'v store \<Rightarrow> 'p reducing" where
  "reducer_mount ini k s = \<lparr>red_oldStore = k, red_state = ini (state s), red_shown = ini (state s), red_rerender = False\<rparr>"

definition reducer_render :: "('v store_state \<Rightarrow> 'p js_ref) \<Rightarrow> nat \<Rightarrow> 'v store \<Rightarrow> 'p reducing \<Rightarrow> 'p reducing" where
  "reducer_render ini k s c =
     (let c = (if red_oldStore c \<noteq> k then c\<lparr>red_state := ini (state s), red_oldStore := k\<rparr> else c)
      in c\<lparr>red_shown := red_state c, red_rerender := False\<rparr>)"

type_synonym ('v, 'act, 'p) hook_reducer = "'p js_ref \<Rightarrow> ('v, 'act) hook_action \<Rightarrow> 'p js_ref result"

definition reducer_dispatch ::
  "'p heap \<Rightarrow> ('v, 'act, 'p) hook_reducer \<Rightarrow> ('v, 'act) hook_action \<Rightarrow> 'p reducing \<Rightarrow> js_error option \<times> 'p reducing" where
  "reducer_dispatch h reduce a c =
     (case reduce (red_state c) a of
        Inl e \<Rightarrow> (Some e, c)
      | Inr new \<Rightarrow>
          (None, if \<not> hook_equals h new (red_state c) then c\<lparr>red_state := new, red_rerender := True\<rparr> else c))"

definition dispatch_all ::
  "'p heap \<Rightarrow> ('v, 'act, 'p) hook_reducer \<Rightarrow> ('v, 'act) hook_action list \<Rightarrow> 'p reducing \<Rightarrow> 'p reducing" where
  "dispatch_all h reduce as c = fold (\<lambda>a c. snd (reducer_dispatch h reduce a c)) as c"

section \<open>The provider of the store\<close>

text \<open>
  The stores a provider may be given, by number, and the one it is given and the one it provides. A store of the heap knows whether its \<open>onLoaded\<close> is set.
\<close>

record 'v store_provider =
  sp_stores :: "nat \<Rightarrow> 'v store"
  sp_store :: nat
  sp_loadedStore :: "nat option"
  sp_started :: "nat option"

definition provider_cleanup :: "nat \<Rightarrow> 'v store_provider \<Rightarrow> 'v store_provider" where
  "provider_cleanup k p =
     p\<lparr>sp_stores := (sp_stores p)(k := stop ((sp_stores p k)\<lparr>hasOnLoaded := False\<rparr>)), sp_loadedStore := None, sp_started := None\<rparr>"

definition provider_start :: "'v store_provider \<Rightarrow> 'v store_provider" where
  "provider_start p =
     p\<lparr>sp_stores := (sp_stores p)(sp_store p := (sp_stores p (sp_store p))\<lparr>hasOnLoaded := True\<rparr>), sp_started := Some (sp_store p)\<rparr>"

text \<open>The effect runs when another store is given: cleanup, then start.\<close>

definition provider_effect :: "'v store_provider \<Rightarrow> 'v store_provider" where
  "provider_effect p =
     (case sp_started p of
        None \<Rightarrow> provider_start p
      | Some k \<Rightarrow> if k = sp_store p then p else provider_start (provider_cleanup k p))"

text \<open>The first state of the started store arrives; its \<open>onLoaded\<close> is that of the effect.\<close>

definition provider_load :: "base_state \<Rightarrow> 'v extra_state option \<Rightarrow> 'v store_provider \<Rightarrow> js_error option \<times> 'v store_provider" where
  "provider_load b x p =
     (case sp_started p of
        None \<Rightarrow> (None, p)
      | Some k \<Rightarrow>
          (case load b x (sp_stores p k) of
             (e, s) \<Rightarrow> (e, p\<lparr>sp_stores := (sp_stores p)(k := s),
                sp_loadedStore := (if e = None \<and> hasOnLoaded s then Some k else sp_loadedStore p)\<rparr>)))"

definition provider_unmount :: "'v store_provider \<Rightarrow> 'v store_provider" where
  "provider_unmount p = (case sp_started p of None \<Rightarrow> p | Some k \<Rightarrow> provider_cleanup k p)"

text \<open>What \<open>useMoneypStore\<close> finds below the provider; the provider renders its loader without a loaded store.\<close>

definition useMoneypStore :: "nat option \<Rightarrow> nat result" where
  "useMoneypStore context_value =
     (case context_value of
        None \<Rightarrow> Inl (Error ''You must provide a MoneypStore via MoneypStoreProvider'')
      | Some k \<Rightarrow> Inr k)"

definition provider_children :: "'v store_provider \<Rightarrow> nat option" where
  "provider_children p = sp_loadedStore p"

section \<open>Values that arrive later\<close>

datatype 'a async_value = NotLoaded | LoadedValue 'a

text \<open>
  A component with \<open>useAsyncValue\<close> between the start of its effect and its cleanup. \<open>reduceValues\<close> is optional; the
  values are not \<open>undefined\<close>.
\<close>

record 'a async_hook =
  av_callState :: "'a async_value"
  av_previousValue :: "'a option"
  av_mounted :: bool
  av_watched :: bool

definition async_effect :: "bool \<Rightarrow> 'a async_hook" where
  "async_effect watches = \<lparr>av_callState = NotLoaded, av_previousValue = None, av_mounted = True, av_watched = watches\<rparr>"

definition async_fetched :: "'a \<Rightarrow> 'a async_hook \<Rightarrow> 'a async_hook" where
  "async_fetched v c =
     (if av_mounted c \<and> av_previousValue c = None
      then c\<lparr>av_callState := LoadedValue v, av_previousValue := Some v\<rparr> else c)"

definition onValueChanged :: "('a \<Rightarrow> 'a \<Rightarrow> 'a) option \<Rightarrow> 'a \<Rightarrow> 'a async_hook \<Rightarrow> 'a async_hook" where
  "onValueChanged reduceValues v c =
     (if av_mounted c
      then (let v = (case (av_previousValue c, reduceValues) of (Some p, Some f) \<Rightarrow> f p v | _ \<Rightarrow> v)
            in c\<lparr>av_callState := LoadedValue v, av_previousValue := Some v\<rparr>)
      else c)"

definition async_cleanup :: "'a async_hook \<Rightarrow> 'a async_hook" where
  "async_cleanup c = c\<lparr>av_mounted := False, av_watched := False\<rparr>"

text \<open>\<open>useAsyncStore\<close>: several such values under the names of their properties.\<close>

type_synonym 'a async_store = "(string \<times> 'a async_value) list"

definition allLoaded :: "'a async_store \<Rightarrow> bool" where
  "allLoaded store \<longleftrightarrow> list_all (\<lambda>(_, x). x \<noteq> NotLoaded) store"

text \<open>Reading \<open>value\<close> of a state that is not loaded is \<open>undefined\<close>, that is, no value of its type.\<close>

definition value_of :: "'a async_value \<Rightarrow> 'a option" where
  "value_of x = (case x of NotLoaded \<Rightarrow> None | LoadedValue v \<Rightarrow> Some v)"

definition useAsyncStore :: "'a async_store \<Rightarrow> (string \<times> 'a option) list async_value" where
  "useAsyncStore store =
     (if \<not> allLoaded store then NotLoaded
      else LoadedValue (map (\<lambda>(property, x). (property, value_of x)) store))"

end
