(* ===== verification/Hook_Laws.thy ===== *)
theory Hook_Laws
  imports Hooks Store_Properties
begin

text \<open>
  What the hooks guarantee: comparison of objects is an equivalence, a component shows what it selects from the store or renders
  again, a reduced state is the fold of its reducer, only loaded stores are provided and a late answer does not replace a newer value.
\<close>

section \<open>Comparing values\<close>

text \<open>The contract of a comparison that decides whether to render again.\<close>

locale rendering_equality =
  fixes same :: "'a \<Rightarrow> 'a \<Rightarrow> bool"
  assumes same_refl: "same a a"
    and same_sym: "same a b \<Longrightarrow> same b a"
    and same_trans: "same a b \<Longrightarrow> same b c \<Longrightarrow> same a c"
begin

lemma shown_stays:
  assumes "same shown (f old) \<or> again" "same (f new) (f old)"
  shows "same shown (f new) \<or> again"
  using assms same_sym same_trans by blast

lemma same_iff: "same a b \<Longrightarrow> same a c \<longleftrightarrow> same b c"
  using same_sym same_trans by blast

end

lemma length_object_keys: "length (object_keys ob) = card (dom (map_of ob))"
  by (simp add: object_keys_def dom_map_of_conv_image_fst length_remdups_card_conv image_def)

lemma shallowEquals_iff: "shallowEquals a b \<longleftrightarrow> map_of a = map_of b"
proof
  assume eq: "shallowEquals a b"
  have keys: "set (object_keys a) = dom (map_of a)"
    by (simp add: object_keys_def dom_map_of_conv_image_fst)
  with eq have sub: "dom (map_of a) \<subseteq> dom (map_of b)"
    and agree: "\<And>k. k \<in> dom (map_of a) \<Longrightarrow> map_of a k = map_of b k"
    by (auto simp: shallowEquals_def list_all_iff hasOwnProperty_def)
  have "dom (map_of a) = dom (map_of b)"
    using eq card_subset_eq [OF finite_dom_map_of sub] by (simp add: shallowEquals_def length_object_keys)
  with agree show "map_of a = map_of b" by (intro ext) (metis domIff)
next
  assume eq: "map_of a = map_of b"
  have "length (object_keys a) = length (object_keys b)" by (simp add: length_object_keys eq)
  then show "shallowEquals a b"
    by (auto simp: shallowEquals_def list_all_iff hasOwnProperty_def eq [symmetric])
      (metis dom_map_of_conv_image_fst domD eq image_eqI list.set_map object_keys_def set_remdups)
qed

interpretation shown_value: rendering_equality "hook_equals h" for h
  by unfold_locales (auto simp: hook_equals_def shallowEquals_iff split: if_splits)

section \<open>Selected values\<close>

text \<open>The listeners of others neither throw nor unsubscribe this one.\<close>

definition undisturbed :: "'v callbacks \<Rightarrow> nat \<Rightarrow> bool" where
  "undisturbed cb l \<longleftrightarrow> (\<forall>n p. snd (cb n p) = None \<and> Unsubscribe l \<notin> set (fst (cb n p)))"

text \<open>
  A loaded store and a component that selects from it. Updates come when the component is subscribed with its current function, that
  is, not between a render with another function and the effects after it.
\<close>

inductive selecting_from ::
  "'p heap \<Rightarrow> ('v, 'p) selectors \<Rightarrow> (int \<Rightarrow> string) \<Rightarrow> ('v extra_state \<Rightarrow> 'v extra_state \<Rightarrow> 'v extra_state) \<Rightarrow>
    'v callbacks \<Rightarrow> 'v store \<Rightarrow> 'p selecting \<Rightarrow> bool" for h code loc rx cb where
  Selecting_mount: "reachable_store loc rx cb s \<Longrightarrow> loaded s \<Longrightarrow> selecting_from h code loc rx cb s (selector_mount code f s)"
| Selecting_render: "selecting_from h code loc rx cb s c \<Longrightarrow> selecting_from h code loc rx cb s (selector_render code f s c)"
| Selecting_effect: "selecting_from h code loc rx cb s c \<Longrightarrow> selector_effect (s, c) = (s', c') \<Longrightarrow> selecting_from h code loc rx cb s' c'"
| Selecting_update: "selecting_from h code loc rx cb s c \<Longrightarrow> sel_subscription c = Some (l, sel_function c) \<Longrightarrow> undisturbed cb l \<Longrightarrow>
    update loc rx cb u x s = (None, s') \<Longrightarrow> selecting_from h code loc rx cb s' (selector_after h code s s' c)"
| Selecting_timer: "selecting_from h code loc rx cb s c \<Longrightarrow> sel_subscription c = Some (l, sel_function c) \<Longrightarrow> undisturbed cb l \<Longrightarrow>
    i \<in> set (timers s) \<Longrightarrow> timer_callback loc rx cb i s = (None, s') \<Longrightarrow>
    selecting_from h code loc rx cb s' (selector_after h code s s' c)"
| Selecting_other: "selecting_from h code loc rx cb s c \<Longrightarrow> (\<And>l f. sel_subscription c = Some (l, f) \<Longrightarrow> a \<noteq> Unsubscribe l) \<Longrightarrow>
    selecting_from h code loc rx cb (perform a s) c"

lemma update_notifies:
  assumes "update loc rx cb u x s = (None, s')"
  obtains lines t where "notify cb \<lparr>newState = state s', oldState = state s, stateChange = difference_of (state s') (state s)\<rparr> t = (None, s')"
    "trace t = trace s @ map Console lines" "listeners t = listeners s" "nextListener t = nextListener s"
proof -
  obtain l1 s1 where s1: "update_base u s = (None, s1)" "trace s1 = trace s @ map Console l1"
      "listeners s1 = listeners s" "nextListener s1 = nextListener s"
    using assms
    by (auto simp: update_def update_base_def andThen_def Let_def emit_def split: if_splits prod.splits option.splits sum.splits)
  obtain l2 s2 where s2: "update_derived loc s1 = (None, s2)" "trace s2 = trace s1 @ map Console l2"
      "listeners s2 = listeners s1" "nextListener s2 = nextListener s1"
    using assms s1(1)
    by (auto simp: update_def update_derived_def andThen_def Let_def emit_def split: if_splits prod.splits option.splits sum.splits)
  obtain s3 where s3: "update_extra rx x s2 = (None, s3)" "trace s3 = trace s2"
      "listeners s3 = listeners s2" "nextListener s3 = nextListener s2"
    using assms s1(1) s2(1)
    by (auto simp: update_def update_extra_def andThen_def Let_def split: if_splits prod.splits option.splits)
  let ?t = "scheduleUpdate s3"
  have n: "notify cb \<lparr>newState = state ?t, oldState = state s, stateChange = difference_of (state ?t) (state s)\<rparr> ?t = (None, s')"
    using assms s1(1) s2(1) s3(1) by (auto simp: update_def andThen_def Let_def split: if_splits)
  from that [of ?t "l1 @ l2"] n notify_keeps(5) [OF n] s1 s2 s3 show ?thesis
    by (simp add: timers_schedule)
qed

lemma called_undisturbed:
  "undisturbed cb l \<Longrightarrow> l \<in> set ls \<Longrightarrow> l \<notin> set removed \<Longrightarrow> l \<in> set (fst (called cb p ls removed))"
proof (induction cb p ls removed rule: called.induct)
  case (2 cb p k ls removed)
  obtain ops where cb: "cb k p = (ops, None)" "Unsubscribe l \<notin> set ops"
    using 2(3) unfolding undisturbed_def by (metis prod.collapse)
  show ?case
    using 2(1) [OF _ 2(3)] 2(2) [OF _ cb(1) [symmetric] refl 2(3)] 2(4,5) cb
    by (auto split: prod.splits listener_op.splits)
qed simp

lemma notify_keeps_listener:
  assumes "undisturbed cb l" "l \<in> set (listeners s)" "l < nextListener s"
  shows "l \<in> set (listeners (snd (notify_each cb p ls s)))"
  using assms(2,3)
proof (induction ls arbitrary: s)
  case (Cons k ls)
  obtain ops where cb: "cb k p = (ops, None)" "Unsubscribe l \<notin> set ops"
    using assms(1) unfolding undisturbed_def by (metis prod.collapse)
  from listeners_fold [of l "emit [Notified k p] s" ops] Cons cb show ?case by auto
qed simp

lemma observe_console: "fold (selector_observe h code) (map Console lines) c = c"
  by (induction lines) simp_all

lemma selector_listener_subscription [simp]:
  "sel_subscription (selector_listener h code f p c) = sel_subscription c"
  "sel_function (selector_listener h code f p c) = sel_function c"
  "sel_shown (selector_listener h code f p c) = sel_shown c"
  "selector_listener h code f p (selector_listener h code f p c) = selector_listener h code f p c"
  by (simp_all add: selector_listener_def)

lemma observe_calls:
  "sel_subscription c = Some (m, f) \<Longrightarrow>
    fold (selector_observe h code) (map (\<lambda>l. Notified l p) ls) c = (if m \<in> set ls then selector_listener h code f p c else c)"
  by (induction ls arbitrary: c) auto

text \<open>An update calls the component's listener with the states before and after.\<close>

lemma selector_after_update:
  assumes "update loc rx cb u x s = (None, s')" "sel_subscription c = Some (l, f)"
    and "undisturbed cb l" "l \<in> set (listeners s)" "listeners_ok s"
  shows "\<exists>p. newState p = state s' \<and> oldState p = state s \<and>
    (\<exists>es. trace s' = trace s @ es \<and> fold (selector_observe h code) es c = selector_listener h code f p c) \<and> l \<in> set (listeners s')"
proof -
  let ?p = "\<lparr>newState = state s', oldState = state s, stateChange = difference_of (state s') (state s)\<rparr>"
  obtain lines t where t: "notify cb ?p t = (None, s')"
      "trace t = trace s @ map Console lines" "listeners t = listeners s" "nextListener t = nextListener s"
    using update_notifies [OF assms(1)] by metis
  have tr: "trace s' = trace t @ map (\<lambda>l. Notified l ?p) (fst (called cb ?p (listeners t) []))"
    using notify_each_called [of "listeners t" t "[]" cb ?p] t assms(5) by (auto simp: notify_def listeners_ok_def)
  have "l \<in> set (fst (called cb ?p (listeners t) []))"
    using called_undisturbed [OF assms(3), of "listeners t" "[]" ?p] assms(4) t(3) by simp
  then have "fold (selector_observe h code) (map Console lines @ map (\<lambda>l. Notified l ?p) (fst (called cb ?p (listeners t) []))) c =
      selector_listener h code f ?p c"
    by (simp add: observe_console observe_calls [OF assms(2)])
  moreover have "l \<in> set (listeners s')"
    using notify_keeps_listener [OF assms(3), of t ?p "listeners t"] t assms(4,5)
    by (auto simp: notify_def listeners_ok_def)
  ultimately show ?thesis using tr t(2) by (intro exI [of _ ?p]) auto
qed

definition selection_ok :: "'p heap \<Rightarrow> ('v, 'p) selectors \<Rightarrow> 'v store \<Rightarrow> 'p selecting \<Rightarrow> bool" where
  "selection_ok h code s c \<longleftrightarrow>
     store_ok s \<and> (\<forall>l f. sel_subscription c = Some (l, f) \<longrightarrow> l \<in> set (listeners s)) \<and>
     (hook_equals h (sel_shown c) (code (sel_function c) (state s)) \<or> sel_rerender c)"

lemma perform_ok:
  "store_ok s \<Longrightarrow> store_ok (perform a s)" "state (perform a s) = state s" "loaded (perform a s) = loaded s"
  using ok_core [OF core_perform, of a s] core_selectors [OF core_perform, of a s] listeners_ok_perform [of s a]
  by (simp_all add: store_ok_def)

lemmas subscribe_ok = perform_ok [where a = Subscribe, simplified]
lemmas unsubscribe_ok = perform_ok [where a = "Unsubscribe l", simplified] for l

lemma selection_ok_effect:
  assumes "selection_ok h code s c" "selector_effect (s, c) = (s', c')"
  shows "selection_ok h code s' c'"
proof -
  have [simp]: "nextListener t \<in> set (listeners (subscribe t))" for t :: "'b store" by (simp add: subscribe_def)
  show ?thesis
    using assms
    by (auto simp: selector_effect_def selection_ok_def Let_def subscribe_ok unsubscribe_ok split: option.splits if_splits)
qed

lemma selection_ok_update:
  assumes "selection_ok h code s c" "sel_subscription c = Some (l, sel_function c)" "undisturbed cb l"
    and "update loc rx cb u x s = (None, s')"
  shows "selection_ok h code s' (selector_after h code s s' c)"
proof -
  have s: "store_ok s" "l \<in> set (listeners s)" using assms(1,2) by (auto simp: selection_ok_def)
  obtain p es where p: "newState p = state s'" "oldState p = state s" "trace s' = trace s @ es"
      "fold (selector_observe h code) es c = selector_listener h code (sel_function c) p c" "l \<in> set (listeners s')"
    using selector_after_update [OF assms(4,2,3) s(2), of h code] s(1) by (auto simp: store_ok_def)
  have after: "selector_after h code s s' c = selector_listener h code (sel_function c) p c"
    by (simp add: selector_after_def p)
  let ?f = "code (sel_function c)"
  have "hook_equals h (sel_shown c) (?f (state s')) \<or> sel_rerender c \<or> \<not> hook_equals h (?f (state s')) (?f (state s))"
    using assms(1) shown_value.shown_stays [of h "sel_shown c" ?f "state s" "sel_rerender c" "state s'"]
    by (auto simp: selection_ok_def)
  then show ?thesis
    using store_ok_update [OF s(1) assms(4)] assms(2) p(1,2,5)
    by (auto simp: selection_ok_def after selector_listener_def)
qed

lemma selection_ok_timer:
  assumes "selection_ok h code s c" "sel_subscription c = Some (l, sel_function c)" "undisturbed cb l"
    and "i \<in> set (timers s)" "timer_callback loc rx cb i s = (None, s')"
  shows "selection_ok h code s' (selector_after h code s s' c)"
proof -
  let ?s = "s\<lparr>timers := removeAll i (timers s), updateTimeoutId := None\<rparr>"
  have "selection_ok h code ?s c"
    using assms(1,4) by (auto simp: selection_ok_def store_ok_def data_ok_def timers_ok_def listeners_ok_def state_def)
  from selection_ok_update [OF this assms(2,3), of loc rx None None s'] assms(5) show ?thesis
    by (simp add: timer_callback_def selector_after_def)
qed

lemma selecting_ok: "selecting_from h code loc rx cb s c \<Longrightarrow> selection_ok h code s c"
proof (induction rule: selecting_from.induct)
  case (Selecting_mount s f)
  then show ?case by (simp add: selection_ok_def selector_mount_def reachable_store_ok shown_value.same_refl)
next
  case (Selecting_render s c f)
  then show ?case by (simp add: selection_ok_def selector_render_def shown_value.same_refl)
next
  case (Selecting_other s c a)
  have "l \<in> set (listeners (perform a s))" if "sel_subscription c = Some (l, f)" for l f
    using Selecting_other(2) [OF that] Selecting_other(3) that
    by (cases a) (auto simp: selection_ok_def subscribe_def unsubscribe_def)
  with Selecting_other(3) show ?case by (auto simp: selection_ok_def perform_ok)
qed (blast intro: selection_ok_effect selection_ok_update selection_ok_timer)+

text \<open>
  C13. A component that selects a value from the store never shows a stale one: what it shows is, up to the comparison of values, what its
  function selects from the current state of the store, or it is about to render again. This holds for all updates, those of the timer
  included, that come while it is subscribed with its current function and whose other listeners neither throw nor unsubscribe it.
\<close>

theorem selected_value_is_current:
  assumes "selecting_from h code loc rx cb s c"
  shows "hook_equals h (sel_shown c) (code (sel_function c) (state s)) \<or> sel_rerender c"
  using selecting_ok [OF assms] by (simp add: selection_ok_def)

text \<open>A component that shows the balance is mounted, subscribes, and an update arrives.\<close>

lemma selected_value_is_current_witness:
  "\<exists>(s :: string store) (c :: string store_value option selecting).
    update (\<lambda>_. []) (\<lambda>x _. x) (\<lambda>_ _. ([], None)) None None (subscribe loaded_sample) = (None, s) \<and>
    sel_subscription c = Some (0, 7) \<and>
    (hook_equals (\<lambda>_. []) (sel_shown c) (Primitive (map_of (state s) ''bpdBalance'')) \<or> sel_rerender c)"
proof -
  let ?code = "\<lambda>_ st. Primitive (map_of st ''bpdBalance'')"
  let ?cb = "\<lambda>_ _. ([], None)"
  let ?s = "subscribe loaded_sample"
  let ?c = "(selector_mount ?code 7 loaded_sample)\<lparr>sel_subscription := Some (0, 7)\<rparr>"
  obtain d where d: "derivedState loaded_sample = Some d" "derive sample_base = Inr d"
    using loaded_sample_sel by blast
  have s: "baseState ?s = Some sample_base" "derivedState ?s = Some d" "listeners ?s = [0]"
    using d by (simp_all add: subscribe_def loaded_sample_sel)
  have "selector_effect (loaded_sample, selector_mount ?code 7 loaded_sample) = (?s, ?c)"
    by (simp add: selector_effect_def selector_mount_def loaded_sample_sel)
  then have sub: "selecting_from (\<lambda>_. []) ?code (\<lambda>_. []) (\<lambda>x _. x) ?cb ?s ?c"
    by (rule Selecting_effect [OF Selecting_mount [OF loaded_sample_reachable loaded_sample_sel(1)]])
  obtain s' where s': "update (\<lambda>_. []) (\<lambda>x _. x) ?cb None None ?s = (None, s')"
    using update_success [OF s(1,2), of None d None "extraState ?s" "\<lambda>x _. x" "\<lambda>_. []" ?cb] d s(3)
    by (auto simp: new_base_def Let_def notify_def timers_schedule reduced_def split: if_splits)
  let ?d = "selector_after (\<lambda>_. []) ?code ?s s' ?c"
  have fields: "sel_subscription ?d = Some (0, 7)"
    using selector_after_update [OF s', of ?c 0 7 "\<lambda>_. []" ?code] s(3)
    by (auto simp: undisturbed_def listeners_ok_def subscribe_def loaded_sample_sel selector_after_def)
  have "selecting_from (\<lambda>_. []) ?code (\<lambda>_. []) (\<lambda>x _. x) ?cb s' ?d"
    by (rule Selecting_update [OF sub _ _ s']) (simp_all add: undisturbed_def selector_mount_def)
  from selected_value_is_current [OF this] s' fields show ?thesis
    by (intro exI [of _ s'] exI [of _ ?d]) simp
qed

text \<open>An update between the first render and the effect is lost: the component then shows the old value and does not render again.\<close>

lemma update_before_effect_is_lost: "selector_after h code s s' (selector_mount code f s) = selector_mount code f s"
proof -
  have "fold (selector_observe h code) es c = c" if "sel_subscription c = None" for es c
  proof (induction es)
    case (Cons e es)
    then show ?case using that by (cases e) simp_all
  qed simp
  then show ?thesis by (simp add: selector_after_def selector_mount_def)
qed

section \<open>Reduced states\<close>

text \<open>The reducer cannot tell values apart that the hook takes for equal.\<close>

definition respects_equal :: "'p heap \<Rightarrow> ('v, 'act, 'p) hook_reducer \<Rightarrow> bool" where
  "respects_equal h reduce \<longleftrightarrow> (\<forall>a b act. hook_equals h a b \<longrightarrow>
     (case (reduce a act, reduce b act) of
        (Inr x, Inr y) \<Rightarrow> hook_equals h x y | (Inl _, Inl _) \<Rightarrow> True | _ \<Rightarrow> False))"

text \<open>The state without the hook: every action is reduced, one that throws is dropped.\<close>

fun reduced_by :: "('v, 'act, 'p) hook_reducer \<Rightarrow> ('v, 'act) hook_action \<Rightarrow> 'p js_ref \<Rightarrow> 'p js_ref" where
  "reduced_by reduce act a = (case reduce a act of Inr b \<Rightarrow> b | Inl _ \<Rightarrow> a)"

lemma dispatch_refines:
  assumes "respects_equal h reduce" "hook_equals h (red_state c) a"
  shows "hook_equals h (red_state (snd (reducer_dispatch h reduce act c))) (reduced_by reduce act a)"
proof -
  have results: "case (reduce (red_state c) act, reduce a act) of
      (Inr x, Inr y) \<Rightarrow> hook_equals h x y | (Inl _, Inl _) \<Rightarrow> True | _ \<Rightarrow> False"
    using assms unfolding respects_equal_def by blast
  show ?thesis
  proof (cases "reduce (red_state c) act")
    case (Inl e)
    then show ?thesis using results assms(2) by (auto simp: reducer_dispatch_def split: sum.splits)
  next
    case (Inr x)
    with results obtain y where y: "reduce a act = Inr y" "hook_equals h x y" by (auto split: sum.splits)
    have "hook_equals h (red_state c) y" if "hook_equals h x (red_state c)"
      using that y(2) shown_value.same_iff by blast
    with y Inr show ?thesis by (simp add: reducer_dispatch_def)
  qed
qed

definition reducing_ok :: "'p reducing \<Rightarrow> bool" where
  "reducing_ok c \<longleftrightarrow> red_shown c = red_state c \<or> red_rerender c"

lemma reducing_ok_dispatch: "reducing_ok c \<Longrightarrow> reducing_ok (snd (reducer_dispatch h reduce act c))"
  by (auto simp: reducing_ok_def reducer_dispatch_def split: sum.splits)

lemma dispatch_all_refines:
  assumes "respects_equal h reduce" "hook_equals h (red_state c) a" "reducing_ok c"
  shows "hook_equals h (red_state (dispatch_all h reduce acts c)) (fold (reduced_by reduce) acts a) \<and>
    reducing_ok (dispatch_all h reduce acts c)"
  using assms(2,3)
proof (induction acts arbitrary: c a)
  case (Cons act acts)
  from Cons.IH [OF dispatch_refines [OF assms(1) Cons.prems(1)] reducing_ok_dispatch [OF Cons.prems(2)]]
  show ?case by (simp add: dispatch_all_def)
qed (simp add: dispatch_all_def)



section \<open>Provided stores\<close>

text \<open>A provider in a program that gives it stores, whose stores load and are updated.\<close>

inductive providing ::
  "(int \<Rightarrow> string) \<Rightarrow> ('v extra_state \<Rightarrow> 'v extra_state \<Rightarrow> 'v extra_state) \<Rightarrow> 'v callbacks \<Rightarrow> 'v store_provider \<Rightarrow> bool"
  for loc rx cb where
  Providing_mount: "providing loc rx cb \<lparr>sp_stores = stores, sp_store = k, sp_loadedStore = None, sp_started = None\<rparr>"
| Providing_given: "providing loc rx cb p \<Longrightarrow> providing loc rx cb (p\<lparr>sp_store := k\<rparr>)"
| Providing_effect: "providing loc rx cb p \<Longrightarrow> providing loc rx cb (provider_effect p)"
| Providing_load: "providing loc rx cb p \<Longrightarrow> provider_load b x p = (e, p') \<Longrightarrow> providing loc rx cb p'"
| Providing_update: "providing loc rx cb p \<Longrightarrow> update loc rx cb u x (sp_stores p k) = (e, s') \<Longrightarrow>
    providing loc rx cb (p\<lparr>sp_stores := (sp_stores p)(k := s')\<rparr>)"
| Providing_unmount: "providing loc rx cb p \<Longrightarrow> providing loc rx cb (provider_unmount p)"

lemma hasOnLoaded_simps [simp]:
  "hasOnLoaded (emit es s) = hasOnLoaded s" "hasOnLoaded (scheduleUpdate s) = hasOnLoaded s"
  by (simp_all add: emit_def scheduleUpdate_def cancelUpdateIfScheduled_def Let_def split: option.split)

lemma update_keeps_loaded:
  assumes "update loc rx cb u x s = (e, s')"
  shows "loaded s' = loaded s \<and> hasOnLoaded s' = hasOnLoaded s"
proof -
  define same where "same t t' \<longleftrightarrow> loaded t' = loaded t \<and> hasOnLoaded t' = hasOnLoaded t" for t t' :: "'a store"
  have bind: "same t t'" if "andThen r f = (e, t')" "same t (snd r)" "\<And>t1 e t'. f t1 = (e, t') \<Longrightarrow> same t1 t'" for r f e t t'
    using that by (force simp: andThen_def same_def split: prod.splits option.splits)
  have "same t (snd (update_base u t))" "same t (snd (update_derived loc t))" "same t (snd (update_extra rx x t))" for t
    by (simp_all add: same_def update_base_def update_derived_def update_extra_def split: option.split sum.split prod.split)
  moreover have "same t t'" if "notify cb p (scheduleUpdate t) = (e, t')" for e p t t'
  proof -
    have "t' = snd (notify_each cb p (listeners (scheduleUpdate t)) (scheduleUpdate t))"
      using that by (simp add: notify_def)
    then have "core t' = core (scheduleUpdate t)" by simp
    from core_selectors(2,3) [OF this] show ?thesis by (simp add: same_def timers_schedule)
  qed
  ultimately have "same s s'"
    using assms unfolding update_def Let_def
    by (auto split: if_splits elim!: bind) (simp_all add: same_def)
  then show ?thesis by (simp add: same_def)
qed

text \<open>
  Components below the provider only ever see a loaded store, and it is the store whose monitoring the provider has started and
  whose \<open>onLoaded\<close> is its own.
\<close>

lemma provided_store_is_loaded:
  assumes "providing loc rx cb p" "useMoneypStore (provider_children p) = Inr k"
  shows "loaded (sp_stores p k) \<and> sp_started p = Some k \<and> hasOnLoaded (sp_stores p k)"
proof -
  have "(\<forall>k. sp_loadedStore p = Some k \<longrightarrow> loaded (sp_stores p k) \<and> sp_started p = Some k) \<and>
      (\<forall>k. sp_started p = Some k \<longrightarrow> hasOnLoaded (sp_stores p k))"
    using assms(1)
  proof (induction rule: providing.induct)
    case (Providing_effect p)
    then show ?case
      by (auto simp: provider_effect_def provider_start_def provider_cleanup_def split: option.splits)
  next
    case (Providing_load p b x e p')
    then show ?case
      by (auto simp: provider_load_def load_def Let_def timers_schedule split: option.splits prod.splits if_splits sum.splits)
  next
    case (Providing_update p u x k e s')
    from Providing_update(3) update_keeps_loaded [OF Providing_update(2)] show ?case by auto
  next
    case (Providing_unmount p)
    then show ?case by (auto simp: provider_unmount_def provider_cleanup_def split: option.splits)
  qed auto
  with assms(2) show ?thesis by (auto simp: provider_children_def useMoneypStore_def split: option.splits)
qed

lemma provided_store_is_loaded_witness:
  "\<exists>p :: string store_provider. provider_children p = Some 3 \<and> loaded (sp_stores p 3) \<and> sp_started p = Some 3 \<and> hasOnLoaded (sp_stores p 3)"
proof -
  let ?cb = "\<lambda>_ _. ([], None)"
  let ?p = "\<lparr>sp_stores = \<lambda>_. new_store False False, sp_store = 3, sp_loadedStore = None, sp_started = None\<rparr> :: string store_provider"
  obtain d where d: "derive sample_base = Inr d" using sample_base_derives by blast
  obtain p e where p: "provider_load sample_base None (provider_effect ?p) = (e, p)" by fastforce
  have "useMoneypStore (provider_children p) = Inr 3"
    using p d
    by (auto simp: provider_load_def provider_effect_def provider_start_def load_def new_store_def Let_def timers_schedule
        provider_children_def useMoneypStore_def)
  moreover have "providing (\<lambda>_. []) (\<lambda>x _. x) ?cb p"
    using Providing_load [OF Providing_effect [OF Providing_mount] p] .
  ultimately show ?thesis
    using provided_store_is_loaded [of "\<lambda>_. []" "\<lambda>x _. x" ?cb p 3]
    by (intro exI [of _ p]) (auto simp: useMoneypStore_def split: option.splits)
qed

text \<open>
  A store that was loaded before the provider starts it, say because the provider was mounted with it before, fails its assertion when its state arrives, and
  is never provided.
\<close>

lemma restarted_store_is_not_provided:
  assumes "loaded (sp_stores p (sp_store p))" "sp_started p = None \<and> sp_loadedStore p = None \<or> sp_started p \<noteq> None \<and> sp_started p \<noteq> Some (sp_store p)"
  shows "\<exists>p'. provider_load b x (provider_effect p) = (Some AssertionError, p') \<and> provider_children p' = None"
  using assms
  by (auto simp: provider_load_def provider_effect_def provider_start_def provider_cleanup_def load_def Let_def provider_children_def
      stop_def cancelUpdateIfScheduled_def split: option.split)

section \<open>Values that arrive later\<close>

datatype 'a async_event = Fetched 'a | ValueChanged 'a | Unmounted

fun async_step :: "('a \<Rightarrow> 'a \<Rightarrow> 'a) option \<Rightarrow> 'a async_event \<Rightarrow> 'a async_hook \<Rightarrow> 'a async_hook" where
  "async_step f (Fetched v) c = async_fetched v c"
| "async_step f (ValueChanged v) c = onValueChanged f v c"
| "async_step f Unmounted c = async_cleanup c"

fun fetched_or_changed :: "'a async_event \<Rightarrow> 'a list" where
  "fetched_or_changed (Fetched v) = [v]"
| "fetched_or_changed (ValueChanged v) = [v]"
| "fetched_or_changed Unmounted = []"

fun only_changed :: "'a async_event \<Rightarrow> 'a list" where
  "only_changed (ValueChanged v) = [v]"
| "only_changed _ = []"

text \<open>The specification: the first value of either kind, then the changes, each combined with the value before when there is a way to.\<close>

fun latest_value :: "('a \<Rightarrow> 'a \<Rightarrow> 'a) option \<Rightarrow> 'a async_event list \<Rightarrow> 'a async_value" where
  "latest_value f [] = NotLoaded"
| "latest_value f (e # es) =
     LoadedValue (foldl (case f of Some g \<Rightarrow> g | None \<Rightarrow> \<lambda>_ v. v) (hd (fetched_or_changed e)) (concat (map only_changed es)))"

definition async_run :: "('a \<Rightarrow> 'a \<Rightarrow> 'a) option \<Rightarrow> 'a async_event list \<Rightarrow> 'a async_hook \<Rightarrow> 'a async_hook" where
  "async_run f es c = fold (async_step f) es c"

lemma async_after_cleanup: "\<not> av_mounted c \<Longrightarrow> av_callState (async_run f es c) = av_callState c"
proof (induction es arbitrary: c)
  case (Cons e es)
  have "\<not> av_mounted (async_step f e c) \<and> av_callState (async_step f e c) = av_callState c"
    using Cons.prems by (cases e) (simp_all add: async_fetched_def onValueChanged_def async_cleanup_def)
  with Cons.IH [of "async_step f e c"] show ?case by (simp add: async_run_def)
qed (simp add: async_run_def)

lemma async_after_value:
  "av_mounted c \<Longrightarrow> av_previousValue c = Some v \<Longrightarrow> av_callState c = LoadedValue v \<Longrightarrow> Unmounted \<notin> set es \<Longrightarrow>
    av_callState (async_run f es c) =
      LoadedValue (foldl (case f of Some g \<Rightarrow> g | None \<Rightarrow> \<lambda>_ v. v) v (concat (map only_changed es))) \<and>
    av_mounted (async_run f es c)"
proof (induction es arbitrary: c v)
  case (Cons e es)
  show ?case
  proof (cases e)
    case (Fetched w)
    then show ?thesis using Cons by (simp add: async_run_def async_fetched_def)
  next
    case (ValueChanged w)
    let ?w = "(case f of Some g \<Rightarrow> g | None \<Rightarrow> \<lambda>_ v. v) v w"
    have "av_mounted (async_step f e c)" "av_previousValue (async_step f e c) = Some ?w"
      "av_callState (async_step f e c) = LoadedValue ?w"
      using Cons.prems ValueChanged by (auto simp: onValueChanged_def Let_def split: option.splits)
    from Cons.IH [OF this] Cons.prems ValueChanged show ?thesis by (simp add: async_run_def)
  qed (use Cons in simp)
qed (simp add: async_run_def)

text \<open>
  Whatever the order in which the fetched value, the changes and the cleanup come, the state is that of the specification for the
  events before the cleanup: a fetched value that comes after a change does not replace it, and nothing is set after the cleanup.
\<close>

lemma async_value_is_latest:
  "av_callState (async_run f es (async_effect watches)) = latest_value f (takeWhile (\<lambda>e. e \<noteq> Unmounted) es)"
proof -
  let ?live = "takeWhile (\<lambda>e. e \<noteq> Unmounted) es" and ?c = "async_effect watches"
  have live: "Unmounted \<notin> set ?live" by (auto dest: set_takeWhileD)
  have before: "av_callState (async_run f ?live ?c) = latest_value f ?live \<and> av_mounted (async_run f ?live ?c)"
  proof (cases ?live)
    case Nil
    then show ?thesis by (simp add: async_run_def async_effect_def)
  next
    case (Cons e es')
    obtain v where e: "e = Fetched v \<or> e = ValueChanged v" using live Cons by (cases e) auto
    then have "av_mounted (async_step f e ?c)" "av_previousValue (async_step f e ?c) = Some v"
      "av_callState (async_step f e ?c) = LoadedValue v"
      by (auto simp: async_effect_def async_fetched_def onValueChanged_def)
    from async_after_value [OF this, of es' f] live Cons e show ?thesis by (auto simp: async_run_def)
  qed
  have split: "es = ?live @ dropWhile (\<lambda>e. e \<noteq> Unmounted) es" by simp
  have run: "async_run f es ?c = async_run f (dropWhile (\<lambda>e. e \<noteq> Unmounted) es) (async_run f ?live ?c)"
    using split unfolding async_run_def by (metis fold_append comp_apply)
  show ?thesis
  proof (cases "dropWhile (\<lambda>e. e \<noteq> Unmounted) es")
    case Nil
    with run before show ?thesis by (simp add: async_run_def)
  next
    case (Cons e es')
    then have "e = Unmounted" using hd_dropWhile [of "\<lambda>e. e \<noteq> Unmounted" es] by simp
    with run Cons before async_after_cleanup [of "async_cleanup (async_run f ?live ?c)" f es'] show ?thesis
      by (simp add: async_run_def async_cleanup_def)
  qed
qed

text \<open>The values of a store that \<open>allLoaded\<close> accepts have the type that it promises: none of them is missing.\<close>

lemma useAsyncStore_typed:
  "useAsyncStore store = LoadedValue vs \<longleftrightarrow> store = map (\<lambda>(p, v). (p, LoadedValue (the v))) vs \<and> None \<notin> snd ` set vs"
proof
  assume "useAsyncStore store = LoadedValue vs"
  then have "vs = map (\<lambda>(p, x). (p, value_of x)) store" "\<And>p x. (p, x) \<in> set store \<Longrightarrow> x \<noteq> NotLoaded"
    by (auto simp: useAsyncStore_def allLoaded_def list_all_iff split: if_splits)
  then show "store = map (\<lambda>(p, v). (p, LoadedValue (the v))) vs \<and> None \<notin> snd ` set vs"
    by (auto simp: value_of_def comp_def split: async_value.splits intro!: map_idI [symmetric]) blast
next
  assume "store = map (\<lambda>(p, v). (p, LoadedValue (the v))) vs \<and> None \<notin> snd ` set vs"
  then show "useAsyncStore store = LoadedValue vs"
    by (auto simp: useAsyncStore_def allLoaded_def list_all_iff value_of_def comp_def intro!: map_idI)
      (metis image_eqI not_None_eq option.sel snd_conv)
qed

end
