(* ===== verification/Subgraph_Schema.thy ===== *)
theory Subgraph_Schema
  imports Subgraph_Laws
begin

text \<open>
  The types of the indexer's entities as \<open>packages/subgraph/schema.graphql\<close> declares them: what a field without \<open>null\<close> refers to is
  stored, and a field of an enumeration has one of its values. Fields that may be \<open>null\<close> are constrained only where something is
  stored in them by the identity of an entity.
\<close>

section \<open>The schema\<close>

definition VaultStatus :: "string list" where
  "VaultStatus = [''open'', ''closedByOwner'', ''closedByLiquidation'', ''closedByRedemption'']"

definition VaultOperation :: "string list" where
  "VaultOperation = [''openVault'', ''closeVault'', ''adjustVault'', ''accrueRewards'', ''liquidateInNormalMode'',
     ''liquidateInRecoveryMode'', ''redeemCollateral'']"

definition StabilityDepositOperation :: "string list" where
  "StabilityDepositOperation = [''depositTokens'', ''withdrawTokens'', ''withdrawCollateralGain'']"

definition stored :: "(string \<rightharpoonup> 'a) \<Rightarrow> string \<Rightarrow> bool" where
  "stored table k \<longleftrightarrow> table k \<noteq> None"

definition stored_if_any :: "(string \<rightharpoonup> 'a) \<Rightarrow> string option \<Rightarrow> bool" where
  "stored_if_any table k = (case k of None \<Rightarrow> True | Some i \<Rightarrow> stored table i)"

definition user_typed :: "indexed \<Rightarrow> string \<Rightarrow> user_entity \<Rightarrow> bool" where
  "user_typed st k u \<longleftrightarrow> u_id u = k"

definition vault_typed :: "indexed \<Rightarrow> string \<Rightarrow> vault_entity \<Rightarrow> bool" where
  "vault_typed st k v \<longleftrightarrow> v_id v = k \<and> stored (i_users st) (v_owner v) \<and> v_status v \<in> set VaultStatus"

definition deposit_typed :: "indexed \<Rightarrow> string \<Rightarrow> deposit_entity \<Rightarrow> bool" where
  "deposit_typed st k d \<longleftrightarrow> e_id d = k \<and> stored (i_users st) (e_owner d)"

definition transaction_typed :: "indexed \<Rightarrow> string \<Rightarrow> transaction_entity \<Rightarrow> bool" where
  "transaction_typed st k t \<longleftrightarrow> t_id t = k"

text \<open>The interface of changes.\<close>

definition change_typed :: "indexed \<Rightarrow> string \<Rightarrow> change_header \<Rightarrow> bool" where
  "change_typed st k h \<longleftrightarrow> nat_to_string (h_seq h) = k \<and> stored (i_transactions st) (h_transaction h) \<and>
     stored (i_states st) (h_before h) \<and> stored (i_states st) (h_after h)"

definition vault_change_typed :: "indexed \<Rightarrow> string \<Rightarrow> vault_change_entity \<Rightarrow> bool" where
  "vault_change_typed st k c \<longleftrightarrow> change_typed st k (vc_header c) \<and> stored (i_vaults st) (vc_vault c) \<and>
     vc_operation c \<in> set VaultOperation \<and> stored_if_any (i_liquidations st) (vc_liquidation c) \<and>
     stored_if_any (i_redemptions st) (vc_redemption c)"

definition deposit_change_typed :: "indexed \<Rightarrow> string \<Rightarrow> deposit_change_entity \<Rightarrow> bool" where
  "deposit_change_typed st k c \<longleftrightarrow> change_typed st k (dc_header c) \<and> stored (i_deposits st) (dc_deposit c) \<and>
     dc_operation c \<in> set StabilityDepositOperation"

definition price_change_typed :: "indexed \<Rightarrow> string \<Rightarrow> price_change_entity \<Rightarrow> bool" where
  "price_change_typed st k c \<longleftrightarrow> change_typed st k (pc_header c)"

definition surplus_change_typed :: "indexed \<Rightarrow> string \<Rightarrow> surplus_change_entity \<Rightarrow> bool" where
  "surplus_change_typed st k c \<longleftrightarrow> change_typed st k (sc_header c) \<and> stored (i_users st) (sc_user c)"

definition liquidation_typed :: "indexed \<Rightarrow> string \<Rightarrow> liquidation_entity \<Rightarrow> bool" where
  "liquidation_typed st k l \<longleftrightarrow> stored (i_transactions st) (l_transaction l) \<and> stored (i_users st) (l_liquidator l)"

definition redemption_typed :: "indexed \<Rightarrow> string \<Rightarrow> redemption_entity \<Rightarrow> bool" where
  "redemption_typed st k r \<longleftrightarrow> stored (i_transactions st) (r_transaction r) \<and> stored (i_users st) (r_redeemer r)"

definition all_entities :: "(string \<Rightarrow> 'a \<Rightarrow> bool) \<Rightarrow> (string \<rightharpoonup> 'a) \<Rightarrow> bool" where
  "all_entities P table \<longleftrightarrow> (\<forall>k x. table k = Some x \<longrightarrow> P k x)"

definition schema_typed :: "indexed \<Rightarrow> bool" where
  "schema_typed st \<longleftrightarrow>
     all_entities (user_typed st) (i_users st) \<and> all_entities (vault_typed st) (i_vaults st) \<and>
     all_entities (deposit_typed st) (i_deposits st) \<and> all_entities (transaction_typed st) (i_transactions st) \<and>
     all_entities (vault_change_typed st) (i_vaultChanges st) \<and> all_entities (deposit_change_typed st) (i_depositChanges st) \<and>
     all_entities (price_change_typed st) (i_priceChanges st) \<and> all_entities (surplus_change_typed st) (i_surplusChanges st) \<and>
     all_entities (liquidation_typed st) (i_liquidations st) \<and> all_entities (redemption_typed st) (i_redemptions st)"

text \<open>Events whose operation is a number of the contract's enumeration.\<close>

fun declared :: "protocol_event \<Rightarrow> bool" where
  "declared (BorrowerVaultUpdated b deb coll stake operation) \<longleftrightarrow> operation < 3"
| "declared (ManagerVaultUpdated b deb coll stake operation) \<longleftrightarrow> operation < 4"
| "declared (VaultLiquidated b deb coll operation) \<longleftrightarrow> operation < 4"
| "declared _ \<longleftrightarrow> True"

inductive indexes_declared :: "rounding \<Rightarrow> indexed \<Rightarrow> bool" for rnd where
  Declared_start: "indexes_declared rnd nothing_indexed"
| Declared_event: "indexes_declared rnd st \<Longrightarrow> declared e \<Longrightarrow> handle_event rnd ev e st = Inr ((), st') \<Longrightarrow> indexes_declared rnd st'"

lemma indexes_declared_indexes: "indexes_declared rnd st \<Longrightarrow> indexes rnd st"
  by (induction rule: indexes_declared.induct) (auto intro: indexes.intros)

section \<open>References\<close>

text \<open>
  What the handlers keep, while the vault \<open>V\<close> and the deposit \<open>D\<close> that a change may refer to are saved last. The headers of changes
  are part of the audit trail, and owners of vaults of the books.
\<close>

definition references :: "string set \<Rightarrow> string set \<Rightarrow> indexed \<Rightarrow> bool" where
  "references V D st \<longleftrightarrow>
     all_entities (user_typed st) (i_users st) \<and> all_entities (\<lambda>k v. v_id v = k) (i_vaults st) \<and>
     all_entities (deposit_typed st) (i_deposits st) \<and> all_entities (transaction_typed st) (i_transactions st) \<and>
     all_entities (\<lambda>_ c. vc_vault c \<in> V \<union> dom (i_vaults st) \<and> vc_operation c \<in> set VaultOperation \<and>
       stored_if_any (i_liquidations st) (vc_liquidation c) \<and> stored_if_any (i_redemptions st) (vc_redemption c)) (i_vaultChanges st) \<and>
     all_entities (\<lambda>_ c. dc_deposit c \<in> D \<union> dom (i_deposits st) \<and> dc_operation c \<in> set StabilityDepositOperation) (i_depositChanges st) \<and>
     all_entities (\<lambda>_ c. stored (i_users st) (sc_user c)) (i_surplusChanges st) \<and>
     all_entities (liquidation_typed st) (i_liquidations st) \<and> all_entities (redemption_typed st) (i_redemptions st)"

definition grows :: "indexed \<Rightarrow> indexed \<Rightarrow> bool" where
  "grows st st' \<longleftrightarrow> dom (i_users st) \<subseteq> dom (i_users st') \<and> dom (i_vaults st) \<subseteq> dom (i_vaults st') \<and>
     dom (i_deposits st) \<subseteq> dom (i_deposits st') \<and> dom (i_transactions st) \<subseteq> dom (i_transactions st') \<and>
     dom (i_liquidations st) \<subseteq> dom (i_liquidations st') \<and> dom (i_redemptions st) \<subseteq> dom (i_redemptions st')"

definition stays_typed :: "indexed \<Rightarrow> indexed \<Rightarrow> bool" where
  "stays_typed st st' \<longleftrightarrow> grows st st' \<and> (\<forall>V D. references V D st \<longrightarrow> references V D st')"

lemma grows_trans: "grows st st' \<Longrightarrow> grows st' st'' \<Longrightarrow> grows st st''"
  unfolding grows_def by (elim conjE, intro conjI) (erule (1) subset_trans)+

interpretation growing: store_preorder grows
  by unfold_locales (simp add: grows_def, rule grows_trans)

interpretation schema: store_preorder stays_typed
proof
  show "stays_typed st st" for st by (simp add: stays_typed_def grows_def)
  show "stays_typed st st''" if "stays_typed st st'" "stays_typed st' st''" for st st' st''
    using that grows_trans unfolding stays_typed_def by blast
qed

lemmas reference_defs = references_def all_entities_def stored_def stored_if_any_def user_typed_def deposit_typed_def
  transaction_typed_def liquidation_typed_def redemption_typed_def

lemma stays_typedI:
  assumes "i_users st' = i_users st" "i_vaults st' = i_vaults st" "i_deposits st' = i_deposits st" "i_transactions st' = i_transactions st"
    "i_liquidations st' = i_liquidations st" "i_redemptions st' = i_redemptions st" "i_vaultChanges st' = i_vaultChanges st"
    "i_depositChanges st' = i_depositChanges st" "i_surplusChanges st' = i_surplusChanges st"
  shows "stays_typed st st'"
  using assms by (simp add: stays_typed_def grows_def reference_defs)

lemma save_user_typed: "stays_typed st (save_user u st)"
  by (auto simp: stays_typed_def grows_def reference_defs save_user_def split: option.splits)

lemma total_typed:
  "schema.stays (totalS (getUser a))" "schema.stays (totalS getCurrentSystemState)" "schema.stays (totalS getChangeSequenceNumber)"
  "schema.stays (totalS getLiquidationSequenceNumber)" "schema.stays (totalS getRedemptionSequenceNumber)"
  "schema.stays (totalS (new_transaction ev))"
proof -
  show "schema.stays (totalS (getUser a))"
    by (rule schema.stays_totalS) (auto simp: getUser_def schema.below_refl save_user_typed split: option.splits)
  show "schema.stays (totalS getCurrentSystemState)"
    by (rule schema.stays_totalS, rule stays_typedI) (auto simp: getCurrentSystemState_def set_current_state_def
        getSystemStateSequenceNumber_def increaseCounter_def Let_def split: option.splits)
  show "schema.stays (totalS getChangeSequenceNumber)" "schema.stays (totalS getLiquidationSequenceNumber)"
    "schema.stays (totalS getRedemptionSequenceNumber)"
    by (rule schema.stays_totalS, rule stays_typedI, auto simp: getChangeSequenceNumber_def getLiquidationSequenceNumber_def
        getRedemptionSequenceNumber_def increaseCounter_def)+
  show "schema.stays (totalS (new_transaction ev))"
    by (rule schema.stays_totalS)
      (auto simp: new_transaction_def getTransactionSequenceNumber_def increaseCounter_def Let_def stays_typed_def grows_def
        reference_defs split: option.splits)
qed

lemma write_typed:
  "stays_typed st (bumpSystemState s st)" "stays_typed st (save_price_change pc st)"
  "stays_typed st (updatePriceFeedAddress a st)" "stays_typed st (updateTotalRedistributed m n st)"
  "stays_typed st (st\<lparr>i_templates := ts\<rparr>)"
  "stays_typed st (increaseNumberOfOpenVaults st)" "stays_typed st (increaseNumberOfLiquidatedVaults st)"
  "stays_typed st (increaseNumberOfRedeemedVaults st)" "stays_typed st (increaseNumberOfVaultsClosedByOwner st)"
  "stays_typed st (update_global (g_currentLiquidation_update f) st)"
  "stays_typed st (update_global (g_currentRedemption_update f) st)"
  by (auto intro!: stays_typedI simp: bumpSystemState_def set_current_state_def getSystemStateSequenceNumber_def
      increaseCounter_def save_price_change_def updatePriceFeedAddress_def updateTotalRedistributed_def Let_def
      increaseNumberOfOpenVaults_def increaseNumberOfLiquidatedVaults_def increaseNumberOfRedeemedVaults_def
      increaseNumberOfVaultsClosedByOwner_def)

lemmas typed_steps = total_typed schema.stays_intros write_typed [THEN schema.stays_writeS] save_user_typed [THEN schema.stays_writeS]

lemma createChange_typed: "schema.stays get \<Longrightarrow> schema.stays (createChange get)"
  unfolding createChange_def beginChange_def initChange_def by (intro typed_steps)

lemma finishChange_typed: "schema.stays (finishChange h)"
  unfolding finishChange_def by (intro typed_steps)

lemma loadTransaction_typed: "schema.stays (loadTransaction ev)"
  by (auto simp: schema.stays_def loadTransaction_def schema.below_refl split: option.splits)

lemma checkPrice_typed: "schema.stays get \<Longrightarrow> schema.stays (checkPrice rnd ev get)"
  unfolding checkPrice_def Let_def by (intro typed_steps createChange_typed finishChange_typed)

lemma getTransaction_typed: "schema.stays (getTransaction rnd ev)"
proof -
  have new: "schema.stays (bindS (totalS (new_transaction ev)) (\<lambda>t. bindS (checkPrice rnd ev (loadTransaction ev)) (\<lambda>_. retS t)))"
    by (intro typed_steps checkPrice_typed loadTransaction_typed)
  show ?thesis
    unfolding schema.stays_def
  proof (intro allI impI)
    fix st t st'
    assume "getTransaction rnd ev st = Inr (t, st')"
    with schema.staysD [OF new] show "stays_typed st st'"
      by (auto simp: getTransaction_def schema.below_refl split: option.splits)
  qed
qed

section \<open>What the functions return is stored\<close>

lemma typed_keeps:
  assumes "schema.stays m" "\<And>st st'. grows st st' \<Longrightarrow> Q st \<Longrightarrow> Q st'"
  shows "keeps (\<lambda>st. references V D st \<and> Q st) m"
  by (rule schema.stays_keeps [OF assms(1)]) (use assms(2) in \<open>auto simp: stays_typed_def\<close>)

lemma hoare_typed:
  assumes "schema.stays m" "\<And>st x st'. m st = Inr (x, st') \<Longrightarrow> references V D st \<Longrightarrow> references V D st' \<Longrightarrow> Q x st'"
  shows "hoare (references V D) m (\<lambda>x st. references V D st \<and> Q x st)"
  using assms schema.staysD [OF assms(1)] unfolding hoare_def stays_typed_def by blast

lemma getTransaction_stored:
  "hoare (references V D) (getTransaction rnd ev) (\<lambda>t st. references V D st \<and> stored (i_transactions st) (t_id t))"
proof (rule hoare_typed [OF getTransaction_typed])
  fix st t st'
  assume run: "getTransaction rnd ev st = Inr (t, st')" and ok: "references V D st"
  show "stored (i_transactions st') (t_id t)"
  proof (cases "i_transactions st (ev_hash ev)")
    case (Some t')
    with run ok show ?thesis by (auto simp: getTransaction_def reference_defs)
  next
    case None
    with run obtain st1 u where new: "new_transaction ev st = (t, st1)"
      and price: "checkPrice rnd ev (loadTransaction ev) st1 = Inr (u, st')"
      by (auto simp: getTransaction_def bindS_Inr totalS_def retS_def)
    have "i_transactions st1 (t_id t) \<noteq> None"
      using new by (auto simp: new_transaction_def Let_def split: prod.splits)
    with schema.staysD [OF checkPrice_typed [OF loadTransaction_typed] price] show ?thesis
      by (auto simp: stays_typed_def grows_def stored_def)
  qed
qed

lemma getUser_stored:
  assumes "all_entities (user_typed st) (i_users st)" "getUser a st = (u, st')"
  shows "u_id u = a" "stored (i_users st') (u_id u)" "i_users st' a = Some u"
  using assms by (auto simp: getUser_def save_user_def new_user_def reference_defs split: option.splits)

lemma getUser_typed:
  "hoare (references V D) (totalS (getUser a)) (\<lambda>u st. references V D st \<and> u_id u = a \<and> stored (i_users st) a)"
  by (rule hoare_typed [OF total_typed(1)])
    (use getUser_stored in \<open>auto simp: totalS_def references_def stored_def\<close>)

lemma all_entities_mono: "all_entities P t \<Longrightarrow> (\<And>k x. P k x \<Longrightarrow> Q k x) \<Longrightarrow> all_entities Q t"
  by (simp add: all_entities_def)

lemma all_entities_update: "all_entities P t \<Longrightarrow> P k x \<Longrightarrow> all_entities P (t(k \<mapsto> x))"
  by (simp add: all_entities_def)

lemma stored_update [simp]:
  "stored (t(k \<mapsto> x)) a \<longleftrightarrow> a = k \<or> stored t a"
  "stored_if_any t b \<Longrightarrow> stored_if_any (t(k \<mapsto> x)) b"
  by (auto simp: stored_def stored_if_any_def split: option.splits)

lemma write_liquidation_typed:
  assumes "stored (i_transactions st) (l_transaction l)" "stored (i_users st) (l_liquidator l)"
  shows "stays_typed st (st\<lparr>i_liquidations := (i_liquidations st)(k \<mapsto> l)\<rparr>)"
  using assms
  by (auto simp: stays_typed_def grows_def references_def user_typed_def deposit_typed_def transaction_typed_def
      liquidation_typed_def redemption_typed_def intro!: all_entities_update elim!: all_entities_mono)

lemma write_redemption_typed:
  assumes "stored (i_transactions st) (r_transaction r)" "stored (i_users st) (r_redeemer r)"
  shows "stays_typed st (st\<lparr>i_redemptions := (i_redemptions st)(k \<mapsto> r)\<rparr>)"
  using assms
  by (auto simp: stays_typed_def grows_def references_def user_typed_def deposit_typed_def transaction_typed_def
      liquidation_typed_def redemption_typed_def intro!: all_entities_update elim!: all_entities_mono)

definition liquidation_known :: "string \<times> liquidation_entity \<Rightarrow> indexed \<Rightarrow> bool" where
  "liquidation_known x st \<longleftrightarrow> stored (i_liquidations st) (fst x) \<and> stored (i_transactions st) (l_transaction (snd x)) \<and>
     stored (i_users st) (l_liquidator (snd x))"

definition redemption_known :: "string \<times> redemption_entity \<Rightarrow> indexed \<Rightarrow> bool" where
  "redemption_known x st \<longleftrightarrow> stored (i_redemptions st) (fst x) \<and> stored (i_transactions st) (r_transaction (snd x)) \<and>
     stored (i_users st) (r_redeemer (snd x))"

lemma grows_stored:
  "grows st st' \<Longrightarrow> stored (i_users st) a \<Longrightarrow> stored (i_users st') a"
  "grows st st' \<Longrightarrow> stored (i_transactions st) a \<Longrightarrow> stored (i_transactions st') a"
  "grows st st' \<Longrightarrow> stored (i_liquidations st) a \<Longrightarrow> stored (i_liquidations st') a"
  "grows st st' \<Longrightarrow> stored (i_redemptions st) a \<Longrightarrow> stored (i_redemptions st') a"
  "grows st st' \<Longrightarrow> stored_if_any (i_liquidations st) k \<Longrightarrow> stored_if_any (i_liquidations st') k"
  "grows st st' \<Longrightarrow> stored_if_any (i_redemptions st) k \<Longrightarrow> stored_if_any (i_redemptions st') k"
  by (auto simp: grows_def stored_def stored_if_any_def split: option.splits)

lemma liquidation_known_mono: "grows st st' \<Longrightarrow> liquidation_known x st \<Longrightarrow> liquidation_known x st'"
  by (simp add: liquidation_known_def grows_stored)

lemma redemption_known_mono: "grows st st' \<Longrightarrow> redemption_known x st \<Longrightarrow> redemption_known x st'"
  by (simp add: redemption_known_def grows_stored)

lemma references_total:
  "keeps (references V D) (totalS getLiquidationSequenceNumber)" "keeps (references V D) (totalS getRedemptionSequenceNumber)"
  using typed_keeps [OF total_typed(4), of "\<lambda>_. True" V D] typed_keeps [OF total_typed(5), of "\<lambda>_. True" V D] by simp_all

text \<open>An entity is created for the transaction of the event and the user that sent it.\<close>

definition entity_owner :: "string set \<Rightarrow> string set \<Rightarrow> chain_event \<Rightarrow> transaction_entity \<Rightarrow> user_entity \<Rightarrow> indexed \<Rightarrow> bool" where
  "entity_owner V D ev t u st \<longleftrightarrow> references V D st \<and> stored (i_transactions st) (t_id t) \<and> u_id u = ev_from ev \<and>
     stored (i_users st) (ev_from ev)"

lemma transaction_and_user:
  assumes "\<And>t u. hoare (entity_owner V D ev t u) (f t u) Q"
  shows "hoare (references V D) (bindS (getTransaction rnd ev) (\<lambda>t. bindS (totalS (getUser (ev_from ev))) (f t))) Q"
proof -
  have user: "hoare (\<lambda>st. references V D st \<and> stored (i_transactions st) (t_id t)) (totalS (getUser (ev_from ev)))
      (\<lambda>u. entity_owner V D ev t u)" for t
    using typed_keeps [OF total_typed(1), of "\<lambda>st. stored (i_transactions st) (t_id t)" V D "ev_from ev"] grows_stored(2)
      getUser_typed [of V D "ev_from ev"]
    unfolding hoare_def entity_owner_def by blast
  show ?thesis by (rule hoare_bindS [OF getTransaction_stored], rule hoare_bindS [OF user], rule assms)
qed

lemma getCurrentLiquidation_typed:
  "hoare (references V D) (getCurrentLiquidation rnd ev) (\<lambda>x st. references V D st \<and> liquidation_known x st)"
proof -
  let ?new = "\<lambda>n t u. \<lparr>l_seq = n, l_transaction = t_id t, l_liquidator = u_id u, l_coll = 0, l_debt = 0,
                      l_collGasCompensation = 0, l_tokenGasCompensation = 0\<rparr>"
  let ?save = "\<lambda>n t u st. st\<lparr>i_liquidations := (i_liquidations st)(nat_to_string n \<mapsto> ?new n t u)\<rparr>"
  have added: "references V D (?save n t u st) \<and> liquidation_known (nat_to_string n, ?new n t u) (?save n t u st)"
    if "entity_owner V D ev t u st" for n t u st
    using that write_liquidation_typed [of st "?new n t u" "nat_to_string n"]
    by (auto simp: entity_owner_def stays_typed_def liquidation_known_def stored_def)
  have current: "keeps (\<lambda>st. references V D st \<and> liquidation_known x st)
      (writeS (update_global (g_currentLiquidation_update (\<lambda>_. Some (nat_to_string n)))))" for x n
    by (rule typed_keeps [OF write_typed(10) [THEN schema.stays_writeS] liquidation_known_mono])
  have create: "hoare (entity_owner V D ev t u) (bindS (writeS (?save n t u)) (\<lambda>_.
      bindS (writeS (update_global (g_currentLiquidation_update (\<lambda>_. Some (nat_to_string n))))) (\<lambda>_. retS (nat_to_string n, ?new n t u))))
     (\<lambda>x st. references V D st \<and> liquidation_known x st)" for n t u
    by (rule hoare_bindS, rule hoare_writeS, erule added, rule hoare_bindS [OF current], rule hoare_retS) assumption
  show ?thesis
    unfolding getCurrentLiquidation_def Let_def
  proof (rule hoare_bindS [where R = "\<lambda>x st. references V D st \<and> (case x of None \<Rightarrow> True | Some y \<Rightarrow> liquidation_known y st)"])
    show "hoare (references V D) (readS (\<lambda>st. Option.bind (g_currentLiquidation (getGlobal st))
        (\<lambda>k. map_option (\<lambda>l. (k, l)) (i_liquidations st k))))
      (\<lambda>x st. references V D st \<and> (case x of None \<Rightarrow> True | Some y \<Rightarrow> liquidation_known y st))"
      by (rule hoare_readS) (auto simp: reference_defs liquidation_known_def bind_eq_Some_conv split: option.splits)
  qed (intro hoare_option hoare_retS, simp_all,
      rule hoare_bindS [OF references_total(1)], intro transaction_and_user create)
qed

lemma getCurrentRedemption_typed:
  "hoare (references V D) (getCurrentRedemption rnd ev) (\<lambda>x st. references V D st \<and> redemption_known x st)"
proof -
  let ?new = "\<lambda>n t u. \<lparr>r_seq = n, r_transaction = t_id t, r_redeemer = u_id u, r_attempted = 0, r_redeemed = 0,
                      r_coll = 0, r_partial = False\<rparr>"
  let ?save = "\<lambda>n t u st. st\<lparr>i_redemptions := (i_redemptions st)(nat_to_string n \<mapsto> ?new n t u)\<rparr>"
  have added: "references V D (?save n t u st) \<and> redemption_known (nat_to_string n, ?new n t u) (?save n t u st)"
    if "entity_owner V D ev t u st" for n t u st
    using that write_redemption_typed [of st "?new n t u" "nat_to_string n"]
    by (auto simp: entity_owner_def stays_typed_def redemption_known_def stored_def)
  have current: "keeps (\<lambda>st. references V D st \<and> redemption_known x st)
      (writeS (update_global (g_currentRedemption_update (\<lambda>_. Some (nat_to_string n)))))" for x n
    by (rule typed_keeps [OF write_typed(11) [THEN schema.stays_writeS] redemption_known_mono])
  have create: "hoare (entity_owner V D ev t u) (bindS (writeS (?save n t u)) (\<lambda>_.
      bindS (writeS (update_global (g_currentRedemption_update (\<lambda>_. Some (nat_to_string n))))) (\<lambda>_. retS (nat_to_string n, ?new n t u))))
     (\<lambda>x st. references V D st \<and> redemption_known x st)" for n t u
    by (rule hoare_bindS, rule hoare_writeS, erule added, rule hoare_bindS [OF current], rule hoare_retS) assumption
  show ?thesis
    unfolding getCurrentRedemption_def Let_def
  proof (rule hoare_bindS [where R = "\<lambda>x st. references V D st \<and> (case x of None \<Rightarrow> True | Some y \<Rightarrow> redemption_known y st)"])
    show "hoare (references V D) (readS (\<lambda>st. Option.bind (g_currentRedemption (getGlobal st))
        (\<lambda>k. map_option (\<lambda>l. (k, l)) (i_redemptions st k))))
      (\<lambda>x st. references V D st \<and> (case x of None \<Rightarrow> True | Some y \<Rightarrow> redemption_known y st))"
      by (rule hoare_readS) (auto simp: reference_defs redemption_known_def bind_eq_Some_conv split: option.splits)
  qed (intro hoare_option hoare_retS, simp_all,
      rule hoare_bindS [OF references_total(2)], intro transaction_and_user create)
qed

lemma stays_grows: "schema.stays m \<Longrightarrow> growing.stays m"
  by (simp add: schema.stays_def growing.stays_def stays_typed_def)

lemma getCurrent_grows:
  "growing.stays (getCurrentLiquidation rnd ev)" "growing.stays (getCurrentRedemption rnd ev)"
  unfolding getCurrentLiquidation_def getCurrentRedemption_def Let_def
  by (intro growing.stays_intros total_typed [THEN stays_grows] getTransaction_typed [THEN stays_grows]
      write_typed [THEN schema.stays_writeS, THEN stays_grows] growing.stays_writeS; auto simp: grows_def)+

lemma getCurrent_typed: "schema.stays (getCurrentLiquidation rnd ev)" "schema.stays (getCurrentRedemption rnd ev)"
  using growing.staysD [OF getCurrent_grows(1)] growing.staysD [OF getCurrent_grows(2)]
    hoareD [OF getCurrentLiquidation_typed] hoareD [OF getCurrentRedemption_typed]
  by (auto simp: schema.stays_def stays_typed_def)

section \<open>Saving changes and what they refer to\<close>

lemmas entity_typed_defs = references_def user_typed_def deposit_typed_def transaction_typed_def liquidation_typed_def
  redemption_typed_def

lemma references_mono: "references V D st \<Longrightarrow> V \<subseteq> V' \<Longrightarrow> D \<subseteq> D' \<Longrightarrow> references V' D' st"
  by (auto simp: references_def elim!: all_entities_mono)

lemma save_vault_change_typed:
  assumes "references V D st" "vc_vault c \<in> V" "vc_operation c \<in> set VaultOperation"
    and "stored_if_any (i_liquidations st) (vc_liquidation c)" "stored_if_any (i_redemptions st) (vc_redemption c)"
  shows "references V D (save_vault_change c st)"
  using assms by (auto simp: entity_typed_defs save_vault_change_def intro!: all_entities_update elim!: all_entities_mono)

lemma save_deposit_change_typed:
  assumes "references V D st" "dc_deposit c \<in> D" "dc_operation c \<in> set StabilityDepositOperation"
  shows "references V D (save_deposit_change c st)"
  using assms by (auto simp: entity_typed_defs save_deposit_change_def intro!: all_entities_update elim!: all_entities_mono)

lemma save_surplus_change_typed:
  assumes "references V D st" "stored (i_users st) (sc_user c)"
  shows "references V D (save_surplus_change c st)"
  using assms by (auto simp: entity_typed_defs save_surplus_change_def intro!: all_entities_update elim!: all_entities_mono)

lemma save_vault_typed: "references {v_id v} {} st \<Longrightarrow> references {} {} (save_vault v st)"
  by (auto simp: entity_typed_defs save_vault_def intro!: all_entities_update elim!: all_entities_mono)

lemma save_deposit_typed:
  "references {} {e_id d} st \<Longrightarrow> stored (i_users st) (e_owner d) \<Longrightarrow> references {} {} (save_deposit d st)"
  by (auto simp: entity_typed_defs save_deposit_def intro!: all_entities_update elim!: all_entities_mono)

lemma updateSystemState_typed:
  "schema.stays (updateSystemStateByVaultChange rnd vc)" "schema.stays (updateSystemStateByStabilityDepositChange rnd dc)"
  "schema.stays (updateSystemStateByCollSurplusChange rnd sc)" "schema.stays getCurrentPrice"
  unfolding updateSystemStateByVaultChange_def updateSystemStateByStabilityDepositChange_def
    updateSystemStateByCollSurplusChange_def getCurrentPrice_def
  by (intro typed_steps)+

lemma createChange_keeps: "keeps (references V D) (createChange (getTransaction rnd ev))"
  using typed_keeps [OF createChange_typed [OF getTransaction_typed], of "\<lambda>_. True"] by simp

text \<open>The end of a change: the system state is updated, the change is finished and saved.\<close>

lemma change_saved_typed:
  assumes "schema.stays upd" "\<And>st st'. grows st st' \<Longrightarrow> Q st \<Longrightarrow> Q st'"
    and "\<And>h' st. references V D st \<Longrightarrow> Q st \<Longrightarrow> references V D (save h' st) \<and> Q (save h' st)"
  shows "keeps (\<lambda>st. references V D st \<and> Q st) (bindS upd (\<lambda>_. bindS (finishChange h) (\<lambda>h'. writeS (save h'))))"
proof -
  let ?P = "\<lambda>st. references V D st \<and> Q st"
  have "keeps ?P upd" by (rule typed_keeps [where Q = Q, OF assms(1)]) (rule assms(2))
  moreover have "keeps ?P (finishChange h)" by (rule typed_keeps [where Q = Q, OF finishChange_typed]) (rule assms(2))
  moreover have "keeps ?P (writeS (save h'))" for h' by (rule hoare_writeS) (use assms(3) in blast)
  ultimately show ?thesis by (intro keeps_bindS)
qed

lemma record_vault_change_typed:
  assumes "operation \<in> set VaultOperation"
  shows "keeps (references {v_id v} D) (record_vault_change rnd ev operation v coll deb)"
proof -
  let ?ref = "references {v_id v} D"
  let ?Q = "\<lambda>liq red st. stored_if_any (i_liquidations st) liq \<and> stored_if_any (i_redemptions st) red"
  have liq: "hoare ?ref (if isLiquidation operation then bindS (getCurrentLiquidation rnd ev) (\<lambda>(k, _). retS (Some k)) else retS None)
      (\<lambda>liq st. ?ref st \<and> stored_if_any (i_liquidations st) liq)"
    by (intro hoare_if hoare_bindS [OF getCurrentLiquidation_typed] hoare_retS)
      (auto simp: hoare_def retS_def liquidation_known_def stored_if_any_def)
  have red: "hoare (\<lambda>st. ?ref st \<and> stored_if_any (i_liquidations st) liq)
      (if isRedemption operation then bindS (getCurrentRedemption rnd ev) (\<lambda>(k, _). retS (Some k)) else retS None)
      (\<lambda>red st. ?ref st \<and> ?Q liq red st)" for liq
  proof -
    have known: "hoare (\<lambda>st. ?ref st \<and> stored_if_any (i_liquidations st) liq) (getCurrentRedemption rnd ev)
        (\<lambda>x st. ?ref st \<and> stored_if_any (i_liquidations st) liq \<and> redemption_known x st)"
      using typed_keeps [OF getCurrent_typed(2), of "\<lambda>st. stored_if_any (i_liquidations st) liq" "{v_id v}" D]
        getCurrentRedemption_typed [of "{v_id v}" D] grows_stored(5)
      unfolding hoare_def by blast
    show ?thesis
      by (intro hoare_if hoare_bindS [OF known] hoare_retS)
        (auto simp: hoare_def retS_def redemption_known_def stored_if_any_def)
  qed
  have mono: "grows st st' \<Longrightarrow> ?Q liq red st \<Longrightarrow> ?Q liq red st'" for st st' liq red by (simp add: grows_stored)
  have save: "references {v_id v} D (save_vault_change c st) \<and> ?Q liq red (save_vault_change c st)"
    if "references {v_id v} D st" "?Q liq red st" "c = (vault_change_of rnd h p operation v coll deb liq red)\<lparr>vc_header := h'\<rparr>"
    for st liq red h p c h'
    using that(1,2) save_vault_change_typed [OF that(1), of c] assms
    by (simp add: that(3) vault_change_of_def) (simp add: save_vault_change_def)
  have price: "keeps ?ref getCurrentPrice" using typed_keeps [OF updateSystemState_typed(4), of "\<lambda>_. True"] by simp
  have last: "hoare (\<lambda>st. ?ref st \<and> ?Q liq red st)
     (bindS (updateSystemStateByVaultChange rnd (vault_change_of rnd h p operation v coll deb liq red)) (\<lambda>_.
      bindS (finishChange h) (\<lambda>h'.
        writeS (save_vault_change ((vault_change_of rnd h p operation v coll deb liq red)\<lparr>vc_header := h'\<rparr>))))) (\<lambda>_. ?ref)" for liq red h p
    by (rule hoare_weaken [OF change_saved_typed [OF updateSystemState_typed(1), of "?Q liq red"]])
      (use mono save in auto)
  show ?thesis
    unfolding record_vault_change_def Let_def
    by (rule hoare_bindS [OF createChange_keeps], rule hoare_bindS [OF price], rule hoare_bindS [OF liq], rule hoare_bindS [OF red], rule last)
qed

section \<open>The handlers keep the types\<close>

abbreviation typed :: "indexed \<Rightarrow> bool" where
  "typed \<equiv> references {} {}"

lemma stays_keeps_references: "schema.stays m \<Longrightarrow> keeps (references V D) m"
  using typed_keeps [of m "\<lambda>_. True" V D] by simp

lemma close_current_typed:
  "schema.stays (closeCurrentVaultOfOwner a)" "schema.stays (closeCurrentStabilityDepositOfOwner a)"
  "schema.stays (getCurrentVaultOfOwner a)" "schema.stays (close_if_empty operation a coll)"
  unfolding closeCurrentVaultOfOwner_def closeCurrentStabilityDepositOfOwner_def getCurrentVaultOfOwner_def close_if_empty_def
  by (intro typed_steps)+

lemma updateVault_typed:
  assumes "operation \<in> set VaultOperation"
  shows "keeps typed (updateVault rnd ev operation borrower coll deb stake snapshots)"
proof -
  have upd: "hoare typed (bindS (record_vault_change rnd ev operation v c d) (\<lambda>_. bindS (close_if_empty operation borrower coll) (\<lambda>status.
      writeS (save_vault (f v status))))) (\<lambda>_. typed)" if "\<And>status. v_id (f v status) = v_id v" for v c d f
  proof (rule hoare_weaken [where P = "references {v_id v} {}"])
    have "hoare (references {v_id v} {}) (writeS (save_vault (f v status))) (\<lambda>_. typed)" for status
      by (rule hoare_writeS) (use save_vault_typed [of "f v status"] that in simp)
    then show "hoare (references {v_id v} {}) (bindS (record_vault_change rnd ev operation v c d) (\<lambda>_.
        bindS (close_if_empty operation borrower coll) (\<lambda>status. writeS (save_vault (f v status))))) (\<lambda>_. typed)"
      by (intro hoare_bindS [OF record_vault_change_typed [OF assms]]
          hoare_bindS [OF stays_keeps_references [OF close_current_typed(4)]])
  qed (auto intro: references_mono)
  show ?thesis
    unfolding updateVault_def Let_def
    by (intro hoare_bindS [OF stays_keeps_references [OF close_current_typed(3)]] hoare_if hoare_retS upd) simp_all
qed

lemma updateUserClaimColl_typed: "keeps typed (updateUserClaimColl rnd ev borrower surplus)"
proof -
  let ?P = "\<lambda>u st. typed st \<and> stored (i_users st) (u_id u)"
  have get: "hoare typed (totalS (getUser borrower)) ?P"
    using getUser_typed [of "{}" "{}" borrower] unfolding hoare_def by blast
  have create: "keeps (?P u) (createChange (getTransaction rnd ev))" for u
    by (rule typed_keeps [OF createChange_typed [OF getTransaction_typed]]) (rule grows_stored)
  have upd: "keeps (?P u) (updateSystemStateByCollSurplusChange rnd c)" "keeps (?P u) (finishChange h)"
    "keeps (?P u) (writeS (save_user w))" for u c h w
    by (rule typed_keeps [OF updateSystemState_typed(3)], erule (1) grows_stored, rule typed_keeps [OF finishChange_typed],
      erule (1) grows_stored, rule typed_keeps [OF save_user_typed [THEN schema.stays_writeS]], erule (1) grows_stored)
  have save: "keeps (?P u) (writeS (save_surplus_change c))" if "sc_user c = u_id u" for u c
    by (rule hoare_writeS) (use that save_surplus_change_typed [of "{}" "{}" _ c] in \<open>auto simp: save_surplus_change_def\<close>)
  have body: "hoare (?P u) (bindS (createChange (getTransaction rnd ev)) (\<lambda>h. bindS (updateSystemStateByCollSurplusChange rnd (c h)) (\<lambda>_.
      bindS (finishChange h) (\<lambda>h'. bindS (writeS (save_surplus_change ((c h)\<lparr>sc_header := h'\<rparr>))) (\<lambda>_. writeS (save_user w)))))) (\<lambda>_. typed)"
    if "\<And>h. sc_user (c h) = u_id u" for u c w
  proof -
    have "keeps (?P u) (bindS (createChange (getTransaction rnd ev)) (\<lambda>h. bindS (updateSystemStateByCollSurplusChange rnd (c h)) (\<lambda>_.
      bindS (finishChange h) (\<lambda>h'. bindS (writeS (save_surplus_change ((c h)\<lparr>sc_header := h'\<rparr>))) (\<lambda>_. writeS (save_user w))))))"
      by (intro keeps_bindS create upd save) (simp add: that)
    then show ?thesis by (rule hoare_weaken) auto
  qed
  show ?thesis
    unfolding updateUserClaimColl_def Let_def
    by (rule hoare_bindS [OF get], intro hoare_if hoare_retS body) simp_all
qed

lemma updateStabilityDepositByOperation_typed:
  assumes "operation \<in> set StabilityDepositOperation"
  shows "hoare (\<lambda>st. references {} {e_id d} st \<and> stored (i_users st) (e_owner d))
    (updateStabilityDepositByOperation rnd ev d operation amt gain)
    (\<lambda>d' st. e_id d' = e_id d \<and> e_owner d' = e_owner d \<and> references {} {e_id d'} st \<and> stored (i_users st) (e_owner d'))"
proof -
  let ?P = "\<lambda>st. references {} {e_id d} st \<and> stored (i_users st) (e_owner d)"
  have create: "keeps ?P (createChange (getTransaction rnd ev))"
    by (rule typed_keeps [OF createChange_typed [OF getTransaction_typed]]) (rule grows_stored)
  have upd: "keeps ?P (updateSystemStateByStabilityDepositChange rnd c)" "keeps ?P (finishChange h)" for c h
    by (rule typed_keeps [OF updateSystemState_typed(2)], erule (1) grows_stored, rule typed_keeps [OF finishChange_typed],
      erule (1) grows_stored)
  have save: "keeps ?P (writeS (save_deposit_change c))" if "dc_deposit c = e_id d" "dc_operation c = operation" for c
    by (rule hoare_writeS)
      (use that assms save_deposit_change_typed [of "{}" "{e_id d}" _ c] in \<open>auto simp: save_deposit_change_def\<close>)
  show ?thesis
    unfolding updateStabilityDepositByOperation_def Let_def
    by (rule hoare_bindS [OF create], rule hoare_bindS [OF upd(1)], rule hoare_bindS [OF upd(2)], rule hoare_bindS [OF save])
      (simp_all add: hoare_def retS_def)
qed

lemma getCurrentStabilityDeposit_typed:
  "hoare typed (getCurrentStabilityDepositOfOwner a)
     (\<lambda>x st. typed st \<and> (case x of None \<Rightarrow> True | Some d \<Rightarrow> stored (i_users st) (e_owner d)))"
proof -
  have "hoare typed (readS (\<lambda>st. Option.bind (u_currentDeposit u) (i_deposits st)))
      (\<lambda>x st. typed st \<and> (case x of None \<Rightarrow> True | Some d \<Rightarrow> stored (i_users st) (e_owner d)))" for u
    by (rule hoare_readS) (auto simp: entity_typed_defs all_entities_def bind_eq_Some_conv split: option.splits)
  then show ?thesis
    unfolding getCurrentStabilityDepositOfOwner_def
    by (rule hoare_bindS [OF stays_keeps_references [OF total_typed(1)]])
qed

lemma openNewStabilityDeposit_typed:
  "hoare typed (openNewStabilityDepositForOwner a) (\<lambda>d st. typed st \<and> stored (i_users st) (e_owner d))"
proof -
  have save: "keeps (\<lambda>st. typed st \<and> stored (i_users st) a) (writeS (save_user w))" for w
    by (rule typed_keeps [OF save_user_typed [THEN schema.stays_writeS]]) (rule grows_stored)
  have create: "hoare (\<lambda>st. typed st \<and> u_id u = a \<and> stored (i_users st) a) (bindS (writeS (save_user w)) (\<lambda>_. retS d))
      (\<lambda>d st. typed st \<and> stored (i_users st) (e_owner d))" if "e_owner d = u_id u" for u w d
  proof (cases "u_id u = a")
    case True
    have "hoare (\<lambda>st. typed st \<and> stored (i_users st) a) (bindS (writeS (save_user w)) (\<lambda>_. retS d))
        (\<lambda>d st. typed st \<and> stored (i_users st) (e_owner d))"
      by (rule hoare_bindS [OF save], rule hoare_retS) (simp add: that True)
    with True show ?thesis by simp
  qed (simp add: hoare_def)
  show ?thesis
    unfolding openNewStabilityDepositForOwner_def Let_def by (intro hoare_bindS [OF getUser_typed] create) simp
qed

text \<open>The end of an update of a deposit.\<close>

lemma deposit_saved_typed:
  assumes "operation \<in> set StabilityDepositOperation"
  shows "hoare (\<lambda>st. typed st \<and> stored (i_users st) (e_owner d))
    (bindS (updateStabilityDepositByOperation rnd ev d operation amt gain) (\<lambda>d'.
     bindS (if z then closeCurrentStabilityDepositOfOwner user else retS ()) (\<lambda>_. writeS (save_deposit d')))) (\<lambda>_. typed)"
proof -
  let ?P = "\<lambda>d' st. e_id d' = e_id d \<and> e_owner d' = e_owner d \<and> references {} {e_id d'} st \<and> stored (i_users st) (e_owner d')"
  have close: "keeps (?P d') (if z then closeCurrentStabilityDepositOfOwner user else retS ())" for d'
  proof -
    have "schema.stays (if z then closeCurrentStabilityDepositOfOwner user else retS ())"
      by (intro typed_steps close_current_typed(2))
    then show ?thesis
      by (rule schema.stays_keeps) (use grows_stored(1) in \<open>auto simp: stays_typed_def\<close>)
  qed
  have save: "hoare (?P d') (writeS (save_deposit d')) (\<lambda>_. typed)" for d'
    by (rule hoare_writeS) (use save_deposit_typed in blast)
  have "hoare (\<lambda>st. references {} {e_id d} st \<and> stored (i_users st) (e_owner d))
    (bindS (updateStabilityDepositByOperation rnd ev d operation amt gain) (\<lambda>d'.
     bindS (if z then closeCurrentStabilityDepositOfOwner user else retS ()) (\<lambda>_. writeS (save_deposit d')))) (\<lambda>_. typed)"
    by (rule hoare_bindS [OF updateStabilityDepositByOperation_typed [OF assms]], rule hoare_bindS [OF close], rule save)
  then show ?thesis by (rule hoare_weaken) (auto intro: references_mono)
qed

lemma hoare_current_deposit:
  assumes "\<And>d. hoare (\<lambda>st. typed st \<and> stored (i_users st) (e_owner d)) (f d) Q" "hoare typed m Q"
  shows "hoare (\<lambda>st. typed st \<and> (case x of None \<Rightarrow> True | Some d \<Rightarrow> stored (i_users st) (e_owner d)))
    (case x of None \<Rightarrow> m | Some d \<Rightarrow> f d) Q"
  by (cases x) (use assms in simp_all)

lemma updateStabilityDeposit_typed: "keeps typed (updateStabilityDeposit rnd ev user amt)"
proof -
  have have_deposit: "hoare (\<lambda>st. typed st \<and> stored (i_users st) (e_owner d)) (retS d) (\<lambda>d st. typed st \<and> stored (i_users st) (e_owner d))" for d
    by (rule hoare_retS)
  have operation: "(if b then ''depositTokens'' else ''withdrawTokens'') \<in> set StabilityDepositOperation" for b
    by (simp add: StabilityDepositOperation_def)
  show ?thesis
    unfolding updateStabilityDeposit_def Let_def
    by (rule hoare_bindS [OF getCurrentStabilityDeposit_typed], rule hoare_if, rule hoare_retS, erule conjunct1,
        rule hoare_bindS [OF hoare_current_deposit [OF have_deposit openNewStabilityDeposit_typed]],
        rule deposit_saved_typed [OF operation])
qed

lemma withdrawCollateralGain_typed: "keeps typed (withdrawCollateralGainFromStabilityDeposit rnd ev user gain loss)"
proof -
  have fails: "hoare typed (liftS (Inl TypeError)) (\<lambda>_ :: unit. typed)" by (simp add: hoare_def liftS_def)
  have operation: "''withdrawCollateralGain'' \<in> set StabilityDepositOperation" by (simp add: StabilityDepositOperation_def)
  show ?thesis
    unfolding withdrawCollateralGainFromStabilityDeposit_def Let_def
    by (rule hoare_if, rule hoare_retS, assumption, rule hoare_bindS [OF getCurrentStabilityDeposit_typed],
        rule hoare_current_deposit [OF deposit_saved_typed [OF operation] fails])
qed

lemma hoare_prod: "(\<And>a b. hoare (P (a, b)) (f a b) Q) \<Longrightarrow> hoare (P x) (case x of (a, b) \<Rightarrow> f a b) Q"
  by (cases x) simp

lemma finishCurrent_typed:
  "keeps typed (finishCurrentLiquidation rnd ev a b c d)" "keeps typed (finishCurrentRedemption rnd ev a b c)"
proof -
  have liquidation: "hoare (\<lambda>st. typed st \<and> liquidation_known (k, l) st)
      (writeS (\<lambda>st. st\<lparr>i_liquidations := (i_liquidations st)(k \<mapsto> l')\<rparr>)) (\<lambda>_. typed)"
    if "l_transaction l' = l_transaction l" "l_liquidator l' = l_liquidator l" for k l l'
    by (rule hoare_writeS)
      (use that write_liquidation_typed [of _ l' k] in \<open>auto simp: liquidation_known_def stays_typed_def\<close>)
  have redemption: "hoare (\<lambda>st. typed st \<and> redemption_known (k, r) st)
      (writeS (\<lambda>st. st\<lparr>i_redemptions := (i_redemptions st)(k \<mapsto> r')\<rparr>)) (\<lambda>_. typed)"
    if "r_transaction r' = r_transaction r" "r_redeemer r' = r_redeemer r" for k r r'
    by (rule hoare_writeS)
      (use that write_redemption_typed [of _ r' k] in \<open>auto simp: redemption_known_def stays_typed_def\<close>)
  have current: "keeps typed (writeS (update_global (g_currentLiquidation_update f)))"
    "keeps typed (writeS (update_global (g_currentRedemption_update f)))" for f
    by (intro stays_keeps_references typed_steps)+
  show "keeps typed (finishCurrentLiquidation rnd ev a b c d)"
    unfolding finishCurrentLiquidation_def
    by (rule hoare_bindS [OF getCurrentLiquidation_typed], rule hoare_prod, intro hoare_bindS [OF liquidation] current) simp_all
  show "keeps typed (finishCurrentRedemption rnd ev a b c)"
    unfolding finishCurrentRedemption_def
    by (rule hoare_bindS [OF getCurrentRedemption_typed], rule hoare_prod, intro hoare_bindS [OF redemption] current) simp_all
qed

lemma operations_declared:
  "n < 3 \<Longrightarrow> getVaultOperationFromBorrowerOperation n \<in> set VaultOperation"
  "n < 4 \<Longrightarrow> getVaultOperationFromVaultManagerOperation n \<in> set VaultOperation"
  "''accrueRewards'' \<in> set VaultOperation"
  by (auto simp: VaultOperation_def getVaultOperationFromBorrowerOperation_def getVaultOperationFromVaultManagerOperation_def)

lemma handle_event_typed:
  assumes "declared e"
  shows "keeps typed (handle_event rnd ev e)"
proof -
  have lift: "keeps typed (liftS r)" for r :: "'b result" by (intro stays_keeps_references typed_steps)
  have wr: "keeps typed (create_template t x)" "keeps typed (writeS (updatePriceFeedAddress x))"
    "keeps typed (writeS (updateTotalRedistributed m n))" for t x m n
    unfolding create_template_def by (intro stays_keeps_references typed_steps)+
  show ?thesis
    using assms
    by (cases e) (simp_all add: handleBorrowerVaultUpdated_def handleVaultUpdated_def handleVaultLiquidated_def handleLiquidation_def;
      intro wr keeps_bindS keeps_prod lift updateVault_typed operations_declared finishCurrent_typed updateUserClaimColl_typed
        updateStabilityDeposit_typed withdrawCollateralGain_typed; simp)+
qed

lemma indexes_typed: "indexes_declared rnd st \<Longrightarrow> typed st"
proof (induction rule: indexes_declared.induct)
  case Declared_start
  show ?case by (simp add: references_def all_entities_def nothing_indexed_def)
next
  case (Declared_event st e ev st')
  from hoareD [OF handle_event_typed [OF Declared_event.hyps(2)] Declared_event.hyps(3) Declared_event.IH] show ?case .
qed

section \<open>The indexer stores what the schema declares\<close>

lemma audited_headers:
  assumes "audited rnd st" "c \<in> changes_at st k"
  shows "change_typed st k (header_of c)"
proof -
  obtain s where t: "trail rnd (changes_made st) s st" using assms(1) by (auto simp: audited_def)
  have "changes_at st k \<noteq> {}" using assms(2) by auto
  with t obtain n where n: "k = nat_to_string n" "n < changes_made st" by (auto simp: trail_def)
  have "\<forall>n < changes_made st. \<exists>x. changes_at st (nat_to_string n) = {x} \<and> linked rnd st n x" using t
    unfolding trail_def by (elim conjE) assumption
  with n assms(2) have "linked rnd st n c" by auto
  with n show ?thesis by (auto simp: linked_def change_typed_def stored_def)
qed

lemma headers_typed:
  assumes "audited rnd st"
  shows "i_vaultChanges st k = Some vc \<Longrightarrow> change_typed st k (vc_header vc)"
    "i_depositChanges st k = Some dc \<Longrightarrow> change_typed st k (dc_header dc)"
    "i_priceChanges st k = Some pc \<Longrightarrow> change_typed st k (pc_header pc)"
    "i_surplusChanges st k = Some sc \<Longrightarrow> change_typed st k (sc_header sc)"
  using audited_headers [OF assms, of "RecordedVault vc" k] audited_headers [OF assms, of "RecordedDeposit dc" k]
    audited_headers [OF assms, of "RecordedPrice pc" k] audited_headers [OF assms, of "RecordedSurplus sc" k]
  by (auto simp: changes_at_def)

lemma vaults_typed:
  assumes "books_ok st" "i_vaults st k = Some v"
  shows "vault_typed st k v"
proof -
  have "vault_booked (vaults_known st) k v" using assms by (simp add: books_ok_def books_hold_def)
  then show ?thesis
    by (auto simp: vault_booked_def vault_typed_def stored_def VaultStatus_def vaults_known_def split: option.splits)
qed

text \<open>
  C12. Whatever events of the contracts it indexes, with operations among those the contracts declare, the indexer stores well-typed entities: every
  field that may not be null and refers to an entity refers to a stored one of its type, including the transaction and the two system states of each of
  the four kinds of changes; an entity is stored under its identity, and the fields of enumerations have declared values.
\<close>

theorem indexer_stores_typed_entities:
  assumes "indexes_declared rnd st"
  shows "schema_typed st"
proof -
  have refs: "typed st" by (rule indexes_typed [OF assms])
  have audit: "audited rnd st" and books: "books_ok st"
    using indexes_declared_indexes [OF assms] by (auto intro: indexes_audited indexes_books)
  have "all_entities (vault_typed st) (i_vaults st)" using vaults_typed [OF books] by (simp add: all_entities_def)
  moreover have "all_entities (vault_change_typed st) (i_vaultChanges st)" "all_entities (deposit_change_typed st) (i_depositChanges st)"
    "all_entities (price_change_typed st) (i_priceChanges st)" "all_entities (surplus_change_typed st) (i_surplusChanges st)"
    using refs headers_typed [OF audit]
    by (auto simp: references_def all_entities_def vault_change_typed_def deposit_change_typed_def price_change_typed_def
        surplus_change_typed_def stored_def)
  ultimately show ?thesis using refs by (simp add: schema_typed_def references_def)
qed

lemma declared_run:
  assumes "index_events rnd es st = Inr st'" "indexes_declared rnd st" "list_all (declared \<circ> snd) es"
  shows "indexes_declared rnd st'"
  using assms
proof (induction es arbitrary: st)
  case (Cons x es)
  obtain ev e where x: "x = (ev, e)" by (cases x)
  with Cons.prems(1) obtain st1 where 1: "handle_event rnd ev e st = Inr ((), st1)" "index_events rnd es st1 = Inr st'"
    by (auto simp: index_events_def bindE_eq_Inr_iff)
  from Cons.IH [OF 1(2) Declared_event [OF Cons.prems(2) _ 1(1)]] Cons.prems(3) x show ?case by simp
qed (simp add: index_events_def)

lemma indexer_stores_typed_entities_witness:
  "\<exists>st. index_events (\<lambda>x. x) opening_run nothing_indexed = Inr st \<and> g_changeCount (getGlobal st) = 3 \<and> schema_typed st"
proof -
  obtain st where st: "index_events (\<lambda>x. x) opening_run nothing_indexed = Inr st" "g_changeCount (getGlobal st) = 3"
    using opening_run_counts by (auto simp: has_counts_def split: sum.splits)
  have "indexes_declared (\<lambda>x. x) st"
    by (rule declared_run [OF st(1) Declared_start]) (simp add: opening_run_def)
  from indexer_stores_typed_entities [OF this] st show ?thesis by blast
qed

text \<open>
  A reference that may be \<open>null\<close> can dangle: after a liquidation, the events of its contracts leave the borrower with a current vault
  that was never stored.
\<close>

lemma current_vault_can_dangle:
  "case index_events (\<lambda>x. x) liquidation_run nothing_indexed of
     Inl _ \<Rightarrow> False
   | Inr st \<Rightarrow> Option.bind (i_users st ''0x1'') u_currentVault = Some ''0x1-1'' \<and> \<not> stored (i_vaults st) ''0x1-1''"
  by (simp add: stored_def index_events_def liquidation_run_def sample_event_def handleVaultLiquidated_def
      getCurrentLiquidation_def tryToOffsetWithTokensFromStabilityPool_def monad_defs store_defs entity_defs)

end
