(* ===== verification/Subgraph_Client.thy ===== *)
theory Subgraph_Client
  imports Readable Subgraph_Events
begin

text \<open>
  The client of the indexer (\<open>packages/lib-subgraph/src\<close>): \<open>Query\<close> asks the server of the indexer and maps its answer,
  \<open>SubgraphMoneyp\<close> reads the protocol through such queries. The server is the parameter \<open>graph\<close>; its answers have the fields
  of the generated types (\<open>packages/lib-subgraph/types\<close>). A \<open>BigInt\<close> arrives as a text of digits and is given as the number, a
  \<open>BigDecimal\<close> as a text, and a status as the text of the same status of a vault.
\<close>

section \<open>Answers of the server\<close>

record vault_raw_fields =
  rf_owner :: string
  rf_status :: user_vault_status
  rf_rawCollateral :: nat
  rf_rawDebt :: nat
  rf_rawStake :: nat
  rf_rawSnapshotColl :: nat
  rf_rawSnapshotDebt :: nat

record current_system_state =
  cs_price :: string
  cs_totalCollateral :: string
  cs_totalDebt :: string
  cs_tokensInStabilityPool :: string

record global_answer =
  ga_numberOfOpenVaults :: int
  ga_rawTotalColl :: nat
  ga_rawTotalDebt :: nat
  ga_currentSystemState :: "current_system_state option"

datatype order_direction = Asc | Desc

text \<open>
  The queries: the global entity, the current vault of a user (\<open>None\<close> also when there is no user), the open vaults sorted by
  \<open>collateralRatioSortKey\<close> (direction, \<open>startingAt\<close>, \<open>first\<close>), and whether the block of a number is indexed. \<open>getAddress\<close> is
  that of \<open>ethers\<close>, which throws for what is no address.
\<close>

record graph =
  gq_global :: "global_answer option result"
  gq_currentVault :: "string \<Rightarrow> vault_raw_fields option result"
  gq_vaults :: "order_direction \<Rightarrow> rat \<Rightarrow> rat option \<Rightarrow> vault_raw_fields list result"
  gq_block :: "nat \<Rightarrow> nat \<Rightarrow> unit result"
  gq_getAddress :: "string \<Rightarrow> string result"

section \<open>Queries\<close>

definition query_get :: "'u result \<Rightarrow> ('u \<Rightarrow> 'a result) \<Rightarrow> 'a result" where
  "query_get answer mapResult = bindE answer mapResult"

text \<open>What a watcher is called with for the answers that arrive until it unsubscribes; a result that cannot be mapped is not delivered.\<close>

definition query_watch :: "('u \<Rightarrow> 'a result) \<Rightarrow> 'u list \<Rightarrow> 'a list" where
  "query_watch mapResult answers = concat (map (\<lambda>a. case mapResult a of Inr x \<Rightarrow> [x] | Inl _ \<Rightarrow> []) answers)"

definition normalizeAddress :: "string option \<Rightarrow> string result" where
  "normalizeAddress a = (case a of None \<Rightarrow> Inl (Error ''An address is required'') | Some x \<Rightarrow> Inr (map lower_char x))"

definition map_numberOfVaults :: "global_answer option \<Rightarrow> int result" where
  "map_numberOfVaults g = Inr (case g of None \<Rightarrow> 0 | Some x \<Rightarrow> ga_numberOfOpenVaults x)"

definition map_totalRedistributed :: "global_answer option \<Rightarrow> vault result" where
  "map_totalRedistributed g =
     Inr (case g of
            None \<Rightarrow> emptyVault
          | Some x \<Rightarrow> Vault (decimalify (ga_rawTotalColl x)) (decimalify (ga_rawTotalDebt x)))"

definition system_state_of :: "global_answer option \<Rightarrow> current_system_state option" where
  "system_state_of g = Option.bind g ga_currentSystemState"

definition map_price :: "global_answer option \<Rightarrow> decimal result" where
  "map_price g = from_d (case system_state_of g of Some s \<Rightarrow> DString (cs_price s) | None \<Rightarrow> DNumber ''200'')"

text \<open>The constructor of \<open>Vault\<close> stores what it is given: here two texts, which have none of the methods of a decimal.\<close>

datatype total_vault = TotalVault vault | TotalTexts string string

definition map_total :: "global_answer option \<Rightarrow> total_vault result" where
  "map_total g =
     Inr (case system_state_of g of
            Some s \<Rightarrow> TotalTexts (cs_totalCollateral s) (cs_totalDebt s)
          | None \<Rightarrow> TotalVault emptyVault)"

definition total_collateralRatio :: "total_vault \<Rightarrow> decimalish \<Rightarrow> decimal result" where
  "total_collateralRatio v p = (case v of TotalVault x \<Rightarrow> collateralRatio x p | TotalTexts c d \<Rightarrow> Inl TypeError)"

definition map_tokensInStabilityPool :: "global_answer option \<Rightarrow> decimal result" where
  "map_tokensInStabilityPool g =
     from_d (case system_state_of g of Some s \<Rightarrow> DString (cs_tokensInStabilityPool s) | None \<Rightarrow> DNumber ''0'')"

definition vaultFromRawFields :: "graph \<Rightarrow> vault_raw_fields \<Rightarrow> vault_with_pending_redistribution result" where
  "vaultFromRawFields gr f =
     bindE (gq_getAddress gr (rf_owner f)) (\<lambda>owner.
       Inr (pending_vault owner (rf_status f) (decimalify (rf_rawCollateral f)) (decimalify (rf_rawDebt f))
              (decimalify (rf_rawStake f))
              (Vault (decimalify (rf_rawSnapshotColl f)) (decimalify (rf_rawSnapshotDebt f)))))"

definition map_currentVault ::
  "graph \<Rightarrow> string \<Rightarrow> vault_raw_fields option \<Rightarrow> vault_with_pending_redistribution result" where
  "map_currentVault gr a v =
     (case v of Some f \<Rightarrow> vaultFromRawFields gr f | None \<Rightarrow> Inr (empty_pending a NonExistent))"

section \<open>Reading through the client\<close>

definition subgraph_getTotalRedistributed :: "graph \<Rightarrow> vault result" where
  "subgraph_getTotalRedistributed gr = query_get (gq_global gr) map_totalRedistributed"

definition subgraph_getNumberOfVaults :: "graph \<Rightarrow> int result" where
  "subgraph_getNumberOfVaults gr = query_get (gq_global gr) map_numberOfVaults"

definition subgraph_getPrice :: "graph \<Rightarrow> decimal result" where
  "subgraph_getPrice gr = query_get (gq_global gr) map_price"

definition subgraph_getTotal :: "graph \<Rightarrow> total_vault result" where
  "subgraph_getTotal gr = query_get (gq_global gr) map_total"

definition subgraph_getBPDInStabilityPool :: "graph \<Rightarrow> decimal result" where
  "subgraph_getBPDInStabilityPool gr = query_get (gq_global gr) map_tokensInStabilityPool"

definition subgraph_getVaultBeforeRedistribution :: "graph \<Rightarrow> string option \<Rightarrow> vault_with_pending_redistribution result" where
  "subgraph_getVaultBeforeRedistribution gr a =
     bindE (normalizeAddress a) (\<lambda>x. query_get (gq_currentVault gr x) (map_currentVault gr x))"

definition subgraph_getVault :: "graph \<Rightarrow> string option \<Rightarrow> user_vault result" where
  "subgraph_getVault gr a =
     bindE (subgraph_getVaultBeforeRedistribution gr a) (\<lambda>v.
     bindE (subgraph_getTotalRedistributed gr) (\<lambda>total. applyRedistribution v total))"

text \<open>What \<open>getStabilityDeposit\<close> and the other methods without a query do.\<close>

definition method_not_implemented :: "'a result" where
  "method_not_implemented = Inl (Error ''Method not implemented.'')"

definition subgraph_getVaults :: "graph \<Rightarrow> listing \<Rightarrow> listed result" where
  "subgraph_getVaults gr params =
     bindE (if beforeRedistribution params then Inr None else bindE (subgraph_getTotalRedistributed gr) (\<lambda>t. Inr (Some t))) (\<lambda>total.
     bindE (query_get
         (gq_vaults gr (if sortedBy params = ''ascendingCollateralRatio'' then Asc else Desc)
            (case startingAt params of None \<Rightarrow> 0 | Some n \<Rightarrow> n) (first params))
         (mapE (vaultFromRawFields gr))) (\<lambda>vs.
     case total of
       Some t \<Rightarrow> bindE (mapE (\<lambda>v. applyRedistribution v t) vs) (\<lambda>us. Inr (UserVaults us))
     | None \<Rightarrow> Inr (PendingVaults vs)))"

text \<open>The loop that waits until a block is indexed: the number of the attempt that succeeds.\<close>

partial_function (option) waitForBlock_loop :: "(nat \<Rightarrow> unit result) \<Rightarrow> nat \<Rightarrow> nat option" where
  "waitForBlock_loop attempt n = (case attempt n of Inr _ \<Rightarrow> Some n | Inl _ \<Rightarrow> waitForBlock_loop attempt (Suc n))"

definition waitForBlock :: "graph \<Rightarrow> nat \<Rightarrow> nat option" where
  "waitForBlock gr blockNumber = waitForBlock_loop (gq_block gr blockNumber) 0"

end
