(* ===== verification/Subgraph_Client_Laws.thy ===== *)
theory Subgraph_Client_Laws
  imports Subgraph_Client Subgraph_Laws Vault_Changes
begin

text \<open>
  What the client of the indexer returns when its server answers from what the indexer stored, and where it departs from the
  interface it implements.
\<close>

section \<open>A server of the indexed entities\<close>

definition status_named :: "string \<Rightarrow> user_vault_status" where
  "status_named s = (if s = ''open'' then Open else if s = ''closedByOwner'' then ClosedByOwner
     else if s = ''closedByLiquidation'' then ClosedByLiquidation
     else if s = ''closedByRedemption'' then ClosedByRedemption else NonExistent)"

definition raw_fields_of :: "vault_entity \<Rightarrow> vault_raw_fields" where
  "raw_fields_of v = \<lparr>rf_owner = v_owner v, rf_status = status_named (v_status v), rf_rawCollateral = v_rawColl v,
     rf_rawDebt = v_rawDebt v, rf_rawStake = v_rawStake v, rf_rawSnapshotColl = v_rawSnapshotColl v,
     rf_rawSnapshotDebt = v_rawSnapshotDebt v\<rparr>"

text \<open>The stored current vault of an address; a reference that may be \<open>null\<close> and does not resolve is answered with \<open>null\<close>.\<close>

definition current_vault :: "indexed \<Rightarrow> string \<Rightarrow> vault_entity option" where
  "current_vault st a = Option.bind (i_users st a) (\<lambda>u. Option.bind (u_currentVault u) (i_vaults st))"

definition global_answer_of :: "(rat \<Rightarrow> string) \<Rightarrow> indexed \<Rightarrow> global_answer option" where
  "global_answer_of shown st = map_option (\<lambda>g.
     \<lparr>ga_numberOfOpenVaults = g_openVaults g, ga_rawTotalColl = g_rawTotalColl g, ga_rawTotalDebt = g_rawTotalDebt g,
      ga_currentSystemState = map_option (\<lambda>s.
        \<lparr>cs_price = shown (y_price s), cs_totalCollateral = shown (y_coll s), cs_totalDebt = shown (y_debt s),
         cs_tokensInStabilityPool = shown (y_pool s)\<rparr>) (Option.bind (g_currentState g) (i_states st))\<rparr>) (i_global st)"

definition serves :: "(rat \<Rightarrow> string) \<Rightarrow> indexed \<Rightarrow> graph \<Rightarrow> bool" where
  "serves shown st gr \<longleftrightarrow> gq_global gr = Inr (global_answer_of shown st) \<and>
     (\<forall>a. gq_currentVault gr a = Inr (map_option raw_fields_of (current_vault st a)))"

lemma current_vault_open:
  assumes "indexes rnd st" "current_vault st a = Some v"
  shows "v_status v = ''open''" "v_owner v = a"
proof -
  have hold: "books_hold (vaults_known st) (i_vaults st) (vault_counters st)"
    using indexes_books [OF assms(1)] by (simp add: books_ok_def)
  obtain k where "fst (vaults_known st a) = Some k" "i_vaults st k = Some v"
    using assms(2) by (auto simp: current_vault_def vaults_known_def bind_eq_Some_conv)
  from current_is_open [OF hold this] show "v_status v = ''open''" "v_owner v = a" .
qed

lemma open_vaults_counted:
  assumes "indexes rnd st"
  shows "g_openVaults (getGlobal st) = int (card {a. \<exists>u. i_users st a = Some u \<and> u_currentVault u \<noteq> None})"
proof -
  have "g_openVaults (getGlobal st) = int (card {a. fst (vaults_known st a) \<noteq> None})"
    using indexes_books [OF assms] by (simp add: books_ok_def books_hold_def vault_counters_def Let_def)
  moreover have "{a. fst (vaults_known st a) \<noteq> None} = {a. \<exists>u. i_users st a = Some u \<and> u_currentVault u \<noteq> None}"
    by (auto simp: vaults_known_def split: option.splits)
  ultimately show ?thesis by simp
qed

text \<open>
  C14. Through a server that answers from what the indexer stored, the client reads for every address the open vault that
  is stored as the current one of its lower-case form, owned by it and with its raw amounts, or a vault that does not exist; with the
  pending rewards it never throws. The number of vaults is the number of users with a current vault and the
  redistributed totals are those of the last liquidation.
\<close>

theorem client_reads_index:
  assumes "indexes rnd st" "serves shown st gr" "gq_getAddress gr (map lower_char a) = Inr owner"
  shows "subgraph_getVaultBeforeRedistribution gr (Some a) =
      Inr (case current_vault st (map lower_char a) of
             None \<Rightarrow> empty_pending (map lower_char a) NonExistent
           | Some v \<Rightarrow> pending_vault owner Open (decimalify (v_rawColl v)) (decimalify (v_rawDebt v)) (decimalify (v_rawStake v))
                         (Vault (decimalify (v_rawSnapshotColl v)) (decimalify (v_rawSnapshotDebt v)))) \<and>
    (\<exists>u. subgraph_getVault gr (Some a) = Inr u \<and> (status u = Open \<longleftrightarrow> current_vault st (map lower_char a) \<noteq> None)) \<and>
    subgraph_getNumberOfVaults gr = Inr (int (card {a. \<exists>u. i_users st a = Some u \<and> u_currentVault u \<noteq> None})) \<and>
    subgraph_getTotalRedistributed gr =
      Inr (Vault (decimalify (g_rawTotalColl (getGlobal st))) (decimalify (g_rawTotalDebt (getGlobal st))))"
proof -
  let ?a = "map lower_char a" and ?v = "current_vault st (map lower_char a)"
  have q: "gq_global gr = Inr (global_answer_of shown st)" "gq_currentVault gr ?a = Inr (map_option raw_fields_of ?v)"
    using assms(2) by (simp_all add: serves_def)
  let ?read = "case ?v of
      None \<Rightarrow> empty_pending ?a NonExistent
    | Some v \<Rightarrow> pending_vault owner Open (decimalify (v_rawColl v)) (decimalify (v_rawDebt v)) (decimalify (v_rawStake v))
        (Vault (decimalify (v_rawSnapshotColl v)) (decimalify (v_rawSnapshotDebt v)))"
  have before: "subgraph_getVaultBeforeRedistribution gr (Some a) = Inr ?read"
    using assms(3) current_vault_open [OF assms(1), of ?a]
    by (cases ?v) (simp_all add: subgraph_getVaultBeforeRedistribution_def normalizeAddress_def query_get_def q map_currentVault_def
        vaultFromRawFields_def raw_fields_of_def status_named_def)
  have total: "subgraph_getTotalRedistributed gr =
      Inr (Vault (decimalify (g_rawTotalColl (getGlobal st))) (decimalify (g_rawTotalDebt (getGlobal st))))"
    by (auto simp: subgraph_getTotalRedistributed_def query_get_def q map_totalRedistributed_def global_answer_of_def
        getGlobal_def new_global_def emptyVault_def decimalify_def ZERO_def split: option.splits)
  have number: "subgraph_getNumberOfVaults gr = Inr (g_openVaults (getGlobal st))"
    by (auto simp: subgraph_getNumberOfVaults_def query_get_def q map_numberOfVaults_def global_answer_of_def
        getGlobal_def new_global_def split: option.splits)
  obtain u where "applyRedistribution ?read (Vault (decimalify (g_rawTotalColl (getGlobal st)))
      (decimalify (g_rawTotalDebt (getGlobal st)))) = Inr u" "status u = status ?read"
    using applyRedistribution_total [of ?read "Vault (decimalify (g_rawTotalColl (getGlobal st)))
      (decimalify (g_rawTotalDebt (getGlobal st)))"] by blast
  moreover have "status ?read = Open \<longleftrightarrow> ?v \<noteq> None" by (simp add: pending_vault_def empty_pending_def split: option.split)
  ultimately have "\<exists>u. subgraph_getVault gr (Some a) = Inr u \<and> (status u = Open \<longleftrightarrow> ?v \<noteq> None)"
    by (simp add: subgraph_getVault_def before total)
  with number show ?thesis using before total open_vaults_counted [OF assms(1)] by simp
qed

text \<open>A server of the sample run, without the texts of numbers; the address is asked for with its checksum.\<close>

definition graph_of :: "(rat \<Rightarrow> string) \<Rightarrow> (string \<Rightarrow> string result) \<Rightarrow> indexed \<Rightarrow> graph" where
  "graph_of shown addr st = \<lparr>gq_global = Inr (global_answer_of shown st),
     gq_currentVault = (\<lambda>a. Inr (map_option raw_fields_of (current_vault st a))), gq_vaults = (\<lambda>_ _ _. Inr []),
     gq_block = (\<lambda>_ _. Inr ()), gq_getAddress = addr\<rparr>"

lemma client_reads_index_witness:
  "\<exists>st v. index_events (\<lambda>x. x) opening_run nothing_indexed = Inr st \<and>
     subgraph_getVaultBeforeRedistribution (graph_of (\<lambda>_. ''0'') Inr st) (Some ''0X1'') = Inr v \<and>
     ownerAddress v = ''0x1'' \<and> status v = Open \<and> bigNumber (collateral v) = 2 * SCALING_FACTOR"
proof -
  have run: "case index_events (\<lambda>x. x) opening_run nothing_indexed of
      Inl _ \<Rightarrow> False | Inr st \<Rightarrow> map_option v_rawColl (current_vault st ''0x1'') = Some (2 * SCALING_FACTOR)"
    by (simp add: current_vault_def index_events_def opening_run_def sample_event_def monad_defs store_defs entity_defs)
  then obtain st where st: "index_events (\<lambda>x. x) opening_run nothing_indexed = Inr st"
      "map_option v_rawColl (current_vault st ''0x1'') = Some (2 * SCALING_FACTOR)"
    by (auto split: sum.splits)
  have i: "indexes (\<lambda>x. x) st" by (rule index_events_indexes [OF st(1) Indexes_start])
  have low: "map lower_char ''0X1'' = ''0x1''" by code_simp
  have "serves (\<lambda>_. ''0'') st (graph_of (\<lambda>_. ''0'') Inr st)" by (simp add: serves_def graph_of_def)
  from client_reads_index [OF i this, of "''0X1''" "''0x1''"] st low show ?thesis
    by (auto simp: graph_of_def pending_vault_def decimalify_def)
qed

section \<open>Departures from the interface\<close>

text \<open>
  The order of the sort key is the reverse of that of the collateral ratio for vaults whose collateral is in proportion to their stake, yet
  \<open>getVaults\<close> asks for ascending keys to list ascending ratios.
\<close>

lemma ascending_keys_descend_in_ratio:
  assumes "sort_key d1 s1 x = Some k1" "sort_key d2 s2 x = Some k2" "k1 < k2"
    and "c1 * s2 = c2 * s1" "0 < c2"
  shows "c2 * d1 < c1 * d2"
proof -
  have s: "0 < s1" "0 < s2" "d1 * SCALING_FACTOR div s1 < d2 * SCALING_FACTOR div s2"
    using assms(1-3) by (auto simp: sort_key_def split: if_splits)
  have "d1 * SCALING_FACTOR * s2 < d2 * SCALING_FACTOR * s1"
  proof (rule ccontr)
    assume "\<not> d1 * SCALING_FACTOR * s2 < d2 * SCALING_FACTOR * s1"
    then have "d2 * SCALING_FACTOR * s1 div (s1 * s2) \<le> d1 * SCALING_FACTOR * s2 div (s1 * s2)" by (intro div_le_mono) (simp only: not_less)
    with s show False by (simp add: mult.commute [of s1 s2])
  qed
  then have "(d1 * s2) * SCALING_FACTOR < (d2 * s1) * SCALING_FACTOR" by (simp only: ac_simps)
  then have "d1 * s2 < d2 * s1" unfolding mult_less_cancel2 by (elim conjE)
  then have "c2 * (d1 * s2) < c2 * (d2 * s1)" using assms(5) by simp
  also have "c2 * (d2 * s1) = c1 * s2 * d2" using assms(4) by (simp add: ac_simps)
  finally have "c2 * d1 * s2 < c1 * d2 * s2" by (simp add: ac_simps)
  with s(2) show ?thesis by simp
qed

text \<open>The total is made of texts as soon as there is a system state: every computation with it throws.\<close>

lemma total_cannot_be_used:
  "serves shown st gr \<Longrightarrow> Option.bind (i_global st) (\<lambda>g. Option.bind (g_currentState g) (i_states st)) \<noteq> None \<Longrightarrow>
    bindE (subgraph_getTotal gr) (\<lambda>v. total_collateralRatio v p) = Inl TypeError"
  by (auto simp: serves_def subgraph_getTotal_def query_get_def map_total_def system_state_of_def global_answer_of_def
      total_collateralRatio_def bind_eq_Some_conv split: option.splits)

section \<open>Waiting for a block\<close>

lemma waitForBlock_first:
  assumes "attempt m = Inr ()" "n \<le> m" "\<forall>j. n \<le> j \<and> j < m \<longrightarrow> (\<exists>e. attempt j = Inl e)"
  shows "waitForBlock_loop attempt n = Some m"
  using assms(2,3)
proof (induction "m - n" arbitrary: n)
  case 0
  then show ?case using assms(1) by (subst waitForBlock_loop.simps) simp
next
  case (Suc d)
  then obtain e where e: "attempt n = Inl e" by (metis le_refl zero_less_Suc zero_less_diff)
  have "waitForBlock_loop attempt (Suc n) = Some m"
    using Suc by (intro Suc.hyps(1)) auto
  with e show ?case by (subst waitForBlock_loop.simps) simp
qed

lemma waitForBlock_result:
  assumes "waitForBlock_loop attempt n = Some m"
  shows "n \<le> m \<and> attempt m = Inr ()"
proof (rule waitForBlock_loop.raw_induct [where P = "\<lambda>attempt n m. n \<le> m \<and> attempt m = Inr ()", OF _ assms])
  fix f attempt n m
  assume "\<And>attempt n m. f attempt n = Some m \<Longrightarrow> n \<le> m \<and> attempt m = Inr ()"
    and "(case attempt n of Inl _ \<Rightarrow> f attempt (Suc n) | Inr _ \<Rightarrow> Some n) = Some m"
  then show "n \<le> m \<and> attempt m = Inr ()" by (cases "attempt n") (auto dest: Suc_leD)
qed

text \<open>Waiting returns exactly when some query succeeds, and after the first that does.\<close>

lemma waitForBlock_returns:
  "waitForBlock gr b = (if \<exists>n. gq_block gr b n = Inr () then Some (LEAST n. gq_block gr b n = Inr ()) else None)"
proof (cases "\<exists>n. gq_block gr b n = Inr ()")
  case True
  let ?m = "LEAST n. gq_block gr b n = Inr ()"
  have "gq_block gr b ?m = Inr ()" using True by (rule LeastI_ex)
  moreover have "\<exists>e. gq_block gr b j = Inl e" if "j < ?m" for j
    using not_less_Least [OF that] by (cases "gq_block gr b j") auto
  ultimately show ?thesis using True by (simp add: waitForBlock_def waitForBlock_first)
next
  case False
  then show ?thesis using waitForBlock_result [of "gq_block gr b" 0] by (cases "waitForBlock gr b") (auto simp: waitForBlock_def)
qed

end
