(* ===== verification/Log_Texts.thy ===== *)
theory Log_Texts
  imports Store_Updates
begin

text \<open>
  The texts of a transaction's logs (\<open>packages/lib-ethers/src/parseLogs.ts\<close>). The interface of a contract, which parses a log, and the
  text of an argument that is neither a number nor a text are parameters. A lookup object is the map of its own properties.
\<close>

section \<open>Logs and contracts\<close>

datatype log_arg = NumberArg int | TextArg string | OtherArg string

text \<open>\<open>Object.entries\<close> of the arguments: those with a name appear under their index too.\<close>

record log_description =
  ld_name :: string
  ld_args :: "(string \<times> log_arg) list"

record tx_log =
  lg_address :: string
  lg_content :: string

record logging_contract =
  lc_address :: string
  lc_parseLog :: "tx_log \<Rightarrow> log_description result"

type_synonym contract_lookup = "(string \<times> logging_contract) list"

text \<open>\<open>Object.fromEntries\<close>: of two contracts with one address the later counts.\<close>

definition interfaceLookupFrom :: "contract_lookup \<Rightarrow> string \<rightharpoonup> (tx_log \<Rightarrow> log_description result)" where
  "interfaceLookupFrom contracts = fromEntries (map (\<lambda>(_, c). (lc_address c, lc_parseLog c)) contracts)"

definition nameLookupFrom :: "contract_lookup \<Rightarrow> string \<rightharpoonup> string" where
  "nameLookupFrom contracts = fromEntries (map (\<lambda>(name, c). (lc_address c, name)) contracts)"

section \<open>Parsing\<close>

definition tryToParseLog ::
  "(string \<rightharpoonup> (tx_log \<Rightarrow> log_description result)) \<Rightarrow> tx_log \<Rightarrow> (string \<times> log_description) option" where
  "tryToParseLog lookup l =
     (case lookup (lg_address l) of
        None \<Rightarrow> None
      | Some parse \<Rightarrow> (case parse l of Inl _ \<Rightarrow> None | Inr d \<Rightarrow> Some (lg_address l, d)))"

definition parseLogs ::
  "(string \<rightharpoonup> (tx_log \<Rightarrow> log_description result)) \<Rightarrow> tx_log list \<Rightarrow> (string \<times> log_description) list \<times> tx_log list" where
  "parseLogs lookup logs =
     foldl (\<lambda>(parsed, unparsed) l.
       case tryToParseLog lookup l of Some p \<Rightarrow> (parsed @ [p], unparsed) | None \<Rightarrow> (parsed, unparsed @ [l]))
     ([], []) logs"

section \<open>Texts\<close>

definition VERY_BIG :: int where
  "VERY_BIG = 10 ^ 9"

definition zero_address :: string where
  "zero_address = ''0x'' @ zeros 40"

definition prettify_arg :: "(string \<rightharpoonup> string) \<Rightarrow> log_arg \<Rightarrow> string result" where
  "prettify_arg names arg =
     (case arg of
        NumberArg n \<Rightarrow>
          if VERY_BIG \<le> n then bindE (new_Decimal n) (\<lambda>d. bindE (toString d None) (\<lambda>t. Inr (t @ ''e18''))) else Inr (int_to_string n)
      | TextArg s \<Rightarrow>
          Inr (if s = zero_address then ''address(0)'' else case names s of Some x \<Rightarrow> x | None \<Rightarrow> s)
      | OtherArg s \<Rightarrow> Inr s)"

definition starts_with_digit :: "string \<Rightarrow> bool" where
  "starts_with_digit key = (case key of [] \<Rightarrow> False | c # _ \<Rightarrow> is_digit c)"

definition logDescriptionToString :: "(string \<rightharpoonup> string) \<Rightarrow> log_description \<Rightarrow> string result" where
  "logDescriptionToString names d =
     bindE (mapE (\<lambda>(key, v). bindE (prettify_arg names v) (\<lambda>t. Inr (key @ '': '' @ t)))
       (filter (\<lambda>(key, _). \<not> starts_with_digit key) (ld_args d))) (\<lambda>entries.
       Inr (ld_name d @ ''({ '' @ join '', '' entries @ '' })''))"

text \<open>The address of a parsed log is that of a contract, so its name is known.\<close>

definition log_names :: "string \<Rightarrow> contract_lookup \<Rightarrow> string \<rightharpoonup> string" where
  "log_names from contracts = [from \<mapsto> ''user''] ++ nameLookupFrom contracts"

definition logsToString :: "string \<Rightarrow> string \<Rightarrow> tx_log list \<Rightarrow> contract_lookup \<Rightarrow> string result" where
  "logsToString from transactionHash logs contracts =
     (let (parsed, _) = parseLogs (interfaceLookupFrom contracts) logs in
      if parsed = [] then Inr (''No logs were parsed in tx '' @ transactionHash)
      else bindE (mapE (\<lambda>(a, d). bindE (logDescriptionToString (log_names from contracts) d) (\<lambda>t.
             Inr (''  '' @ (case nameLookupFrom contracts a of Some x \<Rightarrow> x | None \<Rightarrow> ''undefined'') @ ''.'' @ t))) parsed) (\<lambda>lines.
             Inr (''Logs of tx '' @ transactionHash @ '':'' @ newline @ join newline lines)))"

section \<open>What is written\<close>

lemma parseLogs_split:
  "parseLogs lookup logs = (List.map_filter (tryToParseLog lookup) logs, filter (\<lambda>l. tryToParseLog lookup l = None) logs)"
proof -
  have "foldl (\<lambda>(parsed, unparsed) l.
       case tryToParseLog lookup l of Some p \<Rightarrow> (parsed @ [p], unparsed) | None \<Rightarrow> (parsed, unparsed @ [l])) (ps, us) logs =
     (ps @ List.map_filter (tryToParseLog lookup) logs, us @ filter (\<lambda>l. tryToParseLog lookup l = None) logs)" for ps us
    by (induction logs arbitrary: ps us) (auto simp: List.map_filter_simps split: option.splits)
  then show ?thesis by (simp add: parseLogs_def)
qed

lemma same_keys: "dom (interfaceLookupFrom contracts) = dom (nameLookupFrom contracts)"
  by (simp add: interfaceLookupFrom_def nameLookupFrom_def fromEntries_def dom_map_of_conv_image_fst case_prod_beta image_image)

lemma parsed_logs_named:
  assumes "(a, d) \<in> set (fst (parseLogs (interfaceLookupFrom contracts) logs))"
  shows "nameLookupFrom contracts a \<noteq> None"
proof -
  have "a \<in> dom (interfaceLookupFrom contracts)"
    using assms by (auto simp: parseLogs_split List.map_filter_def tryToParseLog_def split: option.splits sum.splits)
  then show ?thesis by (auto simp: same_keys)
qed

lemma prettify_total: "\<exists>t. prettify_arg names arg = Inr t"
  using toString_None by (auto simp: prettify_arg_def VERY_BIG_def new_Decimal_def bindE_eq_Inr_iff split: log_arg.splits)

lemma mapE_total: "(\<And>x. \<exists>y. f x = Inr y) \<Longrightarrow> \<exists>ys. mapE f xs = Inr ys \<and> length ys = length xs"
proof (induction xs)
  case (Cons x xs)
  then show ?case by (metis bindE.simps(2) length_Cons mapE.simps(2))
qed simp

text \<open>Writing the logs of a transaction never throws, whatever the interfaces make of them.\<close>

lemma logsToString_total: "\<exists>t. logsToString from hash logs contracts = Inr t"
proof -
  have entry: "\<exists>t. (case e of (key, v) \<Rightarrow> bindE (prettify_arg names v) (\<lambda>t. Inr (key @ '': '' @ t))) = Inr t" for names e
    using prettify_total by (cases e) (metis bindE.simps(2) case_prod_conv)
  have description: "\<exists>t. logDescriptionToString names d = Inr t" for names d
    unfolding logDescriptionToString_def
    using mapE_total [of "\<lambda>(key, v). bindE (prettify_arg names v) (\<lambda>t. Inr (key @ '': '' @ t))", OF entry] by (metis bindE.simps(2))
  define line where "line = (\<lambda>(a, d). bindE (logDescriptionToString (log_names from contracts) d) (\<lambda>t.
      Inr (''  '' @ (case nameLookupFrom contracts a of Some x \<Rightarrow> x | None \<Rightarrow> ''undefined'') @ ''.'' @ t)))"
  have "\<exists>t. line x = Inr t" for x
    using description by (cases x) (metis bindE.simps(2) case_prod_conv line_def)
  from mapE_total [of line, OF this] have "\<exists>ls. mapE line xs = Inr ls" for xs by blast
  then show ?thesis
    unfolding logsToString_def Let_def line_def [symmetric]
    by (cases "parseLogs (interfaceLookupFrom contracts) logs") (auto simp: bindE_eq_Inr_iff)
qed

text \<open>A log of a transfer from the sender; the second log is from an unknown address.\<close>

lemma logsToString_example:
  "logsToString ''0xa'' ''0xff''
     [\<lparr>lg_address = ''0xb'', lg_content = []\<rparr>, \<lparr>lg_address = ''0xc'', lg_content = []\<rparr>]
     [(''bpdToken'', \<lparr>lc_address = ''0xb'', lc_parseLog = (\<lambda>_. Inr \<lparr>ld_name = ''Transfer'',
        ld_args = [(''0'', TextArg ''0xa''), (''from'', TextArg ''0xa''), (''value'', NumberArg 7)]\<rparr>)\<rparr>)] =
   Inr (''Logs of tx 0xff:'' @ newline @ ''  bpdToken.Transfer({ from: user, value: 7 })'')"
proof -
  have "int_to_string 7 = ''7''" "zero_address \<noteq> ''0xa''" by code_simp+
  then show ?thesis
    by (simp add: logsToString_def parseLogs_def tryToParseLog_def interfaceLookupFrom_def nameLookupFrom_def fromEntries_def
        logDescriptionToString_def prettify_arg_def log_names_def VERY_BIG_def starts_with_digit_def is_digit_def newline_def)
qed

end
