(* ===== verification/Fuzzer.thy ===== *)
theory Fuzzer
  imports Vault_Changes Differences
begin

text \<open>
  The statistics and checks of the fuzzer (\<open>packages/fuzzer/src/GasHistogram.ts\<close> and \<open>utils.ts\<close>). Transactions and the protocol are
  parameters. The code imports the vaults and the error of a failed transaction by the names they had before the library renamed them; here they have
  their present names.
\<close>

section \<open>Gas of transactions\<close>

definition intervalWidth :: nat where
  "intervalWidth = 10000"

definition numberOfBins :: nat where
  "numberOfBins = 800"

text \<open>A transaction that was sent and mined: whether it succeeded, the gas used and its limit.\<close>

record mined_tx =
  mt_succeeded :: bool
  mt_gasUsed :: nat
  mt_gasLimit :: nat

text \<open>
  \<open>retryUpTo\<close>: \<open>attempt n\<close> is what sending and waiting give at the attempt with number \<open>n\<close>. The loop ends when the retries reach their
  bound, which is the measure.
\<close>

function retryUpTo_from :: "nat \<Rightarrow> (nat \<Rightarrow> mined_tx result) \<Rightarrow> nat \<Rightarrow> (nat \<times> mined_tx) result" where
  "retryUpTo_from bound attempt retries =
     bindE (attempt retries) (\<lambda>r.
       if mt_succeeded r \<or> mt_gasUsed r < mt_gasLimit r \<or> bound \<le> retries then Inr (retries, r)
       else retryUpTo_from bound attempt (Suc retries))"
  by pat_completeness auto
termination
  by (relation "measure (\<lambda>(bound, attempt, retries). bound - retries)") auto

declare retryUpTo_from.simps [simp del]

definition retryUpTo :: "nat \<Rightarrow> (nat \<Rightarrow> mined_tx result) \<Rightarrow> (nat \<times> mined_tx) result" where
  "retryUpTo bound attempt = retryUpTo_from bound attempt 0"

record gas_histogram =
  expectedFailures :: nat
  outOfGasFailures :: nat
  gasUsedBins :: "nat list"

definition new_GasHistogram :: gas_histogram where
  "new_GasHistogram = \<lparr>expectedFailures = 0, outOfGasFailures = 0, gasUsedBins = replicate numberOfBins 0\<rparr>"

definition addToGasUsedHisto :: "nat \<Rightarrow> gas_histogram \<Rightarrow> gas_histogram result" where
  "addToGasUsedHisto gasUsed h =
     (let binIndex = gasUsed div intervalWidth in
      assertE (binIndex < length (gasUsedBins h))
        (Inr (h\<lparr>gasUsedBins := (gasUsedBins h)[binIndex := gasUsedBins h ! binIndex + 1]\<rparr>)))"

text \<open>\<open>findIndex\<close> of the first positive number, -1 when there is none; \<open>slice\<close> counts a negative start from the end.\<close>

definition findIndex_positive :: "nat list \<Rightarrow> int" where
  "findIndex_positive xs = (let n = length (takeWhile (\<lambda>x. x = 0) xs) in if n < length xs then int n else -1)"

definition js_slice :: "int \<Rightarrow> int \<Rightarrow> 'a list \<Rightarrow> 'a list" where
  "js_slice start stop xs =
     (let n = int (length xs);
          from = nat (if start < 0 then max 0 (n + start) else min start n);
          upto = nat (if stop < 0 then max 0 (n + stop) else min stop n)
      in drop from (take upto xs))"

definition getResults :: "gas_histogram \<Rightarrow> (int \<times> nat) list" where
  "getResults h =
     (let firstNonZeroIndex = findIndex_positive (gasUsedBins h);
          firstNonZeroIndexFromEnd = findIndex_positive (rev (gasUsedBins h));
          bins = js_slice firstNonZeroIndex (int (length (gasUsedBins h)) - firstNonZeroIndexFromEnd) (gasUsedBins h)
      in map (\<lambda>i. (int intervalWidth * (firstNonZeroIndex + int i), bins ! i)) [0..<length bins])"

text \<open>An operation that may throw after it has counted: the error and the histogram.\<close>

definition expectSuccess :: "(nat \<Rightarrow> mined_tx result) \<Rightarrow> gas_histogram \<Rightarrow> js_error option \<times> gas_histogram" where
  "expectSuccess attempt h =
     (case retryUpTo 1 attempt of
        Inl e \<Rightarrow> (Some e, h)
      | Inr (retries, r) \<Rightarrow>
          (let h = h\<lparr>outOfGasFailures := outOfGasFailures h + retries\<rparr> in
           if \<not> mt_succeeded r then (Some (NamedError ''BitcoinsTransactionFailedError'' ''Transaction failed''), h)
           else (case addToGasUsedHisto (mt_gasUsed r) h of Inl e \<Rightarrow> (Some e, h) | Inr h' \<Rightarrow> (None, h'))))"

definition expectFailure :: "'a result \<Rightarrow> gas_histogram \<Rightarrow> js_error option \<times> gas_histogram" where
  "expectFailure outcome h =
     (case outcome of
        Inl _ \<Rightarrow> (None, h\<lparr>expectedFailures := expectedFailures h + 1\<rparr>)
      | Inr _ \<Rightarrow> (Some (Error ''Unexpected success''), h))"

section \<open>Helpers\<close>

definition objToString :: "(string \<times> string) list \<Rightarrow> string" where
  "objToString entries = ''{ '' @ join '', '' (map (\<lambda>(k, v). k @ '': '' @ v) entries) @ '' }''"

definition shortenAddress :: "string \<Rightarrow> string" where
  "shortenAddress a = take 6 a @ ''...'' @ drop (length a - 4) a"

definition truncateLastDigits :: "nat \<Rightarrow> nat" where
  "truncateLastDigits n =
     (if n > 100000 then 1000 * (n div 1000) else if n > 10000 then 100 * (n div 100)
      else if n > 1000 then 10 * (n div 10) else n)"

definition listDifference :: "string list \<Rightarrow> string list \<Rightarrow> string list" where
  "listDifference listA listB = filter (\<lambda>x. x \<notin> set listB) listA"

section \<open>Checks\<close>

type_synonym owned_vaults = "(string \<times> vault_with_pending_redistribution) list"

definition tinyDifference :: decimal where
  "tinyDifference = Decimal (10 ^ 9)"

text \<open>The loop over the vaults after the first; \<open>current\<close> is the one before.\<close>

fun sorted_after :: "vault \<Rightarrow> decimalish \<Rightarrow> user_vault \<Rightarrow> owned_vaults \<Rightarrow> bool result" where
  "sorted_after tot p current [] = Inr True"
| "sorted_after tot p current ((_, v) # vs) =
     bindE (applyRedistribution v tot) (\<lambda>nxt.
     bindE (collateralRatio nxt p) (\<lambda>rn.
     bindE (collateralRatio current p) (\<lambda>rc.
       if add_dec rc tinyDifference < rn then Inr False else sorted_after tot p nxt vs)))"

definition sortedByICR :: "owned_vaults \<Rightarrow> vault \<Rightarrow> decimalish \<Rightarrow> bool result" where
  "sortedByICR vs tot p =
     (if length vs < 2 then Inr True
      else bindE (applyRedistribution (snd (hd vs)) tot) (\<lambda>current. sorted_after tot p current (tl vs)))"

text \<open>\<open>new Map(listB)\<close>: of two vaults of one owner the later counts. The first mismatch is thrown.\<close>

definition listOfVaultsShouldBeEqual :: "owned_vaults \<Rightarrow> owned_vaults \<Rightarrow> unit result" where
  "listOfVaultsShouldBeEqual listA listB =
     (if length listA \<noteq> length listB then Inl (Error ''length of trove lists is different'')
      else bindE (mapE (\<lambda>(owner, a).
        case map_of (rev listB) owner of
          None \<Rightarrow> Inl (Error (owner @ '' has no trove in listB''))
        | Some b \<Rightarrow> if \<not> pending_vault_equals a b then Inl (Error (owner @ '' has different troves in listA & listB'')) else Inr ()) listA)
        (\<lambda>_. Inr ()))"

text \<open>An \<open>EqualityCheck\<close> on the values that were read.\<close>

definition allEqual :: "string \<Rightarrow> ('a \<Rightarrow> 'a \<Rightarrow> bool) \<Rightarrow> 'a list \<Rightarrow> unit result" where
  "allEqual name eq vs = (if list_all (eq (hd vs)) (tl vs) then Inr () else Inl (Error (''Mismatch in '' @ name)))"

text \<open>The order of the vaults; the lists that are printed before the error are left out.\<close>

definition checkVaultOrdering :: "owned_vaults \<Rightarrow> vault \<Rightarrow> decimalish \<Rightarrow> unit result" where
  "checkVaultOrdering vs tot p =
     bindE (sortedByICR vs tot p) (\<lambda>sorted. if \<not> sorted then Inl (Error ''ordering is broken'') else Inr ())"

text \<open>The balances of the pools against the sums over the vaults. A difference without a value is not tiny.\<close>

definition pool_totals :: "owned_vaults \<Rightarrow> vault \<Rightarrow> (vault \<times> vault) result" where
  "pool_totals vs tot =
     foldl (\<lambda>r (_, active). bindE r (\<lambda>(activeTotal, defaultTotal).
       bindE (applyRedistribution active tot) (\<lambda>whole.
       bindE (subtract whole active) (\<lambda>pending. Inr (vault_add activeTotal active, vault_add defaultTotal pending)))))
     (Inr (emptyVault, emptyVault)) vs"

definition tiny :: "difference \<Rightarrow> bool" where
  "tiny d = (case diff_absoluteValue d of None \<Rightarrow> False | Some x \<Rightarrow> x < tinyDifference)"

definition vaultsRoughlyEqual :: "vault \<Rightarrow> vault \<Rightarrow> bool result" where
  "vaultsRoughlyEqual a b =
     bindE (between_dec (collateral a) (collateral b)) (\<lambda>d. if tiny d then bindE (between_dec (debt a) (debt b)) (\<lambda>e. Inr (tiny e)) else Inr False)"

definition checkPoolBalances :: "vault result \<Rightarrow> vault result \<Rightarrow> owned_vaults \<Rightarrow> vault \<Rightarrow> unit result" where
  "checkPoolBalances readActivePool readDefaultPool vs tot =
     bindE readActivePool (\<lambda>activePool. bindE readDefaultPool (\<lambda>defaultPool.
     bindE (pool_totals vs tot) (\<lambda>(activeTotal, defaultTotal).
     bindE (between_dec (collateral activePool) (collateral activeTotal)) (\<lambda>d1.
     bindE (between_dec (debt activePool) (debt activeTotal)) (\<lambda>d2.
     bindE (between_dec (collateral defaultPool) (collateral defaultTotal)) (\<lambda>d3.
     bindE (between_dec (debt defaultPool) (debt defaultTotal)) (\<lambda>d4.
       if list_all tiny [d1, d2, d3, d4] then Inr () else Inl (Error ''discrepancy between Troves & Pools'')))))))) "

section \<open>What the statistics say\<close>

lemma retryUpTo_returns:
  assumes "\<And>n. n \<le> bound \<Longrightarrow> \<exists>r. attempt n = Inr r"
  obtains n r where "retryUpTo bound attempt = Inr (n, r)" "n \<le> bound" "attempt n = Inr r"
    "mt_succeeded r \<or> mt_gasUsed r < mt_gasLimit r \<or> n = bound"
proof -
  have "\<exists>n r. retryUpTo_from bound attempt k = Inr (n, r) \<and> n \<le> bound \<and> attempt n = Inr r \<and>
      (mt_succeeded r \<or> mt_gasUsed r < mt_gasLimit r \<or> n = bound)" if "k \<le> bound" for k
    using that
  proof (induction "bound - k" arbitrary: k)
    case 0
    then show ?case using assms [of k] by (subst retryUpTo_from.simps) auto
  next
    case (Suc d)
    obtain r where r: "attempt k = Inr r" using assms Suc.prems by blast
    show ?case
    proof (cases "mt_succeeded r \<or> mt_gasUsed r < mt_gasLimit r")
      case True
      then show ?thesis using r Suc.prems by (subst retryUpTo_from.simps) auto
    next
      case False
      then show ?thesis using r Suc by (subst retryUpTo_from.simps) auto
    qed
  qed
  from this [of 0] that show ?thesis by (auto simp: retryUpTo_def)
qed

text \<open>Histograms that arise from expectations.\<close>

datatype expectation = ExpectSuccess "nat \<Rightarrow> mined_tx result" | ExpectFailure "unit result"

fun expect :: "expectation \<Rightarrow> gas_histogram \<Rightarrow> js_error option \<times> gas_histogram" where
  "expect (ExpectSuccess attempt) h = expectSuccess attempt h"
| "expect (ExpectFailure outcome) h = expectFailure outcome h"

definition met :: "expectation \<Rightarrow> bool" where
  "met e \<longleftrightarrow> fst (expect e new_GasHistogram) = None"

definition is_success :: "expectation \<Rightarrow> bool" where
  "is_success e \<longleftrightarrow> (case e of ExpectSuccess _ \<Rightarrow> True | ExpectFailure _ \<Rightarrow> False)"

definition expect_all :: "expectation list \<Rightarrow> gas_histogram \<Rightarrow> gas_histogram" where
  "expect_all es h = fold (\<lambda>e h. snd (expect e h)) es h"

lemma sum_list_zeros: "list_all (\<lambda>x. x = 0) xs \<Longrightarrow> sum_list xs = (0 :: nat)"
  by (induction xs) simp_all

lemma findIndex_none: "findIndex_positive xs = -1 \<longleftrightarrow> list_all (\<lambda>x. x = 0) xs"
proof -
  have "length (takeWhile (\<lambda>x. x = 0) xs) < length xs \<longleftrightarrow> \<not> list_all (\<lambda>x. x = 0) xs" by (induction xs) auto
  then show ?thesis by (simp add: findIndex_positive_def Let_def)
qed

lemma findIndex_some:
  assumes "findIndex_positive xs \<noteq> -1"
  obtains n where "findIndex_positive xs = int n" "n < length xs" "list_all (\<lambda>x. x = 0) (take n xs)" "0 < xs ! n"
proof -
  let ?n = "length (takeWhile (\<lambda>x. x = 0) xs)"
  have n: "?n < length xs" "findIndex_positive xs = int ?n"
    using assms by (auto simp: findIndex_positive_def Let_def split: if_splits)
  have "take ?n xs = takeWhile (\<lambda>x. x = 0) xs" by (metis takeWhile_eq_take)
  then have "list_all (\<lambda>x. x = 0) (take ?n xs)" by (auto simp: list_all_iff dest: set_takeWhileD)
  moreover have "xs ! ?n \<noteq> 0" using n(1) nth_length_takeWhile by blast
  ultimately show ?thesis using that n by simp
qed

text \<open>The results are the bins from the first to the last that is not empty, or one interval below zero when all are.\<close>

lemma getResults_empty:
  assumes "list_all (\<lambda>x. x = 0) (gasUsedBins h)" "gasUsedBins h \<noteq> []"
  shows "getResults h = [(- int intervalWidth, 0)]"
proof -
  have f: "findIndex_positive (gasUsedBins h) = -1" "findIndex_positive (rev (gasUsedBins h)) = -1"
    using assms(1) by (simp_all add: findIndex_none list_all_iff)
  obtain n where n: "length (gasUsedBins h) = Suc n" using assms(2) by (cases "gasUsedBins h") auto
  then have "gasUsedBins h ! n = 0" using assms(1) by (simp add: list_all_length)
  moreover have "js_slice (-1) (int (Suc n) + 1) (gasUsedBins h) = [gasUsedBins h ! n]"
    using n Cons_nth_drop_Suc [of n "gasUsedBins h"] by (simp add: js_slice_def Let_def nat_add_distrib)
  ultimately show ?thesis by (simp add: getResults_def f n)
qed

lemma getResults_full:
  assumes "\<not> list_all (\<lambda>x. x = 0) (gasUsedBins h)"
  obtains n m where "n + m < length (gasUsedBins h)" "0 < gasUsedBins h ! n" "0 < gasUsedBins h ! (length (gasUsedBins h) - Suc m)"
    "getResults h = map (\<lambda>i. (int intervalWidth * int i, gasUsedBins h ! i)) [n..<length (gasUsedBins h) - m]"
    "list_all (\<lambda>x. x = 0) (take n (gasUsedBins h))" "list_all (\<lambda>x. x = 0) (take m (rev (gasUsedBins h)))"
proof -
  let ?xs = "gasUsedBins h"
  have "findIndex_positive ?xs \<noteq> -1" "findIndex_positive (rev ?xs) \<noteq> -1"
    using assms by (simp_all add: findIndex_none list_all_iff)
  then obtain n m where n: "findIndex_positive ?xs = int n" "n < length ?xs" "list_all (\<lambda>x. x = 0) (take n ?xs)" "0 < ?xs ! n"
    and m: "findIndex_positive (rev ?xs) = int m" "m < length ?xs" "list_all (\<lambda>x. x = 0) (take m (rev ?xs))" "0 < rev ?xs ! m"
    by (metis findIndex_some length_rev)
  have last: "0 < ?xs ! (length ?xs - Suc m)" using m(2,4) by (simp add: rev_nth)
  have nm: "n \<le> length ?xs - Suc m"
  proof (rule ccontr)
    assume "\<not> n \<le> length ?xs - Suc m"
    then have "?xs ! (length ?xs - Suc m) = 0" using n(2,3) m(2) by (auto simp: list_all_length)
    with last show False by simp
  qed
  have "getResults h = map (\<lambda>i. (int intervalWidth * int i, ?xs ! i)) [n..<length ?xs - m]"
  proof -
    have "js_slice (int n) (int (length ?xs) - int m) ?xs = drop n (take (length ?xs - m) ?xs)"
      using n(2) m(2) by (simp add: js_slice_def Let_def min_def nat_diff_distrib)
    moreover have "min (length ?xs) (length ?xs - m) = length ?xs - m" by simp
    ultimately show ?thesis
      by (intro nth_equalityI) (simp_all add: getResults_def n(1) m(1) Let_def add.commute del: min.bounded_iff)
  qed
  moreover have "n + m < length ?xs" using nm m(2) by linarith
  ultimately show ?thesis using that n(3,4) m(3) last by blast
qed

lemma getResults_sum: "gasUsedBins h \<noteq> [] \<Longrightarrow> sum_list (map snd (getResults h)) = sum_list (gasUsedBins h)"
proof (cases "list_all (\<lambda>x. x = 0) (gasUsedBins h)")
  case True
  then show "gasUsedBins h \<noteq> [] \<Longrightarrow> ?thesis" by (simp add: getResults_empty sum_list_zeros)
next
  case False
  let ?xs = "gasUsedBins h"
  obtain n m where nm: "n + m < length ?xs"
    "getResults h = map (\<lambda>i. (int intervalWidth * int i, ?xs ! i)) [n..<length ?xs - m]"
    "list_all (\<lambda>x. x = 0) (take n ?xs)" "list_all (\<lambda>x. x = 0) (take m (rev ?xs))"
    using getResults_full [OF False] by metis
  have "sum_list (map snd (getResults h)) = sum_list (map ((!) ?xs) [n..<length ?xs - m])"
    by (simp add: nm(2) comp_def)
  also have "map ((!) ?xs) [n..<length ?xs - m] = take (length ?xs - m - n) (drop n ?xs)"
    using nm(1) by (intro nth_equalityI) simp_all
  also have "sum_list \<dots> = sum_list ?xs"
  proof -
    have "?xs = take n ?xs @ take (length ?xs - m - n) (drop n ?xs) @ drop (length ?xs - m) ?xs"
      using nm(1) by (metis append_take_drop_id drop_drop le_add_diff_inverse2 less_diff_conv less_imp_le_nat)
    moreover have "rev (drop (length ?xs - m) ?xs) = take m (rev ?xs)" using nm(1) by (simp add: take_rev)
    then have "list_all (\<lambda>x. x = 0) (drop (length ?xs - m) ?xs)" using nm(4) by (metis list_all_rev)
    ultimately show ?thesis using sum_list_zeros nm(3) by (metis add.right_neutral add_0 sum_list_append)
  qed
  finally show ?thesis .
qed

text \<open>What an expectation that is met counts.\<close>

lemma expect_success:
  assumes "length (gasUsedBins h) = numberOfBins"
  shows "fst (expectSuccess attempt h) = fst (expectSuccess attempt new_GasHistogram)"
    "length (gasUsedBins (snd (expectSuccess attempt h))) = numberOfBins"
    "sum_list (gasUsedBins (snd (expectSuccess attempt h))) =
       sum_list (gasUsedBins h) + (if fst (expectSuccess attempt h) = None then 1 else 0)"
    "expectedFailures (snd (expectSuccess attempt h)) = expectedFailures h"
  using assms
  by (auto simp: expectSuccess_def addToGasUsedHisto_def assertE_def new_GasHistogram_def Let_def sum_list_update
      split: sum.splits prod.splits)

text \<open>
  The histogram of the gas used counts the transactions that were expected to succeed and did, each once in the intervals it reports, and the
  expected failures count those that were expected to fail and did.
\<close>

lemma histogram_counts:
  "let h = expect_all es new_GasHistogram in
     sum_list (map snd (getResults h)) = length (filter (\<lambda>e. is_success e \<and> met e) es) \<and>
     expectedFailures h = length (filter (\<lambda>e. \<not> is_success e \<and> met e) es)"
proof -
  have inv: "length (gasUsedBins (expect_all es h)) = numberOfBins \<and>
      sum_list (gasUsedBins (expect_all es h)) = sum_list (gasUsedBins h) + length (filter (\<lambda>e. is_success e \<and> met e) es) \<and>
      expectedFailures (expect_all es h) = expectedFailures h + length (filter (\<lambda>e. \<not> is_success e \<and> met e) es)"
    if "length (gasUsedBins h) = numberOfBins" for h
    using that
  proof (induction es arbitrary: h)
    case (Cons e es)
    show ?case
    proof (cases e)
      case (ExpectSuccess attempt)
      from expect_success [OF Cons.prems, of attempt] Cons.IH [of "snd (expectSuccess attempt h)"] ExpectSuccess show ?thesis
        by (auto simp: expect_all_def is_success_def met_def)
    next
      case (ExpectFailure outcome)
      have "gasUsedBins (snd (expectFailure outcome h)) = gasUsedBins h"
        by (simp add: expectFailure_def split: sum.split)
      with Cons.IH [of "snd (expectFailure outcome h)"] Cons.prems ExpectFailure show ?thesis
        by (auto simp: expect_all_def is_success_def met_def expectFailure_def split: sum.splits)
    qed
  qed (simp add: expect_all_def)
  have new: "length (gasUsedBins new_GasHistogram) = numberOfBins" "sum_list (gasUsedBins new_GasHistogram) = 0"
    "expectedFailures new_GasHistogram = 0"
    by (simp_all add: new_GasHistogram_def sum_list_replicate)
  have "gasUsedBins (expect_all es new_GasHistogram) \<noteq> []" using inv [OF new(1)] by (auto simp: numberOfBins_def)
  from inv [OF new(1)] new(2,3) getResults_sum [OF this] show ?thesis by (simp add: Let_def)
qed

section \<open>What the checks accept\<close>

definition ratio_after :: "vault \<Rightarrow> decimal \<Rightarrow> vault_with_pending_redistribution \<Rightarrow> decimal" where
  "ratio_after tot p v = (case applyRedistribution v tot of Inr u \<Rightarrow> mulDiv_dec (collateral u) p (debt u) | Inl _ \<Rightarrow> ZERO)"

text \<open>The order is accepted exactly when no ratio exceeds the one before it by more than the tiny difference.\<close>

lemma sortedByICR_iff:
  "sortedByICR vs tot (DDecimal p) =
     Inr (successively (\<lambda>v w. ratio_after tot p w \<le> add_dec (ratio_after tot p v) tinyDifference) (map snd vs))"
proof -
  have apply_ok: "\<exists>u. applyRedistribution v tot = Inr u \<and> collateralRatio u (DDecimal p) = Inr (ratio_after tot p v)" for v
    using applyRedistribution_total [of v tot] by (auto simp: ratio_after_def collateralRatio_def mulDiv_d_def)
  have rest: "sorted_after tot (DDecimal p) u vs =
      Inr (successively (\<lambda>v w. ratio_after tot p w \<le> add_dec (ratio_after tot p v) tinyDifference) (v # map snd vs))"
    if "applyRedistribution v tot = Inr u" "collateralRatio u (DDecimal p) = Inr (ratio_after tot p v)" for u v vs
    using that
  proof (induction vs arbitrary: u v)
    case (Cons x vs)
    obtain w where w: "applyRedistribution (snd x) tot = Inr w" "collateralRatio w (DDecimal p) = Inr (ratio_after tot p (snd x))"
      using apply_ok by blast
    from Cons.IH [OF w] Cons.prems w show ?case by (cases x) (auto simp: not_less)
  qed simp
  show ?thesis
  proof (cases vs)
    case (Cons x xs)
    obtain u where "applyRedistribution (snd x) tot = Inr u" "collateralRatio u (DDecimal p) = Inr (ratio_after tot p (snd x))"
      using apply_ok by blast
    from rest [OF this, of xs] this Cons show ?thesis by (cases xs) (simp_all add: sortedByICR_def)
  qed (simp add: sortedByICR_def)
qed

lemma listOfVaultsShouldBeEqual_iff:
  "listOfVaultsShouldBeEqual listA listB = Inr () \<longleftrightarrow>
     length listA = length listB \<and> (\<forall>(owner, a) \<in> set listA. \<exists>b. map_of (rev listB) owner = Some b \<and> pending_vault_equals a b)"
proof -
  have "(\<exists>ys. mapE f xs = Inr ys) \<longleftrightarrow> (\<forall>x \<in> set xs. \<exists>y. f x = Inr y)" for f :: "'a \<Rightarrow> 'b result" and xs
    by (induction xs) (auto simp: bindE_eq_Inr_iff)
  note each = this
  show ?thesis
    unfolding listOfVaultsShouldBeEqual_def bindE_eq_Inr_iff
    by (auto simp: bindE_eq_Inr_iff each split: option.splits if_splits)
qed

lemma truncateLastDigits_close: "truncateLastDigits n \<le> n \<and> n \<le> truncateLastDigits n + n div 100"
proof -
  have cut: "k * (n div k) \<le> n \<and> n \<le> k * (n div k) + n div 100" if "0 < k" "100 * k \<le> n" for k
  proof -
    have "n div 100 \<ge> k" using div_le_mono [OF that(2), of 100] by simp
    moreover have "n mod k < k" using that(1) by simp
    moreover have "k * (n div k) + n mod k = n" by simp
    ultimately show ?thesis by linarith
  qed
  from cut [of 1000] cut [of 100] cut [of 10] show ?thesis by (simp add: truncateLastDigits_def)
qed

lemma tiny_iff:
  assumes "a \<noteq> INFINITY" "b \<noteq> INFINITY"
  obtains d where "between_dec a b = Inr d" "tiny d \<longleftrightarrow> \<bar>int (bigNumber a) - int (bigNumber b)\<bar> < 10 ^ 9"
proof -
  have "\<exists>d. between_dec a b = Inr d \<and> (tiny d \<longleftrightarrow> \<bar>int (bigNumber a) - int (bigNumber b)\<bar> < 10 ^ 9)"
    using assms
    by (auto simp: between_dec_def sub_dec_def new_Decimal_def tiny_def diff_absoluteValue_def tinyDifference_def less_decimal_def
        ZERO_def decimal.expand)
  with that show thesis by blast
qed

end
