(* ===== verification/Library_Deployment.thy ===== *)
theory Library_Deployment
  imports Wiring Decimals
begin

text \<open>
  The deployment of the contracts for the library (\<open>packages/lib-ethers/utils/deploy.ts\<close>), the tables of \<open>src/contracts.ts\<close> it uses, and the
  task that runs it (\<open>hardhat.config.ts\<close>). It deploys sixteen contracts and connects them by transactions with consecutive nonces; the
  connection is that of the tests and of the main network but for the oracles.
\<close>

section \<open>Deploying\<close>

text \<open>Overrides of a transaction are the properties of an object. What is logged is left out.\<close>

type_synonym overrides = "(string \<times> js) list"

definition lib_deployContract :: "'c env \<Rightarrow> overrides \<Rightarrow> string \<Rightarrow> js list \<Rightarrow> ('c, string) io" where
  "lib_deployContract env ov contractName args =
     bindM (getFactory env contractName) (\<lambda>_.
     bindM (deployM env contractName (args @ [Obj ov])) (\<lambda>c.
     bindM (serviceM env ''wait'' [tx_hash env c]) (\<lambda>_. retM (address c))))"

definition library_steps :: "bool \<Rightarrow> (string \<times> string) list" where
  "library_steps priceFeedIsTestnet =
    [(''activePool'', ''ActivePool''), (''borrowerOperations'', ''BorrowerOperations''), (''vaultManager'', ''VaultManager''),
     (''collSurplusPool'', ''CollSurplusPool''), (''communityIssuance'', ''CommunityIssuance''), (''defaultPool'', ''DefaultPool''),
     (''hintHelpers'', ''HintHelpers''), (''lockupContractFactory'', ''LockupContractFactory''), (''mpStaking'', ''MPStaking''),
     (''priceFeed'', if priceFeedIsTestnet then ''PriceFeedTestnet'' else ''PriceFeed''), (''sortedVaults'', ''SortedVaults''),
     (''stabilityPool'', ''StabilityPool''), (''gasPool'', ''GasPool'')]"

definition address_list :: "(string \<times> string) list \<Rightarrow> string list \<Rightarrow> js list" where
  "address_list addrs ks = map (\<lambda>k. case lookup addrs k of None \<Rightarrow> Undefined | Some a \<Rightarrow> Str a) ks"

definition bounty_address :: js where
  "bounty_address = Str ''0x47a7dD4682B72fE4Ac47A090E92c120C120cA45E''"

definition multisig_address :: js where
  "multisig_address = Str ''0xBB6a102a81b130660e32681465bd2CD189F3899F''"

definition lib_deployContracts :: "'c env \<Rightarrow> bool \<Rightarrow> overrides \<Rightarrow> ('c, (string \<times> string) list) io" where
  "lib_deployContracts env priceFeedIsTestnet ov =
     bindM (mapM (\<lambda>(k, a). bindM (lib_deployContract env ov a []) (\<lambda>x. retM (k, x))) (library_steps priceFeedIsTestnet)) (\<lambda>addresses.
     bindM (lib_deployContract env ov ''BPDToken''
        (address_list addresses [''vaultManager'', ''stabilityPool'', ''borrowerOperations''])) (\<lambda>bpdToken.
     bindM (lib_deployContract env ov ''MPToken''
        (address_list addresses [''communityIssuance'', ''mpStaking'', ''lockupContractFactory''] @
         [bounty_address, bounty_address, multisig_address])) (\<lambda>mpToken.
     bindM (lib_deployContract env ov ''MultiVaultGetter'' (address_list addresses [''vaultManager'', ''sortedVaults''])) (\<lambda>multiVaultGetter.
       retM (addresses @ [(''bpdToken'', bpdToken), (''mpToken'', mpToken), (''multiVaultGetter'', multiVaultGetter)])))))"

text \<open>
  The contracts at the addresses. The table of interfaces gives every contract that of its artifact; it also has entries for two
  contracts that are not deployed.
\<close>

definition getAbi :: "bool \<Rightarrow> string \<Rightarrow> string" where
  "getAbi priceFeedIsTestnet key =
     (case lookup (library_steps priceFeedIsTestnet @
        [(''bpdToken'', ''BPDToken''), (''mpToken'', ''MPToken''), (''multiVaultGetter'', ''MultiVaultGetter'')]) key of
        None \<Rightarrow> [] | Some a \<Rightarrow> a)"

definition connectToContracts :: "bool \<Rightarrow> (string \<times> string) list \<Rightarrow> contracts" where
  "connectToContracts priceFeedIsTestnet addrs =
     map (\<lambda>(key, a). (key, \<lparr>artifact = getAbi priceFeedIsTestnet key, address = a\<rparr>)) addrs"

section \<open>Connecting\<close>

definition lib_connections :: "contracts \<Rightarrow> (string \<times> string \<times> js list result) list" where
  "lib_connections cs =
    [(''sortedVaults'', ''setParams'', append_results (Inr [Num 1000000]) (addresses cs [''vaultManager'', ''borrowerOperations''])),
     (''vaultManager'', ''setAddresses'', addresses cs
        [''borrowerOperations'', ''activePool'', ''defaultPool'', ''stabilityPool'', ''gasPool'', ''collSurplusPool'', ''priceFeed'',
         ''bpdToken'', ''sortedVaults'', ''mpToken'', ''mpStaking'']),
     (''borrowerOperations'', ''setAddresses'', addresses cs
        [''vaultManager'', ''activePool'', ''defaultPool'', ''stabilityPool'', ''gasPool'', ''collSurplusPool'', ''priceFeed'',
         ''sortedVaults'', ''bpdToken'', ''mpStaking'']),
     (''stabilityPool'', ''setAddresses'', addresses cs
        [''borrowerOperations'', ''vaultManager'', ''activePool'', ''bpdToken'', ''sortedVaults'', ''priceFeed'', ''communityIssuance'']),
     (''activePool'', ''setAddresses'', addresses cs [''borrowerOperations'', ''vaultManager'', ''stabilityPool'', ''defaultPool'']),
     (''defaultPool'', ''setAddresses'', addresses cs [''vaultManager'', ''activePool'']),
     (''collSurplusPool'', ''setAddresses'', addresses cs [''borrowerOperations'', ''vaultManager'', ''activePool'']),
     (''hintHelpers'', ''setAddresses'', addresses cs [''sortedVaults'', ''vaultManager'']),
     (''mpStaking'', ''setAddresses'', addresses cs
        [''mpToken'', ''bpdToken'', ''vaultManager'', ''borrowerOperations'', ''activePool'']),
     (''lockupContractFactory'', ''setMPTokenAddress'', addresses cs [''mpToken'']),
     (''communityIssuance'', ''setAddresses'', addresses cs [''mpToken'', ''stabilityPool''])]"

text \<open>One connection; its nonce is written over that of the overrides, and its transaction is awaited.\<close>

definition connect_with_nonce :: "'c env \<Rightarrow> contracts \<Rightarrow> overrides \<Rightarrow> int \<Rightarrow> string \<times> string \<times> js list result \<Rightarrow> ('c, unit) io" where
  "connect_with_nonce env cs ov nonce = (\<lambda>(k, m, args).
     bindM (liftM (bindE (con cs k) (\<lambda>c. bindE args (\<lambda>as. Inr (c, as))))) (\<lambda>(c, as).
     bindM (callM env c m (as @ [Obj (set_prop ov ''nonce'' (Num nonce))])) (\<lambda>tx.
     bindM (serviceM env ''wait'' [tx]) (\<lambda>_. retM ()))))"

definition lib_connectContracts :: "'c env \<Rightarrow> bool \<Rightarrow> contracts \<Rightarrow> overrides \<Rightarrow> ('c, unit) io" where
  "lib_connectContracts env has_provider cs ov =
     (if \<not> has_provider then failM (Error ''Signer must have a provider.'')
      else bindM (serviceM env ''getTransactionCount'' []) (\<lambda>n.
        case n of
          Num txCount \<Rightarrow>
            seqM (map (\<lambda>(i, connection). connect_with_nonce env cs ov (txCount + int i) connection)
              (enumerate 0 (lib_connections cs)))
        | _ \<Rightarrow> failM TypeError))"

section \<open>The deployment\<close>

record deployment_json =
  dj_chainId :: js
  dj_version :: string
  dj_deploymentDate :: js
  dj_bootstrapPeriod :: js
  dj_totalReward :: string
  dj_priceFeedIsTestnet :: bool
  dj_isDev :: bool
  dj_addresses :: "(string \<times> string) list"

text \<open>\<open>toNumber()\<close> of a big number, which throws beyond the exactly represented integers.\<close>

definition bn_toNumber :: "js \<Rightarrow> int result" where
  "bn_toNumber x = bindE (asBN x) (\<lambda>n. if \<bar>n\<bar> < 2 ^ 53 then Inr n else Inl (NamedError ''Error'' ''overflow''))"

definition deployAndSetupContracts :: "'c env \<Rightarrow> bool \<Rightarrow> bool \<Rightarrow> bool \<Rightarrow> overrides \<Rightarrow> ('c, deployment_json) io" where
  "deployAndSetupContracts env has_provider priceFeedIsTestnet isDev ov =
     (if \<not> has_provider then failM (Error ''Signer must have a provider.'')
      else bindM (serviceM env ''getChainId'' []) (\<lambda>chainId.
        bindM (lib_deployContracts env priceFeedIsTestnet ov) (\<lambda>addrs.
        let cs = connectToContracts priceFeedIsTestnet addrs in
        bindM (callC env cs ''mpToken'' ''getDeploymentStartTime'' []) (\<lambda>mpTokenDeploymentTime.
        bindM (callC env cs ''vaultManager'' ''BOOTSTRAP_PERIOD'' []) (\<lambda>bootstrapPeriod.
        bindM (callC env cs ''communityIssuance'' ''MPSupplyCap'' []) (\<lambda>totalReward.
        bindM (lib_connectContracts env has_provider cs ov) (\<lambda>_.
        bindM (liftM (bn_toNumber mpTokenDeploymentTime)) (\<lambda>time.
        bindM (liftM (bn_toNumber bootstrapPeriod)) (\<lambda>period.
        bindM (liftM (bindE (asBN totalReward) (\<lambda>n. bindE (new_Decimal n) (\<lambda>d. toString d None)))) (\<lambda>reward.
          retM \<lparr>dj_chainId = chainId, dj_version = ''unknown'', dj_deploymentDate = Num (time * 1000),
            dj_bootstrapPeriod = Num period, dj_totalReward = reward, dj_priceFeedIsTestnet = priceFeedIsTestnet,
            dj_isDev = isDev, dj_addresses = addrs\<rparr>))))))))))"

definition deployMoneyp_env :: "'c env \<Rightarrow> string \<Rightarrow> string \<Rightarrow> bool \<Rightarrow> bool \<Rightarrow> overrides \<Rightarrow> ('c, deployment_json) io" where
  "deployMoneyp_env env network contractsVersion has_provider useRealPriceFeed ov =
     bindM (deployAndSetupContracts env has_provider (\<not> useRealPriceFeed) (network = ''dev'') ov) (\<lambda>d.
       retM (d\<lparr>dj_version := contractsVersion\<rparr>))"

definition deployment_object :: "deployment_json \<Rightarrow> js" where
  "deployment_object d = Obj
    [(''chainId'', dj_chainId d), (''version'', Str (dj_version d)), (''deploymentDate'', dj_deploymentDate d),
     (''bootstrapPeriod'', dj_bootstrapPeriod d), (''totalStabilityPoolMPReward'', Str (dj_totalReward d)),
     (''_priceFeedIsTestnet'', Bool (dj_priceFeedIsTestnet d)), (''_isDev'', Bool (dj_isDev d)),
     (''addresses'', Obj (map (\<lambda>(k, a). (k, Str a)) (dj_addresses d)))]"

text \<open>The task. It sets \<open>useRealPriceFeed\<close> to false, so what it does for a real price feed is never reached and left out. The price of gas is a text of a number in Gwei; its hexadecimal form in wei is the big number.\<close>

definition networks_with_wrbtc :: "string list" where
  "networks_with_wrbtc = [''mainnet'', ''testnet'']"

definition networks_with_oracles :: "string list" where
  "networks_with_oracles = [''mainnet'', ''testnet'']"

definition gas_overrides :: "string option \<Rightarrow> overrides result" where
  "gas_overrides gasPrice =
     (case gasPrice of
        None \<Rightarrow> Inr [(''gasPrice'', Undefined)]
      | Some g \<Rightarrow> if g = ''0'' then Inr [(''gasPrice'', Num 0)]
          else bindE (from_d (DNumber g)) (\<lambda>d. bindE (div_d d (DNumber ''1000000000'')) (\<lambda>q.
            Inr [(''gasPrice'', BN (int (bigNumber q)))])))"

definition deploy_task ::
  "'c env \<Rightarrow> string \<Rightarrow> string \<Rightarrow> string \<Rightarrow> string option \<Rightarrow> bool \<Rightarrow> bool \<Rightarrow> ('c, deployment_json) io" where
  "deploy_task env network contractsVersion channel gasPrice realPriceFeedOption has_provider =
     bindM (liftM (gas_overrides gasPrice)) (\<lambda>ov.
     let useRealPriceFeed = False in
     if useRealPriceFeed \<and> network \<notin> set networks_with_oracles then failM (Error (''PriceFeed not supported on '' @ network))
     else if network \<notin> set networks_with_wrbtc then failM (Error (''WRBTC not deployed on '' @ network))
     else bindM (deployMoneyp_env env network contractsVersion has_provider useRealPriceFeed ov) (\<lambda>d.
       bindM (serviceM env ''mkdirSync'' [Str (''deployments/'' @ channel)]) (\<lambda>_.
       bindM (serviceM env ''writeFileSync'' [Str (''deployments/'' @ channel @ ''/'' @ network @ ''.json''), deployment_object d]) (\<lambda>_. retM d))))"

section \<open>What a deployment does\<close>

text \<open>\<open>yields m Q\<close>: when \<open>m\<close> succeeds its value and the events it adds are related by \<open>Q\<close>.\<close>

definition yields :: "('c, 'a) io \<Rightarrow> ('a \<Rightarrow> event list \<Rightarrow> bool) \<Rightarrow> bool" where
  "yields m Q \<longleftrightarrow> (\<forall>w x w'. m w = (Inr x, w') \<longrightarrow> (\<exists>es. trace w' = trace w @ es \<and> Q x es))"

lemma yieldsD: "yields m Q \<Longrightarrow> m w = (Inr x, w') \<Longrightarrow> \<exists>es. trace w' = trace w @ es \<and> Q x es"
  by (auto simp: yields_def)

lemma yields_mono: "yields m P \<Longrightarrow> (\<And>x es. P x es \<Longrightarrow> Q x es) \<Longrightarrow> yields m Q"
  by (fastforce simp: yields_def)

lemma yields_bindM:
  assumes "yields m P" "\<And>x es. P x es \<Longrightarrow> yields (f x) (\<lambda>y es'. Q y (es @ es'))"
  shows "yields (bindM m f) Q"
  unfolding yields_def
proof (intro allI impI)
  fix w y w' assume "bindM m f w = (Inr y, w')"
  then obtain x w1 where run: "m w = (Inr x, w1)" "f x w1 = (Inr y, w')" by (auto simp: bindM_Inr)
  obtain es where es: "trace w1 = trace w @ es" "P x es" using yieldsD [OF assms(1) run(1)] by blast
  obtain es' where "trace w' = trace w1 @ es'" "Q y (es @ es')" using yieldsD [OF assms(2) [OF es(2)] run(2)] by blast
  with es(1) show "\<exists>es. trace w' = trace w @ es \<and> Q y es" by auto
qed

lemma yields_retM: "Q x [] \<Longrightarrow> yields (retM x) Q"
  by (simp add: yields_def retM_def)

lemma yields_failM: "yields (failM e) Q"
  by (simp add: yields_def failM_def)

lemma yields_liftM: "(\<And>x. r = Inr x \<Longrightarrow> Q x []) \<Longrightarrow> yields (liftM r) Q"
  by (simp add: yields_def liftM_def)

lemma yields_serviceM: "(\<And>x. Q x [Did s args]) \<Longrightarrow> yields (serviceM env s args) Q"
  by (auto simp: yields_def serviceM_def split: prod.splits)

lemma yields_callM: "(\<And>x. Q x [Called c m args]) \<Longrightarrow> yields (callM env c m args) Q"
  by (auto simp: yields_def callM_def split: prod.splits)

lemma yields_deployM: "(\<And>c. Q c [Deployed a args c]) \<Longrightarrow> yields (deployM env a args) Q"
  by (auto simp: yields_def deployM_def split: prod.splits sum.splits)

lemmas yields_intros = yields_retM yields_liftM yields_serviceM yields_callM yields_deployM

text \<open>The contracts that were deployed, and the setters that were called.\<close>

fun deployed :: "event \<Rightarrow> (string \<times> string) list" where
  "deployed (Deployed a args c) = [(a, address c)]"
| "deployed _ = []"

definition deployments :: "event list \<Rightarrow> (string \<times> string) list" where
  "deployments es = concat (map deployed es)"

lemma deployments_simps [simp]:
  "deployments [] = []" "deployments (e # es) = deployed e @ deployments es" "deployments (es @ es') = deployments es @ deployments es'"
  by (simp_all add: deployments_def)

lemma deploy_one: "yields (lib_deployContract env ov a args) (\<lambda>x es. deployments es = [(a, x)] \<and> filter is_setter es = [])"
  unfolding lib_deployContract_def getFactory_def
  by (intro yields_bindM yields_intros) auto

lemma deploy_list:
  "yields (mapM (\<lambda>(k, a). bindM (lib_deployContract env ov a []) (\<lambda>x. retM (k, x))) steps)
     (\<lambda>xs es. map fst xs = map fst steps \<and> deployments es = zip (map snd steps) (map snd xs) \<and> filter is_setter es = [])"
proof (induction steps)
  case (Cons s steps)
  obtain k a where s: "s = (k, a)" by fastforce
  show ?case
    unfolding s mapM.simps prod.case bindM_assoc bindM_retM
    by (rule yields_bindM [OF deploy_one], rule yields_bindM [OF Cons]) (auto intro!: yields_intros)
qed (auto intro!: yields_intros)

definition library_keys :: "string list" where
  "library_keys = map fst (library_steps True) @ [''bpdToken'', ''mpToken'', ''multiVaultGetter'']"

lemma deploy_all_contracts:
  "yields (lib_deployContracts env testnet ov)
     (\<lambda>addrs es. map fst addrs = library_keys \<and> deployments es = map (\<lambda>(k, a). (getAbi testnet k, a)) addrs \<and> filter is_setter es = [])"
proof -
  have steps: "map fst (library_steps testnet) = map fst (library_steps True)" by (simp add: library_steps_def)
  have named: "zip (map snd (library_steps testnet)) (map snd xs) = map (\<lambda>(k, a). (getAbi testnet k, a)) xs"
    if "map fst xs = map fst (library_steps testnet)" for xs
  proof (rule nth_equalityI)
    from that have len: "length xs = length (library_steps testnet)" by (metis length_map)
    then show "length (zip (map snd (library_steps testnet)) (map snd xs)) = length (map (\<lambda>(k, a). (getAbi testnet k, a)) xs)" by simp
    fix i assume "i < length (zip (map snd (library_steps testnet)) (map snd xs))"
    then have i: "i < length xs" using len by simp
    with that have key: "fst (xs ! i) = fst (library_steps testnet ! i)" by (metis len nth_map)
    have dist: "distinct (map fst (library_steps testnet @
        [(''bpdToken'', ''BPDToken''), (''mpToken'', ''MPToken''), (''multiVaultGetter'', ''MultiVaultGetter'')]))"
      by (simp add: library_steps_def)
    have "getAbi testnet (fst (library_steps testnet ! i)) = snd (library_steps testnet ! i)"
      using map_of_is_SomeI [OF dist, of "fst (library_steps testnet ! i)" "snd (library_steps testnet ! i)"] i len
      by (simp add: getAbi_def lookup_def)
    with i len key show "zip (map snd (library_steps testnet)) (map snd xs) ! i = map (\<lambda>(k, a). (getAbi testnet k, a)) xs ! i"
      by (simp add: case_prod_unfold)
  qed
  have tokens: "getAbi testnet ''bpdToken'' = ''BPDToken''" "getAbi testnet ''mpToken'' = ''MPToken''"
    "getAbi testnet ''multiVaultGetter'' = ''MultiVaultGetter''"
    by (simp_all add: getAbi_def library_steps_def lookup_def)
  show ?thesis
    unfolding lib_deployContracts_def
    by (rule yields_bindM [OF deploy_list], rule yields_bindM [OF deploy_one], rule yields_bindM [OF deploy_one],
        rule yields_bindM [OF deploy_one])
       (auto intro!: yields_intros simp: steps named tokens library_keys_def)
qed

text \<open>The setters, with the parameters of the interface in \<open>Wiring\<close>, in the order in which they are called.\<close>

definition library_setters :: "setter list" where
  "library_setters = sortedVaults_setter # core_setters ''priceFeed'' @ [mp_setters ! 1, mp_setters ! 0, mp_setters ! 2]"

definition library_call :: "contracts \<Rightarrow> overrides \<Rightarrow> int \<Rightarrow> setter \<Rightarrow> event" where
  "library_call cs ov nonce = (\<lambda>(k, m, roles).
     Called (role cs cs k) m
       (map (\<lambda>r. if r = ''size'' then Num 1000000 else Str (address (role cs cs r))) roles @ [Obj (set_prop ov ''nonce'' (Num nonce))]))"

lemma connection_calls:
  assumes "con cs k = Inr c" "m \<in> set setter_methods" "as' = as @ [Obj (set_prop ov ''nonce'' (Num n))]"
  shows "yields (connect_with_nonce env cs ov n (k, m, Inr as)) (\<lambda>_ es. filter is_setter es = [Called c m as'] \<and> deployments es = [])"
proof -
  have run: "connect_with_nonce env cs ov n (k, m, Inr as) =
      bindM (callM env c m as') (\<lambda>tx. bindM (serviceM env ''wait'' [tx]) (\<lambda>_. retM ()))"
    by (simp add: connect_with_nonce_def assms(1,3))
  show ?thesis unfolding run by (intro yields_bindM yields_intros) (auto simp: assms(2))
qed

lemma yields_seqM:
  "list_all2 (\<lambda>m c. yields m (\<lambda>_ es. filter is_setter es = [c] \<and> deployments es = [])) ms cs \<Longrightarrow>
   yields (seqM ms) (\<lambda>_ es. filter is_setter es = cs \<and> deployments es = [])"
proof (induction ms cs rule: list_all2_induct)
  case Nil
  then show ?case by (simp add: seqM_def yields_retM)
next
  case (Cons m ms c cs)
  have "seqM (m # ms) = bindM m (\<lambda>_. seqM ms)" by (simp add: seqM_def)
  moreover have "yields (bindM m (\<lambda>_. seqM ms)) (\<lambda>_ es. filter is_setter es = c # cs \<and> deployments es = [])"
    by (rule yields_bindM [OF Cons(1)], rule yields_mono [OF Cons(3)]) auto
  ultimately show ?case by simp
qed

lemma connections_call_setters:
  assumes "all_present library_keys cs"
  shows "list_all2 (\<lambda>m c. yields m (\<lambda>_ es. filter is_setter es = [c] \<and> deployments es = []))
    (map (\<lambda>(i, x). connect_with_nonce env cs ov (n + int i) x) (enumerate 0 (lib_connections cs)))
    (map (\<lambda>(i, s). library_call cs ov (n + int i) s) (enumerate 0 library_setters))"
proof -
  note found = assms [unfolded all_present_def library_keys_def library_steps_def, simplified]
  show ?thesis
    by (simp add: lib_connections_def library_setters_def sortedVaults_setter_def core_setters_def mp_setters_def enumerate_eq_zip
        library_call_def role_def mp_keys_def found con_found addresses_found append_results_def upt_rec)
       (intro conjI connection_calls; simp add: found con_found setter_methods_def)
qed

lemma library_connection:
  assumes "all_present library_keys cs"
  shows "yields (lib_connectContracts env has_provider cs ov)
    (\<lambda>_ es. \<exists>n. filter is_setter es = map (\<lambda>(i, s). library_call cs ov (n + int i) s) (enumerate 0 library_setters) \<and>
       deployments es = [])"
proof (cases has_provider)
  case True
  have count: "yields (serviceM env ''getTransactionCount'' []) (\<lambda>_ es. filter is_setter es = [] \<and> deployments es = [])"
    by (rule yields_serviceM) simp
  have sent: "yields (seqM (map (\<lambda>(i, x). connect_with_nonce env cs ov (n + int i) x) (enumerate 0 (lib_connections cs))))
      (\<lambda>_ es'. (\<exists>n. filter is_setter (es @ es') = map (\<lambda>(i, s). library_call cs ov (n + int i) s) (enumerate 0 library_setters)) \<and>
         deployments (es @ es') = [])"
    if "filter is_setter es = []" "deployments es = []" for n es
    by (rule yields_mono [OF yields_seqM [OF connections_call_setters [OF assms]]]) (auto simp: that)
  show ?thesis
    unfolding lib_connectContracts_def if_not_P [OF True [THEN iffD2 [OF not_not]]]
    by (rule yields_bindM [OF count]) (auto simp: yields_failM simp del: filter_append deployments_simps(3) intro!: sent split: js.split)
qed (simp add: lib_connectContracts_def yields_failM)

text \<open>
  C33. A deployment for the library that succeeds has deployed each of its sixteen contracts once and saves their addresses under
  the right names; it has called the setters of the interface that the tests and the main network use, all but that of the price feed, each
  once, with the addresses of the contracts that the parameters stand for and with consecutive nonces.
\<close>

theorem library_contracts_wired:
  assumes "deployAndSetupContracts env has_provider testnet isDev ov w = (Inr d, w')"
  shows "\<exists>es n. trace w' = trace w @ es \<and> map fst (dj_addresses d) = library_keys \<and>
    deployments es = map (\<lambda>(k, a). (getAbi testnet k, a)) (dj_addresses d) \<and>
    filter is_setter es =
      map (\<lambda>(i, s). library_call (connectToContracts testnet (dj_addresses d)) ov (n + int i) s) (enumerate 0 library_setters)"
proof -
  have ask: "yields (callC env cs k m as) (\<lambda>_ es. filter is_setter es = [] \<and> deployments es = [])"
    if "m \<notin> set setter_methods" for cs k m as
    unfolding callC_def using that by (intro yields_bindM yields_intros) auto
  have found: "all_present library_keys (connectToContracts testnet addrs)" if "map fst addrs = library_keys" for addrs
  proof -
    have "fst ` set (connectToContracts testnet addrs) = set library_keys"
      unfolding that [symmetric] by (force simp: connectToContracts_def)
    then show ?thesis by (auto simp: all_present_def lookup_def map_of_eq_None_iff)
  qed
  let ?Q = "\<lambda>d es. \<exists>n. map fst (dj_addresses d) = library_keys \<and>
    deployments es = map (\<lambda>(k, a). (getAbi testnet k, a)) (dj_addresses d) \<and>
    filter is_setter es =
      map (\<lambda>(i, s). library_call (connectToContracts testnet (dj_addresses d)) ov (n + int i) s) (enumerate 0 library_setters)"
  have "yields (deployAndSetupContracts env has_provider testnet isDev ov) ?Q"
  proof (cases has_provider)
    case True
    have start: "yields (serviceM env ''getChainId'' []) (\<lambda>_ es. filter is_setter es = [] \<and> deployments es = [])"
      by (rule yields_serviceM) simp
    show ?thesis
      unfolding deployAndSetupContracts_def Let_def using True
      apply simp
      apply (rule yields_bindM [OF start])
      apply (rule yields_bindM [OF deploy_all_contracts])
      apply (rule yields_bindM [OF ask], simp add: setter_methods_def)+
      apply (rule yields_bindM [OF library_connection [OF found]], blast)
      apply (intro yields_bindM yields_intros)
      apply auto
      done
  qed (simp add: deployAndSetupContracts_def yields_failM)
  from yieldsD [OF this assms] show ?thesis by blast
qed

text \<open>A chain that counts deployments; the deployer has sent 7 transactions, every query answers 100.\<close>

definition library_env :: "nat env" where
  "library_env = sample_env\<lparr>
     service := (\<lambda>s args ch. (Inr (if s = ''getTransactionCount'' then Num 7 else Obj []), ch)),
     call := (\<lambda>c m args ch. (Inr (BN 100), ch))\<rparr>"

lemma library_env_steps:
  "lib_deployContract library_env ov a args w =
     (Inr (''0xc'' @ nat_to_string (chain w)),
      w\<lparr>chain := Suc (chain w), trace := trace w @ [Did ''getContractFactory'' [Str a],
          Deployed a (args @ [Obj ov]) \<lparr>artifact = a, address = ''0xc'' @ nat_to_string (chain w)\<rparr>,
          Did ''wait'' [Str (''0xhash0xc'' @ nat_to_string (chain w))]]\<rparr>)"
  "callM library_env c m as w = (Inr (BN 100), w\<lparr>trace := trace w @ [Called c m as]\<rparr>)"
  "serviceM library_env s as w = (Inr (if s = ''getTransactionCount'' then Num 7 else Obj []), w\<lparr>trace := trace w @ [Did s as]\<rparr>)"
  by (simp_all add: lib_deployContract_def getFactory_def library_env_def sample_env_def bindM_def deployM_def serviceM_def callM_def retM_def)

lemma connection_succeeds:
  "con cs k = Inr c \<Longrightarrow> \<exists>w'. connect_with_nonce library_env cs ov n (k, m, Inr as) w = (Inr (), w')"
  by (simp add: connect_with_nonce_def bindM_def library_env_steps retM_def)

lemma seqM_succeeds: "list_all (\<lambda>m. \<forall>w. \<exists>w'. m w = (Inr (), w')) ms \<Longrightarrow> \<exists>w'. seqM ms w = (Inr (), w')"
  by (induction ms arbitrary: w) (auto simp: seqM_def retM_def bindM_Inr, blast)

lemma library_deployment_succeeds:
  "\<exists>d w'. deployAndSetupContracts library_env True True False [] sample_world = (Inr d, w') \<and>
     lookup (dj_addresses d) ''mpToken'' = Some (''0xc'' @ nat_to_string 14)"
proof -
  obtain addrs w1 where 1: "lib_deployContracts library_env True [] (sample_world\<lparr>trace := [Did ''getChainId'' []]\<rparr>) = (Inr addrs, w1)"
    and keys: "map fst addrs = library_keys" and mp: "lookup addrs ''mpToken'' = Some (''0xc'' @ nat_to_string 14)"
    by (simp add: lib_deployContracts_def library_steps_def bindM_def library_env_steps retM_def sample_world_def library_keys_def
        lookup_def eval_nat_numeral)
  let ?cs = "connectToContracts True addrs"
  have "fst ` set ?cs = set library_keys" unfolding keys [symmetric] by (force simp: connectToContracts_def)
  then have found: "lookup ?cs k \<noteq> None" if "k \<in> set library_keys" for k
    using that by (auto simp: lookup_def map_of_eq_None_iff)
  note there = found [unfolded library_keys_def library_steps_def, simplified]
  have ask: "callC library_env ?cs k m [] w = (Inr (BN 100), w\<lparr>trace := trace w @ [Called (the (lookup ?cs k)) m []]\<rparr>)"
    if "k \<in> set library_keys" for k m w
    using con_found [OF found [OF that]] by (simp add: callC_def library_env_steps)
  have conn: "\<exists>w'. connect_with_nonce library_env ?cs [] n x w = (Inr (), w')" if "x \<in> set (lib_connections ?cs)" for n x w
    using that
    by (auto simp: lib_connections_def there con_found addresses_found append_results_def intro!: connection_succeeds)
  have connect: "\<exists>w'. lib_connectContracts library_env True ?cs [] w = (Inr (), w')" for w
    unfolding lib_connectContracts_def
    by (simp add: bindM_def library_env_steps, rule seqM_succeeds)
       (auto simp: list_all_iff intro!: conn dest: in_set_zipE simp: enumerate_eq_zip)
  have keys': "''mpToken'' \<in> set library_keys" "''vaultManager'' \<in> set library_keys" "''communityIssuance'' \<in> set library_keys"
    by (simp_all add: library_keys_def library_steps_def)
  have texts: "\<exists>t. bindE (new_Decimal 100) (\<lambda>d. toString d None) = Inr t"
    by (simp add: new_Decimal_def toString_def)
  then obtain t where shown: "bindE (new_Decimal 100) (\<lambda>d. toString d None) = Inr t" by blast
  have start: "trace sample_world = []" by (simp add: sample_world_def)
  have num: "bn_toNumber (BN 100) = Inr 100" by (simp add: bn_toNumber_def)
  obtain w2 where w2: "lib_connectContracts library_env True ?cs []
      (w1\<lparr>trace := trace w1 @ [Called (the (lookup ?cs ''mpToken'')) ''getDeploymentStartTime'' [], Called (the (lookup ?cs ''vaultManager'')) ''BOOTSTRAP_PERIOD'' [],
         Called (the (lookup ?cs ''communityIssuance'')) ''MPSupplyCap'' []]\<rparr>) = (Inr (), w2)" using connect by blast
  show ?thesis
    using mp
    by (simp add: deployAndSetupContracts_def bindM_def library_env_steps 1 ask keys' w2 shown num retM_def start Let_def)
qed

lemma library_contracts_wired_witness:
  "\<exists>d w' es. deployAndSetupContracts library_env True True False [] sample_world = (Inr d, w') \<and>
     trace w' = trace sample_world @ es \<and> length (deployments es) = 16 \<and> length (filter is_setter es) = 11"
proof -
  obtain d w' where run: "deployAndSetupContracts library_env True True False [] sample_world = (Inr d, w')"
    using library_deployment_succeeds by blast
  obtain es n where es: "trace w' = trace sample_world @ es" "map fst (dj_addresses d) = library_keys"
    "deployments es = map (\<lambda>(k, a). (getAbi True k, a)) (dj_addresses d)"
    "filter is_setter es =
       map (\<lambda>(i, s). library_call (connectToContracts True (dj_addresses d)) [] (n + int i) s) (enumerate 0 library_setters)"
    using library_contracts_wired [OF run] by blast
  have "length (dj_addresses d) = 16"
    using arg_cong [OF es(2), of length] by (simp add: library_keys_def library_steps_def)
  with run es show ?thesis
    by (auto simp: library_setters_def core_setters_def length_enumerate intro!: exI [of _ d] exI [of _ w'] exI [of _ es])
qed

section \<open>The task\<close>

text \<open>The option for the production price feed has no effect: the task deploys the price feed of the tests.\<close>

lemma real_price_feed_is_ignored:
  assumes "deploy_task env network version channel gasPrice True has_provider w = (Inr d, w')"
  shows "dj_priceFeedIsTestnet d \<and> network \<in> {''mainnet'', ''testnet''} \<and>
    deploy_task env network version channel gasPrice False has_provider w = (Inr d, w')"
  using assms
  by (auto simp: deploy_task_def deployMoneyp_env_def deployAndSetupContracts_def networks_with_wrbtc_def bindM_Inr Let_def
      liftM_def retM_def failM_def split: if_splits)

end
