(* ===== verification/Watchers.thy ===== *)
theory Watchers
  imports Readable
begin

text \<open>
  Watching values of the protocol (\<open>packages/lib-ethers/src/ObservableBitcoinsMoneyp.ts\<close>). A watcher subscribes to events of the contracts
  that may change its value; 50 ms after the last such event it reads the value at the latest block it has heard of and passes it
  on when the answer arrives. Contracts and their addresses are parameters, and the reads are those of \<open>Readable\<close>.
\<close>

section \<open>Events and filters\<close>

text \<open>An event: contract, name, the texts of its arguments and its block, which may be unknown.\<close>

record chain_log =
  cl_contract :: string
  cl_event :: string
  cl_args :: "string list"
  cl_block :: "nat option"

text \<open>A filter of events; an argument that is \<open>null\<close> or left out matches every value.\<close>

record log_filter =
  lf_contract :: string
  lf_event :: string
  lf_args :: "string option list"

definition passes :: "log_filter \<Rightarrow> chain_log \<Rightarrow> bool" where
  "passes f l \<longleftrightarrow> lf_contract f = cl_contract l \<and> lf_event f = cl_event l \<and>
     list_all (\<lambda>(a, x). a = None \<or> a = Some x) (zip (lf_args f) (cl_args l))"

datatype watch =
    WatchTotalRedistributed
  | WatchVaultWithoutRewards string
  | WatchNumberOfVaults
  | WatchTotal
  | WatchStabilityDeposit string
  | WatchBPDInStabilityPool
  | WatchBPDBalance string

definition event_filter :: "string \<Rightarrow> string \<Rightarrow> string option list \<Rightarrow> log_filter" where
  "event_filter c e as = \<lparr>lf_contract = c, lf_event = e, lf_args = as\<rparr>"

text \<open>
  The subscriptions of a watch, each with the recipient a listener asks for in addition; \<open>addr\<close> gives the addresses of the contracts.
\<close>

fun subscriptions :: "(string \<Rightarrow> string) \<Rightarrow> watch \<Rightarrow> (log_filter \<times> string option) list" where
  "subscriptions addr WatchTotalRedistributed =
     [(event_filter ''activePool'' ''BitcoinSent'' [], Some (addr ''defaultPool''))]"
| "subscriptions addr (WatchVaultWithoutRewards a) =
     [(event_filter ''vaultManager'' ''VaultUpdated'' [Some a], None), (event_filter ''borrowerOperations'' ''VaultUpdated'' [Some a], None)]"
| "subscriptions addr WatchNumberOfVaults = [(event_filter ''vaultManager'' ''VaultUpdated'' [], None)]"
| "subscriptions addr WatchTotal = [(event_filter ''vaultManager'' ''VaultUpdated'' [], None)]"
| "subscriptions addr (WatchStabilityDeposit a) =
     [(event_filter ''stabilityPool'' ''UserDepositChanged'' [Some a], None),
      (event_filter ''activePool'' ''BitcoinSent'' [], Some (addr ''stabilityPool''))]"
| "subscriptions addr WatchBPDInStabilityPool =
     [(event_filter ''bpdToken'' ''Transfer'' [Some (addr ''stabilityPool'')], None),
      (event_filter ''bpdToken'' ''Transfer'' [None, Some (addr ''stabilityPool'')], None)]"
| "subscriptions addr (WatchBPDBalance a) =
     [(event_filter ''bpdToken'' ''Transfer'' [Some a], None), (event_filter ''bpdToken'' ''Transfer'' [None, Some a], None)]"

text \<open>Whether a subscription calls the debounced listener for an event.\<close>

definition calls_listener :: "log_filter \<times> string option \<Rightarrow> chain_log \<Rightarrow> bool" where
  "calls_listener s l \<longleftrightarrow> passes (fst s) l \<and>
     (case snd s of None \<Rightarrow> True | Some recipient \<Rightarrow> cl_args l \<noteq> [] \<and> hd (cl_args l) = recipient)"

text \<open>Watches of an address take that of the connection when none is given; the price cannot be watched.\<close>

definition watch_address :: "connection \<Rightarrow> (string \<Rightarrow> watch) \<Rightarrow> string option \<Rightarrow> watch result" where
  "watch_address cn wt a = bindE (address_or (requireAddress cn) a) (\<lambda>x. Inr (wt x))"

definition watchPrice :: "watch result" where
  "watchPrice = Inl (Error ''Method not implemented.'')"

datatype watched_value =
    VaultValue vault
  | PendingValue vault_with_pending_redistribution
  | NumberValue int
  | DepositValue stability_deposit
  | AmountValue decimal

fun read_watched :: "readable \<Rightarrow> watch \<Rightarrow> nat \<Rightarrow> watched_value result" where
  "read_watched r WatchTotalRedistributed b = bindE (getTotalRedistributed r (Some b)) (\<lambda>v. Inr (VaultValue v))"
| "read_watched r (WatchVaultWithoutRewards a) b = bindE (getVaultBeforeRedistribution r (Some a) (Some b)) (\<lambda>v. Inr (PendingValue v))"
| "read_watched r WatchNumberOfVaults b = bindE (getNumberOfVaults r (Some b)) (\<lambda>v. Inr (NumberValue v))"
| "read_watched r WatchTotal b = bindE (getTotal r (Some b)) (\<lambda>v. Inr (VaultValue v))"
| "read_watched r (WatchStabilityDeposit a) b = bindE (getStabilityDeposit r (Some a) (Some b)) (\<lambda>v. Inr (DepositValue v))"
| "read_watched r WatchBPDInStabilityPool b = bindE (getBPDInStabilityPool r (Some b)) (\<lambda>v. Inr (AmountValue v))"
| "read_watched r (WatchBPDBalance a) b = bindE (getBPDBalance r (Some a) (Some b)) (\<lambda>v. Inr (AmountValue v))"

section \<open>A watcher\<close>

definition debouncingDelayMs :: nat where
  "debouncingDelayMs = 50"

text \<open>
  Time in milliseconds, the time at which the timer is due, the latest block, whether the listeners are registered, the
  blocks at which reads are under way, those of all reads so far, and the values passed on with their blocks.
\<close>

record watcher =
  wa_now :: nat
  wa_timer :: "nat option"
  wa_latestBlock :: nat
  wa_subscribed :: bool
  wa_reading :: "nat list"
  wa_reads :: "nat list"
  wa_delivered :: "(nat \<times> watched_value) list"

definition watch_start :: watcher where
  "watch_start = \<lparr>wa_now = 0, wa_timer = None, wa_latestBlock = 0, wa_subscribed = True, wa_reading = [], wa_reads = [], wa_delivered = []\<rparr>"

text \<open>The function that \<open>debounce\<close> returns: the timer that runs is cleared and started anew.\<close>

definition debounce :: "chain_log \<Rightarrow> watcher \<Rightarrow> watcher" where
  "debounce l w =
     w\<lparr>wa_latestBlock := (case cl_block l of Some b \<Rightarrow> if wa_latestBlock w < b then b else wa_latestBlock w | None \<Rightarrow> wa_latestBlock w),
       wa_timer := Some (wa_now w + debouncingDelayMs)\<rparr>"

definition watch_hears :: "(string \<Rightarrow> string) \<Rightarrow> watch \<Rightarrow> chain_log \<Rightarrow> watcher \<Rightarrow> watcher" where
  "watch_hears addr wt l w =
     (if wa_subscribed w then fold (\<lambda>s w. if calls_listener s l then debounce l w else w) (subscriptions addr wt) w else w)"

definition watch_fires :: "watcher \<Rightarrow> watcher" where
  "watch_fires w =
     (if case wa_timer w of None \<Rightarrow> False | Some t \<Rightarrow> t \<le> wa_now w
      then w\<lparr>wa_reading := wa_reading w @ [wa_latestBlock w], wa_reads := wa_reads w @ [wa_latestBlock w], wa_timer := None\<rparr>
      else w)"

text \<open>The answer to one of the reads arrives, whichever; an error is not handled.\<close>

definition watch_answer :: "readable \<Rightarrow> watch \<Rightarrow> nat \<Rightarrow> watcher \<Rightarrow> watcher" where
  "watch_answer r wt b w =
     (if b \<in> set (wa_reading w)
      then let w = w\<lparr>wa_reading := remove1 b (wa_reading w)\<rparr> in
           (case read_watched r wt b of Inl _ \<Rightarrow> w | Inr v \<Rightarrow> w\<lparr>wa_delivered := wa_delivered w @ [(b, v)]\<rparr>)
      else w)"

definition watch_elapses :: "nat \<Rightarrow> watcher \<Rightarrow> watcher" where
  "watch_elapses d w = w\<lparr>wa_now := wa_now w + d\<rparr>"

definition unwatch :: "watcher \<Rightarrow> watcher" where
  "unwatch w = w\<lparr>wa_subscribed := False\<rparr>"

section \<open>What a watcher passes on\<close>

text \<open>
  The reachable watchers with the events that came while they were subscribed. A timer may fire later than it is due.
\<close>

inductive watching :: "(string \<Rightarrow> string) \<Rightarrow> readable \<Rightarrow> watch \<Rightarrow> chain_log list \<Rightarrow> watcher \<Rightarrow> bool" for addr r wt where
  Watching_start: "watching addr r wt [] watch_start"
| Watching_log: "watching addr r wt ls w \<Longrightarrow> wa_subscribed w \<Longrightarrow> watching addr r wt (ls @ [l]) (watch_hears addr wt l w)"
| Watching_elapses: "watching addr r wt ls w \<Longrightarrow> watching addr r wt ls (watch_elapses d w)"
| Watching_fires: "watching addr r wt ls w \<Longrightarrow> watching addr r wt ls (watch_fires w)"
| Watching_answer: "watching addr r wt ls w \<Longrightarrow> watching addr r wt ls (watch_answer r wt b w)"
| Watching_stop: "watching addr r wt ls w \<Longrightarrow> watching addr r wt ls (unwatch w)"

definition concerns :: "(string \<Rightarrow> string) \<Rightarrow> watch \<Rightarrow> chain_log \<Rightarrow> bool" where
  "concerns addr wt l \<longleftrightarrow> list_ex (\<lambda>s. calls_listener s l) (subscriptions addr wt)"

text \<open>The greatest block of the events that concern the watch.\<close>

definition block_heard :: "chain_log \<Rightarrow> nat" where
  "block_heard l = (case cl_block l of Some b \<Rightarrow> b | None \<Rightarrow> 0)"

definition latest_heard :: "(string \<Rightarrow> string) \<Rightarrow> watch \<Rightarrow> chain_log list \<Rightarrow> nat" where
  "latest_heard addr wt ls = fold max (map block_heard (filter (concerns addr wt) ls)) 0"

lemma latest_heard_append [simp]:
  "latest_heard addr wt (ls @ [l]) = (if concerns addr wt l then max (block_heard l) (latest_heard addr wt ls) else latest_heard addr wt ls)"
  by (simp add: latest_heard_def)

lemma debounce_twice: "debounce l (debounce l w) = debounce l w"
  by (cases "cl_block l") (simp_all add: debounce_def)

lemma watch_hears_eq:
  assumes "wa_subscribed w"
  shows "watch_hears addr wt l w = (if concerns addr wt l then debounce l w else w)"
proof -
  have "fold (\<lambda>s w. if calls_listener s l then debounce l w else w) ss w =
      (if list_ex (\<lambda>s. calls_listener s l) ss then debounce l w else w)" for ss w
    by (induction ss arbitrary: w) (simp_all add: debounce_twice)
  with assms show ?thesis by (simp add: watch_hears_def concerns_def)
qed

lemma debounce_block: "wa_latestBlock (debounce l w) = max (block_heard l) (wa_latestBlock w)"
  by (simp add: debounce_def block_heard_def max_def split: option.split)

definition watcher_ok :: "(string \<Rightarrow> string) \<Rightarrow> readable \<Rightarrow> watch \<Rightarrow> chain_log list \<Rightarrow> watcher \<Rightarrow> bool" where
  "watcher_ok addr r wt ls w \<longleftrightarrow>
     wa_latestBlock w = latest_heard addr wt ls \<and>
     (\<forall>t. wa_timer w = Some t \<longrightarrow> t \<le> wa_now w + debouncingDelayMs) \<and>
     (wa_timer w = None \<and> list_ex (concerns addr wt) ls \<longrightarrow> wa_reads w \<noteq> [] \<and> last (wa_reads w) = wa_latestBlock w) \<and>
     sorted (wa_reads w) \<and> set (wa_reading w) \<subseteq> set (wa_reads w) \<and> (\<forall>b \<in> set (wa_reads w). b \<le> wa_latestBlock w) \<and>
     (\<forall>(b, v) \<in> set (wa_delivered w). b \<in> set (wa_reads w) \<and> read_watched r wt b = Inr v) \<and>
     (\<forall>b \<in> set (wa_reads w). b \<in> set (wa_reading w) \<or> (\<exists>v. (b, v) \<in> set (wa_delivered w)) \<or> (\<exists>e. read_watched r wt b = Inl e))"

lemma watcher_ok_hears:
  assumes "watcher_ok addr r wt ls w" "wa_subscribed w"
  shows "watcher_ok addr r wt (ls @ [l]) (watch_hears addr wt l w)"
proof (cases "concerns addr wt l")
  case True
  have same: "wa_reads (debounce l w) = wa_reads w" "wa_delivered (debounce l w) = wa_delivered w"
    "wa_reading (debounce l w) = wa_reading w" "wa_timer (debounce l w) = Some (wa_now w + debouncingDelayMs)"
    "wa_now (debounce l w) = wa_now w"
    by (simp_all add: debounce_def)
  from True assms show ?thesis
    by (auto simp: watcher_ok_def watch_hears_eq same debounce_block)
next
  case False
  with assms show ?thesis by (auto simp: watcher_ok_def watch_hears_eq)
qed

lemma watcher_ok_fires: "watcher_ok addr r wt ls w \<Longrightarrow> watcher_ok addr r wt ls (watch_fires w)"
  by (auto simp: watcher_ok_def watch_fires_def sorted_append split: option.splits)

lemma watcher_ok_answer:
  assumes "watcher_ok addr r wt ls w"
  shows "watcher_ok addr r wt ls (watch_answer r wt b w)"
proof (cases "b \<in> set (wa_reading w)")
  case True
  let ?w = "watch_answer r wt b w"
  have same: "wa_latestBlock ?w = wa_latestBlock w" "wa_timer ?w = wa_timer w" "wa_now ?w = wa_now w" "wa_reads ?w = wa_reads w"
    "wa_reading ?w = remove1 b (wa_reading w)"
    "wa_delivered ?w = wa_delivered w @ (case read_watched r wt b of Inl _ \<Rightarrow> [] | Inr v \<Rightarrow> [(b, v)])"
    using True by (simp_all add: watch_answer_def Let_def split: sum.split)
  have "x \<in> set (wa_reading ?w) \<or> (\<exists>v. (x, v) \<in> set (wa_delivered ?w)) \<or> (\<exists>e. read_watched r wt x = Inl e)"
    if "x \<in> set (wa_reads w)" for x
  proof (cases "x = b")
    case True
    then show ?thesis by (cases "read_watched r wt b") (auto simp: same)
  next
    case False
    with that assms show ?thesis by (auto simp: watcher_ok_def same)
  qed
  moreover have "set (wa_reading ?w) \<subseteq> set (wa_reads w)"
    using assms set_remove1_subset [of b "wa_reading w"] by (auto simp: watcher_ok_def same)
  moreover have "\<forall>(x, v) \<in> set (wa_delivered ?w). x \<in> set (wa_reads w) \<and> read_watched r wt x = Inr v"
    using assms True by (auto simp: watcher_ok_def same split: sum.splits)
  ultimately show ?thesis using assms unfolding watcher_ok_def same by blast
qed (simp add: watch_answer_def assms)

lemma watching_ok: "watching addr r wt ls w \<Longrightarrow> watcher_ok addr r wt ls w"
proof (induction rule: watching.induct)
  case Watching_start
  show ?case by (simp add: watcher_ok_def watch_start_def latest_heard_def)
next
  case (Watching_elapses ls w d)
  then show ?case by (auto simp: watcher_ok_def watch_elapses_def)
next
  case (Watching_stop ls w)
  then show ?case by (auto simp: watcher_ok_def unwatch_def)
qed (blast intro: watcher_ok_hears watcher_ok_fires watcher_ok_answer)+


text \<open>Two events of a balance, 60 ms apart, and the answers in the reverse order.\<close>

definition sample_transfer :: "nat \<Rightarrow> chain_log" where
  "sample_transfer b = \<lparr>cl_contract = ''bpdToken'', cl_event = ''Transfer'', cl_args = [''0xb'', ''0xa''], cl_block = Some b\<rparr>"

definition reversed_answers :: "(string \<Rightarrow> string) \<Rightarrow> readable \<Rightarrow> watcher" where
  "reversed_answers addr r =
     (let wt = WatchBPDBalance ''0xa''; pause = watch_fires \<circ> watch_elapses 60 in
      watch_answer r wt 1 (watch_answer r wt 2 (pause (watch_hears addr wt (sample_transfer 2)
        (pause (watch_hears addr wt (sample_transfer 1) watch_start))))))"

lemma sample_transfer_block [simp]: "cl_block (sample_transfer b) = Some b"
  by (simp add: sample_transfer_def)

lemma reversed_answers_reachable:
  "watching addr r (WatchBPDBalance ''0xa'') [sample_transfer 1, sample_transfer 2] (reversed_answers addr r)"
proof -
  let ?wt = "WatchBPDBalance ''0xa''"
  have pause: "watching addr r ?wt ls (watch_fires (watch_elapses 60 w))" if "watching addr r ?wt ls w" for ls w
    using that by (intro Watching_fires Watching_elapses)
  let ?w1 = "watch_fires (watch_elapses 60 (watch_hears addr ?wt (sample_transfer 1) watch_start))"
  have "watching addr r ?wt [sample_transfer 1] ?w1"
    using pause [OF Watching_log [OF Watching_start]] by (simp add: watch_start_def)
  moreover have "wa_subscribed ?w1"
    by (simp add: watch_start_def watch_hears_def watch_fires_def watch_elapses_def debounce_def)
  ultimately have "watching addr r ?wt [sample_transfer 1, sample_transfer 2]
      (watch_fires (watch_elapses 60 (watch_hears addr ?wt (sample_transfer 2) ?w1)))"
    using pause [OF Watching_log] by fastforce
  then show ?thesis by (auto simp: reversed_answers_def Let_def intro!: Watching_answer)
qed

lemma sample_transfer_concerns: "concerns addr (WatchBPDBalance ''0xa'') (sample_transfer b)"
  by (simp add: concerns_def calls_listener_def passes_def sample_transfer_def event_filter_def)

lemma reversed_answers_delivered:
  assumes "getBPDBalance r (Some ''0xa'') (Some 1) = Inr x" "getBPDBalance r (Some ''0xa'') (Some 2) = Inr y"
  shows "wa_delivered (reversed_answers addr r) = [(2, AmountValue y), (1, AmountValue x)] \<and>
    wa_timer (reversed_answers addr r) = None \<and> wa_reading (reversed_answers addr r) = []"
  using assms
  by (simp add: reversed_answers_def watch_start_def watch_hears_eq sample_transfer_concerns watch_fires_def watch_elapses_def
      debounce_def debouncingDelayMs_def watch_answer_def Let_def)


text \<open>
  So the value passed on last can be an older one although nothing is under way: the listener is told the balance at block 1 after that
  at block 2.
\<close>

lemma older_value_can_come_last:
  assumes "getBPDBalance r (Some ''0xa'') (Some 1) = Inr x" "getBPDBalance r (Some ''0xa'') (Some 2) = Inr y"
  shows "\<exists>w. watching addr r (WatchBPDBalance ''0xa'') [sample_transfer 1, sample_transfer 2] w \<and> wa_timer w = None \<and> wa_reading w = [] \<and>
     last (wa_delivered w) = (1, AmountValue x)"
  using reversed_answers_reachable reversed_answers_delivered [OF assms, of addr] by force

text \<open>Unsubscribing leaves the timer running, after which the value is read and passed on once more.\<close>

lemma value_after_unwatch:
  assumes "wa_timer w = Some t" "t \<le> wa_now w" "read_watched r wt (wa_latestBlock w) = Inr v"
  shows "\<not> wa_subscribed (watch_fires (unwatch w)) \<and>
    wa_delivered (watch_answer r wt (wa_latestBlock w) (watch_fires (unwatch w))) = wa_delivered w @ [(wa_latestBlock w, v)]"
  using assms by (simp add: unwatch_def watch_fires_def watch_answer_def)

text \<open>
  Opening, adjusting and closing a vault is reported by \<open>borrowerOperations\<close>, to which the watches of the number and the total of vaults do not
  listen: they keep the value from before.
\<close>

lemma openings_are_not_watched:
  assumes "cl_contract l = ''borrowerOperations''" "wt = WatchNumberOfVaults \<or> wt = WatchTotal" "wa_subscribed w"
  shows "watch_hears addr wt l w = w"
  using assms by (auto simp: watch_hears_eq concerns_def calls_listener_def passes_def event_filter_def)

end
