(* ===== verification/Sending.thy ===== *)
theory Sending
  imports Populating
begin

text \<open>
  Sending what was prepared (\<open>packages/lib-ethers/src/SendableBitcoinsMoneyp.ts\<close>) and waiting for its success (\<open>BitcoinsMoneyp.ts\<close>). Every operation
  prepares a transaction, hands it to the signer and, through \<open>BitcoinsMoneyp\<close>, waits for its receipt. An operation gives its
  result and the transactions that were handed to the signer. The six methods for swap pool tokens are left out with their preparations, which never settle.
\<close>

section \<open>One transaction\<close>

record 'd sent_transaction =
  st_hash :: string
  st_parse :: "tx_receipt \<Rightarrow> 'd result"

type_synonym 'a sending = "'a result \<times> raw_transaction list"

definition send_prepared :: "eth_session \<Rightarrow> 'd populated \<Rightarrow> 'd sent_transaction sending" where
  "send_prepared ss p =
     (bindE (send_populated ss (rawPopulatedTransaction p)) (\<lambda>h. Inr \<lparr>st_hash = h, st_parse = parse_details p\<rparr>),
      if signer_send ss = None then [] else [rawPopulatedTransaction p])"

text \<open>\<open>populated.then(send_prepared)\<close>\<close>

definition then_send :: "eth_session \<Rightarrow> 'd populated result \<Rightarrow> 'd sent_transaction sending" where
  "then_send ss p = (case p of Inl e \<Rightarrow> (Inl e, []) | Inr q \<Rightarrow> send_prepared ss q)"

definition waitForSuccess :: "eth_session \<Rightarrow> 'd sent_transaction \<Rightarrow> 'd result" where
  "waitForSuccess ss t =
     bindE (waitForReceipt ss (st_parse t) (st_hash t)) (\<lambda>r.
       case r of
         SuccessfulReceipt _ d \<Rightarrow> Inr d
       | _ \<Rightarrow> Inl (NamedError ''BitcoinsTransactionFailedError'' ''Transaction failed''))"

text \<open>\<open>sent.then(waitForSuccess)\<close>\<close>

definition then_wait :: "eth_session \<Rightarrow> 'd sent_transaction sending \<Rightarrow> 'd sending" where
  "then_wait ss s = (case s of (r, txs) \<Rightarrow> (bindE r (waitForSuccess ss), txs))"

text \<open>A prepared redemption as a prepared transaction.\<close>

definition populated_redemption :: "eth_session \<Rightarrow> redemption_frame \<times> redemption \<Rightarrow> redemption_details option populated" where
  "populated_redemption ss m = \<lparr>rawPopulatedTransaction = rm_transaction (snd m), parse_details = redemptionDetails ss\<rparr>"

section \<open>Operations\<close>

definition send_openVault :: "eth_session \<Rightarrow> nat \<Rightarrow> raw_params \<Rightarrow> decimalish option \<Rightarrow> overrides \<Rightarrow> (vault_creation_params vault_change_details) sent_transaction sending" where
  "send_openVault ss seed params maxBorrowingRate ov = then_send ss (populate_openVault ss seed params maxBorrowingRate ov)"

definition moneyp_openVault :: "eth_session \<Rightarrow> nat \<Rightarrow> raw_params \<Rightarrow> decimalish option \<Rightarrow> overrides \<Rightarrow> (vault_creation_params vault_change_details) sending" where
  "moneyp_openVault ss seed params maxBorrowingRate ov = then_wait ss (send_openVault ss seed params maxBorrowingRate ov)"

definition send_closeVault :: "eth_session \<Rightarrow> overrides \<Rightarrow> closure_details sent_transaction sending" where
  "send_closeVault ss ov = then_send ss (populate_closeVault ss ov)"

definition moneyp_closeVault :: "eth_session \<Rightarrow> overrides \<Rightarrow> closure_details sending" where
  "moneyp_closeVault ss ov = then_wait ss (send_closeVault ss ov)"

definition send_adjustVault :: "eth_session \<Rightarrow> nat \<Rightarrow> raw_params \<Rightarrow> decimalish option \<Rightarrow> overrides \<Rightarrow> (vault_adjustment_params vault_change_details) sent_transaction sending" where
  "send_adjustVault ss seed params maxBorrowingRate ov = then_send ss (populate_adjustVault ss seed params maxBorrowingRate ov)"

definition moneyp_adjustVault :: "eth_session \<Rightarrow> nat \<Rightarrow> raw_params \<Rightarrow> decimalish option \<Rightarrow> overrides \<Rightarrow> (vault_adjustment_params vault_change_details) sending" where
  "moneyp_adjustVault ss seed params maxBorrowingRate ov = then_wait ss (send_adjustVault ss seed params maxBorrowingRate ov)"

definition send_depositCollateral :: "eth_session \<Rightarrow> nat \<Rightarrow> decimalish \<Rightarrow> overrides \<Rightarrow> (vault_adjustment_params vault_change_details) sent_transaction sending" where
  "send_depositCollateral ss seed amt ov = then_send ss (populate_depositCollateral ss seed amt ov)"

definition moneyp_depositCollateral :: "eth_session \<Rightarrow> nat \<Rightarrow> decimalish \<Rightarrow> overrides \<Rightarrow> (vault_adjustment_params vault_change_details) sending" where
  "moneyp_depositCollateral ss seed amt ov = then_wait ss (send_depositCollateral ss seed amt ov)"

definition send_withdrawCollateral :: "eth_session \<Rightarrow> nat \<Rightarrow> decimalish \<Rightarrow> overrides \<Rightarrow> (vault_adjustment_params vault_change_details) sent_transaction sending" where
  "send_withdrawCollateral ss seed amt ov = then_send ss (populate_withdrawCollateral ss seed amt ov)"

definition moneyp_withdrawCollateral :: "eth_session \<Rightarrow> nat \<Rightarrow> decimalish \<Rightarrow> overrides \<Rightarrow> (vault_adjustment_params vault_change_details) sending" where
  "moneyp_withdrawCollateral ss seed amt ov = then_wait ss (send_withdrawCollateral ss seed amt ov)"

definition send_borrowBPD :: "eth_session \<Rightarrow> nat \<Rightarrow> decimalish \<Rightarrow> decimalish option \<Rightarrow> overrides \<Rightarrow> (vault_adjustment_params vault_change_details) sent_transaction sending" where
  "send_borrowBPD ss seed amt maxBorrowingRate ov = then_send ss (populate_borrowBPD ss seed amt maxBorrowingRate ov)"

definition moneyp_borrowBPD :: "eth_session \<Rightarrow> nat \<Rightarrow> decimalish \<Rightarrow> decimalish option \<Rightarrow> overrides \<Rightarrow> (vault_adjustment_params vault_change_details) sending" where
  "moneyp_borrowBPD ss seed amt maxBorrowingRate ov = then_wait ss (send_borrowBPD ss seed amt maxBorrowingRate ov)"

definition send_repayBPD :: "eth_session \<Rightarrow> nat \<Rightarrow> decimalish \<Rightarrow> overrides \<Rightarrow> (vault_adjustment_params vault_change_details) sent_transaction sending" where
  "send_repayBPD ss seed amt ov = then_send ss (populate_repayBPD ss seed amt ov)"

definition moneyp_repayBPD :: "eth_session \<Rightarrow> nat \<Rightarrow> decimalish \<Rightarrow> overrides \<Rightarrow> (vault_adjustment_params vault_change_details) sending" where
  "moneyp_repayBPD ss seed amt ov = then_wait ss (send_repayBPD ss seed amt ov)"

definition send_setPrice :: "eth_session \<Rightarrow> decimalish \<Rightarrow> overrides \<Rightarrow> unit sent_transaction sending" where
  "send_setPrice ss p ov = then_send ss (populate_setPrice ss p ov)"

definition moneyp_setPrice :: "eth_session \<Rightarrow> decimalish \<Rightarrow> overrides \<Rightarrow> unit sending" where
  "moneyp_setPrice ss p ov = then_wait ss (send_setPrice ss p ov)"

definition send_liquidate :: "eth_session \<Rightarrow> string + string list \<Rightarrow> overrides \<Rightarrow> liquidation_details sent_transaction sending" where
  "send_liquidate ss a ov = then_send ss (populate_liquidate ss a ov)"

definition moneyp_liquidate :: "eth_session \<Rightarrow> string + string list \<Rightarrow> overrides \<Rightarrow> liquidation_details sending" where
  "moneyp_liquidate ss a ov = then_wait ss (send_liquidate ss a ov)"

definition send_liquidateUpTo :: "eth_session \<Rightarrow> nat \<Rightarrow> overrides \<Rightarrow> liquidation_details sent_transaction sending" where
  "send_liquidateUpTo ss n ov = then_send ss (populate_liquidateUpTo ss n ov)"

definition moneyp_liquidateUpTo :: "eth_session \<Rightarrow> nat \<Rightarrow> overrides \<Rightarrow> liquidation_details sending" where
  "moneyp_liquidateUpTo ss n ov = then_wait ss (send_liquidateUpTo ss n ov)"

definition send_depositBPDInStabilityPool :: "eth_session \<Rightarrow> decimalish \<Rightarrow> string option \<Rightarrow> overrides \<Rightarrow> deposit_change_details sent_transaction sending" where
  "send_depositBPDInStabilityPool ss amt tag ov = then_send ss (populate_depositBPDInStabilityPool ss amt tag ov)"

definition moneyp_depositBPDInStabilityPool :: "eth_session \<Rightarrow> decimalish \<Rightarrow> string option \<Rightarrow> overrides \<Rightarrow> deposit_change_details sending" where
  "moneyp_depositBPDInStabilityPool ss amt tag ov = then_wait ss (send_depositBPDInStabilityPool ss amt tag ov)"

definition send_withdrawBPDFromStabilityPool :: "eth_session \<Rightarrow> decimalish \<Rightarrow> overrides \<Rightarrow> deposit_change_details sent_transaction sending" where
  "send_withdrawBPDFromStabilityPool ss amt ov = then_send ss (populate_withdrawBPDFromStabilityPool ss amt ov)"

definition moneyp_withdrawBPDFromStabilityPool :: "eth_session \<Rightarrow> decimalish \<Rightarrow> overrides \<Rightarrow> deposit_change_details sending" where
  "moneyp_withdrawBPDFromStabilityPool ss amt ov = then_wait ss (send_withdrawBPDFromStabilityPool ss amt ov)"

definition send_withdrawGainsFromStabilityPool :: "eth_session \<Rightarrow> overrides \<Rightarrow> gains_details sent_transaction sending" where
  "send_withdrawGainsFromStabilityPool ss ov = then_send ss (populate_withdrawGainsFromStabilityPool ss ov)"

definition moneyp_withdrawGainsFromStabilityPool :: "eth_session \<Rightarrow> overrides \<Rightarrow> gains_details sending" where
  "moneyp_withdrawGainsFromStabilityPool ss ov = then_wait ss (send_withdrawGainsFromStabilityPool ss ov)"

definition send_transferCollateralGainToVault :: "eth_session \<Rightarrow> nat \<Rightarrow> overrides \<Rightarrow> (gains_details \<times> vault option) sent_transaction sending" where
  "send_transferCollateralGainToVault ss seed ov = then_send ss (populate_transferCollateralGainToVault ss seed ov)"

definition moneyp_transferCollateralGainToVault :: "eth_session \<Rightarrow> nat \<Rightarrow> overrides \<Rightarrow> (gains_details \<times> vault option) sending" where
  "moneyp_transferCollateralGainToVault ss seed ov = then_wait ss (send_transferCollateralGainToVault ss seed ov)"

definition send_sendBPD :: "eth_session \<Rightarrow> string \<Rightarrow> decimalish \<Rightarrow> overrides \<Rightarrow> unit sent_transaction sending" where
  "send_sendBPD ss toAddress amt ov = then_send ss (populate_sendBPD ss toAddress amt ov)"

definition moneyp_sendBPD :: "eth_session \<Rightarrow> string \<Rightarrow> decimalish \<Rightarrow> overrides \<Rightarrow> unit sending" where
  "moneyp_sendBPD ss toAddress amt ov = then_wait ss (send_sendBPD ss toAddress amt ov)"

definition send_sendMP :: "eth_session \<Rightarrow> string \<Rightarrow> decimalish \<Rightarrow> overrides \<Rightarrow> unit sent_transaction sending" where
  "send_sendMP ss toAddress amt ov = then_send ss (populate_sendMP ss toAddress amt ov)"

definition moneyp_sendMP :: "eth_session \<Rightarrow> string \<Rightarrow> decimalish \<Rightarrow> overrides \<Rightarrow> unit sending" where
  "moneyp_sendMP ss toAddress amt ov = then_wait ss (send_sendMP ss toAddress amt ov)"

definition send_redeemBPD :: "eth_session \<Rightarrow> nat \<Rightarrow> decimalish \<Rightarrow> decimalish option \<Rightarrow> overrides \<Rightarrow> (redemption_details option) sent_transaction sending" where
  "send_redeemBPD ss seed amt maxRedemptionRate ov = then_send ss (bindE (populate_redeemBPD ss seed amt maxRedemptionRate ov) (\<lambda>m. Inr (populated_redemption ss m)))"

definition moneyp_redeemBPD :: "eth_session \<Rightarrow> nat \<Rightarrow> decimalish \<Rightarrow> decimalish option \<Rightarrow> overrides \<Rightarrow> (redemption_details option) sending" where
  "moneyp_redeemBPD ss seed amt maxRedemptionRate ov = then_wait ss (send_redeemBPD ss seed amt maxRedemptionRate ov)"

definition send_claimCollateralSurplus :: "eth_session \<Rightarrow> overrides \<Rightarrow> unit sent_transaction sending" where
  "send_claimCollateralSurplus ss ov = then_send ss (populate_claimCollateralSurplus ss ov)"

definition moneyp_claimCollateralSurplus :: "eth_session \<Rightarrow> overrides \<Rightarrow> unit sending" where
  "moneyp_claimCollateralSurplus ss ov = then_wait ss (send_claimCollateralSurplus ss ov)"

definition send_stakeMP :: "eth_session \<Rightarrow> decimalish \<Rightarrow> overrides \<Rightarrow> unit sent_transaction sending" where
  "send_stakeMP ss amt ov = then_send ss (populate_stakeMP ss amt ov)"

definition moneyp_stakeMP :: "eth_session \<Rightarrow> decimalish \<Rightarrow> overrides \<Rightarrow> unit sending" where
  "moneyp_stakeMP ss amt ov = then_wait ss (send_stakeMP ss amt ov)"

definition send_unstakeMP :: "eth_session \<Rightarrow> decimalish \<Rightarrow> overrides \<Rightarrow> unit sent_transaction sending" where
  "send_unstakeMP ss amt ov = then_send ss (populate_unstakeMP ss amt ov)"

definition moneyp_unstakeMP :: "eth_session \<Rightarrow> decimalish \<Rightarrow> overrides \<Rightarrow> unit sending" where
  "moneyp_unstakeMP ss amt ov = then_wait ss (send_unstakeMP ss amt ov)"

definition send_withdrawGainsFromStaking :: "eth_session \<Rightarrow> overrides \<Rightarrow> unit sent_transaction sending" where
  "send_withdrawGainsFromStaking ss ov = then_send ss (populate_withdrawGainsFromStaking ss ov)"

definition moneyp_withdrawGainsFromStaking :: "eth_session \<Rightarrow> overrides \<Rightarrow> unit sending" where
  "moneyp_withdrawGainsFromStaking ss ov = then_wait ss (send_withdrawGainsFromStaking ss ov)"

definition send_registerFrontend :: "eth_session \<Rightarrow> decimalish \<Rightarrow> overrides \<Rightarrow> unit sent_transaction sending" where
  "send_registerFrontend ss rate ov = then_send ss (populate_registerFrontend ss rate ov)"

definition moneyp_registerFrontend :: "eth_session \<Rightarrow> decimalish \<Rightarrow> overrides \<Rightarrow> unit sending" where
  "moneyp_registerFrontend ss rate ov = then_wait ss (send_registerFrontend ss rate ov)"

text \<open>\<open>hasStore\<close>: the option a connection was made with, and the store that is asked for.\<close>

definition hasStore :: "string option \<Rightarrow> string option \<Rightarrow> bool" where
  "hasStore useStore store = (case useStore of None \<Rightarrow> False | Some s \<Rightarrow> store = None \<or> store = Some s)"

section \<open>What is sent, and what is returned\<close>

text \<open>
  An operation hands exactly the prepared transaction to the signer, none when the preparation fails, and returns the details of its
  receipt exactly when it was sent, mined and succeeded.
\<close>

lemma operation_sends_once:
  assumes "then_wait ss (then_send ss p) = (r, txs)"
  shows "(case p of Inl e \<Rightarrow> r = Inl e \<and> txs = []
    | Inr q \<Rightarrow> txs = (if signer_send ss = None then [] else [rawPopulatedTransaction q]) \<and>
        (\<forall>d. r = Inr d \<longleftrightarrow> (\<exists>sender h rc. signer_send ss = Some sender \<and> sender (rawPopulatedTransaction q) = Inr h \<and>
           transactionReceipt ss h = Inr (Some rc) \<and> rc_status rc \<noteq> 0 \<and> parse_details q rc = Inr d)))"
proof (cases p)
  case (Inl e)
  with assms show ?thesis by (simp add: then_wait_def then_send_def)
next
  case (Inr q)
  have success: "waitForSuccess ss \<lparr>st_hash = h, st_parse = parse\<rparr> = Inr d \<longleftrightarrow>
      (\<exists>rc. transactionReceipt ss h = Inr (Some rc) \<and> rc_status rc \<noteq> 0 \<and> parse rc = Inr d)" for h parse d
  proof (cases "transactionReceipt ss h")
    case (Inr raw)
    then show ?thesis
      by (cases raw; cases "parse (the raw)")
         (auto simp: waitForSuccess_def waitForReceipt_def receiptFrom_def assertE_def split: if_splits)
  qed (simp add: waitForSuccess_def waitForReceipt_def)
  from assms Inr show ?thesis
    by (auto simp: then_wait_def then_send_def send_prepared_def send_populated_def success bindE_eq_Inr_iff split: option.splits)
qed

end
