(* ===== verification/Vault_List.thy ===== *)
theory Vault_List
  imports Vault_Changes
begin

text \<open>
  The list of the riskiest vaults (\<open>packages/dev-frontend/src/components/RiskiestVaults.tsx\<close>): its pages, the requests that load them, and
  which vaults may be liquidated. What is rendered is left out but for the numbers of the heading.
\<close>

section \<open>Which vaults may be liquidated\<close>

text \<open>A requirement of a transaction: whether it holds, and the message if not.\<close>

definition liquidatableInNormalMode :: "user_vault \<Rightarrow> decimal \<Rightarrow> (bool \<times> string) result" where
  "liquidatableInNormalMode v price =
     bindE (collateralRatioIsBelowMinimum v (DDecimal price)) (\<lambda>b. Inr (b, ''Collateral ratio not low enough''))"

definition liquidatableInRecoveryMode :: "user_vault \<Rightarrow> decimal \<Rightarrow> decimal \<Rightarrow> decimal \<Rightarrow> (bool \<times> string) result" where
  "liquidatableInRecoveryMode v price totalCollateralRatio bpdInStabilityPool =
     bindE (collateralRatio v (DDecimal price)) (\<lambda>ratio.
       if MINIMUM_COLLATERAL_RATIO \<le> ratio \<and> ratio < totalCollateralRatio
       then Inr (debt v \<le> bpdInStabilityPool, ''There's not enough BPD in the Stability pool to cover the debt'')
       else liquidatableInNormalMode v price)"

text \<open>What the component selects from the store and passes to the button of a vault.\<close>

record risk_view =
  rv_price :: decimal
  rv_recoveryMode :: bool
  rv_totalCollateralRatio :: decimal
  rv_bpdInStabilityPool :: decimal

definition risk_select :: "decimal \<Rightarrow> vault \<Rightarrow> decimal \<Rightarrow> risk_view result" where
  "risk_select price tot bpdInStabilityPool =
     bindE (collateralRatioIsBelowCritical tot (DDecimal price)) (\<lambda>recovery.
     bindE (collateralRatio tot (DDecimal price)) (\<lambda>ratio.
       Inr \<lparr>rv_price = price, rv_recoveryMode = recovery, rv_totalCollateralRatio = ratio, rv_bpdInStabilityPool = bpdInStabilityPool\<rparr>))"

definition liquidation_requires :: "risk_view \<Rightarrow> user_vault \<Rightarrow> (bool \<times> string) result" where
  "liquidation_requires r v =
     (if rv_recoveryMode r
      then liquidatableInRecoveryMode v (rv_price r) (rv_totalCollateralRatio r) (rv_bpdInStabilityPool r)
      else liquidatableInNormalMode v (rv_price r))"

section \<open>Pages\<close>

text \<open>\<open>Math.ceil(numberOfVaults / pageSize) || 1\<close>; the page size is positive.\<close>

definition numberOfPages :: "nat \<Rightarrow> nat \<Rightarrow> nat" where
  "numberOfPages pageSize numberOfVaults =
     (let n = (numberOfVaults + pageSize - 1) div pageSize in if n = 0 then 1 else n)"

text \<open>
  The component: its page, whether it is loading, the vaults it shows, the dependency \<open>reload\<close>; what its effects saw last (the page
  and \<open>reload\<close> of the last request, the number of vaults); and the requests that were sent, with the page and the block they ask for, of which only
  the last is still mounted.
\<close>

record vault_list =
  vl_page :: nat
  vl_loading :: bool
  vl_vaults :: "user_vault list option"
  vl_reload :: nat
  vl_loaded :: "(nat \<times> nat) option"
  vl_seen :: "nat option"
  vl_requests :: "(nat \<times> nat) list"

definition clampedPage :: "nat \<Rightarrow> nat \<Rightarrow> vault_list \<Rightarrow> nat" where
  "clampedPage pageSize n s = min (vl_page s) (numberOfPages pageSize n - 1)"

definition clamp_effect :: "nat \<Rightarrow> nat \<Rightarrow> vault_list \<Rightarrow> vault_list" where
  "clamp_effect pageSize n s =
     (if vl_page s \<noteq> clampedPage pageSize n s then s\<lparr>vl_page := clampedPage pageSize n s\<rparr> else s)"

text \<open>The effect that loads runs when the clamped page or \<open>reload\<close> changed; its cleanup unmounts the request before.\<close>

definition load_effect :: "nat \<Rightarrow> nat \<Rightarrow> nat \<Rightarrow> vault_list \<Rightarrow> vault_list" where
  "load_effect pageSize n block s =
     (if vl_loaded s \<noteq> Some (clampedPage pageSize n s, vl_reload s)
      then s\<lparr>vl_loading := True, vl_loaded := Some (clampedPage pageSize n s, vl_reload s),
             vl_requests := vl_requests s @ [(clampedPage pageSize n s, block)]\<rparr>
      else s)"

definition forceReload :: "vault_list \<Rightarrow> vault_list" where
  "forceReload s = s\<lparr>vl_reload := vl_reload s + 1\<rparr>"

definition reload_effect :: "nat \<Rightarrow> vault_list \<Rightarrow> vault_list" where
  "reload_effect n s = (if vl_seen s \<noteq> Some n then forceReload (s\<lparr>vl_seen := Some n\<rparr>) else s)"

text \<open>The effects after a render, and those of the render that the last of them causes.\<close>

definition run_effects :: "nat \<Rightarrow> nat \<Rightarrow> nat \<Rightarrow> vault_list \<Rightarrow> vault_list" where
  "run_effects pageSize n block s =
     load_effect pageSize n block (reload_effect n (load_effect pageSize n block (clamp_effect pageSize n s)))"

definition list_mount :: "nat \<Rightarrow> nat \<Rightarrow> nat \<Rightarrow> vault_list" where
  "list_mount pageSize n block = run_effects pageSize n block
     \<lparr>vl_page = 0, vl_loading = True, vl_vaults = None, vl_reload = 0, vl_loaded = None, vl_seen = None, vl_requests = []\<rparr>"

definition nextPage :: "nat \<Rightarrow> nat \<Rightarrow> vault_list \<Rightarrow> vault_list" where
  "nextPage pageSize n s =
     (if clampedPage pageSize n s < numberOfPages pageSize n - 1 then s\<lparr>vl_page := clampedPage pageSize n s + 1\<rparr> else s)"

definition previousPage :: "nat \<Rightarrow> nat \<Rightarrow> vault_list \<Rightarrow> vault_list" where
  "previousPage pageSize n s =
     (if 0 < clampedPage pageSize n s then s\<lparr>vl_page := clampedPage pageSize n s - 1\<rparr> else s)"

text \<open>The answer to a request, by its position, is used only while the request is mounted.\<close>

definition request_answered :: "nat \<Rightarrow> user_vault list \<Rightarrow> vault_list \<Rightarrow> vault_list" where
  "request_answered i vs s =
     (if Suc i = length (vl_requests s) then s\<lparr>vl_vaults := Some vs, vl_loading := False\<rparr> else s)"

text \<open>The numbers of the heading: the first and the last vault of the page.\<close>

definition heading_range :: "nat \<Rightarrow> nat \<Rightarrow> vault_list \<Rightarrow> nat \<times> nat" where
  "heading_range pageSize n s =
     (clampedPage pageSize n s * pageSize + 1, min ((clampedPage pageSize n s + 1) * pageSize) n)"

section \<open>What is shown\<close>

text \<open>
  \<open>sorted_at b\<close> are the vaults at block \<open>b\<close> in ascending order of their ratios, from which a request gets its page. The store has the
  block and the number of vaults at that block.
\<close>

definition page_of :: "nat \<Rightarrow> (nat \<Rightarrow> user_vault list) \<Rightarrow> nat \<times> nat \<Rightarrow> user_vault list" where
  "page_of pageSize sorted_at q = (case q of (p, b) \<Rightarrow> take pageSize (drop (p * pageSize) (sorted_at b)))"

inductive listing_vaults :: "nat \<Rightarrow> (nat \<Rightarrow> user_vault list) \<Rightarrow> nat \<Rightarrow> nat \<Rightarrow> vault_list \<Rightarrow> bool" for pageSize sorted_at where
  Listing_mount: "n = length (sorted_at b) \<Longrightarrow> listing_vaults pageSize sorted_at n b (list_mount pageSize n b)"
| Listing_update: "listing_vaults pageSize sorted_at n b s \<Longrightarrow> n' = length (sorted_at b') \<Longrightarrow>
    listing_vaults pageSize sorted_at n' b' (run_effects pageSize n' b' s)"
| Listing_next: "listing_vaults pageSize sorted_at n b s \<Longrightarrow>
    listing_vaults pageSize sorted_at n b (run_effects pageSize n b (nextPage pageSize n s))"
| Listing_previous: "listing_vaults pageSize sorted_at n b s \<Longrightarrow>
    listing_vaults pageSize sorted_at n b (run_effects pageSize n b (previousPage pageSize n s))"
| Listing_reload: "listing_vaults pageSize sorted_at n b s \<Longrightarrow>
    listing_vaults pageSize sorted_at n b (run_effects pageSize n b (forceReload s))"
| Listing_answer: "listing_vaults pageSize sorted_at n b s \<Longrightarrow> i < length (vl_requests s) \<Longrightarrow>
    listing_vaults pageSize sorted_at n b (request_answered i (page_of pageSize sorted_at (vl_requests s ! i)) s)"

text \<open>
  The last request is for the shown page, at a block with the number of vaults that is shown, and what is shown is its answer unless it is
  still awaited.
\<close>

definition listing_ok :: "nat \<Rightarrow> (nat \<Rightarrow> user_vault list) \<Rightarrow> nat \<Rightarrow> vault_list \<Rightarrow> bool" where
  "listing_ok pageSize sorted_at n s \<longleftrightarrow>
     vl_page s = clampedPage pageSize n s \<and> vl_seen s = Some n \<and> vl_loaded s = Some (clampedPage pageSize n s, vl_reload s) \<and>
     vl_requests s \<noteq> [] \<and> fst (last (vl_requests s)) = clampedPage pageSize n s \<and>
     length (sorted_at (snd (last (vl_requests s)))) = n \<and>
     (vl_loading s \<or> vl_vaults s = Some (page_of pageSize sorted_at (last (vl_requests s))))"

lemma clampedPage_less: "clampedPage pageSize n s < numberOfPages pageSize n"
  by (simp add: clampedPage_def numberOfPages_def Let_def min_def) linarith

text \<open>Before the effects: the number of vaults may be new, and so may page and \<open>reload\<close>, but no request is newer than its effect.\<close>

definition before_effects :: "nat \<Rightarrow> (nat \<Rightarrow> user_vault list) \<Rightarrow> vault_list \<Rightarrow> bool" where
  "before_effects pageSize sorted_at s \<longleftrightarrow>
     (case vl_loaded s of
        None \<Rightarrow> vl_seen s = None
      | Some (p, r) \<Rightarrow> r \<le> vl_reload s \<and> vl_requests s \<noteq> [] \<and> fst (last (vl_requests s)) = p \<and>
          vl_seen s = Some (length (sorted_at (snd (last (vl_requests s))))) \<and>
          (vl_loading s \<or> vl_vaults s = Some (page_of pageSize sorted_at (last (vl_requests s)))))"

lemma effects_establish:
  assumes "before_effects pageSize sorted_at s" "n = length (sorted_at b)"
  shows "listing_ok pageSize sorted_at n (run_effects pageSize n b s)"
proof -
  define c where "c = clampedPage pageSize n s"
  have clamp: "clampedPage pageSize n (clamp_effect pageSize n s) = c" "vl_page (clamp_effect pageSize n s) = c"
    by (simp_all add: c_def clamp_effect_def clampedPage_def)
  define u where "u = load_effect pageSize n b (clamp_effect pageSize n s)"
  have u: "clampedPage pageSize n u = c" "vl_page u = c" "vl_seen u = vl_seen s" "vl_reload u = vl_reload s" "vl_loaded u = Some (c, vl_reload s)"
    "vl_requests u = (if vl_loaded s = Some (c, vl_reload s) then vl_requests s else vl_requests s @ [(c, b)])"
    "vl_loading u = (if vl_loaded s = Some (c, vl_reload s) then vl_loading s else True)" "vl_vaults u = vl_vaults s"
    using clamp by (auto simp: u_def load_effect_def clamp_effect_def clampedPage_def)
  have run: "run_effects pageSize n b s = load_effect pageSize n b (reload_effect n u)" by (simp add: run_effects_def u_def)
  show ?thesis
  proof (cases "vl_seen s = Some n")
    case True
    then have "reload_effect n u = u" using u(3) by (simp add: reload_effect_def)
    moreover have "load_effect pageSize n b u = u" using u(1,4,5) by (simp add: load_effect_def)
    ultimately have "run_effects pageSize n b s = u" by (simp add: run)
    with True u assms show ?thesis by (auto simp: listing_ok_def before_effects_def split: option.splits)
  next
    case False
    let ?v = "forceReload (u\<lparr>vl_seen := Some n\<rparr>)"
    have "clampedPage pageSize n ?v = c" using u(1) by (simp add: clampedPage_def forceReload_def)
    moreover have "run_effects pageSize n b s = load_effect pageSize n b ?v"
      using False u(3) by (simp add: run reload_effect_def)
    ultimately show ?thesis
      using u assms(2) by (simp add: load_effect_def listing_ok_def clampedPage_def forceReload_def)
  qed
qed

lemma before_after_ok:
  assumes "listing_ok pageSize sorted_at n s"
  shows "before_effects pageSize sorted_at s" "before_effects pageSize sorted_at (s\<lparr>vl_page := p\<rparr>)"
    "before_effects pageSize sorted_at (forceReload s)"
  using assms by (auto simp: listing_ok_def before_effects_def forceReload_def)

lemma listing_kept: "listing_vaults pageSize sorted_at n b s \<Longrightarrow> n = length (sorted_at b) \<and> listing_ok pageSize sorted_at n s"
proof (induction rule: listing_vaults.induct)
  case (Listing_mount n b)
  then show ?case unfolding list_mount_def by (auto intro!: effects_establish simp: before_effects_def)
next
  case (Listing_update n b s n' b')
  then show ?case by (auto intro!: effects_establish before_after_ok)
next
  case (Listing_next n b s)
  then have "before_effects pageSize sorted_at (nextPage pageSize n s)" by (auto simp: nextPage_def intro: before_after_ok)
  with Listing_next show ?case by (auto intro!: effects_establish)
next
  case (Listing_previous n b s)
  then have "before_effects pageSize sorted_at (previousPage pageSize n s)" by (auto simp: previousPage_def intro: before_after_ok)
  with Listing_previous show ?case by (auto intro!: effects_establish)
next
  case (Listing_reload n b s)
  then show ?case by (auto intro!: effects_establish before_after_ok)
next
  case (Listing_answer n b s i)
  have "last (vl_requests s) = vl_requests s ! i" if "Suc i = length (vl_requests s)"
    using that Listing_answer.hyps(2) last_conv_nth [of "vl_requests s"] by (metis diff_Suc_1 list.size(3) not_less_zero)
  with Listing_answer show ?case by (auto simp: listing_ok_def request_answered_def clampedPage_def)
qed

text \<open>
  C17. When the list of vaults is not loading it shows the page of its number of the vaults at a block at which there were as many vaults as
  the heading says, however late the answers to older requests came; the numbers of the heading are those of the vaults shown, and the page is
  one of the pages, which together show every vault once.
\<close>

theorem vault_list_shows_page:
  assumes "listing_vaults pageSize sorted_at n b s" "0 < pageSize"
  shows "(\<exists>b. length (sorted_at b) = n \<and>
      (vl_loading s \<or> vl_vaults s = Some (page_of pageSize sorted_at (clampedPage pageSize n s, b)) \<and>
         (case heading_range pageSize n s of (from, to) \<Rightarrow>
            length (page_of pageSize sorted_at (clampedPage pageSize n s, b)) = Suc to - from))) \<and>
    clampedPage pageSize n s < numberOfPages pageSize n \<and>
    (\<forall>b. length (sorted_at b) = n \<longrightarrow>
      concat (map (\<lambda>p. page_of pageSize sorted_at (p, b)) [0..<numberOfPages pageSize n]) = sorted_at b)"
proof -
  let ?c = "clampedPage pageSize n s"
  have ok: "listing_ok pageSize sorted_at n s" using listing_kept [OF assms(1)] by blast
  obtain b where b: "last (vl_requests s) = (?c, b)" "length (sorted_at b) = n"
    using ok by (cases "last (vl_requests s)") (auto simp: listing_ok_def)
  have pages: "concat (map (\<lambda>p. take pageSize (drop (p * pageSize) xs)) [0..<k]) = take (k * pageSize) xs" for xs :: "user_vault list" and k
  proof (induction k)
    case (Suc k)
    then show ?case by (simp add: take_add [symmetric] add.commute)
  qed simp
  have all: "n \<le> numberOfPages pageSize n * pageSize"
  proof -
    define q where "q = (n + pageSize - 1) div pageSize"
    have "n + pageSize - 1 < pageSize + q * pageSize"
      using dividend_less_div_times [OF assms(2), of "n + pageSize - 1"] by (simp add: q_def)
    then have "n \<le> q * pageSize" using assms(2) by linarith
    moreover have "numberOfPages pageSize n = (if q = 0 then 1 else q)" by (simp add: numberOfPages_def Let_def q_def)
    ultimately show ?thesis by (cases "q = 0") simp_all
  qed
  have "length (page_of pageSize sorted_at (?c, b)) = (case heading_range pageSize n s of (from, to) \<Rightarrow> Suc to - from)"
    using b(2) by (simp add: page_of_def heading_range_def min_def) (intro conjI impI; linarith)
  moreover have "vl_loading s \<or> vl_vaults s = Some (page_of pageSize sorted_at (?c, b))"
    using ok b(1) by (simp add: listing_ok_def)
  ultimately have "\<exists>b. length (sorted_at b) = n \<and>
      (vl_loading s \<or> vl_vaults s = Some (page_of pageSize sorted_at (?c, b)) \<and>
         (case heading_range pageSize n s of (from, to) \<Rightarrow> length (page_of pageSize sorted_at (?c, b)) = Suc to - from))"
    using b(2) by (auto simp: heading_range_def)
  moreover have "concat (map (\<lambda>p. page_of pageSize sorted_at (p, b)) [0..<numberOfPages pageSize n]) = sorted_at b"
    if "length (sorted_at b) = n" for b
    using pages [where xs = "sorted_at b" and k = "numberOfPages pageSize n"] all that by (simp add: page_of_def)
  ultimately show ?thesis using clampedPage_less by blast
qed

text \<open>Three vaults on pages of two: the answer to the first request comes too late, then the second page is turned to.\<close>

definition three_vaults :: "user_vault list" where
  "three_vaults = map (\<lambda>a. \<lparr>collateral = ONE, debt = ONE, ownerAddress = a, status = Open\<rparr>) [''0x1'', ''0x2'', ''0x3'']"

definition sample_list :: vault_list where
  "sample_list =
     request_answered 2 (drop 2 three_vaults) (run_effects 2 3 7 (nextPage 2 3
       (request_answered 0 (take 2 three_vaults) (request_answered 1 (take 2 three_vaults) (list_mount 2 3 7)))))"

lemmas list_defs = list_mount_def run_effects_def clamp_effect_def load_effect_def reload_effect_def forceReload_def clampedPage_def
  numberOfPages_def nextPage_def request_answered_def

lemma mount_requests: "vl_requests (list_mount 2 3 7) = [(0, 7), (0, 7)]"
  by (simp add: list_defs Let_def)

lemma turned_requests:
  "vl_requests (run_effects 2 3 7 (nextPage 2 3
     (request_answered 0 (take 2 three_vaults) (request_answered 1 (take 2 three_vaults) (list_mount 2 3 7))))) = [(0, 7), (0, 7), (1, 7)]"
  by (simp add: list_defs Let_def)

lemma sample_list_shows: "\<not> vl_loading sample_list \<and> vl_page sample_list = 1 \<and> vl_vaults sample_list = Some (drop 2 three_vaults)"
  unfolding sample_list_def by (simp add: list_defs Let_def)

lemma sample_list_reachable: "listing_vaults 2 (\<lambda>_. three_vaults) 3 7 sample_list"
proof -
  let ?at = "\<lambda>_. three_vaults"
  have page: "page_of 2 ?at (p, b) = take 2 (drop (p * 2) three_vaults)" for p b by (simp add: page_of_def)
  have 0: "listing_vaults 2 ?at 3 7 (list_mount 2 3 7)"
    by (rule Listing_mount) (simp add: three_vaults_def)
  have 1: "listing_vaults 2 ?at 3 7 (request_answered 1 (take 2 three_vaults) (list_mount 2 3 7))"
    using Listing_answer [OF 0, of 1] by (simp add: mount_requests page)
  have same: "vl_requests (request_answered i vs s) = vl_requests s" for i vs s by (simp add: request_answered_def)
  have 2: "listing_vaults 2 ?at 3 7 (request_answered 0 (take 2 three_vaults) (request_answered 1 (take 2 three_vaults) (list_mount 2 3 7)))"
    using Listing_answer [OF 1, of 0] by (simp add: same mount_requests page)
  have second: "page_of 2 ?at (Suc 0, 7) = drop 2 three_vaults" by (simp add: page_of_def three_vaults_def)
  show ?thesis
    using Listing_answer [OF Listing_next [OF 2], of 2] unfolding turned_requests sample_list_def
    by (simp add: second)
qed

lemma vault_list_shows_page_witness:
  "listing_vaults 2 (\<lambda>_. three_vaults) 3 7 sample_list \<and> heading_range 2 3 sample_list = (3, 3) \<and>
   vl_vaults sample_list = Some (page_of 2 (\<lambda>_. three_vaults) (1, 7))"
proof -
  have page: "clampedPage 2 3 sample_list = 1"
    using sample_list_shows by (simp add: clampedPage_def numberOfPages_def Let_def)
  from vault_list_shows_page [OF sample_list_reachable] sample_list_shows page
  obtain b :: nat where "vl_vaults sample_list = Some (page_of 2 (\<lambda>_. three_vaults) (1, b))" by auto
  with sample_list_reachable page show ?thesis by (simp add: page_of_def heading_range_def)
qed

section \<open>The rule of liquidation\<close>

text \<open>
  The button of a vault is enabled, in exact numbers, for a vault below the minimum ratio, and in recovery mode also for one below the total
  ratio whose debt the stability pool covers; the ratio is never computed with an exception.
\<close>

lemma liquidation_rule:
  assumes "risk_select price tot pool = Inr r" "liquidation_requires r v = Inr (enabled, reason)"
  shows "enabled \<longleftrightarrow>
    bigNumber (collateral v) * bigNumber price < bigNumber MINIMUM_COLLATERAL_RATIO * bigNumber (debt v) \<or>
    rv_recoveryMode r \<and> mulDiv_dec (collateral v) price (debt v) < rv_totalCollateralRatio r \<and>
      MINIMUM_COLLATERAL_RATIO \<le> mulDiv_dec (collateral v) price (debt v) \<and> debt v \<le> pool"
proof -
  have ratio: "collateralRatio v (DDecimal price) = Inr (mulDiv_dec (collateral v) price (debt v))"
    by (simp add: collateralRatio_def mulDiv_d_def)
  have below: "collateralRatioIsBelowMinimum v (DDecimal price) =
      Inr (bigNumber (collateral v) * bigNumber price < bigNumber MINIMUM_COLLATERAL_RATIO * bigNumber (debt v))"
    using collateral_ratio_tests_exact [of "DDecimal price" price v] by simp
  then have exact: "mulDiv_dec (collateral v) price (debt v) < MINIMUM_COLLATERAL_RATIO \<longleftrightarrow>
      bigNumber (collateral v) * bigNumber price < bigNumber MINIMUM_COLLATERAL_RATIO * bigNumber (debt v)"
    by (simp add: collateralRatioIsBelowMinimum_def ratio)
  have view: "rv_price r = price" "rv_bpdInStabilityPool r = pool"
    using assms(1) by (auto simp: risk_select_def bindE_eq_Inr_iff)
  show ?thesis
    using assms(2) exact view below
    by (auto simp: liquidation_requires_def liquidatableInRecoveryMode_def liquidatableInNormalMode_def ratio not_less not_le split: if_splits)
qed

end
