(* ===== verification/Spec2Isabelle.thy ===== *)
theory Spec2Isabelle
  imports Decimal_Text Decimal_Power Differences Vault_Changes Deposits Fee_Rates Store_Properties
    Gas_Loop_Laws Mainnet_Deployment Helper_Laws Mutation_Runs Mutator_Laws Vault_Validation Cached_Reads
    Batching Populating_Laws Subgraph_Laws Editor_Laws View_Laws Web_Socket_Laws
    Hook_Laws Subgraph_Schema Subgraph_Client_Laws Log_Texts Fuzzer
    Library_Deployment Watchers Sending Vault_List
begin

text \<open>
  Money Protocol lets a borrower lock collateral in a \<^emph>\<open>vault\<close> and borrow the token BPD against it; depositors of a stability pool
  absorb liquidations, holders of the token MP stake it for fees. The contracts are written in Solidity. This development
  models the program around them: the JavaScript tools that deploy, connect and test them (\<open>packages/contracts\<close>), the library that reads
  the protocol, keeps an observable copy of it, prepares and sends transactions (\<open>packages/lib-base\<close>, \<open>packages/lib-ethers\<close>), the
  providers through which it talks to a node (\<open>packages/providers\<close>), the indexer of the protocol's events and its client
  (\<open>packages/subgraph\<close>, \<open>packages/lib-subgraph\<close>), the hooks that bind it to components (\<open>packages/lib-react\<close>), the state of the front
  end (\<open>packages/dev-frontend\<close>) and the checks of the fuzzer (\<open>packages/fuzzer\<close>).

  \<^bold>\<open>How the parts interact.\<close> A provider (\<open>Batching\<close>, \<open>Web_Sockets\<close>) answers calls of contracts. \<open>Readable\<close> turns the answers into
  vaults, deposits, stakes and fees (\<open>Decimals\<close>, \<open>Vaults\<close>, \<open>Deposits\<close>, \<open>Fee_Rates\<close>). A store fetches them at every block and tells its
  listeners what changed (\<open>Store\<close>, \<open>Cached_Reads\<close>), among them the hooks through which components select from it (\<open>Hooks\<close>). A watcher reads
  a value anew after the events that may change it (\<open>Watchers\<close>). The editors of the front end carry a user's edit over these updates
  (\<open>Editors\<close>), validate it (\<open>Vault_Validation\<close>) and send it (\<open>Populating\<close>, \<open>Sending\<close>), while the views follow the status of vault and transaction
  (\<open>Views\<close>). The indexer keeps its own record of the events (\<open>Subgraph\<close>), which its client reads
  (\<open>Subgraph_Client\<close>). Independently, the deployment scripts create and connect
  the contracts (\<open>Deployment\<close>, \<open>Mainnet_Helpers\<close>, \<open>Library_Deployment\<close>), through which the test helpers act (\<open>Test_Helpers\<close>, \<open>Proxies\<close>).

  \<^bold>\<open>Conventions.\<close> An exception is a value: \<open>'a result\<close> is \<open>js_error + 'a\<close>, with \<open>Inl\<close> the error. Code with effects on a
  world of its own is a function of that world (\<open>io\<close> of \<open>Js_World\<close>, \<open>logged\<close> of \<open>Store\<close>, \<open>indexer\<close> of \<open>Subgraph\<close>). Code that reacts
  to timers and promises is a set of steps on a record of the state, with the reachable states as an inductive
  predicate. A definition has the name of the function it models where Isabelle allows it. What is not under \<open>src\<close>
  (a node, web3, bn.js, the file system, the graph's store, React) is a parameter or is described by the steps that use it; a big number
  is an integer, a \<open>BigDecimal\<close> a rational with its rounding as a parameter, a number of JavaScript an integer or exact
  quotient, except in the loop of \<open>pow\<close>, whose counter is a word of 32 bits.

  \<^bold>\<open>The theories.\<close>

  \<^item> \<open>Moneyp_Prelude\<close>: results, JavaScript strings and digit strings, generic lemmas.
  \<^item> \<open>Decimals\<close>, \<open>Decimal_Text\<close>, \<open>Decimal_Power\<close>, \<open>Differences\<close> (\<open>lib-base/src/Decimal.ts\<close>, \<open>constants.ts\<close>): numbers with 18 decimals. Which
    texts are accepted and with which value; printing and parsing are inverse; the error of \<open>pow\<close>; differences and percents.
  \<^item> \<open>Vaults\<close>, \<open>Vault_Changes\<close> (\<open>Vault.ts\<close>): applying a diff of vaults gives the target, up to the rounding of the fee; which parameter
    objects are accepted; collateral ratios against their exact meaning; redistribution.
  \<^item> \<open>Deposits\<close> (\<open>StabilityDeposit.ts\<close>, \<open>MPStake.ts\<close>): the locale \<open>amount_diff\<close> is the contract of the diff of one amount, with an
    interpretation for each class.
  \<^item> \<open>Fee_Rates\<close> (\<open>Fees.ts\<close>): decay of the base rate, bounds of the rates.
  \<^item> \<open>Store\<close>, \<open>Store_Updates\<close>, \<open>Store_Properties\<close> (\<open>MoneypStore.ts\<close>): loading, updating, the timer and notification; closed forms of the
    updates, the invariant of the state, and the calls of listeners as a refinement of an abstract notification.
  \<^item> \<open>Readable\<close>, \<open>Cached_Reads\<close> (\<open>ReadableBitcoinsMoneyp.ts\<close>, \<open>_CachedReadableMoneyp.ts\<close>, \<open>BlockPolledMoneypStore.ts\<close>): the queries, and that reads
    through a polled store equal direct reads at its block.
  \<^item> \<open>Batching\<close> (\<open>BatchedProvider.ts\<close>): every call is answered, with the answer it would have had alone.
  \<^item> \<open>Web_Sockets\<close>, \<open>Web_Socket_Laws\<close> (\<open>WebSocketAugmentedProvider.ts\<close>): every block is heard once; retries and waiting return.
  \<^item> \<open>Populating\<close>, \<open>Populating_Laws\<close> (\<open>PopulatableBitcoinsMoneyp.ts\<close>): the calls and limits of prepared transactions, the search for hints.
  \<^item> \<open>Sending\<close> (\<open>SendableBitcoinsMoneyp.ts\<close>, \<open>BitcoinsMoneyp.ts\<close>): every operation prepares, sends and waits, and sends at most one transaction.
  \<^item> \<open>Watchers\<close> (\<open>ObservableBitcoinsMoneyp.ts\<close>): no event that concerns a watched value is missed.
  \<^item> \<open>Log_Texts\<close> (\<open>parseLogs.ts\<close>): the texts of the logs of a receipt.
  \<^item> \<open>Hooks\<close>, \<open>Hook_Laws\<close> (\<open>lib-react/src\<close>, \<open>dev-frontend/src/hooks/AsyncValue.ts\<close>): what a component shows that selects from the store, reduces its
    updates or waits for a value.
  \<^item> \<open>Subgraph\<close>, \<open>Subgraph_Events\<close>, \<open>Subgraph_Trail\<close>, \<open>Subgraph_Laws\<close> (\<open>subgraph/src\<close>): entities and handlers; the locale \<open>store_preorder\<close> of
    functions that relate the store before and after, with the audit trail and the books of vaults as interpretations.
  \<^item> \<open>Subgraph_Schema\<close> (\<open>schema.graphql\<close>): every store the indexer reaches obeys its schema.
  \<^item> \<open>Subgraph_Client\<close>, \<open>Subgraph_Client_Laws\<close> (\<open>lib-subgraph/src\<close>): the client reads what the indexer stored.
  \<^item> \<open>Vault_List\<close> (\<open>dev-frontend/src/components/RiskiestVaults.tsx\<close>): the pages of the list of vaults and which may be liquidated.
  \<^item> \<open>Fuzzer\<close> (\<open>fuzzer/src/GasHistogram.ts\<close>, \<open>utils.ts\<close>): the histogram of gas, and the checks of order, equality and balances.
  \<^item> \<open>Vault_Validation\<close>, \<open>Editors\<close>, \<open>Editor_Laws\<close>, \<open>Views\<close>, \<open>View_Laws\<close> (\<open>dev-frontend/src/components\<close>): which changes are accepted, edits under updates of
    the store, views and transactions as state machines.
  \<^item> \<open>Js_World\<close>, \<open>Test_Helpers\<close>, \<open>Gas_Functions\<close>, \<open>Gas_Loops\<close>, \<open>Vault_Helpers\<close> (\<open>contracts/utils/testHelpers.js\<close>), with \<open>Gas_Loop_Laws\<close> and
    \<open>Helper_Laws\<close>: one transaction per account in order (locale \<open>gas_loop\<close>), opening a vault with the least debt and a given ratio.
  \<^item> \<open>Proxies\<close> (\<open>proxyHelpers.js\<close>): what is sent with and without a user's proxy.
  \<^item> \<open>Deployment\<close>, \<open>Mainnet_Helpers\<close>, \<open>Mainnet_Deployment\<close>, with \<open>Wiring\<close> and \<open>Mainnet_Laws\<close> (\<open>deploymentHelpers.js\<close>,
    \<open>mainnetDeploymentHelpers.js\<close>, \<open>mainnetDeployment.js\<close>): the connection of the contracts against a table of setters, connections that can be
    repeated, deployments that can be interrupted. \<open>Library_Deployment\<close> (\<open>lib-ethers/utils/deploy.ts\<close>, \<open>contracts.ts\<close>, \<open>hardhat.config.ts\<close>): the
    deployment for the library, its addresses and setters with explicit nonces. \<open>Sample_World\<close> is the environment of the witnesses.
  \<^item> \<open>Mutators\<close>, \<open>Mutation_Runs\<close>, \<open>Mutator_Laws\<close> (\<open>contracts/eth-mutants-custom\<close>): the mutation testing tool restores what it mutates.

  \<^bold>\<open>Bounds and fuel.\<close> Effects of React that set the state again are run at most three rounds (\<open>set_tx_state\<close>); lemma
  \<open>setTransactionState_eq\<close> shows that after them none sets it. The power is claimed for exponents below \<open>2 ^ 32\<close>, the number of minutes for
  which the code computes it. Loops that wait for the network are partial functions: returning is \<open>Some\<close>, and is proved where the answers
  allow it. All other recursion is structural or has a measure.

  \<^bold>\<open>Not modelled.\<close> The Solidity contracts (another language), their tests and gas measurements (cases that call the modelled helpers), data
  (ABIs, accounts, deployments), build configuration and generated code; of the libraries their type declarations and the delegation of
  queries; of the front end its layout, texts and routing; of the fuzzer the part that is driven by random numbers on a test network. Logging is left
  out except where it is the purpose of a script. \<open>PopulatableBitcoinsMoneyp\<close> has six methods for swap pool tokens whose promise never settles; they
  have no model. Named block tags such as \<open>latest\<close> are not distinguished from a missing tag.
\<close>

end
